(* ===== verification/PyText.thy ===== *)
theory PyText
  imports Prelude "HOL-Library.Char_ord" "HOL-Library.List_Lexorder"
begin

text \<open>
  The operations on Python's \<open>str\<close> that the program uses. A text is a list of characters, one
  per code point, over the 256-character Windows-1252 repertoire, which holds every non-ASCII
  character the source writes in a literal it computes with: the ellipsis (0x85), the dashes
  (0x96, 0x97), the single right quote of locators (0x9B), the section sign (0xA7) and the
  pilcrow (0xB6). Code points outside that repertoire are not represented.
\<close>

definition py_space :: "char \<Rightarrow> bool" where
  "py_space c \<longleftrightarrow> (let n = (of_char c :: nat) in (9 \<le> n \<and> n \<le> 13) \<or> (28 \<le> n \<and> n \<le> 32) \<or> n = 160)"

definition is_digit :: "char \<Rightarrow> bool" where
  "is_digit c \<longleftrightarrow> (let n = (of_char c :: nat) in 48 \<le> n \<and> n \<le> 57)"

definition is_lower_az :: "char \<Rightarrow> bool" where
  "is_lower_az c \<longleftrightarrow> (let n = (of_char c :: nat) in 97 \<le> n \<and> n \<le> 122)"

definition is_upper_az :: "char \<Rightarrow> bool" where
  "is_upper_az c \<longleftrightarrow> (let n = (of_char c :: nat) in 65 \<le> n \<and> n \<le> 90)"

text \<open>\<open>str.lower\<close> and \<open>str.upper\<close>, a character at a time over the repertoire.\<close>

definition lower_char :: "char \<Rightarrow> char" where
  "lower_char c = (let n = (of_char c :: nat) in
     if (65 \<le> n \<and> n \<le> 90) \<or> (192 \<le> n \<and> n \<le> 222 \<and> n \<noteq> 215) then char_of (n + 32)
     else if n = 138 \<or> n = 140 \<or> n = 142 then char_of (n + 16)
     else if n = 159 then char_of (255 :: nat) else c)"

definition upper_char :: "char \<Rightarrow> char" where
  "upper_char c = (let n = (of_char c :: nat) in
     if (97 \<le> n \<and> n \<le> 122) \<or> (224 \<le> n \<and> n \<le> 254 \<and> n \<noteq> 247) then char_of (n - 32)
     else if n = 154 \<or> n = 156 \<or> n = 158 then char_of (n - 16)
     else if n = 255 then char_of (159 :: nat) else c)"

definition py_lower :: "string \<Rightarrow> string" where
  "py_lower = map lower_char"

definition py_upper :: "string \<Rightarrow> string" where
  "py_upper = map upper_char"

definition py_lstrip :: "string \<Rightarrow> string" where
  "py_lstrip = dropWhile py_space"

definition py_rstrip :: "string \<Rightarrow> string" where
  "py_rstrip s = rev (dropWhile py_space (rev s))"

definition py_strip :: "string \<Rightarrow> string" where
  "py_strip s = py_rstrip (py_lstrip s)"

fun py_join :: "'a list \<Rightarrow> 'a list list \<Rightarrow> 'a list" where
  "py_join sep [] = []"
| "py_join sep [x] = x"
| "py_join sep (x # y # ys) = x @ sep @ py_join sep (y # ys)"

text \<open>\<open>s.split()\<close>: maximal runs of non-space characters.\<close>

fun split_ws_aux :: "string \<Rightarrow> string \<Rightarrow> string list" where
  "split_ws_aux w [] = (if w = [] then [] else [w])"
| "split_ws_aux w (c # cs) =
     (if py_space c then (if w = [] then split_ws_aux [] cs else w # split_ws_aux [] cs)
      else split_ws_aux (w @ [c]) cs)"

definition py_split_ws :: "string \<Rightarrow> string list" where
  "py_split_ws = split_ws_aux []"

text \<open>\<open>s.split(sep)\<close> for a one-character separator.\<close>

fun split_on_aux :: "char \<Rightarrow> string \<Rightarrow> string \<Rightarrow> string list" where
  "split_on_aux sep w [] = [w]"
| "split_on_aux sep w (c # cs) =
     (if c = sep then w # split_on_aux sep [] cs else split_on_aux sep (w @ [c]) cs)"

definition py_split_on :: "char \<Rightarrow> string \<Rightarrow> string list" where
  "py_split_on sep = split_on_aux sep []"

definition py_startswith :: "string \<Rightarrow> string \<Rightarrow> bool" where
  "py_startswith s p \<longleftrightarrow> take (length p) s = p"

definition py_endswith :: "string \<Rightarrow> string \<Rightarrow> bool" where
  "py_endswith s p \<longleftrightarrow> length p \<le> length s \<and> drop (length s - length p) s = p"

text \<open>\<open>p in s\<close>.\<close>

fun py_contains :: "string \<Rightarrow> string \<Rightarrow> bool" where
  "py_contains p [] = (p = [])"
| "py_contains p (c # cs) = (py_startswith (c # cs) p \<or> py_contains p cs)"

text \<open>Decimal digits of a number (\<open>str(n)\<close>) and the value of a digit string (\<open>int(s)\<close>).\<close>

definition digit_char :: "nat \<Rightarrow> char" where
  "digit_char d = char_of (48 + d)"

definition digit_val :: "char \<Rightarrow> nat" where
  "digit_val c = of_char c - 48"

fun nat_str :: "nat \<Rightarrow> string" where
  "nat_str n = (if n < 10 then [digit_char n] else nat_str (n div 10) @ [digit_char (n mod 10)])"

declare nat_str.simps [simp del]

definition int_str :: "int \<Rightarrow> string" where
  "int_str i = (if i < 0 then CHR ''-'' # nat_str (nat (- i)) else nat_str (nat i))"

definition digits_val :: "string \<Rightarrow> nat" where
  "digits_val s = foldl (\<lambda>v c. 10 * v + digit_val c) 0 s"

text \<open>\<open>f"{x:.1f}"\<close> of a non-negative number, rounded half to even.\<close>

definition fmt1 :: "rat \<Rightarrow> string" where
  "fmt1 x = (let t = round_even (x * 10)
             in int_str (t div 10) @ ''.'' @ int_str (t mod 10))"

section \<open>Facts\<close>

lemma py_join_Nil_sep: "py_join [] xss = concat xss"
  by (induction "[] :: 'a list" xss rule: py_join.induct) auto

lemma length_py_join:
  "length (py_join sep xss) = sum_list (map length xss) + length sep * (length xss - 1)"
  by (induction sep xss rule: py_join.induct) (auto simp: algebra_simps)

lemma py_join_append:
  "xss \<noteq> [] \<Longrightarrow> yss \<noteq> [] \<Longrightarrow> py_join sep (xss @ yss) = py_join sep xss @ sep @ py_join sep yss"
proof (induction sep xss rule: py_join.induct)
  case (2 sep x)
  then show ?case by (cases yss) auto
qed auto

lemma set_py_join: "set (py_join sep xss) \<subseteq> set sep \<union> (\<Union>x \<in> set xss. set x)"
  by (induction sep xss rule: py_join.induct) auto

lemma py_startswith_iff: "py_startswith s p \<longleftrightarrow> prefix p s"
  unfolding py_startswith_def by (metis append_take_drop_id prefixI prefix_def take_all_iff
      append_eq_conv_conj)

lemma py_contains_iff: "py_contains p s \<longleftrightarrow> sublist p s"
  by (induction s)
    (auto simp: py_startswith_iff sublist_Cons_right simp del: py_contains.simps(1)
        intro: sublist_Nil_left simp: py_contains.simps(1))

lemma lower_char_idem [simp]: "lower_char (lower_char c) = lower_char c"
proof -
  have "of_char c < (256 :: nat)" by (rule of_char_mod_256 [THEN mod_eq_self_iff_div_eq_0 [THEN iffD1],
      THEN div_eq_0_iff [THEN iffD1], THEN disjE]) auto
  then show ?thesis
    by (auto simp: lower_char_def Let_def)
qed

lemma py_lower_idem [simp]: "py_lower (py_lower s) = py_lower s"
  by (simp add: py_lower_def)

lemma length_py_lower [simp]: "length (py_lower s) = length s"
  by (simp add: py_lower_def)

lemma of_digit_char [simp]: "d < 10 \<Longrightarrow> of_char (digit_char d) = 48 + d"
  by (simp add: digit_char_def take_bit_nat_eq_self)

lemma digit_val_char [simp]: "d < 10 \<Longrightarrow> digit_val (digit_char d) = d"
  by (simp add: digit_val_def)

lemma digit_char_inject:
  "a < 10 \<Longrightarrow> b < 10 \<Longrightarrow> digit_char a = digit_char b \<longleftrightarrow> a = b"
  by (metis digit_val_char)

lemma is_digit_char [simp]: "d < 10 \<Longrightarrow> is_digit (digit_char d)"
  by (simp add: is_digit_def Let_def)

lemma nat_str_digits: "\<forall>c \<in> set (nat_str n). is_digit c"
proof (induction n rule: nat_str.induct)
  case (1 n)
  then show ?case by (subst nat_str.simps) auto
qed

lemma nat_str_nonempty [simp]: "nat_str n \<noteq> []"
  by (subst nat_str.simps) simp

lemma digits_val_snoc: "digits_val (s @ [c]) = 10 * digits_val s + digit_val c"
  by (simp add: digits_val_def)

lemma digits_val_nat_str [simp]: "digits_val (nat_str n) = n"
proof (induction n rule: nat_str.induct)
  case (1 n)
  show ?case
  proof (cases "n < 10")
    case True
    then show ?thesis by (subst nat_str.simps) (simp add: digits_val_def)
  next
    case False
    with 1 show ?thesis by (subst nat_str.simps) (simp add: digits_val_snoc)
  qed
qed

lemma nat_str_inject [simp]: "nat_str m = nat_str n \<longleftrightarrow> m = n"
  by (metis digits_val_nat_str)

lemma int_str_inject [simp]: "int_str i = int_str j \<longleftrightarrow> i = j"
proof -
  have "is_digit (hd (nat_str n))" for n
    using nat_str_digits [of n] hd_in_set [OF nat_str_nonempty, of n] by blast
  moreover have "\<not> is_digit CHR ''-''"
    by (simp add: is_digit_def)
  ultimately have "hd (nat_str n) \<noteq> CHR ''-''" for n
    by metis
  then have "nat_str n \<noteq> CHR ''-'' # s \<and> CHR ''-'' # s \<noteq> nat_str n" for n s
    by (metis list.sel(1))
  then show ?thesis
    by (auto simp: int_str_def)
qed

section \<open>Code points\<close>

text \<open>The code points of \<open>0x80..0x9F\<close>: the Windows-1252 page (its five undefined codes stand for the
  control characters of the same number).\<close>

definition high_points :: "nat list" where
  "high_points =
     [0x20AC, 0x81, 0x201A, 0x192, 0x201E, 0x2026, 0x2020, 0x2021, 0x2C6, 0x2030, 0x160, 0x2039, 0x152, 0x8D, 0x17D, 0x8F,
      0x90, 0x2018, 0x2019, 0x201C, 0x201D, 0x2022, 0x2013, 0x2014, 0x2DC, 0x2122, 0x161, 0x203A, 0x153, 0x9D, 0x17E, 0x178]"

definition point_of :: "nat \<Rightarrow> nat" where
  "point_of n = (if 128 \<le> n \<and> n < 160 then high_points ! (n - 128) else n)"

definition py_ord :: "char \<Rightarrow> nat" where
  "py_ord c = point_of (of_char c)"

lemma high_points_distinct: "distinct high_points" "length high_points = 32"
  by (simp_all add: high_points_def)

lemma high_points_range: "e \<in> set high_points \<Longrightarrow> (128 \<le> e \<and> e < 160) \<or> (256 \<le> e \<and> e < 65536)"
  by (auto simp: high_points_def)

lemma high_point: "128 \<le> n \<Longrightarrow> n < 160 \<Longrightarrow> high_points ! (n - 128) \<in> set high_points"
  by (simp add: high_points_distinct(2))

lemma point_of_cases:
  assumes "n < 256"
  shows "if 128 \<le> n \<and> n < 160
    then (128 \<le> point_of n \<and> point_of n < 160) \<or> (256 \<le> point_of n \<and> point_of n < 65536)
    else point_of n = n"
  using high_points_range [OF high_point [of n]] by (simp add: point_of_def)

lemma point_of_inject:
  assumes "m < 256" "n < 256" "point_of m = point_of n"
  shows "m = n"
proof (cases "128 \<le> m \<and> m < 160 \<and> 128 \<le> n \<and> n < 160")
  case True
  with assms(3) have "high_points ! (m - 128) = high_points ! (n - 128)"
    by (simp add: point_of_def)
  moreover have "m - 128 < length high_points" "n - 128 < length high_points"
    using True high_points_distinct(2) by auto
  ultimately have "m - 128 = n - 128"
    using high_points_distinct(1) nth_eq_iff_index_eq by blast
  with True show ?thesis by arith
next
  case False
  have apart: False if "x < 256" "y < 256" "point_of x = point_of y" "128 \<le> x \<and> x < 160" "\<not> (128 \<le> y \<and> y < 160)" for x y
  proof -
    have "(128 \<le> point_of x \<and> point_of x < 160) \<or> 256 \<le> point_of x"
      using point_of_cases [OF that(1)] that(4) by auto
    moreover have "point_of y = y"
      using point_of_cases [OF that(2)] that(5) by argo
    ultimately show False
      using that(2,3,5) by linarith
  qed
  show ?thesis
  proof (cases "(128 \<le> m \<and> m < 160) \<or> (128 \<le> n \<and> n < 160)")
    case True
    then show ?thesis
      using apart [OF assms(1,2,3)] apart [OF assms(2,1) assms(3) [symmetric]] False by argo
  next
    case low: False
    then have "point_of m = m" "point_of n = n"
      by (auto simp: point_of_def)
    with assms(3) show ?thesis by simp
  qed
qed

lemma py_ord_inject [simp]: "py_ord c = py_ord d \<longleftrightarrow> c = d"
  using point_of_inject [of "of_char c" "of_char d"] by (auto simp: py_ord_def)

lemma py_ord_bound: "py_ord c < 65536"
proof -
  have b: "of_char c < (256 :: nat)" by simp
  show ?thesis
  proof (cases "128 \<le> (of_char c :: nat) \<and> of_char c < (160 :: nat)")
    case True
    with point_of_cases [OF b] show ?thesis by (auto simp: py_ord_def)
  next
    case False
    with point_of_cases [OF b] have "py_ord c = of_char c" by (auto simp: py_ord_def)
    with b show ?thesis by linarith
  qed
qed

text \<open>\<open>len(s.encode())\<close>: the UTF-8 length.\<close>

definition utf8_char_len :: "char \<Rightarrow> nat" where
  "utf8_char_len c = (if py_ord c < 128 then 1 else if py_ord c < 2048 then 2 else 3)"

definition utf8_len :: "string \<Rightarrow> nat" where
  "utf8_len s = sum_list (map utf8_char_len s)"

lemma utf8_char_len_ascii [simp]: "of_char c < (128 :: nat) \<Longrightarrow> utf8_char_len c = 1"
  by (simp add: utf8_char_len_def py_ord_def point_of_def)

text \<open>\<open>c.isalnum() or c == '_'\<close>, the characters of \<open>\w\<close>.\<close>

definition is_letter :: "char \<Rightarrow> bool" where
  "is_letter c \<longleftrightarrow> is_lower_az c \<or> is_upper_az c
     \<or> py_ord c \<in> {0xAA, 0xB5, 0xBA, 0x192, 0x160, 0x161, 0x152, 0x153, 0x178, 0x17D, 0x17E, 0x2C6}
     \<or> (192 \<le> py_ord c \<and> py_ord c < 256 \<and> py_ord c \<noteq> 215 \<and> py_ord c \<noteq> 247)"

definition word_char :: "char \<Rightarrow> bool" where
  "word_char c \<longleftrightarrow> is_letter c \<or> is_digit c \<or> c = CHR ''_'' \<or> py_ord c \<in> {0xB2, 0xB3, 0xB9, 0xBC, 0xBD, 0xBE}"

end
