(* ===== verification/Json.thy ===== *)
theory Json
  imports Prelude PyText "HOL-Library.List_Lexorder" "HOL-Library.Char_ord"
begin

text \<open>
  JSON values as Python holds them and \<open>json.dumps\<close> with \<open>sort_keys=True\<close> and the default
  \<open>ensure_ascii\<close>. A float is kept as its \<open>repr\<close>, an object as its items in insertion order. What the
  hashes of the audit log, the pending actions and the ingested documents rest on is that this
  text determines the value, up to the order of keys.
\<close>

section \<open>Values\<close>

datatype json =
    JNull
  | JBool bool
  | JInt int
  | JFloat string
  | JStr string
  | JList "json list"
  | JObj "(string \<times> json) list"

definition number_char :: "char \<Rightarrow> bool" where
  "number_char c \<longleftrightarrow> is_digit c \<or> c \<in> set ''.e+-''"

text \<open>The \<open>repr\<close> of a finite float has a point or an exponent and starts with a sign or a digit.\<close>

definition float_text :: "string \<Rightarrow> bool" where
  "float_text s \<longleftrightarrow> list_all number_char s \<and> (CHR ''.'' \<in> set s \<or> CHR ''e'' \<in> set s)"

fun json_wf :: "json \<Rightarrow> bool" where
  "json_wf (JFloat s) = float_text s"
| "json_wf (JList xs) = list_all json_wf xs"
| "json_wf (JObj kvs) = (distinct (map fst kvs) \<and> list_all (\<lambda>kv. json_wf (snd kv)) kvs)"
| "json_wf _ = True"

definition opt_str :: "string option \<Rightarrow> json" where
  "opt_str s = (case s of None \<Rightarrow> JNull | Some x \<Rightarrow> JStr x)"

definition jget :: "(string \<times> json) list \<Rightarrow> string \<Rightarrow> json option" where
  "jget kvs k = map_of kvs k"

text \<open>The truth value Python gives a value.\<close>

fun truthy :: "json \<Rightarrow> bool" where
  "truthy JNull = False"
| "truthy (JBool b) = b"
| "truthy (JInt i) = (i \<noteq> 0)"
| "truthy (JFloat s) = list_ex (\<lambda>c. is_digit c \<and> c \<noteq> CHR ''0'') (takeWhile (\<lambda>c. c \<noteq> CHR ''e'') s)"
| "truthy (JStr s) = (s \<noteq> [])"
| "truthy (JList xs) = (xs \<noteq> [])"
| "truthy (JObj kvs) = (kvs \<noteq> [])"

section \<open>Strings\<close>

definition hex_digit :: "nat \<Rightarrow> char" where
  "hex_digit d = (if d < 10 then char_of (48 + d) else char_of (87 + d))"

definition hex4 :: "nat \<Rightarrow> string" where
  "hex4 n = [hex_digit (n div 4096 mod 16), hex_digit (n div 256 mod 16), hex_digit (n div 16 mod 16), hex_digit (n mod 16)]"

text \<open>\<open>repr\<close> of a text: single quotes unless the text has one and no double quote.\<close>

definition printable :: "char \<Rightarrow> bool" where
  "printable c \<longleftrightarrow> (let n = (of_char c :: nat) in
     (32 \<le> n \<and> n < 127) \<or> (128 \<le> n \<and> n < 160 \<and> n \<notin> {129, 141, 143, 144, 157}) \<or> (161 \<le> n \<and> n \<noteq> 173))"

definition repr_char :: "char \<Rightarrow> char \<Rightarrow> string" where
  "repr_char q c =
     (if c = q \<or> c = CHR 0x5C then [CHR 0x5C, c]
      else if c = CHR 0x0A then [CHR 0x5C, CHR ''n''] else if c = CHR 0x0D then [CHR 0x5C, CHR ''r'']
      else if c = CHR 0x09 then [CHR 0x5C, CHR ''t'']
      else if printable c then [c]
      else [CHR 0x5C, CHR ''x'', hex_digit (of_char c div 16), hex_digit (of_char c mod 16)])"

definition py_repr :: "string \<Rightarrow> string" where
  "py_repr s =
     (let q = (if CHR 0x27 \<in> set s \<and> CHR 0x22 \<notin> set s then CHR 0x22 else CHR 0x27)
      in [q] @ concat (map (repr_char q) s) @ [q])"

definition short_escape :: "char \<Rightarrow> char option" where
  "short_escape c =
     (if c = CHR 0x22 then Some (CHR 0x22) else if c = CHR 0x5C then Some (CHR 0x5C)
      else if c = CHR 0x0A then Some CHR ''n'' else if c = CHR 0x0D then Some CHR ''r''
      else if c = CHR 0x09 then Some CHR ''t'' else if c = CHR 0x08 then Some CHR ''b''
      else if c = CHR 0x0C then Some CHR ''f'' else None)"

definition esc_char :: "char \<Rightarrow> string" where
  "esc_char c =
     (case short_escape c of
        Some e \<Rightarrow> [CHR 0x5C, e]
      | None \<Rightarrow>
          if 32 \<le> py_ord c \<and> py_ord c < 127 then [c]
          else CHR 0x5C # CHR ''u'' # hex4 (py_ord c))"

definition dump_str :: "string \<Rightarrow> string" where
  "dump_str s = CHR 0x22 # concat (map esc_char s) @ [CHR 0x22]"

lemma of_hex_digit: "d < 16 \<Longrightarrow> (of_char (hex_digit d) :: nat) = (if d < 10 then 48 + d else 87 + d)"
  by (simp add: hex_digit_def take_bit_nat_eq_self)

lemma hex_digit_inject:
  assumes "i < 16" "j < 16"
  shows "hex_digit i = hex_digit j \<longleftrightarrow> i = j"
proof
  assume "hex_digit i = hex_digit j"
  then have "(if i < 10 then 48 + i else 87 + i) = (if j < 10 then 48 + j else 87 + j)"
    using of_hex_digit [OF assms(1)] of_hex_digit [OF assms(2)] by simp
  then show "i = j"
    by (cases "i < 10"; cases "j < 10"; simp)
qed simp

lemma length_hex4 [simp]: "length (hex4 n) = 4"
  by (simp add: hex4_def)

lemma nat16_digits:
  assumes "(n :: nat) < 65536"
  shows "n = (((n div 4096 mod 16) * 16 + n div 256 mod 16) * 16 + n div 16 mod 16) * 16 + n mod 16"
proof -
  define a where "a = n div 16"
  define b where "b = a div 16"
  define c where "c = b div 16"
  have d: "n div 256 = b" "n div 4096 = c"
    by (simp_all add: a_def b_def c_def div_mult2_eq [symmetric])
  have "c < 16"
    using assms by (simp add: a_def b_def c_def div_mult2_eq [symmetric] less_mult_imp_div_less)
  then have c: "c mod 16 = c" by simp
  have split: "n = ((c * 16 + q) * 16 + r) * 16 + s" if "n = a * 16 + s" "a = b * 16 + r" "b = c * 16 + q" for q r s
    using that by simp
  show ?thesis
    unfolding d c a_def [symmetric]
    by (rule split) (simp_all only: a_def b_def c_def div_mult_mod_eq)
qed

lemma hex4_inject:
  assumes "m < 65536" "n < 65536" "hex4 m = hex4 n"
  shows "m = n"
proof -
  have "m div 4096 mod 16 = n div 4096 mod 16" "m div 256 mod 16 = n div 256 mod 16"
    "m div 16 mod 16 = n div 16 mod 16" "m mod 16 = n mod 16"
    using assms(3) by (simp_all add: hex4_def hex_digit_inject)
  then show "m = n"
    by (subst nat16_digits [OF assms(1)], subst nat16_digits [OF assms(2)]) simp
qed

lemma short_escape_inject: "short_escape c = Some e \<Longrightarrow> short_escape d = Some e \<Longrightarrow> c = d"
  by (auto simp: short_escape_def split: if_splits)

lemma short_escape_not_u: "short_escape c \<noteq> Some CHR ''u''"
  by (auto simp: short_escape_def split: if_splits)

lemma esc_char_prefix: "esc_char c @ x = esc_char d @ y \<Longrightarrow> c = d \<and> x = y"
proof -
  assume eq: "esc_char c @ x = esc_char d @ y"
  have plain: "c \<noteq> CHR 0x5C" if "short_escape c = None" for c
    using that by (auto simp: short_escape_def split: if_splits)
  show ?thesis
    using eq plain [of c] plain [of d]
    using hex4_inject [OF py_ord_bound py_ord_bound, of c d] short_escape_inject [of c _ d] short_escape_not_u [of c] short_escape_not_u [of d]
    by (auto simp: esc_char_def split: option.splits if_splits)
qed

lemma esc_char_not_quote: "esc_char c \<noteq> []" "hd (esc_char c) \<noteq> CHR 0x22"
  by (auto simp: esc_char_def short_escape_def split: if_splits)

lemma dump_str_body_prefix:
  "concat (map esc_char s) @ CHR 0x22 # x = concat (map esc_char t) @ CHR 0x22 # y \<Longrightarrow> s = t \<and> x = y"
proof (induction s arbitrary: t)
  case Nil
  show ?case
  proof (cases t)
    case (Cons d t')
    with Nil esc_char_not_quote [of d] show ?thesis by (cases "esc_char d") auto
  qed (use Nil in simp)
next
  case (Cons c s)
  show ?case
  proof (cases t)
    case Nil
    with Cons.prems show ?thesis
      using esc_char_not_quote [of c] by (cases "esc_char c") auto
  next
    case (Cons d t')
    then have "esc_char c @ (concat (map esc_char s) @ CHR 0x22 # x) = esc_char d @ (concat (map esc_char t') @ CHR 0x22 # y)"
      using Cons.prems by simp
    from esc_char_prefix [OF this] Cons.IH [of t'] Cons show ?thesis by auto
  qed
qed

lemma dump_str_prefix: "dump_str s @ x = dump_str t @ y \<Longrightarrow> s = t \<and> x = y"
  using dump_str_body_prefix [of s x t y] by (simp add: dump_str_def)

section \<open>\<open>json.dumps\<close>\<close>

text \<open>\<open>isep\<close> and \<open>ksep\<close> are the separators; the items are written in the order they come.\<close>

fun dump_raw :: "string \<Rightarrow> string \<Rightarrow> json \<Rightarrow> string"
  and dump_items :: "string \<Rightarrow> string \<Rightarrow> json list \<Rightarrow> string"
  and dump_fields :: "string \<Rightarrow> string \<Rightarrow> (string \<times> json) list \<Rightarrow> string" where
  "dump_raw isep ksep JNull = ''null''"
| "dump_raw isep ksep (JBool b) = (if b then ''true'' else ''false'')"
| "dump_raw isep ksep (JInt i) = int_str i"
| "dump_raw isep ksep (JFloat s) = s"
| "dump_raw isep ksep (JStr s) = dump_str s"
| "dump_raw isep ksep (JList xs) = CHR ''['' # dump_items isep ksep xs"
| "dump_raw isep ksep (JObj kvs) = CHR ''{'' # dump_fields isep ksep kvs"
| "dump_items isep ksep [] = '']''"
| "dump_items isep ksep (x # xs) =
     dump_raw isep ksep x @ (if xs = [] then '']'' else isep @ dump_items isep ksep xs)"
| "dump_fields isep ksep [] = ''}''"
| "dump_fields isep ksep ((k, v) # kvs) =
     dump_str k @ ksep @ dump_raw isep ksep v @ (if kvs = [] then ''}'' else isep @ dump_fields isep ksep kvs)"

text \<open>\<open>sort_keys=True\<close>, in every object of the value.\<close>

fun canon :: "json \<Rightarrow> json" where
  "canon (JList xs) = JList (map canon xs)"
| "canon (JObj kvs) = JObj (sort_key fst (map (\<lambda>(k, v). (k, canon v)) kvs))"
| "canon v = v"

definition dumps_compact :: "json \<Rightarrow> string" where
  "dumps_compact v = dump_raw '','' '':'' (canon v)"

definition dumps_sorted :: "json \<Rightarrow> string" where
  "dumps_sorted v = dump_raw '', '' '': '' (canon v)"

section \<open>The text determines the value\<close>

definition delimited :: "string \<Rightarrow> bool" where
  "delimited r \<longleftrightarrow> r = [] \<or> hd r \<in> set '',]}''"

lemma number_prefix:
  assumes "list_all number_char s" "list_all number_char t" "delimited x" "delimited y" "s @ x = t @ y"
  shows "s = t \<and> x = y"
proof -
  have stop: "takeWhile number_char (w @ z) = w" if "list_all number_char w" "delimited z" for w z
  proof -
    have "\<not> number_char c" if "c \<in> set '',]}''" for c
      using that by (auto simp: number_char_def is_digit_def)
    with that show ?thesis
      by (cases z) (auto simp: delimited_def list_all_iff takeWhile_append)
  qed
  from stop [OF assms(1,3)] stop [OF assms(2,4)] assms(5) show ?thesis by simp
qed

lemma int_str_chars: "list_all (\<lambda>c. is_digit c \<or> c = CHR ''-'') (int_str i)" "int_str i \<noteq> []"
  using nat_str_digits by (auto simp: int_str_def list_all_iff)

lemma int_str_number: "list_all number_char (int_str i)"
  using int_str_chars(1) [of i] by (auto simp: number_char_def list_all_iff)

lemma int_not_float: "float_text s \<Longrightarrow> int_str i \<noteq> s"
  using int_str_chars(1) [of i] by (auto simp: float_text_def list_all_iff is_digit_def)

text \<open>The first character tells the kinds of values apart, numbers aside.\<close>

lemma float_hd: "float_text s \<Longrightarrow> s \<noteq> [] \<and> number_char (hd s)"
  by (cases s) (auto simp: float_text_def)

lemma int_hd: "number_char (hd (int_str i))"
  using int_str_number [of i] int_str_chars(2) [of i] by (cases "int_str i") auto

lemma number_char_not: "\<not> number_char CHR ''n''" "\<not> number_char CHR ''t''" "\<not> number_char CHR ''f''"
  "\<not> number_char CHR 0x22" "\<not> number_char CHR ''[''" "\<not> number_char CHR ''{''" "\<not> number_char CHR '']''"
  by (auto simp: number_char_def is_digit_def)

fun json_kind :: "json \<Rightarrow> nat" where
  "json_kind JNull = 0" | "json_kind (JBool True) = 1" | "json_kind (JBool False) = 2"
| "json_kind (JInt _) = 3" | "json_kind (JFloat _) = 3" | "json_kind (JStr _) = 4"
| "json_kind (JList _) = 5" | "json_kind (JObj _) = 6"

definition char_kind :: "char \<Rightarrow> nat" where
  "char_kind c = (if c = CHR ''n'' then 0 else if c = CHR ''t'' then 1 else if c = CHR ''f'' then 2
     else if number_char c then 3 else if c = CHR 0x22 then 4 else if c = CHR ''['' then 5
     else if c = CHR ''{'' then 6 else 7)"

lemma dump_hd: "json_wf v \<Longrightarrow> dump_raw isep ksep v \<noteq> [] \<and> char_kind (hd (dump_raw isep ksep v)) = json_kind v"
proof (cases v)
  case (JBool b)
  then show ?thesis by (cases b) (simp_all add: char_kind_def)
next
  case (JInt i)
  have "hd (int_str i) \<notin> set ''ntf''"
    using int_hd [of i] number_char_not by auto
  with JInt show ?thesis
    using int_hd [of i] int_str_chars(2) [of i] by (simp add: char_kind_def)
next
  case (JFloat s)
  assume "json_wf v"
  with JFloat have "s \<noteq> [] \<and> number_char (hd s)" using float_hd by simp
  moreover then have "hd s \<notin> set ''ntf''"
    using number_char_not by auto
  ultimately show ?thesis
    using JFloat by (simp add: char_kind_def)
qed (simp_all add: char_kind_def dump_str_def number_char_not)

lemma kind_of_prefix:
  assumes "json_wf v" "json_wf w" "dump_raw isep ksep v @ x = dump_raw isep ksep w @ y"
  shows "json_kind v = json_kind w"
proof -
  have "hd (dump_raw isep ksep v) = hd (dump_raw isep ksep w)"
    using assms(3) dump_hd [OF assms(1), of isep ksep] dump_hd [OF assms(2), of isep ksep]
    by (metis hd_append2)
  then show ?thesis
    using dump_hd [OF assms(1), of isep ksep] dump_hd [OF assms(2), of isep ksep] by metis
qed

lemma delimited_sep: "delimited (CHR '','' # r)" "delimited (CHR '']'' # r)" "delimited (CHR ''}'' # r)"
  by (simp_all add: delimited_def)

text \<open>What follows a value inside an array or object begins with a delimiter.\<close>

definition item_rest :: "string \<Rightarrow> string \<Rightarrow> json list \<Rightarrow> string" where
  "item_rest isep ksep xs = (if xs = [] then '']'' else isep @ dump_items isep ksep xs)"

definition field_rest :: "string \<Rightarrow> string \<Rightarrow> (string \<times> json) list \<Rightarrow> string" where
  "field_rest isep ksep kvs = (if kvs = [] then ''}'' else isep @ dump_fields isep ksep kvs)"

lemma item_rest_delimited: "isep = CHR '','' # s \<Longrightarrow> delimited (item_rest isep ksep xs @ x)"
  by (simp add: item_rest_def delimited_def)

lemma field_rest_delimited: "isep = CHR '','' # s \<Longrightarrow> delimited (field_rest isep ksep kvs @ x)"
  by (simp add: field_rest_def delimited_def)

lemma dump_items_Cons: "dump_items isep ksep (x # xs) = dump_raw isep ksep x @ item_rest isep ksep xs"
  by (simp add: item_rest_def)

lemma dump_fields_Cons:
  "dump_fields isep ksep ((k, v) # kvs) = dump_str k @ ksep @ dump_raw isep ksep v @ field_rest isep ksep kvs"
  by (simp add: field_rest_def)

lemma item_rest_inject:
  assumes "isep = CHR '','' # s" "item_rest isep ksep xs @ x = item_rest isep ksep ys @ y"
    and "dump_items isep ksep xs @ x = dump_items isep ksep ys @ y \<Longrightarrow> xs = ys \<and> x = y"
  shows "xs = ys \<and> x = y"
  using assms by (auto simp: item_rest_def split: if_splits)

lemma field_rest_inject:
  assumes "isep = CHR '','' # s" "field_rest isep ksep xs @ x = field_rest isep ksep ys @ y"
    and "dump_fields isep ksep xs @ x = dump_fields isep ksep ys @ y \<Longrightarrow> xs = ys \<and> x = y"
  shows "xs = ys \<and> x = y"
  using assms by (auto simp: field_rest_def split: if_splits)

lemma dump_hd_not_close: "json_wf v \<Longrightarrow> dump_raw isep ksep v \<noteq> [] \<and> hd (dump_raw isep ksep v) \<noteq> CHR '']''"
proof -
  assume "json_wf v"
  from dump_hd [OF this, of isep ksep] have d: "dump_raw isep ksep v \<noteq> []"
    "char_kind (hd (dump_raw isep ksep v)) = json_kind v" by auto
  have "json_kind v < 7"
    by (cases v rule: json_kind.cases) auto
  moreover have "char_kind CHR '']'' = 7"
    using number_char_not by (simp add: char_kind_def)
  ultimately show ?thesis using d by auto
qed

definition unique_prefix :: "('a \<Rightarrow> bool) \<Rightarrow> ('a \<Rightarrow> string) \<Rightarrow> 'a \<Rightarrow> bool" where
  "unique_prefix P f v \<longleftrightarrow> (\<forall>w x y. P w \<longrightarrow> delimited x \<longrightarrow> delimited y \<longrightarrow> f v @ x = f w @ y \<longrightarrow> v = w \<and> x = y)"

lemma unique_prefixD:
  "unique_prefix P f v \<Longrightarrow> P w \<Longrightarrow> delimited x \<Longrightarrow> delimited y \<Longrightarrow> f v @ x = f w @ y \<Longrightarrow> v = w \<and> x = y"
  by (simp add: unique_prefix_def)

definition fields_wf :: "(string \<times> json) list \<Rightarrow> bool" where
  "fields_wf kvs = list_all (\<lambda>kv. json_wf (snd kv)) kvs"

lemma dump_same_kind:
  assumes "json_wf w" "dump_raw isep ksep v @ x = dump_raw isep ksep w @ y" "json_wf v"
  shows "json_kind w = json_kind v"
  using kind_of_prefix [OF assms(3,1,2)] by simp

lemma json_kind_inv:
  "json_kind w = 0 \<Longrightarrow> w = JNull" "json_kind w = 1 \<Longrightarrow> w = JBool True" "json_kind w = 2 \<Longrightarrow> w = JBool False"
  "json_kind w = 3 \<Longrightarrow> (\<exists>i. w = JInt i) \<or> (\<exists>t. w = JFloat t)" "json_kind w = 4 \<Longrightarrow> \<exists>t. w = JStr t"
  "json_kind w = 5 \<Longrightarrow> \<exists>xs. w = JList xs" "json_kind w = 6 \<Longrightarrow> \<exists>kvs. w = JObj kvs"
  by (cases w rule: json_kind.cases; simp)+

fun numeral_text :: "json \<Rightarrow> string" where
  "numeral_text (JInt i) = int_str i"
| "numeral_text (JFloat s) = s"
| "numeral_text _ = []"

lemma number_unique:
  assumes "json_wf v" "json_wf w" "json_kind v = 3" "json_kind w = 3" "delimited x" "delimited y"
    "dump_raw isep ksep v @ x = dump_raw isep ksep w @ y"
  shows "v = w \<and> x = y"
proof -
  have chars: "dump_raw isep ksep u = numeral_text u \<and> list_all number_char (numeral_text u)"
    if "json_wf u" "json_kind u = 3" for u
    using json_kind_inv(4) [OF that(2)] that(1) int_str_number by (auto simp: float_text_def)
  have "numeral_text v = numeral_text w \<and> x = y"
    using number_prefix [of "numeral_text v" "numeral_text w" x y] chars [OF assms(1,3)] chars [OF assms(2,4)] assms(5-7)
    by simp
  then show ?thesis
    using json_kind_inv(4) [OF assms(3)] json_kind_inv(4) [OF assms(4)] assms(1,2) int_not_float
    by (metis json_wf.simps(1) numeral_text.simps(1,2) int_str_inject)
qed

lemma dump_items_Nil_inject:
  assumes "list_all json_wf ws" "dump_items isep ksep [] @ x = dump_items isep ksep ws @ y"
  shows "[] = ws \<and> x = y"
proof (cases ws)
  case (Cons w ws')
  then show ?thesis
    using assms dump_hd_not_close [of w isep ksep] by (cases "dump_raw isep ksep w") auto
qed (use assms in simp)

lemma dump_fields_Nil_inject:
  "dump_fields isep ksep [] @ x = dump_fields isep ksep ws @ y \<Longrightarrow> [] = ws \<and> x = y"
  by (cases ws) (auto simp: dump_str_def)

lemma items_unique:
  assumes sep: "isep = CHR '','' # sp" and head: "unique_prefix json_wf (dump_raw isep ksep) v"
    and tail: "vs \<noteq> [] \<Longrightarrow> \<forall>ws x y. list_all json_wf ws \<longrightarrow> dump_items isep ksep vs @ x = dump_items isep ksep ws @ y \<longrightarrow> vs = ws \<and> x = y"
    and vs: "list_all json_wf (v # vs)" and ws: "list_all json_wf ws" and eq: "dump_items isep ksep (v # vs) @ x = dump_items isep ksep ws @ y"
  shows "v # vs = ws \<and> x = y"
proof (cases ws)
  case Nil
  with eq vs dump_hd_not_close [of v isep ksep] show ?thesis
    by (cases "dump_raw isep ksep v") auto
next
  case (Cons w ws')
  have "dump_raw isep ksep v @ (item_rest isep ksep vs @ x) = dump_raw isep ksep w @ (item_rest isep ksep ws' @ y)"
    using eq unfolding Cons dump_items_Cons by simp
  note eq' = this
  have wf: "json_wf v" "list_all json_wf vs" "json_wf w" "list_all json_wf ws'"
    using vs ws Cons by simp_all
  note split = unique_prefixD [OF head wf(3) item_rest_delimited [OF sep]
      item_rest_delimited [OF sep] eq']
  have rec: "vs = ws' \<and> x = y" if "dump_items isep ksep vs @ x = dump_items isep ksep ws' @ y"
  proof (cases "vs = []")
    case True
    with dump_items_Nil_inject [OF wf(4), of isep ksep x y] that show ?thesis by simp
  next
    case False
    from tail [OF this] wf(4) that show ?thesis by blast
  qed
  from item_rest_inject [OF sep conjunct2 [OF split] rec] split Cons show ?thesis by simp
qed

lemma fields_unique:
  assumes sep: "isep = CHR '','' # sp" and head: "unique_prefix json_wf (dump_raw isep ksep) v"
    and tail: "kvs \<noteq> [] \<Longrightarrow> \<forall>ws x y. fields_wf ws \<longrightarrow> dump_fields isep ksep kvs @ x = dump_fields isep ksep ws @ y \<longrightarrow> kvs = ws \<and> x = y"
    and kvs: "fields_wf ((k, v) # kvs)" and ws: "fields_wf ws" and eq: "dump_fields isep ksep ((k, v) # kvs) @ x = dump_fields isep ksep ws @ y"
  shows "(k, v) # kvs = ws \<and> x = y"
proof (cases ws)
  case Nil
  with eq show ?thesis by (auto simp: dump_str_def)
next
  case (Cons kw ws')
  obtain k' w where kw: "kw = (k', w)" by (cases kw)
  have "dump_str k @ (ksep @ dump_raw isep ksep v @ field_rest isep ksep kvs @ x)
      = dump_str k' @ (ksep @ dump_raw isep ksep w @ field_rest isep ksep ws' @ y)"
    using eq unfolding Cons kw dump_fields_Cons by simp
  from dump_str_prefix [OF this]
  have k: "k = k'" and "dump_raw isep ksep v @ (field_rest isep ksep kvs @ x) = dump_raw isep ksep w @ (field_rest isep ksep ws' @ y)"
    by auto
  note eq' = this(2)
  have wf: "json_wf v" "fields_wf kvs" "json_wf w" "fields_wf ws'"
    using kvs ws Cons kw by (simp_all add: fields_wf_def)
  note split = unique_prefixD [OF head wf(3) field_rest_delimited [OF sep]
      field_rest_delimited [OF sep] eq']
  have rec: "kvs = ws' \<and> x = y" if "dump_fields isep ksep kvs @ x = dump_fields isep ksep ws' @ y"
  proof (cases "kvs = []")
    case True
    with dump_fields_Nil_inject [of isep ksep x ws' y] that show ?thesis by simp
  next
    case False
    from tail [OF this] wf(4) that show ?thesis by blast
  qed
  from field_rest_inject [OF sep conjunct2 [OF split] rec] split Cons kw k show ?thesis by simp
qed

lemma dump_unique:
  "isep = CHR '','' # sp \<Longrightarrow> json_wf v \<Longrightarrow> unique_prefix json_wf (dump_raw isep ksep) v"
  "isep = CHR '','' # sp \<Longrightarrow> list_all json_wf vs \<Longrightarrow>
     (\<forall>ws x y. list_all json_wf ws \<longrightarrow> dump_items isep ksep vs @ x = dump_items isep ksep ws @ y \<longrightarrow> vs = ws \<and> x = y)"
  "isep = CHR '','' # sp \<Longrightarrow> fields_wf kvs \<Longrightarrow>
     (\<forall>ws x y. fields_wf ws \<longrightarrow> dump_fields isep ksep kvs @ x = dump_fields isep ksep ws @ y \<longrightarrow> kvs = ws \<and> x = y)"
proof (induction isep ksep v and isep ksep vs and isep ksep kvs rule: dump_raw_dump_items_dump_fields.induct)
  case (1 isep ksep)
  have "JNull = w \<and> x = y" if w: "json_wf w" "dump_raw isep ksep JNull @ x = dump_raw isep ksep w @ y" for w x y
  proof -
    have "w = JNull"
      using dump_same_kind [OF w] json_kind_inv(1) by simp
    with w(2) show ?thesis by simp
  qed
  then show ?case unfolding unique_prefix_def by blast
next
  case (2 isep ksep b)
  have "w = JBool b" if "json_wf w" "dump_raw isep ksep (JBool b) @ x = dump_raw isep ksep w @ y" for w x y
    using dump_same_kind [OF that] json_kind_inv(2,3) by (cases b) simp_all
  then show ?case
    unfolding unique_prefix_def by blast
next
  case (3 isep ksep i)
  have "JInt i = w \<and> x = y" if w: "json_wf w" "delimited x" "delimited y"
    "dump_raw isep ksep (JInt i) @ x = dump_raw isep ksep w @ y" for w x y
    using number_unique [OF 3(2) w(1) _ _ w(2-4)] dump_same_kind [OF w(1,4) 3(2)] by simp
  then show ?case unfolding unique_prefix_def by blast
next
  case (4 isep ksep s)
  have "JFloat s = w \<and> x = y" if w: "json_wf w" "delimited x" "delimited y"
    "dump_raw isep ksep (JFloat s) @ x = dump_raw isep ksep w @ y" for w x y
    using number_unique [OF 4(2) w(1) _ _ w(2-4)] dump_same_kind [OF w(1,4) 4(2)] by simp
  then show ?case unfolding unique_prefix_def by blast
next
  case (5 isep ksep s)
  have "JStr s = w \<and> x = y" if w: "json_wf w" "dump_raw isep ksep (JStr s) @ x = dump_raw isep ksep w @ y" for w x y
  proof -
    obtain t where t: "w = JStr t"
      using dump_same_kind [OF w] json_kind_inv(5) by auto
    with w(2) have "dump_str s @ x = dump_str t @ y" by simp
    from dump_str_prefix [OF this] t show ?thesis by simp
  qed
  then show ?case unfolding unique_prefix_def by blast
next
  case (6 isep ksep xs)
  have "JList xs = w \<and> x = y" if w: "json_wf w" "dump_raw isep ksep (JList xs) @ x = dump_raw isep ksep w @ y" for w x y
  proof -
    obtain ys where ys: "w = JList ys"
      using dump_same_kind [OF w 6(3)] json_kind_inv(6) by auto
    with w have "list_all json_wf ys" "dump_items isep ksep xs @ x = dump_items isep ksep ys @ y" by simp_all
    moreover have "list_all json_wf xs" using 6(3) by simp
    ultimately have "xs = ys \<and> x = y"
      using 6(1) [OF 6(2)] by blast
    with ys show ?thesis by blast
  qed
  then show ?case unfolding unique_prefix_def by blast
next
  case (7 isep ksep kvs)
  have "JObj kvs = w \<and> x = y" if w: "json_wf w" "dump_raw isep ksep (JObj kvs) @ x = dump_raw isep ksep w @ y" for w x y
  proof -
    obtain ys where ys: "w = JObj ys"
      using dump_same_kind [OF w 7(3)] json_kind_inv(7) by auto
    with w have "fields_wf ys" "dump_fields isep ksep kvs @ x = dump_fields isep ksep ys @ y"
      by (simp_all add: fields_wf_def)
    moreover have "fields_wf kvs" using 7(3) by (simp add: fields_wf_def)
    ultimately have "kvs = ys \<and> x = y"
      using 7(1) [OF 7(2)] by blast
    with ys show ?thesis by blast
  qed
  then show ?case unfolding unique_prefix_def by blast
next
  case (8 isep ksep)
  show ?case using dump_items_Nil_inject by blast
next
  case (9 isep ksep v vs)
  then have wf: "json_wf v" "list_all json_wf vs" by simp_all
  show ?case
    by (intro allI impI) (rule items_unique [OF 9(3) 9(1) [OF 9(3) wf(1)] 9(2) [OF _ 9(3) wf(2)] 9(4)])
next
  case (10 isep ksep)
  show ?case using dump_fields_Nil_inject by blast
next
  case (11 isep ksep k v kvs)
  then have wf: "json_wf v" "fields_wf kvs" by (simp_all add: fields_wf_def)
  show ?case
    by (intro allI impI) (rule fields_unique [OF 11(3) 11(1) [OF 11(3) wf(1)] 11(2) [OF _ 11(3) wf(2)] 11(4)])
qed

lemma canon_wf: "json_wf v \<Longrightarrow> json_wf (canon v)"
proof (induction v rule: canon.induct)
  case (1 xs)
  then show ?case by (auto simp: list_all_iff)
next
  case (2 kvs)
  have keys: "map fst (map (\<lambda>(k, v). (k, canon v)) kvs) = map fst kvs"
    by (auto simp: map_eq_conv)
  have "distinct (map fst (map (\<lambda>(k, v). (k, canon v)) kvs))"
    unfolding keys using 2(2) by simp
  then have "distinct (map fst (sort_key fst (map (\<lambda>(k, v). (k, canon v)) kvs)))"
    by (simp add: distinct_map del: map_map)
  moreover have "json_wf (snd kv)" if "kv \<in> set (sort_key fst (map (\<lambda>(k, v). (k, canon v)) kvs))" for kv
    using that 2 by (fastforce simp: list_all_iff)
  ultimately show ?case by (simp add: list_all_iff)
qed auto

text \<open>Two values with the same sorted text are the same value up to the order of keys.\<close>

lemma dump_raw_inject:
  assumes "json_wf v" "json_wf w" "dump_raw (CHR '','' # sp) ksep v = dump_raw (CHR '','' # sp) ksep w"
  shows "v = w"
  using unique_prefixD [OF dump_unique(1) [OF refl assms(1)] assms(2), of "[]" "[]"] assms(3)
  by (simp add: delimited_def)

lemma dumps_compact_inject:
  assumes "json_wf v" "json_wf w" "dumps_compact v = dumps_compact w"
  shows "canon v = canon w"
  using dump_raw_inject [OF canon_wf [OF assms(1)] canon_wf [OF assms(2)], of "[]" "'':''"] assms(3)
  by (simp add: dumps_compact_def)

lemma dumps_sorted_inject:
  assumes "json_wf v" "json_wf w" "dumps_sorted v = dumps_sorted w"
  shows "canon v = canon w"
  using dump_raw_inject [OF canon_wf [OF assms(1)] canon_wf [OF assms(2)], of "'' ''" "'': ''"] assms(3)
  by (simp add: dumps_sorted_def)

end
