(* ===== verification/Registry.thy ===== *)
theory Registry
  imports Json
begin

text \<open>
  \<open>tools/registry.py\<close>: the tool contracts, validation of proposed arguments (with pydantic's order of
  validators: the subclass' \<open>before\<close> validator, then the base class', then the fields, then \<open>after\<close>),
  and the deterministic parts of routing. How pydantic turns a JSON value into an \<open>int\<close> is the
  parameter \<open>lax\<close>; a rejected call is \<open>None\<close>, its explanation text belongs to the caller.
\<close>

section \<open>Formats\<close>

definition MAX_VPN_DAYS :: int where "MAX_VPN_DAYS = 30"

definition absent_words :: "string list" where
  "absent_words = ['''', ''null'', ''none'', ''n/a'']"

definition is_absent_word :: "string \<Rightarrow> bool" where
  "is_absent_word s \<longleftrightarrow> py_lower (py_strip s) \<in> set absent_words"

definition department_format :: "string \<Rightarrow> bool" where
  "department_format s \<longleftrightarrow> s \<noteq> [] \<and> is_lower_az (hd s) \<and> list_all (\<lambda>c. is_lower_az c \<or> c = CHR ''_'') (tl s)"

definition server_id_format :: "string \<Rightarrow> bool" where
  "server_id_format s \<longleftrightarrow> s \<noteq> [] \<and> (is_lower_az (hd s) \<or> is_digit (hd s))
     \<and> list_all (\<lambda>c. is_lower_az c \<or> is_digit c \<or> c = CHR ''.'' \<or> c = CHR ''-'') (tl s)"

definition ticket_id_format :: "string \<Rightarrow> bool" where
  "ticket_id_format s \<longleftrightarrow> take 4 s = ''INC-'' \<and> 1 \<le> length (drop 4 s) \<and> length (drop 4 s) \<le> 10
     \<and> list_all is_digit (drop 4 s)"

definition employee_id_format :: "string \<Rightarrow> bool" where
  "employee_id_format s \<longleftrightarrow> take 1 s = ''U'' \<and> 3 \<le> length (drop 1 s) \<and> list_all is_digit (drop 1 s)"

section \<open>Arguments\<close>

datatype tool_args =
    SearchArgs string "string option"
  | ServerArgs string
  | TicketArgs string string string
  | GetTicketArgs string
  | VpnArgs "string option" "string option" int

definition severities :: "string list" where
  "severities = [''critical'', ''high'', ''medium'', ''low'']"

type_synonym raw_args = "(string \<times> json) list"

text \<open>\<open>_absent_means_none\<close>: the text of an absent value becomes None for the fields that may be absent.\<close>

definition absent_means_none :: "string list \<Rightarrow> raw_args \<Rightarrow> raw_args" where
  "absent_means_none optional raw =
     map (\<lambda>(k, v). (k, if k \<in> set optional \<and> (case v of JStr s \<Rightarrow> is_absent_word s | _ \<Rightarrow> False) then JNull else v)) raw"

text \<open>\<open>_an_id_is_an_id\<close>: an employee id given as a name is an id.\<close>

definition an_id_is_an_id :: "raw_args \<Rightarrow> raw_args" where
  "an_id_is_an_id raw =
     (let candidate = (case jget raw ''employee_name'' of Some (JStr s) \<Rightarrow> py_upper (py_strip s) | _ \<Rightarrow> []);
          has_id = (case jget raw ''employee_id'' of Some v \<Rightarrow> truthy v | None \<Rightarrow> False)
      in if employee_id_format candidate \<and> \<not> has_id
         then dict_put ''employee_name'' JNull (dict_put ''employee_id'' (JStr candidate) raw)
         else raw)"

definition only_fields :: "string list \<Rightarrow> raw_args \<Rightarrow> bool" where
  "only_fields fields raw \<longleftrightarrow> list_all (\<lambda>kv. fst kv \<in> set fields) raw"

definition str_field :: "raw_args \<Rightarrow> string \<Rightarrow> (string \<Rightarrow> bool) \<Rightarrow> string option" where
  "str_field raw k P = (case jget raw k of Some (JStr s) \<Rightarrow> if P s then Some s else None | _ \<Rightarrow> None)"

definition opt_field :: "raw_args \<Rightarrow> string \<Rightarrow> (string \<Rightarrow> bool) \<Rightarrow> string option option" where
  "opt_field raw k P =
     (case jget raw k of
        None \<Rightarrow> Some None | Some JNull \<Rightarrow> Some None
      | Some (JStr s) \<Rightarrow> if P s then Some (Some s) else None
      | _ \<Rightarrow> None)"

definition int_field :: "(json \<Rightarrow> int option) \<Rightarrow> raw_args \<Rightarrow> string \<Rightarrow> int \<Rightarrow> int \<Rightarrow> int \<Rightarrow> int option" where
  "int_field lax raw k dflt lo hi =
     (case jget raw k of
        None \<Rightarrow> Some dflt
      | Some v \<Rightarrow> (case lax v of Some i \<Rightarrow> if lo \<le> i \<and> i \<le> hi then Some i else None | None \<Rightarrow> None))"

definition len_between :: "nat \<Rightarrow> nat \<Rightarrow> string \<Rightarrow> bool" where
  "len_between lo hi s \<longleftrightarrow> lo \<le> length s \<and> length s \<le> hi"

definition validate_search :: "raw_args \<Rightarrow> tool_args option" where
  "validate_search raw0 =
     (let raw = absent_means_none [''department''] raw0 in
      if \<not> only_fields [''query'', ''department''] raw then None
      else case (str_field raw ''query'' (len_between 2 500), opt_field raw ''department'' department_format) of
             (Some q, Some d) \<Rightarrow> Some (SearchArgs q d) | _ \<Rightarrow> None)"

definition validate_server :: "raw_args \<Rightarrow> tool_args option" where
  "validate_server raw0 =
     (let raw = absent_means_none [] raw0 in
      if \<not> only_fields [''server_id''] raw then None
      else map_option ServerArgs (str_field raw ''server_id'' (\<lambda>s. len_between 2 64 s \<and> server_id_format s)))"

definition validate_ticket :: "raw_args \<Rightarrow> tool_args option" where
  "validate_ticket raw0 =
     (let raw = absent_means_none [] raw0 in
      if \<not> only_fields [''title'', ''severity'', ''details''] raw then None
      else case (str_field raw ''title'' (len_between 4 200),
                 str_field raw ''severity'' (\<lambda>s. s \<in> set severities),
                 str_field raw ''details'' (len_between 4 4000)) of
             (Some t, Some s, Some d) \<Rightarrow> Some (TicketArgs t s d) | _ \<Rightarrow> None)"

definition validate_get_ticket :: "raw_args \<Rightarrow> tool_args option" where
  "validate_get_ticket raw0 =
     (let raw = absent_means_none [] raw0 in
      if \<not> only_fields [''ticket_id''] raw then None
      else map_option GetTicketArgs (str_field raw ''ticket_id'' ticket_id_format))"

definition validate_vpn :: "(json \<Rightarrow> int option) \<Rightarrow> raw_args \<Rightarrow> tool_args option" where
  "validate_vpn lax raw0 =
     (let raw = absent_means_none [''employee_id'', ''employee_name'', ''duration_days''] (an_id_is_an_id raw0) in
      if \<not> only_fields [''employee_id'', ''employee_name'', ''duration_days''] raw then None
      else case (opt_field raw ''employee_id'' employee_id_format,
                 opt_field raw ''employee_name'' (len_between 2 100),
                 int_field lax raw ''duration_days'' MAX_VPN_DAYS 1 MAX_VPN_DAYS) of
             (Some e, Some n, Some d) \<Rightarrow>
               if (e \<noteq> None \<and> e \<noteq> Some []) = (n \<noteq> None \<and> n \<noteq> Some []) then None
               else Some (VpnArgs e n d)
           | _ \<Rightarrow> None)"

text \<open>\<open>model_dump(mode="json")\<close>: every field, in declaration order.\<close>

fun dump_args :: "tool_args \<Rightarrow> raw_args" where
  "dump_args (SearchArgs q d) = [(''query'', JStr q), (''department'', opt_str d)]"
| "dump_args (ServerArgs s) = [(''server_id'', JStr s)]"
| "dump_args (TicketArgs t s d) = [(''title'', JStr t), (''severity'', JStr s), (''details'', JStr d)]"
| "dump_args (GetTicketArgs t) = [(''ticket_id'', JStr t)]"
| "dump_args (VpnArgs e n d) =
     [(''employee_id'', opt_str e), (''employee_name'', opt_str n), (''duration_days'', JInt d)]"

section \<open>Tools\<close>

datatype args_model = SearchInternalDocsArgs | GetServerStatusArgs | CreateSupportTicketArgs | GetSupportTicketArgs
  | CreateVpnProfileArgs

fun model_validate :: "(json \<Rightarrow> int option) \<Rightarrow> args_model \<Rightarrow> raw_args \<Rightarrow> tool_args option" where
  "model_validate lax SearchInternalDocsArgs raw = validate_search raw"
| "model_validate lax GetServerStatusArgs raw = validate_server raw"
| "model_validate lax CreateSupportTicketArgs raw = validate_ticket raw"
| "model_validate lax GetSupportTicketArgs raw = validate_get_ticket raw"
| "model_validate lax CreateVpnProfileArgs raw = validate_vpn lax raw"

record tool_spec =
  ts_name :: string
  ts_purpose :: string
  ts_args_model :: args_model
  ts_requires_permission :: "string option"
  ts_use_when :: "string list"
  ts_not_when :: "string list"
  ts_trigger :: "string option"
  ts_names_record :: "string list"
  ts_sensitive :: bool
  ts_approve_permission :: "string option"

text \<open>The trigger of the ticket reader is its identifier pattern with the argument it fills.\<close>

definition tools :: "tool_spec list" where
  "tools =
     [\<lparr>ts_name = ''search_internal_docs'',
       ts_purpose = ''List which approved documents mention a topic, as search results.'',
       ts_args_model = SearchInternalDocsArgs, ts_requires_permission = None,
       ts_use_when = [''The user explicitly asks to search for, list or find documents.''],
       ts_not_when = [''The user asks a question the documents answer: that is the knowledge route, which answers with citations.''],
       ts_trigger = None, ts_names_record = [], ts_sensitive = False, ts_approve_permission = None\<rparr>,
      \<lparr>ts_name = ''get_server_status'',
       ts_purpose = ''Report the current, live status of one server identified by its id.'',
       ts_args_model = GetServerStatusArgs, ts_requires_permission = Some ''server:read'',
       ts_use_when = [''The user asks whether a specific server is up, healthy or how it is doing now.''],
       ts_not_when = [''The user asks how servers should be operated, patched or scaled in general: procedures are documented, so that is knowledge.''],
       ts_trigger = None, ts_names_record = [], ts_sensitive = False, ts_approve_permission = None\<rparr>,
      \<lparr>ts_name = ''create_support_ticket'',
       ts_purpose = ''Open a support ticket with a title, a severity and details.'',
       ts_args_model = CreateSupportTicketArgs, ts_requires_permission = Some ''ticket:create'',
       ts_use_when = [''The user explicitly asks to open, raise, create or log a ticket. Severity is 'medium' unless the user states one.''],
       ts_not_when = [''The user asks how the ticket process or severity levels work.'',
         ''The user asks for an operation no skill performs (a deployment, a migration, a restart, a change to a system): never open a ticket on their behalf.''],
       ts_trigger = None, ts_names_record = [''ticket''], ts_sensitive = False, ts_approve_permission = None\<rparr>,
      \<lparr>ts_name = ''get_support_ticket'',
       ts_purpose = ''Read one existing support ticket by its id: title, severity, status and the details it was raised with.'',
       ts_args_model = GetSupportTicketArgs, ts_requires_permission = Some ''ticket:create'',
       ts_use_when = [''The message contains a ticket id (INC- followed by digits), whatever it asks about that ticket - its status, its details or how to resolve it. Tickets are operational records and are never in the documents.''],
       ts_not_when = [''No ticket id is given.''],
       ts_trigger = Some ''ticket_id'', ts_names_record = [], ts_sensitive = False, ts_approve_permission = None\<rparr>,
      \<lparr>ts_name = ''create_vpn_profile'',
       ts_purpose = ''Create a VPN (OpenVPN) profile for one employee, given by id or by name.'',
       ts_args_model = CreateVpnProfileArgs, ts_requires_permission = Some ''vpn:create'',
       ts_use_when = [''The user asks to create, set up, issue or request VPN access or a VPN profile for an employee - including when the request mentions that it needs, awaits or comes with approval, because approval always happens for this tool.''],
       ts_not_when = [''The user asks about VPN policy or how VPN access works: that is knowledge.'',
         ''The user asks to skip, avoid or not wait for the approval: that is refuse.''],
       ts_trigger = None, ts_names_record = [''vpn'', ''openvpn''], ts_sensitive = True,
       ts_approve_permission = Some ''vpn:approve''\<rparr>]"

definition tool_spec_of :: "string \<Rightarrow> tool_spec option" where
  "tool_spec_of name = find (\<lambda>s. ts_name s = name) tools"

definition reads_data :: "tool_spec \<Rightarrow> bool" where
  "reads_data s \<longleftrightarrow> \<not> ts_sensitive s \<and> (py_startswith (ts_name s) ''get_'' \<or> py_startswith (ts_name s) ''search_'')"

definition effect :: "tool_spec \<Rightarrow> string" where
  "effect s =
     (if ts_sensitive s then ''sensitive: only proposed; runs after a different authorized person approves''
      else if py_startswith (ts_name s) ''get_'' \<or> py_startswith (ts_name s) ''search_'' then ''reads data''
      else ''creates a record'')"

section \<open>Deterministic routing\<close>

text \<open>\<open>re.findall(r"[a-z]+", text)\<close>.\<close>

fun az_words :: "string \<Rightarrow> string \<Rightarrow> string list" where
  "az_words w [] = (if w = [] then [] else [w])"
| "az_words w (c # cs) =
     (if is_lower_az c then az_words (w @ [c]) cs
      else (if w = [] then [] else [w]) @ az_words [] cs)"

definition asks_for_record :: "string \<Rightarrow> string \<Rightarrow> bool" where
  "asks_for_record tool message =
     (case tool_spec_of tool of
        None \<Rightarrow> True
      | Some s \<Rightarrow> ts_names_record s = []
          \<or> list_ex (\<lambda>w. w \<in> set (az_words [] (py_lower message))) (ts_names_record s))"

definition reads_with_invalid_arguments :: "(json \<Rightarrow> int option) \<Rightarrow> string \<Rightarrow> raw_args \<Rightarrow> bool" where
  "reads_with_invalid_arguments lax tool raw =
     (case tool_spec_of tool of
        None \<Rightarrow> False
      | Some s \<Rightarrow> effect s = ''reads data'' \<and> model_validate lax (ts_args_model s) raw = None)"

text \<open>\<open>re.search(r"\bINC-[0-9]{1,10}\b", message, re.IGNORECASE)\<close>, upper-cased: the run of digits must end
  at a word boundary, so it is taken whole and may have at most ten.\<close>

definition ticket_at :: "string \<Rightarrow> string option" where
  "ticket_at s =
     (let ds = takeWhile is_digit (drop 4 s); rest = dropWhile is_digit (drop 4 s) in
      if py_upper (take 4 s) = ''INC-'' \<and> 1 \<le> length ds \<and> length ds \<le> 10
         \<and> (rest = [] \<or> \<not> word_char (hd rest))
      then Some (''INC-'' @ ds) else None)"

fun search_ticket :: "bool \<Rightarrow> string \<Rightarrow> string option" where
  "search_ticket boundary [] = None"
| "search_ticket boundary (c # cs) =
     (case (if boundary then ticket_at (c # cs) else None) of
        Some t \<Rightarrow> Some t
      | None \<Rightarrow> search_ticket (\<not> word_char c) cs)"

definition triggered_skill :: "string \<Rightarrow> (string \<times> raw_args) option" where
  "triggered_skill message =
     (let found = concat (map (\<lambda>s. case ts_trigger s of
                Some arg \<Rightarrow>
                  if ts_sensitive s \<or> effect s \<noteq> ''reads data'' then []
                  else (case search_ticket True message of
                          Some t \<Rightarrow> [(ts_name s, [(arg, JStr t)])] | None \<Rightarrow> [])
              | None \<Rightarrow> []) tools)
      in if length found = 1 then Some (hd found) else None)"

section \<open>Validated arguments\<close>

fun args_ok :: "args_model \<Rightarrow> tool_args \<Rightarrow> bool" where
  "args_ok SearchInternalDocsArgs (SearchArgs q d) =
     (len_between 2 500 q \<and> (case d of None \<Rightarrow> True | Some x \<Rightarrow> department_format x \<and> \<not> is_absent_word x))"
| "args_ok GetServerStatusArgs (ServerArgs s) = (len_between 2 64 s \<and> server_id_format s)"
| "args_ok CreateSupportTicketArgs (TicketArgs t s d) =
     (len_between 4 200 t \<and> s \<in> set severities \<and> len_between 4 4000 d)"
| "args_ok GetSupportTicketArgs (GetTicketArgs t) = ticket_id_format t"
| "args_ok CreateVpnProfileArgs (VpnArgs e n d) =
     ((e = None) \<noteq> (n = None) \<and> (case e of None \<Rightarrow> True | Some x \<Rightarrow> employee_id_format x)
      \<and> (case n of None \<Rightarrow> True | Some x \<Rightarrow> len_between 2 100 x \<and> \<not> is_absent_word x)
      \<and> 1 \<le> d \<and> d \<le> MAX_VPN_DAYS)"
| "args_ok _ _ = False"

lemma jget_absent:
  "jget (absent_means_none opts raw) k =
     map_option (\<lambda>v. if k \<in> set opts \<and> (case v of JStr s \<Rightarrow> is_absent_word s | _ \<Rightarrow> False) then JNull else v) (jget raw k)"
  unfolding jget_def absent_means_none_def by (induction raw) auto

lemma str_field_SomeD: "str_field raw k P = Some s \<Longrightarrow> P s"
  by (auto simp: str_field_def split: option.splits json.splits if_splits)

lemma opt_field_SomeD: "opt_field raw k P = Some (Some s) \<Longrightarrow> P s \<and> jget raw k = Some (JStr s)"
  by (auto simp: opt_field_def split: option.splits json.splits if_splits)

lemma opt_field_absent:
  "opt_field (absent_means_none opts raw) k P = Some (Some s) \<Longrightarrow> k \<in> set opts \<Longrightarrow> P s \<and> \<not> is_absent_word s"
  by (drule opt_field_SomeD) (auto simp: jget_absent split: if_splits json.splits)

lemma int_field_SomeD: "int_field lax raw k dflt lo hi = Some i \<Longrightarrow> lo \<le> dflt \<Longrightarrow> dflt \<le> hi \<Longrightarrow> lo \<le> i \<and> i \<le> hi"
  by (auto simp: int_field_def split: option.splits if_splits)

lemma employee_id_format_nonempty: "employee_id_format s \<Longrightarrow> s \<noteq> []"
  by (auto simp: employee_id_format_def)

lemma validated_args_ok: "model_validate lax m raw = Some a \<Longrightarrow> args_ok m a"
proof (cases m)
  case CreateVpnProfileArgs
  assume "model_validate lax m raw = Some a"
  with CreateVpnProfileArgs have v: "validate_vpn lax raw = Some a" by simp
  define opts where "opts = [''employee_id'', ''employee_name'', ''duration_days'']"
  define r where "r = absent_means_none opts (an_id_is_an_id raw)"
  from v obtain e n d where f: "opt_field r ''employee_id'' employee_id_format = Some e"
    "opt_field r ''employee_name'' (len_between 2 100) = Some n"
    "int_field lax r ''duration_days'' MAX_VPN_DAYS 1 MAX_VPN_DAYS = Some d"
    and one: "(e \<noteq> None \<and> e \<noteq> Some []) \<noteq> (n \<noteq> None \<and> n \<noteq> Some [])" and a: "a = VpnArgs e n d"
    by (auto simp: validate_vpn_def Let_def r_def opts_def split: if_splits option.splits)
  have n_ok: "len_between 2 100 x \<and> \<not> is_absent_word x" if "n = Some x" for x
    using opt_field_absent [of opts "an_id_is_an_id raw" "''employee_name''"] f(2) that
    by (auto simp: r_def opts_def)
  have e_ok: "employee_id_format x" if "e = Some x" for x
    using opt_field_SomeD f(1) that by blast
  have "e \<noteq> Some []"
    using e_ok employee_id_format_nonempty by blast
  moreover have "n \<noteq> Some []"
    using n_ok by (auto simp: len_between_def)
  moreover have "1 \<le> d \<and> d \<le> MAX_VPN_DAYS"
    using int_field_SomeD [OF f(3)] by (simp add: MAX_VPN_DAYS_def)
  ultimately show ?thesis
    using CreateVpnProfileArgs a one n_ok e_ok by (auto split: option.splits)
qed (auto simp: validate_search_def validate_server_def validate_ticket_def validate_get_ticket_def Let_def
    dest!: str_field_SomeD opt_field_absent split: if_splits option.splits)

text \<open>Validating dumped arguments again: an employee name that has the form of an id becomes the id.\<close>

fun settled :: "tool_args \<Rightarrow> tool_args" where
  "settled (VpnArgs None (Some n) d) =
     (if employee_id_format (py_upper (py_strip n)) then VpnArgs (Some (py_upper (py_strip n))) None d
      else VpnArgs None (Some n) d)"
| "settled a = a"

lemma employee_id_not_absent:
  assumes "employee_id_format s"
  shows "\<not> is_absent_word s"
proof -
  obtain ds where s: "s = CHR ''U'' # ds" "3 \<le> length ds" "list_all is_digit ds"
    using assms by (cases s) (auto simp: employee_id_format_def)
  have nospace: "\<not> py_space c" if "is_digit c" for c
    using that by (auto simp: is_digit_def py_space_def Let_def)
  have "\<not> py_space (last ds)"
    using s nospace by (metis last_in_set length_greater_0_conv list_all_iff not_numeral_le_zero list.size(3))
  then have "py_rstrip s = s" if "py_lstrip s = s"
    using s by (cases ds rule: rev_cases) (auto simp: py_rstrip_def)
  moreover have "py_lstrip s = s"
    using s by (simp add: py_lstrip_def py_space_def)
  ultimately have "py_strip s = s"
    by (simp add: py_strip_def)
  moreover have "py_lower s \<noteq> []" "length (py_lower s) = Suc (length ds)" "hd (py_lower s) = lower_char CHR ''U''"
    using s by (simp_all add: py_lower_def)
  moreover have "lower_char CHR ''U'' = CHR ''u''"
    by code_simp
  ultimately show ?thesis
    by (auto simp: is_absent_word_def absent_words_def)
qed

lemma jget_opt_Cons [simp]:
  "jget ((k, v) # kvs) k' = (if k' = k then Some v else jget kvs k')"
  by (simp add: jget_def)

lemma jget_Nil [simp]: "jget [] k = None"
  by (simp add: jget_def)

lemma absent_Cons [simp]:
  "absent_means_none opts ((k, v) # raw) =
     (k, if k \<in> set opts \<and> (case v of JStr s \<Rightarrow> is_absent_word s | _ \<Rightarrow> False) then JNull else v)
       # absent_means_none opts raw"
  by (simp add: absent_means_none_def)

lemma absent_Nil [simp]: "absent_means_none opts [] = []"
  by (simp add: absent_means_none_def)

lemma vpn_id_moved:
  "an_id_is_an_id (dump_args (VpnArgs e n d)) =
     (case (e, n) of
        (None, Some x) \<Rightarrow>
          if employee_id_format (py_upper (py_strip x))
          then dump_args (VpnArgs (Some (py_upper (py_strip x))) None d) else dump_args (VpnArgs e n d)
      | _ \<Rightarrow> dump_args (VpnArgs e n d))" if "(e = None) \<noteq> (n = None)" "e \<noteq> Some []"
  using that by (cases e; cases n)
    (auto simp: an_id_is_an_id_def opt_str_def employee_id_format_def)

lemma validate_vpn_dumped:
  assumes lax: "\<And>i. lax (JInt i) = Some i"
    and "(e = None) \<noteq> (n = None)" "\<And>x. e = Some x \<Longrightarrow> employee_id_format x"
    "\<And>x. n = Some x \<Longrightarrow> len_between 2 100 x \<and> \<not> is_absent_word x" "1 \<le> d" "d \<le> MAX_VPN_DAYS"
    "\<And>x. n = Some x \<Longrightarrow> \<not> employee_id_format (py_upper (py_strip x))"
  shows "validate_vpn lax (dump_args (VpnArgs e n d)) = Some (VpnArgs e n d)"
proof -
  have "e \<noteq> Some []"
    using assms(3) employee_id_format_nonempty by blast
  then have same: "an_id_is_an_id (dump_args (VpnArgs e n d)) = dump_args (VpnArgs e n d)"
    using vpn_id_moved [OF assms(2)] assms(2,7) by (cases e; cases n) auto
  show ?thesis
  proof (cases e)
    case None
    with assms(2) obtain x where n: "n = Some x" by auto
    with assms(4) [of x] have "x \<noteq> []" by (auto simp: len_between_def)
    with None n assms(4) [of x] assms(5,6) lax same show ?thesis
      by (simp add: validate_vpn_def Let_def opt_str_def opt_field_def int_field_def only_fields_def)
  next
    case (Some x)
    with assms(2) have n: "n = None" by auto
    have "x \<noteq> []" "\<not> is_absent_word x" "employee_id_format x"
      using assms(3) [OF Some] employee_id_not_absent employee_id_format_nonempty by auto
    with Some n assms(5,6) lax same show ?thesis
      by (simp add: validate_vpn_def Let_def opt_str_def opt_field_def int_field_def only_fields_def)
  qed
qed

lemma validate_vpn_moved:
  assumes "an_id_is_an_id a = b" "an_id_is_an_id b = b"
  shows "validate_vpn lax a = validate_vpn lax b"
  using assms by (simp add: validate_vpn_def)

lemma revalidated:
  assumes lax: "\<And>i. lax (JInt i) = Some i" and ok: "args_ok m a"
  shows "model_validate lax m (dump_args a) = Some (settled a)"
proof (cases m)
  case CreateVpnProfileArgs
  with ok obtain e n d where a: "a = VpnArgs e n d" by (cases a) auto
  have f: "(e = None) \<noteq> (n = None)" "\<And>x. e = Some x \<Longrightarrow> employee_id_format x"
    "\<And>x. n = Some x \<Longrightarrow> len_between 2 100 x \<and> \<not> is_absent_word x" "1 \<le> d" "d \<le> MAX_VPN_DAYS"
    using ok CreateVpnProfileArgs a by (auto split: option.splits)
  show ?thesis
  proof (cases "\<exists>x. n = Some x \<and> employee_id_format (py_upper (py_strip x))")
    case True
    then obtain x where x: "n = Some x" "employee_id_format (py_upper (py_strip x))" by blast
    define i where "i = py_upper (py_strip x)"
    have e: "e = None" using f(1) x(1) by auto
    have i: "employee_id_format i" "i \<noteq> []"
      using x(2) employee_id_format_nonempty by (auto simp: i_def)
    have "an_id_is_an_id (dump_args (VpnArgs None (Some x) d)) = dump_args (VpnArgs (Some i) None d)"
      using vpn_id_moved [of None "Some x" d] x(2) by (simp add: i_def del: dump_args.simps)
    moreover have "an_id_is_an_id (dump_args (VpnArgs (Some i) None d)) = dump_args (VpnArgs (Some i) None d)"
      using vpn_id_moved [of "Some i" None d] i by (simp del: dump_args.simps)
    ultimately have "validate_vpn lax (dump_args (VpnArgs None (Some x) d)) = validate_vpn lax (dump_args (VpnArgs (Some i) None d))"
      by (rule validate_vpn_moved)
    also have "\<dots> = Some (VpnArgs (Some i) None d)"
      by (rule validate_vpn_dumped) (use lax i f in auto)
    finally show ?thesis
      using CreateVpnProfileArgs a x e by (simp add: i_def del: dump_args.simps)
  next
    case False
    then have "validate_vpn lax (dump_args (VpnArgs e n d)) = Some (VpnArgs e n d)"
      by (intro validate_vpn_dumped) (use lax f in auto)
    moreover have "settled a = a"
      using a False by (cases e; cases n) auto
    ultimately show ?thesis
      using CreateVpnProfileArgs a by (simp del: dump_args.simps)
  qed
next
  case SearchInternalDocsArgs
  with ok obtain q d where "a = SearchArgs q d" by (cases a) auto
  with SearchInternalDocsArgs ok show ?thesis
    by (auto simp: validate_search_def Let_def str_field_def opt_field_def opt_str_def only_fields_def split: option.splits)
next
  case GetServerStatusArgs
  with ok show ?thesis
    by (cases a) (auto simp: validate_server_def Let_def str_field_def only_fields_def)
next
  case CreateSupportTicketArgs
  with ok show ?thesis
    by (cases a) (auto simp: validate_ticket_def Let_def str_field_def only_fields_def)
next
  case GetSupportTicketArgs
  with ok show ?thesis
    by (cases a) (auto simp: validate_get_ticket_def Let_def str_field_def only_fields_def)
qed

section \<open>Properties\<close>

text \<open>C28: Arguments that pass validation are within the contract of their tool (lengths, formats, known
  severities, a duration of 1 to 30 days, exactly one of employee id and name), and validating what was
  stored of them (as the approval does) succeeds and changes nothing, with one exception: an employee
  \<^emph>\<open>name\<close> of the form of an id is turned into the id.\<close>

theorem arguments_sound_and_stable:
  assumes "\<And>i. lax (JInt i) = Some i" "model_validate lax m raw = Some a"
  shows "args_ok m a \<and> model_validate lax m (dump_args a) = Some (settled a)"
  using validated_args_ok [OF assms(2)] revalidated [OF assms(1)] by blast

definition demo_lax :: "json \<Rightarrow> int option" where
  "demo_lax v = (case v of JInt i \<Rightarrow> Some i | _ \<Rightarrow> None)"

text \<open>The exception is reachable: an id field holding the text of an absent value stops the first
  move, and the stored arguments name an employee ''U006''.\<close>

theorem arguments_sound_and_stable_witness:
  "model_validate demo_lax CreateVpnProfileArgs [(''employee_id'', JStr ''null''), (''employee_name'', JStr ''U006'')]
     = Some (VpnArgs None (Some ''U006'') 30)
   \<and> model_validate demo_lax CreateVpnProfileArgs (dump_args (VpnArgs None (Some ''U006'') 30))
     = Some (VpnArgs (Some ''U006'') None 30)"
proof -
  have strip: "py_upper (py_strip ''U006'') = ''U006''" "employee_id_format ''U006''" "\<not> is_absent_word ''U006''"
    "is_absent_word ''null''"
    by code_simp+
  have v: "model_validate demo_lax CreateVpnProfileArgs [(''employee_id'', JStr ''null''), (''employee_name'', JStr ''U006'')]
     = Some (VpnArgs None (Some ''U006'') 30)"
    using strip
    by (simp add: validate_vpn_def an_id_is_an_id_def Let_def only_fields_def opt_field_def int_field_def
        len_between_def MAX_VPN_DAYS_def)
  have lax: "\<And>i. demo_lax (JInt i) = Some i" by (simp add: demo_lax_def)
  show ?thesis
    using arguments_sound_and_stable [OF lax v] v strip by (simp del: dump_args.simps)
qed

lemma ticket_at_format: "ticket_at s = Some t \<Longrightarrow> ticket_id_format t"
  by (auto simp: ticket_at_def ticket_id_format_def Let_def list_all_iff dest: set_takeWhileD split: if_splits)

lemma search_ticket_format: "search_ticket b s = Some t \<Longrightarrow> ticket_id_format t"
  by (induction b s rule: search_ticket.induct) (auto dest: ticket_at_format split: option.splits if_splits)

lemma effect_ticket_tools:
  "concat (map (\<lambda>s. case ts_trigger s of
                Some arg \<Rightarrow>
                  if ts_sensitive s \<or> effect s \<noteq> ''reads data'' then []
                  else (case search_ticket True message of
                          Some t \<Rightarrow> [(ts_name s, [(arg, JStr t)])] | None \<Rightarrow> [])
              | None \<Rightarrow> []) tools)
   = (case search_ticket True message of
        Some t \<Rightarrow> [(''get_support_ticket'', [(''ticket_id'', JStr t)])] | None \<Rightarrow> [])"
  by (simp add: tools_def effect_def py_startswith_def split: option.splits)

text \<open>The trigger that routes a message without asking a model can only name a tool that reads, with an
  argument its schema accepts.\<close>

theorem trigger_only_reads:
  "case triggered_skill message of
     None \<Rightarrow> True
   | Some (tool, raw) \<Rightarrow> tool = ''get_support_ticket'' \<and> (\<exists>s. tool_spec_of tool = Some s \<and> reads_data s
       \<and> model_validate lax (ts_args_model s) raw \<noteq> None)"
proof (cases "search_ticket True message")
  case None
  then show ?thesis
    unfolding triggered_skill_def effect_ticket_tools by simp
next
  case (Some t)
  from search_ticket_format [OF this] have t: "ticket_id_format t" .
  have "triggered_skill message = Some (''get_support_ticket'', [(''ticket_id'', JStr t)])"
    unfolding triggered_skill_def effect_ticket_tools using Some by simp
  with t show ?thesis
    by (simp add: tool_spec_of_def tools_def reads_data_def py_startswith_def validate_get_ticket_def Let_def
        str_field_def only_fields_def)
qed

text \<open>The text of an absent value is not absent for the duration: with any reading of integers that
  rejects null, a profile request whose \<open>duration_days\<close> is ''null'' or empty is refused, although the
  field has a default and the same request without it is accepted for 30 days.\<close>

theorem absent_duration_rejected:
  assumes "lax JNull = None" "is_absent_word w" "employee_id_format i"
  shows "model_validate lax CreateVpnProfileArgs [(''employee_id'', JStr i), (''duration_days'', JStr w)] = None
    \<and> model_validate lax CreateVpnProfileArgs [(''employee_id'', JStr i)] = Some (VpnArgs (Some i) None 30)"
proof -
  have i: "i \<noteq> []" "\<not> is_absent_word i" "\<not> employee_id_format []"
    using assms(3) employee_id_format_nonempty employee_id_not_absent by (auto simp: employee_id_format_def)
  then show ?thesis
    using assms
    by (simp add: validate_vpn_def an_id_is_an_id_def Let_def only_fields_def opt_field_def int_field_def
        MAX_VPN_DAYS_def)
qed

theorem absent_duration_rejected_witness:
  "model_validate demo_lax CreateVpnProfileArgs [(''employee_id'', JStr ''U006''), (''duration_days'', JStr ''null'')] = None"
proof -
  have "is_absent_word ''null''" "employee_id_format ''U006''"
    by code_simp+
  with absent_duration_rejected [of demo_lax "''null''" "''U006''"] show ?thesis
    by (simp add: demo_lax_def)
qed

end
