(* ===== verification/Providers.thy ===== *)
theory Providers
  imports PyText
begin

text \<open>
  The provider-neutral contracts of \<open>providers/base.py\<close>: messages, usage, the error hierarchy
  with its \<open>retryable\<close> class attribute, the token estimate and the mapping of HTTP statuses to
  errors. An exception object is a record with its class as \<open>pe_kind\<close>; the class-specific
  \<open>retry_after_s\<close> is an argument of its constructor.
\<close>

datatype role = RSystem | RUser | RAssistant

record chat_message =
  cm_role :: role
  cm_content :: string

record usage =
  prompt_tokens :: nat
  completion_tokens :: nat
  usage_estimated :: bool

definition no_usage :: usage where
  "no_usage = \<lparr>prompt_tokens = 0, completion_tokens = 0, usage_estimated = False\<rparr>"

definition total_tokens :: "usage \<Rightarrow> nat" where
  "total_tokens u = prompt_tokens u + completion_tokens u"

record chat_params =
  cp_temperature :: "rat option"
  cp_max_tokens :: nat

record chat_result =
  cr_content :: string
  cr_usage :: usage
  cr_finish_reason :: "string option"

datatype stream_item =
    StreamDelta string
  | StreamEnd usage "string option"

record embedding_result =
  er_vectors :: "rat list list"
  er_usage :: usage

section \<open>The error hierarchy\<close>

datatype error_kind =
    ProviderTimeout
  | ProviderUnavailable
  | ProviderRateLimited "rat option"
  | ProviderAuthError
  | ProviderModelNotFound
  | ProviderBadRequest
  | ProviderResponseError

record provider_error =
  pe_kind :: error_kind
  pe_provider :: string
  pe_message :: string
  pe_status :: "int option"

fun retryable_kind :: "error_kind \<Rightarrow> bool" where
  "retryable_kind ProviderTimeout = True"
| "retryable_kind ProviderUnavailable = True"
| "retryable_kind (ProviderRateLimited _) = True"
| "retryable_kind _ = False"

definition retryable :: "provider_error \<Rightarrow> bool" where
  "retryable e = retryable_kind (pe_kind e)"

text \<open>\<open>type(error).__name__\<close>.\<close>

fun error_name :: "error_kind \<Rightarrow> string" where
  "error_name ProviderTimeout = ''ProviderTimeout''"
| "error_name ProviderUnavailable = ''ProviderUnavailable''"
| "error_name (ProviderRateLimited _) = ''ProviderRateLimited''"
| "error_name ProviderAuthError = ''ProviderAuthError''"
| "error_name ProviderModelNotFound = ''ProviderModelNotFound''"
| "error_name ProviderBadRequest = ''ProviderBadRequest''"
| "error_name ProviderResponseError = ''ProviderResponseError''"

text \<open>\<open>super().__init__(f"[{provider}] {message}")\<close>: the stored message carries the provider.\<close>

definition provider_exc :: "error_kind \<Rightarrow> string \<Rightarrow> string \<Rightarrow> int option \<Rightarrow> provider_error" where
  "provider_exc k p m st =
     \<lparr>pe_kind = k, pe_provider = p, pe_message = ''['' @ p @ ''] '' @ m, pe_status = st\<rparr>"

lemma provider_exc_simps [simp]:
  "pe_kind (provider_exc k p m st) = k"
  "pe_provider (provider_exc k p m st) = p"
  "pe_status (provider_exc k p m st) = st"
  by (simp_all add: provider_exc_def)

section \<open>Token estimate\<close>

definition estimate_tokens :: "string \<Rightarrow> nat" where
  "estimate_tokens t = (if t = [] then 0 else max 1 ((length t + 3) div 4))"

definition messages_estimate :: "chat_message list \<Rightarrow> nat" where
  "messages_estimate ms = sum_list (map (\<lambda>m. estimate_tokens (cm_content m)) ms)"

lemma estimate_tokens_eq: "estimate_tokens t = (length t + 3) div 4"
  by (cases t) (auto simp: estimate_tokens_def)

lemma estimate_tokens_mono: "length s \<le> length t \<Longrightarrow> estimate_tokens s \<le> estimate_tokens t"
  by (simp add: estimate_tokens_eq div_le_mono)

lemma estimate_tokens_pos: "0 < estimate_tokens t \<longleftrightarrow> t \<noteq> []"
  by (cases t) (auto simp: estimate_tokens_def)

lemma estimate_tokens_append:
  "estimate_tokens (s @ t) \<le> estimate_tokens s + estimate_tokens t"
  by (simp add: estimate_tokens_eq)

section \<open>HTTP status classification\<close>

text \<open>
  \<open>float_of\<close> is Python's \<open>float(retry_after)\<close>, with \<open>None\<close> for the \<open>ValueError\<close> of a header
  that is not a number (an HTTP date).
\<close>

definition retry_seconds :: "(string \<Rightarrow> rat option) \<Rightarrow> string option \<Rightarrow> rat option" where
  "retry_seconds float_of h =
     (case h of None \<Rightarrow> None | Some s \<Rightarrow> if s = [] then None else float_of s)"

definition classify_http_status ::
  "(string \<Rightarrow> rat option) \<Rightarrow> string \<Rightarrow> int \<Rightarrow> string \<Rightarrow> string option \<Rightarrow> provider_error" where
  "classify_http_status float_of provider status body retry_after =
     (let snippet = take 200 body in
      if status = 429 then
        provider_exc (ProviderRateLimited (retry_seconds float_of retry_after)) provider
          (''rate limited: '' @ snippet) (Some 429)
      else if status = 401 \<or> status = 403 then
        provider_exc ProviderAuthError provider (''auth failed ('' @ int_str status @ '')'') (Some status)
      else if status = 404 then
        provider_exc ProviderModelNotFound provider (''not found: '' @ snippet) (Some status)
      else if status = 408 \<or> 500 \<le> status then
        provider_exc ProviderUnavailable provider
          (''HTTP '' @ int_str status @ '': '' @ snippet) (Some status)
      else
        provider_exc ProviderBadRequest provider
          (''HTTP '' @ int_str status @ '': '' @ snippet) (Some status))"

text \<open>
  The decision table of the gateway read off the HTTP status alone. A status is worth a retry
  exactly when it says the provider is busy or broken, and only a client error that is none of
  the named ones stops the fallback chain.
\<close>

lemma classify_retryable_iff:
  "retryable (classify_http_status f p st b ra) \<longleftrightarrow> st = 429 \<or> st = 408 \<or> 500 \<le> st"
  by (auto simp: classify_http_status_def retryable_def Let_def)

lemma classify_bad_request_iff:
  "pe_kind (classify_http_status f p st b ra) = ProviderBadRequest
   \<longleftrightarrow> st < 500 \<and> st \<notin> {401, 403, 404, 408, 429}"
  by (auto simp: classify_http_status_def Let_def)

end
