(* ===== verification/Resilience.thy ===== *)
theory Resilience
  imports Providers
begin

text \<open>
  \<open>gateway/resilience.py\<close>: the retry delay with full jitter, the circuit breaker of one model and
  the registry of breakers. The breaker's clock is an argument \<open>now\<close> of the operations that read
  it; the registry hands out breakers by model id and creates them closed.
\<close>

section \<open>Backoff\<close>

record backoff_policy =
  base_s :: rat
  cap_s :: rat

definition default_backoff :: backoff_policy where
  "default_backoff = \<lparr>base_s = 1/2, cap_s = 8\<rparr>"

text \<open>
  \<open>rng.uniform(a, b)\<close> is \<open>a + (b - a) * random()\<close>; \<open>r\<close> is the number in \<open>[0, 1)\<close> that
  \<open>random()\<close> returned.
\<close>

definition uniform :: "rat \<Rightarrow> rat \<Rightarrow> rat \<Rightarrow> rat" where
  "uniform a b r = a + (b - a) * r"

definition delay :: "backoff_policy \<Rightarrow> nat \<Rightarrow> provider_error \<Rightarrow> rat \<Rightarrow> rat" where
  "delay p attempt e r =
     (case pe_kind e of
        ProviderRateLimited (Some s) \<Rightarrow> min s (cap_s p)
      | _ \<Rightarrow> uniform 0 (min (cap_s p) (base_s p * 2 ^ (attempt - 1))) r)"

lemma uniform_bounds: "0 \<le> c \<Longrightarrow> 0 \<le> r \<Longrightarrow> r < 1 \<Longrightarrow> 0 \<le> uniform 0 c r \<and> uniform 0 c r \<le> c"
  by (simp add: uniform_def mult_left_le)

section \<open>Circuit breaker\<close>

datatype breaker_state = Closed | Open | HalfOpen

record breaker =
  failure_threshold :: int
  cooldown_s :: rat
  br_failures :: int
  opened_at :: "rat option"
  probe_in_flight :: bool

definition new_breaker :: "int \<Rightarrow> rat \<Rightarrow> breaker" where
  "new_breaker threshold cooldown =
     \<lparr>failure_threshold = threshold, cooldown_s = cooldown, br_failures = 0,
      opened_at = None, probe_in_flight = False\<rparr>"

definition state_of :: "breaker \<Rightarrow> rat \<Rightarrow> breaker_state" where
  "state_of b now =
     (case opened_at b of
        None \<Rightarrow> Closed
      | Some t \<Rightarrow> if cooldown_s b \<le> now - t then HalfOpen else Open)"

definition allow :: "breaker \<Rightarrow> rat \<Rightarrow> bool \<times> breaker" where
  "allow b now =
     (if state_of b now = Closed then (True, b)
      else if state_of b now = HalfOpen \<and> \<not> probe_in_flight b
      then (True, b\<lparr>probe_in_flight := True\<rparr>)
      else (False, b))"

definition record_success :: "breaker \<Rightarrow> breaker" where
  "record_success b = b\<lparr>br_failures := 0, opened_at := None, probe_in_flight := False\<rparr>"

definition record_failure :: "breaker \<Rightarrow> rat \<Rightarrow> breaker" where
  "record_failure b now =
     (let b = b\<lparr>probe_in_flight := False, br_failures := br_failures b + 1\<rparr>
      in if opened_at b \<noteq> None \<or> failure_threshold b \<le> br_failures b
         then b\<lparr>opened_at := Some now\<rparr> else b)"

lemmas breaker_defs = state_of_def allow_def record_success_def record_failure_def

subsection \<open>The breaker as a state machine\<close>

text \<open>
  Every call the program makes on a breaker, in the order it makes them; each carries the clock
  it reads. \<open>Allowed\<close> and \<open>Refused\<close> are the two results of \<open>allow()\<close>.
\<close>

datatype breaker_event = Allowed rat | Refused rat | Succeeded | Failed rat

inductive breaker_step :: "breaker \<Rightarrow> breaker_event \<Rightarrow> breaker \<Rightarrow> bool" where
  step_allowed: "allow b now = (True, b') \<Longrightarrow> breaker_step b (Allowed now) b'"
| step_refused: "allow b now = (False, b') \<Longrightarrow> breaker_step b (Refused now) b'"
| step_success: "breaker_step b Succeeded (record_success b)"
| step_failure: "breaker_step b (Failed now) (record_failure b now)"

inductive breaker_run :: "breaker \<Rightarrow> breaker_event list \<Rightarrow> breaker \<Rightarrow> bool" where
  run_nil: "breaker_run b [] b"
| run_cons: "breaker_step b e b' \<Longrightarrow> breaker_run b' es b'' \<Longrightarrow> breaker_run b (e # es) b''"

inductive_cases breaker_stepE: "breaker_step b e b'"
inductive_simps breaker_run_Nil [simp]: "breaker_run b [] b'"
inductive_simps breaker_run_Cons: "breaker_run b (e # es) b'"

text \<open>
  The well-formedness of a breaker that was created with a positive threshold: closed means the
  consecutive failures are still below it, and only an opened breaker has a probe in flight.
\<close>

definition breaker_wf :: "breaker \<Rightarrow> bool" where
  "breaker_wf b \<longleftrightarrow> 0 < failure_threshold b \<and> 0 \<le> br_failures b
     \<and> (opened_at b = None \<longrightarrow> br_failures b < failure_threshold b \<and> \<not> probe_in_flight b)"

lemma breaker_wf_new [simp]: "0 < n \<Longrightarrow> breaker_wf (new_breaker n c)"
  by (simp add: breaker_wf_def new_breaker_def)

lemma breaker_wf_step [preserved]: "breaker_step b e b' \<Longrightarrow> breaker_wf b \<Longrightarrow> breaker_wf b'"
  by (erule breaker_stepE)
    (auto simp: breaker_wf_def breaker_defs Let_def split: if_splits option.splits)

lemma breaker_wf_run: "breaker_run b es b' \<Longrightarrow> breaker_wf b \<Longrightarrow> breaker_wf b'"
  by (induction rule: breaker_run.induct) (auto intro: breaker_wf_step)

lemma breaker_params_step:
  "breaker_step b e b' \<Longrightarrow> failure_threshold b' = failure_threshold b \<and> cooldown_s b' = cooldown_s b"
  by (erule breaker_stepE) (auto simp: breaker_defs Let_def split: if_splits)

text \<open>Failures in a row, with nothing else in between.\<close>

lemma failures_in_a_row:
  "opened_at b = None \<Longrightarrow> br_failures b + int (length ts) < failure_threshold b \<Longrightarrow>
   breaker_run b (map Failed ts) b' \<Longrightarrow>
   opened_at b' = None \<and> br_failures b' = br_failures b + int (length ts)"
proof (induction ts arbitrary: b)
  case Nil
  then show ?case by simp
next
  case (Cons t ts)
  let ?b = "record_failure b t"
  have "opened_at ?b = None" "br_failures ?b = br_failures b + 1"
    "failure_threshold ?b = failure_threshold b"
    using Cons.prems by (auto simp: record_failure_def Let_def)
  moreover have "breaker_run ?b (map Failed ts) b'"
    using Cons.prems by (auto simp: breaker_run_Cons elim!: breaker_stepE)
  ultimately show ?case
    using Cons.IH [of ?b] Cons.prems by simp
qed

text \<open>
  The events that may follow a refused or probing breaker without resolving the probe: other
  callers asking for admission. None of them changes the breaker.
\<close>

definition stuck :: "breaker \<Rightarrow> bool" where
  "stuck b \<longleftrightarrow> opened_at b \<noteq> None \<and> probe_in_flight b"

lemma stuck_allow: "stuck b \<Longrightarrow> allow b now = (False, b)"
  by (auto simp: stuck_def breaker_defs split: option.splits)

lemma allow_half_open: "fst (allow b now) \<Longrightarrow> state_of b now = HalfOpen \<Longrightarrow> stuck (snd (allow b now))"
  by (auto simp: stuck_def breaker_defs split: if_splits option.splits)

section \<open>Registry\<close>

record registry =
  reg_threshold :: int
  reg_cooldown :: rat
  reg_breakers :: "(string, breaker) dict"

definition new_registry :: "int \<Rightarrow> rat \<Rightarrow> registry" where
  "new_registry threshold cooldown =
     \<lparr>reg_threshold = threshold, reg_cooldown = cooldown, reg_breakers = []\<rparr>"

text \<open>\<open>get\<close> creates a missing breaker; the object it returns is shared, so an update of it is an
  update of the registry (\<open>put_breaker\<close>).\<close>

definition get_breaker :: "registry \<Rightarrow> string \<Rightarrow> breaker \<times> registry" where
  "get_breaker r m =
     (case dict_get (reg_breakers r) m of
        Some b \<Rightarrow> (b, r)
      | None \<Rightarrow> (let b = new_breaker (reg_threshold r) (reg_cooldown r)
                 in (b, r\<lparr>reg_breakers := dict_put m b (reg_breakers r)\<rparr>)))"

definition put_breaker :: "string \<Rightarrow> breaker \<Rightarrow> registry \<Rightarrow> registry" where
  "put_breaker m b r = r\<lparr>reg_breakers := dict_put m b (reg_breakers r)\<rparr>"

definition states :: "registry \<Rightarrow> rat \<Rightarrow> (string, breaker_state) dict" where
  "states r now = map (\<lambda>(m, b). (m, state_of b now)) (reg_breakers r)"

text \<open>The breaker a caller sees under an id, whether or not it exists yet.\<close>

definition breaker_at :: "registry \<Rightarrow> string \<Rightarrow> breaker" where
  "breaker_at r m = fst (get_breaker r m)"

definition registry_wf :: "registry \<Rightarrow> bool" where
  "registry_wf r \<longleftrightarrow> 0 < reg_threshold r \<and> (\<forall>b \<in> set (map snd (reg_breakers r)). breaker_wf b)"

lemma breaker_at_put [simp]:
  "breaker_at (put_breaker m b r) m' = (if m' = m then b else breaker_at r m')"
  by (simp add: breaker_at_def put_breaker_def get_breaker_def Let_def split: option.splits)

lemma breaker_at_get [simp]: "breaker_at (snd (get_breaker r m)) m' = breaker_at r m'"
  by (auto simp: breaker_at_def get_breaker_def Let_def split: option.splits)

lemma get_breaker_eq: "get_breaker r m = (breaker_at r m, snd (get_breaker r m))"
  by (simp add: breaker_at_def)

section \<open>Properties of one breaker\<close>

lemma record_failure_open:
  "opened_at b \<noteq> None \<Longrightarrow> opened_at (record_failure b t) = Some t"
  by (simp add: record_failure_def Let_def)

lemma failures_when_open:
  "breaker_run b (map Failed ts) b' \<Longrightarrow> opened_at b \<noteq> None \<Longrightarrow> ts \<noteq> [] \<Longrightarrow> opened_at b' = Some (last ts)"
proof (induction ts arbitrary: b)
  case (Cons t ts)
  then have run: "breaker_run (record_failure b t) (map Failed ts) b'"
    by (auto simp: breaker_run_Cons elim!: breaker_stepE)
  show ?case
    using Cons.IH [OF run] run record_failure_open [OF Cons.prems(2), of t] by (cases ts) auto
qed simp

lemma opens_exactly:
  "breaker_run b (map Failed ts) b' \<Longrightarrow> opened_at b = None \<Longrightarrow> br_failures b < failure_threshold b \<Longrightarrow>
   opened_at b' = (if failure_threshold b \<le> br_failures b + int (length ts) then Some (last ts) else None)"
proof (induction ts arbitrary: b)
  case (Cons t ts)
  let ?b = "record_failure b t"
  have run: "breaker_run ?b (map Failed ts) b'"
    using Cons.prems(1) by (auto simp: breaker_run_Cons elim!: breaker_stepE)
  have b: "br_failures ?b = br_failures b + 1" "failure_threshold ?b = failure_threshold b"
    "opened_at ?b = (if failure_threshold b \<le> br_failures b + 1 then Some t else None)"
    using Cons.prems(2) by (auto simp: record_failure_def Let_def)
  show ?case
  proof (cases "failure_threshold b \<le> br_failures b + 1")
    case True
    then show ?thesis
      using failures_when_open [OF run] run b by (cases ts) auto
  next
    case False
    then show ?thesis
      using Cons.IH [OF run] b by (cases ts) auto
  qed
qed simp

text \<open>A fresh breaker opens at exactly the configured number of consecutive failures, is dated
  by the last of them, and from then on refuses every call until its cooldown has passed.\<close>

theorem breaker_opens_at_threshold:
  assumes "breaker_run (new_breaker n c) (map Failed ts) b" "0 < n"
  shows "(opened_at b \<noteq> None \<longleftrightarrow> n \<le> int (length ts))
    \<and> (n \<le> int (length ts) \<longrightarrow> now - last ts < c \<longrightarrow> allow b now = (False, b))"
proof -
  have o: "opened_at b = (if n \<le> int (length ts) then Some (last ts) else None)"
    using opens_exactly [OF assms(1)] assms(2) by (simp add: new_breaker_def)
  have "cooldown_s b' = cooldown_s b0" if "breaker_run b0 es b'" for b0 es b'
    using that by (induction rule: breaker_run.induct) (auto dest: breaker_params_step)
  from this [OF assms(1)] have "cooldown_s b = c"
    by (simp add: new_breaker_def)
  with o show ?thesis by (auto simp: allow_def state_of_def)
qed

theorem breaker_opens_at_threshold_witness:
  "\<exists>b. breaker_run (new_breaker 2 30) (map Failed [1, 4]) b \<and> allow b 20 = (False, b)"
proof -
  let ?b1 = "record_failure (new_breaker 2 30) 1"
  let ?b = "record_failure ?b1 4"
  have run: "breaker_run (new_breaker 2 30) (map Failed [1, 4]) ?b"
    by (auto intro!: breaker_run.intros breaker_step.intros)
  have "allow ?b 20 = (False, ?b)"
    using breaker_opens_at_threshold [OF run, of 20] by simp
  with run show ?thesis by blast
qed

fun is_asking :: "breaker_event \<Rightarrow> bool" where
  "is_asking (Allowed _) = True"
| "is_asking (Refused _) = True"
| "is_asking _ = False"

lemma stuck_run:
  "breaker_run b es b' \<Longrightarrow> stuck b \<Longrightarrow> list_all is_asking es \<Longrightarrow>
   b' = b \<and> list_all (\<lambda>e. \<exists>t. e = Refused t) es"
proof (induction rule: breaker_run.induct)
  case (run_cons b e b' es b'')
  from run_cons.hyps(1) run_cons.prems have "b' = b \<and> (\<exists>t. e = Refused t)"
    by (cases rule: breaker_step.cases) (auto simp: stuck_allow)
  with run_cons show ?case by auto
qed simp

text \<open>A half-open breaker lets one probe through and no second one before the probe's result
  is recorded, however long that takes; a probe whose result is never recorded blocks it for good.\<close>

theorem one_probe_at_a_time:
  assumes "state_of b now = HalfOpen" "allow b now = (True, b1)" "breaker_run b1 es b2"
    "list_all is_asking es"
  shows "b2 = b1 \<and> list_all (\<lambda>e. \<exists>t. e = Refused t) es"
proof -
  have "stuck b1"
    using allow_half_open [of b now] assms(1,2) by simp
  from stuck_run [OF assms(3) this assms(4)] show ?thesis .
qed

theorem one_probe_at_a_time_witness:
  "\<exists>b1. allow (record_failure (new_breaker 1 30) 0) 40 = (True, b1)
     \<and> breaker_run b1 [Refused 41, Refused 100000] b1 \<and> list_all (\<lambda>e. \<exists>t. e = Refused t) [Refused 41, Refused 100000]"
proof -
  let ?b = "record_failure (new_breaker 1 30) 0"
  let ?b1 = "?b\<lparr>probe_in_flight := True\<rparr>"
  have s: "state_of ?b 40 = HalfOpen" "allow ?b 40 = (True, ?b1)" "stuck ?b1"
    by (simp_all add: breaker_defs new_breaker_def Let_def stuck_def)
  then have run: "breaker_run ?b1 [Refused 41, Refused 100000] ?b1"
    by (auto intro!: breaker_run.intros step_refused simp: stuck_allow)
  from one_probe_at_a_time [OF s(1,2) run] s run show ?thesis by auto
qed

end
