(* ===== verification/Catalog.thy ===== *)
theory Catalog
  imports Providers
begin

text \<open>
  \<open>gateway/catalog.py\<close>: which models exist, which provider serves them, how a route or a picked
  model resolves to an ordered chain of targets. The validator that pydantic runs on every
  construction of a catalog is \<open>validate_references\<close>; \<open>mk_catalog\<close> is the constructor.
\<close>

datatype model_kind = Chat | Embedding
datatype provider_kind = OpenAICompatible | Ollama | Anthropic | Mock

record provider_config =
  pc_kind :: provider_kind
  pc_base_url :: "string option"
  pc_base_url_env :: "string option"
  pc_api_key_env :: "string option"
  pc_send_input_type :: bool
  pc_timeout_s :: rat
  pc_max_attempts :: nat
  pc_data_egress :: bool

text \<open>\<open>env\<close> is \<open>os.environ\<close>. An empty value counts as unset.\<close>

definition nonempty :: "string option \<Rightarrow> bool" where
  "nonempty s \<longleftrightarrow> s \<noteq> None \<and> s \<noteq> Some []"

definition resolved_base_url :: "(string \<Rightarrow> string option) \<Rightarrow> provider_config \<Rightarrow> string option" where
  "resolved_base_url env p =
     (if nonempty (pc_base_url_env p) \<and> nonempty (env (the (pc_base_url_env p)))
      then env (the (pc_base_url_env p)) else pc_base_url p)"

definition api_key :: "(string \<Rightarrow> string option) \<Rightarrow> provider_config \<Rightarrow> string option" where
  "api_key env p =
     (if \<not> nonempty (pc_api_key_env p) then None
      else let v = env (the (pc_api_key_env p)) in if nonempty v then v else None)"

record model_spec =
  ms_id :: string
  ms_provider :: string
  ms_provider_model :: string
  ms_kind :: model_kind
  ms_context_window :: "int option"
  ms_dimensions :: "int option"
  ms_input_usd_per_mtok :: rat
  ms_output_usd_per_mtok :: rat
  ms_supports_temperature :: bool
  ms_min_relevance :: "rat option"

definition estimate_cost_usd :: "model_spec \<Rightarrow> nat \<Rightarrow> nat \<Rightarrow> rat" where
  "estimate_cost_usd m p c =
     (ms_input_usd_per_mtok m * of_nat p + ms_output_usd_per_mtok m * of_nat c) / 1000000"

record catalog =
  cat_providers :: "(string, provider_config) dict"
  cat_models :: "model_spec list"
  cat_routes :: "(string, string list) dict"
  cat_default_chat :: string
  cat_default_embedding :: string
  cat_selectable :: "string list"

section \<open>Validation\<close>

datatype catalog_error =
    DuplicateModelIds
  | UnknownProvider string string
  | MissingDimensions string
  | RouteCollides string
  | EmptyRoute string
  | UnknownModels string "string list"
  | MixedKinds string
  | EmbeddingRouteNotSingle string
  | NotAChatModel string
  | DuplicateSelectable
  | DefaultUndefined model_kind string
  | DefaultWrongKind model_kind string

text \<open>\<open>{m.id: m for m in models}\<close>: a repeated id keeps its last model.\<close>

definition by_id :: "model_spec list \<Rightarrow> string \<Rightarrow> model_spec option" where
  "by_id ms i = map_of (rev (map (\<lambda>m. (ms_id m, m)) ms)) i"

definition check_model :: "catalog \<Rightarrow> model_spec \<Rightarrow> catalog_error option" where
  "check_model c m =
     (if \<not> dict_has (cat_providers c) (ms_provider m) then Some (UnknownProvider (ms_id m) (ms_provider m))
      else if ms_kind m = Embedding \<and> (ms_dimensions m = None \<or> ms_dimensions m = Some 0)
      then Some (MissingDimensions (ms_id m)) else None)"

definition kind_of :: "catalog \<Rightarrow> string \<Rightarrow> model_kind option" where
  "kind_of c t = map_option ms_kind (by_id (cat_models c) t)"

definition check_route :: "catalog \<Rightarrow> string \<times> string list \<Rightarrow> catalog_error option" where
  "check_route c r =
     (let name = fst r; targets = snd r;
          missing = filter (\<lambda>t. by_id (cat_models c) t = None) targets;
          kinds = map (kind_of c) targets in
      if by_id (cat_models c) name \<noteq> None then Some (RouteCollides name)
      else if targets = [] then Some (EmptyRoute name)
      else if missing \<noteq> [] then Some (UnknownModels name missing)
      else if length (remdups kinds) \<noteq> 1 then Some (MixedKinds name)
      else if set kinds = {Some Embedding} \<and> length targets \<noteq> 1
      then Some (EmbeddingRouteNotSingle name) else None)"

definition check_selectable :: "catalog \<Rightarrow> string \<Rightarrow> catalog_error option" where
  "check_selectable c m = (if kind_of c m \<noteq> Some Chat then Some (NotAChatModel m) else None)"

definition check_default :: "catalog \<Rightarrow> model_kind \<Rightarrow> string \<Rightarrow> catalog_error option" where
  "check_default c k route =
     (case dict_get (cat_routes c) route of
        None \<Rightarrow> Some (DefaultUndefined k route)
      | Some targets \<Rightarrow>
          if kind_of c (hd targets) \<noteq> Some k then Some (DefaultWrongKind k route) else None)"

text \<open>The first error a loop raises, if any.\<close>

fun first_error :: "('a \<Rightarrow> 'e option) \<Rightarrow> 'a list \<Rightarrow> 'e option" where
  "first_error f [] = None"
| "first_error f (x # xs) = (case f x of Some e \<Rightarrow> Some e | None \<Rightarrow> first_error f xs)"

fun first_some :: "'e option list \<Rightarrow> 'e option" where
  "first_some [] = None"
| "first_some (Some e # es) = Some e"
| "first_some (None # es) = first_some es"

definition validate_references :: "catalog \<Rightarrow> catalog_error option" where
  "validate_references c = first_some
     [ if \<not> distinct (map ms_id (cat_models c)) then Some DuplicateModelIds else None,
       first_error (check_model c) (cat_models c),
       first_error (check_route c) (cat_routes c),
       first_error (check_selectable c) (cat_selectable c),
       if \<not> distinct (cat_selectable c) then Some DuplicateSelectable else None,
       check_default c Chat (cat_default_chat c),
       check_default c Embedding (cat_default_embedding c) ]"

definition mk_catalog :: "catalog \<Rightarrow> catalog_error + catalog" where
  "mk_catalog c = (case validate_references c of Some e \<Rightarrow> Inl e | None \<Rightarrow> Inr c)"

section \<open>Resolution\<close>

text \<open>The exceptions of the lookups: \<open>UnknownModelError\<close>, and the \<open>KeyError\<close> and \<open>IndexError\<close>
  that only an unvalidated catalog could raise.\<close>

datatype resolve_error = UnknownModelError string | CatalogKeyError string | CatalogIndexError

definition model :: "catalog \<Rightarrow> string \<Rightarrow> resolve_error + model_spec" where
  "model c i = (case find (\<lambda>m. ms_id m = i) (cat_models c) of
                  Some m \<Rightarrow> Inr m | None \<Rightarrow> Inl (CatalogKeyError i))"

definition default_route :: "catalog \<Rightarrow> model_kind \<Rightarrow> string" where
  "default_route c k = (if k = Chat then cat_default_chat c else cat_default_embedding c)"

definition route_of :: "catalog \<Rightarrow> string option \<Rightarrow> model_kind \<Rightarrow> string" where
  "route_of c name k = (if nonempty name then the name else default_route c k)"

definition route_targets :: "catalog \<Rightarrow> string \<Rightarrow> resolve_error + model_spec list" where
  "route_targets c route =
     (case dict_get (cat_routes c) route of
        Some ts \<Rightarrow> map_result (model c) ts
      | None \<Rightarrow> (case model c route of Inr m \<Rightarrow> Inr [m] | Inl _ \<Rightarrow> Inl (UnknownModelError route)))"

definition resolve :: "catalog \<Rightarrow> string option \<Rightarrow> model_kind \<Rightarrow> resolve_error + (string \<times> model_spec list)" where
  "resolve c name k =
     (let route = route_of c name k in
      if k = Chat \<and> route \<in> set (cat_selectable c) then
        bind_result (map_result (model c) (route # filter (\<lambda>m. m \<noteq> route) (cat_selectable c)))
          (\<lambda>ts. Inr (route, ts))
      else
        bind_result (route_targets c route)
          (\<lambda>ts. if ts = [] then Inl CatalogIndexError
                else if ms_kind (hd ts) \<noteq> k then Inl (UnknownModelError route)
                else Inr (route, ts)))"

definition without_provider :: "catalog \<Rightarrow> string \<Rightarrow> catalog_error + catalog" where
  "without_provider c p =
     (let models = filter (\<lambda>m. ms_provider m \<noteq> p) (cat_models c);
          kept = map ms_id models;
          routes = map (\<lambda>(n, ts). (n, filter (\<lambda>t. t \<in> set kept) ts))
                     (filter (\<lambda>(n, ts). \<exists>t \<in> set ts. t \<in> set kept) (cat_routes c))
      in mk_catalog
           \<lparr>cat_providers = filter (\<lambda>(k, v). k \<noteq> p) (cat_providers c),
            cat_models = models, cat_routes = routes,
            cat_default_chat = cat_default_chat c,
            cat_default_embedding = cat_default_embedding c,
            cat_selectable = filter (\<lambda>m. m \<in> set kept) (cat_selectable c)\<rparr>)"

definition check_choice :: "catalog \<Rightarrow> string option \<Rightarrow> bool \<Rightarrow> resolve_error + unit" where
  "check_choice c name allow_any =
     (case name of None \<Rightarrow> Inr ()
      | Some n \<Rightarrow>
          if n \<in> set (cat_selectable c) then Inr ()
          else if \<not> allow_any then Inl (UnknownModelError n)
          else bind_result (resolve c (Some n) Chat) (\<lambda>_. Inr ()))"

section \<open>What a validated catalog guarantees\<close>

definition catalog_wf :: "catalog \<Rightarrow> bool" where
  "catalog_wf c \<longleftrightarrow>
     distinct (map ms_id (cat_models c))
   \<and> (\<forall>m \<in> set (cat_models c). dict_has (cat_providers c) (ms_provider m)
        \<and> (ms_kind m = Embedding \<longrightarrow> (\<exists>d. ms_dimensions m = Some d \<and> d \<noteq> 0)))
   \<and> (\<forall>r \<in> set (cat_routes c). case r of (n, ts) \<Rightarrow> ts \<noteq> [] \<and> n \<notin> set (map ms_id (cat_models c))
        \<and> (\<exists>k. \<forall>t \<in> set ts. kind_of c t = Some k)
        \<and> (\<forall>t \<in> set ts. kind_of c t = Some Embedding \<longrightarrow> ts = [t]))
   \<and> (\<forall>m \<in> set (cat_selectable c). kind_of c m = Some Chat)
   \<and> distinct (cat_selectable c)
   \<and> (\<forall>k. \<exists>ts. dict_get (cat_routes c) (default_route c k) = Some ts
        \<and> kind_of c (hd ts) = Some k)"

lemma first_error_None: "first_error f xs = None \<longleftrightarrow> (\<forall>x \<in> set xs. f x = None)"
  by (induction xs) (auto split: option.splits)

lemma first_some_None: "first_some es = None \<longleftrightarrow> (\<forall>e \<in> set es. e = None)"
  by (induction es rule: first_some.induct) auto

lemma by_id_Some: "by_id ms i = Some m \<Longrightarrow> m \<in> set ms \<and> ms_id m = i"
  by (auto simp: by_id_def dest!: map_of_SomeD)

lemma by_id_None: "by_id ms i = None \<longleftrightarrow> i \<notin> set (map ms_id ms)"
  by (auto simp: by_id_def map_of_eq_None_iff image_image)

lemma by_id_member:
  "distinct (map ms_id ms) \<Longrightarrow> m \<in> set ms \<Longrightarrow> by_id ms (ms_id m) = Some m"
  unfolding by_id_def
  by (subst map_of_eq_Some_iff) (auto simp: rev_map [symmetric] comp_def)

lemma by_id_eq_find:
  assumes "distinct (map ms_id ms)"
  shows "by_id ms i = find (\<lambda>m. ms_id m = i) ms"
proof (cases "find (\<lambda>m. ms_id m = i) ms")
  case None
  then have "by_id ms i = None"
    by (auto simp: by_id_None find_None_iff)
  with None show ?thesis by simp
next
  case (Some m)
  then have "m \<in> set ms" "ms_id m = i"
    by (auto simp: find_Some_iff)
  with assms Some show ?thesis by (auto dest: by_id_member)
qed

lemma kind_of_None: "kind_of c t = None \<longleftrightarrow> by_id (cat_models c) t = None"
  by (simp add: kind_of_def)

text \<open>The validator accepts exactly the well-formed catalogs.\<close>

lemma check_model_None:
  "check_model c m = None \<longleftrightarrow> dict_has (cat_providers c) (ms_provider m)
     \<and> (ms_kind m = Embedding \<longrightarrow> (\<exists>d. ms_dimensions m = Some d \<and> d \<noteq> 0))"
  by (auto simp: check_model_def)

lemma one_kind_iff: "length (remdups ks) = 1 \<longleftrightarrow> ks \<noteq> [] \<and> (\<forall>k \<in> set ks. k = hd ks)"
proof -
  have "length (remdups ks) = card (set ks)"
    by (simp add: length_remdups_card_conv)
  moreover have "card (set ks) = 1 \<longleftrightarrow> ks \<noteq> [] \<and> (\<forall>k \<in> set ks. k = hd ks)"
    by (cases ks) (auto simp: card_Suc_eq One_nat_def)
  ultimately show ?thesis by simp
qed

lemma check_route_None:
  "check_route c (n, ts) = None \<longleftrightarrow>
     ts \<noteq> [] \<and> n \<notin> set (map ms_id (cat_models c))
     \<and> (\<exists>k. \<forall>t \<in> set ts. kind_of c t = Some k)
     \<and> (\<forall>t \<in> set ts. kind_of c t = Some Embedding \<longrightarrow> ts = [t])"
proof (cases ts)
  case Nil
  then show ?thesis by (auto simp: check_route_def Let_def)
next
  case (Cons t us)
  define missing where "missing = filter (\<lambda>t. by_id (cat_models c) t = None) ts"
  have missing: "missing = [] \<longleftrightarrow> (\<forall>t \<in> set ts. kind_of c t \<noteq> None)"
    by (simp add: missing_def filter_empty_conv kind_of_None)
  have kinds: "length (remdups (map (kind_of c) ts)) = 1 \<longleftrightarrow> (\<forall>u \<in> set us. kind_of c u = kind_of c t)"
    using one_kind_iff [of "map (kind_of c) ts"] by (simp add: Cons)
  have embed: "set (map (kind_of c) ts) = {Some Embedding} \<and> length ts \<noteq> 1
      \<longleftrightarrow> (\<forall>u \<in> set ts. kind_of c u = Some Embedding) \<and> us \<noteq> []"
    by (auto simp: Cons)
  have "check_route c (n, ts) = None \<longleftrightarrow> n \<notin> set (map ms_id (cat_models c))
      \<and> (\<forall>t \<in> set ts. kind_of c t \<noteq> None) \<and> (\<forall>u \<in> set us. kind_of c u = kind_of c t)
      \<and> \<not> ((\<forall>u \<in> set ts. kind_of c u = Some Embedding) \<and> us \<noteq> [])"
    unfolding check_route_def Let_def fst_conv snd_conv missing_def [symmetric] kinds embed
      by_id_None [symmetric]
    using missing by (cases "missing = []"; cases "by_id (cat_models c) n") (auto simp: Cons)
  also have "\<dots> \<longleftrightarrow> ts \<noteq> [] \<and> n \<notin> set (map ms_id (cat_models c))
     \<and> (\<exists>k. \<forall>t \<in> set ts. kind_of c t = Some k)
     \<and> (\<forall>t \<in> set ts. kind_of c t = Some Embedding \<longrightarrow> ts = [t])"
    unfolding Cons by (cases "kind_of c t") auto
  finally show ?thesis .
qed

lemma check_default_None:
  "check_default c k r = None \<longleftrightarrow>
     (\<exists>ts. dict_get (cat_routes c) r = Some ts \<and> kind_of c (hd ts) = Some k)"
  by (auto simp: check_default_def split: option.splits)

lemma validate_references_iff: "validate_references c = None \<longleftrightarrow> catalog_wf c"
proof -
  have all: "(\<forall>k. P k) \<longleftrightarrow> P Chat \<and> P Embedding" for P
    by (metis model_kind.exhaust)
  have route: "check_route c r = None \<longleftrightarrow> (case r of (n, ts) \<Rightarrow> ts \<noteq> [] \<and> n \<notin> set (map ms_id (cat_models c))
        \<and> (\<exists>k. \<forall>t \<in> set ts. kind_of c t = Some k)
        \<and> (\<forall>t \<in> set ts. kind_of c t = Some Embedding \<longrightarrow> ts = [t]))" for r
    by (cases r) (simp only: check_route_None prod.case)
  have sel: "check_selectable c m = None \<longleftrightarrow> kind_of c m = Some Chat" for m
    by (simp add: check_selectable_def)
  have "validate_references c = None \<longleftrightarrow> distinct (map ms_id (cat_models c))
    \<and> (\<forall>m \<in> set (cat_models c). check_model c m = None)
    \<and> (\<forall>r \<in> set (cat_routes c). check_route c r = None)
    \<and> (\<forall>m \<in> set (cat_selectable c). check_selectable c m = None)
    \<and> distinct (cat_selectable c)
    \<and> check_default c Chat (cat_default_chat c) = None
    \<and> check_default c Embedding (cat_default_embedding c) = None"
    by (simp add: validate_references_def first_some_None first_error_None)
  then show ?thesis
    unfolding catalog_wf_def all
    by (simp only: check_model_None route sel check_default_None default_route_def
        model_kind.distinct if_True if_False simp_thms)
qed

lemma mk_catalog_wf: "mk_catalog c = Inr c' \<longleftrightarrow> c' = c \<and> catalog_wf c"
  by (auto simp: mk_catalog_def validate_references_iff [symmetric] split: option.splits)

subsection \<open>Lookups in a validated catalog\<close>

lemma kind_of_model:
  assumes "catalog_wf c" "kind_of c t = Some k"
  obtains m where "model c t = Inr m" "ms_id m = t" "ms_kind m = k" "m \<in> set (cat_models c)"
    "dict_has (cat_providers c) (ms_provider m)"
proof -
  from assms obtain m where m: "by_id (cat_models c) t = Some m" "ms_kind m = k"
    by (auto simp: kind_of_def)
  moreover have "find (\<lambda>m. ms_id m = t) (cat_models c) = Some m"
    using m assms(1) by (simp add: by_id_eq_find catalog_wf_def)
  moreover have "m \<in> set (cat_models c)" "ms_id m = t"
    using by_id_Some [OF m(1)] by auto
  ultimately show thesis
    using assms(1) by (auto simp: model_def catalog_wf_def intro!: that)
qed

lemma models_of_kind:
  assumes "catalog_wf c" "\<forall>t \<in> set ts. kind_of c t = Some k"
  shows "\<exists>ms. map_result (model c) ts = Inr ms \<and> map ms_id ms = ts
    \<and> (\<forall>m \<in> set ms. ms_kind m = k \<and> m \<in> set (cat_models c) \<and> dict_has (cat_providers c) (ms_provider m))"
  using assms(2)
proof (induction ts)
  case Nil
  then show ?case by simp
next
  case (Cons t ts)
  then obtain ms where "map_result (model c) ts = Inr ms" "map ms_id ms = ts"
    "\<forall>m \<in> set ms. ms_kind m = k \<and> m \<in> set (cat_models c) \<and> dict_has (cat_providers c) (ms_provider m)"
    by auto
  moreover obtain m where "model c t = Inr m" "ms_id m = t" "ms_kind m = k" "m \<in> set (cat_models c)"
    "dict_has (cat_providers c) (ms_provider m)"
    using Cons.prems kind_of_model [OF assms(1)] by (metis list.set_intros(1))
  ultimately show ?case by auto
qed

lemma model_cases:
  assumes "catalog_wf c"
  shows "model c t = (case kind_of c t of None \<Rightarrow> Inl (CatalogKeyError t)
           | Some k \<Rightarrow> Inr (the (by_id (cat_models c) t)))"
  using assms by (auto simp: model_def kind_of_def by_id_eq_find catalog_wf_def split: option.splits)

lemma route_kinds:
  assumes "catalog_wf c" "dict_get (cat_routes c) route = Some ts"
  obtains k where "ts \<noteq> []" "\<forall>t \<in> set ts. kind_of c t = Some k"
  using assms map_of_SomeD [OF assms(2)] by (fastforce simp: catalog_wf_def)

lemma catalog_wf_default:
  "catalog_wf c \<Longrightarrow> \<exists>ts. dict_get (cat_routes c) (default_route c k) = Some ts \<and> kind_of c (hd ts) = Some k"
  by (simp add: catalog_wf_def)

lemma catalog_wf_selectable:
  "catalog_wf c \<Longrightarrow> distinct (cat_selectable c)"
  by (simp add: catalog_wf_def)

lemma route_targets_wf:
  assumes "catalog_wf c"
  shows "(\<exists>ts k. route_targets c route = Inr ts \<and> ts \<noteq> [] \<and> (\<forall>t \<in> set ts. ms_kind t = k
            \<and> t \<in> set (cat_models c) \<and> dict_has (cat_providers c) (ms_provider t)))
       \<or> route_targets c route = Inl (UnknownModelError route)"
proof (cases "dict_get (cat_routes c) route")
  case None
  show ?thesis
  proof (cases "kind_of c route")
    case (Some k)
    then obtain m where "model c route = Inr m" "ms_kind m = k" "m \<in> set (cat_models c)"
      "dict_has (cat_providers c) (ms_provider m)"
      using kind_of_model [OF assms] by blast
    with None show ?thesis by (simp add: route_targets_def)
  next
    case k: None
    with None show ?thesis
      using model_cases [OF assms, of route] by (simp add: route_targets_def)
  qed
next
  case (Some names)
  obtain k where "names \<noteq> []" "\<forall>t \<in> set names. kind_of c t = Some k"
    using assms Some by (rule route_kinds)
  then show ?thesis
    using models_of_kind [OF assms, of names k] Some by (auto simp: route_targets_def)
qed

lemma selectable_kind: "catalog_wf c \<Longrightarrow> m \<in> set (cat_selectable c) \<Longrightarrow> kind_of c m = Some Chat"
  by (simp add: catalog_wf_def)

lemma selectable_targets:
  assumes "catalog_wf c" "m \<in> set (cat_selectable c)"
  shows "\<exists>ts. map_result (model c) (m # filter (\<lambda>x. x \<noteq> m) (cat_selectable c)) = Inr ts
    \<and> map ms_id ts = m # filter (\<lambda>x. x \<noteq> m) (cat_selectable c)
    \<and> (\<forall>t \<in> set ts. ms_kind t = Chat \<and> t \<in> set (cat_models c) \<and> dict_has (cat_providers c) (ms_provider t))"
  by (rule models_of_kind) (use assms selectable_kind in auto)

lemma resolve_targets_wf:
  assumes "catalog_wf c"
  shows "case resolve c name k of
      Inl e \<Rightarrow> e = UnknownModelError (route_of c name k)
    | Inr (route, ts) \<Rightarrow> route = route_of c name k \<and> ts \<noteq> []
        \<and> (\<forall>t \<in> set ts. ms_kind t = k \<and> t \<in> set (cat_models c) \<and> dict_has (cat_providers c) (ms_provider t))"
proof (cases "k = Chat \<and> route_of c name k \<in> set (cat_selectable c)")
  case True
  then show ?thesis
    using selectable_targets [OF assms] by (fastforce simp: resolve_def Let_def)
next
  case False
  then show ?thesis
    using route_targets_wf [OF assms, of "route_of c name k"]
    by (auto simp: resolve_def Let_def dest: hd_in_set)
qed

text \<open>Every chain a validated catalog resolves to is non-empty, holds only models of the
  requested kind that the catalog declares with a configured provider, and is reported under the
  requested (or default) name. The only exception \<open>resolve\<close> can raise is
  \<open>UnknownModelError\<close>: the \<open>KeyError\<close> and \<open>IndexError\<close> branches are unreachable.\<close>

theorem resolve_sound:
  assumes "catalog_wf c"
  shows "case resolve c name k of
      Inl e \<Rightarrow> e = UnknownModelError (route_of c name k)
    | Inr (route, ts) \<Rightarrow> route = route_of c name k \<and> ts \<noteq> []
        \<and> (\<forall>t \<in> set ts. ms_kind t = k \<and> t \<in> set (cat_models c) \<and> dict_has (cat_providers c) (ms_provider t))"
  by (rule resolve_targets_wf [OF assms])

lemma resolve_default:
  assumes "catalog_wf c"
  shows "\<exists>ts. resolve c None k = Inr (default_route c k, ts)"
proof -
  obtain names where names: "dict_get (cat_routes c) (default_route c k) = Some names"
    "kind_of c (hd names) = Some k"
    using catalog_wf_default [OF assms] by blast
  then obtain k' where "names \<noteq> []" "\<forall>t \<in> set names. kind_of c t = Some k'"
    using assms by (blast intro: route_kinds)
  then have "\<forall>t \<in> set names. kind_of c t = Some k"
    using names by (metis hd_in_set)
  then obtain ts where "map_result (model c) names = Inr ts" "map ms_id ts = names"
    "\<forall>t \<in> set ts. ms_kind t = k"
    using models_of_kind [OF assms] by blast
  then have "route_targets c (default_route c k) = Inr ts" "ts \<noteq> []"
    using names \<open>names \<noteq> []\<close> by (auto simp: route_targets_def)
  moreover have "ms_kind (hd ts) = k"
    using \<open>ts \<noteq> []\<close> \<open>\<forall>t \<in> set ts. ms_kind t = k\<close> by simp
  moreover have "route_of c None k = default_route c k"
    by (simp add: route_of_def nonempty_def)
  ultimately show ?thesis
    using selectable_targets [OF assms, of "default_route c k"]
    by (cases "k = Chat \<and> default_route c k \<in> set (cat_selectable c)")
      (auto simp: resolve_def Let_def simp del: map_result.simps)
qed

lemma picker_targets:
  assumes "catalog_wf c" "m \<in> set (cat_selectable c)" "m \<noteq> []"
  shows "\<exists>ts. resolve c (Some m) Chat = Inr (m, ts)
    \<and> map ms_id ts = m # filter (\<lambda>x. x \<noteq> m) (cat_selectable c)
    \<and> distinct (map ms_id ts) \<and> set (map ms_id ts) = set (cat_selectable c)"
proof -
  have "route_of c (Some m) Chat = m"
    using assms by (simp add: route_of_def nonempty_def)
  then have "resolve c (Some m) Chat = bind_result
      (map_result (model c) (m # filter (\<lambda>x. x \<noteq> m) (cat_selectable c))) (\<lambda>ts. Inr (m, ts))"
    using assms(2) by (simp add: resolve_def)
  moreover have "distinct (m # filter (\<lambda>x. x \<noteq> m) (cat_selectable c))"
    using catalog_wf_selectable [OF assms(1)] by simp
  moreover have "set (m # filter (\<lambda>x. x \<noteq> m) (cat_selectable c)) = set (cat_selectable c)"
    using assms(2) by auto
  ultimately show ?thesis
    using selectable_targets [OF assms(1,2)] by (metis bind_result.simps(2))
qed

text \<open>Picking a selectable model puts it first and keeps every other picker model as a
  fallback, once each and in the catalog's order.\<close>

theorem picker_chain:
  assumes "catalog_wf c" "m \<in> set (cat_selectable c)" "m \<noteq> []"
  shows "\<exists>ts. resolve c (Some m) Chat = Inr (m, ts)
    \<and> map ms_id ts = m # filter (\<lambda>x. x \<noteq> m) (cat_selectable c)
    \<and> distinct (map ms_id ts) \<and> set (map ms_id ts) = set (cat_selectable c)"
  by (rule picker_targets [OF assms])

text \<open>Dropping a provider (the mock one outside dev and test) yields a catalog that is
  validated again, and nothing it resolves is served by the dropped provider.\<close>

theorem without_provider_excludes:
  assumes "without_provider c p = Inr c'" "resolve c' name k = Inr (route, ts)"
  shows "catalog_wf c' \<and> (\<forall>t \<in> set ts. ms_provider t \<noteq> p \<and> t \<in> set (cat_models c))"
proof -
  have wf: "catalog_wf c'" and models: "cat_models c' = filter (\<lambda>m. ms_provider m \<noteq> p) (cat_models c)"
    using assms(1) by (auto simp: without_provider_def Let_def mk_catalog_wf)
  with resolve_targets_wf [OF wf, of name k] assms(2) show ?thesis by auto
qed

text \<open>Outside dev and test an end user may name only a picker model; every other choice is
  rejected before anything is stored, and an accepted choice always resolves.\<close>

theorem check_choice_closed:
  assumes "catalog_wf c"
  shows "(check_choice c name False = Inr () \<longleftrightarrow> (\<forall>n. name = Some n \<longrightarrow> n \<in> set (cat_selectable c)))
    \<and> (check_choice c name allow_any = Inr () \<longrightarrow> (\<exists>route ts. resolve c name Chat = Inr (route, ts)))"
proof (cases name)
  case None
  then show ?thesis
    using resolve_default [OF assms, of Chat] by (auto simp: check_choice_def)
next
  case (Some n)
  show ?thesis
  proof (cases "n = []")
    case True
    have "resolve c (Some []) Chat = resolve c None Chat"
      by (simp add: resolve_def route_of_def nonempty_def)
    with True Some show ?thesis
      using resolve_default [OF assms, of Chat] by (auto simp: check_choice_def)
  next
    case False
    with Some show ?thesis
      using picker_targets [OF assms, of n]
      by (auto simp: check_choice_def bind_result_Inr)
  qed
qed

section \<open>A concrete catalog\<close>

definition demo_model :: "string \<Rightarrow> string \<Rightarrow> model_kind \<Rightarrow> int option \<Rightarrow> model_spec" where
  "demo_model i p k d =
     \<lparr>ms_id = i, ms_provider = p, ms_provider_model = i, ms_kind = k, ms_context_window = None,
      ms_dimensions = d, ms_input_usd_per_mtok = 1, ms_output_usd_per_mtok = 2,
      ms_supports_temperature = True, ms_min_relevance = None\<rparr>"

definition demo_provider :: "provider_kind \<Rightarrow> bool \<Rightarrow> provider_config" where
  "demo_provider k egress =
     \<lparr>pc_kind = k, pc_base_url = None, pc_base_url_env = None, pc_api_key_env = None,
      pc_send_input_type = False, pc_timeout_s = 30, pc_max_attempts = 2, pc_data_egress = egress\<rparr>"

definition demo_catalog :: catalog where
  "demo_catalog =
     \<lparr>cat_providers = [(''nim'', demo_provider OpenAICompatible True),
                       (''ollama'', demo_provider Ollama False),
                       (''mock'', demo_provider Mock False)],
      cat_models = [demo_model ''nim/a'' ''nim'' Chat None,
                    demo_model ''ollama/b'' ''ollama'' Chat None,
                    demo_model ''ollama/e'' ''ollama'' Embedding (Some 768),
                    demo_model ''mock/m'' ''mock'' Chat None],
      cat_routes = [(''chat-default'', [''nim/a'', ''ollama/b'', ''mock/m'']), (''embed'', [''ollama/e''])],
      cat_default_chat = ''chat-default'', cat_default_embedding = ''embed'',
      cat_selectable = [''nim/a'', ''ollama/b'']\<rparr>"

lemmas demo_defs = demo_model_def demo_provider_def demo_catalog_def

lemmas demo_eval = demo_defs without_provider_def Let_def mk_catalog_def validate_references_def
  check_model_def check_route_def check_selectable_def check_default_def kind_of_def by_id_def dict_has_def

lemma demo_catalog_wf: "catalog_wf demo_catalog"
  unfolding validate_references_iff [symmetric] by (simp add: demo_eval)

theorem resolve_sound_witness:
  "catalog_wf demo_catalog \<and> (case resolve demo_catalog None Chat of
      Inl e \<Rightarrow> e = UnknownModelError (route_of demo_catalog None Chat)
    | Inr (route, ts) \<Rightarrow> route = route_of demo_catalog None Chat \<and> ts \<noteq> []
        \<and> (\<forall>t \<in> set ts. ms_kind t = Chat \<and> t \<in> set (cat_models demo_catalog)
             \<and> dict_has (cat_providers demo_catalog) (ms_provider t)))"
  using demo_catalog_wf resolve_sound [OF demo_catalog_wf, of None Chat] by blast

theorem picker_chain_witness:
  "\<exists>ts. resolve demo_catalog (Some ''ollama/b'') Chat = Inr (''ollama/b'', ts)
    \<and> map ms_id ts = [''ollama/b'', ''nim/a'']"
proof -
  have "''ollama/b'' \<in> set (cat_selectable demo_catalog)"
    "filter (\<lambda>x. x \<noteq> ''ollama/b'') (cat_selectable demo_catalog) = [''nim/a'']"
    by (simp_all add: demo_catalog_def)
  then show ?thesis
    using picker_chain [OF demo_catalog_wf, of "''ollama/b''"] by fastforce
qed

theorem without_provider_excludes_witness:
  "\<exists>c' route ts. without_provider demo_catalog ''mock'' = Inr c'
     \<and> resolve c' None Chat = Inr (route, ts) \<and> map ms_id ts = [''nim/a'', ''ollama/b'']
     \<and> (\<forall>t \<in> set ts. ms_provider t \<noteq> ''mock'')"
proof -
  define c' where "c' = (case without_provider demo_catalog ''mock'' of Inr c' \<Rightarrow> c')"
  have c': "without_provider demo_catalog ''mock'' = Inr c'"
    unfolding c'_def by (simp add: demo_eval)
  have r: "\<exists>route ts. resolve c' None Chat = Inr (route, ts) \<and> map ms_id ts = [''nim/a'', ''ollama/b'']"
    unfolding c'_def by (simp add: demo_eval resolve_def route_of_def nonempty_def default_route_def
      route_targets_def model_def)
  from r obtain route ts where ts: "resolve c' None Chat = Inr (route, ts)"
    "map ms_id ts = [''nim/a'', ''ollama/b'']"
    by (elim exE conjE)
  with without_provider_excludes [OF c' ts(1)] c' show ?thesis by metis
qed

theorem check_choice_closed_witness:
  "catalog_wf demo_catalog \<and> check_choice demo_catalog (Some ''mock/m'') False \<noteq> Inr ()
    \<and> (\<exists>route ts. resolve demo_catalog (Some ''nim/a'') Chat = Inr (route, ts))"
  using demo_catalog_wf check_choice_closed [OF demo_catalog_wf, of "Some ''mock/m''" False]
    check_choice_closed [OF demo_catalog_wf, of "Some ''nim/a''" False]
  by (auto simp: demo_catalog_def)

end
