(* ===== verification/Gateway.thy ===== *)
theory Gateway
  imports Resilience Catalog
begin

text \<open>
  The core loop of \<open>gateway/gateway.py\<close>: admission, per-attempt timeout, retry with backoff,
  fallback along the chain, circuit breaking and usage accounting, for chat and embedding calls.

  A provider is a network peer, so its answers are a parameter: \<open>invoke n spec\<close> is the answer to
  the \<open>n\<close>-th provider call the process makes and the time it takes. Everything the code keeps
  (clock, breakers, what it handed to the usage recorder) is the state \<open>gw_state\<close>; the list of
  provider calls made is kept beside it so that properties can speak about them.
\<close>

section \<open>Data\<close>

datatype attempt_outcome = Success | ErrorOutcome | TimeoutOutcome | CancelledOutcome | Skipped

datatype gateway_code = BadRequest | ProviderUnavailableCode | NoAvailableProvider | DeadlineExceeded

record attempt_record =
  ar_kind :: model_kind
  ar_model_id :: string
  ar_provider :: string
  ar_attempt :: nat
  ar_outcome :: attempt_outcome
  ar_latency_ms :: rat
  ar_ttft_ms :: "rat option"
  ar_usage :: "usage option"
  ar_cost_usd :: rat
  ar_error_type :: "string option"
  ar_detail :: "string option"

text \<open>What a provider object can do: \<open>isinstance(p, ChatProvider)\<close>, \<open>isinstance(p, EmbeddingProvider)\<close>.\<close>

record provider_object =
  can_chat :: bool
  can_embed :: bool

record gateway =
  gw_catalog :: catalog
  gw_providers :: "(string, provider_object) dict"
  gw_backoff :: backoff_policy
  gw_request_deadline_s :: rat
  gw_stream_deadline_s :: rat
  gw_stream_idle_timeout_s :: rat

record call =
  call_spec :: model_spec
  call_at :: rat
  call_timeout :: rat

record gw_state =
  st_now :: rat
  st_breakers :: registry
  st_recorded :: "attempt_record list"
  st_calls :: "call list"

text \<open>
  The four ways an awaited provider call ends: it returns, it raises a \<open>ProviderError\<close>, the task
  is cancelled, or some other exception leaves it (an \<open>AssertionError\<close>, say).
\<close>

datatype 'r reply = Returned 'r | Raised provider_error | Cancelled | Crashed string

section \<open>Helpers\<close>

definition chat_provider :: "gateway \<Rightarrow> model_spec \<Rightarrow> provider_object option" where
  "chat_provider g spec =
     (case dict_get (gw_providers g) (ms_provider spec) of
        Some p \<Rightarrow> if can_chat p then Some p else None | None \<Rightarrow> None)"

definition embedding_provider :: "gateway \<Rightarrow> model_spec \<Rightarrow> provider_object option" where
  "embedding_provider g spec =
     (case dict_get (gw_providers g) (ms_provider spec) of
        Some p \<Rightarrow> if can_embed p then Some p else None | None \<Rightarrow> None)"

definition is_available :: "gateway \<Rightarrow> model_spec \<Rightarrow> bool" where
  "is_available g spec = dict_has (gw_providers g) (ms_provider spec)"

definition params_for :: "model_spec \<Rightarrow> chat_params \<Rightarrow> chat_params" where
  "params_for spec p =
     (if \<not> ms_supports_temperature spec \<and> cp_temperature p \<noteq> None
      then p\<lparr>cp_temperature := None\<rparr> else p)"

definition ms_since :: "rat \<Rightarrow> rat \<Rightarrow> rat" where
  "ms_since started now = round2 ((now - started) * 1000)"

definition partial_usage :: "chat_message list \<Rightarrow> string list \<Rightarrow> usage" where
  "partial_usage messages produced =
     \<lparr>prompt_tokens = messages_estimate messages,
      completion_tokens = estimate_tokens (concat produced), usage_estimated = True\<rparr>"

definition mk_attempt ::
  "model_kind \<Rightarrow> model_spec \<Rightarrow> nat \<Rightarrow> attempt_outcome \<Rightarrow> rat \<Rightarrow> rat \<Rightarrow> usage option \<Rightarrow> rat option
   \<Rightarrow> provider_error option \<Rightarrow> attempt_record" where
  "mk_attempt k spec n out started now us ttft err =
     \<lparr>ar_kind = k, ar_model_id = ms_id spec, ar_provider = ms_provider spec, ar_attempt = n,
      ar_outcome = out, ar_latency_ms = ms_since started now, ar_ttft_ms = ttft, ar_usage = us,
      ar_cost_usd = (case us of Some u \<Rightarrow> estimate_cost_usd spec (prompt_tokens u) (completion_tokens u)
                     | None \<Rightarrow> 0),
      ar_error_type = map_option (\<lambda>e. error_name (pe_kind e)) err,
      ar_detail = map_option (\<lambda>e. take 300 (pe_message e)) err\<rparr>"

definition skipped_attempt :: "model_kind \<Rightarrow> model_spec \<Rightarrow> string \<Rightarrow> attempt_record" where
  "skipped_attempt k spec reason =
     \<lparr>ar_kind = k, ar_model_id = ms_id spec, ar_provider = ms_provider spec, ar_attempt = 0,
      ar_outcome = Skipped, ar_latency_ms = 0, ar_ttft_ms = None, ar_usage = None, ar_cost_usd = 0,
      ar_error_type = None, ar_detail = Some reason\<rparr>"

text \<open>\<open>_record\<close> hands the attempt to the recorder; a failure of the recorder's own write is
  swallowed there, so it is not visible to the gateway.\<close>

definition record_usage :: "attempt_record \<Rightarrow> gw_state \<Rightarrow> gw_state" where
  "record_usage r st = st\<lparr>st_recorded := st_recorded st @ [r]\<rparr>"

definition set_breaker :: "string \<Rightarrow> breaker \<Rightarrow> gw_state \<Rightarrow> gw_state" where
  "set_breaker m b st = st\<lparr>st_breakers := put_breaker m b (st_breakers st)\<rparr>"

definition update_breaker :: "string \<Rightarrow> provider_error \<Rightarrow> gw_state \<Rightarrow> gw_state" where
  "update_breaker m e st =
     (if pe_kind e = ProviderBadRequest \<or> pe_kind e = ProviderModelNotFound then st
      else if retryable e \<or> pe_kind e = ProviderAuthError \<or> pe_kind e = ProviderResponseError
      then set_breaker m (record_failure (breaker_at (st_breakers st) m) (st_now st)) st
      else st)"

definition breaker_success :: "string \<Rightarrow> gw_state \<Rightarrow> gw_state" where
  "breaker_success m st = set_breaker m (record_success (breaker_at (st_breakers st) m)) st"

text \<open>The targets that may not receive this request's data. A target whose provider the catalog
  does not declare raises \<open>KeyError\<close> (a validated catalog has none).\<close>

definition has_egress :: "gateway \<Rightarrow> model_spec \<Rightarrow> bool" where
  "has_egress g t \<longleftrightarrow> (case dict_get (cat_providers (gw_catalog g)) (ms_provider t) of
                         Some p \<Rightarrow> pc_data_egress p | None \<Rightarrow> False)"

definition egress_blocked :: "gateway \<Rightarrow> model_spec list \<Rightarrow> bool \<Rightarrow> string + string list" where
  "egress_blocked g targets allow_egress =
     (if allow_egress then Inr []
      else if list_all (\<lambda>t. dict_has (cat_providers (gw_catalog g)) (ms_provider t)) targets
      then Inr (map ms_id (filter (has_egress g) targets))
      else Inl ''KeyError'')"

definition admit ::
  "model_spec \<Rightarrow> bool \<Rightarrow> model_kind \<Rightarrow> string list \<Rightarrow> attempt_record list \<Rightarrow> gw_state
   \<Rightarrow> bool \<times> attempt_record list \<times> gw_state" where
  "admit spec present k blocked attempts st =
     (if ms_id spec \<in> set blocked
      then (False, attempts @ [skipped_attempt k spec ''egress_not_permitted''], st)
      else if \<not> present
      then (False, attempts @ [skipped_attempt k spec ''provider_disabled''], st)
      else let b = get_breaker (st_breakers st) (ms_id spec);
               a = allow (fst b) (st_now st);
               st' = st\<lparr>st_breakers := put_breaker (ms_id spec) (snd a) (snd b)\<rparr>
           in if fst a then (True, attempts, st')
              else (False, attempts @ [skipped_attempt k spec ''circuit_open''], st'))"

text \<open>\<open>r\<close> is the random number the jitter draws; the sleep ends when its delay has passed.\<close>

definition should_retry ::
  "gateway \<Rightarrow> provider_error \<Rightarrow> nat \<Rightarrow> nat \<Rightarrow> string \<Rightarrow> rat \<Rightarrow> rat \<Rightarrow> gw_state \<Rightarrow> bool \<times> gw_state" where
  "should_retry g e n max_attempts m deadline r st =
     (if \<not> retryable e \<or> max_attempts \<le> n then (False, st)
      else if state_of (breaker_at (st_breakers st) m) (st_now st) \<noteq> Closed then (False, st)
      else let d = delay (gw_backoff g) n e r in
           if deadline \<le> st_now st + d then (False, st)
           else (True, st\<lparr>st_now := st_now st + max 0 d\<rparr>))"

section \<open>The core loop\<close>

datatype 'r run_result = RunOk 'r model_spec | RunError gateway_code | RunCancelled | RunCrashed string

datatype 'r flow = NextTarget | Done "'r run_result"

text \<open>\<open>asyncio.timeout\<close>: an answer that takes as long as the timeout is a \<open>ProviderTimeout\<close>.\<close>

definition timeout_error :: "model_spec \<Rightarrow> rat \<Rightarrow> provider_error" where
  "timeout_error spec timeout =
     provider_exc ProviderTimeout (ms_provider spec) (''no response within '' @ fmt1 timeout @ ''s'') None"

definition timed_call :: "model_spec \<Rightarrow> rat \<Rightarrow> rat \<times> 'r reply \<Rightarrow> rat \<times> 'r reply" where
  "timed_call spec timeout a =
     (if fst a < timeout then a else (timeout, Raised (timeout_error spec timeout)))"

definition begin_call :: "model_spec \<Rightarrow> rat \<Rightarrow> gw_state \<Rightarrow> gw_state" where
  "begin_call spec timeout st =
     st\<lparr>st_calls := st_calls st @ [\<lparr>call_spec = spec, call_at = st_now st, call_timeout = timeout\<rparr>]\<rparr>"

definition error_outcome :: "provider_error \<Rightarrow> attempt_outcome" where
  "error_outcome e = (if pe_kind e = ProviderTimeout then TimeoutOutcome else ErrorOutcome)"

text \<open>The three ways an awaited call is accounted for; \<open>st\<close> is the state when the await is over.\<close>

definition attempt_failed ::
  "gateway \<Rightarrow> model_kind \<Rightarrow> provider_config \<Rightarrow> rat \<Rightarrow> model_spec \<Rightarrow> nat \<Rightarrow> rat \<Rightarrow> rat \<Rightarrow> provider_error
   \<Rightarrow> attempt_record list \<Rightarrow> gw_state \<Rightarrow> 'r flow option \<times> attempt_record list \<times> gw_state" where
  "attempt_failed g k cfg deadline spec n started r e attempts st =
     (let a = mk_attempt k spec n (error_outcome e) started (st_now st) None None (Some e);
          st' = record_usage a (update_breaker (ms_id spec) e st) in
      if pe_kind e = ProviderBadRequest
      then (Some (Done (RunError BadRequest)), attempts @ [a], st')
      else let ret = should_retry g e n (pc_max_attempts cfg) (ms_id spec) deadline r st' in
           (if fst ret then None else Some NextTarget, attempts @ [a], snd ret))"

definition attempt_cancelled ::
  "model_kind \<Rightarrow> model_spec \<Rightarrow> nat \<Rightarrow> rat \<Rightarrow> attempt_record list \<Rightarrow> gw_state
   \<Rightarrow> 'r flow option \<times> attempt_record list \<times> gw_state" where
  "attempt_cancelled k spec n started attempts st =
     (Some (Done RunCancelled), attempts,
      record_usage (mk_attempt k spec n CancelledOutcome started (st_now st) None None None) st)"

definition attempt_succeeded ::
  "('r \<Rightarrow> usage) \<Rightarrow> model_kind \<Rightarrow> model_spec \<Rightarrow> nat \<Rightarrow> rat \<Rightarrow> 'r \<Rightarrow> attempt_record list \<Rightarrow> gw_state
   \<Rightarrow> 'r flow option \<times> attempt_record list \<times> gw_state" where
  "attempt_succeeded usage_of k spec n started v attempts st =
     (let a = mk_attempt k spec n Success started (st_now st) (Some (usage_of v)) None None in
      (Some (Done (RunOk v spec)), attempts @ [a], record_usage a (breaker_success (ms_id spec) st)))"

text \<open>One iteration of the attempt loop, from the awaited call to the decision what comes next:
  \<open>None\<close> is \<open>continue\<close> (retry), \<open>Some NextTarget\<close> is \<open>break\<close>, \<open>Some (Done _)\<close> leaves \<open>_run\<close>.\<close>

definition one_attempt ::
  "gateway \<Rightarrow> (nat \<Rightarrow> rat) \<Rightarrow> (nat \<Rightarrow> model_spec \<Rightarrow> rat \<times> 'r reply) \<Rightarrow> ('r \<Rightarrow> usage) \<Rightarrow> model_kind
   \<Rightarrow> provider_config \<Rightarrow> rat \<Rightarrow> model_spec \<Rightarrow> nat \<Rightarrow> attempt_record list \<Rightarrow> gw_state
   \<Rightarrow> 'r flow option \<times> attempt_record list \<times> gw_state" where
  "one_attempt g rnd invoke usage_of k cfg deadline spec n attempts st =
     (let remaining = deadline - st_now st in
      if remaining \<le> 0 then (Some (Done (RunError DeadlineExceeded)), attempts, st)
      else
        let timeout = min (pc_timeout_s cfg) remaining;
            started = st_now st;
            i = length (st_calls st);
            a = timed_call spec timeout (invoke i spec);
            st1 = (begin_call spec timeout st)\<lparr>st_now := started + max 0 (fst a)\<rparr>
        in case snd a of
             Raised e \<Rightarrow> attempt_failed g k cfg deadline spec n started (rnd i) e attempts st1
           | Cancelled \<Rightarrow> attempt_cancelled k spec n started attempts st1
           | Crashed x \<Rightarrow> (Some (Done (RunCrashed x)), attempts, st1)
           | Returned v \<Rightarrow> attempt_succeeded usage_of k spec n started v attempts st1)"

text \<open>\<open>for n in range(1, max_attempts + 1)\<close>: the list is the attempt numbers still to come.\<close>

fun attempt_loop ::
  "gateway \<Rightarrow> (nat \<Rightarrow> rat) \<Rightarrow> (nat \<Rightarrow> model_spec \<Rightarrow> rat \<times> 'r reply) \<Rightarrow> ('r \<Rightarrow> usage) \<Rightarrow> model_kind
   \<Rightarrow> provider_config \<Rightarrow> rat \<Rightarrow> model_spec \<Rightarrow> nat list \<Rightarrow> attempt_record list \<Rightarrow> gw_state
   \<Rightarrow> 'r flow \<times> attempt_record list \<times> gw_state" where
  "attempt_loop g rnd invoke usage_of k cfg deadline spec [] attempts st = (NextTarget, attempts, st)"
| "attempt_loop g rnd invoke usage_of k cfg deadline spec (n # ns) attempts st =
     (case one_attempt g rnd invoke usage_of k cfg deadline spec n attempts st of
        (Some f, attempts', st') \<Rightarrow> (f, attempts', st')
      | (None, attempts', st') \<Rightarrow>
          attempt_loop g rnd invoke usage_of k cfg deadline spec ns attempts' st')"

definition exhausted_code :: "attempt_record list \<Rightarrow> gateway_code" where
  "exhausted_code attempts =
     (if list_all (\<lambda>a. ar_outcome a = Skipped) attempts then NoAvailableProvider
      else ProviderUnavailableCode)"

fun target_loop ::
  "gateway \<Rightarrow> (nat \<Rightarrow> rat) \<Rightarrow> (nat \<Rightarrow> model_spec \<Rightarrow> rat \<times> 'r reply) \<Rightarrow> ('r \<Rightarrow> usage) \<Rightarrow> model_kind
   \<Rightarrow> string list \<Rightarrow> rat \<Rightarrow> model_spec list \<Rightarrow> attempt_record list \<Rightarrow> gw_state
   \<Rightarrow> 'r run_result \<times> attempt_record list \<times> gw_state" where
  "target_loop g rnd invoke usage_of k blocked deadline [] attempts st =
     (RunError (exhausted_code attempts), attempts, st)"
| "target_loop g rnd invoke usage_of k blocked deadline (spec # specs) attempts st =
     (case admit spec (is_available g spec) k blocked attempts st of
        (False, attempts', st') \<Rightarrow>
          target_loop g rnd invoke usage_of k blocked deadline specs attempts' st'
      | (True, attempts', st') \<Rightarrow>
          (case dict_get (cat_providers (gw_catalog g)) (ms_provider spec) of
             None \<Rightarrow> (RunCrashed ''KeyError'', attempts', st')
           | Some cfg \<Rightarrow>
               (case attempt_loop g rnd invoke usage_of k cfg deadline spec
                       [1..<Suc (pc_max_attempts cfg)] attempts' st' of
                  (NextTarget, attempts'', st'') \<Rightarrow>
                    target_loop g rnd invoke usage_of k blocked deadline specs attempts'' st''
                | (Done r, attempts'', st'') \<Rightarrow> (r, attempts'', st''))))"

definition run ::
  "gateway \<Rightarrow> (nat \<Rightarrow> rat) \<Rightarrow> (nat \<Rightarrow> model_spec \<Rightarrow> rat \<times> 'r reply) \<Rightarrow> ('r \<Rightarrow> usage) \<Rightarrow> model_kind
   \<Rightarrow> model_spec list \<Rightarrow> rat \<Rightarrow> string list \<Rightarrow> gw_state
   \<Rightarrow> 'r run_result \<times> attempt_record list \<times> gw_state" where
  "run g rnd invoke usage_of k targets deadline_s blocked st =
     target_loop g rnd invoke usage_of k blocked (st_now st + deadline_s) targets [] st"

section \<open>Chat and embedding\<close>

record 'r call_outcome =
  co_result :: 'r
  co_model :: model_spec
  co_route :: string
  co_attempts :: "attempt_record list"
  co_latency_ms :: rat

definition fallback_used :: "'r call_outcome \<Rightarrow> bool" where
  "fallback_used out = list_ex (\<lambda>a. ar_model_id a \<noteq> ms_id (co_model out)) (co_attempts out)"

definition outcome_cost :: "'r call_outcome \<Rightarrow> rat" where
  "outcome_cost out = sum_list (map ar_cost_usd (co_attempts out))"

datatype call_failure =
    CallUnknownModel resolve_error
  | CallGatewayError gateway_code "attempt_record list"
  | CallCancelled
  | CallCrashed string

definition finish_call ::
  "string \<Rightarrow> rat \<Rightarrow> 'r run_result \<times> attempt_record list \<times> gw_state \<Rightarrow> (call_failure + 'r call_outcome) \<times> gw_state" where
  "finish_call route started r =
     (case r of (res, attempts, st') \<Rightarrow>
        (case res of
           RunOk v spec \<Rightarrow> Inr \<lparr>co_result = v, co_model = spec, co_route = route, co_attempts = attempts,
                               co_latency_ms = ms_since started (st_now st')\<rparr>
         | RunError c \<Rightarrow> Inl (CallGatewayError c attempts)
         | RunCancelled \<Rightarrow> Inl CallCancelled
         | RunCrashed x \<Rightarrow> Inl (CallCrashed x), st'))"

text \<open>\<open>ask n spec messages params\<close> is the provider's answer to the \<open>n\<close>-th call.\<close>

definition chat_invoke ::
  "gateway \<Rightarrow> (nat \<Rightarrow> model_spec \<Rightarrow> chat_message list \<Rightarrow> chat_params \<Rightarrow> rat \<times> chat_result reply)
   \<Rightarrow> chat_message list \<Rightarrow> chat_params \<Rightarrow> nat \<Rightarrow> model_spec \<Rightarrow> rat \<times> chat_result reply" where
  "chat_invoke g ask messages params n spec =
     (if chat_provider g spec = None then (0, Crashed ''AssertionError'')
      else ask n spec messages (params_for spec params))"

definition chat ::
  "gateway \<Rightarrow> (nat \<Rightarrow> rat) \<Rightarrow> (nat \<Rightarrow> model_spec \<Rightarrow> chat_message list \<Rightarrow> chat_params \<Rightarrow> rat \<times> chat_result reply)
   \<Rightarrow> string option \<Rightarrow> chat_message list \<Rightarrow> chat_params \<Rightarrow> bool \<Rightarrow> gw_state
   \<Rightarrow> (call_failure + chat_result call_outcome) \<times> gw_state" where
  "chat g rnd ask route messages params allow_egress st =
     (case resolve (gw_catalog g) route Chat of
        Inl e \<Rightarrow> (Inl (CallUnknownModel e), st)
      | Inr (route_name, targets) \<Rightarrow>
          (case egress_blocked g targets allow_egress of
             Inl x \<Rightarrow> (Inl (CallCrashed x), st)
           | Inr blocked \<Rightarrow>
               finish_call route_name (st_now st)
                 (run g rnd (chat_invoke g ask messages params) cr_usage Chat targets
                    (gw_request_deadline_s g) blocked st)))"

definition dimensions_ok :: "model_spec \<Rightarrow> embedding_result \<Rightarrow> bool" where
  "dimensions_ok spec r \<longleftrightarrow>
     (case ms_dimensions spec of
        None \<Rightarrow> True
      | Some d \<Rightarrow> d = 0 \<or> list_all (\<lambda>v. int (length v) = d) (er_vectors r))"

definition embed_invoke ::
  "gateway \<Rightarrow> (nat \<Rightarrow> model_spec \<Rightarrow> string list \<Rightarrow> string \<Rightarrow> rat \<times> embedding_result reply)
   \<Rightarrow> string list \<Rightarrow> string \<Rightarrow> nat \<Rightarrow> model_spec \<Rightarrow> rat \<times> embedding_result reply" where
  "embed_invoke g ask inputs input_type n spec =
     (if embedding_provider g spec = None then (0, Crashed ''AssertionError'')
      else case ask n spec inputs input_type of
             (d, Returned r) \<Rightarrow>
               if dimensions_ok spec r then (d, Returned r)
               else (d, Raised (provider_exc ProviderResponseError (ms_provider spec)
                                  ''embedding dimension mismatch'' None))
           | a \<Rightarrow> a)"

definition embed ::
  "gateway \<Rightarrow> (nat \<Rightarrow> rat) \<Rightarrow> (nat \<Rightarrow> model_spec \<Rightarrow> string list \<Rightarrow> string \<Rightarrow> rat \<times> embedding_result reply)
   \<Rightarrow> string option \<Rightarrow> string list \<Rightarrow> string \<Rightarrow> gw_state
   \<Rightarrow> (call_failure + embedding_result call_outcome) \<times> gw_state" where
  "embed g rnd ask route inputs input_type st =
     (case resolve (gw_catalog g) route Embedding of
        Inl e \<Rightarrow> (Inl (CallUnknownModel e), st)
      | Inr (route_name, targets) \<Rightarrow>
          finish_call route_name (st_now st)
            (run g rnd (embed_invoke g ask inputs input_type) er_usage Embedding targets
               (gw_request_deadline_s g) [] st))"

end
