(* ===== verification/GatewayRun.thy ===== *)
theory GatewayRun
  imports Gateway
begin

text \<open>
  What the core loop of \<open>gateway/gateway.py\<close> guarantees: an invariant rule for the two nested
  loops, and with it the properties of \<open>run\<close>, \<open>chat\<close> and \<open>embed\<close>.
\<close>

section \<open>What one step changes\<close>

lemma set_breaker_frame [simp]:
  "st_now (set_breaker m b st) = st_now st" "st_recorded (set_breaker m b st) = st_recorded st"
  "st_calls (set_breaker m b st) = st_calls st"
  by (simp_all add: set_breaker_def)

lemma update_breaker_frame [simp]:
  "st_now (update_breaker m e st) = st_now st" "st_recorded (update_breaker m e st) = st_recorded st"
  "st_calls (update_breaker m e st) = st_calls st"
  by (simp_all add: update_breaker_def)

lemma breaker_success_frame [simp]:
  "st_now (breaker_success m st) = st_now st" "st_recorded (breaker_success m st) = st_recorded st"
  "st_calls (breaker_success m st) = st_calls st"
  by (simp_all add: breaker_success_def)

lemma record_usage_frame [simp]:
  "st_now (record_usage r st) = st_now st" "st_breakers (record_usage r st) = st_breakers st"
  "st_calls (record_usage r st) = st_calls st" "st_recorded (record_usage r st) = st_recorded st @ [r]"
  by (simp_all add: record_usage_def)

lemma begin_call_frame [simp]:
  "st_now (begin_call spec t st) = st_now st" "st_breakers (begin_call spec t st) = st_breakers st"
  "st_recorded (begin_call spec t st) = st_recorded st"
  "st_calls (begin_call spec t st) = st_calls st @ [\<lparr>call_spec = spec, call_at = st_now st, call_timeout = t\<rparr>]"
  by (simp_all add: begin_call_def)

lemma should_retry_frame [simp]:
  "st_recorded (snd (should_retry g e n mx m dl r st)) = st_recorded st"
  "st_calls (snd (should_retry g e n mx m dl r st)) = st_calls st"
  "st_breakers (snd (should_retry g e n mx m dl r st)) = st_breakers st"
  by (simp_all add: should_retry_def Let_def)

lemma should_retry_clock:
  "st_now st \<le> dl \<Longrightarrow> st_now (snd (should_retry g e n mx m dl r st)) \<le> dl"
  "st_now st \<le> st_now (snd (should_retry g e n mx m dl r st))"
  by (auto simp: should_retry_def Let_def)

lemma admit_frame:
  assumes "admit spec present k blocked atts st = (ok, atts', st')"
  shows "st_now st' = st_now st" "st_recorded st' = st_recorded st" "st_calls st' = st_calls st"
    "ok \<Longrightarrow> atts' = atts \<and> ms_id spec \<notin> set blocked \<and> present"
    "\<not> ok \<Longrightarrow> \<exists>reason. atts' = atts @ [skipped_attempt k spec reason]"
  using assms by (auto simp: admit_def Let_def split: if_splits)

lemma mk_attempt_sel [simp]:
  "ar_outcome (mk_attempt k spec n out a b us t e) = out"
  "ar_model_id (mk_attempt k spec n out a b us t e) = ms_id spec"
  "ar_attempt (mk_attempt k spec n out a b us t e) = n"
  "ar_kind (mk_attempt k spec n out a b us t e) = k"
  "ar_usage (mk_attempt k spec n out a b us t e) = us"
  "ar_provider (mk_attempt k spec n out a b us t e) = ms_provider spec"
  "ar_error_type (mk_attempt k spec n out a b us t e) = map_option (\<lambda>e. error_name (pe_kind e)) e"
  by (simp_all add: mk_attempt_def)

lemma skipped_attempt_sel [simp]:
  "ar_outcome (skipped_attempt k spec reason) = Skipped"
  "ar_model_id (skipped_attempt k spec reason) = ms_id spec"
  "ar_attempt (skipped_attempt k spec reason) = 0"
  "ar_error_type (skipped_attempt k spec reason) = None"
  by (simp_all add: skipped_attempt_def)

lemma error_outcome_failed [simp]:
  "error_outcome e \<noteq> Success" "error_outcome e \<noteq> Skipped" "error_outcome e \<noteq> CancelledOutcome"
  by (simp_all add: error_outcome_def)

section \<open>The invariant rule of the loops\<close>

text \<open>
  \<open>I res atts st\<close> relates the outcome so far (\<open>None\<close> while the loops run), the attempts reported
  and the state. It holds at the end of \<open>run\<close> when every skipped target and every attempt keeps it.
\<close>

fun run_end :: "'r flow option \<Rightarrow> 'r run_result option" where
  "run_end (Some (Done r)) = Some r"
| "run_end (Some NextTarget) = None"
| "run_end None = None"

locale run_invariant =
  fixes g :: gateway
    and rnd :: "nat \<Rightarrow> rat"
    and invoke :: "nat \<Rightarrow> model_spec \<Rightarrow> rat \<times> 'r reply"
    and usage_of :: "'r \<Rightarrow> usage"
    and k :: model_kind
    and blocked :: "string list"
    and dl :: rat
    and targets :: "model_spec list"
    and I :: "'r run_result option \<Rightarrow> attempt_record list \<Rightarrow> gw_state \<Rightarrow> bool"
  assumes skip: "spec \<in> set targets \<Longrightarrow> I None atts st \<Longrightarrow>
      admit spec (is_available g spec) k blocked atts st = (False, atts', st') \<Longrightarrow> I None atts' st'"
    and enter: "spec \<in> set targets \<Longrightarrow> I None atts st \<Longrightarrow>
      admit spec (is_available g spec) k blocked atts st = (True, atts', st') \<Longrightarrow> I None atts' st'"
    and attempt: "spec \<in> set targets \<Longrightarrow> I None atts st \<Longrightarrow> ms_id spec \<notin> set blocked \<Longrightarrow>
      dict_get (cat_providers (gw_catalog g)) (ms_provider spec) = Some cfg \<Longrightarrow>
      1 \<le> n \<Longrightarrow> n \<le> pc_max_attempts cfg \<Longrightarrow>
      one_attempt g rnd invoke usage_of k cfg dl spec n atts st = (f, atts', st') \<Longrightarrow>
      I (run_end f) atts' st'"
    and missing: "I None atts st \<Longrightarrow> I (Some (RunCrashed ''KeyError'')) atts st"
    and exhausted: "I None atts st \<Longrightarrow> I (Some (RunError (exhausted_code atts))) atts st"
begin

lemma attempts:
  assumes "spec \<in> set targets" "ms_id spec \<notin> set blocked"
    "dict_get (cat_providers (gw_catalog g)) (ms_provider spec) = Some cfg"
    "set ns \<subseteq> {1..pc_max_attempts cfg}" "I None atts st"
    "attempt_loop g rnd invoke usage_of k cfg dl spec ns atts st = (f, atts', st')"
  shows "I (run_end (Some f)) atts' st'"
  using assms(4-)
proof (induction ns arbitrary: atts st)
  case Nil
  then show ?case by auto
next
  case (Cons n ns)
  obtain f1 a1 s1 where one: "one_attempt g rnd invoke usage_of k cfg dl spec n atts st = (f1, a1, s1)"
    by (metis prod_cases3)
  then have I1: "I (run_end f1) a1 s1"
    using attempt [OF assms(1) Cons.prems(2) assms(2,3) _ _ one] Cons.prems(1) by simp
  show ?case
  proof (cases f1)
    case None
    then show ?thesis
      using Cons.IH [of a1 s1] Cons.prems one I1 by simp
  next
    case (Some x)
    then show ?thesis using Cons.prems one I1 by simp
  qed
qed

lemma loop:
  assumes "set specs \<subseteq> set targets" "I None atts st"
    "target_loop g rnd invoke usage_of k blocked dl specs atts st = (res, atts', st')"
  shows "I (Some res) atts' st'"
  using assms
proof (induction specs arbitrary: atts st)
  case Nil
  then show ?case using exhausted by auto
next
  case (Cons spec specs)
  obtain ok a1 s1 where ad: "admit spec (is_available g spec) k blocked atts st = (ok, a1, s1)"
    by (metis prod_cases3)
  have spec: "spec \<in> set targets"
    using Cons.prems(1) by simp
  have I1: "I None a1 s1"
  proof (cases ok)
    case True
    with enter [OF spec Cons.prems(2)] ad show ?thesis by simp
  next
    case False
    with skip [OF spec Cons.prems(2)] ad show ?thesis by simp
  qed
  have rest: "set specs \<subseteq> set targets"
    using Cons.prems(1) by simp
  consider "\<not> ok" | "ok" "dict_get (cat_providers (gw_catalog g)) (ms_provider spec) = None"
    | "ok \<and> dict_get (cat_providers (gw_catalog g)) (ms_provider spec) \<noteq> None"
    by blast
  then show ?case
  proof cases
    case 1
    then show ?thesis
      using Cons.IH [OF rest I1] Cons.prems(3) ad by simp
  next
    case 2
    then show ?thesis
      using missing [OF I1] Cons.prems(3) ad by simp
  next
    case 3
    then have True: ok by simp
    from 3
    obtain cfg where cfg: "dict_get (cat_providers (gw_catalog g)) (ms_provider spec) = Some cfg"
      by auto
    obtain f a2 s2 where al: "attempt_loop g rnd invoke usage_of k cfg dl spec
        [1..<Suc (pc_max_attempts cfg)] a1 s1 = (f, a2, s2)"
      by (metis prod_cases3)
    have I2: "I (run_end (Some f)) a2 s2"
      by (rule attempts [OF _ _ cfg _ I1 al]) (use spec True admit_frame(4) [OF ad] in auto)
    show ?thesis
    proof (cases f)
      case NextTarget
      then show ?thesis
        using Cons.IH [OF rest, of a2 s2] I2 Cons.prems(3) ad al True cfg by (simp del: upt_Suc)
    next
      case (Done r)
      then show ?thesis
        using I2 Cons.prems(3) ad al True cfg by (simp del: upt_Suc)
    qed
  qed
qed

lemma run_keeps:
  assumes "run g rnd invoke usage_of k targets d blocked st = (res, atts, st')"
    and "dl = st_now st + d" "I None [] st"
  shows "I (Some res) atts st'"
  using loop [OF subset_refl assms(3)] assms(1,2) by (simp add: run_def)

end

section \<open>The ways one attempt ends\<close>

lemma error_name_bad_request [simp]: "error_name x = ''ProviderBadRequest'' \<longleftrightarrow> x = ProviderBadRequest"
  by (cases x) simp_all

definition attempt_call :: "provider_config \<Rightarrow> rat \<Rightarrow> model_spec \<Rightarrow> gw_state \<Rightarrow> call" where
  "attempt_call cfg dl spec st =
     \<lparr>call_spec = spec, call_at = st_now st, call_timeout = min (pc_timeout_s cfg) (dl - st_now st)\<rparr>"

lemma timed_call_bound: "0 < timeout \<Longrightarrow> fst (timed_call spec timeout a) \<le> timeout"
  by (simp add: timed_call_def)

lemma attempt_clock:
  assumes "st_now st < dl"
  shows "st_now st + max 0 (fst (timed_call spec (min t (dl - st_now st)) a)) \<le> dl"
  using assms timed_call_bound [of "min t (dl - st_now st)" spec a]
  by (auto simp: timed_call_def max_def min_def split: if_splits)

lemma one_attempt_late:
  "dl \<le> st_now st \<Longrightarrow>
   one_attempt g rnd invoke usage_of k cfg dl spec n atts st = (Some (Done (RunError DeadlineExceeded)), atts, st)"
  by (simp add: one_attempt_def)

lemma attempt_failed_facts:
  assumes "attempt_failed g k cfg dl spec n started r e atts st = (f, atts', st')"
  shows "st_calls st' = st_calls st" "st_now st \<le> st_now st'" "st_now st \<le> dl \<Longrightarrow> st_now st' \<le> dl"
    and "\<exists>a. atts' = atts @ [a] \<and> st_recorded st' = st_recorded st @ [a] \<and> ar_model_id a = ms_id spec
      \<and> ar_attempt a = n \<and> ar_outcome a = error_outcome e
      \<and> (if ar_error_type a = Some ''ProviderBadRequest'' then f = Some (Done (RunError BadRequest))
         else f = None \<or> f = Some NextTarget)"
proof -
  define a where "a = mk_attempt k spec n (error_outcome e) started (st_now st) None None (Some e)"
  define s1 where "s1 = record_usage a (update_breaker (ms_id spec) e st)"
  have s1: "st_now s1 = st_now st" "st_calls s1 = st_calls st" "st_recorded s1 = st_recorded st @ [a]"
    by (simp_all add: s1_def)
  have a: "ar_model_id a = ms_id spec" "ar_attempt a = n" "ar_outcome a = error_outcome e"
    "ar_error_type a = Some ''ProviderBadRequest'' \<longleftrightarrow> pe_kind e = ProviderBadRequest"
    by (simp_all add: a_def)
  note r = assms [unfolded attempt_failed_def Let_def, folded a_def, folded s1_def]
  from r s1 show "st_calls st' = st_calls st"
    by (auto split: if_splits)
  from r s1 should_retry_clock(2) [of s1] show "st_now st \<le> st_now st'"
    by (auto split: if_splits)
  from r s1 should_retry_clock(1) [of s1 dl] show "st_now st' \<le> dl" if "st_now st \<le> dl"
    using that by (auto split: if_splits)
  from r s1 a show "\<exists>a. atts' = atts @ [a] \<and> st_recorded st' = st_recorded st @ [a] \<and> ar_model_id a = ms_id spec
      \<and> ar_attempt a = n \<and> ar_outcome a = error_outcome e
      \<and> (if ar_error_type a = Some ''ProviderBadRequest'' then f = Some (Done (RunError BadRequest))
         else f = None \<or> f = Some NextTarget)"
    by (intro exI [of _ a]) (auto split: if_splits)
qed

lemma attempt_cancelled_facts:
  assumes "attempt_cancelled k spec n started atts st = (f, atts', st')"
  shows "st_calls st' = st_calls st" "st_now st' = st_now st" "atts' = atts" "f = Some (Done RunCancelled)"
    and "\<exists>a. st_recorded st' = st_recorded st @ [a] \<and> ar_model_id a = ms_id spec \<and> ar_outcome a = CancelledOutcome"
  using assms by (auto simp: attempt_cancelled_def)

lemma attempt_succeeded_facts:
  assumes "attempt_succeeded usage_of k spec n started v atts st = (f, atts', st')"
  shows "st_calls st' = st_calls st" "st_now st' = st_now st" "f = Some (Done (RunOk v spec))"
    and "\<exists>a. atts' = atts @ [a] \<and> st_recorded st' = st_recorded st @ [a] \<and> ar_model_id a = ms_id spec
      \<and> ar_attempt a = n \<and> ar_outcome a = Success"
  using assms by (auto simp: attempt_succeeded_def Let_def)

text \<open>An attempt that starts before the deadline makes one call and then is over in one of four ways.\<close>

definition attempt_state :: "provider_config \<Rightarrow> rat \<Rightarrow> model_spec \<Rightarrow> (nat \<Rightarrow> model_spec \<Rightarrow> rat \<times> 'r reply) \<Rightarrow> gw_state \<Rightarrow> gw_state" where
  "attempt_state cfg dl spec invoke st =
     (let timeout = min (pc_timeout_s cfg) (dl - st_now st) in
      (begin_call spec timeout st)
        \<lparr>st_now := st_now st + max 0 (fst (timed_call spec timeout (invoke (length (st_calls st)) spec)))\<rparr>)"

lemma attempt_state_facts:
  assumes "st_now st < dl"
  shows "st_calls (attempt_state cfg dl spec invoke st) = st_calls st @ [attempt_call cfg dl spec st]"
    "st_now st \<le> st_now (attempt_state cfg dl spec invoke st)"
    "st_now (attempt_state cfg dl spec invoke st) \<le> dl"
    "st_recorded (attempt_state cfg dl spec invoke st) = st_recorded st"
  using attempt_clock [OF assms] by (simp_all add: attempt_state_def Let_def attempt_call_def)

lemma one_attempt_cases [consumes 2]:
  assumes "one_attempt g rnd invoke usage_of k cfg dl spec n atts st = (f, atts', st')" "st_now st < dl"
  obtains (failed) e r where
      "attempt_failed g k cfg dl spec n (st_now st) r e atts (attempt_state cfg dl spec invoke st) = (f, atts', st')"
    | (cancelled) "attempt_cancelled k spec n (st_now st) atts (attempt_state cfg dl spec invoke st) = (f, atts', st')"
    | (succeeded) v where
      "attempt_succeeded usage_of k spec n (st_now st) v atts (attempt_state cfg dl spec invoke st) = (f, atts', st')"
    | (crashed) x where "f = Some (Done (RunCrashed x))" "atts' = atts" "st' = attempt_state cfg dl spec invoke st"
proof -
  let ?a = "timed_call spec (min (pc_timeout_s cfg) (dl - st_now st)) (invoke (length (st_calls st)) spec)"
  have "\<not> dl - st_now st \<le> 0"
    using assms(2) by simp
  with assms(1) that show thesis
    by (cases "snd ?a") (auto simp: one_attempt_def attempt_state_def Let_def)
qed

lemma one_attempt_calls:
  assumes "one_attempt g rnd invoke usage_of k cfg dl spec n atts st = (f, atts', st')" "st_now st < dl"
  shows "st_calls st' = st_calls st @ [attempt_call cfg dl spec st]" "st_now st \<le> st_now st'" "st_now st' \<le> dl"
  using assms
  by (cases rule: one_attempt_cases;
      use attempt_state_facts [OF assms(2), of cfg spec invoke] in
        \<open>force dest: attempt_failed_facts(1-3) attempt_cancelled_facts(1,2) attempt_succeeded_facts(1,2)\<close>)+

lemma one_attempt_ends:
  assumes "one_attempt g rnd invoke usage_of k cfg dl spec n atts st = (f, atts', st')" "st_now st < dl"
  shows "(\<exists>r. atts' = atts @ [r] \<and> st_recorded st' = st_recorded st @ [r]
          \<and> ar_model_id r = ms_id spec \<and> ar_attempt r = n
          \<and> ((ar_outcome r = Success \<and> (\<exists>v. f = Some (Done (RunOk v spec))))
             \<or> (ar_outcome r \<in> {ErrorOutcome, TimeoutOutcome}
                \<and> (if ar_error_type r = Some ''ProviderBadRequest'' then f = Some (Done (RunError BadRequest))
                   else f = None \<or> f = Some NextTarget))))
    \<or> (atts' = atts \<and> (\<exists>r. st_recorded st' = st_recorded st @ [r] \<and> ar_model_id r = ms_id spec
          \<and> ar_outcome r = CancelledOutcome) \<and> f = Some (Done RunCancelled))
    \<or> (atts' = atts \<and> st_recorded st' = st_recorded st \<and> (\<exists>x. f = Some (Done (RunCrashed x))))"
    (is "?answered \<or> ?cancelled \<or> ?crashed")
  using assms
proof (cases rule: one_attempt_cases)
  case (failed e r)
  have "error_outcome e \<in> {ErrorOutcome, TimeoutOutcome}"
    by (simp add: error_outcome_def)
  with attempt_failed_facts(4) [OF failed] have ?answered
    unfolding attempt_state_facts(4) [OF assms(2)] by metis
  then show ?thesis ..
next
  case cancelled
  from attempt_cancelled_facts(3-5) [OF cancelled] have ?cancelled
    unfolding attempt_state_facts(4) [OF assms(2)] by metis
  then show ?thesis by blast
next
  case (succeeded v)
  from attempt_succeeded_facts(3,4) [OF succeeded] have ?answered
    unfolding attempt_state_facts(4) [OF assms(2)] by metis
  then show ?thesis ..
qed (simp add: attempt_state_facts(4) [OF assms(2)])

section \<open>Which models are called, and when\<close>

text \<open>Only a target of the request that is not blocked is ever called.\<close>

definition new_calls :: "gw_state \<Rightarrow> gw_state \<Rightarrow> call list" where
  "new_calls st st' = drop (length (st_calls st)) (st_calls st')"

definition calls_extend :: "gw_state \<Rightarrow> gw_state \<Rightarrow> bool" where
  "calls_extend st st' \<longleftrightarrow> take (length (st_calls st)) (st_calls st') = st_calls st"

lemma calls_extend_snoc:
  assumes "calls_extend s0 st" "st_calls st' = st_calls st @ [c]"
  shows "calls_extend s0 st'" "new_calls s0 st' = new_calls s0 st @ [c]"
proof -
  have "length (st_calls s0) \<le> length (st_calls st)"
    using assms(1) by (metis calls_extend_def nat_le_linear take_all order_refl)
  then show "calls_extend s0 st'" "new_calls s0 st' = new_calls s0 st @ [c]"
    using assms by (simp_all add: calls_extend_def new_calls_def)
qed

lemma calls_extend_refl [simp]: "calls_extend st st" "new_calls st st = []"
  by (simp_all add: calls_extend_def new_calls_def)

lemma calls_extend_same:
  "st_calls st' = st_calls st \<Longrightarrow> calls_extend s0 st' = calls_extend s0 st \<and> new_calls s0 st' = new_calls s0 st"
  by (simp add: calls_extend_def new_calls_def)

text \<open>The facts about calls that each step of the loops keeps, from the start state \<open>s0\<close> on.\<close>

definition calls_ok :: "model_spec list \<Rightarrow> string list \<Rightarrow> rat \<Rightarrow> gw_state \<Rightarrow> gw_state \<Rightarrow> bool" where
  "calls_ok targets blocked dl s0 st \<longleftrightarrow> calls_extend s0 st
     \<and> st_now s0 \<le> st_now st \<and> st_now st \<le> max (st_now s0) dl
     \<and> list_all (\<lambda>c. call_spec c \<in> set targets \<and> ms_id (call_spec c) \<notin> set blocked
          \<and> st_now s0 \<le> call_at c \<and> call_at c < dl \<and> call_at c + call_timeout c \<le> dl) (new_calls s0 st)"

lemma calls_ok_same:
  "calls_ok targets blocked dl s0 st \<Longrightarrow> st_calls st' = st_calls st \<Longrightarrow> st_now st' = st_now st \<Longrightarrow>
   calls_ok targets blocked dl s0 st'"
  using calls_extend_same [of st' st s0] by (simp add: calls_ok_def)

lemma calls_ok_attempt:
  assumes "calls_ok targets blocked dl s0 st" "spec \<in> set targets" "ms_id spec \<notin> set blocked"
    "one_attempt g rnd invoke usage_of k cfg dl spec n atts st = (f, atts', st')"
  shows "calls_ok targets blocked dl s0 st'"
proof (cases "st_now st < dl")
  case True
  note new = one_attempt_calls [OF assms(4) True]
  note snoc = calls_extend_snoc [OF _ new(1)]
  show ?thesis
    using assms(1-3) new(2,3) snoc True by (auto simp: calls_ok_def attempt_call_def min_def)
next
  case False
  then have "st' = st"
    using one_attempt_late [of dl st g rnd invoke usage_of k cfg spec n atts] assms(4) by simp
  with assms(1) show ?thesis by simp
qed

interpretation calls: run_invariant g rnd invoke usage_of k blocked dl targets
  "\<lambda>_ _. calls_ok targets blocked dl s0"
  for g rnd and invoke :: "nat \<Rightarrow> model_spec \<Rightarrow> rat \<times> 'r reply" and usage_of k blocked dl targets s0
proof unfold_locales
qed (auto intro: calls_ok_same calls_ok_attempt dest: admit_frame)

lemma run_calls_ok:
  "calls_ok targets blocked (st_now st + d) st
     (snd (snd (run g rnd invoke usage_of k targets d blocked st)))"
proof -
  obtain res atts st' where r: "run g rnd invoke usage_of k targets d blocked st = (res, atts, st')"
    by (metis prod_cases3)
  show ?thesis
    using calls.run_keeps [OF r refl, of st] r by (simp add: calls_ok_def)
qed

section \<open>What is reported and recorded\<close>

definition kept :: "attempt_record list \<Rightarrow> attempt_record list" where
  "kept atts = filter (\<lambda>a. ar_outcome a \<noteq> Skipped) atts"

definition new_records :: "gw_state \<Rightarrow> gw_state \<Rightarrow> attempt_record list" where
  "new_records st st' = drop (length (st_recorded st)) (st_recorded st')"

definition called_ids :: "gw_state \<Rightarrow> gw_state \<Rightarrow> string list" where
  "called_ids st st' = map (\<lambda>c. ms_id (call_spec c)) (new_calls st st')"

definition accounted :: "gw_state \<Rightarrow> 'r run_result option \<Rightarrow> attempt_record list \<Rightarrow> gw_state \<Rightarrow> bool" where
  "accounted s0 res atts st \<longleftrightarrow> calls_extend s0 st \<and>
     (\<exists>tail. st_recorded st = st_recorded s0 @ kept atts @ tail
        \<and> map ar_outcome tail = (if res = Some RunCancelled then [CancelledOutcome] else [])
        \<and> (case res of
             Some (RunCrashed _) \<Rightarrow> (\<exists>ids. length ids \<le> 1 \<and> called_ids s0 st = map ar_model_id (kept atts) @ ids)
           | _ \<Rightarrow> called_ids s0 st = map ar_model_id (kept atts @ tail)))"

definition failed_attempt :: "attempt_record \<Rightarrow> bool" where
  "failed_attempt a \<longleftrightarrow> ar_outcome a \<in> {Skipped, ErrorOutcome, TimeoutOutcome}
     \<and> ar_error_type a \<noteq> Some ''ProviderBadRequest''"

text \<open>What the reported attempts say about the way the loops ended.\<close>

definition explained :: "model_spec list \<Rightarrow> 'r run_result option \<Rightarrow> attempt_record list \<Rightarrow> bool" where
  "explained targets res atts \<longleftrightarrow>
     (case res of
        Some (RunOk v spec) \<Rightarrow> spec \<in> set targets \<and> atts \<noteq> [] \<and> list_all failed_attempt (butlast atts)
          \<and> ar_outcome (last atts) = Success \<and> ar_model_id (last atts) = ms_id spec
      | Some (RunError BadRequest) \<Rightarrow> atts \<noteq> [] \<and> list_all failed_attempt (butlast atts)
          \<and> ar_outcome (last atts) \<in> {ErrorOutcome, TimeoutOutcome}
          \<and> ar_error_type (last atts) = Some ''ProviderBadRequest''
      | Some (RunError NoAvailableProvider) \<Rightarrow> list_all (\<lambda>a. ar_outcome a = Skipped) atts
      | Some (RunError ProviderUnavailableCode) \<Rightarrow> list_all failed_attempt atts \<and> kept atts \<noteq> []
      | _ \<Rightarrow> list_all failed_attempt atts)"

lemma kept_simps [simp]:
  "kept [] = []" "kept (a @ b) = kept a @ kept b"
  "kept [r] = (if ar_outcome r = Skipped then [] else [r])"
  by (simp_all add: kept_def)

lemma kept_empty: "kept atts = [] \<longleftrightarrow> list_all (\<lambda>a. ar_outcome a = Skipped) atts"
  by (auto simp: kept_def filter_empty_conv list_all_iff)

lemma called_ids_snoc:
  "calls_extend s0 st \<Longrightarrow> st_calls st' = st_calls st @ [c] \<Longrightarrow>
   called_ids s0 st' = called_ids s0 st @ [ms_id (call_spec c)]"
  using calls_extend_snoc(2) [of s0 st st' c] by (simp add: called_ids_def)

lemma attempt_call_spec [simp]: "call_spec (attempt_call cfg dl spec st) = spec"
  by (simp add: attempt_call_def)

lemma accounted_attempt:
  assumes "accounted s0 (None :: 'r run_result option) atts st"
    "one_attempt g rnd (invoke :: nat \<Rightarrow> model_spec \<Rightarrow> rat \<times> 'r reply) usage_of k cfg dl spec n atts st = (f, atts', st')"
  shows "accounted s0 (run_end f) atts' st'"
proof (cases "st_now st < dl")
  case True
  have old: "calls_extend s0 st" "st_recorded st = st_recorded s0 @ kept atts"
    "called_ids s0 st = map ar_model_id (kept atts)"
    using assms(1) by (auto simp: accounted_def)
  note calls = one_attempt_calls(1) [OF assms(2) True]
  note ids = called_ids_snoc [OF old(1) calls]
  have ext: "calls_extend s0 st'"
    by (rule calls_extend_snoc(1) [OF old(1) calls])
  from one_attempt_ends [OF assms(2) True] show ?thesis
  proof (elim disjE exE conjE)
    fix r v
    assume "atts' = atts @ [r]" "st_recorded st' = st_recorded st @ [r]" "ar_model_id r = ms_id spec"
      "ar_outcome r = Success" "f = Some (Done (RunOk v spec))"
    then show ?thesis using old ids ext by (simp add: accounted_def)
  next
    fix r
    assume r: "atts' = atts @ [r]" "st_recorded st' = st_recorded st @ [r]" "ar_model_id r = ms_id spec"
      "ar_outcome r \<in> {ErrorOutcome, TimeoutOutcome}"
      and f: "if ar_error_type r = Some ''ProviderBadRequest'' then f = Some (Done (RunError BadRequest))
        else f = None \<or> f = Some NextTarget"
    then have "run_end f = Some (RunError BadRequest) \<or> run_end f = None"
      by (auto split: if_splits)
    with r show ?thesis using old ids ext by (auto simp: accounted_def)
  next
    fix r
    assume "atts' = atts" "st_recorded st' = st_recorded st @ [r]" "ar_model_id r = ms_id spec"
      "ar_outcome r = CancelledOutcome" "f = Some (Done RunCancelled)"
    then show ?thesis using old ids ext by (simp add: accounted_def)
  next
    fix x
    assume "atts' = atts" "st_recorded st' = st_recorded st" "f = Some (Done (RunCrashed x))"
    then show ?thesis using old ids ext by (simp add: accounted_def)
  qed
next
  case False
  then show ?thesis
    using one_attempt_late [of dl st g rnd invoke usage_of k cfg spec n atts] assms
    by (auto simp: accounted_def)
qed

lemma explained_attempt:
  assumes "explained targets (None :: 'r run_result option) atts" "spec \<in> set targets"
    "one_attempt g rnd (invoke :: nat \<Rightarrow> model_spec \<Rightarrow> rat \<times> 'r reply) usage_of k cfg dl spec n atts st = (f, atts', st')"
  shows "explained targets (run_end f) atts'"
proof (cases "st_now st < dl")
  case True
  have old: "list_all failed_attempt atts"
    using assms(1) by (simp add: explained_def)
  from one_attempt_ends [OF assms(3) True] show ?thesis
  proof (elim disjE exE conjE)
    fix r
    assume r: "atts' = atts @ [r]" "ar_outcome r \<in> {ErrorOutcome, TimeoutOutcome}"
      and "if ar_error_type r = Some ''ProviderBadRequest'' then f = Some (Done (RunError BadRequest))
        else f = None \<or> f = Some NextTarget"
    then have "(run_end f = Some (RunError BadRequest) \<and> ar_error_type r = Some ''ProviderBadRequest'')
      \<or> (run_end f = None \<and> failed_attempt r)"
      by (auto simp: failed_attempt_def split: if_splits)
    with r old show ?thesis by (auto simp: explained_def)
  qed (use old assms(2) in \<open>simp_all add: explained_def\<close>)
next
  case False
  then show ?thesis
    using one_attempt_late [of dl st g rnd invoke usage_of k cfg spec n atts] assms
    by (auto simp: explained_def)
qed

lemma exhausted_explained:
  "explained targets (None :: 'r run_result option) atts \<Longrightarrow>
   explained targets (Some (RunError (exhausted_code atts)) :: 'r run_result option) atts"
  by (auto simp: explained_def exhausted_code_def kept_empty)

lemma skipped_explained:
  "explained targets (None :: 'r run_result option) atts \<Longrightarrow>
   explained targets (None :: 'r run_result option) (atts @ [skipped_attempt k spec reason])"
  by (simp add: explained_def failed_attempt_def)

lemma accounted_same:
  assumes "accounted s0 (None :: 'r run_result option) atts st" "st_recorded st' = st_recorded st"
    "st_calls st' = st_calls st" "kept atts' = kept atts"
  shows "accounted s0 (None :: 'r run_result option) atts' st'"
  using assms calls_extend_same [OF assms(3), of s0] by (simp add: accounted_def called_ids_def)

interpretation ledger: run_invariant g rnd invoke usage_of k blocked dl targets
  "\<lambda>res atts st. accounted s0 res atts st \<and> explained targets res atts"
  for g rnd and invoke :: "nat \<Rightarrow> model_spec \<Rightarrow> rat \<times> 'r reply" and usage_of k blocked dl targets s0
proof (unfold_locales, goal_cases)
  case (1 spec atts st atts' st')
  then obtain reason where "atts' = atts @ [skipped_attempt k spec reason]"
    using admit_frame(5) by blast
  with 1 show ?case
    using admit_frame(2,3) [OF 1(3)] by (auto intro: accounted_same skipped_explained)
next
  case (2 spec atts st atts' st')
  then show ?case
    using admit_frame(2,3,4) [OF 2(3)] by (auto intro: accounted_same)
next
  case (3 spec atts st cfg n f atts' st')
  then show ?case by (auto intro: accounted_attempt explained_attempt)
next
  case (4 atts st)
  then show ?case by (auto simp: accounted_def explained_def)
next
  case (5 atts st)
  then show ?case by (auto intro: exhausted_explained simp: accounted_def)
qed

lemma run_ledger:
  assumes "run g rnd invoke usage_of k targets d blocked st = (res, atts, st')"
  shows "accounted st (Some res) atts st' \<and> explained targets (Some res) atts"
  using ledger.run_keeps [OF assms refl, of st] by (simp add: accounted_def explained_def called_ids_def)

section \<open>Answers and call counts\<close>

text \<open>The value a successful run returns is an answer the provider of the reported model gave.\<close>

interpretation answer: run_invariant g rnd invoke usage_of k blocked dl targets
  "\<lambda>res _ _. case res of
       Some (RunOk v spec) \<Rightarrow> spec \<in> set targets \<and> (\<exists>n d. invoke n spec = (d, Returned v))
     | _ \<Rightarrow> True"
  for g rnd and invoke :: "nat \<Rightarrow> model_spec \<Rightarrow> rat \<times> 'r reply" and usage_of k blocked dl targets
proof (unfold_locales, goal_cases)
  case (3 spec atts st cfg n f atts' st')
  show ?case
  proof (cases "\<exists>v s. f = Some (Done (RunOk v s))")
    case True
    define t where "t = min (pc_timeout_s cfg) (dl - st_now st)"
    define i where "i = length (st_calls st)"
    define a where "a = timed_call spec t (invoke i spec)"
    from True 3 obtain v where v: "snd a = Returned v" "f = Some (Done (RunOk v spec))"
      by (auto simp: one_attempt_def Let_def attempt_failed_def attempt_cancelled_def attempt_succeeded_def
          a_def t_def i_def split: reply.splits if_splits)
    then have "invoke i spec = (fst (invoke i spec), Returned v)"
      by (cases "invoke i spec") (auto simp: a_def timed_call_def split: if_splits)
    with v 3(1) show ?thesis by auto
  next
    case False
    then show ?thesis by (cases f rule: run_end.cases) (auto split: run_result.splits)
  qed
qed auto

lemma run_answer:
  assumes "run g rnd invoke usage_of k targets d blocked st = (RunOk v spec, atts, st')"
  shows "spec \<in> set targets \<and> (\<exists>n d. invoke n spec = (d, Returned v))"
  using answer.run_keeps [OF assms refl] by simp

definition max_calls :: "gateway \<Rightarrow> model_spec \<Rightarrow> nat" where
  "max_calls g spec =
     (case dict_get (cat_providers (gw_catalog g)) (ms_provider spec) of
        Some cfg \<Rightarrow> pc_max_attempts cfg | None \<Rightarrow> 0)"

lemma one_attempt_count:
  assumes "one_attempt g rnd invoke usage_of k cfg dl spec n atts st = (f, atts', st')"
  shows "length (st_calls st') \<le> Suc (length (st_calls st))"
proof (cases "st_now st < dl")
  case True
  then show ?thesis using one_attempt_calls(1) [OF assms] by simp
next
  case False
  then show ?thesis
    using one_attempt_late [of dl st g rnd invoke usage_of k cfg spec n atts] assms by simp
qed

lemma attempt_loop_count:
  "attempt_loop g rnd invoke usage_of k cfg dl spec ns atts st = (f, atts', st') \<Longrightarrow>
   length (st_calls st') \<le> length (st_calls st) + length ns"
proof (induction ns arbitrary: atts st)
  case (Cons n ns)
  obtain f1 a1 s1 where one: "one_attempt g rnd invoke usage_of k cfg dl spec n atts st = (f1, a1, s1)"
    by (metis prod_cases3)
  then show ?case
    using Cons.IH [of a1 s1] Cons.prems one_attempt_count [OF one] by (cases f1) auto
qed simp

lemma target_loop_count:
  "target_loop g rnd invoke usage_of k blocked dl specs atts st = (res, atts', st') \<Longrightarrow>
   length (st_calls st') \<le> length (st_calls st) + sum_list (map (max_calls g) specs)"
proof (induction specs arbitrary: atts st)
  case (Cons spec specs)
  obtain ok a1 s1 where ad: "admit spec (is_available g spec) k blocked atts st = (ok, a1, s1)"
    by (metis prod_cases3)
  note s1 = admit_frame(3) [OF ad]
  show ?case
  proof (cases "ok \<and> dict_get (cat_providers (gw_catalog g)) (ms_provider spec) \<noteq> None")
    case False
    then show ?thesis
      using Cons.IH [of a1 s1] Cons.prems ad s1 by (cases ok) auto
  next
    case True
    then obtain cfg where cfg: "dict_get (cat_providers (gw_catalog g)) (ms_provider spec) = Some cfg"
      by auto
    obtain f a2 s2 where al: "attempt_loop g rnd invoke usage_of k cfg dl spec
        [1..<Suc (pc_max_attempts cfg)] a1 s1 = (f, a2, s2)"
      by (metis prod_cases3)
    have "length (st_calls s2) \<le> length (st_calls st) + max_calls g spec"
      using attempt_loop_count [OF al] s1 cfg by (simp add: max_calls_def del: upt_Suc)
    then show ?thesis
      using Cons.IH [of a2 s2] Cons.prems ad al True cfg by (cases f) (auto simp del: upt_Suc)
  qed
qed simp

section \<open>The calls of a chat or an embedding request\<close>

text \<open>What holds of every call made between two states.\<close>

definition calls_from :: "(call \<Rightarrow> bool) \<Rightarrow> gw_state \<Rightarrow> gw_state \<Rightarrow> bool" where
  "calls_from P st st' \<longleftrightarrow> calls_extend st st' \<and> list_all P (new_calls st st')"

lemma calls_from_trans: "calls_from P a b \<Longrightarrow> calls_from P b c \<Longrightarrow> calls_from P a c"
proof -
  assume ab: "calls_from P a b" and bc: "calls_from P b c"
  obtain x where x: "st_calls b = st_calls a @ x" "list_all P x"
    using ab by (metis append_take_drop_id calls_extend_def calls_from_def new_calls_def)
  obtain y where y: "st_calls c = st_calls b @ y" "list_all P y"
    using bc by (metis append_take_drop_id calls_extend_def calls_from_def new_calls_def)
  show ?thesis
    by (simp add: calls_from_def calls_extend_def new_calls_def x y)
qed

lemma calls_from_mono: "calls_from P a b \<Longrightarrow> (\<And>c. P c \<Longrightarrow> Q c) \<Longrightarrow> calls_from Q a b"
  by (auto simp: calls_from_def list_all_iff)

lemma embed_calls:
  assumes "resolve (gw_catalog g) route Embedding = Inr (n, targets)"
  shows "calls_from (\<lambda>c. call_spec c \<in> set targets) st (snd (embed g rnd ask route inputs k st))"
proof -
  have "snd (embed g rnd ask route inputs k st)
      = snd (snd (run g rnd (embed_invoke g ask inputs k) er_usage Embedding targets (gw_request_deadline_s g) [] st))"
    using assms by (simp add: embed_def finish_call_def split: prod.split)
  then show ?thesis
    using run_calls_ok [of targets "[]" st "gw_request_deadline_s g" g rnd "embed_invoke g ask inputs k" er_usage Embedding]
    by (auto simp: calls_ok_def calls_from_def list_all_iff)
qed

lemma calls_from_refl [simp]: "calls_from P st st"
  by (simp add: calls_from_def)

lemma chat_calls:
  "calls_from (\<lambda>c. allow_egress \<or> \<not> has_egress g (call_spec c)) st
     (snd (chat g rnd ask route messages params allow_egress st))"
proof (cases "resolve (gw_catalog g) route Chat")
  case (Inl e)
  then show ?thesis by (simp add: chat_def)
next
  case (Inr r)
  obtain name targets where r: "r = (name, targets)" by (cases r)
  show ?thesis
  proof (cases "egress_blocked g targets allow_egress")
    case (Inl x)
    with Inr r show ?thesis by (simp add: chat_def)
  next
    case blocked: (Inr blocked)
    then have b: "allow_egress \<or> blocked = map ms_id (filter (has_egress g) targets)"
      by (auto simp: egress_blocked_def split: if_splits)
    have "snd (chat g rnd ask route messages params allow_egress st)
        = snd (snd (run g rnd (chat_invoke g ask messages params) cr_usage Chat targets
            (gw_request_deadline_s g) blocked st))"
      using Inr r blocked by (simp add: chat_def finish_call_def split: prod.split)
    moreover have "calls_from (\<lambda>c. call_spec c \<in> set targets \<and> ms_id (call_spec c) \<notin> set blocked) st
        (snd (snd (run g rnd (chat_invoke g ask messages params) cr_usage Chat targets
            (gw_request_deadline_s g) blocked st)))"
      using run_calls_ok [of targets blocked st "gw_request_deadline_s g" g rnd
          "chat_invoke g ask messages params" cr_usage Chat]
      by (auto simp: calls_ok_def calls_from_def list_all_iff)
    ultimately show ?thesis
      using b by (auto elim: calls_from_mono)
  qed
qed

lemma chat_no_egress:
  "list_all (\<lambda>c. \<not> has_egress g (call_spec c))
     (new_calls st (snd (chat g rnd ask route messages params False st)))"
  using chat_calls [of False] by (simp add: calls_from_def)

section \<open>Properties\<close>

text \<open>C5: A chat request whose context may not leave the premises (\<open>allow_egress=False\<close>) never
  calls a model whose provider is marked \<open>data_egress\<close>, whatever the providers answer and however
  far the fallback goes.\<close>

theorem egress_contained:
  "list_all (\<lambda>c. \<not> has_egress g (call_spec c))
     (new_calls st (snd (chat g rnd ask route messages params False st)))"
  by (rule chat_no_egress)

text \<open>The request deadline is hard: every provider call starts before it and is cut off by it,
  and the run is over when it passes, with all retries, backoff sleeps and fallbacks included.\<close>

theorem run_within_deadline:
  "case run g rnd invoke usage_of k targets d blocked st of (res, atts, st') \<Rightarrow>
     st_now st \<le> st_now st' \<and> st_now st' \<le> max (st_now st) (st_now st + d)
     \<and> list_all (\<lambda>c. st_now st \<le> call_at c \<and> call_at c < st_now st + d
          \<and> call_at c + call_timeout c \<le> st_now st + d) (new_calls st st')"
  using run_calls_ok [of targets blocked st d g rnd invoke usage_of k]
  by (auto simp: calls_ok_def list_all_iff split: prod.split)



text \<open>A run calls each target at most its provider's \<open>max_attempts\<close> times.\<close>

lemma run_call_bound:
  "length (new_calls st (snd (snd (run g rnd invoke usage_of k targets d blocked st))))
     \<le> sum_list (map (max_calls g) targets)"
proof -
  obtain res atts st' where r: "run g rnd invoke usage_of k targets d blocked st = (res, atts, st')"
    by (metis prod_cases3)
  then show ?thesis
    using target_loop_count [of g rnd invoke usage_of k blocked "st_now st + d" targets "[]" st]
    by (simp add: run_def new_calls_def)
qed

lemma embed_result_dimensions:
  assumes "embed g rnd ask route inputs input_type st = (Inr out, st')"
  shows "dimensions_ok (co_model out) (co_result out)"
proof -
  obtain name targets where r: "resolve (gw_catalog g) route Embedding = Inr (name, targets)"
    using assms by (auto simp: embed_def split: sum.splits)
  obtain res atts s1 where run: "run g rnd (embed_invoke g ask inputs input_type) er_usage Embedding targets
      (gw_request_deadline_s g) [] st = (res, atts, s1)"
    by (metis prod_cases3)
  with assms r have "res = RunOk (co_result out) (co_model out)"
    by (auto simp: embed_def finish_call_def split: run_result.splits)
  then obtain n d where "embed_invoke g ask inputs input_type n (co_model out) = (d, Returned (co_result out))"
    using run_answer run by metis
  then show ?thesis
    by (auto simp: embed_invoke_def split: if_splits prod.splits reply.splits)
qed

text \<open>An embedding call that succeeds returns vectors of the dimension the catalog declares for
  the model it reports, so a provider with the wrong model behind it cannot fill the index.\<close>

theorem embed_dimensions:
  "case fst (embed g rnd ask route inputs input_type st) of
     Inl e \<Rightarrow> True
   | Inr out \<Rightarrow> dimensions_ok (co_model out) (co_result out)"
  using embed_result_dimensions [of g rnd ask route inputs input_type st]
  by (cases "embed g rnd ask route inputs input_type st") (auto split: sum.splits)

section \<open>What an attempt leaves in the breaker\<close>

lemma breaker_at_record [simp]: "st_breakers (record_usage r st) = st_breakers st"
  by simp

text \<open>Errors that are not the provider's fault, and cancellation, leave the breaker alone.\<close>

definition breaker_silent :: "'r reply \<Rightarrow> bool" where
  "breaker_silent x \<longleftrightarrow> (case x of
       Cancelled \<Rightarrow> True | Crashed _ \<Rightarrow> True | Returned _ \<Rightarrow> False
     | Raised e \<Rightarrow> pe_kind e = ProviderBadRequest \<or> pe_kind e = ProviderModelNotFound)"

lemma silent_attempt:
  assumes "one_attempt g rnd invoke usage_of k cfg dl spec n atts st = (f, atts', st')"
    "breaker_silent (snd (invoke (length (st_calls st)) spec))"
    "fst (invoke (length (st_calls st)) spec) < min (pc_timeout_s cfg) (dl - st_now st)"
  shows "st_breakers st' = st_breakers st"
proof (cases "st_now st < dl")
  case True
  define a where "a = invoke (length (st_calls st)) spec"
  have t: "timed_call spec (min (pc_timeout_s cfg) (dl - st_now st)) a = a"
    using assms(3) by (simp add: timed_call_def a_def)
  have "\<not> dl - st_now st \<le> 0"
    using True by simp
  then show ?thesis
    using assms(1,2) t
    by (cases "snd a") (auto simp: one_attempt_def Let_def a_def [symmetric] breaker_silent_def attempt_failed_def
        attempt_cancelled_def update_breaker_def split: if_splits)
next
  case False
  then show ?thesis
    using one_attempt_late [of dl st g rnd invoke usage_of k cfg spec n atts] assms by simp
qed

lemma admitted_probe_stuck:
  assumes "admit spec True k blocked atts st = (True, atts', st')"
    "state_of (breaker_at (st_breakers st) (ms_id spec)) (st_now st) = HalfOpen"
  shows "stuck (breaker_at (st_breakers st') (ms_id spec))"
proof -
  define b where "b = breaker_at (st_breakers st) (ms_id spec)"
  have "fst (get_breaker (st_breakers st) (ms_id spec)) = b"
    by (simp add: b_def breaker_at_def)
  with assms(1) have "fst (allow b (st_now st)) \<and> breaker_at (st_breakers st') (ms_id spec) = snd (allow b (st_now st))"
    by (auto simp: admit_def Let_def split: if_splits)
  with allow_half_open [of b "st_now st"] assms(2) show ?thesis
    by (simp add: b_def)
qed

lemma stuck_not_admitted:
  assumes "stuck (breaker_at (st_breakers st) (ms_id spec))"
  shows "\<not> fst (admit spec present k blocked atts st)"
proof -
  have "fst (get_breaker (st_breakers st) (ms_id spec)) = breaker_at (st_breakers st) (ms_id spec)"
    by (simp add: breaker_at_def)
  with stuck_allow [OF assms] show ?thesis
    by (simp add: admit_def Let_def)
qed

text \<open>The probe of a half-open breaker is lost when it ends in a 400, a 404 or a cancellation:
  \<open>_update_breaker\<close> does not report those, so \<open>_probe_in_flight\<close> stays set and the model is never
  admitted again, at any later time, until the process restarts.\<close>

theorem half_open_probe_lost:
  assumes "state_of (breaker_at (st_breakers st) (ms_id spec)) (st_now st) = HalfOpen"
    "admit spec True k blocked atts st = (True, atts1, st1)"
    "one_attempt g rnd invoke usage_of k cfg dl spec 1 atts1 st1 = (f, atts2, st2)"
    "breaker_silent (snd (invoke (length (st_calls st1)) spec))"
    "fst (invoke (length (st_calls st1)) spec) < min (pc_timeout_s cfg) (dl - st_now st1)"
  shows "\<not> fst (admit spec present k' blocked' atts' (st2\<lparr>st_now := t\<rparr>))"
proof -
  have "stuck (breaker_at (st_breakers st2) (ms_id spec))"
    using admitted_probe_stuck [OF assms(2,1)] silent_attempt [OF assms(3-5)] by simp
  then show ?thesis by (intro stuck_not_admitted) simp
qed

subsection \<open>A concrete gateway\<close>

definition demo_gateway :: gateway where
  "demo_gateway =
     \<lparr>gw_catalog = demo_catalog,
      gw_providers = [(''nim'', \<lparr>can_chat = True, can_embed = False\<rparr>),
                      (''ollama'', \<lparr>can_chat = True, can_embed = True\<rparr>)],
      gw_backoff = default_backoff, gw_request_deadline_s = 120, gw_stream_deadline_s = 300,
      gw_stream_idle_timeout_s = 30\<rparr>"

text \<open>A state in which the first model's breaker opened at time 0.\<close>

definition demo_state :: "rat \<Rightarrow> gw_state" where
  "demo_state now =
     \<lparr>st_now = now,
      st_breakers = put_breaker ''nim/a'' (record_failure (new_breaker 1 30) 0) (new_registry 1 30),
      st_recorded = [], st_calls = []\<rparr>"

theorem half_open_probe_lost_witness:
  "\<not> fst (admit (demo_model ''nim/a'' ''nim'' Chat None) True Chat [] []
       ((snd (snd (one_attempt demo_gateway (\<lambda>_. 0) (\<lambda>_ _. (1, Cancelled)) (cr_usage :: chat_result \<Rightarrow> usage) Chat
            (demo_provider OpenAICompatible True) 160 (demo_model ''nim/a'' ''nim'' Chat None) 1 []
            (snd (snd (admit (demo_model ''nim/a'' ''nim'' Chat None) True Chat [] [] (demo_state 40))))))
        \<lparr>st_now := 1000000\<rparr>)))"
proof -
  let ?m = "demo_model ''nim/a'' ''nim'' Chat None"
  obtain ok atts1 st1 where ad: "admit ?m True Chat [] [] (demo_state 40) = (ok, atts1, st1)"
    by (metis prod_cases3)
  then have st1: "ok" "atts1 = []" "st_calls st1 = []" "st_now st1 = 40"
    by (auto simp: admit_def Let_def demo_state_def demo_model_def get_breaker_def put_breaker_def new_registry_def
        breaker_defs new_breaker_def)
  obtain f atts2 st2 where one: "one_attempt demo_gateway (\<lambda>_. 0) (\<lambda>_ _. (1, Cancelled)) (cr_usage :: chat_result \<Rightarrow> usage) Chat
      (demo_provider OpenAICompatible True) 160 ?m 1 atts1 st1 = (f, atts2, st2)"
    by (metis prod_cases3)
  have half: "state_of (breaker_at (st_breakers (demo_state 40)) (ms_id ?m)) (st_now (demo_state 40)) = HalfOpen"
    by (simp add: demo_state_def demo_model_def breaker_defs new_breaker_def Let_def)
  have ad': "admit ?m True Chat [] [] (demo_state 40) = (True, atts1, st1)"
    using ad st1(1) by simp
  have "\<not> fst (admit ?m True Chat [] [] (st2\<lparr>st_now := 1000000\<rparr>))"
    by (rule half_open_probe_lost [OF half ad' one])
      (simp_all add: breaker_silent_def demo_provider_def st1)
  then show ?thesis
    using ad one st1(2) by simp
qed

end
