(* ===== verification/Routing.thy ===== *)
theory Routing
  imports Registry GatewayRun Config
begin

text \<open>
  How a message finds its path: the checks on its form of \<open>agent/intent.py\<close>, the small-talk pattern, the router
  model's reply (\<open>_parse_decision\<close>) and the node \<open>classify\<close> of \<open>agent/graph.py\<close> that overrules it. \<open>json.loads\<close> of a text
  that begins with a brace is the parameter \<open>loads\<close>: the object, or None for a \<open>JSONDecodeError\<close>.
\<close>

section \<open>The form of a message\<close>

definition question_words :: "string list" where
  "question_words = [''can'', ''could'', ''may'', ''might'', ''must'', ''should'', ''shall'', ''will'', ''would'', ''do'', ''does'', ''did'',
     ''is'', ''are'', ''was'', ''were'', ''has'', ''have'', ''who'', ''whom'', ''whose'', ''what'', ''when'', ''where'', ''why'', ''how'', ''which'']"

definition addressed_words :: "string list" where
  "addressed_words = [''you'', ''your'', ''yourself'', ''please'']"

definition softeners :: "string list" where
  "softeners = [''please'', ''kindly'', ''now'', ''just'', ''go'', ''ahead'', ''and'', ''then'']"

definition action_words :: "string list" where
  "action_words = [''restart'', ''reboot'', ''start'', ''stop'', ''shut'', ''shutdown'', ''kill'', ''terminate'', ''halt'', ''pause'', ''resume'',
     ''delete'', ''remove'', ''drop'', ''destroy'', ''wipe'', ''purge'', ''flush'', ''reset'', ''deploy'', ''redeploy'', ''release'', ''roll'',
     ''rollback'', ''revert'', ''scale'', ''resize'', ''patch'', ''upgrade'', ''downgrade'', ''update'', ''install'', ''uninstall'', ''migrate'',
     ''run'', ''execute'', ''restore'', ''drain'', ''disable'', ''enable'', ''block'', ''unblock'', ''grant'', ''revoke'', ''rotate'', ''change'',
     ''modify'', ''edit'', ''apply'', ''provision'', ''decommission'', ''failover'', ''promote'', ''demote'']"

definition message_words :: "string \<Rightarrow> string list" where
  "message_words message = az_words [] (py_lower message)"

definition asks_about_rules :: "string \<Rightarrow> bool" where
  "asks_about_rules message =
     (let ws = message_words message;
          question = (hd ws \<in> set question_words \<or> py_endswith (py_rstrip message) ''?'');
          addressed = (list_ex (\<lambda>w. w \<in> set addressed_words) ws \<or> py_contains ''for me'' (py_join '' '' ws))
      in ws \<noteq> [] \<and> question \<and> \<not> addressed)"

definition asks_for_unsupported_action :: "string \<Rightarrow> bool" where
  "asks_for_unsupported_action message =
     (let ws = filter (\<lambda>w. w \<notin> set softeners) (message_words message) in ws \<noteq> [] \<and> hd ws \<in> set action_words)"

text \<open>\<open>_SMALL_TALK\<close>: white space, one of the openers in any case, then only white space and the punctuation listed; of the
  Vietnamese openers the character repertoire has the two below.\<close>

definition small_talk_openers :: "string list" where
  "small_talk_openers =
     [''hi'', ''hello'', ''hey'', ''yo'', ''good morning'', ''good afternoon'', ''good evening'', ''thanks'', ''thank you'', ''thx'', ''ok'',
      ''okay'', ''bye'', ''goodbye'', ''cheers'', ''ch'' @ [CHR 0xE0] @ ''o'', ''xin ch'' @ [CHR 0xE0] @ ''o'']"

definition small_talk_tail :: "char \<Rightarrow> bool" where
  "small_talk_tail c \<longleftrightarrow> py_space c \<or> c \<in> set ''!.,:;)-''"

definition small_talk :: "string \<Rightarrow> bool" where
  "small_talk message =
     (let s = py_lstrip message in
      list_ex (\<lambda>w. py_startswith (py_lower s) w \<and> list_all small_talk_tail (drop (length w) s)) small_talk_openers)"

section \<open>The router's reply\<close>

datatype route_choice = DSmallTalk | DKnowledge | DRefuse | DTool string raw_args

text \<open>\<open>re.search(r"\{.*\}", text, re.S)\<close>: from the first opening brace to the last closing one.\<close>

definition braced :: "string \<Rightarrow> string option" where
  "braced s =
     (let t = dropWhile (\<lambda>c. c \<noteq> CHR ''{'') s; u = rev (dropWhile (\<lambda>c. c \<noteq> CHR ''}'') (rev t))
      in if u = [] then None else Some u)"

definition is_tool :: "string \<Rightarrow> bool" where
  "is_tool name \<longleftrightarrow> tool_spec_of name \<noteq> None"

definition parse_decision :: "(string \<Rightarrow> raw_args option) \<Rightarrow> string \<Rightarrow> route_choice" where
  "parse_decision loads reply =
     (case braced reply of
        None \<Rightarrow> DKnowledge
      | Some obj \<Rightarrow>
          (case loads obj of
             None \<Rightarrow> DKnowledge
           | Some data \<Rightarrow>
               if jget data ''route'' = Some (JStr ''refuse'') then DRefuse
               else (case jget data ''tool'' of
                       Some (JStr tool) \<Rightarrow>
                         if jget data ''route'' = Some (JStr ''tool'') \<and> is_tool tool
                         then DTool tool (case jget data ''arguments'' of Some (JObj args) \<Rightarrow> args | _ \<Rightarrow> [])
                         else DKnowledge
                     | _ \<Rightarrow> DKnowledge)))"

text \<open>The four overruling steps of \<open>classify\<close>, in its order.\<close>

definition unasked_record :: "string \<Rightarrow> route_choice \<Rightarrow> route_choice" where
  "unasked_record question dec =
     (case dec of DTool tool args \<Rightarrow> if asks_for_record tool question then dec else DKnowledge | _ \<Rightarrow> dec)"

definition rules_question :: "string \<Rightarrow> route_choice \<Rightarrow> route_choice" where
  "rules_question question dec = (if dec = DRefuse \<and> asks_about_rules question then DKnowledge else dec)"

definition unsupported_read :: "string \<Rightarrow> route_choice \<Rightarrow> route_choice" where
  "unsupported_read question dec =
     (case dec of
        DTool tool args \<Rightarrow>
          (case tool_spec_of tool of
             Some s \<Rightarrow> if effect s = ''reads data'' \<and> asks_for_unsupported_action question then DRefuse else dec
           | None \<Rightarrow> dec)
      | _ \<Rightarrow> dec)"

definition misread_arguments :: "(json \<Rightarrow> int option) \<Rightarrow> route_choice \<Rightarrow> route_choice" where
  "misread_arguments lax dec =
     (case dec of DTool tool args \<Rightarrow> if reads_with_invalid_arguments lax tool args then DKnowledge else dec | _ \<Rightarrow> dec)"

definition overrule :: "(json \<Rightarrow> int option) \<Rightarrow> string \<Rightarrow> route_choice \<Rightarrow> route_choice" where
  "overrule lax question dec =
     misread_arguments lax (unsupported_read question (rules_question question (unasked_record question dec)))"

section \<open>classify\<close>

text \<open>What the answering code is given: the gateway with the network behind it, the standard library's JSON decoder, pydantic's
  reading of integers, the fixed prompts and the settings.\<close>

record agent_env =
  ag_gateway :: gateway
  ag_rnd :: "nat \<Rightarrow> rat"
  ag_ask :: "nat \<Rightarrow> model_spec \<Rightarrow> chat_message list \<Rightarrow> chat_params \<Rightarrow> rat \<times> chat_result reply"
  ag_loads :: "string \<Rightarrow> raw_args option"
  ag_lax :: "json \<Rightarrow> int option"
  ag_router_prompt :: string
  ag_system_prompt :: string
  ag_review_prompt :: string
  ag_settings :: settings

definition ag_chat ::
  "agent_env \<Rightarrow> string option \<Rightarrow> chat_message list \<Rightarrow> chat_params \<Rightarrow> bool \<Rightarrow> gw_state
   \<Rightarrow> (call_failure + chat_result call_outcome) \<times> gw_state" where
  "ag_chat r = chat (ag_gateway r) (ag_rnd r) (ag_ask r)"

definition router_messages :: "agent_env \<Rightarrow> string \<Rightarrow> chat_message list" where
  "router_messages r question =
     [\<lparr>cm_role = RSystem, cm_content = ag_router_prompt r\<rparr>, \<lparr>cm_role = RUser, cm_content = question\<rparr>]"

text \<open>\<open>a or b\<close> for optional texts.\<close>

definition or_text :: "string option \<Rightarrow> string option \<Rightarrow> string option" where
  "or_text a b = (if nonempty a then a else b)"

definition classify :: "agent_env \<Rightarrow> string \<Rightarrow> string option \<Rightarrow> gw_state \<Rightarrow> (call_failure + route_choice) \<times> gw_state" where
  "classify r question model_choice st =
     (if small_talk question then (Inr DSmallTalk, st)
      else case triggered_skill question of
             Some (skill, found) \<Rightarrow> (Inr (DTool skill found), st)
           | None \<Rightarrow>
               (case ag_chat r (or_text (se_router_model (ag_settings r)) model_choice)
                       (router_messages r question) \<lparr>cp_temperature = Some 0, cp_max_tokens = 300\<rparr> True st of
                  (Inl (CallGatewayError c atts), st') \<Rightarrow> (Inr DKnowledge, st')
                | (Inl e, st') \<Rightarrow> (Inl e, st')
                | (Inr out, st') \<Rightarrow>
                    (Inr (overrule (ag_lax r) question (parse_decision (ag_loads r) (cr_content (co_result out)))), st')))"

section \<open>Properties\<close>

text \<open>What a message must itself say for a skill to be run, whatever a model replies: a skill that writes needs its record
  named in the message; a reader needs arguments its schema accepts, and the message is not an instruction to
  change a system unless it names the ticket to read.\<close>

definition skill_warranted :: "(json \<Rightarrow> int option) \<Rightarrow> string \<Rightarrow> string \<Rightarrow> raw_args \<Rightarrow> bool" where
  "skill_warranted lax question tool args =
     (case tool_spec_of tool of
        None \<Rightarrow> False
      | Some s \<Rightarrow>
          if effect s = ''reads data''
          then model_validate lax (ts_args_model s) args \<noteq> None
            \<and> (triggered_skill question = Some (tool, args) \<or> \<not> asks_for_unsupported_action question)
          else list_ex (\<lambda>w. w \<in> set (message_words question)) (ts_names_record s))"

lemma writers_name_records:
  "tool_spec_of tool = Some s \<Longrightarrow> effect s \<noteq> ''reads data'' \<Longrightarrow> ts_names_record s \<noteq> []"
proof -
  assume "tool_spec_of tool = Some s" "effect s \<noteq> ''reads data''"
  moreover have "list_all (\<lambda>s. effect s = ''reads data'' \<or> ts_names_record s \<noteq> []) tools"
    by code_simp
  ultimately show ?thesis
    by (auto simp: tool_spec_of_def list_all_iff dest: find_SomeD)
qed

lemma parse_decision_tool: "parse_decision loads reply = DTool tool args \<Longrightarrow> tool_spec_of tool \<noteq> None"
  by (auto simp: parse_decision_def is_tool_def split: option.splits if_splits json.splits)

lemma overruled:
  assumes "overrule lax q (parse_decision loads reply) = DTool tool args"
  shows "skill_warranted lax q tool args"
proof -
  let ?d = "parse_decision loads reply"
  from assms have d: "?d = DTool tool args" "asks_for_record tool q" "\<not> reads_with_invalid_arguments lax tool args"
    and u: "unsupported_read q (DTool tool args) = DTool tool args"
    by (cases ?d; auto simp: overrule_def unasked_record_def rules_question_def unsupported_read_def misread_arguments_def
        split: if_splits option.splits route_choice.splits)+
  from parse_decision_tool [OF d(1)] obtain s where s: "tool_spec_of tool = Some s" by auto
  with d u writers_name_records [OF s] show ?thesis
    by (auto simp: skill_warranted_def asks_for_record_def message_words_def reads_with_invalid_arguments_def
        unsupported_read_def split: if_splits)
qed

lemma triggered_warranted:
  assumes "triggered_skill q = Some (tool, args)"
  shows "skill_warranted lax q tool args"
proof -
  obtain t where t: "search_ticket True q = Some t" "tool = ''get_support_ticket''" "args = [(''ticket_id'', JStr t)]"
    using assms unfolding triggered_skill_def effect_ticket_tools by (auto split: option.splits)
  have spec: "map_option (\<lambda>s. (effect s, ts_args_model s)) (tool_spec_of ''get_support_ticket'') = Some (''reads data'', GetSupportTicketArgs)"
    by code_simp
  then obtain s where s: "tool_spec_of ''get_support_ticket'' = Some s" "effect s = ''reads data''" "ts_args_model s = GetSupportTicketArgs"
    by (auto simp: map_option_case split: option.splits)
  have "validate_get_ticket args = Some (GetTicketArgs t)"
    using search_ticket_format [OF t(1)]
    by (simp add: t(3) validate_get_ticket_def only_fields_def str_field_def)
  with s t(2) assms show ?thesis by (simp add: skill_warranted_def)
qed


end
