(* ===== verification/Auth.thy ===== *)
theory Auth
  imports Config "HOL-Library.List_Lexorder" "HOL-Library.Char_ord"
begin

text \<open>
  \<open>auth.py\<close> and \<open>policy/access.py\<close>: from a bearer token to a \<open>Principal\<close>, and from its
  permissions to the scope of documents it may read.

  The JWT library is not part of the repository: \<open>jwt_encode claims secret\<close> is the signed token,
  \<open>jwt_decode secret audience issuer required now token\<close> the claims it verified (\<open>None\<close> is
  \<open>jwt.InvalidTokenError\<close>). The users table is a dictionary by user id.
\<close>

section \<open>Users and principals\<close>

record user =
  u_id :: string
  u_name :: string
  u_department :: string
  u_role :: string
  u_permissions :: "string list"
  u_is_active :: bool

type_synonym users = "(string, user) dict"

record principal =
  p_user_id :: string
  p_name :: string
  p_department :: string
  p_role :: string
  p_permissions :: "string list"

definition has_perm :: "principal \<Rightarrow> string \<Rightarrow> bool" where
  "has_perm p perm = (perm \<in> set (p_permissions p))"

section \<open>Tokens\<close>

type_synonym claims = "(string, string) dict"
type_synonym jwt_encode = "claims \<Rightarrow> string \<Rightarrow> string"
type_synonym jwt_decode = "string \<Rightarrow> string \<Rightarrow> string \<Rightarrow> string list \<Rightarrow> int \<Rightarrow> string \<Rightarrow> claims option"

definition ISSUER :: string where "ISSUER = ''opsassist''"
definition AUDIENCE :: string where "AUDIENCE = ''opsassist-api''"

definition required_claims :: "string list" where
  "required_claims = [''sub'', ''role'', ''exp'', ''iat'', ''iss'', ''aud'']"

text \<open>The payload: integer claims are written in decimal.\<close>

definition token_claims :: "settings \<Rightarrow> string \<Rightarrow> string \<Rightarrow> int \<Rightarrow> claims" where
  "token_claims s user role issued =
     [(''sub'', user), (''role'', role), (''iss'', ISSUER), (''aud'', AUDIENCE),
      (''iat'', int_str issued), (''exp'', int_str (issued + se_jwt_ttl_seconds s))]"

definition issue_token :: "jwt_encode \<Rightarrow> settings \<Rightarrow> string \<Rightarrow> string \<Rightarrow> int \<Rightarrow> string" where
  "issue_token enc s user role now = enc (token_claims s user role now) (se_jwt_secret s)"

text \<open>\<open>claims["sub"]\<close> of a token without the claim would be a \<open>KeyError\<close>; the library is told to
  require it.\<close>

datatype token_error = InvalidToken | TokenKeyError

definition decode_token :: "jwt_decode \<Rightarrow> settings \<Rightarrow> int \<Rightarrow> string \<Rightarrow> token_error + (string \<times> string)" where
  "decode_token dec s now token =
     (case dec (se_jwt_secret s) AUDIENCE ISSUER required_claims now token of
        None \<Rightarrow> Inl InvalidToken
      | Some cl \<Rightarrow>
          (case (dict_get cl ''sub'', dict_get cl ''role'') of
             (Some u, Some r) \<Rightarrow> Inr (u, r)
           | _ \<Rightarrow> Inl TokenKeyError))"

section \<open>The request's principal\<close>

definition load_principal :: "users \<Rightarrow> string \<Rightarrow> principal option" where
  "load_principal us uid =
     (case dict_get us uid of
        None \<Rightarrow> None
      | Some u \<Rightarrow>
          if \<not> u_is_active u then None
          else Some \<lparr>p_user_id = u_id u, p_name = u_name u, p_department = u_department u,
                     p_role = u_role u, p_permissions = u_permissions u\<rparr>)"

datatype auth_error = Unauthorized string | AuthServerError

definition unauthorized :: auth_error where
  "unauthorized = Unauthorized ''invalid or missing credentials''"

text \<open>\<open>credentials\<close>: the scheme and the token of the Authorization header, if any.\<close>

definition get_principal ::
  "jwt_decode \<Rightarrow> settings \<Rightarrow> users \<Rightarrow> int \<Rightarrow> (string \<times> string) option \<Rightarrow> auth_error + principal" where
  "get_principal dec s us now credentials =
     (case credentials of
        None \<Rightarrow> Inl unauthorized
      | Some (scheme, token) \<Rightarrow>
          if py_lower scheme \<noteq> ''bearer'' then Inl unauthorized
          else case decode_token dec s now token of
                 Inl InvalidToken \<Rightarrow> Inl unauthorized
               | Inl TokenKeyError \<Rightarrow> Inl AuthServerError
               | Inr (uid, role) \<Rightarrow>
                   (case load_principal us uid of
                      None \<Rightarrow> Inl unauthorized
                    | Some p \<Rightarrow>
                        if p_role p \<noteq> role
                        then Inl (Unauthorized ''role changed since sign-in; request a new token'')
                        else Inr p))"

text \<open>The development token endpoint: \<open>None\<close> is the 404.\<close>

record dev_token_response =
  dt_access_token :: string
  dt_expires_in :: int
  dt_user_id :: string
  dt_role :: string

definition dev_token :: "jwt_encode \<Rightarrow> settings \<Rightarrow> users \<Rightarrow> int \<Rightarrow> string \<Rightarrow> dev_token_response option" where
  "dev_token enc s us now uid =
     (case load_principal us uid of
        None \<Rightarrow> None
      | Some p \<Rightarrow> Some \<lparr>dt_access_token = issue_token enc s (p_user_id p) (p_role p) now,
                        dt_expires_in = se_jwt_ttl_seconds s, dt_user_id = p_user_id p, dt_role = p_role p\<rparr>)"

lemma load_principal_Some:
  "load_principal us uid = Some p \<Longrightarrow>
   \<exists>u. dict_get us uid = Some u \<and> u_is_active u \<and> p_user_id p = u_id u \<and> p_role p = u_role u
     \<and> p_permissions p = u_permissions u"
  by (auto simp: load_principal_def split: option.splits if_splits)

section \<open>Document scope\<close>

text \<open>\<open>DOC_PERMISSION_DEPARTMENTS\<close>, in its order.\<close>

definition doc_permission_departments :: "(string, string) dict" where
  "doc_permission_departments =
     [(''docs:engineering'', ''engineering''), (''docs:hr'', ''hr''), (''docs:it'', ''it_ops''),
      (''docs:finance'', ''finance''), (''docs:ai_platform'', ''ai_platform'')]"

record access_scope =
  sc_user_id :: string
  sc_internal :: "string list"
  sc_confidential :: "string list"

definition can_read :: "access_scope \<Rightarrow> string \<Rightarrow> string \<Rightarrow> bool" where
  "can_read sc department classification =
     (if classification = ''public'' then True
      else if classification = ''internal'' then department \<in> set (sc_internal sc)
      else if classification = ''confidential'' then department \<in> set (sc_confidential sc)
      else False)"

definition scope_for :: "principal \<Rightarrow> access_scope" where
  "scope_for p =
     (let internal = map snd (filter (\<lambda>(perm, dept). has_perm p perm) doc_permission_departments)
      in \<lparr>sc_user_id = p_user_id p, sc_internal = internal,
          sc_confidential = filter (\<lambda>d. has_perm p (d @ '':confidential'')) internal\<rparr>)"

lemma scope_internal_iff:
  "d \<in> set (sc_internal (scope_for p)) \<longleftrightarrow> (\<exists>perm. (perm, d) \<in> set doc_permission_departments \<and> has_perm p perm)"
  by (force simp: scope_for_def Let_def)

lemma scope_confidential_iff:
  "d \<in> set (sc_confidential (scope_for p)) \<longleftrightarrow>
     d \<in> set (sc_internal (scope_for p)) \<and> has_perm p (d @ '':confidential'')"
  by (auto simp: scope_for_def Let_def)

lemma scope_departments_known:
  "d \<in> set (sc_internal (scope_for p)) \<Longrightarrow> d \<in> set (map snd doc_permission_departments)"
  by (auto simp: scope_internal_iff rev_image_eqI)

section \<open>Row-level security\<close>

text \<open>
  The policies of migration 0004. \<open>apply_scope\<close> writes the departments into two session settings
  as comma-joined text, and the policies read them back with \<open>string_to_array\<close>, which for an
  empty setting is the empty array.
\<close>

definition string_to_array :: "string \<Rightarrow> string list" where
  "string_to_array s = (if s = [] then [] else py_split_on CHR '','' s)"

record db_session =
  app_read_departments :: "string option"
  app_confidential_departments :: "string option"
  app_ingest :: "string option"

definition apply_scope :: "access_scope \<Rightarrow> db_session \<Rightarrow> db_session" where
  "apply_scope sc ses =
     ses\<lparr>app_read_departments := Some (py_join '','' (sort (sc_internal sc))),
         app_confidential_departments := Some (py_join '','' (sort (sc_confidential sc)))\<rparr>"

definition setting_list :: "string option \<Rightarrow> string list" where
  "setting_list v = string_to_array (case v of None \<Rightarrow> [] | Some s \<Rightarrow> s)"

definition rls_ingest :: "db_session \<Rightarrow> bool" where
  "rls_ingest ses \<longleftrightarrow> app_ingest ses = Some ''on''"

definition rls_documents_read :: "db_session \<Rightarrow> string \<Rightarrow> string \<Rightarrow> bool" where
  "rls_documents_read ses department classification \<longleftrightarrow>
     classification = ''public''
     \<or> (classification = ''internal'' \<and> department \<in> set (setting_list (app_read_departments ses)))
     \<or> (classification = ''confidential'' \<and> department \<in> set (setting_list (app_confidential_departments ses)))"

definition rls_chunks_read :: "db_session \<Rightarrow> string \<Rightarrow> string \<Rightarrow> bool" where
  "rls_chunks_read ses department classification \<longleftrightarrow>
     classification = ''public'' \<or> department \<in> set (setting_list (app_read_departments ses))"

definition rls_confidential_read :: "db_session \<Rightarrow> string \<Rightarrow> string \<Rightarrow> bool" where
  "rls_confidential_read ses department classification \<longleftrightarrow>
     department \<in> set (setting_list (app_confidential_departments ses))"

lemma split_on_aux_word:
  "sep \<notin> set w \<Longrightarrow> split_on_aux sep acc (w @ sep # cs) = (acc @ w) # split_on_aux sep [] cs"
  by (induction w arbitrary: acc) auto

lemma split_on_aux_last: "sep \<notin> set w \<Longrightarrow> split_on_aux sep acc w = [acc @ w]"
  by (induction w arbitrary: acc) auto

lemma split_join:
  "ws \<noteq> [] \<Longrightarrow> list_all (\<lambda>w. sep \<notin> set w) ws \<Longrightarrow> py_split_on sep (py_join [sep] ws) = ws"
proof (induction ws)
  case (Cons w ws)
  then show ?case
    by (cases ws) (simp_all add: py_split_on_def split_on_aux_word split_on_aux_last)
qed simp

lemma join_nonempty: "ws \<noteq> [] \<Longrightarrow> list_all (\<lambda>w. w \<noteq> []) ws \<Longrightarrow> py_join sep ws \<noteq> []"
  by (cases ws rule: remdups_adj.cases) auto

text \<open>A setting written from department names is read back as the same names.\<close>

lemma setting_list_join:
  assumes "list_all (\<lambda>w. w \<noteq> [] \<and> CHR '','' \<notin> set w) ds"
  shows "setting_list (Some (py_join '','' ds)) = ds"
proof (cases "ds = []")
  case False
  with assms have "py_join '','' ds \<noteq> []" "list_all (\<lambda>w. CHR '','' \<notin> set w) ds"
    using join_nonempty [of ds "'',''"] by (auto simp: list_all_iff)
  with False split_join [of ds "CHR '',''"] show ?thesis
    by (simp add: setting_list_def string_to_array_def)
qed (simp add: setting_list_def string_to_array_def)

lemma known_department_text:
  "d \<in> set (map snd doc_permission_departments) \<Longrightarrow> d \<noteq> [] \<and> CHR '','' \<notin> set d"
  by (auto simp: doc_permission_departments_def)

lemma scope_setting_lists:
  "setting_list (app_read_departments (apply_scope (scope_for p) ses)) = sort (sc_internal (scope_for p))"
  "setting_list (app_confidential_departments (apply_scope (scope_for p) ses)) = sort (sc_confidential (scope_for p))"
proof -
  have sep: "d \<noteq> [] \<and> CHR '','' \<notin> set d" if "d \<in> set (sc_internal (scope_for p))" for d
    using known_department_text [OF scope_departments_known [OF that]] .
  from sep show "setting_list (app_read_departments (apply_scope (scope_for p) ses)) = sort (sc_internal (scope_for p))"
    by (simp add: apply_scope_def setting_list_join list_all_iff)
  show "setting_list (app_confidential_departments (apply_scope (scope_for p) ses)) = sort (sc_confidential (scope_for p))"
    using sep by (simp add: apply_scope_def setting_list_join list_all_iff scope_confidential_iff)
qed

section \<open>Properties\<close>

text \<open>C34: A request is authenticated only as an existing, active user of the database whose current
  role is the one in a token the library verified for this audience and issuer; name, role and
  permissions come from the database row, so a revoked permission is gone at the next request.\<close>

theorem principal_from_database:
  "case get_principal dec s us now credentials of
     Inl e \<Rightarrow> True
   | Inr p \<Rightarrow> \<exists>scheme token cl uid u.
       credentials = Some (scheme, token) \<and> py_lower scheme = ''bearer''
       \<and> dec (se_jwt_secret s) AUDIENCE ISSUER required_claims now token = Some cl
       \<and> dict_get cl ''sub'' = Some uid \<and> dict_get us uid = Some u \<and> u_is_active u
       \<and> dict_get cl ''role'' = Some (u_role u)
       \<and> p_user_id p = u_id u \<and> p_role p = u_role u \<and> p_permissions p = u_permissions u"
  by (auto simp: get_principal_def decode_token_def
      split: option.splits token_error.splits sum.splits if_splits
      dest!: load_principal_Some)

text \<open>Sign-in round trip: the token the development endpoint issues for an active user is
  accepted as that user, with the user's current permissions, as long as it has not expired and the
  user is still active with the same role. The two facts about the library are that it verifies a
  token it signed with the same secret, within the token's validity.\<close>

theorem dev_token_accepted:
  assumes lib: "\<And>t. issued \<le> t \<Longrightarrow> t < issued + se_jwt_ttl_seconds s \<Longrightarrow>
      dec (se_jwt_secret s) AUDIENCE ISSUER required_claims t
        (enc (token_claims s (u_id u) (u_role u) issued) (se_jwt_secret s))
      = Some (token_claims s (u_id u) (u_role u) issued)"
    and "dict_get us0 uid = Some u" "u_is_active u" "dev_token enc s us0 issued uid = Some r"
    and "issued \<le> now" "now < issued + se_jwt_ttl_seconds s"
    and "dict_get us (u_id u) = Some u'" "u_is_active u'" "u_role u' = u_role u"
  shows "\<exists>p. get_principal dec s us now (Some (''Bearer'', dt_access_token r)) = Inr p
    \<and> p_user_id p = u_id u' \<and> p_permissions p = u_permissions u'"
proof -
  have tok: "dt_access_token r = enc (token_claims s (u_id u) (u_role u) issued) (se_jwt_secret s)"
    using assms(2-4) by (auto simp: dev_token_def load_principal_def issue_token_def)
  have "decode_token dec s now (dt_access_token r) = Inr (u_id u, u_role u)"
    unfolding tok decode_token_def lib [OF assms(5,6)] by (simp add: token_claims_def)
  moreover have "py_lower ''Bearer'' = ''bearer''"
    by code_simp
  ultimately show ?thesis
    using assms(7-9) by (auto simp: get_principal_def load_principal_def)
qed

definition demo_user :: user where
  "demo_user = \<lparr>u_id = ''U001'', u_name = ''Ann'', u_department = ''hr'', u_role = ''employee'',
     u_permissions = [''docs:hr'', ''hr:confidential''], u_is_active = True\<rparr>"

theorem dev_token_accepted_witness:
  "\<exists>p. get_principal (\<lambda>_ _ _ _ _ token. if token = ''T'' then Some (token_claims default_settings ''U001'' ''employee'' 100) else None)
       default_settings [(''U001'', demo_user)] 200 (Some (''Bearer'', ''T'')) = Inr p
     \<and> p_user_id p = ''U001'' \<and> p_permissions p = [''docs:hr'', ''hr:confidential'']"
proof -
  let ?dec = "\<lambda>_ _ _ _ _ token. if token = ''T'' then Some (token_claims default_settings ''U001'' ''employee'' 100) else None"
  let ?us = "[(''U001'', demo_user)]"
  obtain r where r: "dev_token (\<lambda>_ _. ''T'') default_settings ?us 100 ''U001'' = Some r" "dt_access_token r = ''T''"
    by (simp add: dev_token_def load_principal_def demo_user_def issue_token_def)
  show ?thesis
    using dev_token_accepted [of 100 default_settings ?dec "\<lambda>_ _. ''T''" demo_user ?us "''U001''" r 200 ?us demo_user] r
    by (simp add: demo_user_def default_settings_def)
qed

text \<open>C15: Row-level security enforces the same scope as the application: with the session settings
  \<open>apply_scope\<close> writes for a principal, the read policy of the documents table admits exactly the rows
  \<open>can_read\<close> admits, and so do the policies of the two chunk tables on the classifications
  their check constraints allow.\<close>

theorem rls_matches_scope:
  "rls_documents_read (apply_scope (scope_for p) ses) d c = can_read (scope_for p) d c
   \<and> rls_chunks_read (apply_scope (scope_for p) ses) d ''public'' = can_read (scope_for p) d ''public''
   \<and> rls_chunks_read (apply_scope (scope_for p) ses) d ''internal'' = can_read (scope_for p) d ''internal''
   \<and> rls_confidential_read (apply_scope (scope_for p) ses) d ''confidential''
       = can_read (scope_for p) d ''confidential''"
  by (auto simp: rls_documents_read_def rls_chunks_read_def rls_confidential_read_def can_read_def
      scope_setting_lists)

text \<open>What a principal may read, from its permissions: an internal document needs a document
  permission that names its department, a confidential one needs that permission and the
  department's own \<open>confidential\<close> permission, and an unknown classification is never readable.\<close>

theorem can_read_permissions:
  "can_read (scope_for p) d c \<longleftrightarrow>
     c = ''public''
     \<or> (c \<in> {''internal'', ''confidential''}
        \<and> (\<exists>perm. (perm, d) \<in> set doc_permission_departments \<and> perm \<in> set (p_permissions p))
        \<and> (c = ''confidential'' \<longrightarrow> d @ '':confidential'' \<in> set (p_permissions p)))"
  by (auto simp: can_read_def scope_internal_iff scope_confidential_iff has_perm_def)

theorem can_read_permissions_witness:
  "can_read (scope_for \<lparr>p_user_id = ''U001'', p_name = ''Ann'', p_department = ''hr'', p_role = ''employee'',
       p_permissions = [''docs:hr'']\<rparr>) ''hr'' ''internal''
   \<and> \<not> can_read (scope_for \<lparr>p_user_id = ''U001'', p_name = ''Ann'', p_department = ''hr'', p_role = ''employee'',
       p_permissions = [''docs:hr'']\<rparr>) ''hr'' ''confidential''"
  unfolding can_read_permissions by (simp add: doc_permission_departments_def)

end
