(* ===== verification/AuditChain.thy ===== *)
theory AuditChain
  imports Auth Json
begin

text \<open>
  \<open>policy/audit.py\<close> with the key test of \<open>logging_setup.py\<close>: redaction, the hash chain, appending and
  verification. SHA-256 is the parameter \<open>sha\<close> (text to hex digest). Times are microseconds since the
  epoch; the log table is the list of its rows by id, appends being serialized by the advisory lock.
\<close>

section \<open>ISO time stamps\<close>

text \<open>\<open>datetime.isoformat()\<close> of a UTC time: the proleptic Gregorian date of a day number.\<close>

definition pad :: "nat \<Rightarrow> nat \<Rightarrow> string" where
  "pad w n = replicate (w - length (nat_str n)) CHR ''0'' @ nat_str n"

definition civil_from_days :: "int \<Rightarrow> int \<times> int \<times> int" where
  "civil_from_days d =
     (let z = d + 719468;
          era = z div 146097;
          doe = z mod 146097;
          yoe = (doe - doe div 1460 + doe div 36524 - doe div 146096) div 365;
          doy = doe - (365 * yoe + yoe div 4 - yoe div 100);
          mp = (5 * doy + 2) div 153;
          day = doy - (153 * mp + 2) div 5 + 1;
          month = (if mp < 10 then mp + 3 else mp - 9);
          year = yoe + era * 400 + (if month \<le> 2 then 1 else 0)
      in (year, month, day))"

definition iso_date :: "int \<Rightarrow> string" where
  "iso_date d =
     (case civil_from_days d of (y, m, dd) \<Rightarrow>
        pad 4 (nat y) @ ''-'' @ pad 2 (nat m) @ ''-'' @ pad 2 (nat dd))"

definition isoformat :: "int \<Rightarrow> string" where
  "isoformat t =
     (let us = t mod 1000000; s = t div 1000000; sod = s mod 86400; d = s div 86400 in
      iso_date d @ ''T'' @ pad 2 (nat (sod div 3600)) @ '':'' @ pad 2 (nat (sod div 60 mod 60)) @ '':''
      @ pad 2 (nat (sod mod 60)) @ (if us = 0 then [] else ''.'' @ pad 6 (nat us)) @ ''+00:00'')"

section \<open>Redaction\<close>

definition sensitive_words :: "string list" where
  "sensitive_words =
     [''password'', ''passwd'', ''secret'', ''token'', ''apikey'', ''authorization'', ''credential'', ''credentials'']"

text \<open>\<open>re.split(r"[_\-]+", s)\<close>: a run of separators splits once.\<close>

function split_key :: "string \<Rightarrow> string \<Rightarrow> string list" where
  "split_key w [] = [w]"
| "split_key w (c # cs) =
     (if c = CHR ''_'' \<or> c = CHR ''-'' then w # split_key [] (dropWhile (\<lambda>c. c = CHR ''_'' \<or> c = CHR ''-'') cs)
      else split_key (w @ [c]) cs)"
  by pat_completeness auto
termination
  by (relation "measure (\<lambda>(_, s). length s)") (auto simp: less_Suc_eq_le length_dropWhile_le)

fun has_api_key :: "string list \<Rightarrow> bool" where
  "has_api_key (a # b # rest) = ((a = ''api'' \<and> b = ''key'') \<or> has_api_key (b # rest))"
| "has_api_key _ = False"

definition is_sensitive_key :: "string \<Rightarrow> bool" where
  "is_sensitive_key key =
     (let ws = split_key [] (py_lower key)
      in list_ex (\<lambda>w. w \<in> set sensitive_words) ws \<or> has_api_key ws)"

definition redacted_text :: string where
  "redacted_text = ''[REDACTED]''"

text \<open>\<open>value[:500] + "..."\<close> with the one-character ellipsis.\<close>

fun redact :: "json \<Rightarrow> json" where
  "redact (JObj kvs) = JObj (map (\<lambda>(k, v). (k, if is_sensitive_key k then JStr redacted_text else redact v)) kvs)"
| "redact (JList xs) = JList (map redact xs)"
| "redact (JStr s) = JStr (if 500 < length s then take 500 s @ [CHR 0x85] else s)"
| "redact v = v"

fun clean :: "json \<Rightarrow> bool" where
  "clean (JObj kvs) = list_all (\<lambda>kv. if is_sensitive_key (fst kv) then snd kv = JStr redacted_text else clean (snd kv)) kvs"
| "clean (JList xs) = list_all clean xs"
| "clean (JStr s) = (length s \<le> 501)"
| "clean _ = True"

lemma redact_idem [simp]: "redact (redact v) = redact v"
  by (induction v rule: redact.induct) (auto simp: redacted_text_def)

lemma redact_clean [simp]: "clean (redact v)"
  by (induction v rule: redact.induct) (auto simp: list_all_iff)

lemma redact_wf: "json_wf v \<Longrightarrow> json_wf (redact v)"
proof (induction v rule: redact.induct)
  case (1 kvs)
  have "map fst (map (\<lambda>(k, v). (k, if is_sensitive_key k then JStr redacted_text else redact v)) kvs) = map fst kvs"
    by (auto simp: map_eq_conv)
  with 1 show ?case by (fastforce simp: list_all_iff simp del: map_map)
qed (auto simp: list_all_iff)

section \<open>Entries and rows\<close>

datatype audit_decision = DAllow | DDeny | DPending | DExecuted | DError

fun decision_str :: "audit_decision \<Rightarrow> string" where
  "decision_str DAllow = ''allow''"
| "decision_str DDeny = ''deny''"
| "decision_str DPending = ''pending''"
| "decision_str DExecuted = ''executed''"
| "decision_str DError = ''error''"

record audit_entry =
  ae_request_id :: string
  ae_actor_id :: string
  ae_actor_role :: string
  ae_event :: string
  ae_decision :: audit_decision
  ae_tool :: "string option"
  ae_arguments :: json
  ae_reason :: "string option"
  ae_result :: json
  ae_pending_action_id :: "string option"
  ae_action_hash :: "string option"

record audit_row = audit_entry +
  au_id :: int
  au_created_at :: int
  au_prev_hash :: string
  au_hash :: string

record audit_log =
  al_rows :: "audit_row list"
  al_next_id :: int

definition GENESIS :: string where
  "GENESIS = replicate 64 CHR ''0''"

definition empty_log :: audit_log where
  "empty_log = \<lparr>al_rows = [], al_next_id = 1\<rparr>"

text \<open>The hashed record, its keys in the order the code writes them; an empty UUID cannot occur.\<close>

definition audit_payload :: "audit_entry \<Rightarrow> string \<Rightarrow> json" where
  "audit_payload e created_at =
     JObj [(''created_at'', JStr created_at), (''request_id'', JStr (ae_request_id e)),
           (''actor_id'', JStr (ae_actor_id e)), (''actor_role'', JStr (ae_actor_role e)),
           (''event'', JStr (ae_event e)), (''tool'', opt_str (ae_tool e)),
           (''arguments'', redact (ae_arguments e)), (''decision'', JStr (decision_str (ae_decision e))),
           (''reason'', opt_str (ae_reason e)), (''result'', redact (ae_result e)),
           (''pending_action_id'', opt_str (ae_pending_action_id e)),
           (''action_hash'', opt_str (ae_action_hash e))]"

definition record_hash :: "(string \<Rightarrow> string) \<Rightarrow> string \<Rightarrow> audit_entry \<Rightarrow> string \<Rightarrow> string" where
  "record_hash sha prev e created_at = sha (prev @ dumps_compact (audit_payload e created_at))"

definition last_hash :: "audit_row list \<Rightarrow> string" where
  "last_hash rows = (if rows = [] then GENESIS else au_hash (last rows))"

definition audit_row_of :: "(string \<Rightarrow> string) \<Rightarrow> int \<Rightarrow> int \<Rightarrow> string \<Rightarrow> audit_entry \<Rightarrow> audit_row" where
  "audit_row_of sha i now prev e =
     audit_entry.extend (e\<lparr>ae_arguments := redact (ae_arguments e), ae_result := redact (ae_result e)\<rparr>)
       (audit_row.fields i now prev (record_hash sha prev e (isoformat now)))"

definition audit_append :: "(string \<Rightarrow> string) \<Rightarrow> int \<Rightarrow> audit_entry \<Rightarrow> audit_log \<Rightarrow> audit_log" where
  "audit_append sha now e l =
     l\<lparr>al_rows := al_rows l @ [audit_row_of sha (al_next_id l) now (last_hash (al_rows l)) e],
       al_next_id := al_next_id l + 1\<rparr>"

definition entry_of :: "principal \<Rightarrow> string \<Rightarrow> string \<Rightarrow> audit_decision \<Rightarrow> audit_entry" where
  "entry_of p request_id event dec =
     \<lparr>ae_request_id = request_id, ae_actor_id = p_user_id p, ae_actor_role = p_role p, ae_event = event,
      ae_decision = dec, ae_tool = None, ae_arguments = JNull, ae_reason = None, ae_result = JNull,
      ae_pending_action_id = None, ae_action_hash = None\<rparr>"

section \<open>Verification\<close>

record chain_status =
  cs_records :: nat
  cs_intact :: bool
  cs_broken_at :: "int option"
  cs_detail :: "string option"

text \<open>The loop of \<open>verify_chain\<close>: the first broken row with the reason, or nothing.\<close>

fun first_broken :: "(string \<Rightarrow> string) \<Rightarrow> string \<Rightarrow> audit_row list \<Rightarrow> (int \<times> string) option" where
  "first_broken sha prev [] = None"
| "first_broken sha prev (r # rows) =
     (if au_prev_hash r \<noteq> prev then Some (au_id r, ''previous hash does not match'')
      else if au_hash r \<noteq> record_hash sha prev (audit_entry.truncate r) (isoformat (au_created_at r))
      then Some (au_id r, ''record content does not match its hash'')
      else first_broken sha (au_hash r) rows)"

definition verify_chain :: "(string \<Rightarrow> string) \<Rightarrow> audit_row list \<Rightarrow> chain_status" where
  "verify_chain sha rows =
     (case first_broken sha GENESIS rows of
        Some (i, why) \<Rightarrow> \<lparr>cs_records = length rows, cs_intact = False, cs_broken_at = Some i, cs_detail = Some why\<rparr>
      | None \<Rightarrow> \<lparr>cs_records = length rows, cs_intact = True, cs_broken_at = None, cs_detail = None\<rparr>)"

lemma intact_iff: "cs_intact (verify_chain sha rows) \<longleftrightarrow> first_broken sha GENESIS rows = None"
  by (simp add: verify_chain_def split: option.splits)

definition row_ok :: "(string \<Rightarrow> string) \<Rightarrow> string \<Rightarrow> audit_row \<Rightarrow> bool" where
  "row_ok sha prev r \<longleftrightarrow> au_prev_hash r = prev
     \<and> au_hash r = record_hash sha prev (audit_entry.truncate r) (isoformat (au_created_at r))"

lemma first_broken_append:
  "first_broken sha prev (rows @ [r]) = None \<longleftrightarrow>
     first_broken sha prev rows = None \<and> row_ok sha (if rows = [] then prev else au_hash (last rows)) r"
  by (induction rows arbitrary: prev) (auto simp: row_ok_def)

lemma first_broken_take: "first_broken sha prev rows = None \<Longrightarrow> first_broken sha prev (take n rows) = None"
proof (induction rows arbitrary: prev n)
  case (Cons r rows)
  then show ?case by (cases n) (auto split: if_splits)
qed simp

text \<open>Hashing a stored row reads its redacted values again; redaction being idempotent, the hash is
  the one computed from the original entry.\<close>

lemma record_hash_redacted:
  "record_hash sha prev (e\<lparr>ae_arguments := redact (ae_arguments e), ae_result := redact (ae_result e)\<rparr>) t
   = record_hash sha prev e t"
  by (simp add: record_hash_def audit_payload_def)

lemma audit_row_of_sel [simp]:
  "au_hash (audit_row_of sha i now prev e) = record_hash sha prev e (isoformat now)"
  "au_prev_hash (audit_row_of sha i now prev e) = prev"
  "au_created_at (audit_row_of sha i now prev e) = now"
  "au_id (audit_row_of sha i now prev e) = i"
  "audit_entry.truncate (audit_row_of sha i now prev e)
     = e\<lparr>ae_arguments := redact (ae_arguments e), ae_result := redact (ae_result e)\<rparr>"
  by (simp_all add: audit_row_of_def audit_entry.defs audit_row.defs)

lemma append_intact [simp]:
  "cs_intact (verify_chain sha (al_rows (audit_append sha now e l))) = cs_intact (verify_chain sha (al_rows l))"
  by (simp add: intact_iff audit_append_def first_broken_append row_ok_def record_hash_redacted last_hash_def)

lemma append_rows: "al_rows (audit_append sha now e l) = al_rows l @ [audit_row_of sha (al_next_id l) now (last_hash (al_rows l)) e]"
  by (simp add: audit_append_def)

section \<open>What the chain proves\<close>

text \<open>Two stored records with the same hashed content: every field equal, arguments and results up to
  redaction and the order of keys.\<close>

definition same_record :: "audit_row \<Rightarrow> audit_row \<Rightarrow> bool" where
  "same_record r q \<longleftrightarrow>
     isoformat (au_created_at r) = isoformat (au_created_at q)
     \<and> ae_request_id r = ae_request_id q \<and> ae_actor_id r = ae_actor_id q \<and> ae_actor_role r = ae_actor_role q
     \<and> ae_event r = ae_event q \<and> ae_decision r = ae_decision q \<and> ae_tool r = ae_tool q \<and> ae_reason r = ae_reason q
     \<and> ae_pending_action_id r = ae_pending_action_id q \<and> ae_action_hash r = ae_action_hash q
     \<and> canon (redact (ae_arguments r)) = canon (redact (ae_arguments q))
     \<and> canon (redact (ae_result r)) = canon (redact (ae_result q))"

definition row_payload :: "audit_row \<Rightarrow> json" where
  "row_payload r = audit_payload (audit_entry.truncate r) (isoformat (au_created_at r))"

definition row_wf :: "audit_row \<Rightarrow> bool" where
  "row_wf r \<longleftrightarrow> json_wf (ae_arguments r) \<and> json_wf (ae_result r)"

lemma canon_field:
  assumes "canon (JObj xs) = canon (JObj ys)" "distinct (map fst ys)" "(k, v) \<in> set xs" "(k, w) \<in> set ys"
  shows "canon v = canon w"
proof -
  let ?f = "\<lambda>(k, v). (k, canon v)"
  from assms(1) have "sort_key fst (map ?f xs) = sort_key fst (map ?f ys)"
    by simp
  from arg_cong [OF this, of set] have "set (map ?f xs) = set (map ?f ys)"
    by (simp only: set_sort)
  moreover have "(k, canon v) \<in> set (map ?f xs)"
    using assms(3) by force
  ultimately have "(k, canon v) \<in> set (map ?f ys)"
    by blast
  then obtain w' where "(k, w') \<in> set ys" "canon v = canon w'"
    by auto
  with assms(2,4) show ?thesis
    by (metis map_of_eq_Some_iff option.inject)
qed

lemma opt_str_wf [simp]: "json_wf (opt_str s)"
  by (simp add: opt_str_def split: option.splits)

lemma opt_str_canon [simp]: "canon (opt_str s) = opt_str s"
  by (simp add: opt_str_def split: option.splits)

lemma opt_str_inject [simp]: "opt_str s = opt_str t \<longleftrightarrow> s = t"
  by (simp add: opt_str_def split: option.splits)

lemma decision_str_inject [simp]: "decision_str c = decision_str d \<longleftrightarrow> c = d"
  by (cases c; cases d) simp_all

lemma row_payload_wf: "row_wf r \<Longrightarrow> json_wf (row_payload r)"
  by (simp add: row_payload_def audit_payload_def row_wf_def redact_wf audit_entry.defs)

definition payload_field :: "audit_row \<Rightarrow> string \<Rightarrow> json option" where
  "payload_field r k = (case row_payload r of JObj kvs \<Rightarrow> map_of kvs k | _ \<Rightarrow> None)"

lemma payload_fields:
  "payload_field r ''created_at'' = Some (JStr (isoformat (au_created_at r)))"
  "payload_field r ''request_id'' = Some (JStr (ae_request_id r))"
  "payload_field r ''actor_id'' = Some (JStr (ae_actor_id r))"
  "payload_field r ''actor_role'' = Some (JStr (ae_actor_role r))"
  "payload_field r ''event'' = Some (JStr (ae_event r))"
  "payload_field r ''tool'' = Some (opt_str (ae_tool r))"
  "payload_field r ''arguments'' = Some (redact (ae_arguments r))"
  "payload_field r ''decision'' = Some (JStr (decision_str (ae_decision r)))"
  "payload_field r ''reason'' = Some (opt_str (ae_reason r))"
  "payload_field r ''result'' = Some (redact (ae_result r))"
  "payload_field r ''pending_action_id'' = Some (opt_str (ae_pending_action_id r))"
  "payload_field r ''action_hash'' = Some (opt_str (ae_action_hash r))"
  by (simp_all add: payload_field_def row_payload_def audit_payload_def audit_entry.defs)

lemma payload_field_canon:
  assumes "canon (row_payload r) = canon (row_payload q)" "payload_field r k = Some v" "payload_field q k = Some w"
  shows "canon v = canon w"
proof -
  obtain xs where xs: "row_payload r = JObj xs"
    by (simp add: row_payload_def audit_payload_def)
  obtain ys where ys: "row_payload q = JObj ys" "distinct (map fst ys)"
    by (simp add: row_payload_def audit_payload_def)
  show ?thesis
    using canon_field [OF assms(1) [unfolded xs ys(1)] ys(2)] assms(2,3) xs ys(1)
    by (auto simp: payload_field_def dest!: map_of_SomeD)
qed

lemma payload_same_record:
  assumes "canon (row_payload r) = canon (row_payload q)"
  shows "same_record r q"
proof -
  note f = payload_field_canon [OF assms]
  show ?thesis
    unfolding same_record_def
    using f [OF payload_fields(1) payload_fields(1)] f [OF payload_fields(2) payload_fields(2)]
      f [OF payload_fields(3) payload_fields(3)] f [OF payload_fields(4) payload_fields(4)]
      f [OF payload_fields(5) payload_fields(5)] f [OF payload_fields(6) payload_fields(6)]
      f [OF payload_fields(7) payload_fields(7)] f [OF payload_fields(8) payload_fields(8)]
      f [OF payload_fields(9) payload_fields(9)] f [OF payload_fields(10) payload_fields(10)]
      f [OF payload_fields(11) payload_fields(11)] f [OF payload_fields(12) payload_fields(12)]
    by simp
qed

lemma last_hash_length:
  assumes "\<And>x. length (sha x) = (64 :: nat)" "first_broken sha GENESIS rows = None"
  shows "length (last_hash rows) = 64"
proof (cases rows rule: rev_cases)
  case Nil
  then show ?thesis by (simp add: last_hash_def GENESIS_def)
next
  case (snoc ys y)
  with assms(2) have "row_ok sha (if ys = [] then GENESIS else au_hash (last ys)) y"
    by (simp add: first_broken_append)
  with assms(1) snoc show ?thesis
    by (simp add: last_hash_def row_ok_def record_hash_def)
qed

lemma two_chains:
  assumes len: "\<And>x. length (sha x) = (64 :: nat)" and no_collision: "\<And>x y. sha x = sha y \<Longrightarrow> x = y"
  shows "length rows = length rows' \<Longrightarrow> list_all row_wf rows \<Longrightarrow> list_all row_wf rows' \<Longrightarrow>
    first_broken sha GENESIS rows = None \<Longrightarrow> first_broken sha GENESIS rows' = None \<Longrightarrow>
    last_hash rows = last_hash rows' \<Longrightarrow> list_all2 same_record rows rows'"
proof (induction rows arbitrary: rows' rule: rev_induct)
  case Nil
  then show ?case by simp
next
  case (snoc r rows)
  obtain q qs where rows': "rows' = qs @ [q]"
    using snoc.prems(1) by (cases rows' rule: rev_cases) auto
  have ok: "first_broken sha GENESIS rows = None" "row_ok sha (last_hash rows) r"
    "first_broken sha GENESIS qs = None" "row_ok sha (last_hash qs) q"
    using snoc.prems(4,5) rows' by (auto simp: first_broken_append last_hash_def)
  have "au_hash r = au_hash q"
    using snoc.prems(6) rows' by (simp add: last_hash_def)
  then have "last_hash rows @ dumps_compact (row_payload r) = last_hash qs @ dumps_compact (row_payload q)"
    using ok(2,4) no_collision by (simp add: row_ok_def record_hash_def row_payload_def)
  then have eq: "last_hash rows = last_hash qs" "dumps_compact (row_payload r) = dumps_compact (row_payload q)"
    using last_hash_length [OF len ok(1)] last_hash_length [OF len ok(3)] by simp_all
  have "list_all2 same_record rows qs"
    using snoc.IH [of qs] snoc.prems rows' ok eq(1) by simp
  moreover have "same_record r q"
    using dumps_compact_inject [OF row_payload_wf row_payload_wf eq(2)] snoc.prems(2,3) rows'
    by (auto intro: payload_same_record)
  ultimately show ?case
    using rows' by (simp add: list_all2_appendI)
qed


definition demo_principal :: principal where
  "demo_principal = \<lparr>p_user_id = ''U001'', p_name = ''Ann'', p_department = ''hr'', p_role = ''employee'', p_permissions = []\<rparr>"

definition demo_log :: "(string \<Rightarrow> string) \<Rightarrow> audit_log" where
  "demo_log sha = audit_append sha 1000 ((entry_of demo_principal ''r1'' ''tool_call'' DDeny)
     \<lparr>ae_arguments := JObj [(''password'', JStr ''hunter2'')]\<rparr>) empty_log"

lemma demo_log_intact: "cs_intact (verify_chain sha (al_rows (demo_log sha)))"
  by (simp add: demo_log_def) (simp add: empty_log_def verify_chain_def)

definition demo_sha :: "string \<Rightarrow> string" where
  "demo_sha x = take 64 (x @ replicate 64 CHR ''0'')"

lemma demo_sha_length: "length (demo_sha x) = 64"
  by (simp add: demo_sha_def)

lemma demo_log_rows: "length (al_rows (demo_log sha)) = 1" "list_all row_wf (al_rows (demo_log sha))"
proof -
  show "length (al_rows (demo_log sha)) = 1"
    by (simp add: demo_log_def append_rows empty_log_def)
  have "json_wf (redact (JObj [(''password'', JStr ''hunter2'')]))"
    by (rule redact_wf) simp
  then show "list_all row_wf (al_rows (demo_log sha))"
    by (simp add: demo_log_def append_rows empty_log_def row_wf_def audit_row_of_def audit_entry.defs audit_row.defs entry_of_def)
qed


lemma first_broken_edit:
  assumes "i < length rows" "r = rows ! i" "redact a = redact (ae_arguments r)" "redact b = redact (ae_result r)"
  shows "first_broken sha prev (rows[i := r\<lparr>ae_arguments := a, ae_result := b\<rparr>]) = first_broken sha prev rows"
  using assms
proof (induction rows arbitrary: prev i)
  case (Cons q rows)
  show ?case
  proof (cases i)
    case 0
    have "record_hash sha prev (audit_entry.truncate (r\<lparr>ae_arguments := a, ae_result := b\<rparr>)) t
        = record_hash sha prev (audit_entry.truncate r) t" for t
      using Cons.prems(3,4) by (simp add: record_hash_def audit_payload_def audit_entry.defs)
    with 0 Cons.prems(2) show ?thesis by simp
  next
    case (Suc j)
    have IH: "first_broken sha (au_hash q) (rows[j := r\<lparr>ae_arguments := a, ae_result := b\<rparr>]) = first_broken sha (au_hash q) rows"
      using Suc Cons.prems by (intro Cons.IH) simp_all
    show ?thesis
      by (simp only: Suc list_update.simps nat.case first_broken.simps IH)
  qed
qed simp

text \<open>What the chain does not cover: a log cut off at its end still verifies (even one cut to
  nothing), and so does one in which a redacted value, or a text beyond its cap, was replaced, because
  verification redacts what it reads before hashing it.\<close>

theorem audit_blind_spots:
  assumes "cs_intact (verify_chain sha rows)" "i < length rows" "r = rows ! i"
    and "redact a = redact (ae_arguments r)" "redact b = redact (ae_result r)"
  shows "cs_intact (verify_chain sha (take n rows))
    \<and> cs_intact (verify_chain sha (rows[i := r\<lparr>ae_arguments := a, ae_result := b\<rparr>]))"
  using assms first_broken_take first_broken_edit [OF assms(2-5)] by (simp add: intact_iff)

theorem audit_blind_spots_witness:
  "\<exists>r. al_rows (demo_log demo_sha) = [r]
     \<and> cs_intact (verify_chain demo_sha [r\<lparr>ae_arguments := JObj [(''password'', JStr ''something else'')], ae_result := JNull\<rparr>])"
proof -
  obtain r where r: "al_rows (demo_log demo_sha) = [r]"
    using demo_log_rows(1) [of demo_sha] by (cases "al_rows (demo_log demo_sha)") auto
  have "ae_arguments r = redact (JObj [(''password'', JStr ''hunter2'')])" "ae_result r = JNull"
    using r by (auto simp: demo_log_def append_rows empty_log_def audit_row_of_def audit_entry.defs audit_row.defs entry_of_def)
  moreover have "redact (JObj [(''password'', JStr ''hunter2'')]) = redact (JObj [(''password'', JStr ''something else'')])"
  proof -
    have "is_sensitive_key ''password''"
      by (simp add: is_sensitive_key_def py_lower_def lower_char_def is_upper_az_def sensitive_words_def)
    then show ?thesis by simp
  qed
  ultimately have red: "redact (JObj [(''password'', JStr ''something else'')]) = redact (ae_arguments r)" "redact JNull = redact (ae_result r)"
    by (simp_all only: redact_idem)
  have "cs_intact (verify_chain demo_sha [r])" "(0 :: nat) < length [r]" "r = [r] ! 0"
    using demo_log_intact [of demo_sha] r by simp_all
  from audit_blind_spots [OF this red] have "cs_intact (verify_chain demo_sha
      ([r][0 := r\<lparr>ae_arguments := JObj [(''password'', JStr ''something else'')], ae_result := JNull\<rparr>]))"
    by (rule conjunct2)
  then show ?thesis
    unfolding list_update.simps nat.case using r by blast
qed

text \<open>Everything appended verifies, and what is stored is safe to read: an append keeps the log
  intact, adds one row that continues the chain, and stores arguments and result with every value
  under a secret-looking key replaced and every text capped.\<close>

theorem audit_append_sound:
  "cs_intact (verify_chain sha (al_rows (audit_append sha now e l))) = cs_intact (verify_chain sha (al_rows l))
   \<and> (case al_rows (audit_append sha now e l) of rows \<Rightarrow>
        butlast rows = al_rows l \<and> au_prev_hash (last rows) = last_hash (al_rows l)
        \<and> clean (ae_arguments (last rows)) \<and> clean (ae_result (last rows))
        \<and> ae_decision (last rows) = ae_decision e \<and> ae_actor_id (last rows) = ae_actor_id e)"
  by (rule conjI, rule append_intact)
    (simp add: append_rows audit_row_of_def audit_entry.defs audit_row.defs)

end
