(* ===== verification/Store.thy ===== *)
theory Store
  imports Auth
begin

text \<open>
  The knowledge tables of \<open>db/models.py\<close> and migration 0004: document versions, the shared and the
  confidential chunk table, their CHECK constraints, and which rows row-level security lets a session
  see. A table is the list of its rows; its order stands for the scan order and carries no meaning.
\<close>

section \<open>Rows\<close>

record document =
  d_id :: string
  d_doc_key :: string
  d_version :: int
  d_title :: string
  d_department :: string
  d_classification :: string
  d_mime_type :: string
  d_source_path :: string
  d_content_sha256 :: string
  d_status :: string
  d_updated_at :: string
  d_embedding_model :: string
  d_uploaded_by :: "string option"
  d_chunker :: "string option"
  d_chunk_count :: nat
  d_superseded_at :: "int option"

record chunk_row =
  c_id :: int
  c_document_id :: string
  c_doc_key :: string
  c_version :: int
  c_department :: string
  c_classification :: string
  c_chunk_index :: nat
  c_parent_index :: "nat option"
  c_locator :: string
  c_section :: "string option"
  c_page :: "int option"
  c_content :: string
  c_context :: "string option"
  c_headings :: "string list"
  c_embed_text :: string
  c_token_count :: nat
  c_embedding_model :: string
  c_embedding :: "rat list"
  c_is_active :: bool

datatype chunk_table = SharedChunks | ConfidentialChunks

record knowledge_db =
  kb_documents :: "document list"
  kb_chunks :: "chunk_row list"
  kb_confidential :: "chunk_row list"
  kb_next_chunk :: int

fun rows_of_table :: "knowledge_db \<Rightarrow> chunk_table \<Rightarrow> chunk_row list" where
  "rows_of_table db SharedChunks = kb_chunks db"
| "rows_of_table db ConfidentialChunks = kb_confidential db"

definition INDEX_DIMENSIONS :: nat where "INDEX_DIMENSIONS = 768"

section \<open>Constraints\<close>

definition classification_check :: "chunk_table \<Rightarrow> string \<Rightarrow> bool" where
  "classification_check t c =
     (case t of SharedChunks \<Rightarrow> c = ''public'' \<or> c = ''internal'' | ConfidentialChunks \<Rightarrow> c = ''confidential'')"

definition kb_checked :: "knowledge_db \<Rightarrow> bool" where
  "kb_checked db \<longleftrightarrow>
     list_all (\<lambda>c. classification_check SharedChunks (c_classification c)) (kb_chunks db)
     \<and> list_all (\<lambda>c. classification_check ConfidentialChunks (c_classification c)) (kb_confidential db)"

text \<open>The partial unique index: at most one active version of a document.\<close>

definition one_active :: "document list \<Rightarrow> bool" where
  "one_active ds \<longleftrightarrow> distinct (map d_doc_key (filter (\<lambda>d. d_status d = ''active'') ds))"

definition version_unique :: "document list \<Rightarrow> bool" where
  "version_unique ds \<longleftrightarrow> distinct (map (\<lambda>d. (d_doc_key d, d_version d)) ds)"

section \<open>Row-level security\<close>

definition document_visible :: "db_session \<Rightarrow> document \<Rightarrow> bool" where
  "document_visible ses d \<longleftrightarrow>
     rls_ingest ses \<or> rls_documents_read ses (d_department d) (d_classification d)"

fun chunk_visible :: "db_session \<Rightarrow> chunk_table \<Rightarrow> chunk_row \<Rightarrow> bool" where
  "chunk_visible ses SharedChunks c \<longleftrightarrow>
     rls_ingest ses \<or> rls_chunks_read ses (c_department c) (c_classification c)"
| "chunk_visible ses ConfidentialChunks c \<longleftrightarrow>
     rls_ingest ses \<or> rls_confidential_read ses (c_department c) (c_classification c)"

text \<open>A new transaction: nothing is set.\<close>

definition fresh_session :: db_session where
  "fresh_session = \<lparr>app_read_departments = None, app_confidential_departments = None, app_ingest = None\<rparr>"

lemma kb_checkedD:
  "kb_checked db \<Longrightarrow> c \<in> set (rows_of_table db t) \<Longrightarrow> classification_check t (c_classification c)"
  by (cases t) (auto simp: kb_checked_def list_all_iff)

lemma fresh_no_ingest [simp]: "\<not> rls_ingest (apply_scope sc fresh_session)"
  by (simp add: rls_ingest_def apply_scope_def fresh_session_def)

lemma visible_document_readable:
  "document_visible (apply_scope (scope_for p) fresh_session) d \<Longrightarrow>
   can_read (scope_for p) (d_department d) (d_classification d)"
  by (auto simp: document_visible_def rls_documents_read_def can_read_def scope_setting_lists)

lemma visible_chunk_readable:
  assumes "chunk_visible (apply_scope (scope_for p) fresh_session) t c"
    and "classification_check t (c_classification c)"
  shows "can_read (scope_for p) (c_department c) (c_classification c)"
  using assms
  by (cases t) (auto simp: rls_chunks_read_def rls_confidential_read_def can_read_def scope_setting_lists
      classification_check_def)

end
