(* ===== verification/Retrieval.thy ===== *)
theory Retrieval
  imports Store Gateway
begin

text \<open>
  \<open>knowledge/retrieval.py\<close>: the query embedding, the candidate queries with the caller's scope applied by
  the SQL and by row-level security, reciprocal rank fusion, the relevance gate and the near misses.

  PostgreSQL's operators are parameters: \<open>ix_similarity\<close> is \<open>1 - (a <=> b)\<close>, \<open>ix_fts\<close> the rank of a text
  that matches the query (\<open>None\<close>: no match), and \<open>ix_order\<close> the positions ORDER BY picks, in its order; the
  approximate vector index makes that any selection of the rows the WHERE clause leaves.
\<close>

section \<open>Candidates\<close>

datatype search_kind = VectorSearch | FtsSearch

record index_engine =
  ix_similarity :: "rat list \<Rightarrow> rat list \<Rightarrow> rat"
  ix_fts :: "string \<Rightarrow> string \<Rightarrow> rat option"
  ix_order :: "search_kind \<Rightarrow> rat list \<Rightarrow> nat list"

type_synonym sql_row = "chunk_row \<times> document \<times> rat"

definition RRF_K :: nat where "RRF_K = 60"

text \<open>\<open>ORDER BY ... LIMIT n\<close>.\<close>

definition order_limit :: "index_engine \<Rightarrow> search_kind \<Rightarrow> int \<Rightarrow> sql_row list \<Rightarrow> sql_row list" where
  "order_limit ix k n rows =
     take (nat n)
       (map (nth rows)
         (remdups (filter (\<lambda>i. i < length rows) (ix_order ix k (map (\<lambda>(c, d, s). s) rows)))))"

definition acl :: "chunk_table \<Rightarrow> string list \<Rightarrow> chunk_row \<Rightarrow> bool" where
  "acl t depts c =
     (case t of
        SharedChunks \<Rightarrow> c_classification c = ''public'' \<or> c_department c \<in> set depts
      | ConfidentialChunks \<Rightarrow> c_department c \<in> set depts)"

text \<open>\<open>FROM table c JOIN documents d\<close> with the WHERE clause, over the rows the session sees.\<close>

definition joined_rows :: "db_session \<Rightarrow> chunk_table \<Rightarrow> string list \<Rightarrow> string \<Rightarrow> knowledge_db \<Rightarrow> (chunk_row \<times> document) list" where
  "joined_rows ses t depts model_id db =
     concat (map (\<lambda>c. map (\<lambda>d. (c, d))
                       (filter (\<lambda>d. d_id d = c_document_id c \<and> document_visible ses d) (kb_documents db)))
       (filter (\<lambda>c. chunk_visible ses t c \<and> c_is_active c \<and> c_embedding_model c = model_id \<and> acl t depts c)
         (rows_of_table db t)))"

definition candidate_rows ::
  "index_engine \<Rightarrow> db_session \<Rightarrow> chunk_table \<Rightarrow> string list \<Rightarrow> string \<Rightarrow> rat list \<Rightarrow> string \<Rightarrow> int \<Rightarrow> knowledge_db
   \<Rightarrow> search_kind \<Rightarrow> sql_row list" where
  "candidate_rows ix ses t depts model_id qvec query limit db k =
     order_limit ix k limit
       (case k of
          VectorSearch \<Rightarrow>
            map (\<lambda>(c, d). (c, d, ix_similarity ix (c_embedding c) qvec)) (joined_rows ses t depts model_id db)
        | FtsSearch \<Rightarrow>
            concat (map (\<lambda>(c, d). case ix_fts ix query (c_embed_text c) of
                                    Some r \<Rightarrow> [(c, d, r)] | None \<Rightarrow> [])
                      (joined_rows ses t depts model_id db)))"

section \<open>Fusion\<close>

record candidate =
  cd_table :: chunk_table
  cd_chunk :: chunk_row
  cd_document :: document
  cd_rrf :: rat
  cd_similarity :: "rat option"
  cd_fts_rank :: "rat option"

type_synonym fused = "(chunk_table \<times> int, candidate) dict"

definition new_candidate :: "chunk_table \<Rightarrow> chunk_row \<Rightarrow> document \<Rightarrow> candidate" where
  "new_candidate t c d =
     \<lparr>cd_table = t, cd_chunk = c, cd_document = d, cd_rrf = 0, cd_similarity = None, cd_fts_rank = None\<rparr>"

definition score_candidate :: "search_kind \<Rightarrow> nat \<Rightarrow> rat \<Rightarrow> candidate \<Rightarrow> candidate" where
  "score_candidate k rank s cand =
     (let c = cand\<lparr>cd_rrf := cd_rrf cand + 1 / of_nat (RRF_K + rank)\<rparr> in
      case k of VectorSearch \<Rightarrow> c\<lparr>cd_similarity := Some s\<rparr> | FtsSearch \<Rightarrow> c\<lparr>cd_fts_rank := Some s\<rparr>)"

definition fuse_row :: "search_kind \<Rightarrow> chunk_table \<Rightarrow> nat \<Rightarrow> sql_row \<Rightarrow> fused \<Rightarrow> fused" where
  "fuse_row k t rank row f =
     (case row of (c, d, s) \<Rightarrow>
        (let cand = (case dict_get f (t, c_id c) of None \<Rightarrow> new_candidate t c d | Some x \<Rightarrow> x)
         in dict_put (t, c_id c) (score_candidate k rank s cand) f))"

fun fuse_rows :: "search_kind \<Rightarrow> chunk_table \<Rightarrow> nat \<Rightarrow> sql_row list \<Rightarrow> fused \<Rightarrow> fused" where
  "fuse_rows k t rank [] f = f"
| "fuse_rows k t rank (row # rows) f = fuse_rows k t (rank + 1) rows (fuse_row k t rank row f)"

text \<open>The tables a scope may query, with the departments bound to \<open>:depts\<close>.\<close>

definition permitted_tables :: "access_scope \<Rightarrow> (chunk_table \<times> string list) list" where
  "permitted_tables sc =
     (SharedChunks, sort (sc_internal sc))
     # (if sc_confidential sc = [] then [] else [(ConfidentialChunks, sort (sc_confidential sc))])"

fun fuse_tables ::
  "(chunk_table \<Rightarrow> string list \<Rightarrow> search_kind \<Rightarrow> sql_row list) \<Rightarrow> (chunk_table \<times> string list) list \<Rightarrow> fused \<Rightarrow> fused" where
  "fuse_tables rows [] f = f"
| "fuse_tables rows ((t, depts) # ts) f =
     fuse_tables rows ts
       (fuse_rows FtsSearch t 1 (rows t depts FtsSearch) (fuse_rows VectorSearch t 1 (rows t depts VectorSearch) f))"

section \<open>Results\<close>

record retrieved_chunk =
  rc_chunk_id :: int
  rc_table :: chunk_table
  rc_doc_key :: string
  rc_version :: int
  rc_title :: string
  rc_department :: string
  rc_classification :: string
  rc_locator :: string
  rc_parent_id :: "string \<times> nat option"
  rc_content :: string
  rc_context :: string
  rc_doc_updated_at :: string
  rc_similarity :: "rat option"
  rc_fts_rank :: "rat option"
  rc_score :: rat

definition stable_ref :: "retrieved_chunk \<Rightarrow> string" where
  "stable_ref c = rc_doc_key c @ ''@v'' @ int_str (rc_version c) @ ''#'' @ rc_locator c"

definition to_chunk :: "candidate \<Rightarrow> retrieved_chunk" where
  "to_chunk cand =
     (let r = cd_chunk cand; d = cd_document cand in
      \<lparr>rc_chunk_id = c_id r, rc_table = cd_table cand, rc_doc_key = c_doc_key r, rc_version = c_version r,
       rc_title = d_title d, rc_department = c_department r, rc_classification = c_classification r,
       rc_locator = c_locator r, rc_parent_id = (c_document_id r, c_parent_index r),
       rc_content = c_content r,
       rc_context = (case c_context r of None \<Rightarrow> c_content r | Some x \<Rightarrow> x),
       rc_doc_updated_at = d_updated_at d, rc_similarity = cd_similarity cand,
       rc_fts_rank = cd_fts_rank cand, rc_score = cd_rrf cand\<rparr>)"

record retrieval_result =
  rr_chunks :: "retrieved_chunk list"
  rr_candidates :: nat
  rr_below_threshold :: nat
  rr_embedding_model :: string
  rr_tables :: "chunk_table list"
  rr_near_misses :: "retrieved_chunk list"
  rr_reviewed :: nat
  rr_admitted_by_review :: nat

definition has_confidential :: "retrieval_result \<Rightarrow> bool" where
  "has_confidential r = list_ex (\<lambda>c. rc_classification c = ''confidential'') (rr_chunks r)"

definition max_classification :: "retrieval_result \<Rightarrow> string option" where
  "max_classification r =
     (case map rc_classification (rr_chunks r) of [] \<Rightarrow> None | c # cs \<Rightarrow> Some (max_rank c cs))"

definition section_key :: "retrieved_chunk \<Rightarrow> chunk_table \<times> string \<times> nat option \<times> string" where
  "section_key c =
     (rc_table c, fst (rc_parent_id c), snd (rc_parent_id c),
      if snd (rc_parent_id c) = None then rc_locator c else [])"

definition distinct_sections :: "retrieved_chunk list \<Rightarrow> retrieved_chunk list" where
  "distinct_sections chunks = first_by section_key [] (sorted_desc rc_score chunks)"

section \<open>The relevance gate\<close>

definition best_similarity :: "candidate list \<Rightarrow> rat" where
  "best_similarity cands =
     (case somes (map cd_similarity cands) of [] \<Rightarrow> 0 | s # ss \<Rightarrow> foldl max s ss)"

definition relevance_floor :: "settings \<Rightarrow> rat \<Rightarrow> candidate list \<Rightarrow> rat" where
  "relevance_floor s threshold cands =
     max threshold (best_similarity cands - se_retrieval_relative_margin s)"

definition below_floor :: "rat \<Rightarrow> candidate \<Rightarrow> bool" where
  "below_floor flr cand = (case cd_similarity cand of None \<Rightarrow> True | Some x \<Rightarrow> x < flr)"

definition near_miss :: "settings \<Rightarrow> rat \<Rightarrow> candidate \<Rightarrow> bool" where
  "near_miss s threshold cand \<longleftrightarrow>
     se_gate_review_margin s \<noteq> 0
     \<and> threshold - se_gate_review_margin s \<le> (case cd_similarity cand of None \<Rightarrow> 0 | Some x \<Rightarrow> x)"

definition gate :: "settings \<Rightarrow> rat \<Rightarrow> int option \<Rightarrow> string \<Rightarrow> chunk_table list \<Rightarrow> candidate list \<Rightarrow> retrieval_result" where
  "gate s threshold top_k model_id tables cands =
     (let flr = relevance_floor s threshold cands;
          kept = distinct_sections (map to_chunk (filter (\<lambda>c. \<not> below_floor flr c) cands));
          missed = filter (\<lambda>c. below_floor flr c \<and> near_miss s threshold c) cands;
          k = (case top_k of None \<Rightarrow> se_retrieval_top_k s | Some n \<Rightarrow> if n = 0 then se_retrieval_top_k s else n)
      in \<lparr>rr_chunks = py_take k kept, rr_candidates = length cands,
          rr_below_threshold = length (filter (below_floor flr) cands),
          rr_embedding_model = model_id, rr_tables = tables,
          rr_near_misses = (if kept \<noteq> [] then []
                            else py_take (se_gate_review_max s) (distinct_sections (map to_chunk missed))),
          rr_reviewed = 0, rr_admitted_by_review = 0\<rparr>)"

section \<open>Retrieval\<close>

text \<open>\<open>f"{x:.7f}"\<close>, as the number PostgreSQL reads back.\<close>

definition round7 :: "rat \<Rightarrow> rat" where
  "round7 x = of_int (round_even (x * 10000000)) / 10000000"

definition search_index ::
  "index_engine \<Rightarrow> settings \<Rightarrow> access_scope \<Rightarrow> string \<Rightarrow> rat list \<Rightarrow> string \<Rightarrow> knowledge_db \<Rightarrow> candidate list" where
  "search_index ix s sc model_id qvec query db =
     (let ses = apply_scope sc fresh_session in
      map snd (fuse_tables
        (\<lambda>t depts. candidate_rows ix ses t depts model_id qvec query (se_retrieval_candidates s) db)
        (permitted_tables sc) []))"

definition retrieve ::
  "gateway \<Rightarrow> (nat \<Rightarrow> rat) \<Rightarrow> (nat \<Rightarrow> model_spec \<Rightarrow> string list \<Rightarrow> string \<Rightarrow> rat \<times> embedding_result reply)
   \<Rightarrow> index_engine \<Rightarrow> settings \<Rightarrow> knowledge_db \<Rightarrow> string \<Rightarrow> access_scope \<Rightarrow> int option \<Rightarrow> gw_state
   \<Rightarrow> (call_failure + retrieval_result) \<times> gw_state" where
  "retrieve g rnd ask ix s db query sc top_k st =
     (let model_id = se_index_embedding_model s in
      case model (gw_catalog g) model_id of
        Inl e \<Rightarrow> (Inl (CallUnknownModel e), st)
      | Inr spec \<Rightarrow>
          (let threshold = (case ms_min_relevance spec of None \<Rightarrow> 0 | Some x \<Rightarrow> x) in
           case embed g rnd ask (Some model_id) [query] ''query'' st of
             (Inl e, st') \<Rightarrow> (Inl e, st')
           | (Inr out, st') \<Rightarrow>
               (case er_vectors (co_result out) of
                  [] \<Rightarrow> (Inl (CallCrashed ''IndexError''), st')
                | v # _ \<Rightarrow>
                    (Inr (gate s threshold top_k model_id (map fst (permitted_tables sc))
                            (search_index ix s sc model_id (map round7 v) query db)), st'))))"

section \<open>Where results come from\<close>

lemma order_limit_set: "set (order_limit ix k n rows) \<subseteq> set rows"
  by (auto simp: order_limit_def dest!: in_set_takeD)

lemma joined_rowsD:
  "(c, d) \<in> set (joined_rows ses t depts m db) \<Longrightarrow>
   c \<in> set (rows_of_table db t) \<and> d \<in> set (kb_documents db) \<and> d_id d = c_document_id c \<and> c_is_active c
   \<and> chunk_visible ses t c \<and> document_visible ses d \<and> c_embedding_model c = m"
  by (auto simp: joined_rows_def)

lemma candidate_rowsD:
  "(c, d, s) \<in> set (candidate_rows ix ses t depts m q query n db k) \<Longrightarrow> (c, d) \<in> set (joined_rows ses t depts m db)"
  unfolding candidate_rows_def
  by (drule subsetD [OF order_limit_set]) (auto split: search_kind.splits option.splits)

text \<open>What holds of every row the tables deliver holds of every candidate.\<close>

definition fused_ok :: "(chunk_table \<Rightarrow> chunk_row \<Rightarrow> document \<Rightarrow> bool) \<Rightarrow> fused \<Rightarrow> bool" where
  "fused_ok P f \<longleftrightarrow> (\<forall>x \<in> set f. P (cd_table (snd x)) (cd_chunk (snd x)) (cd_document (snd x)))"

lemma score_candidate_sel [simp]:
  "cd_table (score_candidate k rank s cand) = cd_table cand"
  "cd_chunk (score_candidate k rank s cand) = cd_chunk cand"
  "cd_document (score_candidate k rank s cand) = cd_document cand"
  by (cases k; simp add: score_candidate_def Let_def)+

lemma fuse_row_ok:
  assumes "fused_ok P f" "P t c d"
  shows "fused_ok P (fuse_row k t rank (c, d, s) f)"
proof -
  define cand where "cand = (case dict_get f (t, c_id c) of None \<Rightarrow> new_candidate t c d | Some x \<Rightarrow> x)"
  have cand: "P (cd_table cand) (cd_chunk cand) (cd_document cand)"
    using assms by (auto simp: cand_def new_candidate_def fused_ok_def split: option.splits dest!: map_of_SomeD)
  have put: "x = (key, v) \<or> x \<in> set f" if "x \<in> set (dict_put key v f)" for x key and v :: candidate
    using that by (induction f) (auto split: if_splits)
  define cand' where "cand' = score_candidate k rank s cand"
  have "P (cd_table cand') (cd_chunk cand') (cd_document cand')"
    using cand by (simp add: cand'_def)
  moreover have "fuse_row k t rank (c, d, s) f = dict_put (t, c_id c) cand' f"
    by (simp add: fuse_row_def Let_def cand_def cand'_def)
  ultimately show ?thesis
    using put assms(1) unfolding fused_ok_def by (metis snd_conv)
qed

lemma fuse_rows_ok:
  "fused_ok P f \<Longrightarrow> (\<And>c d s. (c, d, s) \<in> set rows \<Longrightarrow> P t c d) \<Longrightarrow> fused_ok P (fuse_rows k t rank rows f)"
proof (induction rows arbitrary: rank f)
  case (Cons row rows)
  obtain c d s where row: "row = (c, d, s)" by (cases row)
  have P: "P t c d" using Cons.prems(2) [of c d s] row by simp
  show ?case
    unfolding fuse_rows.simps row
  proof (rule Cons.IH)
    show "fused_ok P (fuse_row k t rank (c, d, s) f)"
      by (rule fuse_row_ok [OF Cons.prems(1) P])
    show "\<And>c d s. (c, d, s) \<in> set rows \<Longrightarrow> P t c d"
      using Cons.prems(2) by (meson list.set_intros(2))
  qed
qed simp

lemma fuse_tables_ok:
  "fused_ok P f \<Longrightarrow> (\<And>t depts k c d s. (t, depts) \<in> set ts \<Longrightarrow> (c, d, s) \<in> set (rows t depts k) \<Longrightarrow> P t c d) \<Longrightarrow>
   fused_ok P (fuse_tables rows ts f)"
proof (induction rows ts f rule: fuse_tables.induct)
  case (2 rows t depts ts f)
  show ?case
    unfolding fuse_tables.simps
  proof (rule 2(1))
    show "fused_ok P (fuse_rows FtsSearch t 1 (rows t depts FtsSearch) (fuse_rows VectorSearch t 1 (rows t depts VectorSearch) f))"
      by (intro fuse_rows_ok 2(2)) (use 2(3) [of t depts] in auto)
    show "P t' c d" if "(t', depts') \<in> set ts" "(c, d, s) \<in> set (rows t' depts' k)" for t' depts' k c d s
      using 2(3) [of t' depts' c d s k] that by simp
  qed
qed simp

definition source_row :: "db_session \<Rightarrow> string \<Rightarrow> knowledge_db \<Rightarrow> chunk_table \<Rightarrow> chunk_row \<Rightarrow> document \<Rightarrow> bool" where
  "source_row ses m db t c d \<longleftrightarrow> (\<exists>depts. (c, d) \<in> set (joined_rows ses t depts m db))"

lemma search_index_source:
  assumes "cand \<in> set (search_index ix s sc m q query db)"
  shows "source_row (apply_scope sc fresh_session) m db (cd_table cand) (cd_chunk cand) (cd_document cand)"
proof -
  let ?ses = "apply_scope sc fresh_session"
  let ?rows = "\<lambda>t depts. candidate_rows ix ?ses t depts m q query (se_retrieval_candidates s) db"
  have "fused_ok (source_row ?ses m db) (fuse_tables ?rows (permitted_tables sc) [])"
  proof (rule fuse_tables_ok)
    show "fused_ok (source_row ?ses m db) []" by (simp add: fused_ok_def)
  next
    fix t depts k c d r
    assume "(c, d, r) \<in> set (?rows t depts k)"
    then show "source_row ?ses m db t c d"
      using candidate_rowsD unfolding source_row_def by blast
  qed
  with assms show ?thesis
    by (auto simp: search_index_def Let_def fused_ok_def)
qed

lemma distinct_sections_set: "set (distinct_sections xs) \<subseteq> set xs"
  unfolding distinct_sections_def using set_first_by [of section_key "[]" "sorted_desc rc_score xs"] by simp

lemma gate_source:
  assumes "h \<in> set (rr_chunks (gate s th k m ts cands) @ rr_near_misses (gate s th k m ts cands))"
  shows "\<exists>cand \<in> set cands. h = to_chunk cand"
  using assms
  by (auto simp: gate_def Let_def split: if_splits
      dest!: subsetD [OF set_py_take] subsetD [OF distinct_sections_set])

text \<open>What a caller is shown: an active chunk the database holds, of a document it holds, both readable by the
  principal, with the title and texts of those rows.\<close>

definition readable_hit :: "principal \<Rightarrow> knowledge_db \<Rightarrow> retrieved_chunk \<Rightarrow> bool" where
  "readable_hit p db h \<longleftrightarrow>
     (\<exists>c d. c \<in> set (rows_of_table db (rc_table h)) \<and> c_is_active c \<and> d \<in> set (kb_documents db) \<and> d_id d = c_document_id c
        \<and> rc_chunk_id h = c_id c \<and> rc_title h = d_title d \<and> rc_content h = c_content c
        \<and> rc_department h = c_department c \<and> rc_classification h = c_classification c
        \<and> can_read (scope_for p) (c_department c) (c_classification c)
        \<and> can_read (scope_for p) (d_department d) (d_classification d))"

lemma retrieve_hit_readable:
  assumes "kb_checked db" "fst (retrieve g rnd ask ix s db query (scope_for p) k st) = Inr r"
    and "h \<in> set (rr_chunks r @ rr_near_misses r)"
  shows "readable_hit p db h"
proof -
  obtain th m ts q where r: "r = gate s th k m ts (search_index ix s (scope_for p) m q query db)"
    using assms(2) by (auto simp: retrieve_def Let_def split: sum.splits prod.splits list.splits)
  obtain cand where h: "h = to_chunk cand" and cand: "cand \<in> set (search_index ix s (scope_for p) m q query db)"
    using gate_source [OF assms(3) [unfolded r]] by blast
  from search_index_source [OF cand] obtain depts where
    "(cd_chunk cand, cd_document cand) \<in> set (joined_rows (apply_scope (scope_for p) fresh_session) (cd_table cand) depts m db)"
    unfolding source_row_def by blast
  from joined_rowsD [OF this] have j: "cd_chunk cand \<in> set (rows_of_table db (cd_table cand))"
    "cd_document cand \<in> set (kb_documents db)" "d_id (cd_document cand) = c_document_id (cd_chunk cand)"
    "c_is_active (cd_chunk cand)" "chunk_visible (apply_scope (scope_for p) fresh_session) (cd_table cand) (cd_chunk cand)"
    "document_visible (apply_scope (scope_for p) fresh_session) (cd_document cand)" by auto
  have "can_read (scope_for p) (c_department (cd_chunk cand)) (c_classification (cd_chunk cand))"
    by (rule visible_chunk_readable [OF j(5) kb_checkedD [OF assms(1) j(1)]])
  moreover have "can_read (scope_for p) (d_department (cd_document cand)) (d_classification (cd_document cand))"
    by (rule visible_document_readable [OF j(6)])
  ultimately show ?thesis
    unfolding readable_hit_def using j
    by (intro exI [of _ "cd_chunk cand"] exI [of _ "cd_document cand"]) (simp add: h to_chunk_def Let_def)
qed

lemma foldl_max_ge: "b \<le> foldl max b xs \<and> (\<forall>x \<in> set xs. x \<le> foldl max b xs)" for b :: rat
proof (induction xs arbitrary: b)
  case (Cons x xs)
  from Cons.IH [of "max b x"] show ?case by auto
qed simp

lemma foldl_max_in: "foldl max b xs = b \<or> foldl max b xs \<in> set xs" for b :: rat
proof (induction xs arbitrary: b)
  case (Cons x xs)
  from Cons.IH [of "max b x"] show ?case by (auto simp: max_def split: if_splits)
qed simp

lemma best_similarity_max:
  assumes "cand \<in> set cands" "cd_similarity cand = Some x"
  shows "x \<le> best_similarity cands \<and> (\<exists>c \<in> set cands. cd_similarity c = Some (best_similarity cands))"
proof -
  have mem: "y \<in> set (somes (map cd_similarity cands)) \<longleftrightarrow> (\<exists>c \<in> set cands. cd_similarity c = Some y)" for y
    by force
  obtain z zs where z: "somes (map cd_similarity cands) = z # zs"
    using assms mem [of x] by (cases "somes (map cd_similarity cands)") auto
  then have best: "best_similarity cands = foldl max z zs"
    by (simp add: best_similarity_def)
  have "x \<in> set (z # zs)"
    using mem [of x] assms z by auto
  then have "x \<le> best_similarity cands"
    using foldl_max_ge [of z zs] best by auto
  moreover have "best_similarity cands \<in> set (z # zs)"
    using foldl_max_in [of z zs] best by auto
  ultimately show ?thesis
    using mem [of "best_similarity cands"] z by auto
qed

text \<open>The margin never removes the best hit, so it alone cannot empty the result.\<close>

lemma floor_empty:
  assumes "0 \<le> se_retrieval_relative_margin s"
  shows "list_all (below_floor (relevance_floor s th cands)) cands \<longleftrightarrow> list_all (below_floor th) cands"
proof
  assume l: "list_all (below_floor (relevance_floor s th cands)) cands"
  show "list_all (below_floor th) cands"
  proof (rule ccontr)
    assume "\<not> list_all (below_floor th) cands"
    then obtain cand x where c: "cand \<in> set cands" "cd_similarity cand = Some x" "th \<le> x"
      by (auto simp: list_all_iff below_floor_def split: option.splits)
    then obtain b where b: "b \<in> set cands" "cd_similarity b = Some (best_similarity cands)" "x \<le> best_similarity cands"
      using best_similarity_max [OF c(1,2)] by blast
    then have "\<not> below_floor (relevance_floor s th cands) b"
      using c(3) assms by (simp add: below_floor_def relevance_floor_def)
    with l b(1) show False by (simp add: list_all_iff)
  qed
next
  assume "list_all (below_floor th) cands"
  then show "list_all (below_floor (relevance_floor s th cands)) cands"
    by (auto simp: list_all_iff below_floor_def relevance_floor_def split: option.splits)
qed

lemma distinct_sections_keys: "distinct (map section_key (distinct_sections xs))"
  using first_by_keys [of section_key "[]" "sorted_desc rc_score xs"] by (simp add: distinct_sections_def)

lemma distinct_sections_sorted: "sorted (map (\<lambda>c. - rc_score c) (distinct_sections xs))"
  unfolding distinct_sections_def
  by (rule sorted_wrt_subseq [OF subseq_map [OF subseq_first_by] sorted_sorted_desc])

lemma distinct_sections_empty [simp]: "distinct_sections xs = [] \<longleftrightarrow> xs = []"
proof
  assume e: "distinct_sections xs = []"
  show "xs = []"
  proof (rule ccontr)
    assume "xs \<noteq> []"
    then have "hd xs \<in> set (sorted_desc rc_score xs)" by simp
    from first_by_covers [OF this, of section_key "[]"] e show False
      by (simp add: distinct_sections_def)
  qed
qed (simp add: distinct_sections_def sorted_desc_def)

lemma to_chunk_sel [simp]: "rc_similarity (to_chunk c) = cd_similarity c" "rc_score (to_chunk c) = cd_rrf c"
  by (simp_all add: to_chunk_def Let_def)

lemma py_take_empty: "0 < n \<Longrightarrow> py_take n xs = [] \<longleftrightarrow> xs = []"
  by (simp add: py_take_def)

section \<open>Properties\<close>

text \<open>C14: Isolation: whatever the database's operators answer, every chunk a retrieval returns, near misses
  included, is an active chunk the principal may read, of a document the principal may read, if the
  tables satisfy their CHECK constraints.\<close>

theorem retrieval_contained:
  assumes "kb_checked db"
  shows "case fst (retrieve g rnd ask ix s db query (scope_for p) k st) of
           Inl e \<Rightarrow> True
         | Inr r \<Rightarrow> list_all (readable_hit p db) (rr_chunks r @ rr_near_misses r)"
  using retrieve_hit_readable [OF assms, of g rnd ask ix s query p k st]
  by (auto simp: list_all_iff split: sum.splits)

text \<open>The relevance gate: at most top-K hits, of distinct sections, best fused score first, each at least as
  similar as the model's threshold and within the margin of the best candidate; the result is empty
  exactly when no candidate reaches the threshold, and only then may near misses be offered, all of
  them within the review margin and at most as many as configured.\<close>

theorem relevance_gate:
  assumes "field_bounds s" and r: "r = gate s th None m ts cands"
  shows "int (length (rr_chunks r)) \<le> se_retrieval_top_k s
    \<and> distinct (map section_key (rr_chunks r)) \<and> sorted_wrt (\<lambda>a b. rc_score b \<le> rc_score a) (rr_chunks r)
    \<and> list_all (\<lambda>h. \<exists>x. rc_similarity h = Some x \<and> th \<le> x
          \<and> best_similarity cands - se_retrieval_relative_margin s \<le> x) (rr_chunks r)
    \<and> (rr_chunks r = [] \<longleftrightarrow> list_all (below_floor th) cands)
    \<and> (rr_near_misses r = [] \<or> rr_chunks r = [])
    \<and> int (length (rr_near_misses r)) \<le> se_gate_review_max s
    \<and> list_all (\<lambda>h. \<exists>c. c \<in> set cands \<and> h = to_chunk c \<and> near_miss s th c) (rr_near_misses r)"
proof -
  define kept where "kept = distinct_sections (map to_chunk (filter (\<lambda>c. \<not> below_floor (relevance_floor s th cands) c) cands))"
  define missed where "missed = distinct_sections (map to_chunk (filter (\<lambda>c. below_floor (relevance_floor s th cands) c \<and> near_miss s th c) cands))"
  have k: "1 \<le> se_retrieval_top_k s" "0 \<le> se_retrieval_relative_margin s" "1 \<le> se_gate_review_max s"
    using assms(1) by (simp_all add: field_bounds_def)
  have chunks: "rr_chunks r = take (nat (se_retrieval_top_k s)) kept"
    using k(1) by (simp add: r gate_def Let_def kept_def py_take_def)
  have misses: "rr_near_misses r = (if kept \<noteq> [] then [] else take (nat (se_gate_review_max s)) missed)"
    using k(3) by (simp add: r gate_def Let_def kept_def missed_def py_take_def)
  have in_kept: "\<exists>x. rc_similarity h = Some x \<and> relevance_floor s th cands \<le> x" if "h \<in> set kept" for h
  proof -
    from subsetD [OF distinct_sections_set that [unfolded kept_def]] obtain c where
      "h = to_chunk c" "\<not> below_floor (relevance_floor s th cands) c" by auto
    then show ?thesis by (auto simp: below_floor_def split: option.splits)
  qed
  have in_missed: "\<exists>c. c \<in> set cands \<and> h = to_chunk c \<and> near_miss s th c" if "h \<in> set missed" for h
    using subsetD [OF distinct_sections_set that [unfolded missed_def]] by auto
  have "kept = [] \<longleftrightarrow> list_all (below_floor (relevance_floor s th cands)) cands"
    by (simp add: kept_def list_all_iff filter_empty_conv)
  then have empty: "rr_chunks r = [] \<longleftrightarrow> list_all (below_floor th) cands"
    using floor_empty [OF k(2)] k(1) by (simp add: chunks)
  have sorted: "sorted_wrt (\<lambda>a b. rc_score b \<le> rc_score a) kept"
    using distinct_sections_sorted by (simp add: kept_def sorted_wrt_map)
  show ?thesis
  proof (intro conjI)
    show "int (length (rr_chunks r)) \<le> se_retrieval_top_k s"
      using k(1) by (simp add: chunks)
    show "distinct (map section_key (rr_chunks r))"
      using distinct_sections_keys distinct_take unfolding chunks kept_def by (metis take_map)
    show "sorted_wrt (\<lambda>a b. rc_score b \<le> rc_score a) (rr_chunks r)"
      unfolding chunks by (rule sorted_wrt_take [OF sorted])
    show "list_all (\<lambda>h. \<exists>x. rc_similarity h = Some x \<and> th \<le> x
          \<and> best_similarity cands - se_retrieval_relative_margin s \<le> x) (rr_chunks r)"
      using in_kept by (fastforce simp: chunks list_all_iff relevance_floor_def dest: in_set_takeD)
    show "rr_chunks r = [] \<longleftrightarrow> list_all (below_floor th) cands"
      by (rule empty)
    show "rr_near_misses r = [] \<or> rr_chunks r = []"
      by (simp add: misses chunks)
    show "int (length (rr_near_misses r)) \<le> se_gate_review_max s"
      using k(3) by (auto simp: misses min_def)
    show "list_all (\<lambda>h. \<exists>c. c \<in> set cands \<and> h = to_chunk c \<and> near_miss s th c) (rr_near_misses r)"
      using in_missed by (auto simp: misses list_all_iff dest: in_set_takeD)
  qed
qed

section \<open>A concrete index\<close>

definition demo_document :: document where
  "demo_document =
     \<lparr>d_id = ''d1'', d_doc_key = ''KB-HR-001'', d_version = 1, d_title = ''Leave'', d_department = ''hr'',
      d_classification = ''internal'', d_mime_type = ''text/markdown'', d_source_path = ''hr/leave.md'',
      d_content_sha256 = ''00'', d_status = ''active'', d_updated_at = ''2025-01-01'',
      d_embedding_model = ''m'', d_uploaded_by = None, d_chunker = None, d_chunk_count = 1, d_superseded_at = None\<rparr>"

definition demo_chunk :: chunk_row where
  "demo_chunk =
     \<lparr>c_id = 1, c_document_id = ''d1'', c_doc_key = ''KB-HR-001'', c_version = 1, c_department = ''hr'',
      c_classification = ''internal'', c_chunk_index = 0, c_parent_index = None, c_locator = ''p1'',
      c_section = None, c_page = None, c_content = ''Leave is 20 days.'', c_context = None, c_headings = [],
      c_embed_text = ''Leave is 20 days.'', c_token_count = 4, c_embedding_model = ''m'', c_embedding = [1], c_is_active = True\<rparr>"

definition demo_kb :: knowledge_db where
  "demo_kb = \<lparr>kb_documents = [demo_document], kb_chunks = [demo_chunk], kb_confidential = [], kb_next_chunk = 2\<rparr>"

definition demo_engine :: index_engine where
  "demo_engine = \<lparr>ix_similarity = (\<lambda>a b. if a = b then 1 else 0), ix_fts = (\<lambda>q t. None), ix_order = (\<lambda>k scores. [0])\<rparr>"

definition demo_reader :: principal where
  "demo_reader = \<lparr>p_user_id = ''U001'', p_name = ''Ann'', p_department = ''hr'', p_role = ''employee'', p_permissions = [''docs:hr'']\<rparr>"

lemma demo_kb_checked: "kb_checked demo_kb"
  by (simp add: kb_checked_def demo_kb_def demo_chunk_def classification_check_def)

lemma demo_search:
  "search_index demo_engine default_settings (scope_for demo_reader) ''m'' [1] ''leave'' demo_kb
     = [\<lparr>cd_table = SharedChunks, cd_chunk = demo_chunk, cd_document = demo_document, cd_rrf = 1/61,
         cd_similarity = Some 1, cd_fts_rank = None\<rparr>]"
proof -
  have sc: "scope_for demo_reader = \<lparr>sc_user_id = ''U001'', sc_internal = [''hr''], sc_confidential = []\<rparr>"
    by (simp add: scope_for_def Let_def demo_reader_def has_perm_def doc_permission_departments_def)
  have join: "joined_rows (apply_scope (scope_for demo_reader) fresh_session) SharedChunks [''hr''] ''m'' demo_kb = [(demo_chunk, demo_document)]"
    by (simp add: joined_rows_def sc demo_kb_def demo_chunk_def demo_document_def acl_def document_visible_def
        rls_chunks_read_def rls_documents_read_def setting_list_def apply_scope_def string_to_array_def py_split_on_def)
  show ?thesis
    using join
    by (simp add: search_index_def Let_def permitted_tables_def sc candidate_rows_def order_limit_def demo_engine_def
        default_settings_def fuse_row_def new_candidate_def score_candidate_def RRF_K_def demo_chunk_def)
qed

theorem retrieval_contained_witness:
  "\<forall>g rnd ask ix s query k st.
     (case fst (retrieve g rnd ask ix s demo_kb query (scope_for demo_reader) k st) of
        Inl e \<Rightarrow> True
      | Inr r \<Rightarrow> list_all (readable_hit demo_reader demo_kb) (rr_chunks r @ rr_near_misses r))"
  by (intro allI retrieval_contained demo_kb_checked)

theorem relevance_gate_witness:
  "rr_chunks (gate default_settings (1/2) None ''m'' [SharedChunks]
      (search_index demo_engine default_settings (scope_for demo_reader) ''m'' [1] ''leave'' demo_kb)) \<noteq> []"
  using relevance_gate [OF default_field_bounds refl, of "1/2" "''m''" "[SharedChunks]"
      "search_index demo_engine default_settings (scope_for demo_reader) ''m'' [1] ''leave'' demo_kb"]
  by (simp add: demo_search below_floor_def)

end
