(* ===== verification/Executor.thy ===== *)
theory Executor
  imports Registry AuditChain Retrieval
begin

text \<open>
  \<open>tools/executor.py\<close>: the tool handlers, authorization, proposing, running, approving and rejecting, each
  with its audit record. A call runs in one transaction at one time \<open>now\<close> (microseconds): an exception
  that leaves it (\<open>Escaped\<close>) rolls the tables back, but not the sequences, the UUIDs handed out and
  the gateway's state. Row locks and the advisory lock serialize the transactions that decide on the same
  row, so a run of the program is a sequence of calls. The metrics counter of \<open>_count\<close> is left out.
\<close>

section \<open>Tables\<close>

text \<open>\<open>Numeric(5, 2)\<close> columns are kept in hundredths.\<close>

record server =
  sv_id :: string
  sv_environment :: string
  sv_owner_department :: string
  sv_status :: string
  sv_cpu_pct :: "int option"
  sv_memory_pct :: "int option"
  sv_last_check :: int

record ticket =
  tk_id :: string
  tk_title :: string
  tk_severity :: string
  tk_details :: string
  tk_status :: string
  tk_created_by :: string
  tk_idempotency_key :: string
  tk_created_at :: int

record vpn_profile =
  vp_id :: string
  vp_employee_id :: string
  vp_duration_days :: int
  vp_requested_by :: string
  vp_approved_by :: string
  vp_pending_action_id :: string
  vp_created_at :: int
  vp_expires_at :: int

record pending_action =
  pa_id :: string
  pa_conversation_id :: "string option"
  pa_requester_id :: string
  pa_tool :: string
  pa_arguments :: raw_args
  pa_summary :: string
  pa_action_hash :: string
  pa_requires_permission :: string
  pa_approve_permission :: string
  pa_status :: string
  pa_approver_id :: "string option"
  pa_result :: json
  pa_request_id :: string
  pa_created_at :: int
  pa_expires_at :: int
  pa_decided_at :: "int option"
  pa_executed_at :: "int option"

record tool_db =
  db_users :: users
  db_servers :: "(string, server) dict"
  db_tickets :: "(string, ticket) dict"
  db_vpn :: "(string, vpn_profile) dict"
  db_pending :: "(string, pending_action) dict"
  db_audit :: audit_log

record tool_world =
  tw_db :: tool_db
  tw_ticket_seq :: nat
  tw_vpn_seq :: nat
  tw_uuids :: nat
  tw_gateway :: gw_state

text \<open>What the calls are given from outside: SHA-256, pydantic's reading of integers and its explanation of a
  rejected call, the UUIDs, the gateway with the network behind it, and the search index.\<close>

record tool_deps =
  td_sha :: "string \<Rightarrow> string"
  td_lax :: "json \<Rightarrow> int option"
  td_explain :: "args_model \<Rightarrow> raw_args \<Rightarrow> string"
  td_uuid :: "nat \<Rightarrow> string"
  td_gateway :: gateway
  td_rnd :: "nat \<Rightarrow> rat"
  td_ask :: "nat \<Rightarrow> model_spec \<Rightarrow> string list \<Rightarrow> string \<Rightarrow> rat \<times> embedding_result reply"
  td_index :: index_engine
  td_settings :: settings
  td_knowledge :: knowledge_db

record tool_context =
  tc_request_id :: string
  tc_conversation_id :: "string option"
  tc_user_message :: "string option"

datatype tool_status = StatusOk | StatusDenied | StatusPending | StatusError

record tool_outcome =
  to_status :: tool_status
  to_tool :: string
  to_message :: string
  to_data :: json
  to_pending_action_id :: "string option"
  to_action_hash :: "string option"

definition outcome :: "tool_status \<Rightarrow> string \<Rightarrow> string \<Rightarrow> tool_outcome" where
  "outcome s tool msg =
     \<lparr>to_status = s, to_tool = tool, to_message = msg, to_data = JNull, to_pending_action_id = None, to_action_hash = None\<rparr>"

definition executed :: "tool_outcome \<Rightarrow> bool" where
  "executed out = (to_status out = StatusOk)"

definition MICRO :: int where "MICRO = 1000000"
definition PENDING_TTL :: int where "PENDING_TTL = 24 * 3600 * MICRO"
definition TICKET_IDEMPOTENCY_WINDOW :: int where "TICKET_IDEMPOTENCY_WINDOW = 10 * 60 * MICRO"

definition action_hash :: "(string \<Rightarrow> string) \<Rightarrow> string \<Rightarrow> raw_args \<Rightarrow> string \<Rightarrow> string" where
  "action_hash sha tool args requester =
     sha (dumps_compact (JObj [(''tool'', JStr tool), (''arguments'', JObj args), (''requester'', JStr requester)]))"

section \<open>Handlers\<close>

datatype handler_result = HOk json | HToolError string | HToolDenied string | HEscaped string

definition search_internal_docs ::
  "tool_deps \<Rightarrow> principal \<Rightarrow> string \<Rightarrow> string option \<Rightarrow> tool_world \<Rightarrow> handler_result \<times> tool_world" where
  "search_internal_docs d p query department w =
     (case retrieve (td_gateway d) (td_rnd d) (td_ask d) (td_index d) (td_settings d) (td_knowledge d) query
             (scope_for p) None (tw_gateway w) of
        (Inl e, st) \<Rightarrow> (HEscaped ''GatewayError'', w\<lparr>tw_gateway := st\<rparr>)
      | (Inr r, st) \<Rightarrow>
          (let hits = filter (\<lambda>c. department = None \<or> Some (rc_department c) = department) (rr_chunks r) in
           (HOk (JObj [(''hits'', JList (map (\<lambda>c. JObj [(''title'', JStr (rc_title c)), (''ref'', JStr (stable_ref c)),
                           (''department'', JStr (rc_department c)), (''text'', JStr (rc_context c))]) hits)),
                       (''count'', JInt (int (length hits)))]),
            w\<lparr>tw_gateway := st\<rparr>)))"

text \<open>\<open>float(Decimal)\<close> of hundredths, as Python writes it.\<close>

definition float_hundredths :: "int \<Rightarrow> json" where
  "float_hundredths h =
     (let a = nat \<bar>h\<bar>; frac = a mod 100 in
      JFloat ((if h < 0 then ''-'' else []) @ nat_str (a div 100) @ ''.''
        @ (if frac mod 10 = 0 then nat_str (frac div 10) else pad 2 frac)))"

definition opt_float :: "int option \<Rightarrow> json" where
  "opt_float v = (case v of None \<Rightarrow> JNull | Some h \<Rightarrow> float_hundredths h)"

definition visible_server_fields :: "principal \<Rightarrow> server \<Rightarrow> raw_args" where
  "visible_server_fields p sv =
     [(''server_id'', JStr (sv_id sv)), (''environment'', JStr (sv_environment sv)),
      (''owner_department'', JStr (sv_owner_department sv)), (''status'', JStr (sv_status sv)),
      (''last_check'', JStr (isoformat (sv_last_check sv)))]
     @ (if p_department p = sv_owner_department sv \<or> p_department p = ''it_ops''
        then [(''cpu_pct'', opt_float (sv_cpu_pct sv)), (''memory_pct'', opt_float (sv_memory_pct sv))]
        else [(''utilisation'', JStr ''hidden: visible to the owning department and IT Operations'')])"

definition get_server_status :: "principal \<Rightarrow> string \<Rightarrow> tool_world \<Rightarrow> handler_result \<times> tool_world" where
  "get_server_status p server_id w =
     (case dict_get (db_servers (tw_db w)) server_id of
        None \<Rightarrow> (HToolError (''no server with id '' @ py_repr server_id), w)
      | Some sv \<Rightarrow> (HOk (JObj (visible_server_fields p sv)), w))"

definition with_provenance :: "string \<Rightarrow> string option \<Rightarrow> string" where
  "with_provenance details request =
     (let r = py_strip (case request of None \<Rightarrow> [] | Some x \<Rightarrow> x) in
      if r = [] \<or> py_contains (py_lower r) (py_lower details) then details
      else details @ [CHR 0x0A, CHR 0x0A] @ ''Raised from: '' @ [CHR 0x22] @ r @ [CHR 0x22])"

definition ticket_key :: "(string \<Rightarrow> string) \<Rightarrow> principal \<Rightarrow> string \<Rightarrow> string \<Rightarrow> string \<Rightarrow> string" where
  "ticket_key sha p title severity details =
     sha (p_user_id p @ ''|'' @ title @ ''|'' @ severity @ ''|'' @ details)"

definition ticket_by_key :: "tool_db \<Rightarrow> string \<Rightarrow> ticket option" where
  "ticket_by_key db key = find (\<lambda>t. tk_idempotency_key t = key) (map snd (db_tickets db))"

text \<open>The INSERT fails on a taken id or key (IntegrityError).\<close>

definition insert_ticket :: "ticket \<Rightarrow> tool_world \<Rightarrow> handler_result \<times> tool_world" where
  "insert_ticket t w =
     (let db = tw_db w in
      if dict_has (db_tickets db) (tk_id t) \<or> ticket_by_key db (tk_idempotency_key t) \<noteq> None
      then (HEscaped ''IntegrityError'', w)
      else (HOk (JObj [(''ticket_id'', JStr (tk_id t)), (''title'', JStr (tk_title t)), (''severity'', JStr (tk_severity t)),
                       (''status'', JStr (tk_status t)), (''details'', JStr (tk_details t))]),
            w\<lparr>tw_db := db\<lparr>db_tickets := dict_put (tk_id t) t (db_tickets db)\<rparr>\<rparr>))"

definition create_support_ticket ::
  "tool_deps \<Rightarrow> int \<Rightarrow> principal \<Rightarrow> string \<Rightarrow> string \<Rightarrow> string \<Rightarrow> tool_context \<Rightarrow> tool_world \<Rightarrow> handler_result \<times> tool_world" where
  "create_support_ticket d now p title severity details ctx w =
     (let key = ticket_key (td_sha d) p title severity details;
          existing = ticket_by_key (tw_db w) key;
          fresh = (\<lambda>key w.
            insert_ticket \<lparr>tk_id = ''INC-'' @ nat_str (tw_ticket_seq w), tk_title = title, tk_severity = severity,
                           tk_details = with_provenance details (tc_user_message ctx), tk_status = ''open'',
                           tk_created_by = p_user_id p, tk_idempotency_key = key, tk_created_at = now\<rparr>
              (w\<lparr>tw_ticket_seq := tw_ticket_seq w + 1\<rparr>))
      in case existing of
           None \<Rightarrow> fresh key w
         | Some t \<Rightarrow>
             if now - tk_created_at t < TICKET_IDEMPOTENCY_WINDOW
             then (HOk (JObj [(''ticket_id'', JStr (tk_id t)), (''status'', JStr (tk_status t)), (''duplicate'', JBool True)]), w)
             else fresh (key @ '':'' @ take 8 (filter (\<lambda>c. c \<noteq> CHR ''-'') (td_uuid d (tw_uuids w))))
                    (w\<lparr>tw_uuids := tw_uuids w + 1\<rparr>))"

definition get_support_ticket :: "principal \<Rightarrow> string \<Rightarrow> tool_world \<Rightarrow> handler_result \<times> tool_world" where
  "get_support_ticket p ticket_id w =
     (case dict_get (db_tickets (tw_db w)) ticket_id of
        None \<Rightarrow> (HToolError (''no ticket with id '' @ py_repr ticket_id), w)
      | Some t \<Rightarrow>
          (let own = (tk_created_by t = p_user_id p);
               same_team = (case dict_get (db_users (tw_db w)) (tk_created_by t) of
                              None \<Rightarrow> False | Some u \<Rightarrow> u_department u = p_department p)
           in if \<not> (own \<or> same_team)
              then (HToolDenied (ticket_id @ '' belongs to another department''), w)
              else (HOk (JObj [(''ticket_id'', JStr (tk_id t)), (''title'', JStr (tk_title t)),
                       (''severity'', JStr (tk_severity t)), (''status'', JStr (tk_status t)),
                       (''details'', JStr (tk_details t)), (''raised_by'', JStr (tk_created_by t)),
                       (''raised_at'', JStr (isoformat (tk_created_at t)))]), w)))"

text \<open>SQL's LIKE: percent, underscore and backslash of the name are not escaped.\<close>

function sql_like :: "string \<Rightarrow> string \<Rightarrow> bool" where
  "sql_like [] s \<longleftrightarrow> s = []"
| "sql_like (p # ps) s \<longleftrightarrow>
     (if p = CHR ''%'' then sql_like ps s \<or> (case s of [] \<Rightarrow> False | c # cs \<Rightarrow> sql_like (p # ps) cs)
      else if s = [] then False
      else if p = CHR ''_'' then sql_like ps (tl s)
      else if p = CHR 0x5C then (case ps of [] \<Rightarrow> False | q # qs \<Rightarrow> q = hd s \<and> sql_like qs (tl s))
      else p = hd s \<and> sql_like ps (tl s))"
  by pat_completeness auto
termination
  by (relation "measure (\<lambda>(p, s). length p + length s)") auto

definition resolve_employee :: "users \<Rightarrow> string option \<Rightarrow> string option \<Rightarrow> string + user" where
  "resolve_employee us eid ename =
     (if eid \<noteq> None \<and> eid \<noteq> Some [] then
        (case dict_get us (the eid) of
           None \<Rightarrow> Inl (''no employee with id '' @ py_repr (the eid))
         | Some u \<Rightarrow> Inr u)
      else
        (let given = (case ename of None \<Rightarrow> [] | Some n \<Rightarrow> n);
             name = py_lower (py_strip given);
             matches = filter (\<lambda>u. sql_like (''%'' @ name @ ''%'') (py_lower (u_name u))) (map snd us)
         in case matches of
              [] \<Rightarrow> Inl (''no employee named '' @ py_repr given)
            | [u] \<Rightarrow> Inr u
            | _ \<Rightarrow> Inl (py_repr given @ '' matches '' @ nat_str (length matches) @ '' employees; ask for the employee id'')))"

definition create_vpn_profile ::
  "tool_deps \<Rightarrow> int \<Rightarrow> principal \<Rightarrow> string option \<Rightarrow> string option \<Rightarrow> int \<Rightarrow> tool_world \<Rightarrow> handler_result \<times> tool_world" where
  "create_vpn_profile d now p eid ename days w =
     (case resolve_employee (db_users (tw_db w)) eid ename of
        Inl e \<Rightarrow> (HToolError e, w)
      | Inr employee \<Rightarrow>
          (let db = tw_db w;
               profile = \<lparr>vp_id = ''VPN-'' @ pad 4 (tw_vpn_seq w), vp_employee_id = u_id employee,
                          vp_duration_days = days, vp_requested_by = p_user_id p, vp_approved_by = p_user_id p,
                          vp_pending_action_id = td_uuid d (tw_uuids w), vp_created_at = now,
                          vp_expires_at = now + days * 86400 * MICRO\<rparr>;
               w' = w\<lparr>tw_vpn_seq := tw_vpn_seq w + 1, tw_uuids := tw_uuids w + 1\<rparr>
           in if dict_has (db_vpn db) (vp_id profile)
                 \<or> list_ex (\<lambda>v. vp_pending_action_id (snd v) = vp_pending_action_id profile) (db_vpn db)
              then (HEscaped ''IntegrityError'', w')
              else (HOk (JObj [(''profile_id'', JStr (vp_id profile)), (''employee_id'', JStr (u_id employee)),
                               (''expires_at'', JStr (isoformat (vp_expires_at profile)))]),
                    w'\<lparr>tw_db := db\<lparr>db_vpn := dict_put (vp_id profile) profile (db_vpn db)\<rparr>\<rparr>)))"

text \<open>\<open>HANDLERS[tool](session, principal, args, ctx)\<close>; arguments are of the tool's schema.\<close>

definition run_handler ::
  "tool_deps \<Rightarrow> int \<Rightarrow> string \<Rightarrow> principal \<Rightarrow> tool_args \<Rightarrow> tool_context \<Rightarrow> tool_world \<Rightarrow> handler_result \<times> tool_world" where
  "run_handler d now tool p args ctx w =
     (case args of
        SearchArgs q dep \<Rightarrow>
          if tool = ''search_internal_docs'' then search_internal_docs d p q dep w else (HEscaped ''AttributeError'', w)
      | ServerArgs s \<Rightarrow>
          if tool = ''get_server_status'' then get_server_status p s w else (HEscaped ''AttributeError'', w)
      | TicketArgs t s e \<Rightarrow>
          if tool = ''create_support_ticket'' then create_support_ticket d now p t s e ctx w
          else (HEscaped ''AttributeError'', w)
      | GetTicketArgs t \<Rightarrow>
          if tool = ''get_support_ticket'' then get_support_ticket p t w else (HEscaped ''AttributeError'', w)
      | VpnArgs e n days \<Rightarrow>
          if tool = ''create_vpn_profile'' then create_vpn_profile d now p e n days w
          else (HEscaped ''AttributeError'', w))"

section \<open>Running a tool\<close>

definition authorize :: "principal \<Rightarrow> tool_spec \<Rightarrow> string option" where
  "authorize p s =
     (case ts_requires_permission s of
        None \<Rightarrow> None
      | Some perm \<Rightarrow> if perm \<noteq> [] \<and> \<not> has_perm p perm then Some (''requires the '' @ perm @ '' permission'') else None)"

definition summarize :: "tool_spec \<Rightarrow> tool_args \<Rightarrow> string" where
  "summarize s args =
     (case args of
        VpnArgs e n days \<Rightarrow>
          (if ts_name s = ''create_vpn_profile'' then
             ''Create a VPN profile for ''
               @ (case (if e \<noteq> None \<and> e \<noteq> Some [] then e else n) of None \<Rightarrow> ''None'' | Some who \<Rightarrow> who)
               @ '' valid for '' @ int_str days @ '' days''
           else ''Run '' @ ts_name s)
      | _ \<Rightarrow> ''Run '' @ ts_name s)"

definition append_audit :: "tool_deps \<Rightarrow> int \<Rightarrow> audit_entry \<Rightarrow> tool_world \<Rightarrow> tool_world" where
  "append_audit d now e w =
     w\<lparr>tw_db := (tw_db w)\<lparr>db_audit := audit_append (td_sha d) now e (db_audit (tw_db w))\<rparr>\<rparr>"

definition put_pending :: "pending_action \<Rightarrow> tool_world \<Rightarrow> tool_world" where
  "put_pending pa w = w\<lparr>tw_db := (tw_db w)\<lparr>db_pending := dict_put (pa_id pa) pa (db_pending (tw_db w))\<rparr>\<rparr>"

datatype call_result = Finished tool_outcome | Escaped string

text \<open>An exception that leaves the transaction rolls its tables back.\<close>

definition rolled_back :: "string \<Rightarrow> tool_world \<Rightarrow> tool_world \<Rightarrow> call_result \<times> tool_world" where
  "rolled_back x w w' = (Escaped x, w'\<lparr>tw_db := tw_db w\<rparr>)"

text \<open>\<open>entry(...)\<close> inside \<open>_run_tool\<close>.\<close>

definition call_entry :: "principal \<Rightarrow> tool_context \<Rightarrow> string \<Rightarrow> audit_decision \<Rightarrow> audit_entry" where
  "call_entry p ctx tool dec = (entry_of p (tc_request_id ctx) ''tool_call'' dec)\<lparr>ae_tool := Some tool\<rparr>"

definition propose ::
  "tool_deps \<Rightarrow> int \<Rightarrow> principal \<Rightarrow> tool_spec \<Rightarrow> tool_args \<Rightarrow> tool_context \<Rightarrow> tool_world \<Rightarrow> call_result \<times> tool_world" where
  "propose d now p s args ctx w =
     (let validated = dump_args args;
          approve = (case ts_approve_permission s of None \<Rightarrow> [] | Some x \<Rightarrow> x);
          approve_text = (case ts_approve_permission s of None \<Rightarrow> ''None'' | Some x \<Rightarrow> x);
          pid = td_uuid d (tw_uuids w);
          digest = action_hash (td_sha d) (ts_name s) validated (p_user_id p);
          pending = \<lparr>pa_id = pid, pa_conversation_id = tc_conversation_id ctx, pa_requester_id = p_user_id p,
                     pa_tool = ts_name s, pa_arguments = validated, pa_summary = summarize s args,
                     pa_action_hash = digest,
                     pa_requires_permission = (case ts_requires_permission s of None \<Rightarrow> [] | Some x \<Rightarrow> x),
                     pa_approve_permission = approve, pa_status = ''pending'', pa_approver_id = None, pa_result = JNull,
                     pa_request_id = tc_request_id ctx, pa_created_at = now, pa_expires_at = now + PENDING_TTL,
                     pa_decided_at = None, pa_executed_at = None\<rparr>;
          w1 = w\<lparr>tw_uuids := tw_uuids w + 1\<rparr>;
          e = (call_entry p ctx (ts_name s) DPending)
                \<lparr>ae_arguments := JObj validated,
                 ae_reason := Some (''awaiting approval by a different holder of '' @ approve_text),
                 ae_pending_action_id := Some pid, ae_action_hash := Some digest\<rparr>
      in if dict_has (db_pending (tw_db w)) pid then rolled_back ''IntegrityError'' w w1
         else (Finished ((outcome StatusPending (ts_name s)
                  (pa_summary pending @ ''. This needs approval from someone with '' @ approve_text
                   @ '', who must be a different person.''))
                \<lparr>to_pending_action_id := Some pid, to_action_hash := Some digest\<rparr>),
               append_audit d now e (put_pending pending w1)))"

definition execute_now ::
  "tool_deps \<Rightarrow> int \<Rightarrow> principal \<Rightarrow> string \<Rightarrow> tool_args \<Rightarrow> tool_context \<Rightarrow> tool_world \<Rightarrow> call_result \<times> tool_world" where
  "execute_now d now p tool args ctx w =
     (let e = (\<lambda>dec. (call_entry p ctx tool dec)\<lparr>ae_arguments := JObj (dump_args args)\<rparr>) in
      case run_handler d now tool p args ctx w of
        (HToolDenied why, w') \<Rightarrow>
          (Finished (outcome StatusDenied tool (''You are not authorized: '' @ why @ ''.'')),
           append_audit d now ((e DDeny)\<lparr>ae_reason := Some why\<rparr>) w')
      | (HToolError why, w') \<Rightarrow>
          (Finished (outcome StatusError tool why), append_audit d now ((e DError)\<lparr>ae_reason := Some why\<rparr>) w')
      | (HEscaped x, w') \<Rightarrow> rolled_back x w w'
      | (HOk result, w') \<Rightarrow>
          (Finished ((outcome StatusOk tool (tool @ '' completed''))\<lparr>to_data := result\<rparr>),
           append_audit d now ((e DExecuted)\<lparr>ae_result := result\<rparr>) w'))"

definition run_tool ::
  "tool_deps \<Rightarrow> int \<Rightarrow> principal \<Rightarrow> string \<Rightarrow> raw_args \<Rightarrow> tool_context \<Rightarrow> tool_world \<Rightarrow> call_result \<times> tool_world" where
  "run_tool d now p tool raw ctx w =
     (case tool_spec_of tool of
        None \<Rightarrow>
          (Finished (outcome StatusDenied tool (py_repr tool @ '' is not an available tool'')),
           append_audit d now ((call_entry p ctx tool DDeny)\<lparr>ae_reason := Some ''unknown tool''\<rparr>) w)
      | Some s \<Rightarrow>
          (case model_validate (td_lax d) (ts_args_model s) raw of
             None \<Rightarrow>
               (let why = ''invalid arguments: '' @ td_explain d (ts_args_model s) raw in
                (Finished (outcome StatusError tool (''invalid arguments for '' @ tool @ '': '' @ td_explain d (ts_args_model s) raw)),
                 append_audit d now ((call_entry p ctx tool DDeny)\<lparr>ae_arguments := JObj raw, ae_reason := Some why\<rparr>) w))
           | Some args \<Rightarrow>
               (case authorize p s of
                  Some denial \<Rightarrow>
                    (Finished (outcome StatusDenied tool (''You are not authorized: '' @ denial @ ''.'')),
                     append_audit d now
                       ((call_entry p ctx tool DDeny)\<lparr>ae_arguments := JObj (dump_args args), ae_reason := Some denial\<rparr>) w)
                | None \<Rightarrow>
                    if ts_sensitive s then propose d now p s args ctx w
                    else execute_now d now p tool args ctx w)))"

section \<open>Approving and rejecting\<close>

definition principal_of :: "users \<Rightarrow> string \<Rightarrow> principal option" where
  "principal_of us uid =
     (case dict_get us uid of
        None \<Rightarrow> None
      | Some u \<Rightarrow>
          if \<not> u_is_active u then None
          else Some \<lparr>p_user_id = u_id u, p_name = u_name u, p_department = u_department u,
                     p_role = u_role u, p_permissions = u_permissions u\<rparr>)"

definition approval_entry :: "principal \<Rightarrow> tool_context \<Rightarrow> string \<Rightarrow> audit_decision \<Rightarrow> string \<Rightarrow> audit_entry" where
  "approval_entry p ctx pid dec reason =
     (entry_of p (tc_request_id ctx) ''approval'' dec)\<lparr>ae_pending_action_id := Some pid, ae_reason := Some reason\<rparr>"

text \<open>The profile of an approved request is given its approver and its pending action; a taken pending
  id is an IntegrityError.\<close>

definition stamp_profile :: "principal \<Rightarrow> pending_action \<Rightarrow> json \<Rightarrow> tool_world \<Rightarrow> string + tool_world" where
  "stamp_profile approver pa result w =
     (let db = tw_db w;
          pid = (case result of JObj kvs \<Rightarrow> (case jget kvs ''profile_id'' of Some (JStr s) \<Rightarrow> Some s | _ \<Rightarrow> None) | _ \<Rightarrow> None)
      in case pid of
           None \<Rightarrow> Inl ''KeyError''
         | Some pid \<Rightarrow>
             (case dict_get (db_vpn db) pid of
                None \<Rightarrow> Inr w
              | Some v \<Rightarrow>
                  if list_ex (\<lambda>kv. fst kv \<noteq> pid \<and> vp_pending_action_id (snd kv) = pa_id pa) (db_vpn db)
                  then Inl ''IntegrityError''
                  else Inr (w\<lparr>tw_db := db\<lparr>db_vpn := dict_put pid
                             (v\<lparr>vp_approved_by := p_user_id approver, vp_pending_action_id := pa_id pa\<rparr>) (db_vpn db)\<rparr>\<rparr>)))"

definition execute_approved ::
  "tool_deps \<Rightarrow> int \<Rightarrow> principal \<Rightarrow> pending_action \<Rightarrow> principal \<Rightarrow> tool_args \<Rightarrow> tool_context \<Rightarrow> tool_world \<Rightarrow> call_result \<times> tool_world" where
  "execute_approved d now approver pa requester args ctx w =
     (let e = (\<lambda>dec reason. (approval_entry approver ctx (pa_id pa) dec reason)
                 \<lparr>ae_tool := Some (pa_tool pa), ae_action_hash := Some (pa_action_hash pa)\<rparr>) in
      case run_handler d now (pa_tool pa) requester args ctx w of
        (HToolError why, w') \<Rightarrow>
          (Finished (outcome StatusError (pa_tool pa) why),
           append_audit d now (e DError why) (put_pending (pa\<lparr>pa_status := ''failed'', pa_decided_at := Some now\<rparr>) w'))
      | (HToolDenied why, w') \<Rightarrow> rolled_back ''ToolDenied'' w w'
      | (HEscaped x, w') \<Rightarrow> rolled_back x w w'
      | (HOk result, w') \<Rightarrow>
          (case (if pa_tool pa = ''create_vpn_profile'' then stamp_profile approver pa result w' else Inr w') of
             Inl x \<Rightarrow> rolled_back x w w'
           | Inr w'' \<Rightarrow>
               (Finished ((outcome StatusOk (pa_tool pa) (pa_summary pa @ '' - approved and executed.''))
                  \<lparr>to_data := result, to_pending_action_id := Some (pa_id pa), to_action_hash := Some (pa_action_hash pa)\<rparr>),
                append_audit d now
                  ((e DExecuted (''approved by '' @ p_user_id approver @ '' for requester '' @ pa_requester_id pa))
                     \<lparr>ae_arguments := JObj (pa_arguments pa), ae_result := result\<rparr>)
                  (put_pending (pa\<lparr>pa_status := ''executed'', pa_approver_id := Some (p_user_id approver),
                     pa_result := result, pa_decided_at := Some now, pa_executed_at := Some now\<rparr>) w''))))"

definition approve_pending ::
  "tool_deps \<Rightarrow> int \<Rightarrow> principal \<Rightarrow> string \<Rightarrow> string \<Rightarrow> tool_context \<Rightarrow> tool_world \<Rightarrow> call_result \<times> tool_world" where
  "approve_pending d now approver pid confirm_hash ctx w =
     (let deny = (\<lambda>tool reason msg hash w.
            (Finished (outcome StatusDenied (case tool of None \<Rightarrow> [] | Some t \<Rightarrow> t) msg),
             append_audit d now ((approval_entry approver ctx pid DDeny reason)\<lparr>ae_tool := tool, ae_action_hash := hash\<rparr>) w))
      in
      case dict_get (db_pending (tw_db w)) pid of
        None \<Rightarrow> deny None ''unknown pending action'' ''That action does not exist.'' None w
      | Some pa \<Rightarrow>
          if pa_status pa \<noteq> ''pending'' then
            deny (Some (pa_tool pa)) (''already '' @ pa_status pa) (''That action is already '' @ pa_status pa @ ''.'') None w
          else if pa_expires_at pa < now then
            deny (Some (pa_tool pa)) ''expired'' ''That action has expired.'' None
              (put_pending (pa\<lparr>pa_status := ''expired'', pa_decided_at := Some now\<rparr>) w)
          else if \<not> has_perm approver (pa_approve_permission pa) then
            deny (Some (pa_tool pa)) (''approver lacks '' @ pa_approve_permission pa)
              (''You need the '' @ pa_approve_permission pa @ '' permission.'') (Some (pa_action_hash pa)) w
          else if p_user_id approver = pa_requester_id pa then
            deny (Some (pa_tool pa)) ''requester and approver must be different people''
              ''The requester cannot approve their own request.'' (Some (pa_action_hash pa)) w
          else if confirm_hash \<noteq> pa_action_hash pa then
            deny (Some (pa_tool pa)) ''confirmation does not match''
              ''That confirmation does not match the pending action; review it again.'' None w
          else
            (case tool_spec_of (pa_tool pa) of
               None \<Rightarrow> rolled_back ''KeyError'' w w
             | Some s \<Rightarrow>
                 (case principal_of (db_users (tw_db w)) (pa_requester_id pa) of
                    Some requester \<Rightarrow>
                      if authorize requester s = None then
                        (case model_validate (td_lax d) (ts_args_model s) (pa_arguments pa) of
                           None \<Rightarrow> rolled_back ''ValidationError'' w w
                         | Some args \<Rightarrow> execute_approved d now approver pa requester args ctx w)
                      else deny (Some (pa_tool pa)) ''requester no longer holds the required permission''
                             ''The requester is no longer authorized for this action.'' (Some (pa_action_hash pa))
                             (put_pending (pa\<lparr>pa_status := ''rejected'', pa_decided_at := Some now\<rparr>) w)
                  | None \<Rightarrow> deny (Some (pa_tool pa)) ''requester no longer holds the required permission''
                             ''The requester is no longer authorized for this action.'' (Some (pa_action_hash pa))
                             (put_pending (pa\<lparr>pa_status := ''rejected'', pa_decided_at := Some now\<rparr>) w))))"

definition reject_pending ::
  "tool_deps \<Rightarrow> int \<Rightarrow> principal \<Rightarrow> string \<Rightarrow> string option \<Rightarrow> tool_context \<Rightarrow> tool_world \<Rightarrow> call_result \<times> tool_world" where
  "reject_pending d now approver pid reason ctx w =
     (case dict_get (db_pending (tw_db w)) pid of
        None \<Rightarrow> (Finished (outcome StatusDenied [] ''Nothing to reject.''), w)
      | Some pa \<Rightarrow>
          if pa_status pa \<noteq> ''pending'' then (Finished (outcome StatusDenied (pa_tool pa) ''Nothing to reject.''), w)
          else if \<not> (has_perm approver (pa_approve_permission pa) \<or> p_user_id approver = pa_requester_id pa)
          then (Finished (outcome StatusDenied (pa_tool pa) ''You may not decide this action.''), w)
          else
            (Finished (outcome StatusDenied (pa_tool pa) ''Action rejected.''),
             append_audit d now
               ((approval_entry approver ctx (pa_id pa) DDeny
                   (case reason of None \<Rightarrow> ''rejected'' | Some r \<Rightarrow> if r = [] then ''rejected'' else r))
                 \<lparr>ae_tool := Some (pa_tool pa), ae_action_hash := Some (pa_action_hash pa)\<rparr>)
               (put_pending (pa\<lparr>pa_status := ''rejected'', pa_approver_id := Some (p_user_id approver),
                  pa_decided_at := Some now\<rparr>) w)))"

end
