(* ===== verification/Parsing.thy ===== *)
theory Parsing
  imports Executor
begin

text \<open>
  \<open>knowledge/parsing.py\<close>: normalization, the block builder with its heading path, front matter and sidecar
  metadata, table rendering and \<open>parse_file\<close>. Parameters: Unicode normalization (\<open>nfkc\<close>), pydantic's reading
  of a date, and what the PDF library extracts of a page (its layout text and its text runs).
\<close>

section \<open>Data\<close>

datatype block_kind = HeadingBlock | ParagraphBlock | ItemBlock

record block =
  bl_text :: string
  bl_kind :: block_kind
  bl_page :: "int option"
  bl_headings :: "string list"
  bl_level :: nat

record document_meta =
  dm_document_id :: string
  dm_title :: string
  dm_department :: string
  dm_classification :: string
  dm_updated_at :: string
  dm_source :: "string option"

record parsed_document =
  pd_meta :: document_meta
  pd_blocks :: "block list"
  pd_mime_type :: string
  pd_source_path :: string
  pd_raw_text :: string

datatype parse_error =
    UnsupportedFileType string
  | MissingFrontMatter
  | UnterminatedFrontMatter
  | MalformedFrontMatter string
  | MissingSidecar string
  | SidecarNotObject string
  | InvalidMetadata string
  | NoTextContent string
  | ReadFailed string

text \<open>\<open>ReadFailed\<close> stands for an exception of reading that is no \<open>ParseError\<close>: of decoding the text, of the PDF library, of
  the JSON parser.\<close>

definition supported_suffixes :: "string list" where
  "supported_suffixes = [''.md'', ''.markdown'', ''.txt'', ''.pdf'']"

definition block_section :: "block \<Rightarrow> string option" where
  "block_section b = (if bl_headings b = [] then None else Some (last (bl_headings b)))"

section \<open>Normalization\<close>

abbreviation newline :: char where "newline \<equiv> CHR 0x0A"

text \<open>\<open>replace("\r\n", "\n").replace("\r", "\n")\<close>.\<close>

fun unify_newlines :: "string \<Rightarrow> string" where
  "unify_newlines [] = []"
| "unify_newlines (c # cs) =
     (if c = CHR 0x0D
      then newline # (case cs of [] \<Rightarrow> []
                     | d # ds \<Rightarrow> if d = newline then unify_newlines ds else unify_newlines (d # ds))
      else c # unify_newlines cs)"

definition control_char :: "char \<Rightarrow> bool" where
  "control_char c \<longleftrightarrow> (let n = (of_char c :: nat) in n \<le> 8 \<or> n = 11 \<or> n = 12 \<or> (14 \<le> n \<and> n \<le> 31) \<or> n = 127)"

definition blank_char :: "char \<Rightarrow> bool" where
  "blank_char c \<longleftrightarrow> c = CHR '' '' \<or> c = CHR 0x09 \<or> c = CHR 0xA0"

text \<open>\<open>_SPACES.sub(" ", line)\<close>: a run of blanks becomes one space.\<close>

fun squeeze :: "bool \<Rightarrow> string \<Rightarrow> string" where
  "squeeze b [] = []"
| "squeeze b (c # cs) =
     (if blank_char c then (if b then squeeze True cs else CHR '' '' # squeeze True cs)
      else c # squeeze False cs)"

definition clean_line :: "string \<Rightarrow> string" where
  "clean_line line = py_strip (squeeze False line)"

definition normalize :: "(string \<Rightarrow> string) \<Rightarrow> string \<Rightarrow> string" where
  "normalize nfkc text =
     py_join [newline]
       (map clean_line (py_split_on newline (filter (\<lambda>c. \<not> control_char c) (unify_newlines (nfkc text)))))"

section \<open>Lines\<close>

text \<open>\<open>_ITEM\<close>: a number with a point or parenthesis, or a bullet, and white space after it.\<close>

definition is_item :: "string \<Rightarrow> bool" where
  "is_item line =
     (let t = dropWhile py_space line; ds = takeWhile is_digit t; r = dropWhile is_digit t in
      (ds \<noteq> [] \<and> (case r of c # d # _ \<Rightarrow> (c = CHR ''.'' \<or> c = CHR '')'') \<and> py_space d | _ \<Rightarrow> False))
      \<or> (case t of c # d # _ \<Rightarrow> (c = CHR ''-'' \<or> c = CHR ''*'' \<or> c = CHR 0x95) \<and> py_space d | _ \<Rightarrow> False))"

text \<open>\<open>_HEADING\<close>: level and title of a Markdown heading.\<close>

definition markdown_heading :: "string \<Rightarrow> (nat \<times> string) option" where
  "markdown_heading line =
     (let t = dropWhile py_space line; hs = takeWhile (\<lambda>c. c = CHR ''#'') t; r = dropWhile (\<lambda>c. c = CHR ''#'') t in
      if 1 \<le> length hs \<and> length hs \<le> 6 \<and> r \<noteq> [] \<and> py_space (hd r) then Some (length hs, py_strip r) else None)"

definition closing_punctuation :: "string" where
  "closing_punctuation = ''.:;,!?''"

text \<open>The longest prefix of the form \<open>\d+(?:\.\d+)*\<close>: its number of points and what follows it.\<close>

function numbering :: "string \<Rightarrow> (nat \<times> string) option" where
  "numbering s =
     (let r = dropWhile is_digit s in
      if s = [] \<or> \<not> is_digit (hd s) then None
      else case r of
             c # d # cs \<Rightarrow>
               if c = CHR ''.'' \<and> is_digit d
               then (case numbering (d # cs) of Some (n, rest) \<Rightarrow> Some (n + 1, rest) | None \<Rightarrow> None)
               else Some (0, r)
           | _ \<Rightarrow> Some (0, r))"
  by pat_completeness auto
termination
proof (relation "measure length", goal_cases)
  case (2 s r c rest d cs)
  then have "length (c # d # cs) \<le> length s"
    using length_dropWhile_le [of is_digit s] by simp
  then show ?case by simp
qed simp

definition numbered_heading :: "string \<Rightarrow> nat option" where
  "numbered_heading text =
     (case numbering text of
        None \<Rightarrow> None
      | Some (points, r) \<Rightarrow>
          (let r1 = (case r of c # cs \<Rightarrow> if c = CHR ''.'' then cs else r | [] \<Rightarrow> []);
               r2 = dropWhile py_space r1
           in if r1 \<noteq> [] \<and> py_space (hd r1) \<and> r2 \<noteq> [] \<and> is_upper_az (hd r2)
                 \<and> list_all (\<lambda>c. c \<notin> set closing_punctuation) (tl r2)
              then Some (points + 1) else None))"

text \<open>\<open>re.findall(r"[A-Za-z][A-Za-z'-]*", text)\<close>.\<close>

definition az_letter :: "char \<Rightarrow> bool" where
  "az_letter c \<longleftrightarrow> is_lower_az c \<or> is_upper_az c"

fun letter_words :: "string \<Rightarrow> string \<Rightarrow> string list" where
  "letter_words w [] = (if w = [] then [] else [w])"
| "letter_words w (c # cs) =
     (if az_letter c \<or> (w \<noteq> [] \<and> (c = CHR 0x27 \<or> c = CHR ''-'')) then letter_words (w @ [c]) cs
      else (if w = [] then [] else [w]) @ letter_words [] cs)"

definition layout_heading_level :: "string \<Rightarrow> nat" where
  "layout_heading_level line =
     (let text = py_strip line in
      if text = [] \<or> 70 < length text \<or> last text \<in> set closing_punctuation then 0
      else case numbered_heading text of
             Some n \<Rightarrow> n
           | None \<Rightarrow>
               (let words = filter (\<lambda>w. 3 < length w) (letter_words [] text) in
                if 1 \<le> length (py_split_ws text) \<and> length (py_split_ws text) \<le> 8 \<and> words \<noteq> []
                   \<and> list_all (\<lambda>w. is_upper_az (hd w)) words
                then 1 else 0))"

section \<open>The block builder\<close>

datatype heading_mode = MarkdownMode | LayoutMode

record builder =
  bb_mode :: heading_mode
  bb_blocks :: "block list"
  bb_path :: "(nat \<times> string) list"
  bb_current :: "string list"
  bb_kind :: block_kind
  bb_page :: "int option"

definition new_builder :: "heading_mode \<Rightarrow> builder" where
  "new_builder mode =
     \<lparr>bb_mode = mode, bb_blocks = [], bb_path = [], bb_current = [], bb_kind = ParagraphBlock, bb_page = None\<rparr>"

definition headings_of :: "builder \<Rightarrow> string list" where
  "headings_of b = map snd (bb_path b)"

text \<open>\<open>while self.path and self.path[-1][0] >= level: self.path.pop()\<close>.\<close>

definition pop_path :: "nat \<Rightarrow> (nat \<times> string) list \<Rightarrow> (nat \<times> string) list" where
  "pop_path level path = rev (dropWhile (\<lambda>(l, _). level \<le> l) (rev path))"

definition add_heading :: "nat \<Rightarrow> string \<Rightarrow> builder \<Rightarrow> builder" where
  "add_heading level title b =
     (let path = pop_path level (bb_path b) @ [(level, title)] in
      b\<lparr>bb_path := path,
        bb_blocks := bb_blocks b @ [\<lparr>bl_text = title, bl_kind = HeadingBlock, bl_page = bb_page b,
                                     bl_headings = map snd path, bl_level = level\<rparr>]\<rparr>)"

definition flush :: "builder \<Rightarrow> builder" where
  "flush b =
     (let text = py_strip (py_join '' '' (bb_current b));
          level = layout_heading_level text;
          b' = (if text = [] then b
                else if bb_mode b = LayoutMode \<and> length (bb_current b) = 1 \<and> level \<noteq> 0
                then add_heading level text b
                else b\<lparr>bb_blocks := bb_blocks b @ [\<lparr>bl_text = text, bl_kind = bb_kind b, bl_page = bb_page b,
                                                   bl_headings = headings_of b, bl_level = 0\<rparr>]\<rparr>)
      in b'\<lparr>bb_current := []\<rparr>)"

definition feed_line :: "string \<Rightarrow> builder \<Rightarrow> builder" where
  "feed_line line b =
     (if py_strip line = [] then flush b
      else
        case (if bb_mode b = MarkdownMode then markdown_heading line else None) of
          Some (level, title) \<Rightarrow> add_heading level title (flush b)
        | None \<Rightarrow>
            if is_item line then (flush b)\<lparr>bb_kind := ItemBlock, bb_current := [py_strip line]\<rparr>
            else
              (let b' = (if bb_current b = [] then b\<lparr>bb_kind := ParagraphBlock\<rparr> else b)
               in b'\<lparr>bb_current := bb_current b' @ [py_strip line]\<rparr>))"

definition feed :: "string list \<Rightarrow> int option \<Rightarrow> builder \<Rightarrow> builder" where
  "feed lines page b = flush (fold feed_line lines (b\<lparr>bb_page := page\<rparr>))"

definition blocks_from_lines :: "string list \<Rightarrow> block list" where
  "blocks_from_lines lines = bb_blocks (feed lines None (new_builder MarkdownMode))"

section \<open>Metadata\<close>

text \<open>The text before and from the first occurrence of \<open>p\<close> (\<open>text.find(p)\<close>).\<close>

fun break_sub :: "string \<Rightarrow> string \<Rightarrow> (string \<times> string) option" where
  "break_sub p [] = (if p = [] then Some ([], []) else None)"
| "break_sub p (c # cs) =
     (if py_startswith (c # cs) p then Some ([], c # cs)
      else map_option (\<lambda>(a, b). (c # a, b)) (break_sub p cs))"

text \<open>\<open>str.splitlines()\<close>: the line boundaries of the repertoire; a final one ends the last line.\<close>

definition line_break :: "char \<Rightarrow> bool" where
  "line_break c \<longleftrightarrow> (let n = (of_char c :: nat) in (10 \<le> n \<and> n \<le> 13) \<or> (28 \<le> n \<and> n \<le> 30))"

fun split_lines_aux :: "string \<Rightarrow> string \<Rightarrow> string list" where
  "split_lines_aux w [] = (if w = [] then [] else [w])"
| "split_lines_aux w (c # cs) =
     (if line_break c
      then w # (case cs of [] \<Rightarrow> []
               | d # ds \<Rightarrow> if c = CHR 0x0D \<and> d = newline then split_lines_aux [] ds else split_lines_aux [] (d # ds))
      else split_lines_aux (w @ [c]) cs)"

definition py_splitlines :: "string \<Rightarrow> string list" where
  "py_splitlines = split_lines_aux []"

text \<open>\<open>line.partition(":")\<close>: \<open>None\<close> if the separator is missing.\<close>

definition partition_colon :: "string \<Rightarrow> (string \<times> string) option" where
  "partition_colon line =
     (if CHR '':'' \<in> set line
      then Some (takeWhile (\<lambda>c. c \<noteq> CHR '':'') line, tl (dropWhile (\<lambda>c. c \<noteq> CHR '':'') line)) else None)"

definition strip_quotes :: "string \<Rightarrow> string" where
  "strip_quotes s = rev (dropWhile (\<lambda>c. c = CHR 0x22) (rev (dropWhile (\<lambda>c. c = CHR 0x22) s)))"

type_synonym raw_meta = "(string, string) dict"

fun front_matter_lines :: "string list \<Rightarrow> raw_meta \<Rightarrow> parse_error + raw_meta" where
  "front_matter_lines [] m = Inr m"
| "front_matter_lines (l # ls) m =
     (if py_strip l = [] \<or> py_startswith (py_lstrip l) ''#'' then front_matter_lines ls m
      else case partition_colon l of
             None \<Rightarrow> Inl (MalformedFrontMatter l)
           | Some (k, v) \<Rightarrow> front_matter_lines ls (dict_put (py_strip k) (strip_quotes (py_strip v)) m))"

definition split_front_matter :: "string \<Rightarrow> parse_error + raw_meta \<times> string" where
  "split_front_matter text =
     (if \<not> py_startswith text (''---'' @ [newline]) then Inl MissingFrontMatter
      else case break_sub (newline # ''---'') (drop 4 text) of
             None \<Rightarrow> Inl UnterminatedFrontMatter
           | Some (front, rest) \<Rightarrow>
               (case front_matter_lines (py_splitlines front) [] of
                  Inl e \<Rightarrow> Inl e | Inr m \<Rightarrow> Inr (m, drop 4 rest)))"

text \<open>\<open>str(v)\<close> of a JSON value: a text as it is, the rest as its \<open>repr\<close>.\<close>

fun json_repr :: "json \<Rightarrow> string" and json_reprs :: "json list \<Rightarrow> string list"
  and field_reprs :: "(string \<times> json) list \<Rightarrow> string list" where
  "json_repr JNull = ''None''"
| "json_repr (JBool b) = (if b then ''True'' else ''False'')"
| "json_repr (JInt i) = int_str i"
| "json_repr (JFloat s) = s"
| "json_repr (JStr s) = py_repr s"
| "json_repr (JList xs) = ''['' @ py_join '', '' (json_reprs xs) @ '']''"
| "json_repr (JObj kvs) = ''{'' @ py_join '', '' (field_reprs kvs) @ ''}''"
| "json_reprs [] = []"
| "json_reprs (x # xs) = json_repr x # json_reprs xs"
| "field_reprs [] = []"
| "field_reprs ((k, v) # kvs) = (py_repr k @ '': '' @ json_repr v) # field_reprs kvs"

definition json_str :: "json \<Rightarrow> string" where
  "json_str v = (case v of JStr s \<Rightarrow> s | _ \<Rightarrow> json_repr v)"

datatype sidecar_file = NoSidecar | NotJson | SidecarJson json

definition sidecar :: "string \<Rightarrow> sidecar_file \<Rightarrow> parse_error + raw_meta" where
  "sidecar name content =
     (case content of
        NoSidecar \<Rightarrow> Inl (MissingSidecar name)
      | NotJson \<Rightarrow> Inl (ReadFailed ''JSONDecodeError'')
      | SidecarJson (JObj kvs) \<Rightarrow> Inr (map (\<lambda>(k, v). (k, json_str v)) kvs)
      | SidecarJson _ \<Rightarrow> Inl (SidecarNotObject name))"

definition document_id_format :: "string \<Rightarrow> bool" where
  "document_id_format s \<longleftrightarrow>
     (let body = drop 3 s; letters = takeWhile is_upper_az body; r = dropWhile is_upper_az body in
      take 3 s = ''KB-'' \<and> letters \<noteq> [] \<and> take 1 r = ''-'' \<and> length r = 4 \<and> list_all is_digit (drop 1 r))"

definition classifications :: "string list" where
  "classifications = [''public'', ''internal'', ''confidential'']"

text \<open>\<open>DocumentMeta.model_validate\<close> of a dictionary of texts: unknown fields are ignored.\<close>

definition validate_meta :: "(string \<Rightarrow> string option) \<Rightarrow> raw_meta \<Rightarrow> document_meta option" where
  "validate_meta date_of m =
     (case (dict_get m ''document_id'', dict_get m ''title'', dict_get m ''department'',
            dict_get m ''classification'', dict_get m ''updated_at'') of
        (Some i, Some t, Some d, Some c, Some u) \<Rightarrow>
          (case date_of u of
             None \<Rightarrow> None
           | Some day \<Rightarrow>
               if document_id_format i \<and> 1 \<le> length t \<and> length t \<le> 300 \<and> department_format d \<and> c \<in> set classifications
               then Some \<lparr>dm_document_id = i, dm_title = t, dm_department = d, dm_classification = c,
                          dm_updated_at = day, dm_source = dict_get m ''source''\<rparr>
               else None)
      | _ \<Rightarrow> None)"

section \<open>PDF tables\<close>

type_synonym text_run = "rat \<times> string"

definition MIN_COLUMNS :: nat where "MIN_COLUMNS = 3"
definition X_TOLERANCE :: rat where "X_TOLERANCE = 3"

text \<open>Text runs of a page as \<open>(x, y, text)\<close>, in extraction order. Lines are keyed by the baseline rounded to
  one decimal; a line is sorted by position, then text.\<close>

definition baseline :: "rat \<Rightarrow> int" where
  "baseline y = round_even (y * 10)"

definition run_order :: "text_run list \<Rightarrow> text_run list" where
  "run_order rs = sort_key fst (sort_key (\<lambda>r. map py_ord (snd r)) rs)"

definition page_lines :: "(rat \<times> rat \<times> string) list \<Rightarrow> text_run list list" where
  "page_lines runs =
     (let rs = filter (\<lambda>(x, y, t). py_strip t \<noteq> []) runs;
          ys = sort (remdups (map (\<lambda>(x, y, t). baseline y) rs))
      in map (\<lambda>b. run_order (map (\<lambda>(x, y, t). (x, py_strip t)) (filter (\<lambda>(x, y, t). baseline y = b) rs))) (rev ys))"

definition same_columns :: "text_run list \<Rightarrow> text_run list \<Rightarrow> bool" where
  "same_columns a b \<longleftrightarrow> length a = length b \<and> list_all (\<lambda>(p, q). \<bar>fst p - fst q\<bar> \<le> X_TOLERANCE) (zip a b)"

definition squash :: "(string \<Rightarrow> string) \<Rightarrow> string \<Rightarrow> string" where
  "squash nfkc text = filter (\<lambda>c. \<not> py_space c) (nfkc text)"

definition render_row :: "string list \<Rightarrow> string list \<Rightarrow> string" where
  "render_row names cells =
     hd cells @ '': '' @ py_join ''; '' (map (\<lambda>(n, v). n @ '' = '' @ v) (zip (tl names) (tl cells))) @ ''.''"

function table_rows :: "(string \<Rightarrow> string) \<Rightarrow> text_run list list \<Rightarrow> (string, string option) dict \<Rightarrow> (string, string option) dict" where
  "table_rows nfkc [] rendered = rendered"
| "table_rows nfkc (header # rest) rendered =
     (let rows = (if MIN_COLUMNS \<le> length header then takeWhile (same_columns header) rest else []);
          names = map snd header;
          r0 = dict_put (squash nfkc (concat names)) None rendered;
          r1 = fold (\<lambda>row r. dict_put (squash nfkc (concat (map snd row))) (Some (render_row names (map snd row))) r) rows r0
      in if rows = [] then table_rows nfkc rest rendered
         else table_rows nfkc (drop (length rows) rest) r1)"
  by pat_completeness auto
termination
  by (relation "measure (\<lambda>(_, ls, _). length ls)") auto

definition render_tables :: "(string \<Rightarrow> string) \<Rightarrow> string list \<Rightarrow> (string, string option) dict \<Rightarrow> string list" where
  "render_tables nfkc lines rows =
     (if rows = [] then lines
      else concat (map (\<lambda>line.
             case (if squash nfkc line = [] then None else dict_get rows (squash nfkc line)) of
               None \<Rightarrow> [line]
             | Some None \<Rightarrow> []
             | Some (Some text) \<Rightarrow> [[], text, []]) lines))"

section \<open>Files\<close>

text \<open>What a path holds: its decoded text, its PDF pages (layout text and runs), its sidecar, and the exception that
  decoding it or opening it as a PDF raises, if it does.\<close>

record source_file =
  sf_path :: string
  sf_name :: string
  sf_suffix :: string
  sf_text :: string
  sf_pages :: "(string \<times> (rat \<times> rat \<times> string) list) list"
  sf_sidecar :: sidecar_file
  sf_broken :: "string option"

definition page_texts :: "(string \<Rightarrow> string) \<Rightarrow> (string \<times> (rat \<times> rat \<times> string) list) list \<Rightarrow> string list list" where
  "page_texts nfkc pages =
     map (\<lambda>(layout, runs). render_tables nfkc (py_split_on newline (normalize nfkc layout))
                             (table_rows nfkc (page_lines runs) [])) pages"

fun feed_pages :: "int \<Rightarrow> string list list \<Rightarrow> builder \<Rightarrow> builder" where
  "feed_pages n [] b = b"
| "feed_pages n (lines # pages) b = feed_pages (n + 1) pages (feed lines (Some n) b)"

definition read_markdown :: "(string \<Rightarrow> string) \<Rightarrow> source_file \<Rightarrow> parse_error + raw_meta \<times> block list \<times> string \<times> string" where
  "read_markdown nfkc f =
     (case sf_broken f of
        Some x \<Rightarrow> Inl (ReadFailed x)
      | None \<Rightarrow>
          (case split_front_matter (normalize nfkc (sf_text f)) of
             Inl e \<Rightarrow> Inl e
           | Inr (m, body) \<Rightarrow> Inr (m, blocks_from_lines (py_split_on newline body), ''text/markdown'', body)))"

definition read_plain :: "(string \<Rightarrow> string) \<Rightarrow> source_file \<Rightarrow> parse_error + raw_meta \<times> block list \<times> string \<times> string" where
  "read_plain nfkc f =
     (case sidecar (sf_name f) (sf_sidecar f) of
        Inl e \<Rightarrow> Inl e
      | Inr m \<Rightarrow>
          (case sf_broken f of
             Some x \<Rightarrow> Inl (ReadFailed x)
           | None \<Rightarrow>
               (let raw = normalize nfkc (sf_text f)
                in Inr (m, blocks_from_lines (py_split_on newline raw), ''text/plain'', raw))))"

definition read_pdf :: "(string \<Rightarrow> string) \<Rightarrow> source_file \<Rightarrow> parse_error + raw_meta \<times> block list \<times> string \<times> string" where
  "read_pdf nfkc f =
     (case sidecar (sf_name f) (sf_sidecar f) of
        Inl e \<Rightarrow> Inl e
      | Inr m \<Rightarrow>
          (case sf_broken f of
             Some x \<Rightarrow> Inl (ReadFailed x)
           | None \<Rightarrow>
               (let pages = page_texts nfkc (sf_pages f)
                in Inr (m, bb_blocks (feed_pages 1 pages (new_builder LayoutMode)), ''application/pdf'',
                        py_join [newline, newline] (map (py_join [newline]) pages)))))"

definition read_source :: "(string \<Rightarrow> string) \<Rightarrow> source_file \<Rightarrow> parse_error + raw_meta \<times> block list \<times> string \<times> string" where
  "read_source nfkc f =
     (if sf_suffix f \<notin> set supported_suffixes then Inl (UnsupportedFileType (sf_suffix f))
      else if sf_suffix f \<in> {''.md'', ''.markdown''} then read_markdown nfkc f
      else if sf_suffix f = ''.txt'' then read_plain nfkc f
      else read_pdf nfkc f)"

definition parse_file :: "(string \<Rightarrow> string) \<Rightarrow> (string \<Rightarrow> string option) \<Rightarrow> source_file \<Rightarrow> parse_error + parsed_document" where
  "parse_file nfkc date_of f =
     (case read_source nfkc f of
        Inl e \<Rightarrow> Inl e
      | Inr (raw_meta, blocks, mime, raw) \<Rightarrow>
          (case validate_meta date_of raw_meta of
             None \<Rightarrow> Inl (InvalidMetadata (sf_name f))
           | Some m \<Rightarrow>
               if list_all (\<lambda>b. bl_kind b = HeadingBlock) blocks then Inl (NoTextContent (sf_name f))
               else Inr \<lparr>pd_meta = m, pd_blocks = blocks, pd_mime_type = mime, pd_source_path = sf_path f,
                         pd_raw_text = raw\<rparr>))"

end
