(* ===== verification/Upload.thy ===== *)
theory Upload
  imports Parsing
begin

text \<open>
  \<open>knowledge/upload.py\<close> and \<open>api/documents.py\<close>: which department and classification an uploader may write, the
  checks on the file, the document key, the stored front matter or sidecar, and the endpoint with its audit
  records. The date and the job identifier are parameters; an uploaded file is its name, its size and its
  bytes decoded as UTF-8 with errors ignored.
\<close>

section \<open>Permissions\<close>

definition MAX_UPLOAD_BYTES :: int where "MAX_UPLOAD_BYTES = 5 * 1024 * 1024"
definition PUBLISH_PERMISSION :: string where "PUBLISH_PERMISSION = ''kb:publish:public''"

text \<open>\<open>WRITE_PERMISSION.match\<close>: the end anchor also matches before a final newline.\<close>

definition write_department :: "string \<Rightarrow> string option" where
  "write_department perm =
     (let d = drop 9 perm in
      if take 9 perm \<noteq> ''kb:write:'' then None
      else if department_format d then Some d
      else if d \<noteq> [] \<and> last d = newline \<and> department_format (butlast d) then Some (butlast d)
      else None)"

definition writable_departments :: "principal \<Rightarrow> string list" where
  "writable_departments p = remdups (somes (map write_department (p_permissions p)))"

definition choose_classification :: "principal \<Rightarrow> string \<Rightarrow> string option \<Rightarrow> string + string" where
  "choose_classification p department requested =
     (if requested = None \<or> requested = Some ''internal'' then Inr ''internal''
      else if requested = Some ''confidential'' then
        (if \<not> has_perm p (department @ '':confidential'')
         then Inl (''marking a document confidential requires the '' @ department @ '':confidential permission'')
         else Inr ''confidential'')
      else if requested = Some ''public'' then
        (if \<not> has_perm p PUBLISH_PERMISSION
         then Inl ''publishing a company-wide (public) document requires a publish permission''
         else Inr ''public'')
      else Inl (''unknown classification '' @ py_repr (the requested)))"

section \<open>Files\<close>

text \<open>\<open>Path(name)\<close>: its last component, and that component's suffix and stem.\<close>

definition path_name :: "string \<Rightarrow> string" where
  "path_name p = (case filter (\<lambda>c. c \<noteq> [] \<and> c \<noteq> ''.'') (py_split_on CHR ''/'' p) of [] \<Rightarrow> [] | cs \<Rightarrow> last cs)"

definition path_suffix :: "string \<Rightarrow> string" where
  "path_suffix p =
     (let n = path_name p; ext = rev (takeWhile (\<lambda>c. c \<noteq> CHR ''.'') (rev n)) in
      if CHR ''.'' \<in> set n \<and> ext \<noteq> [] \<and> length ext + 1 < length n then CHR ''.'' # ext else [])"

definition path_stem :: "string \<Rightarrow> string" where
  "path_stem p = take (length (path_name p) - length (path_suffix p)) (path_name p)"

definition safe_suffix :: "string \<Rightarrow> string + string" where
  "safe_suffix filename =
     (let sfx = py_lower (path_suffix filename) in
      if sfx \<notin> set supported_suffixes
      then Inl (''unsupported file type '' @ (if sfx = [] then ''(none)'' else sfx)) else Inr sfx)"

text \<open>\<open>SECRET_PATTERNS\<close>, each at one position of the text; \<open>b\<close>: a word boundary may start there.\<close>

definition key_char :: "char \<Rightarrow> bool" where
  "key_char c \<longleftrightarrow> az_letter c \<or> is_digit c \<or> c = CHR ''_'' \<or> c = CHR ''-''"

definition token_prefixes :: "string list" where
  "token_prefixes = [''sk-ant'', ''sk-'', ''nvapi-'', ''ghp_'', ''xoxb-'']"

definition token_at :: "string \<Rightarrow> bool" where
  "token_at s = list_ex (\<lambda>p. py_startswith s p \<and> 16 \<le> length (takeWhile key_char (drop (length p) s))) token_prefixes"

definition private_key_at :: "string \<Rightarrow> bool" where
  "private_key_at s \<longleftrightarrow> py_startswith s ''-----BEGIN ''
     \<and> (let r = drop 11 s in
        list_ex (\<lambda>k. py_startswith (drop k r) ''PRIVATE KEY-----'')
          [0 ..< length (takeWhile (\<lambda>c. is_upper_az c \<or> c = CHR '' '') r) + 1])"

definition secret_words :: "string list" where
  "secret_words = [''password'', ''passwd'', ''secret'', ''api_key'', ''api-key'', ''apikey'']"

definition assignment_at :: "string \<Rightarrow> bool" where
  "assignment_at s =
     list_ex (\<lambda>w. py_startswith (map (\<lambda>c. if is_upper_az c then lower_char c else c) s) w
        \<and> (let r = dropWhile py_space (drop (length w) s) in
           r \<noteq> [] \<and> (hd r = CHR '':'' \<or> hd r = CHR ''='')
           \<and> 6 \<le> length (takeWhile (\<lambda>c. \<not> py_space c) (dropWhile py_space (tl r))))) secret_words"

definition aws_key_at :: "string \<Rightarrow> bool" where
  "aws_key_at s \<longleftrightarrow> py_startswith s ''AKIA'' \<and> 20 \<le> length s
     \<and> list_all (\<lambda>c. is_digit c \<or> is_upper_az c) (take 16 (drop 4 s))
     \<and> (length s = 20 \<or> \<not> word_char (s ! 20))"

fun has_secret :: "bool \<Rightarrow> string \<Rightarrow> bool" where
  "has_secret b [] = False"
| "has_secret b (c # cs) =
     (private_key_at (c # cs) \<or> (b \<and> (token_at (c # cs) \<or> assignment_at (c # cs) \<or> aws_key_at (c # cs)))
      \<or> has_secret (\<not> word_char c) cs)"

definition scan_for_secrets :: "string \<Rightarrow> string option" where
  "scan_for_secrets text =
     (if has_secret True text then Some ''the file appears to contain a credential; remove it before uploading'' else None)"

text \<open>\<open>FRONT_MATTER\<close>: the group and what follows the match.\<close>

definition front_matter :: "string \<Rightarrow> (string \<times> string) option" where
  "front_matter text =
     (if py_startswith text (''---'' @ [newline])
      then map_option (\<lambda>(g, r). (g, drop 5 r)) (break_sub (newline # ''---'' @ [newline]) (drop 4 text)) else None)"

definition claimed_metadata :: "string \<Rightarrow> raw_meta" where
  "claimed_metadata text =
     (case front_matter text of
        None \<Rightarrow> []
      | Some (g, _) \<Rightarrow>
          fold (\<lambda>line m. case partition_colon line of
                            None \<Rightarrow> m
                          | Some (k, v) \<Rightarrow> dict_put (py_strip k) (strip_quotes (py_strip v)) m) (py_splitlines g) [])"

definition check_claims :: "raw_meta \<Rightarrow> string \<Rightarrow> string \<Rightarrow> string option" where
  "check_claims claims department classification =
     (case dict_get claims ''department'' of
        Some d \<Rightarrow>
          if d \<noteq> [] \<and> d \<noteq> department
          then Some (''the file declares department '' @ py_repr d @ '' but you may only write to '' @ py_repr department)
          else (case dict_get claims ''classification'' of
                  Some c \<Rightarrow>
                    if c \<noteq> [] \<and> c \<noteq> classification
                    then Some (''the file declares classification '' @ py_repr c @ ''; it is being stored as '' @ py_repr classification
                           @ ''. Remove the field or request that classification explicitly.'') else None
                | None \<Rightarrow> None)
      | None \<Rightarrow>
          (case dict_get claims ''classification'' of
             Some c \<Rightarrow>
               if c \<noteq> [] \<and> c \<noteq> classification
               then Some (''the file declares classification '' @ py_repr c @ ''; it is being stored as '' @ py_repr classification
                      @ ''. Remove the field or request that classification explicitly.'') else None
           | None \<Rightarrow> None))"

section \<open>Keys and stored metadata\<close>

text \<open>\<open>next_doc_key\<close> queries the documents its session may see.\<close>

definition key_prefix :: "string \<Rightarrow> string" where
  "key_prefix department = ''KB-'' @ py_upper (take 3 department)"

definition key_number :: "string \<Rightarrow> string" where
  "key_number k = rev (takeWhile (\<lambda>c. c \<noteq> CHR ''-'') (rev k))"

definition next_doc_key :: "db_session \<Rightarrow> document list \<Rightarrow> string \<Rightarrow> string" where
  "next_doc_key ses docs department =
     (let pre = key_prefix department;
          used = filter (\<lambda>k. sql_like (pre @ ''-%'') k) (map d_doc_key (filter (document_visible ses) docs));
          numbers = map digits_val (filter (\<lambda>n. n \<noteq> [] \<and> list_all is_digit n) (map key_number used));
          top = (case numbers of [] \<Rightarrow> 100 | n # ns \<Rightarrow> foldl max n ns)
      in pre @ ''-'' @ pad 3 (top + 1))"

record upload_plan =
  up_doc_key :: string
  up_department :: string
  up_classification :: string
  up_title :: string
  up_path :: string

definition strip_front_matter :: "string \<Rightarrow> string" where
  "strip_front_matter text = (case front_matter text of None \<Rightarrow> text | Some (_, rest) \<Rightarrow> rest)"

definition render_markdown :: "string \<Rightarrow> upload_plan \<Rightarrow> string \<Rightarrow> principal \<Rightarrow> string" where
  "render_markdown today plan body p =
     ''---'' @ [newline]
     @ ''document_id: '' @ up_doc_key plan @ [newline]
     @ ''title: '' @ up_title plan @ [newline]
     @ ''department: '' @ up_department plan @ [newline]
     @ ''classification: '' @ up_classification plan @ [newline]
     @ ''updated_at: '' @ today @ [newline]
     @ ''source: uploaded by '' @ p_user_id p @ [newline]
     @ ''---'' @ [newline, newline] @ py_lstrip (strip_front_matter body) @ [newline]"

definition sidecar_metadata :: "string \<Rightarrow> upload_plan \<Rightarrow> principal \<Rightarrow> json" where
  "sidecar_metadata today plan p =
     JObj [(''document_id'', JStr (up_doc_key plan)), (''title'', JStr (up_title plan)),
           (''department'', JStr (up_department plan)), (''classification'', JStr (up_classification plan)),
           (''updated_at'', JStr today), (''source'', JStr (''uploaded by '' @ p_user_id p))]"

datatype upload_storage = MarkdownUpload | SidecarUpload

definition upload_kind :: "string \<Rightarrow> upload_storage" where
  "upload_kind sfx = (if sfx = ''.md'' \<or> sfx = ''.markdown'' then MarkdownUpload else SidecarUpload)"

section \<open>The endpoint\<close>

record upload_file =
  uf_filename :: "string option"
  uf_size :: int
  uf_text :: string

record upload_world =
  uw_audit :: audit_log
  uw_documents :: "document list"
  uw_files :: "(string, string \<times> json option) dict"
  uw_jobs :: "(string \<times> string) list"

datatype upload_result = UploadDenied nat string string | UploadAccepted upload_plan string

definition upload_denied ::
  "(string \<Rightarrow> string) \<Rightarrow> int \<Rightarrow> principal \<Rightarrow> string \<Rightarrow> upload_file \<Rightarrow> string option \<Rightarrow> nat \<Rightarrow> string \<Rightarrow> string \<Rightarrow> upload_world
   \<Rightarrow> upload_result \<times> upload_world" where
  "upload_denied sha now p request_id f classification status code message w =
     (UploadDenied status code message,
      w\<lparr>uw_audit := audit_append sha now
          ((entry_of p request_id ''upload'' DDeny)
             \<lparr>ae_reason := Some message,
              ae_arguments := JObj [(''filename'', opt_str (uf_filename f)), (''classification'', opt_str classification)]\<rparr>)
          (uw_audit w)\<rparr>)"

definition chosen_title :: "string option \<Rightarrow> string option \<Rightarrow> string \<Rightarrow> string" where
  "chosen_title title filename doc_key =
     take 200 (case title of
        Some t \<Rightarrow> if t \<noteq> [] then t
                  else path_stem (case filename of Some n \<Rightarrow> if n = [] then doc_key else n | None \<Rightarrow> doc_key)
      | None \<Rightarrow> path_stem (case filename of Some n \<Rightarrow> if n = [] then doc_key else n | None \<Rightarrow> doc_key))"

definition store_upload ::
  "(string \<Rightarrow> string) \<Rightarrow> int \<Rightarrow> string \<Rightarrow> string \<Rightarrow> principal \<Rightarrow> string \<Rightarrow> upload_file \<Rightarrow> string \<Rightarrow> upload_plan \<Rightarrow> upload_world
   \<Rightarrow> upload_result \<times> upload_world" where
  "store_upload sha now today job p request_id f sfx plan w =
     (let stored = (case upload_kind sfx of
                      MarkdownUpload \<Rightarrow> (render_markdown today plan (uf_text f) p, None)
                    | SidecarUpload \<Rightarrow> (uf_text f, Some (sidecar_metadata today plan p)))
      in (UploadAccepted plan job,
          w\<lparr>uw_files := dict_put (up_path plan) stored (uw_files w),
            uw_jobs := uw_jobs w @ [(job, up_path plan)],
            uw_audit := audit_append sha now
              ((entry_of p request_id ''upload'' DAllow)
                 \<lparr>ae_reason := Some (''queued for indexing as '' @ up_doc_key plan),
                  ae_arguments := JObj [(''filename'', opt_str (uf_filename f)), (''department'', JStr (up_department plan)),
                     (''classification'', JStr (up_classification plan)), (''bytes'', JInt (uf_size f))],
                  ae_result := JObj [(''doc_key'', JStr (up_doc_key plan)), (''job_id'', JStr job)]\<rparr>)
              (uw_audit w)\<rparr>))"

definition upload_document ::
  "(string \<Rightarrow> string) \<Rightarrow> int \<Rightarrow> string \<Rightarrow> string \<Rightarrow> string \<Rightarrow> principal \<Rightarrow> string \<Rightarrow> upload_file \<Rightarrow> string option \<Rightarrow> string option
   \<Rightarrow> upload_world \<Rightarrow> upload_result \<times> upload_world" where
  "upload_document sha now today job folder p request_id f title classification w =
     (let deny = (\<lambda>status code message. upload_denied sha now p request_id f classification status code message w);
          name = (case uf_filename f of None \<Rightarrow> [] | Some n \<Rightarrow> n)
      in
      case writable_departments p of
        [] \<Rightarrow> deny 403 ''forbidden'' ''you have no kb:write permission for any department''
      | _ # _ # _ \<Rightarrow> deny 400 ''ambiguous_department'' ''your permissions span several departments''
      | [department] \<Rightarrow>
          (let rejected = (if classification \<noteq> None \<and> classification \<noteq> Some [] then 403 else 400) in
           case safe_suffix name of
             Inl e \<Rightarrow> deny rejected ''upload_rejected'' e
           | Inr sfx \<Rightarrow>
               (case choose_classification p department classification of
                  Inl e \<Rightarrow> deny rejected ''upload_rejected'' e
                | Inr chosen \<Rightarrow>
                    if MAX_UPLOAD_BYTES < uf_size f then
                      deny 413 ''too_large'' (''files are limited to '' @ int_str MAX_UPLOAD_BYTES @ '' bytes'')
                    else if uf_size f = 0 then deny 400 ''empty_file'' ''the uploaded file is empty''
                    else
                      (let text = (if sfx \<noteq> ''.pdf'' then uf_text f else []);
                           problem = (if text = [] then None
                                      else case scan_for_secrets text of
                                             Some e \<Rightarrow> Some e
                                           | None \<Rightarrow> check_claims (claimed_metadata text) department chosen)
                       in case problem of
                            Some e \<Rightarrow> deny 400 ''upload_rejected'' e
                          | None \<Rightarrow>
                              (let key = next_doc_key fresh_session (uw_documents w) department in
                               store_upload sha now today job p request_id f sfx
                                 \<lparr>up_doc_key = key, up_department = department, up_classification = chosen,
                                  up_title = chosen_title title (uf_filename f) key,
                                  up_path = folder @ ''/uploads/'' @ key @ sfx\<rparr> w)))))"

end
