(* ===== verification/Chunking.thy ===== *)
theory Chunking
  imports Parsing
begin

text \<open>
  \<open>knowledge/chunking.py\<close>: units, greedy packing into parents and children, locators and headers, and the
  production chunker, with the facts that packing loses nothing, never crosses a section and keeps to its
  limit. Indices of chunks and parents are naturals, token limits integers as in the settings.
\<close>

section \<open>Data\<close>

record chunking_config =
  cc_target_tokens :: int
  cc_max_tokens :: int
  cc_split_tokens :: int

definition default_chunking :: chunking_config where
  "default_chunking = \<lparr>cc_target_tokens = 64, cc_max_tokens = 256, cc_split_tokens = 160\<rparr>"

definition chunker_id :: "chunking_config \<Rightarrow> string" where
  "chunker_id c = ''parent_child/v2:'' @ int_str (cc_target_tokens c) @ ''/'' @ int_str (cc_max_tokens c) @ ''/''
     @ int_str (cc_split_tokens c)"

record text_unit =
  un_text :: string
  un_ordinal :: nat
  un_page :: "int option"
  un_headings :: "string list"

record chunk =
  ch_index :: nat
  ch_parent_index :: nat
  ch_text :: string
  ch_embed_text :: string
  ch_context :: string
  ch_locator :: string
  ch_section :: "string option"
  ch_headings :: "string list"
  ch_page_start :: "int option"
  ch_token_count :: nat

section \<open>Units\<close>

text \<open>\<open>_SENTENCE.split\<close>: white space after a sentence end and before a sentence start separates.\<close>

definition sentence_end :: "char \<Rightarrow> bool" where
  "sentence_end c \<longleftrightarrow> c \<in> set ''.!?''"

definition sentence_start :: "char \<Rightarrow> bool" where
  "sentence_start c \<longleftrightarrow> is_upper_az c \<or> is_digit c \<or> c = CHR 0x22 \<or> c = CHR 0x27 \<or> c = CHR ''(''"

function sentences :: "string \<Rightarrow> string \<Rightarrow> string list" where
  "sentences w [] = [w]"
| "sentences w (c # cs) =
     (if py_space c \<and> w \<noteq> [] \<and> sentence_end (last w) \<and> dropWhile py_space cs \<noteq> [] \<and> sentence_start (hd (dropWhile py_space cs))
      then w # sentences [] (dropWhile py_space cs)
      else sentences (w @ [c]) cs)"
  by pat_completeness auto
termination
  by (relation "measure (\<lambda>(_, s). length s)") (auto simp: less_Suc_eq_le length_dropWhile_le)

fun pieces :: "int \<Rightarrow> string list \<Rightarrow> string list \<Rightarrow> string list list" where
  "pieces target piece [] = (if piece = [] then [] else [piece])"
| "pieces target piece (s # ss) =
     (if piece \<noteq> [] \<and> target < int (estimate_tokens (py_join '' '' (piece @ [s])))
      then piece # pieces target [last piece, s] ss
      else pieces target (piece @ [s]) ss)"

definition block_units :: "int \<Rightarrow> int \<Rightarrow> nat \<Rightarrow> block \<Rightarrow> text_unit list" where
  "block_units split_tokens target_tokens ordinal b =
     map (\<lambda>t. \<lparr>un_text = t, un_ordinal = ordinal, un_page = bl_page b, un_headings = bl_headings b\<rparr>)
       (if int (estimate_tokens (bl_text b)) \<le> split_tokens then [bl_text b]
        else map (py_join '' '') (pieces target_tokens [] (sentences [] (bl_text b))))"

fun split_units :: "int \<Rightarrow> int \<Rightarrow> nat \<Rightarrow> block list \<Rightarrow> text_unit list" where
  "split_units split_tokens target_tokens ordinal [] = []"
| "split_units split_tokens target_tokens ordinal (b # bs) =
     (if bl_kind b = HeadingBlock then split_units split_tokens target_tokens ordinal bs
      else block_units split_tokens target_tokens (ordinal + 1) b
           @ split_units split_tokens target_tokens (ordinal + 1) bs)"

section \<open>Packing\<close>

fun pack :: "int \<Rightarrow> text_unit list \<Rightarrow> text_unit list \<Rightarrow> text_unit list list" where
  "pack limit current [] = (if current = [] then [] else [current])"
| "pack limit current (u # us) =
     (let new_section = (current \<noteq> [] \<and> un_headings u \<noteq> un_headings (last current));
          too_big = (current \<noteq> [] \<and> limit < int (estimate_tokens (py_join '' '' (map un_text (current @ [u])))))
      in if new_section \<or> too_big then current # pack limit [u] us else pack limit (current @ [u]) us)"

definition pack_units :: "text_unit list \<Rightarrow> int \<Rightarrow> text_unit list list" where
  "pack_units units limit = pack limit [] units"

section \<open>Locators and headers\<close>

definition heading_path :: "string \<Rightarrow> string list \<Rightarrow> string list" where
  "heading_path title headings = filter (\<lambda>h. h \<noteq> title) headings"

definition DASH :: string where "DASH = [CHR 0x96]"
definition LOCATOR_SEP :: string where "LOCATOR_SEP = '' '' @ [CHR 0x9B] @ '' ''"
definition PATH_SEP :: string where "PATH_SEP = '' > ''"

definition locator_for :: "string \<Rightarrow> text_unit list \<Rightarrow> bool \<Rightarrow> string" where
  "locator_for title grp full_path =
     (let f = hd grp; l = last grp;
          pilcrow = [CHR 0xB6];
          paras = (if un_ordinal f = un_ordinal l then pilcrow @ nat_str (un_ordinal f)
                   else pilcrow @ nat_str (un_ordinal f) @ DASH @ nat_str (un_ordinal l));
          path = heading_path title (un_headings f);
          sec = (if path = [] then [] else [[CHR 0xA7] @ (if full_path then py_join LOCATOR_SEP path else last path)]);
          pages = (case un_page f of
                     None \<Rightarrow> []
                   | Some p \<Rightarrow>
                       [if un_page l = Some p then ''p.'' @ int_str p
                        else ''pp.'' @ int_str p @ DASH @ (case un_page l of Some q \<Rightarrow> int_str q | None \<Rightarrow> ''None'')])
      in py_join '' '' (sec @ pages @ [paras]))"

definition header_for :: "string \<Rightarrow> string list \<Rightarrow> bool \<Rightarrow> string" where
  "header_for title headings full_path =
     (let path = heading_path title headings in
      if path = [] then title
      else if full_path then title @ [newline] @ py_join PATH_SEP path
      else title @ '' - '' @ last path)"

definition body_of :: "text_unit list \<Rightarrow> string" where
  "body_of grp = py_join [newline] (map un_text grp)"

definition make_chunk :: "nat \<Rightarrow> text_unit list \<Rightarrow> string \<Rightarrow> string \<Rightarrow> string \<Rightarrow> nat option \<Rightarrow> chunk" where
  "make_chunk index grp context_text header loc parent =
     (let body = body_of grp in
      \<lparr>ch_index = index, ch_parent_index = (case parent of None \<Rightarrow> index | Some p \<Rightarrow> p), ch_text = body,
       ch_embed_text = header @ [newline] @ body, ch_context = context_text, ch_locator = loc,
       ch_section = (if un_headings (hd grp) = [] then None else Some (last (un_headings (hd grp)))),
       ch_headings = un_headings (hd grp), ch_page_start = un_page (hd grp),
       ch_token_count = estimate_tokens body\<rparr>)"

section \<open>The production chunker\<close>

fun chunk_children :: "string \<Rightarrow> string \<Rightarrow> string \<Rightarrow> nat \<Rightarrow> text_unit list list \<Rightarrow> chunk list \<Rightarrow> chunk list" where
  "chunk_children title context_text loc parent [] chunks = chunks"
| "chunk_children title context_text loc parent (child # children) chunks =
     chunk_children title context_text loc parent children
       (chunks @ [make_chunk (length chunks) child context_text (header_for title (un_headings (hd child)) True) loc (Some parent)])"

fun chunk_parents :: "string \<Rightarrow> chunking_config \<Rightarrow> nat \<Rightarrow> text_unit list list \<Rightarrow> chunk list \<Rightarrow> chunk list" where
  "chunk_parents title cfg i [] chunks = chunks"
| "chunk_parents title cfg i (parent # parents) chunks =
     chunk_parents title cfg (i + 1) parents
       (chunk_children title (body_of parent) (locator_for title parent True) i (pack_units parent (cc_target_tokens cfg)) chunks)"

definition chunk_document :: "parsed_document \<Rightarrow> chunking_config \<Rightarrow> chunk list" where
  "chunk_document doc cfg =
     (let units = split_units (cc_split_tokens cfg) (cc_target_tokens cfg) 0 (pd_blocks doc)
      in chunk_parents (dm_title (pd_meta doc)) cfg 0 (pack_units units (cc_max_tokens cfg)) [])"

section \<open>Packing loses nothing and keeps its limits\<close>

lemma pack_concat: "concat (pack limit cur us) = cur @ us"
  by (induction limit cur us rule: pack.induct) (auto simp: Let_def)

lemma pack_nonempty: "g \<in> set (pack limit cur us) \<Longrightarrow> g \<noteq> []"
  by (induction limit cur us rule: pack.induct) (auto simp: Let_def split: if_splits)

definition one_section :: "text_unit list \<Rightarrow> bool" where
  "one_section g \<longleftrightarrow> list_all (\<lambda>u. un_headings u = un_headings (hd g)) g"

definition fits :: "int \<Rightarrow> text_unit list \<Rightarrow> bool" where
  "fits limit g \<longleftrightarrow> length g = 1 \<or> int (estimate_tokens (body_of g)) \<le> limit"

lemma body_tokens: "estimate_tokens (py_join '' '' (map un_text g)) = estimate_tokens (body_of g)"
  by (simp add: estimate_tokens_eq body_of_def length_py_join)

lemma one_section_snoc:
  "one_section g \<Longrightarrow> g \<noteq> [] \<Longrightarrow> un_headings u = un_headings (last g) \<Longrightarrow> one_section (g @ [u])"
  unfolding one_section_def list_all_iff by (metis UnE empty_iff hd_append2 last_in_set list.set(1) list.set(2) insert_iff set_append)

lemma pack_groups:
  "(cur \<noteq> [] \<Longrightarrow> one_section cur \<and> fits limit cur) \<Longrightarrow> g \<in> set (pack limit cur us) \<Longrightarrow> one_section g \<and> fits limit g"
proof (induction limit cur us rule: pack.induct)
  case (2 limit current u us)
  have single: "one_section [u] \<and> fits limit [u]" by (simp add: one_section_def fits_def)
  show ?case
  proof (cases "current \<noteq> [] \<and> (un_headings u \<noteq> un_headings (last current)
      \<or> limit < int (estimate_tokens (py_join '' '' (map un_text (current @ [u])))))")
    case True
    then show ?thesis
      using 2 single by (auto simp: Let_def)
  next
    case False
    then have "one_section (current @ [u]) \<and> fits limit (current @ [u])"
      using 2(3) one_section_snoc [of current u] single
      by (cases "current = []") (auto simp: fits_def body_tokens [symmetric])
    moreover have "g \<in> set (pack limit (current @ [u]) us)"
      using 2(4) False by (auto simp: Let_def)
    ultimately show ?thesis
      using 2(2) False by (auto simp: Let_def)
  qed
qed (auto split: if_splits)

text \<open>Greedy: the unit after a group would not have fitted, or starts another section.\<close>

definition break_justified :: "int \<Rightarrow> text_unit list \<Rightarrow> text_unit list \<Rightarrow> bool" where
  "break_justified limit g h \<longleftrightarrow>
     un_headings (hd h) \<noteq> un_headings (last g) \<or> limit < int (estimate_tokens (body_of (g @ [hd h])))"

fun breaks_ok :: "int \<Rightarrow> text_unit list list \<Rightarrow> bool" where
  "breaks_ok limit (g # h # gs) = (break_justified limit g h \<and> breaks_ok limit (h # gs))"
| "breaks_ok limit _ = True"

lemma pack_hd: "cur \<noteq> [] \<Longrightarrow> pack limit cur us \<noteq> [] \<and> hd (hd (pack limit cur us)) = hd cur"
  by (induction limit cur us rule: pack.induct) (auto simp: Let_def)

lemma pack_breaks: "breaks_ok limit (pack limit cur us)"
proof (induction limit cur us rule: pack.induct)
  case (2 limit current u us)
  show ?case
  proof (cases "current \<noteq> [] \<and> (un_headings u \<noteq> un_headings (last current)
      \<or> limit < int (estimate_tokens (py_join '' '' (map un_text (current @ [u])))))")
    case True
    obtain g gs where g: "pack limit [u] us = g # gs" "hd g = u"
      using pack_hd [of "[u]" limit us] by (cases "pack limit [u] us") auto
    have "break_justified limit current g"
      using True by (auto simp: break_justified_def g(2) body_tokens [symmetric])
    then show ?thesis
      using True 2(1) g(1) by (auto simp: Let_def)
  next
    case False
    then show ?thesis using 2(2) by (auto simp: Let_def)
  qed
qed simp

text \<open>Packing is exact and greedy: the groups in order are the units in order, each group is non-empty, lies in
  one section and fits the limit or is a single unit, and every break is forced by a new section or by
  the limit.\<close>

theorem pack_units_exact:
  "concat (pack_units units limit) = units
   \<and> list_all (\<lambda>g. g \<noteq> [] \<and> one_section g \<and> fits limit g) (pack_units units limit)
   \<and> breaks_ok limit (pack_units units limit)"
  unfolding pack_units_def list_all_iff
  using pack_concat [of limit "[]" units] pack_groups [of "[]" limit _ units] pack_nonempty [of _ limit "[]" units]
    pack_breaks [of limit "[]" units]
  by (intro conjI ballI) auto

section \<open>Chunks\<close>

definition chunk_ok :: "chunk \<Rightarrow> bool" where
  "chunk_ok c \<longleftrightarrow> sublist (ch_text c) (ch_context c) \<and> ch_token_count c = estimate_tokens (ch_text c)"

lemma body_append: "a \<noteq> [] \<Longrightarrow> b \<noteq> [] \<Longrightarrow> body_of (a @ b) = body_of a @ [newline] @ body_of b"
  by (simp add: body_of_def py_join_append)

lemma body_sublist:
  assumes "concat gs = us" "g \<in> set gs" "list_all (\<lambda>g. g \<noteq> []) gs"
  shows "sublist (body_of g) (body_of us)"
proof -
  obtain as bs where gs: "gs = as @ g # bs" using assms(2) by (meson split_list)
  define x where "x = concat as"
  define y where "y = concat bs"
  have us: "us = x @ g @ y" "g \<noteq> []"
    using assms gs by (auto simp: x_def y_def)
  have 1: "sublist (body_of g) (body_of (g @ y))"
    using us(2) by (cases "y = []") (auto simp: body_append)
  have 2: "sublist (body_of (g @ y)) (body_of (x @ g @ y))"
  proof (cases "x = []")
    case False
    then have "body_of (x @ g @ y) = (body_of x @ [newline]) @ body_of (g @ y)"
      using us(2) body_append [of x "g @ y"] by simp
    then show ?thesis by (simp only: sublist_append_leftI)
  qed simp
  show ?thesis unfolding us(1) by (rule sublist_order.order_trans [OF 1 2])
qed

text \<open>What the chunker keeps while it runs: the chunks so far hold exactly the units so far.\<close>

definition holds_units :: "text_unit list \<Rightarrow> chunk list \<Rightarrow> bool" where
  "holds_units us cs \<longleftrightarrow>
     map ch_index cs = [0 ..< length cs] \<and> list_all chunk_ok cs
     \<and> py_join [newline] (map ch_text cs) = body_of us \<and> (us = [] \<longleftrightarrow> cs = [])"

lemma holds_units_snoc:
  assumes h: "holds_units us cs" and g: "grp \<noteq> []" "ch_index c = length cs" "chunk_ok c" "ch_text c = body_of grp"
  shows "holds_units (us @ grp) (cs @ [c])"
proof (cases "cs = []")
  case True
  then show ?thesis using assms by (auto simp: holds_units_def body_of_def)
next
  case False
  then have "us \<noteq> []" using h by (simp add: holds_units_def)
  then show ?thesis
    using assms False by (auto simp: holds_units_def body_append py_join_append)
qed

lemma chunk_children_holds:
  "holds_units us chunks \<Longrightarrow> list_all (\<lambda>g. g \<noteq> [] \<and> sublist (body_of g) context_text) children \<Longrightarrow>
   holds_units (us @ concat children) (chunk_children title context_text loc parent children chunks)"
proof (induction children arbitrary: us chunks)
  case (Cons g gs)
  have "holds_units (us @ g)
      (chunks @ [make_chunk (length chunks) g context_text (header_for title (un_headings (hd g)) True) loc (Some parent)])"
    by (rule holds_units_snoc [OF Cons.prems(1)]) (use Cons.prems(2) in \<open>auto simp: make_chunk_def chunk_ok_def Let_def\<close>)
  from Cons.IH [OF this] Cons.prems(2) show ?case by simp
qed simp

lemma pack_children_ok:
  "list_all (\<lambda>g. g \<noteq> [] \<and> sublist (body_of g) (body_of us)) (pack_units us limit)"
  unfolding list_all_iff pack_units_def
proof (intro ballI conjI)
  fix g assume g: "g \<in> set (pack limit [] us)"
  then show "g \<noteq> []" by (rule pack_nonempty)
  show "sublist (body_of g) (body_of us)"
    using body_sublist [of "pack limit [] us" us g] g pack_concat [of limit "[]" us] pack_nonempty [of _ limit "[]" us]
    by (simp add: list_all_iff)
qed

lemma chunk_parents_holds:
  "holds_units us chunks \<Longrightarrow> holds_units (us @ concat parents) (chunk_parents title cfg i parents chunks)"
proof (induction parents arbitrary: us chunks i)
  case (Cons p ps)
  have "concat (pack_units p (cc_target_tokens cfg)) = p"
    by (simp add: pack_units_def pack_concat)
  then show ?case
    using Cons.IH [OF chunk_children_holds [OF Cons.prems pack_children_ok [of p "cc_target_tokens cfg"]]]
    by simp
qed simp

text \<open>C33: Chunking is lossless: the chunks are numbered 0, 1, ..., each one's matched text is a contiguous part of
  the context the model receives and its token count is that of its text, and the chunk texts joined by
  newlines are exactly the texts of the document's units, joined by newlines.\<close>

theorem chunk_document_lossless:
  "map ch_index (chunk_document d cfg) = [0 ..< length (chunk_document d cfg)]
   \<and> list_all chunk_ok (chunk_document d cfg)
   \<and> py_join [newline] (map ch_text (chunk_document d cfg))
       = py_join [newline] (map un_text (split_units (cc_split_tokens cfg) (cc_target_tokens cfg) 0 (pd_blocks d)))"
proof -
  have "holds_units [] []" by (simp add: holds_units_def body_of_def)
  from chunk_parents_holds [OF this] show ?thesis
    by (simp add: chunk_document_def Let_def holds_units_def pack_units_def pack_concat body_of_def [symmetric])
qed

end
