(* ===== verification/Rag.thy ===== *)
theory Rag
  imports Upload Chunking
begin

text \<open>
  \<open>rag.py\<close>: the prompts with their escaped sources, abstention, the normalization and validation of citation markers, and the
  re-pointing of citations by the figures a sentence states. Each regular expression is a function that says whether
  it matches at a position and what; the scans are the left-to-right, non-overlapping ones of \<open>re\<close>. The full-width
  brackets of \<open>_WIDE_MARKER\<close> lie outside the character repertoire, so that substitution is the identity here.
\<close>

section \<open>Prompts\<close>

definition ABSTAIN :: string where
  "ABSTAIN = ''I couldn't find this in the approved knowledge available to you.''"

definition REVIEWED_NOTE :: string where
  "REVIEWED_NOTE = ''These sources scored below the usual relevance bar and were admitted by a reviewer. ''
     @ ''Answer only what they state, with citations; if they do not contain the answer, ''
     @ ''reply with the exact abstention sentence.''"

text \<open>\<open>html.escape\<close>.\<close>

definition html_escape :: "bool \<Rightarrow> string \<Rightarrow> string" where
  "html_escape quote s = concat (map (\<lambda>c.
     if c = CHR ''&'' then ''&amp;'' else if c = CHR ''<'' then ''&lt;'' else if c = CHR ''>'' then ''&gt;''
     else if quote \<and> c = CHR 0x22 then ''&quot;'' else if quote \<and> c = CHR 0x27 then ''&#x27;'' else [c]) s)"

definition attr_text :: "string \<Rightarrow> string" where
  "attr_text value = html_escape True value"

definition quoted :: "string \<Rightarrow> string" where
  "quoted s = [CHR 0x22] @ s @ [CHR 0x22]"

definition source_block :: "nat \<Rightarrow> retrieved_chunk \<Rightarrow> string" where
  "source_block n c =
     ''<source id='' @ quoted (nat_str n) @ '' title='' @ quoted (attr_text (rc_title c)) @ '' ref='' @ quoted (attr_text (stable_ref c))
     @ '' updated='' @ quoted (attr_text (rc_doc_updated_at c)) @ ''>'' @ [newline]
     @ html_escape False (rc_context c) @ [newline] @ ''</source>''"

fun source_blocks :: "nat \<Rightarrow> retrieved_chunk list \<Rightarrow> string list" where
  "source_blocks n [] = []"
| "source_blocks n (c # cs) = source_block n c # source_blocks (n + 1) cs"

definition render_sources :: "retrieved_chunk list \<Rightarrow> string" where
  "render_sources chunks = py_join [newline, newline] (source_blocks 1 chunks)"

definition sources_turn :: "string \<Rightarrow> retrieved_chunk list \<Rightarrow> string" where
  "sources_turn question chunks =
     ''<sources>'' @ [newline] @ render_sources chunks @ [newline] @ ''</sources>'' @ [newline, newline] @ ''Question: '' @ question"

definition build_messages :: "string \<Rightarrow> string \<Rightarrow> retrieved_chunk list \<Rightarrow> chat_message list \<Rightarrow> bool \<Rightarrow> chat_message list" where
  "build_messages system_prompt question chunks history reviewed =
     [\<lparr>cm_role = RSystem, cm_content = system_prompt\<rparr>] @ history
     @ (if reviewed then [\<lparr>cm_role = RSystem, cm_content = REVIEWED_NOTE\<rparr>] else [])
     @ [\<lparr>cm_role = RUser, cm_content = sources_turn question chunks\<rparr>]"

definition gate_review_messages :: "string \<Rightarrow> string \<Rightarrow> retrieved_chunk list \<Rightarrow> chat_message list" where
  "gate_review_messages review_prompt question chunks =
     [\<lparr>cm_role = RSystem, cm_content = review_prompt\<rparr>,
      \<lparr>cm_role = RUser, cm_content = ''<passages>'' @ [newline] @ render_sources chunks @ [newline] @ ''</passages>''
         @ [newline, newline] @ ''Question: '' @ question\<rparr>]"

section \<open>Markers\<close>

text \<open>\<open>_MARKER\<close>: one or two digits in square brackets.\<close>

definition marker_at :: "string \<Rightarrow> string option" where
  "marker_at s =
     (case s of
        [] \<Rightarrow> None
      | c # cs \<Rightarrow>
          (let ds = takeWhile is_digit cs in
           if c = CHR ''['' \<and> (length ds = 1 \<or> length ds = 2) \<and> py_startswith (drop (length ds) cs) '']'' then Some ds else None))"

datatype piece = Plain char | Marker string

function marker_pieces :: "string \<Rightarrow> piece list" where
  "marker_pieces [] = []"
| "marker_pieces (c # cs) =
     (case marker_at (c # cs) of
        Some ds \<Rightarrow> Marker ds # marker_pieces (drop (length ds + 1) cs)
      | None \<Rightarrow> Plain c # marker_pieces cs)"
  by pat_completeness auto
termination
  by (relation "measure length") auto

definition marker_text :: "string \<Rightarrow> string" where
  "marker_text ds = ''['' @ ds @ '']''"

fun piece_text :: "piece \<Rightarrow> string" where
  "piece_text (Plain c) = [c]"
| "piece_text (Marker ds) = marker_text ds"

fun piece_marker :: "piece \<Rightarrow> string option" where
  "piece_marker (Plain c) = None"
| "piece_marker (Marker ds) = Some ds"

definition markers :: "string \<Rightarrow> string list" where
  "markers s = somes (map piece_marker (marker_pieces s))"

definition pieces_text :: "piece list \<Rightarrow> string" where
  "pieces_text ps = concat (map piece_text ps)"

text \<open>\<open>_PROSE_MARKER\<close>: the word, its number, and the length of the match.\<close>

definition source_word :: "string \<Rightarrow> (string \<times> string) option" where
  "source_word s =
     (let r = drop 6 s in
      if py_lower (take 6 s) \<noteq> ''source'' then None
      else if r \<noteq> [] \<and> lower_char (hd r) = CHR ''s'' \<and> py_startswith (tl r) '' '' then Some (take 7 s, drop 8 s)
      else if py_startswith r '' '' then Some (take 6 s, drop 7 s) else None)"

definition prose_at :: "string \<Rightarrow> (string \<times> string \<times> nat) option" where
  "prose_at s =
     (case source_word s of
        None \<Rightarrow> None
      | Some (w, r) \<Rightarrow>
          (let r1 = (if py_startswith r ''#'' then tl r else r);
               ds = takeWhile is_digit r1; r2 = dropWhile is_digit r1; r3 = dropWhile py_space r2;
               rest = (if py_startswith r3 (marker_text ds) then drop (length (marker_text ds)) r3 else r2)
           in if (length ds = 1 \<or> length ds = 2) \<and> (r2 = [] \<or> \<not> word_char (hd r2))
              then Some (w, ds, length s - length rest) else None))"

function prose_sub :: "nat \<Rightarrow> bool \<Rightarrow> string \<Rightarrow> string" where
  "prose_sub sources boundary [] = []"
| "prose_sub sources boundary (c # cs) =
     (case (if boundary then prose_at (c # cs) else None) of
        None \<Rightarrow> c # prose_sub sources (\<not> word_char c) cs
      | Some (w, ds, k) \<Rightarrow>
          (if 1 \<le> digits_val ds \<and> digits_val ds \<le> sources then w @ '' ['' @ nat_str (digits_val ds) @ '']'' else take k (c # cs))
          @ prose_sub sources (\<not> word_char (last (take k (c # cs)))) (drop (k - 1) cs))"
  by pat_completeness auto
termination
  by (relation "measure (\<lambda>(_, _, s). length s)") auto

definition normalize_markers :: "string \<Rightarrow> nat \<Rightarrow> string" where
  "normalize_markers answer sources = prose_sub sources True answer"

section \<open>Abstention\<close>

definition rstrip_points :: "string \<Rightarrow> string" where
  "rstrip_points s = rev (dropWhile (\<lambda>c. c = CHR ''.'') (rev s))"

definition own_words :: "string list" where
  "own_words = [''couldn't'', ''could not'', ''can't'', ''cannot'', ''was unable to'', ''am unable to'', ''unable to'']"

definition own_words_at :: "string \<Rightarrow> bool" where
  "own_words_at s = list_ex (\<lambda>p.
     py_startswith s p \<and>
     (let r = drop (length p) s; t = dropWhile py_space r in
      t \<noteq> r \<and> py_startswith t ''find'' \<and> (drop 4 t = [] \<or> \<not> word_char (hd (drop 4 t))))) own_words"

fun own_words_abstention :: "bool \<Rightarrow> string \<Rightarrow> bool" where
  "own_words_abstention boundary [] = False"
| "own_words_abstention boundary (c # cs) =
     ((boundary \<and> own_words_at (c # cs)) \<or> own_words_abstention (\<not> word_char c) cs)"

definition is_abstention :: "string \<Rightarrow> bool" where
  "is_abstention text =
     (let norm = rstrip_points (py_join '' '' (py_split_ws (py_lower text))) in
      if py_startswith norm (rstrip_points (py_lower ABSTAIN)) then True
      else if markers text \<noteq> [] then False
      else py_contains ''couldn't find this in the approved'' norm \<or> own_words_abstention True norm)"

section \<open>Figures\<close>

definition number_words :: "string list" where
  "number_words = [''zero'', ''one'', ''two'', ''three'', ''four'', ''five'', ''six'', ''seven'', ''eight'', ''nine'', ''ten'', ''eleven'', ''twelve'']"

definition number_word :: "string \<Rightarrow> string" where
  "number_word w =
     (let k = length (takeWhile (\<lambda>x. x \<noteq> py_lower w) number_words) in
      if k < length number_words then nat_str k else w)"

text \<open>\<open>_NUMBER_WORD.sub\<close>: whole words only, as both ends are word boundaries.\<close>

function number_word_sub :: "string \<Rightarrow> string" where
  "number_word_sub [] = []"
| "number_word_sub (c # cs) =
     (if word_char c then number_word (c # takeWhile word_char cs) @ number_word_sub (dropWhile word_char cs)
      else c # number_word_sub cs)"
  by pat_completeness auto
termination
  by (relation "measure length") (auto simp: less_Suc_eq_le length_dropWhile_le)

fun thousands :: "string \<Rightarrow> string" where
  "thousands (c # x # y # z # r) =
     (if c = CHR '','' \<and> is_digit x \<and> is_digit y \<and> is_digit z then [c, x, y, z] @ thousands r else [])"
| "thousands _ = []"

definition decimals :: "string \<Rightarrow> string" where
  "decimals s =
     (case s of
        [] \<Rightarrow> []
      | c # r \<Rightarrow> if c = CHR ''.'' \<and> takeWhile is_digit r \<noteq> [] then c # takeWhile is_digit r else [])"

text \<open>The figure at a position: the number and its percent sign.\<close>

definition figure_at :: "string \<Rightarrow> (string \<times> string) option" where
  "figure_at s =
     (let ds = takeWhile is_digit s; r = dropWhile is_digit s;
          num = (if length ds \<le> 3 \<and> thousands r \<noteq> [] then ds @ thousands r else ds @ decimals r)
      in if ds = [] then None else Some (num, if py_startswith (drop (length num) s) ''%'' then ''%'' else []))"

definition figure_start :: "char \<Rightarrow> bool" where
  "figure_start c \<longleftrightarrow> \<not> word_char c \<and> c \<noteq> CHR ''.'' \<and> c \<noteq> CHR '',''"

function figures_from :: "bool \<Rightarrow> string \<Rightarrow> string list" where
  "figures_from b [] = []"
| "figures_from b (c # cs) =
     (case (if b then figure_at (c # cs) else None) of
        None \<Rightarrow> figures_from (figure_start c) cs
      | Some (num, pct) \<Rightarrow>
          (filter (\<lambda>x. x \<noteq> CHR '','') num @ pct) # figures_from (pct \<noteq> []) (drop (length num + length pct - 1) cs))"
  by pat_completeness auto
termination
  by (relation "measure (\<lambda>(_, s). length s)") auto

definition blank_markers :: "string \<Rightarrow> string" where
  "blank_markers s = concat (map (\<lambda>p. case p of Plain c \<Rightarrow> [c] | Marker _ \<Rightarrow> '' '') (marker_pieces s))"

definition figures :: "string \<Rightarrow> string list" where
  "figures text = remdups (figures_from True (number_word_sub (blank_markers text)))"

section \<open>Re-pointing\<close>

text \<open>\<open>_REPEATED_SOURCE\<close> and \<open>_REPEATED_MARKER\<close>: a citation repeated right after itself.\<close>

definition and_separator :: "string \<Rightarrow> string option" where
  "and_separator s =
     (let t = dropWhile py_space s; u = dropWhile py_space (drop 3 t) in
      if py_startswith s '','' then
        (let t' = dropWhile py_space (tl s); u' = dropWhile py_space (drop 3 t') in
         Some (if py_startswith t' ''and'' \<and> u' \<noteq> drop 3 t' then u' else t'))
      else if t \<noteq> s \<and> py_startswith t ''and'' \<and> u \<noteq> drop 3 t then Some u else None)"

definition skip_source :: "string \<Rightarrow> string" where
  "skip_source s =
     (if py_startswith s ''source '' then drop 7 s else if py_startswith s ''sources '' then drop 8 s else s)"

definition source_again :: "string \<Rightarrow> string \<Rightarrow> string option" where
  "source_again m s =
     (case and_separator s of
        None \<Rightarrow> None
      | Some r \<Rightarrow> if py_startswith (skip_source r) m then Some (drop (length m) (skip_source r)) else None)"

definition marker_again :: "string \<Rightarrow> string \<Rightarrow> string option" where
  "marker_again m s = (let r = dropWhile py_space s in if py_startswith r m then Some (drop (length m) r) else None)"

text \<open>\<open>(...)+\<close>: what is left after repeating a step as long as it matches; the fuel is the text's length.\<close>

fun repeat_match :: "nat \<Rightarrow> (string \<Rightarrow> string option) \<Rightarrow> string \<Rightarrow> string" where
  "repeat_match 0 f s = s"
| "repeat_match (Suc n) f s = (case f s of None \<Rightarrow> s | Some r \<Rightarrow> repeat_match n f r)"

definition cited_source_at :: "string \<Rightarrow> (string \<times> string) option" where
  "cited_source_at s =
     (if py_startswith s ''source'' then
        (let r = (if py_startswith s ''sources '' then drop 8 s else if py_startswith s ''source '' then drop 7 s else [])
         in map_option (\<lambda>ds. (take (length s - length r) s @ marker_text ds, ds)) (marker_at r))
      else None)"

text \<open>What a match is replaced by, and its length.\<close>

definition collapse_at ::
  "(string \<Rightarrow> (string \<times> string) option) \<Rightarrow> (string \<Rightarrow> string \<Rightarrow> string option) \<Rightarrow> string \<Rightarrow> (string \<times> nat) option" where
  "collapse_at head again s =
     (case head s of
        None \<Rightarrow> None
      | Some (m, ds) \<Rightarrow>
          (let r = drop (length m) s; r' = repeat_match (length r) (again (marker_text ds)) r in
           if r' = r then None else Some (m, length s - length r')))"

function collapse ::
  "(string \<Rightarrow> (string \<times> string) option) \<Rightarrow> (string \<Rightarrow> string \<Rightarrow> string option) \<Rightarrow> string \<Rightarrow> string" where
  "collapse head again [] = []"
| "collapse head again (c # cs) =
     (case collapse_at head again (c # cs) of
        None \<Rightarrow> c # collapse head again cs
      | Some (m, k) \<Rightarrow> m @ collapse head again (drop (k - 1) cs))"
  by pat_completeness auto
termination
  by (relation "measure (\<lambda>(_, _, s). length s)") auto

definition collapse_repeats :: "string \<Rightarrow> string" where
  "collapse_repeats s =
     collapse (\<lambda>x. map_option (\<lambda>ds. (marker_text ds, ds)) (marker_at x)) marker_again
       (collapse cited_source_at source_again s)"

text \<open>The greedy choice of sources that cover the figures: the first one that has most of them, until none has any.\<close>

definition gain :: "string list \<Rightarrow> string list \<Rightarrow> nat" where
  "gain missing h = length (filter (\<lambda>f. f \<in> set h) missing)"

definition best_source :: "string list list \<Rightarrow> string list \<Rightarrow> nat" where
  "best_source held missing =
     (let gs = map (gain missing) held in 1 + length (takeWhile (\<lambda>g. g \<noteq> foldl max 0 gs) gs))"

function cover :: "string list list \<Rightarrow> string list \<Rightarrow> nat list" where
  "cover held missing =
     (let best = best_source held missing in
      if missing = [] \<or> held = [] \<or> gain missing (held ! (best - 1)) = 0 then []
      else best # cover held (filter (\<lambda>f. f \<notin> set (held ! (best - 1))) missing))"
  by pat_completeness auto
termination
proof (relation "measure (\<lambda>(_, m). length m)", goal_cases)
  case (2 held missing best)
  then have "filter (\<lambda>f. f \<in> set (held ! (best - 1))) missing \<noteq> []"
    by (auto simp: gain_def)
  then obtain f where "f \<in> set missing" "f \<in> set (held ! (best - 1))"
    by (auto simp: filter_empty_conv)
  then show ?case by (auto intro!: length_filter_less)
qed simp

declare cover.simps [simp del]

definition insert_after_last :: "string \<Rightarrow> string \<Rightarrow> string" where
  "insert_after_last extra sentence =
     (let ps = marker_pieces sentence; after = takeWhile (\<lambda>p. piece_marker p = None) (rev ps)
      in pieces_text (take (length ps - length after) ps) @ extra @ pieces_text (rev after))"

definition repoint_sentence :: "string \<Rightarrow> string list list \<Rightarrow> string \<times> nat" where
  "repoint_sentence sentence held =
     (let cited = filter (\<lambda>n. 1 \<le> n \<and> n \<le> length held) (map digits_val (markers sentence));
          stated = figures sentence;
          covered = concat (map (\<lambda>n. held ! (n - 1)) cited);
          missing = filter (\<lambda>f. f \<notin> set covered \<and> list_ex (\<lambda>h. f \<in> set h) held) stated;
          replacements = cover held missing;
          dead = remdups (filter (\<lambda>n. gain stated (held ! (n - 1)) = 0) cited);
          s1 = (if dead = [] then sentence
                else concat (map (\<lambda>p. case p of
                       Plain c \<Rightarrow> [c]
                     | Marker ds \<Rightarrow> if digits_val ds \<in> set dead then marker_text (nat_str (hd replacements)) else marker_text ds)
                     (marker_pieces sentence)));
          added = filter (\<lambda>k. \<not> py_contains (marker_text (nat_str k)) s1) replacements;
          s2 = (if added = [] then s1 else insert_after_last (concat (map (\<lambda>k. marker_text (nat_str k)) added)) s1)
      in if cited = [] \<or> stated = [] \<or> missing = [] then (sentence, 0)
         else (collapse_repeats s2, length dead + length added))"

text \<open>\<open>_SENTENCE_END\<close>: white space after a sentence end, not directly before a bracket, or newlines. Of the white space the
  match gives back one character when a bracket follows.\<close>

definition boundary_at :: "char option \<Rightarrow> string \<Rightarrow> nat" where
  "boundary_at prev s =
     (let m = length (takeWhile py_space s);
          k = (if m = 0 then 0 else if py_startswith (drop m s) ''['' then m - 1 else m)
      in if (case prev of None \<Rightarrow> False | Some c \<Rightarrow> sentence_end c) \<and> 1 \<le> k then k
         else length (takeWhile (\<lambda>c. c = newline) s))"

text \<open>Each sentence with the separator after it.\<close>

function split_sentences :: "char option \<Rightarrow> string \<Rightarrow> string \<Rightarrow> (string \<times> string) list" where
  "split_sentences prev w [] = [(w, [])]"
| "split_sentences prev w (c # cs) =
     (let k = boundary_at prev (c # cs) in
      if k = 0 then split_sentences (Some c) (w @ [c]) cs
      else (w, take k (c # cs)) # split_sentences (Some (last (take k (c # cs)))) [] (drop (k - 1) cs))"
  by pat_completeness auto
termination
  by (relation "measure (\<lambda>(_, _, s). length s)") auto

definition repoint_citations :: "string \<Rightarrow> retrieved_chunk list \<Rightarrow> string \<times> nat" where
  "repoint_citations answer chunks =
     (let held = map (\<lambda>c. figures (rc_context c)) chunks;
          out = map (\<lambda>(s, sep). (repoint_sentence s held, sep)) (split_sentences None [] answer)
      in (concat (map (\<lambda>(r, sep). fst r @ sep) out), sum_list (map (\<lambda>(r, _). snd r) out)))"

section \<open>The final answer\<close>

record citation =
  ci_number :: nat
  ci_doc_key :: string
  ci_version :: int
  ci_title :: string
  ci_locator :: string
  ci_ref :: string
  ci_snippet :: string

definition citation_label :: "citation \<Rightarrow> string" where
  "citation_label c = ci_title c @ '' ('' @ ci_doc_key c @ '' v'' @ int_str (ci_version c) @ '', '' @ ci_locator c @ '')''"

record grounded_answer =
  ga_text :: string
  ga_citations :: "citation list"
  ga_abstained :: bool
  ga_invalid_citations :: nat
  ga_repointed_citations :: nat

definition grounded :: "grounded_answer \<Rightarrow> bool" where
  "grounded a \<longleftrightarrow> ga_abstained a \<or> ga_citations a \<noteq> []"

definition citation_of :: "nat \<Rightarrow> retrieved_chunk \<Rightarrow> citation" where
  "citation_of n c =
     \<lparr>ci_number = n, ci_doc_key = rc_doc_key c, ci_version = rc_version c, ci_title = rc_title c,
      ci_locator = rc_locator c, ci_ref = stable_ref c, ci_snippet = take 300 (rc_content c)\<rparr>"

definition valid_marker :: "nat \<Rightarrow> string \<Rightarrow> bool" where
  "valid_marker sources ds \<longleftrightarrow> 1 \<le> digits_val ds \<and> digits_val ds \<le> sources"

definition keep_valid :: "nat \<Rightarrow> piece \<Rightarrow> string" where
  "keep_valid sources p =
     (case p of Plain c \<Rightarrow> [c] | Marker ds \<Rightarrow> if valid_marker sources ds then marker_text ds else [])"

text \<open>\<open>order\<close>: the numbers of the valid markers, once each, in order of first use.\<close>

definition first_uses :: "nat list \<Rightarrow> nat list" where
  "first_uses ns = first_by (\<lambda>n. n) [] ns"

definition finalize :: "string \<Rightarrow> retrieved_chunk list \<Rightarrow> grounded_answer" where
  "finalize raw chunks =
     (let n = length chunks; answer = normalize_markers raw n in
      if is_abstention answer
      then \<lparr>ga_text = ABSTAIN, ga_citations = [], ga_abstained = True, ga_invalid_citations = length (markers answer),
            ga_repointed_citations = 0\<rparr>
      else
        let r = repoint_citations answer chunks;
            ps = marker_pieces (fst r);
            ms = somes (map piece_marker ps);
            order = first_uses (map digits_val (filter (valid_marker n) ms))
        in \<lparr>ga_text = py_strip (concat (map (keep_valid n) ps)),
            ga_citations = map (\<lambda>k. citation_of k (chunks ! (k - 1))) order,
            ga_abstained = False, ga_invalid_citations = length (filter (\<lambda>ds. \<not> valid_marker n ds) ms),
            ga_repointed_citations = snd r\<rparr>)"

definition abstention :: grounded_answer where
  "abstention = \<lparr>ga_text = ABSTAIN, ga_citations = [], ga_abstained = True, ga_invalid_citations = 0, ga_repointed_citations = 0\<rparr>"

section \<open>Citations\<close>

lemma first_uses_distinct: "distinct (first_uses ns)" and first_uses_set: "set (first_uses ns) \<subseteq> set ns"
  using first_by_keys [of "\<lambda>n. n" "[]" ns] set_first_by [of "\<lambda>n. n" "[]" ns] by (simp_all add: first_uses_def)

lemma markers_alt: "markers s = somes (map piece_marker (marker_pieces s))"
  by (simp add: markers_def)

text \<open>C30: Citations point at what was retrieved: an abstention is the fixed sentence without citations, and otherwise the
  citations have distinct numbers, each of them the number of a marker in the answer and of a provided source,
  whose key, version, locator, reference and passage the citation carries.\<close>

theorem citations_sound:
  "if ga_abstained (finalize raw chunks)
   then ga_text (finalize raw chunks) = ABSTAIN \<and> ga_citations (finalize raw chunks) = []
   else distinct (map ci_number (ga_citations (finalize raw chunks)))
     \<and> list_all (\<lambda>c. 1 \<le> ci_number c \<and> ci_number c \<le> length chunks
          \<and> c = citation_of (ci_number c) (chunks ! (ci_number c - 1))
          \<and> ci_number c \<in> digits_val ` set (markers (fst (repoint_citations (normalize_markers raw (length chunks)) chunks))))
        (ga_citations (finalize raw chunks))"
proof (cases "is_abstention (normalize_markers raw (length chunks))")
  case True
  then show ?thesis by (simp add: finalize_def Let_def)
next
  case False
  define ms where "ms = markers (fst (repoint_citations (normalize_markers raw (length chunks)) chunks))"
  define order where "order = first_uses (map digits_val (filter (valid_marker (length chunks)) ms))"
  have cits: "ga_citations (finalize raw chunks) = map (\<lambda>k. citation_of k (chunks ! (k - 1))) order"
    "\<not> ga_abstained (finalize raw chunks)"
    using False by (simp_all add: finalize_def Let_def order_def ms_def markers_alt)
  have num: "ci_number (citation_of k c) = k" for k c by (simp add: citation_of_def)
  have "list_all (\<lambda>k. 1 \<le> k \<and> k \<le> length chunks \<and> k \<in> digits_val ` set ms) order"
    using first_uses_set [of "map digits_val (filter (valid_marker (length chunks)) ms)"]
    by (auto simp: order_def list_all_iff valid_marker_def)
  moreover have "map ci_number (map (\<lambda>k. citation_of k (chunks ! (k - 1))) order) = order"
    by (simp add: num comp_def)
  ultimately show ?thesis
    using first_uses_distinct by (simp add: cits order_def [symmetric] ms_def [symmetric] list.pred_map comp_def num) (simp add: order_def)
qed

lemma repoint_uncited:
  "filter (\<lambda>n. 1 \<le> n \<and> n \<le> length held) (map digits_val (markers s)) = [] \<Longrightarrow> repoint_sentence s held = (s, 0)"
  by (simp add: repoint_sentence_def Let_def)

text \<open>Removing an invalid marker can make a new one: in this answer the marker for source 99 is taken out of the middle of
  another bracket pair, and what is left is a marker for source 7 that was never provided, is not counted as
  invalid and has no citation.\<close>

theorem nested_marker_survives:
  "finalize ''[[99]7]'' [c] = \<lparr>ga_text = ''[7]'', ga_citations = [], ga_abstained = False, ga_invalid_citations = 1, ga_repointed_citations = 0\<rparr>
   \<and> markers ''[7]'' = [''7'']"
proof -
  have ev: "normalize_markers ''[[99]7]'' 1 = ''[[99]7]''" "is_abstention ''[[99]7]'' = False" "markers ''[7]'' = [''7'']"
    "split_sentences None [] ''[[99]7]'' = [(''[[99]7]'', [])]" "markers ''[[99]7]'' = [''99'']" "digits_val ''99'' = 99"
    "somes (map piece_marker (marker_pieces ''[[99]7]'')) = [''99'']"
    by code_simp+
  have rep: "repoint_citations ''[[99]7]'' [c] = (''[[99]7]'', 0)"
    using repoint_uncited [of "[figures (rc_context c)]" "''[[99]7]''"]
    unfolding repoint_citations_def Let_def ev(4) by (simp add: ev(5,6))
  have kept: "py_strip (concat (map (keep_valid 1) (marker_pieces ''[[99]7]''))) = ''[7]''"
    by code_simp
  show ?thesis
    by (simp add: finalize_def Let_def ev [unfolded One_nat_def] rep kept [unfolded One_nat_def] valid_marker_def first_uses_def del: marker_pieces.simps)
qed

section \<open>Sources\<close>

definition count_char :: "char \<Rightarrow> string \<Rightarrow> nat" where
  "count_char c s = length (filter (\<lambda>x. x = c) s)"

lemma count_char_append [simp]: "count_char c (s @ t) = count_char c s + count_char c t"
  by (simp add: count_char_def)

lemma count_char_single: "count_char c [x] = (if x = c then 1 else 0)"
  by (simp add: count_char_def)

lemma escape_texts:
  "c \<in> {CHR ''<'', CHR ''>''} \<Longrightarrow> list_all (\<lambda>t. count_char c t = 0) [''&amp;'', ''&lt;'', ''&gt;'', ''&quot;'', ''&#x27;'']"
  by (elim insertE emptyE; hypsubst; code_simp)

lemma escape_char_angle:
  assumes "c \<in> {CHR ''<'', CHR ''>''}"
  shows "count_char c (if x = CHR ''&'' then ''&amp;'' else if x = CHR ''<'' then ''&lt;'' else if x = CHR ''>'' then ''&gt;''
     else if q \<and> x = CHR 0x22 then ''&quot;'' else if q \<and> x = CHR 0x27 then ''&#x27;'' else [x]) = 0"
proof -
  have "x \<noteq> CHR ''<'' \<Longrightarrow> x \<noteq> CHR ''>'' \<Longrightarrow> x \<noteq> c" using assms by blast
  with escape_texts [OF assms] show ?thesis
    unfolding list.pred_inject by (simp only: count_char_single if_True if_False split: if_split) blast
qed

lemma escape_no_angle: "c = CHR ''<'' \<or> c = CHR ''>'' \<Longrightarrow> count_char c (html_escape q s) = 0"
proof (induction s)
  case (Cons x s)
  then have "c \<in> {CHR ''<'', CHR ''>''}" by blast
  from escape_char_angle [OF this] Cons show ?case unfolding html_escape_def list.map concat.simps count_char_append by simp
qed (simp add: html_escape_def count_char_def)
lemma number_no_angle: "c = CHR ''<'' \<or> c = CHR ''>'' \<Longrightarrow> count_char c (nat_str n) = 0"
  using nat_str_digits [of n] by (auto simp: count_char_def filter_empty_conv is_digit_def)

lemma source_block_angles:
  "c = CHR ''<'' \<or> c = CHR ''>'' \<Longrightarrow> count_char c (source_block n x) = 2"
proof -
  assume c: "c = CHR ''<'' \<or> c = CHR ''>''"
  have fixed: "count_char c ''<source id='' + count_char c ''</source>'' + count_char c ''>'' = 2" "count_char c [newline] = 0"
    "count_char c '' title='' = 0" "count_char c '' ref='' = 0" "count_char c '' updated='' = 0" "count_char c [CHR 0x22] = 0"
    using c by (elim disjE; simp add: count_char_def)+
  show ?thesis
    using fixed unfolding source_block_def quoted_def attr_text_def
    by (simp add: escape_no_angle [OF c] number_no_angle [OF c] del: append_Cons append.simps)
qed

lemma source_blocks_angles:
  "c = CHR ''<'' \<or> c = CHR ''>'' \<Longrightarrow> count_char c (py_join [newline, newline] (source_blocks n cs)) = 2 * length cs"
proof (induction cs arbitrary: n)
  case (Cons x cs)
  have nl: "count_char c [newline, newline] = 0"
    using Cons.prems by (elim disjE; simp add: count_char_def)
  show ?case
  proof (cases cs)
    case Nil
    with source_block_angles [OF Cons.prems] show ?thesis by simp
  next
    case (Cons y ys)
    then have "py_join [newline, newline] (source_blocks n (x # cs))
        = source_block n x @ [newline, newline] @ py_join [newline, newline] (source_blocks (n + 1) cs)" by simp
    then show ?thesis
      using source_block_angles [OF Cons.prems] Cons.IH [OF Cons.prems] nl by (simp only: count_char_append) simp
  qed
qed (simp add: count_char_def)

text \<open>Sources cannot break out: a document's text, title or reference cannot close its source element or open
  another, as the rendered sources hold exactly two opening and two closing angle brackets per source.\<close>

theorem sources_contained:
  "count_char CHR ''<'' (render_sources chunks) = 2 * length chunks \<and> count_char CHR ''>'' (render_sources chunks) = 2 * length chunks"
  by (simp add: render_sources_def source_blocks_angles)

section \<open>Re-pointing\<close>

lemma best_source_is_best:
  assumes "held \<noteq> []"
  shows "1 \<le> best_source held missing \<and> best_source held missing \<le> length held
    \<and> (\<forall>h \<in> set held. gain missing h \<le> gain missing (held ! (best_source held missing - 1)))"
proof -
  define gs where "gs = map (gain missing) held"
  define m where "m = foldl max 0 gs"
  have max: "\<forall>g \<in> set gs. g \<le> m" "m \<in> insert 0 (set gs)"
    using foldl_max [of 0 gs] by (auto simp: m_def)
  moreover have "hd gs \<in> set gs" using assms by (cases held) (auto simp: gs_def)
  ultimately have "m \<in> set gs" by (cases "m = 0") auto
  have less: "length (takeWhile (\<lambda>g. g \<noteq> m) gs) < length gs"
  proof (rule ccontr)
    assume "\<not> length (takeWhile (\<lambda>g. g \<noteq> m) gs) < length gs"
    then have eq: "takeWhile (\<lambda>g. g \<noteq> m) gs = gs"
      using takeWhile_eq_take [of "\<lambda>g. g \<noteq> m" gs] by simp
    have "m \<notin> set (takeWhile (\<lambda>g. g \<noteq> m) gs)" by (auto dest: set_takeWhileD)
    with \<open>m \<in> set gs\<close> show False unfolding eq by blast
  qed
  then have "gs ! length (takeWhile (\<lambda>g. g \<noteq> m) gs) = m"
    using nth_length_takeWhile [of "\<lambda>g. g \<noteq> m" gs] by simp
  moreover have "best_source held missing = 1 + length (takeWhile (\<lambda>g. g \<noteq> m) gs)"
    by (simp add: best_source_def Let_def gs_def m_def)
  ultimately show ?thesis
    using less max(1) by (auto simp: gs_def)
qed

text \<open>Re-pointing covers what can be covered: every figure that some source states is stated by one of the chosen
  sources, and each chosen source is one of those provided.\<close>

theorem cover_complete:
  "list_all (\<lambda>f. list_ex (\<lambda>k. f \<in> set (held ! (k - 1))) (cover held missing)) (filter (\<lambda>f. list_ex (\<lambda>h. f \<in> set h) held) missing)
   \<and> list_all (\<lambda>k. 1 \<le> k \<and> k \<le> length held) (cover held missing)"
proof (induction held missing rule: cover.induct)
  case (1 held missing)
  define best where "best = best_source held missing"
  show ?case
  proof (cases "missing = [] \<or> held = [] \<or> gain missing (held ! (best - 1)) = 0")
    case True
    then have c: "cover held missing = []" by (subst cover.simps) (simp add: best_def)
    have "\<not> list_ex (\<lambda>h. f \<in> set h) held" if "f \<in> set missing" for f
    proof
      assume "list_ex (\<lambda>h. f \<in> set h) held"
      then obtain h where h: "h \<in> set held" "f \<in> set h" by (auto simp: list_ex_iff)
      then have "held \<noteq> []" by auto
      with True that h(1) have "gain missing h = 0"
        using best_source_is_best [of held missing] by (auto simp: best_def)
      with that h(2) show False by (auto simp: gain_def filter_empty_conv)
    qed
    then have "filter (\<lambda>f. list_ex (\<lambda>h. f \<in> set h) held) missing = []" by (simp add: filter_empty_conv)
    then show ?thesis by (simp add: c)
  next
    case False
    let ?rest = "filter (\<lambda>f. f \<notin> set (held ! (best - 1))) missing"
    have c: "cover held missing = best # cover held ?rest"
      using False by (subst cover.simps) (simp add: best_def [symmetric] Let_def)
    note IH = 1 [OF best_def False]
    show ?thesis
      unfolding c using IH best_source_is_best [of held missing] False by (auto simp: list_all_iff best_def [symmetric])
  qed
qed

end
