(* ===== verification/Service.thy ===== *)
theory Service
  imports Routing Rag Executor
begin

text \<open>
  \<open>agent/service.py\<close>: the fixed replies, the review of near misses by a judge, the grounded answer with its escalation
  to a larger model, what an abstention offers, and the rendering of tool results.
\<close>

section \<open>Fixed replies\<close>

definition CAPABILITIES :: string where
  "CAPABILITIES = ''I answer from the company documents you are allowed to read, always with a citation, ''
     @ ''and I can check server status or open a support ticket. A VPN profile needs a separate ''
     @ ''approval before it is created.''"

definition REFUSAL :: string where
  "REFUSAL = ''I can't do that: none of my tools does it, and nothing can skip an approval or a ''
     @ ''permission check. '' @ CAPABILITIES"

text \<open>\<open>principal.name.split()[0]\<close> of a blank name is an IndexError.\<close>

definition greeting_reply :: "principal \<Rightarrow> string option" where
  "greeting_reply p =
     (case py_split_ws (p_name p) of
        [] \<Rightarrow> None
      | w # _ \<Rightarrow> Some (''Hello '' @ w @ ''. '' @ CAPABILITIES))"

section \<open>Review of near misses\<close>

text \<open>The passage numbers the judge admitted: a set of proper integers in range, sorted.\<close>

definition admitted_passages :: "(string \<Rightarrow> raw_args option) \<Rightarrow> string \<Rightarrow> nat \<Rightarrow> nat list" where
  "admitted_passages loads reply offered =
     (case braced reply of
        None \<Rightarrow> []
      | Some obj \<Rightarrow>
          (case loads obj of
             None \<Rightarrow> []
           | Some data \<Rightarrow>
               (case jget data ''relevant'' of
                  Some (JList found) \<Rightarrow>
                    sort (remdups (map nat (filter (\<lambda>n. 1 \<le> n \<and> n \<le> int offered)
                      (somes (map (\<lambda>v. case v of JInt n \<Rightarrow> Some n | _ \<Rightarrow> None) found)))))
                | _ \<Rightarrow> [])))"

definition most_classified :: "retrieved_chunk list \<Rightarrow> string option" where
  "most_classified cs = (case map rc_classification cs of [] \<Rightarrow> None | c # r \<Rightarrow> Some (max_rank c r))"

definition admit_reviewed :: "nat list \<Rightarrow> retrieval_result \<Rightarrow> retrieval_result" where
  "admit_reviewed admitted r =
     r\<lparr>rr_chunks := map (\<lambda>n. rr_near_misses r ! (n - 1)) admitted,
       rr_reviewed := length (rr_near_misses r), rr_admitted_by_review := length admitted\<rparr>"

definition review_near_misses ::
  "agent_env \<Rightarrow> string \<Rightarrow> string option \<Rightarrow> retrieval_result \<Rightarrow> gw_state \<Rightarrow> (call_failure + retrieval_result) \<times> gw_state" where
  "review_near_misses e question model_choice r st =
     (if rr_chunks r \<noteq> [] \<or> rr_near_misses r = [] then (Inr r, st)
      else
        let offered = rr_near_misses r in
        case ag_chat e (or_text (se_router_model (ag_settings e)) model_choice)
               (gate_review_messages (ag_review_prompt e) question offered) \<lparr>cp_temperature = Some 0, cp_max_tokens = 150\<rparr>
               (allows_egress (ag_settings e) (most_classified offered)) st of
          (Inl (CallGatewayError c atts), st') \<Rightarrow> (Inr (admit_reviewed [] r), st')
        | (Inl x, st') \<Rightarrow> (Inl x, st')
        | (Inr out, st') \<Rightarrow>
            (Inr (admit_reviewed (admitted_passages (ag_loads e) (cr_content (co_result out)) (length offered)) r), st'))"

section \<open>Warning signs in an answer\<close>

definition skip_space1 :: "string \<Rightarrow> string option" where
  "skip_space1 s = (let t = dropWhile py_space s in if t = s then None else Some t)"

text \<open>One of the words with a word boundary after it.\<close>

definition whole_word_at :: "string list \<Rightarrow> string \<Rightarrow> bool" where
  "whole_word_at ws s \<longleftrightarrow>
     list_ex (\<lambda>w. py_startswith s w \<and> (let r = drop (length w) s in r = [] \<or> \<not> word_char (hd r))) ws"

definition spaced_word_at :: "string list \<Rightarrow> string \<Rightarrow> bool" where
  "spaced_word_at ws s \<longleftrightarrow> (case skip_space1 s of None \<Rightarrow> False | Some t \<Rightarrow> whole_word_at ws t)"

definition covering_verbs :: "string list" where
  "covering_verbs = [''mention'', ''cover'', ''specify'', ''provide'', ''contain'', ''say'', ''include'']"

definition after_negation :: "string \<Rightarrow> string option" where
  "after_negation s =
     (let t = dropWhile py_space s;
          u = (if py_startswith t ''n'' then tl t else []);
          v = (if py_startswith u ''o'' \<or> py_startswith u [CHR 0x27] then tl u else u)
      in if py_startswith t ''n'' \<and> py_startswith v ''t'' then Some (tl v) else None)"

text \<open>The three alternatives of \<open>_NOT_COVERED\<close> at a word boundary of the lower-cased text.\<close>

definition not_covered_at :: "string \<Rightarrow> bool" where
  "not_covered_at s \<longleftrightarrow>
     list_ex (\<lambda>w. py_startswith s w \<and>
        (case after_negation (drop (length w) s) of None \<Rightarrow> False | Some r \<Rightarrow> spaced_word_at covering_verbs r))
       [''does'', ''do'', ''did'']
     \<or> (py_startswith s ''not'' \<and> spaced_word_at [''specified'', ''mentioned'', ''covered'', ''stated''] (drop 3 s))
     \<or> (py_startswith s ''no'' \<and> spaced_word_at [''information'', ''mention''] (drop 2 s))"

fun search_boundary :: "(string \<Rightarrow> bool) \<Rightarrow> bool \<Rightarrow> string \<Rightarrow> bool" where
  "search_boundary P boundary [] = False"
| "search_boundary P boundary (c # cs) = ((boundary \<and> P (c # cs)) \<or> search_boundary P (\<not> word_char c) cs)"

definition states_not_covered :: "string \<Rightarrow> bool" where
  "states_not_covered text = search_boundary not_covered_at True (py_lower text)"

definition escalation_reason :: "grounded_answer \<Rightarrow> bool \<Rightarrow> string option" where
  "escalation_reason a retrieved =
     (if \<not> retrieved \<or> ga_abstained a then None
      else if ga_citations a = [] then Some ''uncited''
      else if states_not_covered (ga_text a) then Some ''not_covered''
      else None)"

datatype answer_choice = FirstAnswer | SecondAnswer

definition pick_answer :: "grounded_answer \<Rightarrow> grounded_answer \<Rightarrow> answer_choice" where
  "pick_answer a b = (if ga_citations b \<noteq> [] \<and> \<not> ga_abstained b then SecondAnswer else FirstAnswer)"

section \<open>What an abstention offers\<close>

definition clarify_hint :: "principal option \<Rightarrow> string" where
  "clarify_hint who =
     (case who of
        None \<Rightarrow> []
      | Some p \<Rightarrow>
          (let departments = sort_key (map py_ord) (writable_departments p) in
           if departments \<noteq> []
           then '' If this should be covered, rephrase the question with more detail, or upload ''
              @ ''the relevant document ('' @ py_join '', '' departments @ '') from the console.''
           else '' If this should be covered, rephrase the question with more detail, or ask your ''
              @ ''department's document owner to publish it.''))"

record suggested_action =
  sa_tool :: string
  sa_label :: string
  sa_arguments :: raw_args

definition gap_details :: "string \<Rightarrow> string \<Rightarrow> string" where
  "gap_details department asked =
     ''The assistant could not answer this from the documents approved for ''
     @ department @ ''. Please publish a document that covers it, or reply ''
     @ ''with where it is documented.'' @ [newline, newline] @ ''Question: '' @ take 3000 asked"

definition knowledge_gap_ticket :: "string \<Rightarrow> principal option \<Rightarrow> suggested_action option" where
  "knowledge_gap_ticket question who =
     (case who of
        None \<Rightarrow> None
      | Some p \<Rightarrow>
          if \<not> has_perm p ''ticket:create'' then None
          else
            (let asked = py_join '' '' (py_split_ws question) in
             Some \<lparr>sa_tool = ''create_support_ticket'', sa_label = ''Raise a ticket for the document owner'',
                   sa_arguments = [(''title'', JStr (''Knowledge gap: '' @ take 150 asked)), (''severity'', JStr ''low''),
                     (''details'', JStr (gap_details (p_department p) asked))]\<rparr>))"

definition clarifying_abstention :: "principal option \<Rightarrow> grounded_answer" where
  "clarifying_abstention who =
     (let raise = (case who of None \<Rightarrow> False | Some p \<Rightarrow> has_perm p ''ticket:create'');
          hint = clarify_hint who @ (if raise then '' You can also raise a ticket for the document owner.'' else [])
      in \<lparr>ga_text = ABSTAIN @ hint, ga_citations = [], ga_abstained = True, ga_invalid_citations = 0, ga_repointed_citations = 0\<rparr>)"

section \<open>The grounded answer\<close>

record escalation =
  es_reason :: string
  es_first_model :: string
  es_model :: string
  es_outcome :: string

text \<open>\<open>AnswerResult\<close>; the retrieval result and the gateway's outcome object are at hand where it is used, and the tool field is
  never set.\<close>

record answer_result =
  an_text :: string
  an_answer :: grounded_answer
  an_usage :: usage
  an_cost_usd :: rat
  an_route :: "string option"
  an_model_id :: "string option"
  an_provider :: "string option"
  an_fallback_used :: bool
  an_finish_reason :: "string option"
  an_attempts :: "attempt_record list"
  an_error :: "(gateway_code \<times> attempt_record list) option"
  an_escalation :: "escalation option"
  an_suggested_action :: "suggested_action option"

definition bare_result :: "grounded_answer \<Rightarrow> string option \<Rightarrow> answer_result" where
  "bare_result a route =
     \<lparr>an_text = ga_text a, an_answer = a, an_usage = no_usage, an_cost_usd = 0, an_route = route, an_model_id = None,
      an_provider = None, an_fallback_used = False, an_finish_reason = None, an_attempts = [], an_error = None,
      an_escalation = None, an_suggested_action = None\<rparr>"

definition result_of :: "grounded_answer \<Rightarrow> chat_result call_outcome \<Rightarrow> answer_result" where
  "result_of a out =
     (bare_result a (Some (co_route out)))
       \<lparr>an_usage := cr_usage (co_result out), an_cost_usd := outcome_cost out, an_model_id := Some (ms_id (co_model out)),
        an_provider := Some (ms_provider (co_model out)), an_fallback_used := fallback_used out,
        an_finish_reason := cr_finish_reason (co_result out), an_attempts := co_attempts out\<rparr>"

definition with_gap_ticket :: "answer_result \<Rightarrow> string \<Rightarrow> principal option \<Rightarrow> answer_result" where
  "with_gap_ticket r question who =
     (if ga_abstained (an_answer r) then r\<lparr>an_suggested_action := knowledge_gap_ticket question who\<rparr> else r)"

definition failed_answer :: "gateway_code \<Rightarrow> attempt_record list \<Rightarrow> answer_result" where
  "failed_answer c atts = (bare_result abstention None)\<lparr>an_text := [], an_error := Some (c, atts)\<rparr>"

definition sum_usage :: "usage \<Rightarrow> usage \<Rightarrow> usage" where
  "sum_usage a b =
     \<lparr>prompt_tokens = prompt_tokens a + prompt_tokens b, completion_tokens = completion_tokens a + completion_tokens b,
      usage_estimated = (usage_estimated a \<or> usage_estimated b)\<rparr>"

text \<open>\<open>finalize\<close>, with an abstention replaced by the one that says what to do next.\<close>

definition finished_answer :: "string \<Rightarrow> retrieved_chunk list \<Rightarrow> principal option \<Rightarrow> grounded_answer" where
  "finished_answer raw chunks who =
     (let a = finalize raw chunks in if ga_abstained a then clarifying_abstention who else a)"

text \<open>The second call, its answer next to the first, and what is kept of both.\<close>

definition escalate ::
  "agent_env \<Rightarrow> string \<Rightarrow> string \<Rightarrow> chat_message list \<Rightarrow> chat_params \<Rightarrow> bool \<Rightarrow> retrieved_chunk list
   \<Rightarrow> grounded_answer \<Rightarrow> chat_result call_outcome \<Rightarrow> gw_state \<Rightarrow> (call_failure + answer_result) \<times> gw_state" where
  "escalate e larger reason messages params allow_egress chunks first out st =
     (let esc = (\<lambda>o'. \<lparr>es_reason = reason, es_first_model = ms_id (co_model out), es_model = larger, es_outcome = o'\<rparr>) in
      case ag_chat e (Some larger) messages params allow_egress st of
        (Inl (CallGatewayError c atts), st') \<Rightarrow>
          (Inr ((result_of first out)\<lparr>an_escalation := Some (esc ''unavailable'')\<rparr>), st')
      | (Inl x, st') \<Rightarrow> (Inl x, st')
      | (Inr out2, st') \<Rightarrow>
          (let second = finalize (cr_content (co_result out2)) chunks;
               chosen = (case pick_answer first second of
                           SecondAnswer \<Rightarrow> (result_of second out2)\<lparr>an_escalation := Some (esc ''used'')\<rparr>
                         | FirstAnswer \<Rightarrow> (result_of first out)\<lparr>an_escalation := Some (esc ''kept_first'')\<rparr>)
           in (Inr (chosen\<lparr>an_usage := sum_usage (cr_usage (co_result out)) (cr_usage (co_result out2)),
                           an_cost_usd := outcome_cost out + outcome_cost out2,
                           an_attempts := co_attempts out @ co_attempts out2\<rparr>), st')))"

definition answer_from_knowledge ::
  "agent_env \<Rightarrow> string \<Rightarrow> chat_message list \<Rightarrow> retrieval_result \<Rightarrow> string option \<Rightarrow> chat_params \<Rightarrow> bool \<Rightarrow> string option
   \<Rightarrow> principal option \<Rightarrow> gw_state \<Rightarrow> (call_failure + answer_result) \<times> gw_state" where
  "answer_from_knowledge e question history r model_choice params allow_egress escalation_model who st =
     (if rr_chunks r = []
      then (Inr (with_gap_ticket (bare_result (clarifying_abstention who) (Some ''knowledge'')) question who), st)
      else
        let messages = build_messages (ag_system_prompt e) question (rr_chunks r) history (0 < rr_admitted_by_review r) in
        case ag_chat e model_choice messages params allow_egress st of
          (Inl (CallGatewayError c atts), st') \<Rightarrow> (Inr (failed_answer c atts), st')
        | (Inl x, st') \<Rightarrow> (Inl x, st')
        | (Inr out, st') \<Rightarrow>
            (let a = finished_answer (cr_content (co_result out)) (rr_chunks r) who in
             case escalation_reason a (rr_chunks r \<noteq> []) of
               None \<Rightarrow> (Inr (with_gap_ticket (result_of a out) question who), st')
             | Some reason \<Rightarrow>
                 if \<not> nonempty escalation_model \<or> escalation_model = Some (ms_id (co_model out))
                 then (Inr (with_gap_ticket (result_of a out) question who), st')
                 else escalate e (the escalation_model) reason messages params allow_egress (rr_chunks r) a out st'))"

section \<open>Tool results in words\<close>

text \<open>\<open>data.get(key)\<close>, and as text in an f-string.\<close>

definition get_value :: "raw_args \<Rightarrow> string \<Rightarrow> json" where
  "get_value data k = (case jget data k of None \<Rightarrow> JNull | Some v \<Rightarrow> v)"

definition get_text :: "raw_args \<Rightarrow> string \<Rightarrow> string" where
  "get_text data k = json_str (get_value data k)"

definition describe_server :: "raw_args \<Rightarrow> string" where
  "describe_server data =
     (let parts = [get_text data ''server_id'' @ '' ('' @ get_text data ''environment'' @ '', owned by ''
                     @ get_text data ''owner_department'' @ '') is '' @ get_text data ''status'' @ ''.'',
                   ''Last checked '' @ get_text data ''last_check'' @ ''.'',
                   (if jget data ''cpu_pct'' \<noteq> None
                    then (if get_value data ''cpu_pct'' = JNull then ''CPU and memory are not reported for this server.''
                          else ''CPU '' @ get_text data ''cpu_pct'' @ ''%, memory '' @ get_text data ''memory_pct'' @ ''%.'')
                    else (if jget data ''utilisation'' = None then [] else get_text data ''utilisation''))]
      in py_join '' '' (filter (\<lambda>p. p \<noteq> []) parts))"

definition describe_ticket :: "raw_args \<Rightarrow> string" where
  "describe_ticket data =
     (let title = get_value data ''title'';
          named = (if truthy title then '' '' @ quoted (json_str title) else []);
          severity = get_value data ''severity'';
          sev = (if truthy severity then '' with severity '' @ json_str severity else []);
          details = get_value data ''details''
      in if truthy (get_value data ''duplicate'')
         then ''Ticket '' @ get_text data ''ticket_id'' @ named @ '' already covers this; '' @ ''it was not created twice.''
         else py_join '' ''
                ((''Ticket '' @ get_text data ''ticket_id'' @ named @ '' is open'' @ sev @ ''.'')
                 # (if truthy details then [''Details as recorded: '' @ json_str details] else [])))"

definition describe_ticket_read :: "raw_args \<Rightarrow> string" where
  "describe_ticket_read data =
     get_text data ''ticket_id'' @ '' '' @ [CHR 0x97] @ '' '' @ get_text data ''title'' @ '' (''
     @ get_text data ''severity'' @ '', '' @ get_text data ''status'' @ ''), raised by ''
     @ get_text data ''raised_by'' @ '' on '' @ take 10 (get_text data ''raised_at'') @ ''.'' @ [newline]
     @ ''Details as recorded: '' @ get_text data ''details''"

text \<open>A hit is an object; for any other value \<open>h.get\<close> would not exist.\<close>

definition describe_hits :: "raw_args \<Rightarrow> string" where
  "describe_hits data =
     (if \<not> truthy (get_value data ''count'') then ''I found nothing on that in the documents you may read.''
      else
        let refs = (case jget data ''hits'' of
                      Some (JList hs) \<Rightarrow> map (\<lambda>h. case h of JObj f \<Rightarrow> get_text f ''ref'' | _ \<Rightarrow> []) hs | _ \<Rightarrow> [])
        in ''I found '' @ get_text data ''count'' @ '' passage(s): '' @ py_join '', '' refs @ ''.'')"

definition describe_tool_result :: "string \<Rightarrow> raw_args \<Rightarrow> string" where
  "describe_tool_result tool data =
     (if tool = ''get_server_status'' then describe_server data
      else if tool = ''create_support_ticket'' then describe_ticket data
      else if tool = ''get_support_ticket'' then describe_ticket_read data
      else if tool = ''create_vpn_profile'' then
        ''VPN profile '' @ get_text data ''profile_id'' @ '' created for '' @ get_text data ''employee_id''
        @ '', valid until '' @ get_text data ''expires_at'' @ ''.''
      else if tool = ''search_internal_docs'' then describe_hits data
      else ''Done.'')"

end
