(* ===== verification/Conversations.thy ===== *)
theory Conversations
  imports Upload
begin

text \<open>
  \<open>conversations.py\<close> and the tables behind it: conversations with their owner, messages numbered by an
  identity column, and the lookups, all scoped to the caller. The tables are lists; new rows go to the end.
\<close>

section \<open>Tables\<close>

record conversation =
  cv_id :: string
  cv_user_id :: string
  cv_title :: "string option"
  cv_summary :: "string option"
  cv_summary_upto_seq :: "int option"
  cv_context_classification :: "string option"
  cv_model_id :: "string option"

record message =
  mg_seq :: int
  mg_conversation_id :: string
  mg_role :: string
  mg_content :: string
  mg_status :: string
  mg_model_id :: "string option"
  mg_request_id :: string
  mg_prompt_tokens :: "nat option"
  mg_completion_tokens :: "nat option"
  mg_citations :: "json list option"

record chat_store =
  cs_conversations :: "conversation list"
  cs_messages :: "message list"
  cs_next_seq :: int
  cs_uuids :: nat

datatype conversation_error = ConversationNotFound string

definition message_checked :: "message \<Rightarrow> bool" where
  "message_checked m \<longleftrightarrow> mg_role m \<in> set [''user'', ''assistant'']
     \<and> mg_status m \<in> set [''complete'', ''partial'', ''error'']"

section \<open>Operations\<close>

definition get_owned :: "chat_store \<Rightarrow> string \<Rightarrow> string \<Rightarrow> conversation_error + conversation" where
  "get_owned cs conversation_id user_id =
     (case find (\<lambda>c. cv_id c = conversation_id \<and> cv_user_id c = user_id) (cs_conversations cs) of
        None \<Rightarrow> Inl (ConversationNotFound conversation_id)
      | Some c \<Rightarrow> Inr c)"

definition get_or_create ::
  "(nat \<Rightarrow> string) \<Rightarrow> string option \<Rightarrow> string \<Rightarrow> string \<Rightarrow> chat_store \<Rightarrow> (conversation_error + conversation) \<times> chat_store" where
  "get_or_create uuid conversation_id user_id first_message cs =
     (case conversation_id of
        Some i \<Rightarrow> (get_owned cs i user_id, cs)
      | None \<Rightarrow>
          (let c = \<lparr>cv_id = uuid (cs_uuids cs), cv_user_id = user_id, cv_title = Some (take 80 first_message),
                    cv_summary = None, cv_summary_upto_seq = None, cv_context_classification = None, cv_model_id = None\<rparr>
           in (Inr c, cs\<lparr>cs_conversations := cs_conversations cs @ [c], cs_uuids := cs_uuids cs + 1\<rparr>)))"

definition new_message :: "string \<Rightarrow> string \<Rightarrow> string \<Rightarrow> string \<Rightarrow> message" where
  "new_message conversation_id r content request_id =
     \<lparr>mg_seq = 0, mg_conversation_id = conversation_id, mg_role = r, mg_content = content, mg_status = ''complete'',
      mg_model_id = None, mg_request_id = request_id, mg_prompt_tokens = None, mg_completion_tokens = None,
      mg_citations = None\<rparr>"

text \<open>The identity column numbers the row when it is inserted.\<close>

definition add_message :: "message \<Rightarrow> chat_store \<Rightarrow> message \<times> chat_store" where
  "add_message m cs =
     (let row = m\<lparr>mg_seq := cs_next_seq cs\<rparr>
      in (row, cs\<lparr>cs_messages := cs_messages cs @ [row], cs_next_seq := cs_next_seq cs + 1\<rparr>))"

definition store_ok :: "chat_store \<Rightarrow> bool" where
  "store_ok cs \<longleftrightarrow> sorted_wrt (<) (map mg_seq (cs_messages cs)) \<and> list_all (\<lambda>m. 0 < mg_seq m \<and> mg_seq m < cs_next_seq cs) (cs_messages cs)
     \<and> 0 < cs_next_seq cs"

section \<open>Properties\<close>

lemma add_message_ok: "store_ok cs \<Longrightarrow> store_ok (snd (add_message m cs))"
  by (auto simp: store_ok_def add_message_def Let_def sorted_wrt_append list_all_iff)

lemma get_owned_owner: "get_owned cs i u = Inr c \<Longrightarrow> cv_user_id c = u \<and> cv_id c = i \<and> c \<in> set (cs_conversations cs)"
  by (auto simp: get_owned_def split: option.splits dest: find_SomeD)

lemma find_filter: "find (\<lambda>x. P x \<and> Q x) xs = find (\<lambda>x. P x \<and> Q x) (filter Q xs)"
  by (induction xs) auto

text \<open>Conversations are isolated: what a caller gets for a conversation id does not depend on anyone else's
  conversations - with all of them taken out of the table the answer is the same - so a foreign id is answered
  exactly as one that does not exist, and a conversation that is found is the caller's own.\<close>

theorem conversations_isolated:
  "get_owned cs i u = get_owned (cs\<lparr>cs_conversations := filter (\<lambda>c. cv_user_id c = u) (cs_conversations cs)\<rparr>) i u
   \<and> (case fst (get_or_create uuid j u m cs) of Inl e \<Rightarrow> j \<noteq> None | Inr c \<Rightarrow> cv_user_id c = u)"
proof
  show "get_owned cs i u = get_owned (cs\<lparr>cs_conversations := filter (\<lambda>c. cv_user_id c = u) (cs_conversations cs)\<rparr>) i u"
    using find_filter [of "\<lambda>c. cv_id c = i" "\<lambda>c. cv_user_id c = u" "cs_conversations cs"]
    by (simp add: get_owned_def)
  show "case fst (get_or_create uuid j u m cs) of Inl e \<Rightarrow> j \<noteq> None | Inr c \<Rightarrow> cv_user_id c = u"
    by (auto simp: get_or_create_def Let_def split: option.splits sum.splits dest: get_owned_owner)
qed

end
