(* ===== verification/Agent.thy ===== *)
theory Agent
  imports Service Memory
begin

text \<open>
  The agent graph of \<open>agent/graph.py\<close>: \<open>classify\<close>, the four nodes behind it, and the pause of a conversation that
  waits for an approver. The graph runs on LangGraph, which keeps one durable thread per conversation: a node that
  calls \<open>interrupt\<close> stops there and its thread is kept as paused. \<open>interrupt\<close> itself returns the approver's
  decision when it is given one, so a node has the decision as an argument.
\<close>

section \<open>State\<close>

record chat_deps =
  hd_tools :: tool_deps
  hd_ask :: "nat \<Rightarrow> model_spec \<Rightarrow> chat_message list \<Rightarrow> chat_params \<Rightarrow> rat \<times> chat_result reply"
  hd_loads :: "string \<Rightarrow> raw_args option"
  hd_router_prompt :: string
  hd_system_prompt :: string
  hd_review_prompt :: string
  hd_uuid :: "nat \<Rightarrow> string"
  hd_agent :: bool

definition env_of :: "chat_deps \<Rightarrow> agent_env" where
  "env_of d =
     \<lparr>ag_gateway = td_gateway (hd_tools d), ag_rnd = td_rnd (hd_tools d), ag_ask = hd_ask d, ag_loads = hd_loads d,
      ag_lax = td_lax (hd_tools d), ag_router_prompt = hd_router_prompt d, ag_system_prompt = hd_system_prompt d,
      ag_review_prompt = hd_review_prompt d, ag_settings = td_settings (hd_tools d)\<rparr>"

record agent_state =
  gs_question :: string
  gs_user_id :: string
  gs_request_id :: string
  gs_conversation_id :: "string option"
  gs_model_choice :: "string option"

text \<open>A tool's part of the reply: the graph's payload, and \<open>ToolOut\<close> of the API.\<close>

record tool_reply =
  ty_name :: string
  ty_status :: string
  ty_message :: string
  ty_data :: json
  ty_pending_action_id :: "string option"
  ty_action_hash :: "string option"

record interrupt_value =
  iv_pending_action_id :: "string option"
  iv_action_hash :: "string option"
  iv_summary :: string

record resume_payload =
  rp_status :: string
  rp_message :: string
  rp_data :: json

datatype graph_result = GSmallTalk string | GRefuse string | GKnowledge | GTool tool_reply

datatype node_end = NodeDone graph_result | NodeInterrupted interrupt_value | NodeRaised string | NodeCallFailed call_failure

fun status_text :: "tool_status \<Rightarrow> string" where
  "status_text StatusOk = ''ok''"
| "status_text StatusDenied = ''denied''"
| "status_text StatusPending = ''pending''"
| "status_text StatusError = ''error''"

section \<open>Nodes\<close>

definition small_talk_node :: "agent_state \<Rightarrow> tool_world \<Rightarrow> node_end" where
  "small_talk_node gs w =
     (case principal_of (db_users (tw_db w)) (gs_user_id gs) of
        None \<Rightarrow> NodeRaised ''AssertionError''
      | Some p \<Rightarrow> (case greeting_reply p of None \<Rightarrow> NodeRaised ''IndexError'' | Some t \<Rightarrow> NodeDone (GSmallTalk t)))"

definition tool_payload :: "tool_outcome \<Rightarrow> tool_reply" where
  "tool_payload out =
     \<lparr>ty_name = to_tool out, ty_status = status_text (to_status out), ty_message = to_message out, ty_data = to_data out,
      ty_pending_action_id = to_pending_action_id out, ty_action_hash = to_action_hash out\<rparr>"

definition unknown_user_reply :: tool_reply where
  "unknown_user_reply =
     \<lparr>ty_name = [], ty_status = ''denied'', ty_message = ''unknown user'', ty_data = JNull, ty_pending_action_id = None,
      ty_action_hash = None\<rparr>"

definition node_context :: "agent_state \<Rightarrow> tool_context" where
  "node_context gs =
     \<lparr>tc_request_id = gs_request_id gs,
      tc_conversation_id = (if nonempty (gs_conversation_id gs) then gs_conversation_id gs else None),
      tc_user_message = Some (gs_question gs)\<rparr>"

text \<open>What the node does with an outcome; only a pending one reaches \<open>interrupt\<close>.\<close>

definition after_tool :: "resume_payload option \<Rightarrow> tool_outcome \<Rightarrow> node_end" where
  "after_tool decision out =
     (if to_status out \<noteq> StatusPending then NodeDone (GTool (tool_payload out))
      else case decision of
             None \<Rightarrow> NodeInterrupted \<lparr>iv_pending_action_id = to_pending_action_id out, iv_action_hash = to_action_hash out,
                                      iv_summary = to_message out\<rparr>
           | Some dec \<Rightarrow> NodeDone (GTool ((tool_payload out)
                            \<lparr>ty_status := rp_status dec, ty_message := rp_message dec, ty_data := rp_data dec\<rparr>)))"

definition tool_node ::
  "tool_deps \<Rightarrow> int \<Rightarrow> agent_state \<Rightarrow> string \<Rightarrow> raw_args \<Rightarrow> resume_payload option \<Rightarrow> tool_world \<Rightarrow> node_end \<times> tool_world" where
  "tool_node d now gs tool args decision w =
     (case principal_of (db_users (tw_db w)) (gs_user_id gs) of
        None \<Rightarrow> (NodeDone (GTool unknown_user_reply), w)
      | Some p \<Rightarrow>
          (case run_tool d now p tool args (node_context gs) w of
             (Escaped x, w') \<Rightarrow> (NodeRaised x, w')
           | (Finished out, w') \<Rightarrow> (after_tool decision out, w')))"

section \<open>The graph\<close>

definition graph_step :: "chat_deps \<Rightarrow> int \<Rightarrow> agent_state \<Rightarrow> route_choice \<Rightarrow> tool_world \<Rightarrow> node_end \<times> tool_world" where
  "graph_step d now gs dec w =
     (case dec of
        DSmallTalk \<Rightarrow> (small_talk_node gs w, w)
      | DRefuse \<Rightarrow> (NodeDone (GRefuse REFUSAL), w)
      | DKnowledge \<Rightarrow> (NodeDone GKnowledge, w)
      | DTool tool args \<Rightarrow> tool_node (hd_tools d) now gs tool args None w)"

text \<open>A thread that is paused: the state its node runs on.\<close>

record paused =
  pz_state :: agent_state
  pz_tool :: string
  pz_arguments :: raw_args

record chat_world =
  cw_tools :: tool_world
  cw_chat :: chat_store
  cw_paused :: "(string, paused) dict"

definition on_gateway_state :: "gw_state \<Rightarrow> chat_world \<Rightarrow> chat_world" where
  "on_gateway_state st w = w\<lparr>cw_tools := (cw_tools w)\<lparr>tw_gateway := st\<rparr>\<rparr>"

definition gateway_of :: "chat_world \<Rightarrow> gw_state" where
  "gateway_of w = tw_gateway (cw_tools w)"

text \<open>\<open>agent.ainvoke(state, config)\<close> on the thread \<open>conversation:<id>\<close>: the result, and the thread paused or not.\<close>

definition thread_of :: "agent_state \<Rightarrow> string" where
  "thread_of gs = ''conversation:'' @ (case gs_conversation_id gs of None \<Rightarrow> ''None'' | Some c \<Rightarrow> c)"

definition pause_thread :: "agent_state \<Rightarrow> route_choice \<Rightarrow> node_end \<Rightarrow> chat_world \<Rightarrow> chat_world" where
  "pause_thread gs dec fin w =
     (let rest = filter (\<lambda>kv. fst kv \<noteq> thread_of gs) (cw_paused w) in
      case (fin, dec) of
        (NodeInterrupted v, DTool tool args) \<Rightarrow>
          w\<lparr>cw_paused := rest @ [(thread_of gs, \<lparr>pz_state = gs, pz_tool = tool, pz_arguments = args\<rparr>)]\<rparr>
      | _ \<Rightarrow> w\<lparr>cw_paused := rest\<rparr>)"

definition agent_invoke :: "chat_deps \<Rightarrow> int \<Rightarrow> agent_state \<Rightarrow> chat_world \<Rightarrow> node_end \<times> chat_world" where
  "agent_invoke d now gs w =
     (case classify (env_of d) (gs_question gs) (gs_model_choice gs) (gateway_of w) of
        (Inl e, st) \<Rightarrow> (NodeCallFailed e, on_gateway_state st w)
      | (Inr dec, st) \<Rightarrow>
          (let w1 = on_gateway_state st w;
               r = graph_step d now gs dec (cw_tools w1)
           in (fst r, pause_thread gs dec (fst r) (w1\<lparr>cw_tools := snd r\<rparr>))))"

end
