(* ===== verification/GatewayStream.thy ===== *)
theory GatewayStream
  imports GatewayRun
begin

text \<open>
  \<open>LLMGateway.stream_chat\<close>: the streaming variant of the core loop, an async generator. What the
  provider's generator will deliver is a parameter, a list of steps each with the time it takes;
  the end of the list is \<open>StopAsyncIteration\<close>. The consumer of the events is a parameter too: it
  takes time between events and may close the generator at any of them.
\<close>

section \<open>Data\<close>

datatype stream_step = Yields stream_item | Breaks provider_error | StreamCancelled | StreamCrashes string

datatype stream_code = GatewayCode gateway_code | ProviderErrorMidStream

datatype stream_event =
    StreamStarted model_spec string bool
  | StreamText string
  | StreamCompleted model_spec usage "string option" rat "rat option" rat "attempt_record list"
  | StreamFailed stream_code string bool "attempt_record list"

text \<open>\<open>gone k\<close>: the consumer closes the generator (\<open>GeneratorExit\<close>) where it waits after
  delivering event \<open>k\<close>; \<open>pause k\<close> is the time that passes there.\<close>

record consumer =
  gone :: "nat \<Rightarrow> bool"
  pause :: "nat \<Rightarrow> rat"

record world =
  w_events :: "stream_event list"
  w_gw :: gw_state

definition emit :: "consumer \<Rightarrow> stream_event \<Rightarrow> world \<Rightarrow> bool \<times> world" where
  "emit c ev w =
     (gone c (length (w_events w)),
      \<lparr>w_events = w_events w @ [ev],
       w_gw = (w_gw w)\<lparr>st_now := st_now (w_gw w) + max 0 (pause c (length (w_events w)))\<rparr>\<rparr>)"

definition advance :: "rat \<Rightarrow> world \<Rightarrow> world" where
  "advance d w = w\<lparr>w_gw := (w_gw w)\<lparr>st_now := st_now (w_gw w) + max 0 d\<rparr>\<rparr>"

abbreviation w_now :: "world \<Rightarrow> rat" where
  "w_now w \<equiv> st_now (w_gw w)"

definition on_gateway :: "(gw_state \<Rightarrow> gw_state) \<Rightarrow> world \<Rightarrow> world" where
  "on_gateway f w = w\<lparr>w_gw := f (w_gw w)\<rparr>"

section \<open>One attempt\<close>

definition next_item ::
  "model_spec \<Rightarrow> rat \<Rightarrow> string \<Rightarrow> (rat \<times> stream_step) list \<Rightarrow> rat \<times> stream_step" where
  "next_item spec timeout phase items =
     (case items of
        [] \<Rightarrow> (0, Breaks (provider_exc ProviderResponseError (ms_provider spec)
                           ''stream ended without a completion marker'' None))
      | (d, x) # _ \<Rightarrow>
          if d < timeout then (d, x)
          else (timeout, Breaks (provider_exc ProviderTimeout (ms_provider spec)
                           (''no data within '' @ fmt1 timeout @ ''s ('' @ phase @ '')'') None)))"

text \<open>How the \<open>try\<close> block of an attempt is left.\<close>

datatype attempt_end =
    EndItem usage "string option"
  | EndError provider_error
  | EndGone
  | EndCrashed string

definition step_end :: "stream_step \<Rightarrow> attempt_end" where
  "step_end x = (case x of Breaks e \<Rightarrow> EndError e | StreamCancelled \<Rightarrow> EndGone
                 | StreamCrashes m \<Rightarrow> EndCrashed m | Yields _ \<Rightarrow> EndCrashed ''unreachable'')"

text \<open>\<open>while isinstance(item, StreamDelta)\<close>: \<open>items\<close> is what the provider still has to deliver.\<close>

function pump ::
  "gateway \<Rightarrow> consumer \<Rightarrow> model_spec \<Rightarrow> rat \<Rightarrow> stream_item \<Rightarrow> (rat \<times> stream_step) list \<Rightarrow> string list \<Rightarrow> world
   \<Rightarrow> attempt_end \<times> string list \<times> world" where
  "pump g c spec dl (StreamEnd u fr) items produced w = (EndItem u fr, produced, w)"
| "pump g c spec dl (StreamDelta t) items produced w =
     (let produced' = produced @ [t];
          y = emit c (StreamText t) w in
      if fst y then (EndGone, produced', snd y)
      else let idle = min (gw_stream_idle_timeout_s g) (dl - w_now (snd y)) in
           if idle \<le> 0
           then (EndError (provider_exc ProviderTimeout (ms_provider spec) ''stream exceeded request deadline'' None),
                 produced', snd y)
           else let nx = next_item spec idle ''next chunk'' items;
                    w' = advance (fst nx) (snd y)
                in case snd nx of
                     Yields item \<Rightarrow>
                       if items = [] then (EndCrashed ''unreachable'', produced', w')
                       else pump g c spec dl item (tl items) produced' w'
                   | x \<Rightarrow> (step_end x, produced', w'))"
  by pat_completeness auto
termination
  by (relation "measure (\<lambda>(_, _, _, _, _, items, _, _). length items)") auto

datatype stream_flow = StreamRetry | StreamNext | StreamOver | StreamClosed | StreamCrash string

text \<open>The record for an attempt whose consumer went away.\<close>

definition gone_record ::
  "chat_message list \<Rightarrow> model_spec \<Rightarrow> nat \<Rightarrow> rat \<Rightarrow> rat option \<Rightarrow> string list \<Rightarrow> world \<Rightarrow> world" where
  "gone_record messages spec n started ttft produced w =
     on_gateway (record_usage (mk_attempt Chat spec n CancelledOutcome started (w_now w)
                   (Some (partial_usage messages produced)) ttft None)) w"

definition stream_succeeded ::
  "consumer \<Rightarrow> chat_message list \<Rightarrow> rat \<Rightarrow> model_spec \<Rightarrow> nat \<Rightarrow> rat \<Rightarrow> rat option \<Rightarrow> string list \<Rightarrow> usage
   \<Rightarrow> string option \<Rightarrow> attempt_record list \<Rightarrow> world \<Rightarrow> stream_flow \<times> attempt_record list \<times> world" where
  "stream_succeeded c messages req_started spec n started ttft produced u fr attempts w =
     (let r = mk_attempt Chat spec n Success started (w_now w) (Some u) ttft None;
          w1 = on_gateway (record_usage r \<circ> breaker_success (ms_id spec)) w;
          y = emit c (StreamCompleted spec u fr (ms_since req_started (w_now w1)) ttft (ar_cost_usd r) (attempts @ [r])) w1
      in if fst y then (StreamClosed, attempts @ [r], gone_record messages spec n started ttft produced (snd y))
         else (StreamOver, attempts @ [r], snd y))"

definition stream_failed ::
  "gateway \<Rightarrow> consumer \<Rightarrow> chat_message list \<Rightarrow> provider_config \<Rightarrow> rat \<Rightarrow> model_spec \<Rightarrow> nat \<Rightarrow> rat \<Rightarrow> rat
   \<Rightarrow> rat option \<Rightarrow> string list \<Rightarrow> provider_error \<Rightarrow> attempt_record list \<Rightarrow> world
   \<Rightarrow> stream_flow \<times> attempt_record list \<times> world" where
  "stream_failed g c messages cfg dl spec n started r ttft produced e attempts w =
     (let emitted = ttft \<noteq> None;
          a = mk_attempt Chat spec n (error_outcome e) started (w_now w)
                (if emitted then Some (partial_usage messages produced) else None) ttft (Some e);
          w1 = on_gateway (record_usage a \<circ> update_breaker (ms_id spec) e) w;
          attempts' = attempts @ [a]
      in if emitted then
           (let y = emit c (StreamFailed ProviderErrorMidStream
                      ''the model provider failed while streaming; the answer is incomplete'' True attempts') w1
            in (if fst y then StreamClosed else StreamOver, attempts', snd y))
         else if pe_kind e = ProviderBadRequest then
           (let y = emit c (StreamFailed (GatewayCode BadRequest) ''the model rejected the request'' False attempts') w1
            in (if fst y then StreamClosed else StreamOver, attempts', snd y))
         else let ret = should_retry g e n (pc_max_attempts cfg) (ms_id spec) dl r (w_gw w1) in
              (if fst ret then StreamRetry else StreamNext, attempts', w1\<lparr>w_gw := snd ret\<rparr>))"

text \<open>From the first item on: the stream has started and cannot fall back any more.\<close>

definition stream_started ::
  "gateway \<Rightarrow> consumer \<Rightarrow> rat \<Rightarrow> chat_message list \<Rightarrow> string \<Rightarrow> rat \<Rightarrow> provider_config \<Rightarrow> rat \<Rightarrow> model_spec \<Rightarrow> nat
   \<Rightarrow> rat \<Rightarrow> stream_item \<Rightarrow> (rat \<times> stream_step) list \<Rightarrow> attempt_record list \<Rightarrow> world
   \<Rightarrow> stream_flow \<times> attempt_record list \<times> world" where
  "stream_started g c r messages route req_started cfg dl spec n started item rest attempts w =
     (let ttft = Some (ms_since started (w_now w));
          y = emit c (StreamStarted spec route (attempts \<noteq> [])) w
      in if fst y then (StreamClosed, attempts, gone_record messages spec n started ttft [] (snd y))
         else case pump g c spec dl item rest [] (snd y) of
                (EndItem u fr, produced, w2) \<Rightarrow>
                  stream_succeeded c messages req_started spec n started ttft produced u fr attempts w2
              | (EndError e, produced, w2) \<Rightarrow>
                  stream_failed g c messages cfg dl spec n started r ttft produced e attempts w2
              | (EndGone, produced, w2) \<Rightarrow>
                  (StreamClosed, attempts, gone_record messages spec n started ttft produced w2)
              | (EndCrashed x, produced, w2) \<Rightarrow> (StreamCrash x, attempts, w2))"

definition stream_attempt ::
  "gateway \<Rightarrow> consumer \<Rightarrow> (nat \<Rightarrow> rat) \<Rightarrow> (nat \<Rightarrow> model_spec \<Rightarrow> chat_message list \<Rightarrow> chat_params \<Rightarrow> (rat \<times> stream_step) list)
   \<Rightarrow> chat_message list \<Rightarrow> chat_params \<Rightarrow> string \<Rightarrow> rat \<Rightarrow> provider_config \<Rightarrow> rat \<Rightarrow> model_spec \<Rightarrow> nat
   \<Rightarrow> attempt_record list \<Rightarrow> world \<Rightarrow> stream_flow \<times> attempt_record list \<times> world" where
  "stream_attempt g c rnd opens messages params route req_started cfg dl spec n attempts w =
     (let remaining = dl - w_now w in
      if remaining \<le> 0 then
        (let y = emit c (StreamFailed (GatewayCode DeadlineExceeded) ''request deadline exceeded'' False attempts) w
         in (if fst y then StreamClosed else StreamOver, attempts, snd y))
      else
        let started = w_now w;
            timeout = min (pc_timeout_s cfg) remaining;
            i = length (st_calls (w_gw w));
            items = opens i spec messages (params_for spec params);
            nx = next_item spec timeout ''first token'' items;
            w1 = advance (fst nx) (on_gateway (begin_call spec timeout) w)
        in case snd nx of
             Yields item \<Rightarrow>
               stream_started g c (rnd i) messages route req_started cfg dl spec n started item (tl items) attempts w1
           | Breaks e \<Rightarrow> stream_failed g c messages cfg dl spec n started (rnd i) None [] e attempts w1
           | StreamCancelled \<Rightarrow> (StreamClosed, attempts, gone_record messages spec n started None [] w1)
           | StreamCrashes x \<Rightarrow> (StreamCrash x, attempts, w1))"

section \<open>The loops\<close>

fun stream_attempts ::
  "gateway \<Rightarrow> consumer \<Rightarrow> (nat \<Rightarrow> rat) \<Rightarrow> (nat \<Rightarrow> model_spec \<Rightarrow> chat_message list \<Rightarrow> chat_params \<Rightarrow> (rat \<times> stream_step) list)
   \<Rightarrow> chat_message list \<Rightarrow> chat_params \<Rightarrow> string \<Rightarrow> rat \<Rightarrow> provider_config \<Rightarrow> rat \<Rightarrow> model_spec \<Rightarrow> nat list
   \<Rightarrow> attempt_record list \<Rightarrow> world \<Rightarrow> stream_flow \<times> attempt_record list \<times> world" where
  "stream_attempts g c rnd opens messages params route req_started cfg dl spec [] attempts w =
     (StreamNext, attempts, w)"
| "stream_attempts g c rnd opens messages params route req_started cfg dl spec (n # ns) attempts w =
     (case stream_attempt g c rnd opens messages params route req_started cfg dl spec n attempts w of
        (StreamRetry, attempts', w') \<Rightarrow>
          stream_attempts g c rnd opens messages params route req_started cfg dl spec ns attempts' w'
      | r \<Rightarrow> r)"

definition chat_present :: "gateway \<Rightarrow> model_spec \<Rightarrow> bool" where
  "chat_present g spec \<longleftrightarrow> chat_provider g spec \<noteq> None"

fun stream_targets ::
  "gateway \<Rightarrow> consumer \<Rightarrow> (nat \<Rightarrow> rat) \<Rightarrow> (nat \<Rightarrow> model_spec \<Rightarrow> chat_message list \<Rightarrow> chat_params \<Rightarrow> (rat \<times> stream_step) list)
   \<Rightarrow> chat_message list \<Rightarrow> chat_params \<Rightarrow> string \<Rightarrow> rat \<Rightarrow> string list \<Rightarrow> rat \<Rightarrow> model_spec list
   \<Rightarrow> attempt_record list \<Rightarrow> world \<Rightarrow> stream_flow \<times> attempt_record list \<times> world" where
  "stream_targets g c rnd opens messages params route req_started blocked dl [] attempts w =
     (let y = emit c (StreamFailed (GatewayCode (exhausted_code attempts))
                ''no model provider could serve the request'' False attempts) w
      in (if fst y then StreamClosed else StreamOver, attempts, snd y))"
| "stream_targets g c rnd opens messages params route req_started blocked dl (spec # specs) attempts w =
     (case admit spec (chat_present g spec) Chat blocked attempts (w_gw w) of
        (False, attempts', st') \<Rightarrow>
          stream_targets g c rnd opens messages params route req_started blocked dl specs attempts' (w\<lparr>w_gw := st'\<rparr>)
      | (True, attempts', st') \<Rightarrow>
          (case dict_get (cat_providers (gw_catalog g)) (ms_provider spec) of
             None \<Rightarrow> (StreamCrash ''KeyError'', attempts', w\<lparr>w_gw := st'\<rparr>)
           | Some cfg \<Rightarrow>
               (case stream_attempts g c rnd opens messages params route req_started cfg dl spec
                       [1..<Suc (pc_max_attempts cfg)] attempts' (w\<lparr>w_gw := st'\<rparr>) of
                  (StreamNext, attempts'', w'') \<Rightarrow>
                    stream_targets g c rnd opens messages params route req_started blocked dl specs attempts'' w''
                | r \<Rightarrow> r)))"

text \<open>The events of one call, in order. An exception of \<open>resolve\<close> leaves before the first event.\<close>

definition stream_chat ::
  "gateway \<Rightarrow> consumer \<Rightarrow> (nat \<Rightarrow> rat) \<Rightarrow> (nat \<Rightarrow> model_spec \<Rightarrow> chat_message list \<Rightarrow> chat_params \<Rightarrow> (rat \<times> stream_step) list)
   \<Rightarrow> string option \<Rightarrow> chat_message list \<Rightarrow> chat_params \<Rightarrow> bool \<Rightarrow> gw_state
   \<Rightarrow> (resolve_error + stream_flow \<times> attempt_record list) \<times> world" where
  "stream_chat g c rnd opens route messages params allow_egress st =
     (let w = \<lparr>w_events = [], w_gw = st\<rparr> in
      case resolve (gw_catalog g) route Chat of
        Inl e \<Rightarrow> (Inl e, w)
      | Inr (route_name, targets) \<Rightarrow>
          (case egress_blocked g targets allow_egress of
             Inl x \<Rightarrow> (Inr (StreamCrash x, []), w)
           | Inr blocked \<Rightarrow>
               (case stream_targets g c rnd opens messages params route_name (st_now st) blocked
                       (st_now st + gw_stream_deadline_s g) targets [] w of
                  (f, attempts, w') \<Rightarrow> (Inr (f, attempts), w'))))"

section \<open>Frames\<close>

lemma emit_frame [simp]:
  "w_events (snd (emit c ev w)) = w_events w @ [ev]"
  "st_recorded (w_gw (snd (emit c ev w))) = st_recorded (w_gw w)"
  "st_calls (w_gw (snd (emit c ev w))) = st_calls (w_gw w)"
  "st_breakers (w_gw (snd (emit c ev w))) = st_breakers (w_gw w)"
  "fst (emit c ev w) = gone c (length (w_events w))"
  by (simp_all add: emit_def)

lemma advance_frame [simp]:
  "w_events (advance d w) = w_events w" "st_recorded (w_gw (advance d w)) = st_recorded (w_gw w)"
  "st_calls (w_gw (advance d w)) = st_calls (w_gw w)" "st_breakers (w_gw (advance d w)) = st_breakers (w_gw w)"
  by (simp_all add: advance_def)

lemma on_gateway_frame [simp]:
  "w_events (on_gateway f w) = w_events w" "w_gw (on_gateway f w) = f (w_gw w)"
  by (simp_all add: on_gateway_def)

text \<open>Streaming the body emits exactly the text it collects and touches nothing else.\<close>

lemma pump_frame:
  "pump g c spec dl item items produced w = (e, p, w') \<Longrightarrow>
   \<exists>texts. p = produced @ texts \<and> w_events w' = w_events w @ map StreamText texts
     \<and> st_recorded (w_gw w') = st_recorded (w_gw w) \<and> st_calls (w_gw w') = st_calls (w_gw w)
     \<and> st_breakers (w_gw w') = st_breakers (w_gw w)"
proof (induction g c spec dl item items produced w rule: pump.induct)
  case (1 g c spec dl u fr items produced w)
  then show ?case by auto
next
  case (2 g c spec dl t items produced w)
  define y where "y = emit c (StreamText t) w"
  define idle where "idle = min (gw_stream_idle_timeout_s g) (dl - w_now (snd y))"
  define nx where "nx = next_item spec idle ''next chunk'' items"
  define w2 where "w2 = advance (fst nx) (snd y)"
  have w2: "w_events w2 = w_events w @ [StreamText t]" "st_recorded (w_gw w2) = st_recorded (w_gw w)"
    "st_calls (w_gw w2) = st_calls (w_gw w)" "st_breakers (w_gw w2) = st_breakers (w_gw w)"
    by (simp_all add: w2_def y_def)
  have y: "w_events (snd y) = w_events w @ [StreamText t]" "st_recorded (w_gw (snd y)) = st_recorded (w_gw w)"
    "st_calls (w_gw (snd y)) = st_calls (w_gw w)" "st_breakers (w_gw (snd y)) = st_breakers (w_gw w)"
    by (simp_all add: y_def)
  note P = 2(2) [unfolded pump.simps Let_def, folded y_def, folded idle_def, folded nx_def, folded w2_def]
  show ?case
  proof (cases "\<not> fst y \<and> \<not> idle \<le> 0 \<and> items \<noteq> [] \<and> (\<exists>item. snd nx = Yields item)")
    case True
    then obtain item where item: "snd nx = Yields item" by auto
    with True P have "pump g c spec dl item (tl items) (produced @ [t]) w2 = (e, p, w')"
      by simp
    moreover have "\<exists>texts. p = (produced @ [t]) @ texts \<and> w_events w' = w_events w2 @ map StreamText texts
       \<and> st_recorded (w_gw w') = st_recorded (w_gw w2) \<and> st_calls (w_gw w') = st_calls (w_gw w2)
       \<and> st_breakers (w_gw w') = st_breakers (w_gw w2)"
      by (rule "2.IH" [OF refl y_def _ idle_def _ nx_def w2_def item _ calculation]) (use True in auto)
    then obtain texts where "p = (produced @ [t]) @ texts" "w_events w' = w_events w2 @ map StreamText texts"
       "st_recorded (w_gw w') = st_recorded (w_gw w2)" "st_calls (w_gw w') = st_calls (w_gw w2)"
       "st_breakers (w_gw w') = st_breakers (w_gw w2)" by blast
    then show ?thesis
      using w2 by (intro exI [of _ "t # texts"]) simp
  next
    case False
    with P have "p = produced @ [t]" "w' = snd y \<or> w' = w2"
      by (auto split: if_splits stream_step.splits)
    then show ?thesis
      using w2 y by (intro exI [of _ "[t]"]) auto
  qed
qed

section \<open>The grammar of the event stream\<close>

fun body_events :: "stream_event list \<Rightarrow> bool" where
  "body_events (StreamText t # es) = body_events es"
| "body_events [StreamCompleted spec u fr lat ttft cost atts] = True"
| "body_events [StreamFailed ProviderErrorMidStream m True atts] = True"
| "body_events _ = False"

text \<open>One complete stream: a failure before anything was delivered, or \<open>started\<close>, text pieces and
  exactly one final event.\<close>

fun complete_stream :: "stream_event list \<Rightarrow> bool" where
  "complete_stream [StreamFailed (GatewayCode code) m False atts] = True"
| "complete_stream (StreamStarted spec route fb # es) = body_events es"
| "complete_stream _ = False"

definition flow_events :: "stream_flow \<Rightarrow> stream_event list \<Rightarrow> bool" where
  "flow_events f es =
     (case f of
        StreamRetry \<Rightarrow> es = [] | StreamNext \<Rightarrow> es = []
      | StreamOver \<Rightarrow> complete_stream es
      | _ \<Rightarrow> (\<exists>more. complete_stream (es @ more)))"

text \<open>Usage rows: what an attempt reports, plus at most one \<open>cancelled\<close> row when the consumer left.\<close>

definition flow_records :: "stream_flow \<Rightarrow> attempt_record list \<Rightarrow> attempt_record list \<Rightarrow> bool" where
  "flow_records f reported records \<longleftrightarrow>
     (\<exists>tail. records = kept reported @ tail \<and> list_all (\<lambda>r. ar_outcome r = CancelledOutcome) tail
        \<and> length tail \<le> (if f = StreamClosed then 1 else 0))"

lemma body_events_texts [simp]: "body_events (map StreamText ts @ es) = body_events es"
  by (induction ts) auto

definition some_completed :: stream_event where
  "some_completed = StreamFailed ProviderErrorMidStream [] True []"

lemma complete_some [simp]: "body_events [some_completed]"
  by (simp add: some_completed_def)

lemma gone_record_frame [simp]:
  "w_events (gone_record messages spec n started ttft produced w) = w_events w"
  "st_calls (w_gw (gone_record messages spec n started ttft produced w)) = st_calls (w_gw w)"
  by (simp_all add: gone_record_def)

lemma gone_record_recorded:
  "\<exists>r. st_recorded (w_gw (gone_record messages spec n started ttft produced w)) = st_recorded (w_gw w) @ [r]
     \<and> ar_outcome r = CancelledOutcome \<and> ar_model_id r = ms_id spec"
  by (simp add: gone_record_def)

lemma stream_succeeded_facts:
  assumes "stream_succeeded c messages rs spec n started ttft produced u fr atts w = (f, atts', w')"
  shows "(\<exists>lat cost. w_events w' = w_events w @ [StreamCompleted spec u fr lat ttft cost atts'])"
    and "st_calls (w_gw w') = st_calls (w_gw w)"
    and "\<exists>r. atts' = atts @ [r] \<and> ar_outcome r = Success \<and> ar_model_id r = ms_id spec \<and>
      ((f = StreamOver \<and> st_recorded (w_gw w') = st_recorded (w_gw w) @ [r])
       \<or> (f = StreamClosed \<and> (\<exists>q. st_recorded (w_gw w') = st_recorded (w_gw w) @ [r, q]
             \<and> ar_outcome q = CancelledOutcome \<and> ar_model_id q = ms_id spec)))"
  using assms
  by (auto simp: stream_succeeded_def Let_def gone_record_def split: if_splits)

lemma stream_failed_facts:
  assumes "stream_failed g c messages cfg dl spec n started r ttft produced e atts w = (f, atts', w')"
  shows "\<exists>a. atts' = atts @ [a] \<and> ar_outcome a = error_outcome e \<and> ar_model_id a = ms_id spec
      \<and> st_recorded (w_gw w') = st_recorded (w_gw w) @ [a]"
    and "st_calls (w_gw w') = st_calls (w_gw w)"
    and "if ttft \<noteq> None
      then (f = StreamOver \<or> f = StreamClosed)
        \<and> (\<exists>m. w_events w' = w_events w @ [StreamFailed ProviderErrorMidStream m True atts'])
      else (f = StreamOver \<or> f = StreamClosed)
          \<and> (\<exists>m. w_events w' = w_events w @ [StreamFailed (GatewayCode BadRequest) m False atts'])
        \<or> (f = StreamRetry \<or> f = StreamNext) \<and> w_events w' = w_events w"
proof -
  define a where "a = mk_attempt Chat spec n (error_outcome e) started (w_now w)
                (if ttft \<noteq> None then Some (partial_usage messages produced) else None) ttft (Some e)"
  define w1 where "w1 = on_gateway (record_usage a \<circ> update_breaker (ms_id spec) e) w"
  have w1: "w_events w1 = w_events w" "st_recorded (w_gw w1) = st_recorded (w_gw w) @ [a]"
    "st_calls (w_gw w1) = st_calls (w_gw w)"
    by (simp_all add: w1_def)
  have a: "ar_outcome a = error_outcome e" "ar_model_id a = ms_id spec"
    by (simp_all add: a_def)
  note r = assms [unfolded stream_failed_def Let_def, folded a_def, folded w1_def]
  have "atts' = atts @ [a]"
    using r by (auto split: if_splits)
  moreover have "st_recorded (w_gw w') = st_recorded (w_gw w) @ [a] \<and> st_calls (w_gw w') = st_calls (w_gw w)"
    using r w1 by (auto split: if_splits)
  ultimately show "\<exists>a. atts' = atts @ [a] \<and> ar_outcome a = error_outcome e \<and> ar_model_id a = ms_id spec
      \<and> st_recorded (w_gw w') = st_recorded (w_gw w) @ [a]"
    "st_calls (w_gw w') = st_calls (w_gw w)"
    using a by auto
  show "if ttft \<noteq> None
      then (f = StreamOver \<or> f = StreamClosed)
        \<and> (\<exists>m. w_events w' = w_events w @ [StreamFailed ProviderErrorMidStream m True atts'])
      else (f = StreamOver \<or> f = StreamClosed)
          \<and> (\<exists>m. w_events w' = w_events w @ [StreamFailed (GatewayCode BadRequest) m False atts'])
        \<or> (f = StreamRetry \<or> f = StreamNext) \<and> w_events w' = w_events w"
    using r w1 by (cases ttft; cases "pe_kind e = ProviderBadRequest") (auto split: if_splits)
qed

text \<open>What one attempt, entered before anything was delivered, does to events and usage rows.\<close>

definition attempt_effect ::
  "model_spec \<Rightarrow> attempt_record list \<Rightarrow> world \<Rightarrow> stream_flow \<Rightarrow> attempt_record list \<Rightarrow> world \<Rightarrow> bool" where
  "attempt_effect spec atts w f atts' w' \<longleftrightarrow>
     (\<exists>new tail. atts' = atts @ new \<and> kept new = new
        \<and> st_recorded (w_gw w') = st_recorded (w_gw w) @ new @ tail
        \<and> list_all (\<lambda>r. ar_outcome r = CancelledOutcome) tail
        \<and> length tail \<le> (if f = StreamClosed then 1 else 0))
     \<and> (f \<in> {StreamRetry, StreamNext} \<and> w_events w' = w_events w
        \<or> f \<notin> {StreamRetry, StreamNext} \<and> (\<exists>es. w_events w' = w_events w @ es \<and> flow_events f es))"

lemma error_outcome_not [simp]: "ar_outcome a = error_outcome e \<Longrightarrow> ar_outcome a \<noteq> Skipped"
  by simp

lemma stream_started_effect:
  assumes "stream_started g c r messages route rs cfg dl spec n started item rest atts w = (f, atts', w')"
  shows "attempt_effect spec atts w f atts' w' \<and> st_calls (w_gw w') = st_calls (w_gw w)"
proof -
  define ttft where "ttft = Some (ms_since started (w_now w))"
  define y where "y = emit c (StreamStarted spec route (atts \<noteq> [])) w"
  note S = assms [unfolded stream_started_def Let_def, folded ttft_def, folded y_def]
  have y: "w_events (snd y) = w_events w @ [StreamStarted spec route (atts \<noteq> [])]"
    "st_recorded (w_gw (snd y)) = st_recorded (w_gw w)" "st_calls (w_gw (snd y)) = st_calls (w_gw w)"
    by (simp_all add: y_def)
  show ?thesis
  proof (cases "fst y")
    case True
    with S have f: "f = StreamClosed" "atts' = atts" "w' = gone_record messages spec n started ttft [] (snd y)"
      by auto
    have "\<exists>more. complete_stream (StreamStarted spec route (atts \<noteq> []) # more)"
      by (rule exI [of _ "[some_completed]"]) simp
    with f y gone_record_recorded [of messages spec n started ttft "[]" "snd y"] show ?thesis
      by (auto simp: attempt_effect_def flow_events_def)
  next
    case False
    obtain e p w2 where P: "pump g c spec dl item rest [] (snd y) = (e, p, w2)"
      by (metis prod_cases3)
    then obtain texts where w2: "w_events w2 = w_events w @ StreamStarted spec route (atts \<noteq> []) # map StreamText texts"
      "st_recorded (w_gw w2) = st_recorded (w_gw w)" "st_calls (w_gw w2) = st_calls (w_gw w)"
      using pump_frame [OF P] y by auto
    have open_end: "\<exists>more. complete_stream (StreamStarted spec route (atts \<noteq> []) # map StreamText texts @ more)"
      by (rule exI [of _ "[some_completed]"]) simp
    show ?thesis
    proof (cases e)
      case (EndItem u fr)
      with S P False have "stream_succeeded c messages rs spec n started ttft p u fr atts w2 = (f, atts', w')"
        by simp
      note facts = stream_succeeded_facts [OF this]
      obtain lat cost where ev: "w_events w' = w_events w2 @ [StreamCompleted spec u fr lat ttft cost atts']"
        using facts(1) by auto
      have "body_events (map StreamText texts @ [StreamCompleted spec u fr lat ttft cost atts'])"
        by simp
      then show ?thesis
        using facts(2,3) w2 ev by (auto simp: attempt_effect_def flow_events_def intro: exI [of _ "[]"])
    next
      case (EndError err)
      with S P False have "stream_failed g c messages cfg dl spec n started r ttft p err atts w2 = (f, atts', w')"
        by simp
      note facts = stream_failed_facts [OF this]
      have t: "ttft \<noteq> None" by (simp add: ttft_def)
      obtain m where ev: "w_events w' = w_events w2 @ [StreamFailed ProviderErrorMidStream m True atts']"
        and f: "f = StreamOver \<or> f = StreamClosed"
        using facts(3) t by auto
      have "body_events (map StreamText texts @ [StreamFailed ProviderErrorMidStream m True atts'])"
        by simp
      then show ?thesis
        using facts(1,2) w2 ev f by (auto simp: attempt_effect_def flow_events_def intro: exI [of _ "[]"])
    next
      case EndGone
      with S P False have "f = StreamClosed" "atts' = atts" "w' = gone_record messages spec n started ttft p w2"
        by auto
      with w2 open_end gone_record_recorded [of messages spec n started ttft p w2] show ?thesis
        by (auto simp: attempt_effect_def flow_events_def)
    next
      case (EndCrashed x)
      with S P False have "f = StreamCrash x" "atts' = atts" "w' = w2"
        by auto
      with w2 open_end show ?thesis
        by (auto simp: attempt_effect_def flow_events_def)
    qed
  qed
qed

lemma complete_failed: "\<exists>more. complete_stream (StreamFailed (GatewayCode code) m False atts # more)"
  by (rule exI [of _ "[]"]) simp

lemma stream_attempt_effect:
  assumes "stream_attempt g c rnd opens messages params route rs cfg dl spec n atts w = (f, atts', w')"
  shows "attempt_effect spec atts w f atts' w'"
    and "st_calls (w_gw w') = st_calls (w_gw w)
      \<or> (\<exists>cl. st_calls (w_gw w') = st_calls (w_gw w) @ [cl] \<and> call_spec cl = spec \<and> call_at cl < dl
            \<and> call_at cl + call_timeout cl \<le> dl)"
proof -
  define started where "started = w_now w"
  define timeout where "timeout = min (pc_timeout_s cfg) (dl - w_now w)"
  define i where "i = length (st_calls (w_gw w))"
  define items where "items = opens i spec messages (params_for spec params)"
  define nx where "nx = next_item spec timeout ''first token'' items"
  define w1 where "w1 = advance (fst nx) (on_gateway (begin_call spec timeout) w)"
  note S = assms [unfolded stream_attempt_def Let_def, folded timeout_def i_def,
      folded items_def, folded nx_def, folded w1_def, folded started_def]
  have w1: "w_events w1 = w_events w" "st_recorded (w_gw w1) = st_recorded (w_gw w)"
    "st_calls (w_gw w1) = st_calls (w_gw w) @ [\<lparr>call_spec = spec, call_at = w_now w, call_timeout = timeout\<rparr>]"
    by (simp_all add: w1_def)
  have lift: "attempt_effect spec atts w f atts' w'" if "attempt_effect spec atts w1 f atts' w'"
    using that w1 by (simp add: attempt_effect_def)
  have calls: "st_calls (w_gw w') = st_calls (w_gw w1) \<Longrightarrow> \<not> dl \<le> w_now w \<Longrightarrow>
      \<exists>cl. st_calls (w_gw w') = st_calls (w_gw w) @ [cl] \<and> call_spec cl = spec \<and> call_at cl < dl
            \<and> call_at cl + call_timeout cl \<le> dl"
    using w1(3) by (auto simp: timeout_def)
  consider (late) "dl \<le> w_now w" | (item) item where "\<not> dl \<le> w_now w" "snd nx = Yields item"
    | (breaks) e where "\<not> dl \<le> w_now w" "snd nx = Breaks e"
    | (gone) "\<not> dl \<le> w_now w" "snd nx = StreamCancelled"
    | (crash) x where "\<not> dl \<le> w_now w" "snd nx = StreamCrashes x"
    by (cases "snd nx") auto
  then have "attempt_effect spec atts w f atts' w' \<and> (st_calls (w_gw w') = st_calls (w_gw w)
      \<or> (\<exists>cl. st_calls (w_gw w') = st_calls (w_gw w) @ [cl] \<and> call_spec cl = spec \<and> call_at cl < dl
            \<and> call_at cl + call_timeout cl \<le> dl))"
  proof cases
    case late
    then show ?thesis
      using S complete_failed
      by (auto simp: attempt_effect_def flow_events_def started_def split: if_splits)
  next
    case item
    with S started_def have "stream_started g c (rnd i) messages route rs cfg dl spec n started item (tl items) atts w1 = (f, atts', w')"
      by simp
    from stream_started_effect [OF this] lift calls item(1) show ?thesis by blast
  next
    case breaks
    with S started_def have "stream_failed g c messages cfg dl spec n started (rnd i) None [] e atts w1 = (f, atts', w')"
      by simp
    note facts = stream_failed_facts [OF this]
    have "attempt_effect spec atts w1 f atts' w'"
      using facts complete_failed by (fastforce simp: attempt_effect_def flow_events_def)
    with lift calls [OF facts(2) breaks(1)] show ?thesis by simp
  next
    case gone
    with S started_def have g: "f = StreamClosed" "atts' = atts" "w' = gone_record messages spec n started None [] w1"
      by auto
    moreover have "\<exists>more. complete_stream more"
      by (rule exI [of _ "[StreamStarted spec route False, some_completed]"]) simp
    ultimately have "attempt_effect spec atts w1 f atts' w'"
      using gone_record_recorded [of messages spec n started None "[]" w1]
      by (auto simp: attempt_effect_def flow_events_def)
    with lift calls [OF _ gone(1)] g(3) show ?thesis by simp
  next
    case crash
    with S started_def have g: "f = StreamCrash x" "atts' = atts" "w' = w1"
      by auto
    moreover have "\<exists>more. complete_stream more"
      by (rule exI [of _ "[StreamStarted spec route False, some_completed]"]) simp
    ultimately have "attempt_effect spec atts w1 f atts' w'"
      by (auto simp: attempt_effect_def flow_events_def)
    with lift calls [OF _ crash(1)] g(3) show ?thesis by simp
  qed
  then show "attempt_effect spec atts w f atts' w'"
    "st_calls (w_gw w') = st_calls (w_gw w)
      \<or> (\<exists>cl. st_calls (w_gw w') = st_calls (w_gw w) @ [cl] \<and> call_spec cl = spec \<and> call_at cl < dl
            \<and> call_at cl + call_timeout cl \<le> dl)"
    by blast+
qed

section \<open>The whole stream\<close>

text \<open>What holds of a stream from its start state \<open>s0\<close> on, while it has delivered nothing
  (\<open>StreamRetry\<close>/\<open>StreamNext\<close>) and when it is over.\<close>

definition stream_inv ::
  "model_spec list \<Rightarrow> string list \<Rightarrow> rat \<Rightarrow> gw_state \<Rightarrow> stream_flow \<Rightarrow> attempt_record list \<Rightarrow> world \<Rightarrow> bool" where
  "stream_inv targets blocked dl s0 f atts w \<longleftrightarrow> flow_events f (w_events w) \<and> calls_extend s0 (w_gw w)
     \<and> list_all (\<lambda>c. call_spec c \<in> set targets \<and> ms_id (call_spec c) \<notin> set blocked \<and> call_at c < dl
          \<and> call_at c + call_timeout c \<le> dl) (new_calls s0 (w_gw w))
     \<and> (\<exists>records. st_recorded (w_gw w) = st_recorded s0 @ records \<and> flow_records f atts records)"

lemma stream_inv_attempt:
  assumes "stream_inv targets blocked dl s0 f0 atts w" "f0 = StreamRetry \<or> f0 = StreamNext"
    "spec \<in> set targets" "ms_id spec \<notin> set blocked"
    "stream_attempt g c rnd opens messages params route rs cfg dl spec n atts w = (f, atts', w')"
  shows "stream_inv targets blocked dl s0 f atts' w'"
proof -
  have old: "w_events w = []" "calls_extend s0 (w_gw w)"
    "st_recorded (w_gw w) = st_recorded s0 @ kept atts"
    "list_all (\<lambda>c. call_spec c \<in> set targets \<and> ms_id (call_spec c) \<notin> set blocked \<and> call_at c < dl
          \<and> call_at c + call_timeout c \<le> dl) (new_calls s0 (w_gw w))"
    using assms(1,2) by (auto simp: stream_inv_def flow_events_def flow_records_def)
  note eff = stream_attempt_effect [OF assms(5)]
  have events: "flow_events f (w_events w')"
    using eff(1) old(1) by (auto simp: attempt_effect_def flow_events_def)
  obtain new tail where rec: "atts' = atts @ new" "kept new = new"
    "st_recorded (w_gw w') = st_recorded (w_gw w) @ new @ tail"
    "list_all (\<lambda>r. ar_outcome r = CancelledOutcome) tail" "length tail \<le> (if f = StreamClosed then 1 else 0)"
    using eff(1) unfolding attempt_effect_def by blast
  then have "\<exists>records. st_recorded (w_gw w') = st_recorded s0 @ records \<and> flow_records f atts' records"
    using old(3) by (intro exI [of _ "kept atts @ new @ tail"]) (auto simp: flow_records_def)
  moreover have "calls_extend s0 (w_gw w') \<and> list_all (\<lambda>c. call_spec c \<in> set targets \<and> ms_id (call_spec c) \<notin> set blocked
      \<and> call_at c < dl \<and> call_at c + call_timeout c \<le> dl) (new_calls s0 (w_gw w'))"
    using eff(2)
  proof (elim disjE exE conjE)
    assume "st_calls (w_gw w') = st_calls (w_gw w)"
    then show ?thesis using calls_extend_same [of "w_gw w'" "w_gw w" s0] old by simp
  next
    fix cl
    assume "st_calls (w_gw w') = st_calls (w_gw w) @ [cl]" "call_spec cl = spec" "call_at cl < dl"
      "call_at cl + call_timeout cl \<le> dl"
    then show ?thesis using calls_extend_snoc [OF old(2), of "w_gw w'" cl] old assms(3,4) by simp
  qed
  ultimately show ?thesis
    using events by (simp add: stream_inv_def)
qed

lemma stream_inv_attempts:
  assumes "stream_inv targets blocked dl s0 f0 atts w" "f0 = StreamRetry \<or> f0 = StreamNext"
    "spec \<in> set targets" "ms_id spec \<notin> set blocked"
    "stream_attempts g c rnd opens messages params route rs cfg dl spec ns atts w = (f, atts', w')"
  shows "stream_inv targets blocked dl s0 f atts' w' \<and> f \<noteq> StreamRetry"
  using assms(1,2,5)
proof (induction ns arbitrary: f0 atts w)
  case Nil
  then show ?case by (auto simp: stream_inv_def flow_events_def flow_records_def)
next
  case (Cons n ns)
  obtain f1 a1 w1 where one: "stream_attempt g c rnd opens messages params route rs cfg dl spec n atts w = (f1, a1, w1)"
    by (metis prod_cases3)
  note inv = stream_inv_attempt [OF Cons.prems(1,2) assms(3,4) one]
  show ?case
  proof (cases "f1 = StreamRetry")
    case True
    with one Cons.prems(3) have "stream_attempts g c rnd opens messages params route rs cfg dl spec ns a1 w1 = (f, atts', w')"
      by simp
    then show ?thesis using Cons.IH [OF inv] True by simp
  next
    case False
    with one Cons.prems(3) have "f = f1 \<and> atts' = a1 \<and> w' = w1"
      by (cases f1) auto
    with inv False show ?thesis by simp
  qed
qed

lemma stream_inv_targets:
  assumes "stream_inv targets blocked dl s0 f0 atts w" "f0 = StreamRetry \<or> f0 = StreamNext"
    "set specs \<subseteq> set targets"
    "stream_targets g c rnd opens messages params route rs blocked dl specs atts w = (f, atts', w')"
  shows "stream_inv targets blocked dl s0 f atts' w' \<and> f \<noteq> StreamRetry \<and> f \<noteq> StreamNext"
  using assms
proof (induction specs arbitrary: f0 atts w)
  case Nil
  then have "w_events w = []" "\<exists>records. st_recorded (w_gw w) = st_recorded s0 @ records \<and> flow_records f0 atts records"
    "f = StreamOver \<or> f = StreamClosed"
    by (auto simp: stream_inv_def flow_events_def Let_def)
  with Nil show ?case
    using complete_failed calls_extend_same [of "w_gw w'" "w_gw w" s0]
    by (auto simp: stream_inv_def flow_events_def flow_records_def Let_def split: if_splits)
next
  case (Cons spec specs)
  have sub: "set specs \<subseteq> set targets" and spec: "spec \<in> set targets"
    using Cons.prems(3) by auto
  obtain ok a1 s1 where ad: "admit spec (chat_present g spec) Chat blocked atts (w_gw w) = (ok, a1, s1)"
    by (metis prod_cases3)
  define w1 where "w1 = w\<lparr>w_gw := s1\<rparr>"
  have w1: "w_events w1 = w_events w" "st_recorded (w_gw w1) = st_recorded (w_gw w)"
    "st_calls (w_gw w1) = st_calls (w_gw w)"
    using admit_frame [OF ad] by (simp_all add: w1_def)
  have "kept a1 = kept atts"
    using admit_frame(4,5) [OF ad] by (cases ok) auto
  then have inv: "stream_inv targets blocked dl s0 f0 a1 w1"
    using Cons.prems(1) w1 calls_extend_same [OF w1(3), of s0]
    by (simp add: stream_inv_def flow_records_def)
  note rec = Cons.prems(4) [simplified, unfolded ad, simplified, folded w1_def]
  consider "\<not> ok" | "ok" "dict_get (cat_providers (gw_catalog g)) (ms_provider spec) = None"
    | (tried) cfg where "ok" "dict_get (cat_providers (gw_catalog g)) (ms_provider spec) = Some cfg"
    by (cases "dict_get (cat_providers (gw_catalog g)) (ms_provider spec)") auto
  then show ?case
  proof cases
    case 1
    with rec have "stream_targets g c rnd opens messages params route rs blocked dl specs a1 w1 = (f, atts', w')"
      by (simp add: w1_def)
    then show ?thesis using Cons.IH [OF inv Cons.prems(2) sub] by simp
  next
    case 2
    with rec have "f = StreamCrash ''KeyError''" "atts' = a1" "w' = w1" by (auto simp: w1_def)
    moreover have "\<exists>more. complete_stream more"
      by (rule exI [of _ "[StreamStarted spec route False, some_completed]"]) simp
    ultimately show ?thesis
      using inv Cons.prems(2) by (auto simp: stream_inv_def flow_events_def flow_records_def)
  next
    case (tried cfg)
    obtain f2 a2 w2 where at: "stream_attempts g c rnd opens messages params route rs cfg dl spec
        [1..<Suc (pc_max_attempts cfg)] a1 w1 = (f2, a2, w2)"
      by (metis prod_cases3)
    have ns: "ms_id spec \<notin> set blocked"
      using admit_frame(4) [OF ad] tried(1) by simp
    note inv2 = stream_inv_attempts [OF inv Cons.prems(2) spec ns at]
    show ?thesis
    proof (cases "f2 = StreamNext")
      case True
      with rec tried at have "stream_targets g c rnd opens messages params route rs blocked dl specs a2 w2 = (f, atts', w')"
        by (simp add: w1_def del: upt_Suc)
      then show ?thesis using Cons.IH [OF conjunct1 [OF inv2] _ sub] True by simp
    next
      case False
      with rec tried at have "f = f2 \<and> atts' = a2 \<and> w' = w2"
        by (cases f2) (auto simp: w1_def simp del: upt_Suc)
      with inv2 False show ?thesis by simp
    qed
  qed
qed

section \<open>Properties\<close>

lemma stream_chat_inv:
  assumes "stream_chat g c rnd opens route messages params egress st = (Inr (f, atts), w)"
  shows "(w_events w = [] \<and> w_gw w = st \<and> atts = [] \<and> (\<exists>x. f = StreamCrash x))
    \<or> (\<exists>name targets blocked. resolve (gw_catalog g) route Chat = Inr (name, targets)
         \<and> egress_blocked g targets egress = Inr blocked
         \<and> stream_inv targets blocked (st_now st + gw_stream_deadline_s g) st f atts w
         \<and> f \<noteq> StreamRetry \<and> f \<noteq> StreamNext)"
proof -
  obtain name targets where r: "resolve (gw_catalog g) route Chat = Inr (name, targets)"
    using assms by (auto simp: stream_chat_def Let_def split: sum.splits)
  show ?thesis
  proof (cases "egress_blocked g targets egress")
    case (Inl x)
    with r assms show ?thesis by (auto simp: stream_chat_def Let_def)
  next
    case (Inr blocked)
    define w0 where "w0 = \<lparr>w_events = [], w_gw = st\<rparr>"
    have T: "stream_targets g c rnd opens messages params name (st_now st) blocked
        (st_now st + gw_stream_deadline_s g) targets [] w0 = (f, atts, w)"
      using assms r Inr by (auto simp: stream_chat_def Let_def w0_def split: prod.splits)
    have "stream_inv targets blocked (st_now st + gw_stream_deadline_s g) st StreamNext [] w0"
      by (simp add: stream_inv_def flow_events_def flow_records_def w0_def)
    from stream_inv_targets [OF this _ subset_refl T] r Inr show ?thesis by simp
  qed
qed

text \<open>C20: The events of a streamed answer follow one grammar: nothing but a failure, or
  \<open>started\<close>, text pieces, and exactly one final event (\<open>completed\<close> or the mid-stream failure).
  So no fallback happens after the first piece was delivered, and a stream that is cut short
  (consumer gone, crash) has delivered a prefix of such a sequence.\<close>

theorem stream_grammar:
  "case stream_chat g c rnd opens route messages params egress st of
     (Inl e, w) \<Rightarrow> w_events w = []
   | (Inr (f, atts), w) \<Rightarrow>
       (case f of StreamOver \<Rightarrow> complete_stream (w_events w)
        | StreamClosed \<Rightarrow> (\<exists>more. complete_stream (w_events w @ more))
        | StreamCrash x \<Rightarrow> (\<exists>more. complete_stream (w_events w @ more))
        | _ \<Rightarrow> False)"
proof (cases "stream_chat g c rnd opens route messages params egress st")
  case (Pair r w)
  show ?thesis
  proof (cases r)
    case (Inl e)
    with Pair show ?thesis by (auto simp: stream_chat_def Let_def split: sum.splits prod.splits)
  next
    case (Inr fa)
    obtain f atts where fa: "fa = (f, atts)" by (cases fa)
    have "\<exists>more. complete_stream more"
      using complete_failed by blast
    with stream_chat_inv [of g c rnd opens route messages params egress st f atts w] Pair Inr fa
    show ?thesis
      by (cases f) (auto simp: stream_inv_def flow_events_def)
  qed
qed

text \<open>Streaming keeps the egress restriction and the deadline of the non-streaming path: with
  \<open>allow_egress=False\<close> no model of an egress provider is called, and no call starts after the
  stream deadline or may wait for its first token beyond it.\<close>

theorem stream_egress_deadline:
  "list_all (\<lambda>cl. \<not> (has_egress g (call_spec cl) \<and> \<not> egress) \<and> call_at cl < st_now st + gw_stream_deadline_s g
       \<and> call_at cl + call_timeout cl \<le> st_now st + gw_stream_deadline_s g)
     (new_calls st (w_gw (snd (stream_chat g c rnd opens route messages params egress st))))"
proof (cases "stream_chat g c rnd opens route messages params egress st")
  case (Pair r w)
  show ?thesis
  proof (cases r)
    case (Inl e)
    with Pair have "w_gw w = st"
      by (auto simp: stream_chat_def Let_def split: sum.splits prod.splits)
    with Pair show ?thesis by simp
  next
    case (Inr fa)
    obtain f atts where fa: "fa = (f, atts)" by (cases fa)
    have "egress_blocked g targets egress = Inr blocked \<Longrightarrow> t \<in> set targets \<Longrightarrow> ms_id t \<notin> set blocked \<Longrightarrow>
        egress \<or> \<not> has_egress g t" for targets blocked t
      by (auto simp: egress_blocked_def split: if_splits)
    with stream_chat_inv [of g c rnd opens route messages params egress st f atts w] Pair Inr fa
    show ?thesis
      by (auto simp: stream_inv_def list_all_iff)
  qed
qed

text \<open>The usage rows of a stream are its reported attempts that reached a provider, in order,
  and at most one more: a \<open>cancelled\<close> row, only when the consumer closed the stream.\<close>

theorem stream_accounts:
  "case stream_chat g c rnd opens route messages params egress st of
     (Inl e, w) \<Rightarrow> w_gw w = st
   | (Inr (f, atts), w) \<Rightarrow> flow_records f atts (new_records st (w_gw w))"
proof (cases "stream_chat g c rnd opens route messages params egress st")
  case (Pair r w)
  show ?thesis
  proof (cases r)
    case (Inl e)
    with Pair show ?thesis by (auto simp: stream_chat_def Let_def split: sum.splits prod.splits)
  next
    case (Inr fa)
    obtain f atts where fa: "fa = (f, atts)" by (cases fa)
    with stream_chat_inv [of g c rnd opens route messages params egress st f atts w] Pair Inr
    show ?thesis
      by (auto simp: stream_inv_def new_records_def flow_records_def)
  qed
qed

text \<open>A consumer that closes the generator where it waits after \<open>StreamCompleted\<close> leaves two
  usage rows for one provider call: the successful one and then a \<open>cancelled\<close> one for the same
  attempt, because the \<open>yield\<close> of the completion event is inside the \<open>try\<close> block.\<close>

theorem closed_after_completion_billed_twice:
  assumes "gone c (length (w_events w))"
  shows "case stream_succeeded c messages rs spec n started ttft produced u fr atts w of (f, atts', w') \<Rightarrow>
    f = StreamClosed \<and> (\<exists>r q. new_records (w_gw w) (w_gw w') = [r, q] \<and> atts' = atts @ [r]
      \<and> ar_outcome r = Success \<and> ar_usage r = Some u
      \<and> ar_outcome q = CancelledOutcome \<and> ar_usage q = Some (partial_usage messages produced)
      \<and> ar_attempt r = ar_attempt q \<and> ar_model_id r = ar_model_id q)"
  using assms
  by (auto simp: stream_succeeded_def Let_def gone_record_def new_records_def)

text \<open>A call at the point where its only provider delivered its end marker.\<close>

definition stream_world :: world where
  "stream_world = \<lparr>w_events = [], w_gw = \<lparr>st_now = 3, st_breakers = new_registry 5 30, st_recorded = [], st_calls = []\<rparr>\<rparr>"

definition demo_usage :: usage where
  "demo_usage = \<lparr>prompt_tokens = 10, completion_tokens = 2, usage_estimated = False\<rparr>"

theorem closed_after_completion_billed_twice_witness:
  "case stream_succeeded \<lparr>gone = (\<lambda>k. k = 0), pause = (\<lambda>_. 0)\<rparr> [] 0
       (demo_model ''nim/a'' ''nim'' Chat None) 1 0 (Some 5) [''Hello''] demo_usage None [] stream_world of
     (f, atts', w') \<Rightarrow> map ar_outcome (st_recorded (w_gw w')) = [Success, CancelledOutcome]"
proof -
  have "gone \<lparr>gone = (\<lambda>k. k = 0), pause = (\<lambda>_. 0)\<rparr> (length (w_events stream_world))"
    by (simp add: stream_world_def)
  from closed_after_completion_billed_twice [OF this, where messages = "[]" and rs = 0 and spec = "demo_model ''nim/a'' ''nim'' Chat None"
      and n = 1 and started = 0 and ttft = "Some 5" and produced = "[''Hello'']" and u = demo_usage
      and fr = None and atts = "[]"]
  show ?thesis
    by (auto simp: new_records_def stream_world_def)
qed

end
