(* ===== verification/Factory.thy ===== *)
theory Factory
  imports GatewayStream Config
begin

text \<open>
  \<open>gateway/factory.py\<close>: which provider objects exist for a catalog and the environment, the
  gateway built from the settings, and the usage row an attempt is stored as. What a provider
  object can do follows from its class (\<open>providers/\<close>): the Anthropic one has no \<open>embed\<close>.
\<close>

record provider_status =
  ps_enabled :: bool
  ps_reason :: "string option"

text \<open>An f-string renders a missing name as \<open>None\<close>.\<close>

definition py_str :: "string option \<Rightarrow> string" where
  "py_str s = (case s of Some x \<Rightarrow> x | None \<Rightarrow> ''None'')"

definition enabled_status :: provider_status where
  "enabled_status = \<lparr>ps_enabled = True, ps_reason = None\<rparr>"

definition build_provider ::
  "(string \<Rightarrow> string option) \<Rightarrow> provider_config \<Rightarrow> provider_object option \<times> provider_status" where
  "build_provider env cfg =
     (case pc_kind cfg of
        Mock \<Rightarrow> (Some \<lparr>can_chat = True, can_embed = True\<rparr>, enabled_status)
      | Ollama \<Rightarrow> (Some \<lparr>can_chat = True, can_embed = True\<rparr>, enabled_status)
      | Anthropic \<Rightarrow>
          if api_key env cfg = None
          then (None, \<lparr>ps_enabled = False, ps_reason = Some (py_str (pc_api_key_env cfg) @ '' not set'')\<rparr>)
          else (Some \<lparr>can_chat = True, can_embed = False\<rparr>, enabled_status)
      | OpenAICompatible \<Rightarrow>
          if nonempty (pc_api_key_env cfg) \<and> api_key env cfg = None
          then (None, \<lparr>ps_enabled = False, ps_reason = Some (py_str (pc_api_key_env cfg) @ '' not set'')\<rparr>)
          else if \<not> nonempty (resolved_base_url env cfg)
          then (None, \<lparr>ps_enabled = False, ps_reason = Some ''base_url not configured''\<rparr>)
          else (Some \<lparr>can_chat = True, can_embed = True\<rparr>, enabled_status))"

text \<open>The model providers that came up, in the catalog's order.\<close>

fun build_providers ::
  "(string \<Rightarrow> string option) \<Rightarrow> (string, provider_config) dict
   \<Rightarrow> (string, provider_object) dict \<times> (string, provider_status) dict" where
  "build_providers env [] = ([], [])"
| "build_providers env ((name, cfg) # rest) =
     (let r = build_provider env cfg; ps = build_providers env rest in
      ((case fst r of Some p \<Rightarrow> [(name, p)] | None \<Rightarrow> []) @ fst ps, (name, snd r) # snd ps))"

definition build_gateway ::
  "(string \<Rightarrow> string option) \<Rightarrow> settings \<Rightarrow> catalog
   \<Rightarrow> catalog_error + gateway \<times> (string, provider_status) dict" where
  "build_gateway env s raw =
     bind_result (mk_catalog raw) (\<lambda>c0.
       bind_result (if \<not> mock_provider_enabled s \<and> dict_has (cat_providers c0) ''mock''
                    then without_provider c0 ''mock'' else Inr c0) (\<lambda>c.
         let ps = build_providers env (cat_providers c) in
         Inr (\<lparr>gw_catalog = c, gw_providers = fst ps, gw_backoff = default_backoff,
               gw_request_deadline_s = se_request_deadline_s s,
               gw_stream_deadline_s = se_stream_deadline_s s,
               gw_stream_idle_timeout_s = se_stream_idle_timeout_s s\<rparr>, snd ps)))"

section \<open>Usage rows\<close>

record call_context =
  cx_request_id :: string
  cx_user_id :: "string option"
  cx_conversation_id :: "string option"

record usage_row =
  ur_request_id :: string
  ur_user_id :: "string option"
  ur_conversation_id :: "string option"
  ur_kind :: model_kind
  ur_model_id :: string
  ur_provider :: string
  ur_attempt :: nat
  ur_outcome :: attempt_outcome
  ur_error_type :: "string option"
  ur_latency_ms :: rat
  ur_ttft_ms :: "rat option"
  ur_prompt_tokens :: nat
  ur_completion_tokens :: nat
  ur_tokens_estimated :: bool
  ur_cost_usd :: rat

text \<open>\<open>uuid.UUID(text)\<close> is a parameter: \<open>None\<close> when the text is not a UUID (the recorder's failure is
  logged and swallowed by the gateway).\<close>

definition usage_row_of ::
  "(string \<Rightarrow> string option) \<Rightarrow> call_context \<Rightarrow> attempt_record \<Rightarrow> usage_row option" where
  "usage_row_of uuid cx a =
     (let row = (\<lambda>conv. \<lparr>ur_request_id = cx_request_id cx, ur_user_id = cx_user_id cx,
            ur_conversation_id = conv, ur_kind = ar_kind a, ur_model_id = ar_model_id a,
            ur_provider = ar_provider a, ur_attempt = ar_attempt a, ur_outcome = ar_outcome a,
            ur_error_type = ar_error_type a, ur_latency_ms = ar_latency_ms a, ur_ttft_ms = ar_ttft_ms a,
            ur_prompt_tokens = (case ar_usage a of Some u \<Rightarrow> prompt_tokens u | None \<Rightarrow> 0),
            ur_completion_tokens = (case ar_usage a of Some u \<Rightarrow> completion_tokens u | None \<Rightarrow> 0),
            ur_tokens_estimated = (case ar_usage a of Some u \<Rightarrow> usage_estimated u | None \<Rightarrow> False),
            ur_cost_usd = ar_cost_usd a\<rparr>)
      in if nonempty (cx_conversation_id cx)
         then map_option (\<lambda>u. row (Some u)) (uuid (the (cx_conversation_id cx)))
         else Some (row None))"

record usage_totals =
  ut_model_calls :: nat
  ut_chat_calls :: nat
  ut_embedding_calls :: nat
  ut_prompt_tokens :: nat
  ut_completion_tokens :: nat
  ut_cost_usd :: rat

definition count_rows :: "('a \<Rightarrow> bool) \<Rightarrow> 'a list \<Rightarrow> nat" where
  "count_rows P xs = length (filter P xs)"

definition usage_totals :: "usage_row list \<Rightarrow> string \<Rightarrow> usage_totals" where
  "usage_totals table conv =
     (let rows = filter (\<lambda>r. ur_conversation_id r = Some conv) table in
      \<lparr>ut_model_calls = count_rows (\<lambda>r. ur_outcome r \<noteq> Skipped) rows,
       ut_chat_calls = count_rows (\<lambda>r. ur_outcome r \<noteq> Skipped \<and> ur_kind r = Chat) rows,
       ut_embedding_calls = count_rows (\<lambda>r. ur_outcome r \<noteq> Skipped \<and> ur_kind r = Embedding) rows,
       ut_prompt_tokens = sum_list (map ur_prompt_tokens rows),
       ut_completion_tokens = sum_list (map ur_completion_tokens rows),
       ut_cost_usd = sum_list (map ur_cost_usd rows)\<rparr>)"

lemma count_split:
  "count_rows (\<lambda>r. P r \<and> ur_kind r = Chat) rows + count_rows (\<lambda>r. P r \<and> ur_kind r = Embedding) rows
   = count_rows P rows"
proof (induction rows)
  case (Cons r rows)
  then show ?case by (cases "ur_kind r") (auto simp: count_rows_def)
qed (simp add: count_rows_def)

lemma usage_totals_split:
  "ut_chat_calls (usage_totals t c) + ut_embedding_calls (usage_totals t c) = ut_model_calls (usage_totals t c)"
  using count_split [of "\<lambda>r. ur_outcome r \<noteq> Skipped"] by (simp add: usage_totals_def Let_def)

section \<open>Properties\<close>

lemma build_providers_keys:
  "dict_has (fst (build_providers env ps)) p \<Longrightarrow> p \<in> set (map fst ps)"
proof (induction ps)
  case (Cons a ps)
  then show ?case by (cases a) (auto simp: dict_has_def Let_def split: option.splits if_splits)
qed (simp add: dict_has_def)

text \<open>In production the gateway has no mock provider and its catalog no model served by one: the
  validated settings turn it off, the catalog is rebuilt without it, and a route that loses all its
  targets, or a default or selectable model that is gone, stops the start-up instead.\<close>

theorem no_mock_in_production:
  assumes "mk_settings s0 = Inr s" "se_env s = Prod" "build_gateway env s raw = Inr (g, statuses)"
  shows "\<not> dict_has (gw_providers g) ''mock'' \<and> catalog_wf (gw_catalog g)
    \<and> (\<forall>m \<in> set (cat_models (gw_catalog g)). ms_provider m \<noteq> ''mock'')"
proof -
  have off: "\<not> mock_provider_enabled s"
    using assms(1,2)
    by (auto simp: mk_settings_Inr validate_for_env_def Let_def mock_provider_enabled_def split: if_splits option.splits)
  obtain c0 c where c: "mk_catalog raw = Inr c0"
    "(if dict_has (cat_providers c0) ''mock'' then without_provider c0 ''mock'' else Inr c0) = Inr c"
    "gw_catalog g = c" "gw_providers g = fst (build_providers env (cat_providers c))"
    using assms(3) off by (auto simp: build_gateway_def bind_result_Inr Let_def)
  have wf0: "catalog_wf c0"
    using c(1) by (simp add: mk_catalog_wf)
  show ?thesis
  proof (cases "dict_has (cat_providers c0) ''mock''")
    case True
    with c(2) have w: "without_provider c0 ''mock'' = Inr c" by simp
    have models: "cat_models c = filter (\<lambda>m. ms_provider m \<noteq> ''mock'') (cat_models c0)"
      and wf: "catalog_wf c"
      and provs: "''mock'' \<notin> set (map fst (cat_providers c))"
      using w by (auto simp: without_provider_def Let_def mk_catalog_wf)
    then show ?thesis
      using c build_providers_keys [of env "cat_providers c" "''mock''"] by auto
  next
    case False
    with c(2) have "c = c0" by simp
    moreover have "''mock'' \<notin> set (map fst (cat_providers c0))"
      using False by (simp add: dict_has_iff dict_keys_def)
    moreover have "ms_provider m \<noteq> ''mock''" if "m \<in> set (cat_models c0)" for m
      using wf0 that False by (auto simp: catalog_wf_def)
    ultimately show ?thesis
      using c wf0 build_providers_keys [of env "cat_providers c0" "''mock''"] by auto
  qed
qed

theorem no_mock_in_production_witness:
  "\<exists>g statuses. build_gateway (\<lambda>_. None) (default_settings\<lparr>se_env := Prod, se_app_db_password := ''s3cret'',
      se_jwt_secret := ''0123456789abcdef0123456789abcdef''\<rparr>) demo_catalog = Inr (g, statuses)
    \<and> \<not> dict_has (gw_providers g) ''mock''"
proof -
  let ?s = "default_settings\<lparr>se_env := Prod, se_app_db_password := ''s3cret'',
      se_jwt_secret := ''0123456789abcdef0123456789abcdef''\<rparr>"
  have s: "mk_settings ?s = Inr ?s"
    by (simp add: mk_settings_Inr field_bounds_def default_settings_def validate_for_env_def
        DEV_JWT_SECRET_def MIN_JWT_SECRET_BYTES_def DEV_APP_DB_PASSWORD_def utf8_len_def)
  have "mk_catalog demo_catalog = Inr demo_catalog"
    by (simp add: mk_catalog_wf demo_catalog_wf)
  moreover have "\<not> mock_provider_enabled ?s" "dict_has (cat_providers demo_catalog) ''mock''"
    by (simp_all add: mock_provider_enabled_def default_settings_def dict_has_def demo_catalog_def)
  moreover obtain c where "without_provider demo_catalog ''mock'' = Inr c"
    by (simp add: demo_eval)
  ultimately obtain g statuses where b: "build_gateway (\<lambda>_. None) ?s demo_catalog = Inr (g, statuses)"
    by (simp add: build_gateway_def Let_def)
  with no_mock_in_production [OF s _ b] show ?thesis
    by (auto simp: default_settings_def)
qed

end
