(* ===== verification/Chat.thy ===== *)
theory Chat
  imports Agent Factory
begin

text \<open>
  \<open>api/chat.py\<close>: one turn of \<open>POST /api/chat\<close> - the conversation and the model choice, the route the graph takes, retrieval
  with its review, the record of the most sensitive context, the answer, what is stored, and the summary. Each session
  is one transaction; what a raised exception leaves is what was committed before it. Clocks that only measure latency and
  the rendering of dates are left out.
\<close>

section \<open>Requests and responses\<close>

record chat_request =
  rq_message :: string
  rq_conversation_id :: "string option"
  rq_model :: "string option"
  rq_temperature :: rat
  rq_max_tokens :: nat
  rq_request_id :: string

definition MAX_MESSAGE_CHARS :: nat where "MAX_MESSAGE_CHARS = 8000"

definition chat_request_valid :: "chat_request \<Rightarrow> bool" where
  "chat_request_valid q \<longleftrightarrow>
     1 \<le> length (rq_message q) \<and> length (rq_message q) \<le> MAX_MESSAGE_CHARS
     \<and> (case rq_model q of None \<Rightarrow> True | Some m \<Rightarrow> length m \<le> 100)
     \<and> 0 \<le> rq_temperature q \<and> rq_temperature q \<le> 1 \<and> 1 \<le> rq_max_tokens q \<and> rq_max_tokens q \<le> 4096
     \<and> py_strip (rq_message q) \<noteq> []"

record attempt_out =
  ao_model :: string
  ao_provider :: string
  ao_attempt :: nat
  ao_outcome :: string
  ao_error_type :: "string option"
  ao_latency_ms :: rat

fun outcome_text :: "attempt_outcome \<Rightarrow> string" where
  "outcome_text Success = ''success''"
| "outcome_text ErrorOutcome = ''error''"
| "outcome_text TimeoutOutcome = ''timeout''"
| "outcome_text CancelledOutcome = ''cancelled''"
| "outcome_text Skipped = ''skipped''"

definition attempt_out_of :: "attempt_record \<Rightarrow> attempt_out" where
  "attempt_out_of a =
     \<lparr>ao_model = ar_model_id a, ao_provider = ar_provider a, ao_attempt = ar_attempt a,
      ao_outcome = (if ar_outcome a \<noteq> Skipped then outcome_text (ar_outcome a)
                    else ''skipped:'' @ (case ar_detail a of None \<Rightarrow> ''None'' | Some x \<Rightarrow> x)),
      ao_error_type = ar_error_type a, ao_latency_ms = ar_latency_ms a\<rparr>"

record retrieval_out =
  ro_candidates :: nat
  ro_used :: nat
  ro_below_threshold :: nat
  ro_reviewed :: nat
  ro_admitted_by_review :: nat
  ro_embedding_model :: string

definition retrieval_out_of :: "retrieval_result \<Rightarrow> retrieval_out" where
  "retrieval_out_of r =
     \<lparr>ro_candidates = rr_candidates r, ro_used = length (rr_chunks r), ro_below_threshold = rr_below_threshold r,
      ro_reviewed = rr_reviewed r, ro_admitted_by_review = rr_admitted_by_review r, ro_embedding_model = rr_embedding_model r\<rparr>"

definition no_retrieval :: retrieval_out where
  "no_retrieval =
     \<lparr>ro_candidates = 0, ro_used = 0, ro_below_threshold = 0, ro_reviewed = 0, ro_admitted_by_review = 0, ro_embedding_model = ''-''\<rparr>"

definition citation_json :: "citation \<Rightarrow> json" where
  "citation_json c =
     JObj [(''number'', JInt (int (ci_number c))), (''doc_key'', JStr (ci_doc_key c)), (''version'', JInt (ci_version c)),
       (''title'', JStr (ci_title c)), (''locator'', JStr (ci_locator c)), (''ref'', JStr (ci_ref c)),
       (''label'', JStr (citation_label c)), (''snippet'', JStr (ci_snippet c))]"

record chat_response =
  xr_conversation_id :: string
  xr_message_seq :: int
  xr_content :: string
  xr_route :: string
  xr_tool :: "tool_reply option"
  xr_citations :: "citation list"
  xr_grounded :: bool
  xr_abstained :: bool
  xr_repointed_citations :: nat
  xr_escalation :: "escalation option"
  xr_suggested_action :: "suggested_action option"
  xr_model :: "(string \<times> string) option"
  xr_model_route :: "string option"
  xr_fallback_used :: bool
  xr_finish_reason :: "string option"
  xr_usage :: usage
  xr_cost_usd :: rat
  xr_retrieval :: retrieval_out
  xr_attempts :: "attempt_out list"
  xr_request_id :: string

text \<open>The fixed texts beside the error codes are left out. An exception that no handler catches (\<open>HttpRaised\<close>) becomes a 500 of the framework.\<close>

datatype http_reply =
    HttpChat chat_response
  | HttpError nat string "attempt_out list"
  | HttpRaised call_failure
  | HttpFault string

section \<open>Starting a turn\<close>

record prepared_turn =
  pp_conversation_id :: string
  pp_question :: string
  pp_history :: "chat_message list"
  pp_model_choice :: "string option"
  pp_context_classification :: "string option"

definition put_conversation :: "conversation \<Rightarrow> chat_store \<Rightarrow> chat_store" where
  "put_conversation c cs =
     cs\<lparr>cs_conversations := map (\<lambda>x. if cv_id x = cv_id c then c else x) (cs_conversations cs)\<rparr>"

definition conversation_at :: "chat_store \<Rightarrow> string \<Rightarrow> conversation option" where
  "conversation_at cs i = find (\<lambda>c. cv_id c = i) (cs_conversations cs)"

text \<open>A catalog that was never validated can make \<open>resolve\<close> fail with a KeyError or an IndexError.\<close>

definition fault_of :: "resolve_error \<Rightarrow> string" where
  "fault_of x = (case x of UnknownModelError _ \<Rightarrow> ''UnknownModelError'' | CatalogKeyError _ \<Rightarrow> ''KeyError'' | CatalogIndexError \<Rightarrow> ''IndexError'')"

definition unknown_model :: "resolve_error \<Rightarrow> bool" where
  "unknown_model x = (case x of UnknownModelError _ \<Rightarrow> True | _ \<Rightarrow> False)"

definition stored_choice :: "agent_env \<Rightarrow> string option \<Rightarrow> string + string option" where
  "stored_choice e stored =
     (case stored of
        None \<Rightarrow> Inr None
      | Some m \<Rightarrow>
          (case check_choice (gw_catalog (ag_gateway e)) (Some m) (allow_any_model (ag_settings e)) of
             Inl x \<Rightarrow> if unknown_model x then Inr None else Inl (fault_of x)
           | Inr _ \<Rightarrow> Inr (Some m)))"

text \<open>\<open>body.model or _stored_choice(...)\<close>.\<close>

definition model_choice :: "agent_env \<Rightarrow> string option \<Rightarrow> string option \<Rightarrow> string + string option" where
  "model_choice e requested stored = (if nonempty requested then Inr requested else stored_choice e stored)"

datatype start_error = NoConversation | StartFault string

text \<open>The transaction of \<open>_prepare\<close>: an error leaves the tables as they were.\<close>

definition prepare_turn :: "chat_deps \<Rightarrow> chat_request \<Rightarrow> principal \<Rightarrow> chat_store \<Rightarrow> (start_error + prepared_turn) \<times> chat_store" where
  "prepare_turn d q p cs =
     (case get_or_create (hd_uuid d) (rq_conversation_id q) (p_user_id p) (rq_message q) cs of
        (Inl _, cs1) \<Rightarrow> (Inl NoConversation, cs)
      | (Inr conv0, cs1) \<Rightarrow>
          (let s = td_settings (hd_tools d);
               conv = (case rq_model q of None \<Rightarrow> conv0 | Some m \<Rightarrow> conv0\<lparr>cv_model_id := Some m\<rparr>);
               cs2 = put_conversation conv cs1;
               memory = load_conversation_memory cs2 conv (se_history_max_messages s) (se_history_token_budget s);
               cs3 = snd (add_message (new_message (cv_id conv) ''user'' (rq_message q) (rq_request_id q)) cs2)
           in case model_choice (env_of d) (rq_model q) (cv_model_id conv) of
                Inl x \<Rightarrow> (Inl (StartFault x), cs)
              | Inr choice \<Rightarrow>
                  (Inr \<lparr>pp_conversation_id = cv_id conv, pp_question = rq_message q, pp_history = as_messages memory,
                        pp_model_choice = choice, pp_context_classification = cv_context_classification conv\<rparr>, cs3)))"

definition on_chat :: "chat_store \<Rightarrow> chat_world \<Rightarrow> chat_world" where
  "on_chat cs w = w\<lparr>cw_chat := cs\<rparr>"

definition start_turn :: "chat_deps \<Rightarrow> chat_request \<Rightarrow> principal \<Rightarrow> chat_world \<Rightarrow> (http_reply + prepared_turn) \<times> chat_world" where
  "start_turn d q p w =
     (case check_choice (gw_catalog (td_gateway (hd_tools d))) (rq_model q) (allow_any_model (td_settings (hd_tools d))) of
        Inl x \<Rightarrow> (Inl (if unknown_model x then HttpError 400 ''unknown_model'' [] else HttpFault (fault_of x)), w)
      | Inr _ \<Rightarrow>
          (case prepare_turn d q p (cw_chat w) of
             (Inl NoConversation, cs) \<Rightarrow> (Inl (HttpError 404 ''not_found'' []), on_chat cs w)
           | (Inl (StartFault x), cs) \<Rightarrow> (Inl (HttpFault x), on_chat cs w)
           | (Inr prep, cs) \<Rightarrow> (Inr prep, on_chat cs w)))"

section \<open>Routing the turn\<close>

datatype turn_route = RouteKnowledge | RouteText string string | RouteTool tool_reply

text \<open>\<open>result.get("message")\<close>, or the tool's data in words when the call succeeded and has any.\<close>

definition tool_message :: "tool_reply \<Rightarrow> string" where
  "tool_message t =
     (case ty_data t of
        JObj data \<Rightarrow> if ty_status t = ''ok'' \<and> data \<noteq> [] then describe_tool_result (ty_name t) data else ty_message t
      | _ \<Rightarrow> ty_message t)"

definition awaiting_reply :: "interrupt_value \<Rightarrow> tool_reply" where
  "awaiting_reply v =
     \<lparr>ty_name = ''create_vpn_profile'', ty_status = ''pending'', ty_message = iv_summary v, ty_data = JNull,
      ty_pending_action_id = iv_pending_action_id v, ty_action_hash = iv_action_hash v\<rparr>"

definition agent_state_of :: "prepared_turn \<Rightarrow> principal \<Rightarrow> string \<Rightarrow> agent_state" where
  "agent_state_of prep p request_id =
     \<lparr>gs_question = pp_question prep, gs_user_id = p_user_id p, gs_request_id = request_id,
      gs_conversation_id = Some (pp_conversation_id prep), gs_model_choice = pp_model_choice prep\<rparr>"

definition route_turn ::
  "chat_deps \<Rightarrow> int \<Rightarrow> prepared_turn \<Rightarrow> principal \<Rightarrow> string \<Rightarrow> chat_world \<Rightarrow> (http_reply + turn_route) \<times> chat_world" where
  "route_turn d now prep p request_id w =
     (if \<not> hd_agent d then (Inr RouteKnowledge, w)
      else case agent_invoke d now (agent_state_of prep p request_id) w of
             (NodeInterrupted v, w') \<Rightarrow> (Inr (RouteTool (awaiting_reply v)), w')
           | (NodeRaised x, w') \<Rightarrow> (Inl (HttpFault x), w')
           | (NodeCallFailed x, w') \<Rightarrow> (Inl (HttpRaised x), w')
           | (NodeDone g, w') \<Rightarrow>
               (Inr (case g of
                       GSmallTalk t \<Rightarrow> RouteText ''small_talk'' t
                     | GRefuse t \<Rightarrow> RouteText ''refuse'' t
                     | GKnowledge \<Rightarrow> RouteKnowledge
                     | GTool t \<Rightarrow> RouteTool (t\<lparr>ty_message := tool_message t\<rparr>)), w'))"

section \<open>Sources\<close>

definition turn_sources :: "chat_deps \<Rightarrow> prepared_turn \<Rightarrow> principal \<Rightarrow> chat_world \<Rightarrow> (call_failure + retrieval_result) \<times> chat_world" where
  "turn_sources d prep p w =
     (let t = hd_tools d in
      case retrieve (td_gateway t) (td_rnd t) (td_ask t) (td_index t) (td_settings t) (td_knowledge t) (pp_question prep)
             (scope_for p) None (gateway_of w) of
        (Inl x, st) \<Rightarrow> (Inl x, on_gateway_state st w)
      | (Inr r, st) \<Rightarrow>
          (case review_near_misses (env_of d) (pp_question prep) (pp_model_choice prep) r st of
             (res, st') \<Rightarrow> (res, on_gateway_state st' w)))"

definition context_of_turn :: "prepared_turn \<Rightarrow> retrieval_result \<Rightarrow> string option" where
  "context_of_turn prep r = most_sensitive [pp_context_classification prep, max_classification r]"

definition egress_allowed :: "chat_deps \<Rightarrow> prepared_turn \<Rightarrow> retrieval_result \<Rightarrow> bool" where
  "egress_allowed d prep r = allows_egress (td_settings (hd_tools d)) (context_of_turn prep r)"

definition remember_context :: "prepared_turn \<Rightarrow> retrieval_result \<Rightarrow> chat_store \<Rightarrow> chat_store" where
  "remember_context prep r cs =
     (if max_classification r = None \<or> context_of_turn prep r = pp_context_classification prep then cs
      else case conversation_at cs (pp_conversation_id prep) of
             None \<Rightarrow> cs
           | Some conv \<Rightarrow>
               put_conversation
                 (conv\<lparr>cv_context_classification := most_sensitive [cv_context_classification conv, max_classification r]\<rparr>) cs)"

section \<open>Storing and summarising\<close>

definition save_assistant ::
  "string \<Rightarrow> string \<Rightarrow> string \<Rightarrow> string option \<Rightarrow> usage option \<Rightarrow> json list option \<Rightarrow> string \<Rightarrow> chat_store \<Rightarrow> int \<times> chat_store" where
  "save_assistant conversation_id content status model_id us citations request_id cs =
     (let r = add_message ((new_message conversation_id ''assistant'' content request_id)
                \<lparr>mg_status := status, mg_model_id := model_id, mg_prompt_tokens := map_option prompt_tokens us,
                 mg_completion_tokens := map_option completion_tokens us, mg_citations := citations\<rparr>) cs
      in (mg_seq (fst r), snd r))"

definition maybe_summarize :: "chat_deps \<Rightarrow> prepared_turn \<Rightarrow> chat_world \<Rightarrow> call_failure option \<times> chat_world" where
  "maybe_summarize d prep w =
     (case conversation_at (cw_chat w) (pp_conversation_id prep) of
        None \<Rightarrow> (None, w)
      | Some conv \<Rightarrow>
          (let e = env_of d in
           case update_summary (ag_gateway e) (ag_rnd e) (ag_ask e) (cw_chat w) (pp_model_choice prep) conv (gateway_of w) of
             (Inl x, st) \<Rightarrow> (Some x, on_gateway_state st w)
           | (Inr conv', st) \<Rightarrow> (None, on_chat (put_conversation conv' (cw_chat w)) (on_gateway_state st w))))"

section \<open>The turn\<close>

definition chat_params_of :: "chat_request \<Rightarrow> chat_params" where
  "chat_params_of q = \<lparr>cp_temperature = Some (rq_temperature q), cp_max_tokens = rq_max_tokens q\<rparr>"

text \<open>\<open>GATEWAY_STATUS\<close>.\<close>

fun gateway_status :: "gateway_code \<Rightarrow> nat" where
  "gateway_status BadRequest = 502"
| "gateway_status ProviderUnavailableCode = 503"
| "gateway_status NoAvailableProvider = 503"
| "gateway_status DeadlineExceeded = 504"

fun gateway_code_text :: "gateway_code \<Rightarrow> string" where
  "gateway_code_text BadRequest = ''bad_request''"
| "gateway_code_text ProviderUnavailableCode = ''provider_unavailable''"
| "gateway_code_text NoAvailableProvider = ''no_available_provider''"
| "gateway_code_text DeadlineExceeded = ''deadline_exceeded''"

text \<open>The reply of the paths that neither cite nor call an answering model.\<close>

definition plain_reply :: "string \<Rightarrow> int \<Rightarrow> string \<Rightarrow> string \<Rightarrow> tool_reply option \<Rightarrow> string \<Rightarrow> http_reply" where
  "plain_reply conversation_id seq content route tool request_id =
     HttpChat
       \<lparr>xr_conversation_id = conversation_id, xr_message_seq = seq, xr_content = content, xr_route = route, xr_tool = tool,
        xr_citations = [], xr_grounded = True, xr_abstained = False, xr_repointed_citations = 0, xr_escalation = None,
        xr_suggested_action = None, xr_model = None, xr_model_route = None, xr_fallback_used = False, xr_finish_reason = None,
        xr_usage = no_usage, xr_cost_usd = 0, xr_retrieval = no_retrieval, xr_attempts = [], xr_request_id = request_id\<rparr>"

definition save_plain ::
  "chat_request \<Rightarrow> prepared_turn \<Rightarrow> string \<Rightarrow> string \<Rightarrow> tool_reply option \<Rightarrow> chat_world \<Rightarrow> http_reply \<times> chat_world" where
  "save_plain q prep content route tool w =
     (case save_assistant (pp_conversation_id prep) content ''complete'' None None (Some []) (rq_request_id q) (cw_chat w) of
        (seq, cs) \<Rightarrow> (plain_reply (pp_conversation_id prep) seq content route tool (rq_request_id q), on_chat cs w))"

definition save_error :: "chat_request \<Rightarrow> prepared_turn \<Rightarrow> chat_world \<Rightarrow> chat_world" where
  "save_error q prep w =
     on_chat (snd (save_assistant (pp_conversation_id prep) [] ''error'' None None None (rq_request_id q) (cw_chat w))) w"

definition knowledge_reply :: "chat_request \<Rightarrow> prepared_turn \<Rightarrow> retrieval_result \<Rightarrow> answer_result \<Rightarrow> int \<Rightarrow> http_reply" where
  "knowledge_reply q prep r res seq =
     HttpChat
       \<lparr>xr_conversation_id = pp_conversation_id prep, xr_message_seq = seq, xr_content = ga_text (an_answer res),
        xr_route = ''knowledge'', xr_tool = None, xr_citations = ga_citations (an_answer res),
        xr_grounded = grounded (an_answer res), xr_abstained = ga_abstained (an_answer res),
        xr_repointed_citations = ga_repointed_citations (an_answer res), xr_escalation = an_escalation res,
        xr_suggested_action = an_suggested_action res,
        xr_model = (if nonempty (an_model_id res)
                    then Some (the (an_model_id res), case an_provider res of None \<Rightarrow> [] | Some x \<Rightarrow> x) else None),
        xr_model_route = an_route res, xr_fallback_used = an_fallback_used res, xr_finish_reason = an_finish_reason res,
        xr_usage = an_usage res, xr_cost_usd = an_cost_usd res, xr_retrieval = retrieval_out_of r,
        xr_attempts = map attempt_out_of (an_attempts res), xr_request_id = rq_request_id q\<rparr>"

text \<open>What follows retrieval: the context is recorded before any model sees it, then the answer, its row, the summary.\<close>

definition answer_turn ::
  "chat_deps \<Rightarrow> chat_request \<Rightarrow> prepared_turn \<Rightarrow> principal \<Rightarrow> retrieval_result \<Rightarrow> chat_world \<Rightarrow> http_reply \<times> chat_world" where
  "answer_turn d q prep p r w =
     (let w1 = on_chat (remember_context prep r (cw_chat w)) w in
      case answer_from_knowledge (env_of d) (pp_question prep) (pp_history prep) r (pp_model_choice prep) (chat_params_of q)
             (egress_allowed d prep r) (se_escalation_model (td_settings (hd_tools d))) (Some p) (gateway_of w1) of
        (Inl x, st) \<Rightarrow> (HttpRaised x, on_gateway_state st w1)
      | (Inr res, st) \<Rightarrow>
          (let w2 = on_gateway_state st w1 in
           case an_error res of
             Some (c, atts) \<Rightarrow>
               (HttpError (gateway_status c) (gateway_code_text c) (map attempt_out_of atts), save_error q prep w2)
           | None \<Rightarrow>
               (case save_assistant (pp_conversation_id prep) (ga_text (an_answer res)) ''complete'' (an_model_id res)
                       (if nonempty (an_model_id res) then Some (an_usage res) else None)
                       (Some (map citation_json (ga_citations (an_answer res)))) (rq_request_id q) (cw_chat w2) of
                  (seq, cs) \<Rightarrow>
                    (case maybe_summarize d prep (on_chat cs w2) of
                       (Some x, w3) \<Rightarrow> (HttpRaised x, w3)
                     | (None, w3) \<Rightarrow> (knowledge_reply q prep r res seq, w3)))))"

definition knowledge_turn ::
  "chat_deps \<Rightarrow> chat_request \<Rightarrow> prepared_turn \<Rightarrow> principal \<Rightarrow> chat_world \<Rightarrow> http_reply \<times> chat_world" where
  "knowledge_turn d q prep p w =
     (case turn_sources d prep p w of
        (Inl (CallGatewayError c atts), w') \<Rightarrow>
          (HttpError 503 ''retrieval_unavailable'' (map attempt_out_of atts), save_error q prep w')
      | (Inl x, w') \<Rightarrow> (HttpRaised x, w')
      | (Inr r, w') \<Rightarrow> answer_turn d q prep p r w')"

definition chat_turn :: "chat_deps \<Rightarrow> int \<Rightarrow> chat_request \<Rightarrow> principal \<Rightarrow> chat_world \<Rightarrow> http_reply \<times> chat_world" where
  "chat_turn d now q p w =
     (case start_turn d q p w of
        (Inl x, w1) \<Rightarrow> (x, w1)
      | (Inr prep, w1) \<Rightarrow>
          (case route_turn d now prep p (rq_request_id q) w1 of
             (Inl x, w2) \<Rightarrow> (x, w2)
           | (Inr (RouteText route content), w2) \<Rightarrow> save_plain q prep content route None w2
           | (Inr (RouteTool t), w2) \<Rightarrow> save_plain q prep (ty_message t) ''tool'' (Some t) w2
           | (Inr RouteKnowledge, w2) \<Rightarrow> knowledge_turn d q prep p w2))"

section \<open>Reading a conversation and switching its model\<close>

record conversation_details =
  vw_conversation :: conversation
  vw_messages :: "message list"
  vw_usage :: usage_totals

definition conversation_view :: "usage_row list \<Rightarrow> chat_store \<Rightarrow> string \<Rightarrow> string \<Rightarrow> conversation_error + conversation_details" where
  "conversation_view rows cs i user_id =
     map_sum (\<lambda>e. e) (\<lambda>c. \<lparr>vw_conversation = c,
         vw_messages = sort_key mg_seq (filter (\<lambda>m. mg_conversation_id m = cv_id c) (cs_messages cs)),
         vw_usage = usage_totals rows (cv_id c)\<rparr>)
       (get_owned cs i user_id)"

definition switch_conversation_model ::
  "chat_deps \<Rightarrow> usage_row list \<Rightarrow> string \<Rightarrow> string \<Rightarrow> string \<Rightarrow> chat_store \<Rightarrow> (http_reply + conversation_details) \<times> chat_store" where
  "switch_conversation_model d rows i new_model user_id cs =
     (case check_choice (gw_catalog (td_gateway (hd_tools d))) (Some new_model) (allow_any_model (td_settings (hd_tools d))) of
        Inl x \<Rightarrow> (Inl (if unknown_model x then HttpError 400 ''unknown_model'' [] else HttpFault (fault_of x)), cs)
      | Inr _ \<Rightarrow>
          (case get_owned cs i user_id of
             Inl _ \<Rightarrow> (Inl (HttpError 404 ''not_found'' []), cs)
           | Inr c \<Rightarrow>
               (let cs' = put_conversation (c\<lparr>cv_model_id := Some new_model\<rparr>) cs in
                (case conversation_view rows cs' i user_id of
                   Inl _ \<Rightarrow> Inl (HttpError 404 ''not_found'' []) | Inr v \<Rightarrow> Inr v, cs'))))"

end
