(* ===== verification/ReadApi.thy ===== *)
theory ReadApi
  imports Chat
begin

text \<open>
  The endpoints that only read: the model list and embeddings of \<open>api/models.py\<close>, the search of \<open>api/knowledge.py\<close>, and the
  readiness report of \<open>api/health.py\<close>, whose probes are arguments.
\<close>

section \<open>Models\<close>

record model_info =
  mi_id :: string
  mi_kind :: model_kind
  mi_provider :: string
  mi_selectable :: bool
  mi_available :: bool
  mi_unavailable_reason :: "string option"
  mi_circuit :: string
  mi_data_egress :: bool
  mi_context_window :: "int option"
  mi_dimensions :: "int option"
  mi_input_usd_per_mtok :: rat
  mi_output_usd_per_mtok :: rat

record models_response =
  mr_selectable :: "string list"
  mr_models :: "model_info list"
  mr_routes :: "(string, string list) dict"
  mr_default_chat :: string
  mr_default_embedding :: string

fun circuit_text :: "breaker_state \<Rightarrow> string" where
  "circuit_text Closed = ''closed''"
| "circuit_text Open = ''open''"
| "circuit_text HalfOpen = ''half_open''"

definition model_info_of ::
  "gateway \<Rightarrow> (string, provider_status) dict \<Rightarrow> (string, breaker_state) dict \<Rightarrow> model_spec \<Rightarrow> provider_config \<Rightarrow> model_info" where
  "model_info_of g statuses circuits spec cfg =
     (let status = (case dict_get statuses (ms_provider spec) of
                      None \<Rightarrow> \<lparr>ps_enabled = False, ps_reason = Some ''not configured''\<rparr> | Some x \<Rightarrow> x)
      in \<lparr>mi_id = ms_id spec, mi_kind = ms_kind spec, mi_provider = ms_provider spec,
          mi_selectable = (ms_id spec \<in> set (cat_selectable (gw_catalog g))), mi_available = is_available g spec,
          mi_unavailable_reason = (if ps_enabled status then None else ps_reason status),
          mi_circuit = (case dict_get circuits (ms_id spec) of None \<Rightarrow> ''closed'' | Some x \<Rightarrow> circuit_text x),
          mi_data_egress = pc_data_egress cfg, mi_context_window = ms_context_window spec, mi_dimensions = ms_dimensions spec,
          mi_input_usd_per_mtok = ms_input_usd_per_mtok spec, mi_output_usd_per_mtok = ms_output_usd_per_mtok spec\<rparr>)"

text \<open>A model of a provider the catalog does not have is a KeyError.\<close>

fun model_infos ::
  "gateway \<Rightarrow> (string, provider_status) dict \<Rightarrow> (string, breaker_state) dict \<Rightarrow> model_spec list \<Rightarrow> string + model_info list" where
  "model_infos g statuses circuits [] = Inr []"
| "model_infos g statuses circuits (spec # specs) =
     (case dict_get (cat_providers (gw_catalog g)) (ms_provider spec) of
        None \<Rightarrow> Inl ''KeyError''
      | Some cfg \<Rightarrow> map_sum id ((#) (model_info_of g statuses circuits spec cfg)) (model_infos g statuses circuits specs))"

definition list_models :: "gateway \<Rightarrow> (string, provider_status) dict \<Rightarrow> gw_state \<Rightarrow> string + models_response" where
  "list_models g statuses st =
     (let c = gw_catalog g in
      map_sum id (\<lambda>infos. \<lparr>mr_selectable = cat_selectable c, mr_models = infos, mr_routes = cat_routes c,
                            mr_default_chat = cat_default_chat c, mr_default_embedding = cat_default_embedding c\<rparr>)
        (model_infos g statuses (states (st_breakers st) (st_now st)) (cat_models c)))"

section \<open>Embeddings\<close>

record embedding_request =
  eq_input :: "string list"
  eq_model :: "string option"
  eq_input_type :: string

definition embedding_request_valid :: "embedding_request \<Rightarrow> bool" where
  "embedding_request_valid q \<longleftrightarrow>
     1 \<le> length (eq_input q) \<and> length (eq_input q) \<le> 64
     \<and> (case eq_model q of None \<Rightarrow> True | Some m \<Rightarrow> length m \<le> 100)
     \<and> eq_input_type q \<in> set [''query'', ''passage'']
     \<and> list_all (\<lambda>s. py_strip s \<noteq> [] \<and> length s \<le> MAX_MESSAGE_CHARS) (eq_input q)"

record embedding_response =
  ep_model :: "string \<times> string"
  ep_dimensions :: nat
  ep_data :: "(nat \<times> rat list) list"
  ep_usage :: usage
  ep_cost_usd :: rat

datatype 'r read_reply = ReadOk 'r | ReadError nat string "attempt_out list" | ReadRaised call_failure

text \<open>Of the exceptions of \<open>resolve\<close> only \<open>UnknownModelError\<close> is answered.\<close>

definition embeddings ::
  "tool_deps \<Rightarrow> embedding_request \<Rightarrow> gw_state \<Rightarrow> embedding_response read_reply \<times> gw_state" where
  "embeddings t q st =
     (case embed (td_gateway t) (td_rnd t) (td_ask t) (eq_model q) (eq_input q) (eq_input_type q) st of
        (Inl (CallUnknownModel x), st') \<Rightarrow>
          (if unknown_model x then ReadError 400 ''unknown_model'' [] else ReadRaised (CallUnknownModel x), st')
      | (Inl (CallGatewayError c atts), st') \<Rightarrow> (ReadError (gateway_status c) (gateway_code_text c) (map attempt_out_of atts), st')
      | (Inl x, st') \<Rightarrow> (ReadRaised x, st')
      | (Inr out, st') \<Rightarrow>
          (let vectors = er_vectors (co_result out) in
           (ReadOk \<lparr>ep_model = (ms_id (co_model out), ms_provider (co_model out)),
                    ep_dimensions = (case vectors of [] \<Rightarrow> 0 | v # _ \<Rightarrow> length v),
                    ep_data = zip [0..<length vectors] vectors,
                    ep_usage = er_usage (co_result out), ep_cost_usd = outcome_cost out\<rparr>, st')))"

section \<open>Search\<close>

record search_request =
  sq_query :: string
  sq_top_k :: int

definition search_request_valid :: "search_request \<Rightarrow> bool" where
  "search_request_valid q \<longleftrightarrow>
     1 \<le> length (sq_query q) \<and> length (sq_query q) \<le> MAX_MESSAGE_CHARS \<and> 1 \<le> sq_top_k q \<and> sq_top_k q \<le> 20"

record search_hit =
  sh_rank :: nat
  sh_doc_key :: string
  sh_version :: int
  sh_title :: string
  sh_locator :: string
  sh_ref :: string
  sh_content :: string
  sh_context :: string
  sh_similarity :: "rat option"
  sh_fts_rank :: "rat option"
  sh_score :: rat

definition search_hit_of :: "nat \<Rightarrow> retrieved_chunk \<Rightarrow> search_hit" where
  "search_hit_of i c =
     \<lparr>sh_rank = i, sh_doc_key = rc_doc_key c, sh_version = rc_version c, sh_title = rc_title c, sh_locator = rc_locator c,
      sh_ref = stable_ref c, sh_content = rc_content c, sh_context = rc_context c, sh_similarity = rc_similarity c,
      sh_fts_rank = rc_fts_rank c, sh_score = rc_score c\<rparr>"

definition search ::
  "tool_deps \<Rightarrow> principal \<Rightarrow> search_request \<Rightarrow> gw_state \<Rightarrow> (search_hit list \<times> retrieval_out) read_reply \<times> gw_state" where
  "search t p q st =
     (case retrieve (td_gateway t) (td_rnd t) (td_ask t) (td_index t) (td_settings t) (td_knowledge t) (sq_query q) (scope_for p)
             (Some (sq_top_k q)) st of
        (Inl (CallGatewayError c atts), st') \<Rightarrow> (ReadError 503 ''retrieval_unavailable'' (map attempt_out_of atts), st')
      | (Inl x, st') \<Rightarrow> (ReadRaised x, st')
      | (Inr r, st') \<Rightarrow>
          (ReadOk (map (\<lambda>(i, c). search_hit_of i c) (zip [1..<Suc (length (rr_chunks r))] (rr_chunks r)),
                   (retrieval_out_of r)\<lparr>ro_reviewed := 0, ro_admitted_by_review := 0\<rparr>), st'))"

section \<open>Readiness\<close>

text \<open>A probe: its problem if it has one, its exception's type, or nothing in time.\<close>

datatype probe_result = ProbeOk | ProbeProblem string | ProbeRaised string | ProbeTimeout

record dependency_status =
  ds_ok :: bool
  ds_detail :: "string option"

text \<open>The timeout is rendered by the argument \<open>limit\<close>.\<close>

definition timed_probe :: "string \<Rightarrow> probe_result \<Rightarrow> dependency_status" where
  "timed_probe limit r =
     (let problem = (case r of ProbeOk \<Rightarrow> None | ProbeProblem x \<Rightarrow> Some x
                     | ProbeRaised x \<Rightarrow> Some (''unavailable ('' @ x @ '')'') | ProbeTimeout \<Rightarrow> Some (''timed out after '' @ limit @ ''s''))
      in \<lparr>ds_ok = (problem = None), ds_detail = problem\<rparr>)"

definition check_postgres :: "bool \<Rightarrow> bool \<Rightarrow> probe_result" where
  "check_postgres has_vector has_schema =
     (if \<not> has_vector then ProbeProblem ''pgvector extension missing (run migrations)''
      else if \<not> has_schema then ProbeProblem ''schema not migrated'' else ProbeOk)"

definition readyz :: "string \<Rightarrow> probe_result \<Rightarrow> probe_result \<Rightarrow> nat \<times> string \<times> (string, dependency_status) dict" where
  "readyz limit postgres redis =
     (let checks = [(''postgres'', timed_probe limit postgres), (''redis'', timed_probe limit redis)];
          ready = list_all (\<lambda>kv. ds_ok (snd kv)) checks
      in (if ready then 200 else 503, if ready then ''ready'' else ''not_ready'', checks))"

section \<open>Properties\<close>

lemma gate_top:
  assumes "1 \<le> n" "r = gate s th (Some n) m ts cands"
  shows "int (length (rr_chunks r)) \<le> n" "sorted_wrt (\<lambda>a b. rc_score b \<le> rc_score a) (rr_chunks r)"
proof -
  define kept where "kept = distinct_sections (map to_chunk (filter (\<lambda>c. \<not> below_floor (relevance_floor s th cands) c) cands))"
  have chunks: "rr_chunks r = take (nat n) kept"
    using assms by (simp add: gate_def Let_def kept_def py_take_def)
  show "int (length (rr_chunks r)) \<le> n" using assms(1) by (simp add: chunks)
  have "sorted_wrt (\<lambda>a b. rc_score b \<le> rc_score a) kept"
    using distinct_sections_sorted by (simp add: kept_def sorted_wrt_map)
  then show "sorted_wrt (\<lambda>a b. rc_score b \<le> rc_score a) (rr_chunks r)"
    unfolding chunks by (rule sorted_wrt_take)
qed

lemma retrieve_top:
  assumes "fst (retrieve g rnd ask ix s db query sc (Some n) st) = Inr r" "1 \<le> n"
  shows "int (length (rr_chunks r)) \<le> n" "sorted_wrt (\<lambda>a b. rc_score b \<le> rc_score a) (rr_chunks r)"
proof -
  obtain th m ts q where "r = gate s th (Some n) m ts (search_index ix s sc m q query db)"
    using assms(1) by (auto simp: retrieve_def Let_def split: sum.splits prod.splits list.splits)
  from gate_top [OF assms(2) this]
  show "int (length (rr_chunks r)) \<le> n" "sorted_wrt (\<lambda>a b. rc_score b \<le> rc_score a) (rr_chunks r)" by simp_all
qed

text \<open>The search shows what the assistant may use: every hit is an active passage the caller may read, of a document the caller
  may read; the hits are numbered from 1 in the order of falling score, and there are at most as many as asked for.\<close>

theorem search_contained:
  assumes "kb_checked (td_knowledge t)" "search_request_valid q"
  shows "case fst (search t p q st) of
      ReadOk (hits, out) \<Rightarrow>
        list_all (\<lambda>h. \<exists>c. readable_hit p (td_knowledge t) c \<and> h = search_hit_of (sh_rank h) c) hits
        \<and> map sh_rank hits = [1..<Suc (length hits)] \<and> sorted_wrt (\<lambda>a b. sh_score b \<le> sh_score a) hits
        \<and> int (length hits) \<le> sq_top_k q \<and> ro_used out = length hits
    | _ \<Rightarrow> True"
proof (cases "retrieve (td_gateway t) (td_rnd t) (td_ask t) (td_index t) (td_settings t) (td_knowledge t) (sq_query q) (scope_for p)
             (Some (sq_top_k q)) st")
  case (Pair res st')
  show ?thesis
  proof (cases res)
    case (Inl e)
    with Pair show ?thesis by (cases e) (simp_all add: search_def)
  next
    case (Inr r)
    let ?cs = "rr_chunks r"
    have r: "fst (retrieve (td_gateway t) (td_rnd t) (td_ask t) (td_index t) (td_settings t) (td_knowledge t) (sq_query q) (scope_for p)
        (Some (sq_top_k q)) st) = Inr r" using Pair Inr by simp
    have ok: "readable_hit p (td_knowledge t) c" if "c \<in> set ?cs" for c
      by (rule retrieve_hit_readable [OF assms(1) r]) (use that in simp)
    have top: "int (length ?cs) \<le> sq_top_k q" "sorted_wrt (\<lambda>a b. rc_score b \<le> rc_score a) ?cs"
      using retrieve_top [OF r] assms(2) by (simp_all add: search_request_valid_def)
    have hits: "fst (search t p q st) = ReadOk (map2 search_hit_of [1..<Suc (length ?cs)] ?cs,
        (retrieval_out_of r)\<lparr>ro_reviewed := 0, ro_admitted_by_review := 0\<rparr>)"
      using Pair Inr by (simp add: search_def del: upt_Suc)
    have facts: "list_all (\<lambda>h. \<exists>c. readable_hit p (td_knowledge t) c \<and> h = search_hit_of (sh_rank h) c) (map2 search_hit_of ns cs)
        \<and> map sh_rank (map2 search_hit_of ns cs) = ns \<and> map sh_score (map2 search_hit_of ns cs) = map rc_score cs"
      if "length ns = length cs" "\<And>c. c \<in> set cs \<Longrightarrow> readable_hit p (td_knowledge t) c" for ns cs
      using that by (induction ns cs rule: list_induct2) (auto simp: search_hit_of_def)
    note f = facts [of "[1..<Suc (length ?cs)]" ?cs, OF _ ok]
    have "sorted_wrt (\<lambda>a b. b \<le> a) (map sh_score (map2 search_hit_of [1..<Suc (length ?cs)] ?cs))"
      using f top(2) by (simp add: sorted_wrt_map del: upt_Suc)
    then have "sorted_wrt (\<lambda>a b. sh_score b \<le> sh_score a) (map2 search_hit_of [1..<Suc (length ?cs)] ?cs)"
      by (simp add: sorted_wrt_map del: upt_Suc)
    with f top(1) show ?thesis
      by (simp add: hits retrieval_out_of_def del: upt_Suc)
  qed
qed

end
