(* ===== verification/ServiceProps.thy ===== *)
theory ServiceProps
  imports Service
begin

text \<open>
  What the answering service guarantees: where an answer and its citations come from, when a larger model is asked and
  which answer is shown, which models see the sources, and that the ticket it offers can be raised.
\<close>

section \<open>Which models are called\<close>

lemma ag_chat_calls:
  "calls_from (\<lambda>c. allow_egress \<or> \<not> has_egress (ag_gateway e) (call_spec c)) st (snd (ag_chat e route messages params allow_egress st))"
  unfolding ag_chat_def by (rule chat_calls)

definition on_premises :: "agent_env \<Rightarrow> bool \<Rightarrow> call \<Rightarrow> bool" where
  "on_premises e allow_egress c \<longleftrightarrow> allow_egress \<or> \<not> has_egress (ag_gateway e) (call_spec c)"

lemma ag_chat_premises:
  "ag_chat e route messages params allow_egress st = (res, st') \<Longrightarrow> calls_from (on_premises e allow_egress) st st'"
  using ag_chat_calls [of allow_egress e st route messages params] by (simp add: on_premises_def [abs_def])

lemma escalate_premises:
  "calls_from (on_premises e allow_egress) st (snd (escalate e larger reason messages params allow_egress chunks a out st))"
  by (auto simp: escalate_def Let_def split: prod.split sum.split call_failure.split answer_choice.split
      intro: ag_chat_premises)

lemma answer_premises:
  "calls_from (on_premises e allow_egress) st
     (snd (answer_from_knowledge e q h r mc params allow_egress em who st))"
proof (cases "rr_chunks r = []")
  case False
  let ?ms = "build_messages (ag_system_prompt e) q (rr_chunks r) h (0 < rr_admitted_by_review r)"
  obtain res st1 where c: "ag_chat e mc ?ms params allow_egress st = (res, st1)"
    by (cases "ag_chat e mc ?ms params allow_egress st")
  note first = ag_chat_premises [OF c]
  show ?thesis
  proof (cases res)
    case (Inl x)
    with False c first show ?thesis by (cases x) (simp_all add: answer_from_knowledge_def)
  next
    case (Inr out)
    with False c first calls_from_trans [OF first escalate_premises] show ?thesis
      by (auto simp: answer_from_knowledge_def Let_def split: option.split)
  qed
qed (simp add: answer_from_knowledge_def)

lemma review_premises:
  "calls_from (on_premises e (allows_egress (ag_settings e) (most_classified (rr_near_misses r)))) st
     (snd (review_near_misses e q mc r st))"
  by (auto simp: review_near_misses_def Let_def split: prod.split sum.split call_failure.split intro: ag_chat_premises)

section \<open>The review\<close>

lemma admitted_in_range: "n \<in> set (admitted_passages loads reply k) \<Longrightarrow> 1 \<le> n \<and> n \<le> k"
  by (auto simp: admitted_passages_def split: option.splits json.splits)

lemma admitted_distinct: "distinct (admitted_passages loads reply k) \<and> sorted (admitted_passages loads reply k)"
  by (auto simp: admitted_passages_def split: option.splits json.splits)

lemma subseq_nth:
  "sorted_wrt (<) ns \<Longrightarrow> \<forall>n \<in> set ns. n < length xs \<Longrightarrow> subseq (map (nth xs) ns) xs"
proof (induction xs arbitrary: ns)
  case (Cons x xs)
  have shift: "subseq (map (nth (x # xs)) ms) xs" if "sorted_wrt (<) ms" "\<forall>m \<in> set ms. 0 < m \<and> m < length (x # xs)" for ms
  proof -
    have eq: "map (nth (x # xs)) ms = map (nth xs) (map (\<lambda>m. m - 1) ms)"
      using that(2) by (auto simp: nth_Cons')
    have "sorted_wrt (<) (map (\<lambda>m. m - 1) ms)"
      using that by (induction ms) (auto intro!: diff_less_mono simp: Suc_le_eq)
    then show ?thesis
      unfolding eq by (rule Cons.IH) (use that(2) in auto)
  qed
  show ?case
  proof (cases ns)
    case (Cons n ms)
    with Cons.prems have ms: "sorted_wrt (<) ms" "\<forall>m \<in> set ms. n < m \<and> m < length (x # xs)" by auto
    show ?thesis
    proof (cases "n = 0")
      case True
      with Cons shift [of ms] ms show ?thesis by simp
    next
      case False
      with Cons ms have "\<forall>m \<in> set ns. 0 < m \<and> m < length (x # xs)" using Cons.prems(2) by auto
      from shift [OF Cons.prems(1) this] show ?thesis by (rule list_emb_Cons)
    qed
  qed simp
qed simp

lemma reviewed_subseq:
  "subseq (rr_chunks (admit_reviewed (admitted_passages loads reply (length (rr_near_misses r))) r)) (rr_near_misses r)"
proof -
  let ?ns = "admitted_passages loads reply (length (rr_near_misses r))"
  have range: "\<forall>n \<in> set ?ns. 1 \<le> n \<and> n \<le> length (rr_near_misses r)" using admitted_in_range by blast
  have "sorted_wrt (<) ?ns" using admitted_distinct by (simp add: strict_sorted_iff)
  then have "sorted_wrt (<) (map (\<lambda>n. n - 1) ?ns)"
    unfolding sorted_wrt_map by (rule sorted_wrt_mono_rel [rotated]) (use range in \<open>auto intro: diff_less_mono\<close>)
  moreover have "\<forall>n \<in> set (map (\<lambda>n. n - 1) ?ns). n < length (rr_near_misses r)"
    using range by auto
  ultimately have "subseq (map (nth (rr_near_misses r)) (map (\<lambda>n. n - 1) ?ns)) (rr_near_misses r)"
    by (rule subseq_nth)
  then show ?thesis by (simp add: admit_reviewed_def comp_def)
qed

lemma nothing_admitted: "rr_chunks (admit_reviewed [] r) = []"
  by (simp add: admit_reviewed_def)

text \<open>The review only narrows what retrieval already allowed: whatever the judge replies, the sources afterwards are those
  of the gate or, where it admitted none, some of its near misses, each once and in their order; and when a near
  miss may not leave the premises, no judge that sends data off-box reads them.\<close>

theorem review_narrows:
  "(case fst (review_near_misses e q mc r st) of
      Inl x \<Rightarrow> True
    | Inr r' \<Rightarrow> if rr_chunks r \<noteq> [] then r' = r else subseq (rr_chunks r') (rr_near_misses r))
   \<and> (if allows_egress (ag_settings e) (most_classified (rr_near_misses r)) then True
      else list_all (\<lambda>c. \<not> has_egress (ag_gateway e) (call_spec c)) (new_calls st (snd (review_near_misses e q mc r st))))"
proof
  show "case fst (review_near_misses e q mc r st) of
      Inl x \<Rightarrow> True
    | Inr r' \<Rightarrow> if rr_chunks r \<noteq> [] then r' = r else subseq (rr_chunks r') (rr_near_misses r)"
    by (auto simp: review_near_misses_def Let_def reviewed_subseq nothing_admitted
        split: prod.split sum.split call_failure.split)
  show "if allows_egress (ag_settings e) (most_classified (rr_near_misses r)) then True
      else list_all (\<lambda>c. \<not> has_egress (ag_gateway e) (call_spec c)) (new_calls st (snd (review_near_misses e q mc r st)))"
    using review_premises [of e r st q mc] by (auto simp: calls_from_def on_premises_def [abs_def])
qed

section \<open>The answer\<close>

text \<open>A citation that is the number, key, version, place and passage of one of the sources.\<close>

definition cites_source :: "retrieved_chunk list \<Rightarrow> citation \<Rightarrow> bool" where
  "cites_source chunks c \<longleftrightarrow>
     1 \<le> ci_number c \<and> ci_number c \<le> length chunks \<and> c = citation_of (ci_number c) (chunks ! (ci_number c - 1))"

definition answer_ok :: "retrieved_chunk list \<Rightarrow> principal option \<Rightarrow> grounded_answer \<Rightarrow> bool" where
  "answer_ok chunks who a \<longleftrightarrow>
     (if ga_abstained a then a = clarifying_abstention who else list_all (cites_source chunks) (ga_citations a))"

lemma finalize_cites:
  "list_all (cites_source chunks) (ga_citations (finalize raw chunks))"
  by (auto simp: finalize_def Let_def list.pred_map comp_def cites_source_def citation_of_def list_all_iff valid_marker_def
      dest!: subsetD [OF first_uses_set])

lemma finished_answer_ok: "answer_ok chunks who (finished_answer raw chunks who)"
  using finalize_cites [of chunks raw]
  by (simp add: finished_answer_def Let_def answer_ok_def clarifying_abstention_def)

lemma clarifying_abstained [simp]: "ga_abstained (clarifying_abstention who)" "ga_citations (clarifying_abstention who) = []"
  by (simp_all add: clarifying_abstention_def Let_def)

lemma result_of_sel [simp]:
  "an_answer (result_of a out) = a" "an_text (result_of a out) = ga_text a" "an_error (result_of a out) = None"
  "an_escalation (result_of a out) = None" "an_suggested_action (result_of a out) = None"
  by (simp_all add: result_of_def bare_result_def)

lemma with_gap_sel [simp]:
  "an_answer (with_gap_ticket r q who) = an_answer r" "an_text (with_gap_ticket r q who) = an_text r"
  "an_error (with_gap_ticket r q who) = an_error r" "an_escalation (with_gap_ticket r q who) = an_escalation r"
  by (simp_all add: with_gap_ticket_def)

text \<open>What a result says about its escalation: asked only on a warning sign of the first answer, and the second answer is shown
  only when it cites a source and does not abstain.\<close>

definition escalation_ok :: "string option \<Rightarrow> answer_result \<Rightarrow> bool" where
  "escalation_ok em res \<longleftrightarrow>
     (case an_escalation res of
        None \<Rightarrow> True
      | Some x \<Rightarrow> em = Some (es_model x) \<and> es_model x \<noteq> es_first_model x \<and> \<not> ga_abstained (an_answer res)
          \<and> (if es_outcome x = ''used'' then ga_citations (an_answer res) \<noteq> []
             else escalation_reason (an_answer res) True = Some (es_reason x)))"

lemma escalate_ok:
  assumes "answer_ok chunks who a" "escalation_reason a True = Some reason" "larger \<noteq> ms_id (co_model out)"
    and "fst (escalate e larger reason messages params allow_egress chunks a out st) = Inr res"
  shows "an_error res = None \<and> an_text res = ga_text (an_answer res) \<and> answer_ok chunks who (an_answer res)
    \<and> escalation_ok (Some larger) res"
proof -
  have a: "\<not> ga_abstained a" using assms(2) by (auto simp: escalation_reason_def split: if_splits)
  show ?thesis
    using assms a finalize_cites
    by (auto simp: escalate_def Let_def escalation_ok_def answer_ok_def pick_answer_def
        split: prod.splits sum.splits call_failure.splits answer_choice.splits if_splits)
qed


section \<open>The ticket an abstention offers\<close>

lemma gap_details_length:
  "length (gap_details dep asked) \<le> 250 + length dep + 3000" "4 \<le> length (gap_details dep asked)"
  by (simp_all add: gap_details_def)

lemma gap_ticket_valid:
  assumes "knowledge_gap_ticket q (Some p) = Some sa" "length (p_department p) \<le> 750"
  shows "\<exists>t dd. model_validate lax CreateSupportTicketArgs (sa_arguments sa) = Some (TicketArgs t ''low'' dd)"
    "sa_tool sa = ''create_support_ticket''" "has_perm p ''ticket:create''"
proof -
  define asked where "asked = py_join '' '' (py_split_ws q)"
  define t where "t = ''Knowledge gap: '' @ take 150 asked"
  define dd where "dd = gap_details (p_department p) asked"
  have sa: "sa_arguments sa = [(''title'', JStr t), (''severity'', JStr ''low''), (''details'', JStr dd)]"
    and tool: "sa_tool sa = ''create_support_ticket''" and perm: "has_perm p ''ticket:create''"
    using assms(1) by (auto simp: knowledge_gap_ticket_def Let_def t_def dd_def asked_def split: if_splits)
  have len: "len_between 4 200 t" "len_between 4 4000 dd" "''low'' \<in> set severities"
    using assms(2) gap_details_length [of "p_department p" asked]
    by (auto simp: len_between_def t_def dd_def severities_def)
  show "\<exists>t dd. model_validate lax CreateSupportTicketArgs (sa_arguments sa) = Some (TicketArgs t ''low'' dd)"
    using len by (simp add: sa validate_ticket_def only_fields_def str_field_def)
  show "sa_tool sa = ''create_support_ticket''" by (rule tool)
  show "has_perm p ''ticket:create''" by (rule perm)
qed

lemma ticket_spec:
  "\<exists>s. tool_spec_of ''create_support_ticket'' = Some s \<and> ts_args_model s = CreateSupportTicketArgs
     \<and> ts_requires_permission s = Some ''ticket:create'' \<and> \<not> ts_sensitive s"
  by (simp add: tool_spec_of_def tools_def)

text \<open>An offered ticket can be raised: whatever was asked, the ticket suggested to a caller passes the tool's validation and
  permission check, so raising it stores a ticket or, within ten minutes, returns the one already there.\<close>

theorem gap_ticket_raisable:
  assumes "knowledge_gap_ticket q (Some p) = Some sa" "length (p_department p) \<le> 750"
  shows "case fst (run_tool d now p (sa_tool sa) (sa_arguments sa) ctx w) of
      Finished out \<Rightarrow> to_status out = StatusOk | Escaped x \<Rightarrow> x = ''IntegrityError''"
proof -
  note v = gap_ticket_valid [OF assms]
  obtain t dd where a: "model_validate (td_lax d) CreateSupportTicketArgs (sa_arguments sa) = Some (TicketArgs t ''low'' dd)"
    using v(1) by blast
  obtain s where s: "tool_spec_of ''create_support_ticket'' = Some s" "ts_args_model s = CreateSupportTicketArgs"
     "ts_requires_permission s = Some ''ticket:create''" "\<not> ts_sensitive s"
    using ticket_spec by blast
  have "authorize p s = None"
    using s(3) v(3) by (simp add: authorize_def)
  then have run: "run_tool d now p (sa_tool sa) (sa_arguments sa) ctx w
      = execute_now d now p ''create_support_ticket'' (TicketArgs t ''low'' dd) ctx w"
    using a s by (simp add: run_tool_def v(2))
  show ?thesis
    unfolding run
    by (auto simp: execute_now_def run_handler_def create_support_ticket_def insert_ticket_def Let_def rolled_back_def
        outcome_def split: option.split)
qed

end
