(* ===== verification/Containment.thy ===== *)
theory Containment
  imports Chat ServiceProps
begin

text \<open>
  What may leave the premises in a turn of \<open>api/chat.py\<close>. A network is a function from the call's number, model, messages and
  parameters to the answer; two networks that answer alike wherever a message is allowed to go cannot be told apart by
  the turn, so nothing else is asked of a model that sends data off-box, and nothing else it says matters.
\<close>

section \<open>What a request depends on\<close>

lemma one_attempt_cong:
  "(\<And>n. invoke n spec = invoke' n spec) \<Longrightarrow>
   one_attempt g rnd invoke us k cfg dl spec n atts st = one_attempt g rnd invoke' us k cfg dl spec n atts st"
  by (simp add: one_attempt_def)

lemma attempt_loop_cong:
  assumes "\<And>n. invoke n spec = invoke' n spec"
  shows "attempt_loop g rnd invoke us k cfg dl spec ns atts st = attempt_loop g rnd invoke' us k cfg dl spec ns atts st"
  using one_attempt_cong [of invoke spec invoke', OF assms]
  by (induction ns arbitrary: atts st) (simp_all split: prod.split option.split)

lemma target_loop_cong:
  assumes "\<And>n spec. spec \<in> set targets \<Longrightarrow> ms_id spec \<notin> set blocked \<Longrightarrow> invoke n spec = invoke' n spec"
  shows "target_loop g rnd invoke us k blocked dl targets atts st = target_loop g rnd invoke' us k blocked dl targets atts st"
  using assms
proof (induction targets arbitrary: atts st)
  case (Cons spec specs)
  obtain ok a1 s1 where ad: "admit spec (is_available g spec) k blocked atts st = (ok, a1, s1)"
    by (metis prod_cases3)
  have IH: "target_loop g rnd invoke us k blocked dl specs a s = target_loop g rnd invoke' us k blocked dl specs a s" for a s
    using Cons by simp
  show ?case
  proof (cases ok)
    case True
    with admit_frame(4) [OF ad] have "ms_id spec \<notin> set blocked" by simp
    with Cons.prems have "attempt_loop g rnd invoke us k cfg dl spec ns a s = attempt_loop g rnd invoke' us k cfg dl spec ns a s"
      for cfg ns a s by (intro attempt_loop_cong) simp
    with ad True IH show ?thesis by (simp del: upt_Suc split: option.split prod.split flow.split)
  qed (simp add: ad IH)
qed simp

lemma chat_cong:
  assumes "\<And>n spec. allow_egress \<or> \<not> has_egress g spec \<Longrightarrow> ask n spec messages (params_for spec params) = ask' n spec messages (params_for spec params)"
  shows "chat g rnd ask route messages params allow_egress st = chat g rnd ask' route messages params allow_egress st"
proof (cases "resolve (gw_catalog g) route Chat")
  case (Inr r)
  obtain name targets where r: "r = (name, targets)" by (cases r)
  show ?thesis
  proof (cases "egress_blocked g targets allow_egress")
    case blocked: (Inr blocked)
    have "run g rnd (chat_invoke g ask messages params) cr_usage Chat targets (gw_request_deadline_s g) blocked st
        = run g rnd (chat_invoke g ask' messages params) cr_usage Chat targets (gw_request_deadline_s g) blocked st"
      unfolding run_def
    proof (rule target_loop_cong)
      fix n spec
      assume "spec \<in> set targets" "ms_id spec \<notin> set blocked"
      with blocked have "allow_egress \<or> \<not> has_egress g spec"
        by (auto simp: egress_blocked_def split: if_splits)
      from assms [OF this] show "chat_invoke g ask messages params n spec = chat_invoke g ask' messages params n spec"
        by (simp add: chat_invoke_def)
    qed
    with Inr r blocked show ?thesis by (simp add: chat_def)
  qed (simp add: chat_def Inr r)
qed (simp add: chat_def)

section \<open>What may leave\<close>

text \<open>The router's prompt with the question; a review of passages that may leave; an answer prompt when neither its sources nor
  the conversation's context so far are restricted.\<close>

definition may_leave :: "agent_env \<Rightarrow> string \<Rightarrow> string option \<Rightarrow> chat_message list \<Rightarrow> bool" where
  "may_leave e q ctx messages \<longleftrightarrow>
     messages = router_messages e q
     \<or> (\<exists>cs. allows_egress (ag_settings e) (most_classified cs) \<and> messages = gate_review_messages (ag_review_prompt e) q cs)
     \<or> (\<exists>cs h reviewed. allows_egress (ag_settings e) (most_sensitive [ctx, most_classified cs])
          \<and> messages = build_messages (ag_system_prompt e) q cs h reviewed)"

definition same_network ::
  "agent_env \<Rightarrow> string \<Rightarrow> string option \<Rightarrow> (nat \<Rightarrow> model_spec \<Rightarrow> chat_message list \<Rightarrow> chat_params \<Rightarrow> rat \<times> chat_result reply) \<Rightarrow> bool" where
  "same_network e q ctx ask' \<longleftrightarrow>
     (\<forall>n spec messages params. \<not> has_egress (ag_gateway e) spec \<or> may_leave e q ctx messages \<longrightarrow>
        ag_ask e n spec messages params = ask' n spec messages params)"

lemma env_sel:
  "ag_gateway (e\<lparr>ag_ask := a\<rparr>) = ag_gateway e" "ag_rnd (e\<lparr>ag_ask := a\<rparr>) = ag_rnd e" "ag_ask (e\<lparr>ag_ask := a\<rparr>) = a"
  "ag_loads (e\<lparr>ag_ask := a\<rparr>) = ag_loads e" "ag_lax (e\<lparr>ag_ask := a\<rparr>) = ag_lax e" "ag_settings (e\<lparr>ag_ask := a\<rparr>) = ag_settings e"
  "ag_system_prompt (e\<lparr>ag_ask := a\<rparr>) = ag_system_prompt e" "ag_review_prompt (e\<lparr>ag_ask := a\<rparr>) = ag_review_prompt e"
  "router_messages (e\<lparr>ag_ask := a\<rparr>) q = router_messages e q"
  by (simp_all add: router_messages_def)

lemma ag_chat_same:
  assumes "same_network e q ctx ask'" "allow_egress \<Longrightarrow> may_leave e q ctx messages"
  shows "ag_chat (e\<lparr>ag_ask := ask'\<rparr>) route messages params allow_egress st = ag_chat e route messages params allow_egress st"
proof -
  have "chat (ag_gateway e) (ag_rnd e) ask' route messages params allow_egress st
      = chat (ag_gateway e) (ag_rnd e) (ag_ask e) route messages params allow_egress st"
    by (rule chat_cong) (use assms in \<open>auto simp: same_network_def\<close>)
  then show ?thesis by (simp add: ag_chat_def)
qed

lemma classify_same:
  assumes "same_network e q ctx ask'"
  shows "classify (e\<lparr>ag_ask := ask'\<rparr>) q mc st = classify e q mc st"
proof -
  have "ag_chat (e\<lparr>ag_ask := ask'\<rparr>) route (router_messages e q) p True s = ag_chat e route (router_messages e q) p True s"
    for route p s by (rule ag_chat_same [OF assms]) (simp add: may_leave_def)
  then show ?thesis unfolding classify_def env_sel by (simp only:)
qed

lemma review_same:
  assumes "same_network e q ctx ask'"
  shows "review_near_misses (e\<lparr>ag_ask := ask'\<rparr>) q mc r st = review_near_misses e q mc r st"
proof -
  have "ag_chat (e\<lparr>ag_ask := ask'\<rparr>) route (gate_review_messages (ag_review_prompt e) q (rr_near_misses r)) p
        (allows_egress (ag_settings e) (most_classified (rr_near_misses r))) s
      = ag_chat e route (gate_review_messages (ag_review_prompt e) q (rr_near_misses r)) p
        (allows_egress (ag_settings e) (most_classified (rr_near_misses r))) s" for route p s
    by (rule ag_chat_same [OF assms]) (auto simp: may_leave_def)
  then show ?thesis unfolding review_near_misses_def env_sel Let_def by (simp only:)
qed

lemma answer_same:
  assumes "same_network e q ctx ask'"
  shows "answer_from_knowledge (e\<lparr>ag_ask := ask'\<rparr>) q h r mc params (allows_egress (ag_settings e) (most_sensitive [ctx, most_classified (rr_chunks r)])) em who st
    = answer_from_knowledge e q h r mc params (allows_egress (ag_settings e) (most_sensitive [ctx, most_classified (rr_chunks r)])) em who st"
proof -
  let ?ms = "build_messages (ag_system_prompt e) q (rr_chunks r) h (0 < rr_admitted_by_review r)"
  let ?allow = "allows_egress (ag_settings e) (most_sensitive [ctx, most_classified (rr_chunks r)])"
  have call: "ag_chat (e\<lparr>ag_ask := ask'\<rparr>) route ?ms p ?allow s = ag_chat e route ?ms p ?allow s" for route p s
    by (rule ag_chat_same [OF assms]) (auto simp: may_leave_def)
  show ?thesis
    unfolding answer_from_knowledge_def escalate_def env_sel Let_def call by (rule refl)
qed

lemma summary_same:
  assumes "same_network e q ctx ask'"
  shows "update_summary (ag_gateway e) (ag_rnd e) ask' cs mc conv st = update_summary (ag_gateway e) (ag_rnd e) (ag_ask e) cs mc conv st"
proof -
  have "chat (ag_gateway e) (ag_rnd e) ask' mc ms params False st = chat (ag_gateway e) (ag_rnd e) (ag_ask e) mc ms params False st" for ms params
    by (rule chat_cong) (use assms in \<open>auto simp: same_network_def\<close>)
  then show ?thesis unfolding update_summary_def by (simp only:)
qed

section \<open>A whole turn\<close>

abbreviation on_network ::
  "chat_deps \<Rightarrow> (nat \<Rightarrow> model_spec \<Rightarrow> chat_message list \<Rightarrow> chat_params \<Rightarrow> rat \<times> chat_result reply) \<Rightarrow> chat_deps" where
  "on_network d ask' \<equiv> d\<lparr>hd_ask := ask'\<rparr>"

lemma env_on_network: "env_of (on_network d ask') = (env_of d)\<lparr>ag_ask := ask'\<rparr>"
  by (simp add: env_of_def)

lemma deps_sel:
  "hd_tools (on_network d a) = hd_tools d" "hd_uuid (on_network d a) = hd_uuid d" "hd_agent (on_network d a) = hd_agent d"
  by simp_all

text \<open>The context the conversation of a request has used so far.\<close>

definition stored_context :: "chat_request \<Rightarrow> principal \<Rightarrow> chat_store \<Rightarrow> string option" where
  "stored_context q p cs =
     (case rq_conversation_id q of
        None \<Rightarrow> None
      | Some i \<Rightarrow> (case get_owned cs i (p_user_id p) of Inl _ \<Rightarrow> None | Inr c \<Rightarrow> cv_context_classification c))"

lemma start_same: "start_turn (on_network d ask') q p w = start_turn d q p w"
  unfolding start_turn_def prepare_turn_def model_choice_def stored_choice_def env_on_network env_sel deps_sel by (rule refl)

lemma start_context:
  assumes "start_turn d q p w = (Inr prep, w1)"
  shows "pp_question prep = rq_message q" "pp_context_classification prep = stored_context q p (cw_chat w)"
  using assms
  by (auto simp: start_turn_def prepare_turn_def Let_def get_or_create_def stored_context_def
      split: sum.splits prod.splits start_error.splits option.splits if_splits)

lemma graph_step_same: "graph_step (on_network d ask') now gs dec w = graph_step d now gs dec w"
  unfolding graph_step_def deps_sel by (rule refl)

lemma route_same:
  assumes "same_network (env_of d) (pp_question prep) ctx ask'"
  shows "route_turn (on_network d ask') now prep p rid w = route_turn d now prep p rid w"
proof -
  have "gs_question (agent_state_of prep p rid) = pp_question prep" by (simp add: agent_state_of_def)
  then have "agent_invoke (on_network d ask') now (agent_state_of prep p rid) w = agent_invoke d now (agent_state_of prep p rid) w"
    using classify_same [OF assms] unfolding agent_invoke_def env_on_network graph_step_same by simp
  then show ?thesis unfolding route_turn_def deps_sel by (simp only:)
qed

lemma sources_same:
  assumes "same_network (env_of d) (pp_question prep) ctx ask'"
  shows "turn_sources (on_network d ask') prep p w = turn_sources d prep p w"
  unfolding turn_sources_def env_on_network deps_sel review_same [OF assms] by (rule refl)

lemma answer_turn_same:
  assumes "same_network (env_of d) (pp_question prep) (pp_context_classification prep) ask'"
  shows "answer_turn (on_network d ask') q prep p r w = answer_turn d q prep p r w"
proof -
  have allow: "egress_allowed d prep r
      = allows_egress (ag_settings (env_of d)) (most_sensitive [pp_context_classification prep, most_classified (rr_chunks r)])"
    by (simp add: egress_allowed_def context_of_turn_def max_classification_def most_classified_def env_of_def)
  then have "egress_allowed (on_network d ask') prep r = egress_allowed d prep r"
    by (simp add: egress_allowed_def)
  moreover have "maybe_summarize (on_network d ask') prep v = maybe_summarize d prep v" for v
    unfolding maybe_summarize_def env_on_network env_sel summary_same [OF assms] Let_def by (rule refl)
  ultimately show ?thesis
    unfolding answer_turn_def env_on_network deps_sel
    by (simp only: allow answer_same [OF assms])
qed


end
