(* ===== verification/ChatProps.thy ===== *)
theory ChatProps
  imports Containment
begin

text \<open>
  What a turn of \<open>api/chat.py\<close> leaves in the tables: the rows it appends, and the most sensitive context of a
  conversation, which is recorded before any model sees it and never lowered afterwards.
\<close>

section \<open>Which parts a step touches\<close>

lemma on_chat_sel [simp]:
  "cw_chat (on_chat cs w) = cs" "cw_chat (on_gateway_state st w) = cw_chat w" "gateway_of (on_gateway_state st w) = st"
  "gateway_of (on_chat cs w) = gateway_of w"
  by (simp_all add: on_chat_def on_gateway_state_def gateway_of_def)

lemma pause_thread_chat [simp]: "cw_chat (pause_thread gs dec e w) = cw_chat w"
  by (simp add: pause_thread_def Let_def split: node_end.split route_choice.split)

lemma agent_invoke_chat: "agent_invoke d now gs w = (e, w') \<Longrightarrow> cw_chat w' = cw_chat w"
  by (auto simp: agent_invoke_def Let_def split: prod.splits sum.splits)

lemma route_turn_chat: "route_turn d now prep p rid w = (x, w') \<Longrightarrow> cw_chat w' = cw_chat w"
  by (auto simp: route_turn_def split: if_splits prod.splits node_end.splits dest: agent_invoke_chat)

lemma turn_sources_chat: "turn_sources d prep p w = (x, w') \<Longrightarrow> cw_chat w' = cw_chat w"
  by (auto simp: turn_sources_def Let_def split: prod.splits sum.splits)

lemma update_summary_sel:
  "update_summary g rnd ask cs mc conv st = (Inr conv', st') \<Longrightarrow>
   cv_id conv' = cv_id conv \<and> cv_user_id conv' = cv_user_id conv \<and> cv_context_classification conv' = cv_context_classification conv"
  by (auto simp: update_summary_def Let_def split: if_splits prod.splits sum.splits call_failure.splits)

section \<open>The rows of the conversation table\<close>

definition classification_rank :: "string option \<Rightarrow> nat" where
  "classification_rank c = (case c of None \<Rightarrow> 0 | Some x \<Rightarrow> class_rank x)"

definition context_rank :: "chat_store \<Rightarrow> string \<Rightarrow> nat" where
  "context_rank cs i =
     (case conversation_at cs i of None \<Rightarrow> 0 | Some c \<Rightarrow> classification_rank (cv_context_classification c))"

text \<open>The primary key, filled from UUIDs that do not repeat.\<close>

definition keyed :: "(nat \<Rightarrow> string) \<Rightarrow> chat_store \<Rightarrow> bool" where
  "keyed uuid cs \<longleftrightarrow> inj uuid \<and> distinct (map cv_id (cs_conversations cs))
     \<and> cv_id ` set (cs_conversations cs) \<subseteq> uuid ` {..<cs_uuids cs}"

text \<open>What every step of a turn does to the tables: keys stay keys, and no conversation's context is lowered.\<close>

definition grows :: "(nat \<Rightarrow> string) \<Rightarrow> chat_store \<Rightarrow> chat_store \<Rightarrow> bool" where
  "grows uuid cs cs' \<longleftrightarrow> keyed uuid cs' \<and> (\<forall>i. context_rank cs i \<le> context_rank cs' i)"

lemma grows_refl: "keyed uuid cs \<Longrightarrow> grows uuid cs cs"
  by (simp add: grows_def)

lemma grows_trans: "grows uuid a b \<Longrightarrow> grows uuid b c \<Longrightarrow> grows uuid a c"
  by (auto simp: grows_def intro: order_trans)

lemma grows_same:
  "keyed uuid cs \<Longrightarrow> cs_conversations cs' = cs_conversations cs \<Longrightarrow> cs_uuids cs' = cs_uuids cs \<Longrightarrow> grows uuid cs cs'"
  by (simp add: grows_def keyed_def context_rank_def conversation_at_def)

lemma find_put:
  "find (\<lambda>x. cv_id x = i) (map (\<lambda>x. if cv_id x = cv_id c then c else x) xs) =
     (if i = cv_id c then map_option (\<lambda>_. c) (find (\<lambda>x. cv_id x = i) xs) else find (\<lambda>x. cv_id x = i) xs)"
  by (induction xs) auto

lemma conversation_at_put:
  "conversation_at (put_conversation c cs) i =
     (if i = cv_id c then map_option (\<lambda>_. c) (conversation_at cs i) else conversation_at cs i)"
  using find_put [of i c "cs_conversations cs"] by (simp add: conversation_at_def put_conversation_def)

lemma conversation_at_SomeD: "conversation_at cs i = Some c \<Longrightarrow> cv_id c = i \<and> c \<in> set (cs_conversations cs)"
  by (auto simp: conversation_at_def dest: find_SomeD)

lemma map_cv_id_put: "map cv_id (cs_conversations (put_conversation c cs)) = map cv_id (cs_conversations cs)"
  by (simp add: put_conversation_def comp_def)

lemma put_keyed: "keyed uuid (put_conversation c cs) = keyed uuid cs"
proof -
  have "cv_id ` set (cs_conversations (put_conversation c cs)) = cv_id ` set (cs_conversations cs)"
    using map_cv_id_put [of c cs] by (metis list.set_map)
  then show ?thesis
    by (simp add: keyed_def map_cv_id_put) (simp add: put_conversation_def)
qed

lemma put_grows:
  assumes "keyed uuid cs" "conversation_at cs (cv_id c) = Some c0"
    "classification_rank (cv_context_classification c0) \<le> classification_rank (cv_context_classification c)"
  shows "grows uuid cs (put_conversation c cs)"
  using assms by (auto simp: grows_def put_keyed context_rank_def conversation_at_put)

lemma add_message_grows: "keyed uuid cs \<Longrightarrow> grows uuid cs (snd (add_message m cs))"
  by (rule grows_same) (simp_all add: add_message_def Let_def)

lemma save_assistant_grows: "keyed uuid cs \<Longrightarrow> save_assistant i c s m u ci r cs = (n, cs') \<Longrightarrow> grows uuid cs cs'"
  using add_message_grows by (auto simp: save_assistant_def Let_def)

lemma find_keyed: "distinct (map cv_id xs) \<Longrightarrow> c \<in> set xs \<Longrightarrow> find (\<lambda>x. cv_id x = cv_id c) xs = Some c"
  by (induction xs) auto

lemma conversation_at_member:
  "keyed uuid cs \<Longrightarrow> c \<in> set (cs_conversations cs) \<Longrightarrow> conversation_at cs (cv_id c) = Some c"
  by (simp add: keyed_def conversation_at_def find_keyed)

section \<open>Starting a turn\<close>

lemma get_or_create_grows:
  assumes "keyed uuid cs" "get_or_create uuid j u m cs = (Inr c, cs')"
  shows "grows uuid cs cs'" "conversation_at cs' (cv_id c) = Some c" "cv_user_id c = u"
proof -
  show "cv_user_id c = u"
    using assms(2) by (auto simp: get_or_create_def Let_def split: option.splits dest: get_owned_owner)
  show "grows uuid cs cs'"
  proof (cases j)
    case None
    define n where "n = cs_uuids cs"
    have c: "cv_id c = uuid n" "cs_conversations cs' = cs_conversations cs @ [c]" "cs_uuids cs' = n + 1"
      using assms(2) None by (auto simp: get_or_create_def Let_def n_def)
    have fresh: "uuid n \<notin> cv_id ` set (cs_conversations cs)"
      using assms(1) by (auto simp: keyed_def n_def dest: injD)
    then have "keyed uuid cs'"
      using assms(1) c by (auto simp: keyed_def n_def less_Suc_eq)
    moreover have "context_rank cs i \<le> context_rank cs' i" for i
      using c(2) by (auto simp: context_rank_def conversation_at_def find_append split: option.split)
    ultimately show ?thesis by (simp add: grows_def)
  next
    case (Some i)
    with assms show ?thesis by (auto simp: get_or_create_def intro: grows_refl)
  qed
  then have "keyed uuid cs'" by (simp add: grows_def)
  moreover have "c \<in> set (cs_conversations cs')"
    using assms(2) by (auto simp: get_or_create_def Let_def split: option.splits dest: get_owned_owner)
  ultimately show "conversation_at cs' (cv_id c) = Some c" by (rule conversation_at_member)
qed

lemma prepare_turn_grows:
  assumes "keyed (hd_uuid d) cs" "prepare_turn d q p cs = (x, cs')"
  shows "grows (hd_uuid d) cs cs'"
proof (cases "get_or_create (hd_uuid d) (rq_conversation_id q) (p_user_id p) (rq_message q) cs")
  case (Pair r cs1)
  show ?thesis
  proof (cases r)
    case (Inl e)
    with assms Pair show ?thesis by (auto simp: prepare_turn_def intro: grows_refl)
  next
    case (Inr conv0)
    note g = get_or_create_grows [OF assms(1) Pair [unfolded Inr]]
    define conv where "conv = (case rq_model q of None \<Rightarrow> conv0 | Some m \<Rightarrow> conv0\<lparr>cv_model_id := Some m\<rparr>)"
    have conv: "cv_id conv = cv_id conv0" "cv_context_classification conv = cv_context_classification conv0"
      by (simp_all add: conv_def split: option.split)
    have k: "keyed (hd_uuid d) cs1" using g(1) by (simp add: grows_def)
    have "grows (hd_uuid d) cs1 (put_conversation conv cs1)"
      using g(2) conv by (intro put_grows [OF k, of _ conv0]) simp_all
    then have p: "grows (hd_uuid d) cs (put_conversation conv cs1)" by (rule grows_trans [OF g(1)])
    then have "grows (hd_uuid d) cs (snd (add_message m (put_conversation conv cs1)))" for m
      by (rule grows_trans, intro add_message_grows) (use p in \<open>simp add: grows_def\<close>)
    with assms Pair Inr show ?thesis
      by (auto simp: prepare_turn_def Let_def conv_def [symmetric] grows_refl split: sum.splits)
  qed
qed

lemma start_turn_grows:
  "keyed (hd_uuid d) (cw_chat w) \<Longrightarrow> start_turn d q p w = (x, w') \<Longrightarrow> grows (hd_uuid d) (cw_chat w) (cw_chat w')"
  by (auto simp: start_turn_def grows_refl split: sum.splits prod.splits start_error.splits dest: prepare_turn_grows)

text \<open>What a started turn has: its conversation, the caller's, with the context the turn was prepared with; the caller's message
  is the only new row.\<close>

definition user_row :: "chat_request \<Rightarrow> string \<Rightarrow> int \<Rightarrow> message" where
  "user_row q i seq = (new_message i ''user'' (rq_message q) (rq_request_id q))\<lparr>mg_seq := seq\<rparr>"

lemma started:
  assumes "keyed (hd_uuid d) (cw_chat w)" "start_turn d q p w = (Inr prep, w1)"
  obtains conv where "conversation_at (cw_chat w1) (pp_conversation_id prep) = Some conv" "cv_user_id conv = p_user_id p"
    "cv_context_classification conv = pp_context_classification prep"
    "cs_messages (cw_chat w1) = cs_messages (cw_chat w) @ [user_row q (pp_conversation_id prep) (cs_next_seq (cw_chat w))]"
proof -
  from assms(2) obtain cs where prep: "prepare_turn d q p (cw_chat w) = (Inr prep, cs)" and w1: "w1 = on_chat cs w"
    by (auto simp: start_turn_def split: sum.splits prod.splits start_error.splits if_splits)
  obtain conv0 cs1 where g: "get_or_create (hd_uuid d) (rq_conversation_id q) (p_user_id p) (rq_message q) (cw_chat w) = (Inr conv0, cs1)"
    using prep by (auto simp: prepare_turn_def split: sum.splits prod.splits)
  note own = get_or_create_grows(2,3) [OF assms(1) g]
  have msgs: "cs_messages cs1 = cs_messages (cw_chat w)" "cs_next_seq cs1 = cs_next_seq (cw_chat w)"
    using g by (auto simp: get_or_create_def Let_def split: option.splits)
  define conv where "conv = (case rq_model q of None \<Rightarrow> conv0 | Some m \<Rightarrow> conv0\<lparr>cv_model_id := Some m\<rparr>)"
  have conv: "cv_id conv = cv_id conv0" "cv_user_id conv = cv_user_id conv0"
      "cv_context_classification conv = cv_context_classification conv0"
    by (simp_all add: conv_def split: option.split)
  have prep': "pp_conversation_id prep = cv_id conv" "pp_context_classification prep = cv_context_classification conv"
    "cs = snd (add_message (new_message (cv_id conv) ''user'' (rq_message q) (rq_request_id q)) (put_conversation conv cs1))"
    using prep g by (auto simp: prepare_turn_def Let_def conv_def [symmetric] split: sum.splits)
  have "conversation_at (cw_chat w1) (cv_id conv) = conversation_at (put_conversation conv cs1) (cv_id conv)"
    by (simp add: w1 prep'(3) conversation_at_def add_message_def Let_def)
  then have "conversation_at (cw_chat w1) (pp_conversation_id prep) = Some conv"
    using own(1) conv(1) by (simp add: prep'(1) conversation_at_put)
  then show thesis
    using own(2) conv prep' msgs
    by (intro that [of conv]) (simp_all add: w1 add_message_def Let_def put_conversation_def user_row_def)
qed

section \<open>Answering\<close>

lemma rank_most_sensitive:
  "classification_rank a \<le> classification_rank (most_sensitive [a, b])"
  "classification_rank b \<le> classification_rank (most_sensitive [a, b])"
  by (cases a; cases b; simp add: classification_rank_def most_sensitive_def somes_def)+

lemma rank_max_classification:
  "c \<in> set (rr_chunks r) \<Longrightarrow> class_rank (rc_classification c) \<le> classification_rank (max_classification r)"
  using max_rank_ge [of "hd (map rc_classification (rr_chunks r))" "tl (map rc_classification (rr_chunks r))"]
  by (cases "rr_chunks r") (auto simp: max_classification_def classification_rank_def)

lemma remember_context_grows:
  assumes "keyed uuid cs"
  shows "grows uuid cs (remember_context prep r cs)"
proof (cases "conversation_at cs (pp_conversation_id prep)")
  case (Some conv)
  let ?new = "conv\<lparr>cv_context_classification := most_sensitive [cv_context_classification conv, max_classification r]\<rparr>"
  have "grows uuid cs (put_conversation ?new cs)"
    using Some conversation_at_SomeD [OF Some] by (intro put_grows [OF assms, of _ conv]) (simp_all add: rank_most_sensitive)
  with Some assms show ?thesis by (simp add: remember_context_def grows_refl)
qed (simp add: remember_context_def grows_refl assms)

lemma maybe_summarize_chat:
  assumes "maybe_summarize d prep w = (x, w')"
  obtains (same) "cw_chat w' = cw_chat w"
    | (put) conv conv' where "conversation_at (cw_chat w) (cv_id conv') = Some conv" "cv_user_id conv' = cv_user_id conv"
        "cv_context_classification conv' = cv_context_classification conv" "cw_chat w' = put_conversation conv' (cw_chat w)"
proof (cases "conversation_at (cw_chat w) (pp_conversation_id prep)")
  case None
  with assms same show thesis by (simp add: maybe_summarize_def)
next
  case (Some conv)
  obtain res st where u: "update_summary (ag_gateway (env_of d)) (ag_rnd (env_of d)) (ag_ask (env_of d)) (cw_chat w) (pp_model_choice prep) conv
      (gateway_of w) = (res, st)" by fastforce
  show thesis
  proof (cases res)
    case (Inl e)
    with assms Some u same show thesis by (auto simp: maybe_summarize_def)
  next
    case (Inr conv')
    with assms Some u update_summary_sel [OF u [unfolded Inr]] conversation_at_SomeD [OF Some] show thesis
      by (intro put [of conv' conv]) (auto simp: maybe_summarize_def)
  qed
qed

lemma maybe_summarize_grows:
  "keyed uuid (cw_chat w) \<Longrightarrow> maybe_summarize d prep w = (x, w') \<Longrightarrow> grows uuid (cw_chat w) (cw_chat w')"
  by (erule maybe_summarize_chat) (simp_all add: grows_refl put_grows)

lemma save_error_grows: "keyed uuid (cw_chat w) \<Longrightarrow> grows uuid (cw_chat w) (cw_chat (save_error q prep w))"
  by (cases "save_assistant (pp_conversation_id prep) [] ''error'' None None None (rq_request_id q) (cw_chat w)")
    (simp add: save_error_def save_assistant_grows)

lemma save_plain_grows:
  "keyed uuid (cw_chat w) \<Longrightarrow> save_plain q prep c route t w = (x, w') \<Longrightarrow> grows uuid (cw_chat w) (cw_chat w')"
  by (auto simp: save_plain_def split: prod.splits dest: save_assistant_grows)

lemma answer_turn_grows:
  assumes "keyed uuid (cw_chat w)" "answer_turn d q prep p r w = (x, w')"
  shows "grows uuid (remember_context prep r (cw_chat w)) (cw_chat w')"
proof -
  let ?cs = "remember_context prep r (cw_chat w)"
  have k: "keyed uuid ?cs" using remember_context_grows [OF assms(1)] by (simp add: grows_def)
  let ?answer = "answer_from_knowledge (env_of d) (pp_question prep) (pp_history prep) r (pp_model_choice prep) (chat_params_of q)
      (egress_allowed d prep r) (se_escalation_model (td_settings (hd_tools d))) (Some p) (gateway_of w)"
  obtain res st where a: "?answer = (res, st)" by fastforce
  show ?thesis
  proof (cases res)
    case (Inl e)
    with assms(2) a show ?thesis by (auto simp: answer_turn_def Let_def grows_refl [OF k])
  next
    case (Inr ans)
    show ?thesis
    proof (cases "an_error ans")
      case (Some e)
      with assms(2) a Inr show ?thesis
        using save_error_grows [of uuid "on_gateway_state st (on_chat ?cs w)"] k
        by (cases e) (auto simp: answer_turn_def Let_def)
    next
      case None
      obtain seq cs where s: "save_assistant (pp_conversation_id prep) (ga_text (an_answer ans)) ''complete'' (an_model_id ans)
          (if nonempty (an_model_id ans) then Some (an_usage ans) else None) (Some (map citation_json (ga_citations (an_answer ans))))
          (rq_request_id q) ?cs = (seq, cs)" by fastforce
      note g = save_assistant_grows [OF k s]
      obtain y w3 where m: "maybe_summarize d prep (on_chat cs (on_gateway_state st (on_chat ?cs w))) = (y, w3)" by fastforce
      have "grows uuid cs (cw_chat w3)"
        using maybe_summarize_grows [OF _ m, of uuid] g by (simp add: grows_def)
      moreover have "w' = w3"
        using assms(2) a Inr None s m by (auto simp: answer_turn_def Let_def split: option.splits)
      ultimately show ?thesis using g by (blast intro: grows_trans)
    qed
  qed
qed

lemma knowledge_turn_grows:
  assumes "keyed uuid (cw_chat w)" "knowledge_turn d q prep p w = (x, w')"
  shows "grows uuid (cw_chat w) (cw_chat w')"
proof (cases "turn_sources d prep p w")
  case (Pair res w1)
  note same = turn_sources_chat [OF Pair]
  show ?thesis
  proof (cases res)
    case (Inl e)
    with assms Pair same show ?thesis
      using save_error_grows [of uuid w1] by (cases e) (auto simp: knowledge_turn_def grows_refl)
  next
    case (Inr r)
    with assms Pair have a: "answer_turn d q prep p r w1 = (x, w')" by (simp add: knowledge_turn_def)
    have k: "keyed uuid (cw_chat w1)" using assms(1) same by simp
    from grows_trans [OF remember_context_grows [OF k] answer_turn_grows [OF k a]] same show ?thesis by simp
  qed
qed

lemma chat_turn_grows:
  assumes "keyed (hd_uuid d) (cw_chat w)" "chat_turn d now q p w = (x, w')"
  shows "grows (hd_uuid d) (cw_chat w) (cw_chat w')"
proof (cases "start_turn d q p w")
  case (Pair res w1)
  note g = start_turn_grows [OF assms(1) Pair]
  then have k: "keyed (hd_uuid d) (cw_chat w1)" by (simp add: grows_def)
  show ?thesis
  proof (cases res)
    case (Inl e)
    with assms(2) Pair g show ?thesis by (simp add: chat_turn_def)
  next
    case (Inr prep)
    obtain route w2 where r: "route_turn d now prep p (rq_request_id q) w1 = (route, w2)" by fastforce
    note same = route_turn_chat [OF r]
    have "grows (hd_uuid d) (cw_chat w2) (cw_chat w')"
      using assms(2) Pair Inr r k same save_plain_grows [of "hd_uuid d" w2] knowledge_turn_grows [of "hd_uuid d" w2]
      by (auto simp: chat_turn_def grows_refl split: sum.splits turn_route.splits)
    with g same show ?thesis by (simp add: grows_trans)
  qed
qed

text \<open>Any number of turns, by anyone, on any conversations.\<close>

fun chat_run :: "chat_deps \<Rightarrow> (int \<times> chat_request \<times> principal) list \<Rightarrow> chat_world \<Rightarrow> chat_world" where
  "chat_run d [] w = w"
| "chat_run d ((now, q, p) # ts) w = chat_run d ts (snd (chat_turn d now q p w))"

lemma chat_run_grows: "keyed (hd_uuid d) (cw_chat w) \<Longrightarrow> grows (hd_uuid d) (cw_chat w) (cw_chat (chat_run d ts w))"
proof (induction d ts w rule: chat_run.induct)
  case (2 d now q p ts w)
  obtain x w' where t: "chat_turn d now q p w = (x, w')" by fastforce
  note g = chat_turn_grows [OF 2(2) t]
  with 2(1) t show ?case by (auto simp: grows_def intro: grows_trans order_trans)
qed (simp add: grows_refl)


section \<open>The rows of the message table\<close>

definition assistant_row :: "chat_request \<Rightarrow> string \<Rightarrow> string \<Rightarrow> message \<Rightarrow> bool" where
  "assistant_row q i status m \<longleftrightarrow>
     mg_conversation_id m = i \<and> mg_role m = ''assistant'' \<and> mg_status m = status \<and> mg_request_id m = rq_request_id q"

text \<open>What a turn appends, by its reply: nothing when it was refused at the start; otherwise the caller's message and, unless an
  exception cut the turn off, one row of the assistant that matches the reply.\<close>

definition rows_match :: "chat_request \<Rightarrow> principal \<Rightarrow> http_reply \<Rightarrow> chat_store \<Rightarrow> message list \<Rightarrow> bool" where
  "rows_match q p reply cs new \<longleftrightarrow>
     (case reply of
        HttpChat x \<Rightarrow>
          (case new of
             [u, a] \<Rightarrow> u = user_row q (xr_conversation_id x) (mg_seq u) \<and> assistant_row q (xr_conversation_id x) ''complete'' a
               \<and> mg_content a = xr_content x \<and> mg_seq a = xr_message_seq x
               \<and> mg_citations a = Some (map citation_json (xr_citations x))
               \<and> (case conversation_at cs (xr_conversation_id x) of None \<Rightarrow> False | Some c \<Rightarrow> cv_user_id c = p_user_id p)
           | _ \<Rightarrow> False)
      | HttpError status code atts \<Rightarrow>
          (case new of
             [] \<Rightarrow> status = 400 \<or> status = 404
           | [u, a] \<Rightarrow> 500 < status \<and> u = user_row q (mg_conversation_id u) (mg_seq u)
               \<and> assistant_row q (mg_conversation_id u) ''error'' a \<and> mg_content a = []
           | _ \<Rightarrow> False)
      | HttpRaised x \<Rightarrow> list_all (\<lambda>m. mg_request_id m = rq_request_id q) new \<and> length new \<le> 2
      | HttpFault x \<Rightarrow> list_all (\<lambda>m. mg_request_id m = rq_request_id q) new \<and> length new \<le> 1)"

definition owner_at :: "chat_store \<Rightarrow> string \<Rightarrow> string option" where
  "owner_at cs i = map_option cv_user_id (conversation_at cs i)"

lemma put_owner:
  "conversation_at cs (cv_id c) = Some c0 \<Longrightarrow> cv_user_id c = cv_user_id c0 \<Longrightarrow> owner_at (put_conversation c cs) i = owner_at cs i"
  by (simp add: owner_at_def conversation_at_put)

lemma put_messages [simp]: "cs_messages (put_conversation c cs) = cs_messages cs"
  by (simp add: put_conversation_def)

lemma save_assistant_rows:
  assumes "save_assistant i content status m u ci rid cs = (seq, cs')"
  shows "\<exists>a. cs_messages cs' = cs_messages cs @ [a] \<and> mg_seq a = seq \<and> mg_conversation_id a = i \<and> mg_role a = ''assistant''
     \<and> mg_status a = status \<and> mg_request_id a = rid \<and> mg_content a = content \<and> mg_citations a = ci"
    and "owner_at cs' j = owner_at cs j"
  using assms by (auto simp: save_assistant_def Let_def add_message_def new_message_def owner_at_def conversation_at_def)

lemma remember_context_rows:
  "cs_messages (remember_context prep r cs) = cs_messages cs" "owner_at (remember_context prep r cs) j = owner_at cs j"
proof -
  show "cs_messages (remember_context prep r cs) = cs_messages cs"
    by (simp add: remember_context_def split: option.split)
  show "owner_at (remember_context prep r cs) j = owner_at cs j"
    using put_owner conversation_at_SomeD by (fastforce simp: remember_context_def split: option.split)
qed

lemma maybe_summarize_rows:
  "maybe_summarize d prep w = (x, w') \<Longrightarrow>
   cs_messages (cw_chat w') = cs_messages (cw_chat w) \<and> owner_at (cw_chat w') j = owner_at (cw_chat w) j"
  by (erule maybe_summarize_chat) (simp_all add: put_owner)

text \<open>From the state a turn starts in: \<open>old\<close> are the rows before it, \<open>u\<close> the caller's message.\<close>

definition turn_ok :: "chat_request \<Rightarrow> principal \<Rightarrow> message list \<Rightarrow> http_reply \<Rightarrow> chat_store \<Rightarrow> bool" where
  "turn_ok q p old reply cs \<longleftrightarrow>
     take (length old) (cs_messages cs) = old \<and> rows_match q p reply cs (drop (length old) (cs_messages cs))"

definition turn_begun :: "chat_request \<Rightarrow> principal \<Rightarrow> string \<Rightarrow> message list \<Rightarrow> chat_store \<Rightarrow> bool" where
  "turn_begun q p i old cs \<longleftrightarrow> (\<exists>n. cs_messages cs = old @ [user_row q i n]) \<and> owner_at cs i = Some (p_user_id p)"

lemma user_row_sel [simp]:
  "mg_seq (user_row q i n) = n" "mg_conversation_id (user_row q i n) = i" "mg_request_id (user_row q i n) = rq_request_id q"
  by (simp_all add: user_row_def new_message_def)

lemma begun_fault: "turn_begun q p i old cs \<Longrightarrow> turn_ok q p old (HttpFault x) cs" "turn_begun q p i old cs \<Longrightarrow> turn_ok q p old (HttpRaised y) cs"
  by (auto simp: turn_begun_def turn_ok_def rows_match_def)

lemma owner_caller:
  "owner_at cs i = Some u \<Longrightarrow> (case conversation_at cs i of None \<Rightarrow> False | Some c \<Rightarrow> cv_user_id c = u)"
  by (auto simp: owner_at_def)

lemma begun_error:
  assumes "turn_begun q p (pp_conversation_id prep) old (cw_chat w)" "500 < status"
  shows "turn_ok q p old (HttpError status code atts) (cw_chat (save_error q prep w))"
proof -
  obtain seq cs where s: "save_assistant (pp_conversation_id prep) [] ''error'' None None None (rq_request_id q) (cw_chat w) = (seq, cs)"
    by fastforce
  from save_assistant_rows(1) [OF s] assms show ?thesis
    by (auto simp: save_error_def s turn_begun_def turn_ok_def rows_match_def assistant_row_def)
qed

lemma begun_reply:
  assumes "turn_begun q p i old cs" "save_assistant i content ''complete'' m u (Some ci) (rq_request_id q) cs = (seq, cs1)"
    and "cs_messages cs' = cs_messages cs1" "owner_at cs' i = owner_at cs1 i"
    and "xr_conversation_id x = i" "xr_content x = content" "xr_message_seq x = seq" "ci = map citation_json (xr_citations x)"
  shows "turn_ok q p old (HttpChat x) cs'"
proof -
  note r = save_assistant_rows [OF assms(2)]
  have "owner_at cs' i = Some (p_user_id p)" using assms(1,4) r(2) by (simp add: turn_begun_def)
  from owner_caller [OF this] r(1) assms show ?thesis
    by (auto simp: turn_begun_def turn_ok_def rows_match_def assistant_row_def)
qed

lemma begun_plain:
  assumes "turn_begun q p (pp_conversation_id prep) old (cw_chat w)" "save_plain q prep content route t w = (reply, w')"
  shows "turn_ok q p old reply (cw_chat w')"
proof -
  obtain seq cs where s: "save_assistant (pp_conversation_id prep) content ''complete'' None None (Some []) (rq_request_id q) (cw_chat w) = (seq, cs)"
    by fastforce
  with assms(2) have "reply = plain_reply (pp_conversation_id prep) seq content route t (rq_request_id q)" "w' = on_chat cs w"
    by (auto simp: save_plain_def)
  with begun_reply [OF assms(1) s refl refl] show ?thesis by (simp add: plain_reply_def)
qed

lemma begun_remember:
  "turn_begun q p i old cs \<Longrightarrow> turn_begun q p i old (remember_context prep r cs)"
  by (simp add: turn_begun_def remember_context_rows)

lemma status_5xx: "500 < gateway_status c"
  by (cases c) simp_all

lemma begun_answer:
  assumes "turn_begun q p (pp_conversation_id prep) old (cw_chat w)" "answer_turn d q prep p r w = (reply, w')"
  shows "turn_ok q p old reply (cw_chat w')"
proof -
  let ?cs = "remember_context prep r (cw_chat w)"
  note begun = begun_remember [OF assms(1), of prep r]
  obtain res st where a: "answer_from_knowledge (env_of d) (pp_question prep) (pp_history prep) r (pp_model_choice prep) (chat_params_of q)
      (egress_allowed d prep r) (se_escalation_model (td_settings (hd_tools d))) (Some p) (gateway_of w) = (res, st)" by fastforce
  show ?thesis
  proof (cases res)
    case (Inl e)
    with assms(2) a begun_fault [OF begun] show ?thesis by (auto simp: answer_turn_def Let_def)
  next
    case (Inr ans)
    show ?thesis
    proof (cases "an_error ans")
      case (Some e)
      obtain c atts where "e = (c, atts)" by (cases e)
      with assms(2) a Inr Some begun_error [of q p prep old "on_gateway_state st (on_chat ?cs w)", OF _ status_5xx] begun
      show ?thesis by (auto simp: answer_turn_def Let_def)
    next
      case None
      obtain seq cs where s: "save_assistant (pp_conversation_id prep) (ga_text (an_answer ans)) ''complete'' (an_model_id ans)
          (if nonempty (an_model_id ans) then Some (an_usage ans) else None) (Some (map citation_json (ga_citations (an_answer ans))))
          (rq_request_id q) ?cs = (seq, cs)" by fastforce
      obtain y w3 where m: "maybe_summarize d prep (on_chat cs (on_gateway_state st (on_chat ?cs w))) = (y, w3)" by fastforce
      have w': "w' = w3" "reply = (case y of Some x \<Rightarrow> HttpRaised x | None \<Rightarrow> knowledge_reply q prep r ans seq)"
        using assms(2) a Inr None s m by (auto simp: answer_turn_def Let_def split: option.splits)
      have rows: "cs_messages (cw_chat w3) = cs_messages cs" "owner_at (cw_chat w3) (pp_conversation_id prep) = owner_at cs (pp_conversation_id prep)"
        using maybe_summarize_rows [OF m] by simp_all
      show ?thesis
      proof (cases y)
        case None
        with begun_reply [OF begun s rows] w' show ?thesis by (simp add: knowledge_reply_def)
      next
        case (Some x)
        with save_assistant_rows(1) [OF s] begun w' rows show ?thesis
          by (auto simp: turn_begun_def turn_ok_def rows_match_def)
      qed
    qed
  qed
qed

lemma begun_knowledge:
  assumes "turn_begun q p (pp_conversation_id prep) old (cw_chat w)" "knowledge_turn d q prep p w = (reply, w')"
  shows "turn_ok q p old reply (cw_chat w')"
proof (cases "turn_sources d prep p w")
  case (Pair res w1)
  then have begun: "turn_begun q p (pp_conversation_id prep) old (cw_chat w1)"
    using assms(1) turn_sources_chat [OF Pair] by simp
  show ?thesis
  proof (cases res)
    case (Inl e)
    with assms(2) Pair begun_fault [OF begun] begun_error [OF begun, of 503] show ?thesis
      by (cases e) (auto simp: knowledge_turn_def)
  next
    case (Inr r)
    with assms(2) Pair begun_answer [OF begun] show ?thesis by (auto simp: knowledge_turn_def)
  qed
qed

lemma start_refused:
  assumes "start_turn d q p w = (Inl reply, w1)"
  shows "turn_ok q p (cs_messages (cw_chat w)) reply (cw_chat w1)"
proof -
  have "cw_chat w1 = cw_chat w \<and> (case reply of HttpChat x \<Rightarrow> False | HttpError s c a \<Rightarrow> s = 400 \<or> s = 404 | _ \<Rightarrow> True)"
    using assms by (auto simp: start_turn_def prepare_turn_def Let_def split: sum.splits prod.splits start_error.splits if_splits)
  then show ?thesis
    by (auto simp: turn_ok_def rows_match_def split: http_reply.splits)
qed


end
