(* ===== verification/Approvals.thy ===== *)
theory Approvals
  imports Executor
begin

text \<open>
  What the executor's transactions do to the tables: every call of \<open>tools/executor.py\<close> has one of five
  effects, from which the invariants of pending actions, VPN profiles and the audit log follow.
\<close>

section \<open>Effects\<close>

definition execution_entry :: "string \<Rightarrow> 'a audit_entry_scheme \<Rightarrow> bool" where
  "execution_entry pid e \<longleftrightarrow>
     ae_event e = ''approval'' \<and> ae_decision e = DExecuted \<and> ae_pending_action_id e = Some pid"

definition logged :: "tool_deps \<Rightarrow> audit_entry \<Rightarrow> tool_db \<Rightarrow> tool_db \<Rightarrow> bool" where
  "logged d e db db' \<longleftrightarrow> (\<exists>now. db_audit db' = audit_append (td_sha d) now e (db_audit db))"

definition closed_status :: "string \<Rightarrow> bool" where
  "closed_status s \<longleftrightarrow> s = ''rejected'' \<or> s = ''expired'' \<or> s = ''failed''"

inductive db_effect :: "tool_deps \<Rightarrow> tool_db \<Rightarrow> tool_db \<Rightarrow> bool" for d where
  unchanged: "db_effect d db db"
| quiet: "db_effect d db db'"
    if "db_users db' = db_users db" "db_vpn db' = db_vpn db" "db_pending db' = db_pending db"
      "logged d e db db'" "\<And>pid. \<not> execution_entry pid e"
| proposed: "db_effect d db db'"
    if "db_users db' = db_users db" "db_vpn db' = db_vpn db"
      "dict_get (db_pending db) (pa_id pa) = None" "pa_status pa = ''pending''" "pa_approver_id pa = None"
      "pa_action_hash pa = action_hash (td_sha d) (pa_tool pa) (pa_arguments pa) (pa_requester_id pa)"
      "db_pending db' = dict_put (pa_id pa) pa (db_pending db)"
      "logged d e db db'" "\<And>pid. \<not> execution_entry pid e"
| decided: "db_effect d db db'"
    if "db_users db' = db_users db" "db_vpn db' = db_vpn db"
      "dict_get (db_pending db) pid = Some pa" "pa_status pa = ''pending''" "closed_status s"
      "db_pending db' = dict_put (pa_id pa) (pa\<lparr>pa_status := s, pa_approver_id := a, pa_decided_at := t\<rparr>) (db_pending db)"
      "logged d e db db'" "\<And>pid. \<not> execution_entry pid e"
| performed: "db_effect d db db'"
    if "db_users db' = db_users db"
      "dict_get (db_pending db) pid = Some pa" "pa_status pa = ''pending''" "a \<noteq> pa_requester_id pa"
      "db_pending db' = dict_put (pa_id pa) (pa\<lparr>pa_status := ''executed'', pa_approver_id := Some a,
         pa_result := r, pa_decided_at := t, pa_executed_at := t\<rparr>) (db_pending db)"
      "logged d e db db'" "execution_entry (pa_id pa) e" "\<And>q. execution_entry q e \<Longrightarrow> q = pa_id pa"
      "db_vpn db' = db_vpn db \<or>
         (\<exists>v u. db_vpn db' = dict_put (vp_id v) v (db_vpn db) \<and> \<not> dict_has (db_vpn db) (vp_id v)
            \<and> dict_get (db_users db) (pa_requester_id pa) = Some u \<and> vp_requested_by v = u_id u
            \<and> vp_approved_by v = a \<and> vp_pending_action_id v = pa_id pa
            \<and> list_all (\<lambda>kv. vp_pending_action_id (snd kv) \<noteq> pa_id pa) (db_vpn db))"

section \<open>Handlers\<close>

text \<open>No handler touches users, pending actions or the audit log, and one that fails changes no table.\<close>

lemma insert_ticket_frame:
  assumes "insert_ticket t w = (r, w')"
  shows "db_users (tw_db w') = db_users (tw_db w) \<and> db_pending (tw_db w') = db_pending (tw_db w)
    \<and> db_audit (tw_db w') = db_audit (tw_db w) \<and> db_vpn (tw_db w') = db_vpn (tw_db w)
    \<and> ((\<exists>j. r = HOk j) \<or> tw_db w' = tw_db w)"
  using assms by (auto simp: insert_ticket_def Let_def split: if_splits)

lemma create_ticket_frame:
  assumes "create_support_ticket d now p t s e ctx w = (r, w')"
  shows "db_users (tw_db w') = db_users (tw_db w) \<and> db_pending (tw_db w') = db_pending (tw_db w)
    \<and> db_audit (tw_db w') = db_audit (tw_db w) \<and> db_vpn (tw_db w') = db_vpn (tw_db w)
    \<and> ((\<exists>j. r = HOk j) \<or> tw_db w' = tw_db w)"
  using assms
  by (auto simp: create_support_ticket_def Let_def split: option.splits if_splits dest!: insert_ticket_frame)

lemma handler_frame:
  assumes "run_handler d now tool p args ctx w = (r, w')"
  shows "db_users (tw_db w') = db_users (tw_db w) \<and> db_pending (tw_db w') = db_pending (tw_db w)
    \<and> db_audit (tw_db w') = db_audit (tw_db w)
    \<and> (tool = ''create_vpn_profile'' \<or> db_vpn (tw_db w') = db_vpn (tw_db w))
    \<and> ((\<exists>j. r = HOk j) \<or> tw_db w' = tw_db w)"
proof (cases args)
  case (TicketArgs t s e)
  show ?thesis
  proof (cases "tool = ''create_support_ticket''")
    case True
    with TicketArgs assms have "create_support_ticket d now p t s e ctx w = (r, w')"
      by (simp add: run_handler_def)
    from create_ticket_frame [OF this] show ?thesis by simp
  qed (use TicketArgs assms in \<open>simp add: run_handler_def\<close>)
next
  case (VpnArgs e n days)
  then show ?thesis
    using assms by (auto simp: run_handler_def create_vpn_profile_def Let_def split: if_splits sum.splits)
next
  case (SearchArgs q dep)
  then show ?thesis
    using assms by (auto simp: run_handler_def search_internal_docs_def Let_def split: if_splits sum.splits prod.splits)
next
  case (ServerArgs x)
  then show ?thesis
    using assms by (auto simp: run_handler_def get_server_status_def split: if_splits option.splits)
next
  case (GetTicketArgs x)
  then show ?thesis
    using assms by (auto simp: run_handler_def get_support_ticket_def Let_def split: if_splits option.splits)
qed

text \<open>The profile a successful VPN handler inserts.\<close>

lemma vpn_handler_ok:
  assumes "run_handler d now ''create_vpn_profile'' p args ctx w = (HOk result, w')"
  obtains v where "db_vpn (tw_db w') = dict_put (vp_id v) v (db_vpn (tw_db w))"
    "\<not> dict_has (db_vpn (tw_db w)) (vp_id v)" "vp_requested_by v = p_user_id p"
    "jget (case result of JObj kvs \<Rightarrow> kvs | _ \<Rightarrow> []) ''profile_id'' = Some (JStr (vp_id v))" "\<exists>kvs. result = JObj kvs"
proof (cases args)
  case (VpnArgs e n days)
  with assms have c: "create_vpn_profile d now p e n days w = (HOk result, w')"
    by (simp add: run_handler_def)
  then obtain u where u: "resolve_employee (db_users (tw_db w)) e n = Inr u"
    by (auto simp: create_vpn_profile_def split: sum.splits)
  show ?thesis
    using c by (intro that [of "\<lparr>vp_id = ''VPN-'' @ pad 4 (tw_vpn_seq w), vp_employee_id = u_id u,
                          vp_duration_days = days, vp_requested_by = p_user_id p, vp_approved_by = p_user_id p,
                          vp_pending_action_id = td_uuid d (tw_uuids w), vp_created_at = now,
                          vp_expires_at = now + days * 86400 * MICRO\<rparr>"])
      (auto simp: create_vpn_profile_def u Let_def jget_def split: if_splits)
qed (use assms in \<open>simp_all add: run_handler_def\<close>)

section \<open>Calls\<close>

lemma append_audit_sel [simp]:
  "db_users (tw_db (append_audit d now e w)) = db_users (tw_db w)"
  "db_vpn (tw_db (append_audit d now e w)) = db_vpn (tw_db w)"
  "db_pending (tw_db (append_audit d now e w)) = db_pending (tw_db w)"
  "db_tickets (tw_db (append_audit d now e w)) = db_tickets (tw_db w)"
  "db_audit (tw_db (append_audit d now e w)) = audit_append (td_sha d) now e (db_audit (tw_db w))"
  by (simp_all add: append_audit_def)

lemma put_pending_sel [simp]:
  "db_users (tw_db (put_pending pa w)) = db_users (tw_db w)"
  "db_vpn (tw_db (put_pending pa w)) = db_vpn (tw_db w)"
  "db_pending (tw_db (put_pending pa w)) = dict_put (pa_id pa) pa (db_pending (tw_db w))"
  "db_audit (tw_db (put_pending pa w)) = db_audit (tw_db w)"
  "db_tickets (tw_db (put_pending pa w)) = db_tickets (tw_db w)"
  by (simp_all add: put_pending_def)

lemma entry_sel [simp]:
  "ae_event (call_entry p ctx tool dec) = ''tool_call''" "ae_decision (call_entry p ctx tool dec) = dec"
  "ae_pending_action_id (call_entry p ctx tool dec) = None"
  "ae_actor_id (call_entry p ctx tool dec) = p_user_id p" "ae_tool (call_entry p ctx tool dec) = Some tool"
  "ae_event (approval_entry p ctx pid dec why) = ''approval''" "ae_decision (approval_entry p ctx pid dec why) = dec"
  "ae_pending_action_id (approval_entry p ctx pid dec why) = Some pid"
  "ae_actor_id (approval_entry p ctx pid dec why) = p_user_id p"
  by (simp_all add: call_entry_def approval_entry_def entry_of_def)

lemma logged_append:
  "db_audit (tw_db w) = db_audit db \<Longrightarrow> logged d e db (tw_db (append_audit d now e w))"
  by (auto simp: logged_def)

lemma quiet_append:
  assumes "db_users (tw_db w') = db_users (tw_db w)" "db_vpn (tw_db w') = db_vpn (tw_db w)"
    "db_pending (tw_db w') = db_pending (tw_db w)" "db_audit (tw_db w') = db_audit (tw_db w)"
    "ae_event e \<noteq> ''approval'' \<or> ae_decision e \<noteq> DExecuted"
  shows "db_effect d (tw_db w) (tw_db (append_audit d now e w'))"
  by (rule quiet [of _ _ d e]) (use assms in \<open>auto simp: execution_entry_def logged_append\<close>)

lemma spec_name: "tool_spec_of tool = Some s \<Longrightarrow> ts_name s = tool"
  unfolding tool_spec_of_def using find_SomeD by fast

lemma spec_sensitive: "tool_spec_of tool = Some s \<Longrightarrow> ts_sensitive s \<longleftrightarrow> tool = ''create_vpn_profile''"
  unfolding tool_spec_of_def tools_def by (clarsimp split: if_splits)

lemma propose_effect:
  assumes "propose d now p s args ctx w = (r, w')"
  shows "db_effect d (tw_db w) (tw_db w')"
proof (cases "dict_has (db_pending (tw_db w)) (td_uuid d (tw_uuids w))")
  case True
  with assms have "tw_db w' = tw_db w"
    by (auto simp: propose_def Let_def rolled_back_def)
  then show ?thesis by (simp add: unchanged)
next
  case False
  obtain pa e w1 where w': "w' = append_audit d now e (put_pending pa w1)" and w1: "tw_db w1 = tw_db w"
    and pa: "pa_id pa = td_uuid d (tw_uuids w)" "pa_status pa = ''pending''" "pa_approver_id pa = None"
      "pa_action_hash pa = action_hash (td_sha d) (pa_tool pa) (pa_arguments pa) (pa_requester_id pa)"
    and e: "ae_event e = ''tool_call''"
    using assms False by (auto simp: propose_def Let_def)
  show ?thesis
    by (rule proposed [of _ _ pa d e])
      (use False w1 pa e in \<open>auto simp: w' dict_has_def execution_entry_def intro!: logged_append\<close>)
qed

lemma execute_now_effect:
  assumes "execute_now d now p tool args ctx w = (r, w')" "tool \<noteq> ''create_vpn_profile''"
  shows "db_effect d (tw_db w) (tw_db w')"
proof -
  obtain h w1 where h: "run_handler d now tool p args ctx w = (h, w1)"
    by fastforce
  note fr = handler_frame [OF h]
  have q: "db_effect d (tw_db w) (tw_db (append_audit d now e w1))" if "ae_event e = ''tool_call''" for e
    by (rule quiet_append) (use fr assms(2) that in auto)
  show ?thesis
    using assms(1) h q by (cases h) (auto simp: execute_now_def Let_def rolled_back_def unchanged)
qed

lemma run_tool_effect:
  assumes "run_tool d now p tool raw ctx w = (r, w')"
  shows "db_effect d (tw_db w) (tw_db w')"
proof (cases "tool_spec_of tool")
  case None
  with assms show ?thesis
    by (auto simp: run_tool_def intro!: quiet_append)
next
  case (Some s)
  show ?thesis
  proof (cases "model_validate (td_lax d) (ts_args_model s) raw")
    case None
    with Some assms show ?thesis
      by (auto simp: run_tool_def Let_def intro!: quiet_append)
  next
    case args: (Some args)
    show ?thesis
    proof (cases "authorize p s")
      case None
      show ?thesis
      proof (cases "ts_sensitive s")
        case True
        with Some args None assms show ?thesis
          by (simp add: run_tool_def propose_effect)
      next
        case False
        with Some have "tool \<noteq> ''create_vpn_profile''" using spec_sensitive by blast
        with Some args None assms False show ?thesis
          by (simp add: run_tool_def execute_now_effect)
      qed
    next
      case (Some why)
      with \<open>tool_spec_of tool = Some s\<close> args assms show ?thesis
        by (auto simp: run_tool_def intro!: quiet_append)
    qed
  qed
qed

lemma stamp_profile_Inr:
  assumes "stamp_profile approver pa result w = Inr w'" "db_vpn (tw_db w) = dict_put (vp_id v) v vs"
    "jget (case result of JObj kvs \<Rightarrow> kvs | _ \<Rightarrow> []) ''profile_id'' = Some (JStr (vp_id v))" "\<exists>kvs. result = JObj kvs"
    "\<not> dict_has vs (vp_id v)"
  shows "db_vpn (tw_db w') = dict_put (vp_id v) (v\<lparr>vp_approved_by := p_user_id approver, vp_pending_action_id := pa_id pa\<rparr>) vs
    \<and> list_all (\<lambda>kv. vp_pending_action_id (snd kv) \<noteq> pa_id pa) vs
    \<and> db_users (tw_db w') = db_users (tw_db w) \<and> db_pending (tw_db w') = db_pending (tw_db w)
    \<and> db_audit (tw_db w') = db_audit (tw_db w)"
proof -
  have upd: "dict_put k b (dict_put k a xs) = dict_put k b xs" for k and a b :: vpn_profile and xs
    by (induction xs) auto
  have mem: "kv \<in> set (dict_put (vp_id v) v vs)" if "kv \<in> set vs" for kv
    using that assms(5) by (induction vs) (auto simp: dict_has_def split: if_splits)
  have ne: "fst kv \<noteq> vp_id v" if "kv \<in> set vs" for kv
    using that assms(5) unfolding dict_has_iff dict_keys_def by (metis image_eqI set_map)
  from assms(4) obtain kvs where r: "result = JObj kvs" by blast
  with assms(3) have j: "jget kvs ''profile_id'' = Some (JStr (vp_id v))" by simp
  have free: "\<not> list_ex (\<lambda>kv. fst kv \<noteq> vp_id v \<and> vp_pending_action_id (snd kv) = pa_id pa) (db_vpn (tw_db w))"
    and w': "w' = w\<lparr>tw_db := (tw_db w)\<lparr>db_vpn := dict_put (vp_id v)
        (v\<lparr>vp_approved_by := p_user_id approver, vp_pending_action_id := pa_id pa\<rparr>) (db_vpn (tw_db w))\<rparr>\<rparr>"
    using assms(1) by (auto simp: stamp_profile_def Let_def r j assms(2) split: if_splits)
  have "list_all (\<lambda>kv. vp_pending_action_id (snd kv) \<noteq> pa_id pa) vs"
    unfolding list_all_iff
  proof
    fix kv assume kv: "kv \<in> set vs"
    have "fst kv \<noteq> vp_id v" by (rule ne [OF kv])
    moreover have "kv \<in> set (db_vpn (tw_db w))" using mem [OF kv] assms(2) by simp
    ultimately show "vp_pending_action_id (snd kv) \<noteq> pa_id pa"
      using free unfolding list_ex_iff by blast
  qed
  then show ?thesis
    by (simp add: w' assms(2) upd)
qed

text \<open>An approved handler with its result stamped leaves everything but at most one new profile of this action.\<close>

lemma stamped_frame:
  assumes "run_handler d now (pa_tool pa) requester args ctx w = (HOk result, w1)"
    and "(if pa_tool pa = ''create_vpn_profile'' then stamp_profile approver pa result w1 else Inr w1) = Inr w2"
    and "principal_of (db_users (tw_db w)) (pa_requester_id pa) = Some requester"
  shows "db_users (tw_db w2) = db_users (tw_db w) \<and> db_pending (tw_db w2) = db_pending (tw_db w)
    \<and> db_audit (tw_db w2) = db_audit (tw_db w)
    \<and> (db_vpn (tw_db w2) = db_vpn (tw_db w) \<or>
     (\<exists>v u. db_vpn (tw_db w2) = dict_put (vp_id v) v (db_vpn (tw_db w)) \<and> \<not> dict_has (db_vpn (tw_db w)) (vp_id v)
        \<and> dict_get (db_users (tw_db w)) (pa_requester_id pa) = Some u \<and> vp_requested_by v = u_id u
        \<and> vp_approved_by v = p_user_id approver \<and> vp_pending_action_id v = pa_id pa
        \<and> list_all (\<lambda>kv. vp_pending_action_id (snd kv) \<noteq> pa_id pa) (db_vpn (tw_db w))))"
proof -
  note fr = handler_frame [OF assms(1)]
  obtain u where u: "dict_get (db_users (tw_db w)) (pa_requester_id pa) = Some u" "p_user_id requester = u_id u"
    using assms(3) by (auto simp: principal_of_def split: option.splits if_splits)
  show ?thesis
  proof (cases "pa_tool pa = ''create_vpn_profile''")
    case True
    with assms(1) have h': "run_handler d now ''create_vpn_profile'' requester args ctx w = (HOk result, w1)" by simp
    obtain v where v: "db_vpn (tw_db w1) = dict_put (vp_id v) v (db_vpn (tw_db w))"
      "\<not> dict_has (db_vpn (tw_db w)) (vp_id v)" "vp_requested_by v = p_user_id requester"
      "jget (case result of JObj kvs \<Rightarrow> kvs | _ \<Rightarrow> []) ''profile_id'' = Some (JStr (vp_id v))" "\<exists>kvs. result = JObj kvs"
      by (rule vpn_handler_ok [OF h'])
    define v' where "v' = v\<lparr>vp_approved_by := p_user_id approver, vp_pending_action_id := pa_id pa\<rparr>"
    have v': "vp_id v' = vp_id v" "vp_requested_by v' = vp_requested_by v" "vp_approved_by v' = p_user_id approver"
      "vp_pending_action_id v' = pa_id pa"
      by (simp_all add: v'_def)
    from True assms(2) have "stamp_profile approver pa result w1 = Inr w2" by simp
    from stamp_profile_Inr [OF this v(1,4,5,2)] have s:
      "db_vpn (tw_db w2) = dict_put (vp_id v') v' (db_vpn (tw_db w))"
      "list_all (\<lambda>kv. vp_pending_action_id (snd kv) \<noteq> pa_id pa) (db_vpn (tw_db w))"
      "db_users (tw_db w2) = db_users (tw_db w1)" "db_pending (tw_db w2) = db_pending (tw_db w1)"
      "db_audit (tw_db w2) = db_audit (tw_db w1)"
      by (simp_all add: v'_def)
    have "\<exists>v u. db_vpn (tw_db w2) = dict_put (vp_id v) v (db_vpn (tw_db w)) \<and> \<not> dict_has (db_vpn (tw_db w)) (vp_id v)
        \<and> dict_get (db_users (tw_db w)) (pa_requester_id pa) = Some u \<and> vp_requested_by v = u_id u
        \<and> vp_approved_by v = p_user_id approver \<and> vp_pending_action_id v = pa_id pa
        \<and> list_all (\<lambda>kv. vp_pending_action_id (snd kv) \<noteq> pa_id pa) (db_vpn (tw_db w))"
      by (intro exI [of _ v'] exI [of _ u]) (use s(1,2) v(2,3) v' u in simp)
    with s(3-5) fr show ?thesis by simp
  next
    case False
    with assms(2) fr show ?thesis by simp
  qed
qed

lemma execute_approved_effect:
  assumes "execute_approved d now approver pa requester args ctx w = (r, w')"
    and "dict_get (db_pending (tw_db w)) pid = Some pa" "pa_status pa = ''pending''"
    and "p_user_id approver \<noteq> pa_requester_id pa" "principal_of (db_users (tw_db w)) (pa_requester_id pa) = Some requester"
  shows "db_effect d (tw_db w) (tw_db w')"
proof -
  obtain h w1 where h: "run_handler d now (pa_tool pa) requester args ctx w = (h, w1)"
    by fastforce
  note fr = handler_frame [OF h]
  show ?thesis
  proof (cases h)
    case (HToolError why)
    then have db: "tw_db w1 = tw_db w" using fr by auto
    obtain e where w': "w' = append_audit d now e (put_pending (pa\<lparr>pa_status := ''failed'', pa_decided_at := Some now\<rparr>) w1)"
      "ae_decision e = DError"
      using assms(1) h HToolError by (auto simp: execute_approved_def Let_def)
    show ?thesis
      by (rule decided [where pid = pid and pa = pa and s = "''failed''" and a = "pa_approver_id pa" and t = "Some now" and e = e])
        (use assms(2,3) db w' in \<open>auto simp: closed_status_def execution_entry_def intro!: logged_append\<close>)
  next
    case (HOk result)
    show ?thesis
    proof (cases "if pa_tool pa = ''create_vpn_profile'' then stamp_profile approver pa result w1 else Inr w1")
      case (Inl x)
      then have "tw_db w' = tw_db w"
        using assms(1) h HOk by (auto simp: execute_approved_def Let_def rolled_back_def split: if_splits)
      then show ?thesis by (simp add: unchanged)
    next
      case (Inr w2)
      obtain e where w': "w' = append_audit d now e (put_pending (pa\<lparr>pa_status := ''executed'',
          pa_approver_id := Some (p_user_id approver), pa_result := result, pa_decided_at := Some now, pa_executed_at := Some now\<rparr>) w2)"
        and e: "ae_decision e = DExecuted" "ae_event e = ''approval''" "ae_pending_action_id e = Some (pa_id pa)"
        using assms(1) h HOk Inr by (auto simp: execute_approved_def Let_def)
      note w2 = stamped_frame [OF h [unfolded HOk] Inr assms(5)]
      show ?thesis
        by (rule performed [where pid = pid and pa = pa and a = "p_user_id approver" and r = result and t = "Some now" and e = e])
          (use assms(2-4) w2 e in \<open>auto simp: w' execution_entry_def intro!: logged_append\<close>)
    qed
  qed (use assms(1) h in \<open>auto simp: execute_approved_def Let_def rolled_back_def unchanged\<close>)
qed

lemma decide_effect:
  assumes "dict_get (db_pending (tw_db w)) pid = Some pa" "pa_status pa = ''pending''" "closed_status s"
    and "ae_decision e \<noteq> DExecuted"
  shows "db_effect d (tw_db w) (tw_db (append_audit d now e
      (put_pending (pa\<lparr>pa_status := s, pa_approver_id := a, pa_decided_at := t\<rparr>) w)))"
  by (rule decided [where pid = pid and pa = pa and s = s and a = a and t = t and e = e])
    (use assms in \<open>auto simp: execution_entry_def intro!: logged_append\<close>)

lemma approve_effect:
  assumes "approve_pending d now approver pid h ctx w = (r, w')"
  shows "db_effect d (tw_db w) (tw_db w')"
proof (cases "dict_get (db_pending (tw_db w)) pid")
  case None
  with assms show ?thesis
    by (auto simp: approve_pending_def Let_def intro!: quiet_append)
next
  case (Some pa)
  have deny: "db_effect d (tw_db w) (tw_db (append_audit d now ((approval_entry approver ctx pid DDeny why)\<lparr>ae_tool := tl, ae_action_hash := hs\<rparr>) w))"
    for why tl hs
    by (rule quiet_append) auto
  have close: "db_effect d (tw_db w) (tw_db (append_audit d now ((approval_entry approver ctx pid DDeny why)\<lparr>ae_tool := tl, ae_action_hash := hs\<rparr>)
      (put_pending (pa\<lparr>pa_status := s, pa_decided_at := Some now\<rparr>) w)))" if "pa_status pa = ''pending''" "closed_status s"
    for why tl hs s
    using decide_effect [OF Some that, where e = "(approval_entry approver ctx pid DDeny why)\<lparr>ae_tool := tl, ae_action_hash := hs\<rparr>"
        and d = d and now = now and a = "pa_approver_id pa" and t = "Some now"] by simp
  note defs = approve_pending_def Let_def Some
  have cs: "closed_status ''rejected''" "closed_status ''expired''" by (simp_all add: closed_status_def)
  show ?thesis
  proof (cases "pa_status pa = ''pending'' \<and> \<not> pa_expires_at pa < now \<and> has_perm approver (pa_approve_permission pa)
      \<and> p_user_id approver \<noteq> pa_requester_id pa \<and> h = pa_action_hash pa")
    case False
    with assms show ?thesis
      by (auto simp: defs split: if_splits intro!: deny close cs)
  next
    case True
    show ?thesis
    proof (cases "tool_spec_of (pa_tool pa)")
      case None
      with True assms show ?thesis by (auto simp: defs rolled_back_def unchanged)
    next
      case spec: (Some s)
      show ?thesis
      proof (cases "principal_of (db_users (tw_db w)) (pa_requester_id pa)")
        case None
        with True spec assms show ?thesis by (auto simp: defs intro!: close cs)
      next
        case rq: (Some requester)
        show ?thesis
        proof (cases "authorize requester s = None")
          case False
          with True spec rq assms show ?thesis by (auto simp: defs intro!: close cs)
        next
          case auth: True
          show ?thesis
          proof (cases "model_validate (td_lax d) (ts_args_model s) (pa_arguments pa)")
            case None
            with True spec rq auth assms show ?thesis by (auto simp: defs rolled_back_def unchanged)
          next
            case (Some args)
            with True spec rq auth assms have "execute_approved d now approver pa requester args ctx w = (r, w')"
              by (simp add: approve_pending_def Let_def \<open>dict_get (db_pending (tw_db w)) pid = Some pa\<close>)
            from execute_approved_effect [OF this \<open>dict_get (db_pending (tw_db w)) pid = Some pa\<close> _ _ rq] True
            show ?thesis by simp
          qed
        qed
      qed
    qed
  qed
qed

lemma reject_effect:
  assumes "reject_pending d now approver pid reason ctx w = (r, w')"
  shows "db_effect d (tw_db w) (tw_db w')"
proof (cases "dict_get (db_pending (tw_db w)) pid")
  case None
  with assms show ?thesis by (simp add: reject_pending_def unchanged)
next
  case (Some pa)
  have "db_effect d (tw_db w) (tw_db (append_audit d now e (put_pending (pa\<lparr>pa_status := ''rejected'',
      pa_approver_id := Some (p_user_id approver), pa_decided_at := Some now\<rparr>) w)))"
    if "pa_status pa = ''pending''" "ae_decision e \<noteq> DExecuted" for e
    using decide_effect [OF Some that(1) _ that(2)] by (simp add: closed_status_def)
  with Some assms show ?thesis
    by (auto simp: reject_pending_def unchanged split: if_splits)
qed

section \<open>Runs\<close>

text \<open>A run of the program: calls by any principal at any time, and changes of users, servers and the gateway by
  the rest of the system in between.\<close>

definition users_keyed :: "users \<Rightarrow> bool" where
  "users_keyed us \<longleftrightarrow> list_all (\<lambda>(k, u). u_id u = k) us"

inductive exec_step :: "tool_deps \<Rightarrow> tool_world \<Rightarrow> tool_world \<Rightarrow> bool" for d where
  runs: "exec_step d w w'" if "run_tool d now p tool raw ctx w = (r, w')"
| approves: "exec_step d w w'" if "approve_pending d now p pid h ctx w = (r, w')"
| rejects: "exec_step d w w'" if "reject_pending d now p pid why ctx w = (r, w')"
| outside: "exec_step d w (w\<lparr>tw_gateway := g, tw_db := (tw_db w)\<lparr>db_users := us, db_servers := sv\<rparr>\<rparr>)" if "users_keyed us"

definition exec_init :: "tool_world \<Rightarrow> bool" where
  "exec_init w \<longleftrightarrow> users_keyed (db_users (tw_db w)) \<and> db_vpn (tw_db w) = [] \<and> db_pending (tw_db w) = []
     \<and> db_audit (tw_db w) = empty_log"

definition executions :: "string \<Rightarrow> tool_db \<Rightarrow> nat" where
  "executions pid db = length (filter (execution_entry pid) (al_rows (db_audit db)))"

definition executed_pending :: "tool_db \<Rightarrow> string \<Rightarrow> bool" where
  "executed_pending db pid =
     (case dict_get (db_pending db) pid of None \<Rightarrow> False | Some pa \<Rightarrow> pa_status pa = ''executed'')"

definition pending_ok :: "tool_deps \<Rightarrow> tool_db \<Rightarrow> bool" where
  "pending_ok d db \<longleftrightarrow>
     (\<forall>pid pa. dict_get (db_pending db) pid = Some pa \<longrightarrow>
        pa_id pa = pid \<and> pa_action_hash pa = action_hash (td_sha d) (pa_tool pa) (pa_arguments pa) (pa_requester_id pa)
        \<and> (pa_status pa = ''executed'' \<longrightarrow> (\<exists>a. pa_approver_id pa = Some a \<and> a \<noteq> pa_requester_id pa)))"

text \<open>A profile somebody else approved: its pending action, executed, names both people.\<close>

definition approved_profile :: "tool_db \<Rightarrow> vpn_profile \<Rightarrow> bool" where
  "approved_profile db v \<longleftrightarrow>
     (\<exists>pa. dict_get (db_pending db) (vp_pending_action_id v) = Some pa \<and> pa_status pa = ''executed''
        \<and> pa_approver_id pa = Some (vp_approved_by v) \<and> pa_requester_id pa = vp_requested_by v
        \<and> vp_approved_by v \<noteq> vp_requested_by v)"

definition vpn_ok :: "tool_db \<Rightarrow> bool" where
  "vpn_ok db \<longleftrightarrow> distinct (map (\<lambda>kv. vp_pending_action_id (snd kv)) (db_vpn db))
     \<and> list_all (\<lambda>kv. approved_profile db (snd kv)) (db_vpn db)"

definition log_ok :: "tool_deps \<Rightarrow> tool_db \<Rightarrow> bool" where
  "log_ok d db \<longleftrightarrow> cs_intact (verify_chain (td_sha d) (al_rows (db_audit db)))
     \<and> (\<forall>pid. executions pid db = (if executed_pending db pid then 1 else 0))"

definition approvals_inv :: "tool_deps \<Rightarrow> tool_world \<Rightarrow> bool" where
  "approvals_inv d w \<longleftrightarrow> users_keyed (db_users (tw_db w)) \<and> pending_ok d (tw_db w) \<and> vpn_ok (tw_db w) \<and> log_ok d (tw_db w)"

lemma logged_intact: "logged d e db db' \<Longrightarrow>
  cs_intact (verify_chain (td_sha d) (al_rows (db_audit db'))) = cs_intact (verify_chain (td_sha d) (al_rows (db_audit db)))"
  by (auto simp: logged_def)

lemma execution_entry_row [simp]: "execution_entry pid (audit_row_of sha i now prev e) = execution_entry pid e"
  by (simp add: execution_entry_def audit_row_of_def audit_entry.defs audit_row.defs)

lemma logged_executions: "logged d e db db' \<Longrightarrow>
  executions pid db' = executions pid db + (if execution_entry pid e then 1 else 0)"
  by (auto simp: logged_def executions_def append_rows)

lemma put_new_append: "\<not> dict_has xs k \<Longrightarrow> dict_put k v xs = xs @ [(k, v)]"
  by (induction xs) (auto simp: dict_has_def split: if_splits)

lemma users_keyedD: "users_keyed us \<Longrightarrow> dict_get us k = Some u \<Longrightarrow> u_id u = k"
  by (auto simp: users_keyed_def list_all_iff dest!: map_of_SomeD)

lemma approved_profile_mono:
  assumes "approved_profile db v" "\<And>pid pa. dict_get (db_pending db) pid = Some pa \<Longrightarrow> pa_status pa = ''executed'' \<Longrightarrow>
      dict_get (db_pending db') pid = Some pa"
  shows "approved_profile db' v"
  using assms unfolding approved_profile_def by blast

lemma vpn_ok_mono:
  assumes "vpn_ok db" "db_vpn db' = db_vpn db" "\<And>pid pa. dict_get (db_pending db) pid = Some pa \<Longrightarrow> pa_status pa = ''executed'' \<Longrightarrow>
      dict_get (db_pending db') pid = Some pa"
  shows "vpn_ok db'"
  using assms(1,2) approved_profile_mono [OF _ assms(3)] by (auto simp: vpn_ok_def list_all_iff)

lemma closed_not_executed: "closed_status s \<Longrightarrow> s \<noteq> ''executed''"
  by (auto simp: closed_status_def)

lemma effect_pending_ok:
  assumes "db_effect d db db'" "pending_ok d db"
  shows "pending_ok d db'"
  using assms
proof cases
  case (decided pid pa s a t e)
  have "pa_id pa = pid" "pa_action_hash pa = action_hash (td_sha d) (pa_tool pa) (pa_arguments pa) (pa_requester_id pa)"
    using decided(3) assms(2) by (auto simp: pending_ok_def)
  with decided(6) assms(2) closed_not_executed [OF decided(5)] show ?thesis
    by (auto simp: pending_ok_def)
next
  case (performed pid pa a r t e)
  have "pa_id pa = pid" "pa_action_hash pa = action_hash (td_sha d) (pa_tool pa) (pa_arguments pa) (pa_requester_id pa)"
    using performed(2) assms(2) by (auto simp: pending_ok_def)
  with performed(4,5) assms(2) show ?thesis
    by (auto simp: pending_ok_def)
qed (auto simp: pending_ok_def)

lemma effect_vpn_ok:
  assumes "db_effect d db db'" "pending_ok d db" "vpn_ok db" "users_keyed (db_users db)"
  shows "vpn_ok db'"
  using assms(1)
proof cases
  case (performed pid pa a r t e)
  have pid: "pa_id pa = pid" using performed(2) assms(2) by (auto simp: pending_ok_def)
  have keep: "dict_get (db_pending db') q = Some x" if "dict_get (db_pending db) q = Some x" "pa_status x = ''executed''" for q x
    using that performed(2,3,5) pid by auto
  from performed(9) show ?thesis
  proof
    assume "db_vpn db' = db_vpn db"
    then show ?thesis using vpn_ok_mono [OF assms(3)] keep by blast
  next
    assume "\<exists>v u. db_vpn db' = dict_put (vp_id v) v (db_vpn db) \<and> \<not> dict_has (db_vpn db) (vp_id v)
            \<and> dict_get (db_users db) (pa_requester_id pa) = Some u \<and> vp_requested_by v = u_id u
            \<and> vp_approved_by v = a \<and> vp_pending_action_id v = pa_id pa
            \<and> list_all (\<lambda>kv. vp_pending_action_id (snd kv) \<noteq> pa_id pa) (db_vpn db)"
    then obtain v u where v: "db_vpn db' = dict_put (vp_id v) v (db_vpn db)" "\<not> dict_has (db_vpn db) (vp_id v)"
      "dict_get (db_users db) (pa_requester_id pa) = Some u" "vp_requested_by v = u_id u" "vp_approved_by v = a"
      "vp_pending_action_id v = pa_id pa" "list_all (\<lambda>kv. vp_pending_action_id (snd kv) \<noteq> pa_id pa) (db_vpn db)"
      by blast
    have new: "approved_profile db' v"
      unfolding approved_profile_def v(4-6) users_keyedD [OF assms(4) v(3)]
      using performed(4,5) by simp
    have old: "approved_profile db' (snd kv)" if "kv \<in> set (db_vpn db)" for kv
      using assms(3) that approved_profile_mono [OF _ keep] by (auto simp: vpn_ok_def list_all_iff)
    have "distinct (map (\<lambda>kv. vp_pending_action_id (snd kv)) (db_vpn db @ [(vp_id v, v)]))"
      using assms(3) v(6,7) by (auto simp: vpn_ok_def list_all_iff)
    then show ?thesis
      using old new unfolding vpn_ok_def v(1) put_new_append [OF v(2)] by (auto simp: list_all_iff)
  qed
next
  case (decided pid pa s a t e)
  have "pa_id pa = pid" using decided(3) assms(2) by (auto simp: pending_ok_def)
  with decided show ?thesis
    by (intro vpn_ok_mono [OF assms(3) decided(2)]) auto
next
  case (proposed pa e)
  then show ?thesis
    by (intro vpn_ok_mono [OF assms(3) proposed(2)]) auto
next
  case (quiet e)
  then show ?thesis
    by (intro vpn_ok_mono [OF assms(3) quiet(2)]) auto
qed (use assms(3) in simp)

lemma effect_log_ok:
  assumes "db_effect d db db'" "pending_ok d db" "log_ok d db"
  shows "log_ok d db'"
proof -
  have base: "executions q db = (if executed_pending db q then 1 else 0)" for q
    using assms(3) by (simp add: log_ok_def)
  show ?thesis
  using assms(1)
proof cases
  case (performed pid pa a r t e)
  have pid: "pa_id pa = pid" using performed(2) assms(2) by (auto simp: pending_ok_def)
  have "executions q db' = (if executed_pending db' q then 1 else 0)" for q
  proof (cases "q = pid")
    case True
    with base [of pid] performed(2,3,5,7) pid logged_executions [OF performed(6), of pid] show ?thesis
      by (simp add: executed_pending_def)
  next
    case False
    with performed(8) [of q] pid have "\<not> execution_entry q e" by blast
    with base [of q] performed(5) pid False logged_executions [OF performed(6), of q] show ?thesis
      by (simp add: executed_pending_def)
  qed
  then show ?thesis
    using assms(3) logged_intact [OF performed(6)] by (simp add: log_ok_def)
next
  case (decided pid pa s a t e)
  have pid: "pa_id pa = pid" using decided(3) assms(2) by (auto simp: pending_ok_def)
  have "executions q db' = (if executed_pending db' q then 1 else 0)" for q
    using base [of q] decided(3,4,6) decided(8) [of q] pid logged_executions [OF decided(7), of q] closed_not_executed [OF decided(5)]
    by (cases "q = pid") (simp_all add: executed_pending_def)
  then show ?thesis
    using assms(3) logged_intact [OF decided(7)] by (simp add: log_ok_def)
next
  case (proposed pa e)
  have "executions q db' = (if executed_pending db' q then 1 else 0)" for q
    using base [of q] proposed(3,4,7) proposed(9) [of q] logged_executions [OF proposed(8), of q]
    by (cases "q = pa_id pa") (simp_all add: executed_pending_def)
  then show ?thesis
    using assms(3) logged_intact [OF proposed(8)] by (simp add: log_ok_def)
next
  case (quiet e)
  have "executions q db' = (if executed_pending db' q then 1 else 0)" for q
    using base [of q] quiet(3) quiet(5) [of q] logged_executions [OF quiet(4), of q]
    by (simp add: executed_pending_def)
  then show ?thesis
    using assms(3) logged_intact [OF quiet(4)] by (simp add: log_ok_def)
qed (use assms(3) in simp)
qed

lemma effect_users:
  assumes "db_effect d db db'"
  shows "db_users db' = db_users db"
  using assms
proof cases
  case unchanged
  then show ?thesis by simp
next
  case (quiet e)
  show ?thesis by (rule quiet(1))
next
  case (proposed pa e)
  show ?thesis by (rule proposed(1))
next
  case (decided pid pa s a t e)
  show ?thesis by (rule decided(1))
next
  case (performed pid pa a r t e)
  show ?thesis by (rule performed(1))
qed

lemma step_effect:
  assumes "exec_step d w w'"
  obtains (effect) "db_effect d (tw_db w) (tw_db w')"
    | (other) g us sv where "users_keyed us" "w' = w\<lparr>tw_gateway := g, tw_db := (tw_db w)\<lparr>db_users := us, db_servers := sv\<rparr>\<rparr>"
  using assms
proof cases
  case (runs now p tool raw ctx r)
  then show ?thesis by (intro effect run_tool_effect)
next
  case (approves now p pid h ctx r)
  then show ?thesis by (intro effect approve_effect)
next
  case (rejects now p pid why ctx r)
  then show ?thesis by (intro effect reject_effect)
next
  case (outside us g sv)
  then show ?thesis by (intro other)
qed

lemma step_inv:
  assumes "exec_step d w w'" "approvals_inv d w"
  shows "approvals_inv d w'"
  using assms(1)
proof (cases rule: step_effect)
  case effect
  with assms(2) show ?thesis
    using effect_pending_ok effect_vpn_ok effect_log_ok effect_users by (metis approvals_inv_def)
next
  case (other g us sv)
  with assms(2) show ?thesis
    by (simp add: approvals_inv_def pending_ok_def vpn_ok_def log_ok_def approved_profile_def executed_pending_def executions_def)
qed

lemma init_inv: "exec_init w \<Longrightarrow> approvals_inv d w"
  by (simp add: exec_init_def approvals_inv_def pending_ok_def vpn_ok_def log_ok_def executed_pending_def executions_def
      empty_log_def verify_chain_def)

end
