(* ===== verification/Transitions.thy ===== *)
theory Transitions
  imports Main
begin

text \<open>
  Interfaces for the parts of the program that run as sequences of steps: an invariant that initial states
  have and steps keep, and a simulation of the steps by those of an abstract specification.
\<close>

locale invariant_system =
  fixes init :: "'s \<Rightarrow> bool" and step :: "'s \<Rightarrow> 's \<Rightarrow> bool" and inv :: "'s \<Rightarrow> bool"
  assumes init_inv: "init s \<Longrightarrow> inv s"
    and step_inv: "step s s' \<Longrightarrow> inv s \<Longrightarrow> inv s'"
begin

lemma steps_inv: "rtranclp step s s' \<Longrightarrow> inv s \<Longrightarrow> inv s'"
  by (induction rule: rtranclp.induct) (auto intro: step_inv)

lemma run_inv: "init s \<Longrightarrow> rtranclp step s s' \<Longrightarrow> inv s'"
  by (blast intro: steps_inv init_inv)

end

locale simulation = invariant_system +
  fixes astep :: "'a \<Rightarrow> 'a \<Rightarrow> bool" and abs_of :: "'s \<Rightarrow> 'a"
  assumes step_sim: "step s s' \<Longrightarrow> inv s \<Longrightarrow> abs_of s' = abs_of s \<or> astep (abs_of s) (abs_of s')"
begin

lemma steps_sim: "rtranclp step s s' \<Longrightarrow> inv s \<Longrightarrow> rtranclp astep (abs_of s) (abs_of s')"
proof (induction rule: rtranclp.induct)
  case (rtrancl_into_rtrancl a b c)
  from rtrancl_into_rtrancl.hyps(1) rtrancl_into_rtrancl.prems have "inv b" by (rule steps_inv)
  from step_sim [OF rtrancl_into_rtrancl.hyps(2) this] rtrancl_into_rtrancl.IH [OF rtrancl_into_rtrancl.prems]
  show ?case by (metis rtranclp.rtrancl_into_rtrancl)
qed simp

lemma run_sim: "init s \<Longrightarrow> rtranclp step s s' \<Longrightarrow> rtranclp astep (abs_of s) (abs_of s')"
  by (blast intro: steps_sim init_inv)

end

end
