(* ===== verification/ExecutorProps.thy ===== *)
theory ExecutorProps
  imports Approvals Transitions
begin

text \<open>
  The properties of the tool executor: approvals as a refinement of a small specification, four-eyes and
  exactly-once execution over any run, audit of every outcome, tickets, and what an action hash pins.
\<close>

section \<open>The approval protocol\<close>

text \<open>The specification: an action is requested once, and an open action is either closed or approved by
  somebody other than its requester; nothing else ever happens to it.\<close>

datatype approval = Requested string | Withdrawn | Approved string string

inductive approval_step :: "(string \<Rightarrow> approval option) \<Rightarrow> (string \<Rightarrow> approval option) \<Rightarrow> bool" where
  request: "approval_step m (m(p \<mapsto> Requested r))" if "m p = None"
| close: "approval_step m (m(p \<mapsto> Withdrawn))" if "m p = Some (Requested r)"
| approve: "approval_step m (m(p \<mapsto> Approved r a))" if "m p = Some (Requested r)" "a \<noteq> r"

definition approval_of :: "pending_action \<Rightarrow> approval" where
  "approval_of pa =
     (if pa_status pa = ''pending'' then Requested (pa_requester_id pa)
      else if pa_status pa = ''executed''
      then (case pa_approver_id pa of Some a \<Rightarrow> Approved (pa_requester_id pa) a | None \<Rightarrow> Withdrawn)
      else Withdrawn)"

definition approvals :: "tool_world \<Rightarrow> string \<Rightarrow> approval option" where
  "approvals w pid = map_option approval_of (dict_get (db_pending (tw_db w)) pid)"

lemma approvals_put:
  "db_pending (tw_db w') = dict_put k pa (db_pending (tw_db w)) \<Longrightarrow> approvals w' = (approvals w)(k \<mapsto> approval_of pa)"
  by (rule ext) (simp add: approvals_def)

lemma approvals_same: "db_pending (tw_db w') = db_pending (tw_db w) \<Longrightarrow> approvals w' = approvals w"
  by (rule ext) (simp add: approvals_def)

lemma effect_sim:
  assumes "db_effect d (tw_db w) (tw_db w')" "pending_ok d (tw_db w)"
  shows "approvals w' = approvals w \<or> approval_step (approvals w) (approvals w')"
  using assms(1)
proof cases
  case unchanged
  then have "approvals w' = approvals w" by (intro approvals_same) simp
  then show ?thesis ..
next
  case (quiet e)
  from approvals_same [OF quiet(3)] show ?thesis ..
next
  case (proposed pa e)
  have "approvals w (pa_id pa) = None" using proposed(3) by (simp add: approvals_def)
  from request [of "approvals w", OF this, of "pa_requester_id pa"] proposed(4) show ?thesis
    by (simp add: approvals_put [OF proposed(7)] approval_of_def)
next
  case (decided pid pa s a t e)
  have "pa_id pa = pid" using decided(3) assms(2) by (auto simp: pending_ok_def)
  then have "approvals w (pa_id pa) = Some (Requested (pa_requester_id pa))"
    using decided(3,4) by (simp add: approvals_def approval_of_def)
  from close [of "approvals w", OF this] decided(5) show ?thesis
    by (auto simp add: approvals_put [OF decided(6)] approval_of_def closed_status_def)
next
  case (performed pid pa a r t e)
  have "pa_id pa = pid" using performed(2) assms(2) by (auto simp: pending_ok_def)
  then have "approvals w (pa_id pa) = Some (Requested (pa_requester_id pa))"
    using performed(2,3) by (simp add: approvals_def approval_of_def)
  from approve [of "approvals w", OF this performed(4)] show ?thesis
    by (simp add: approvals_put [OF performed(5)] approval_of_def)
qed

interpretation executor: simulation exec_init "exec_step d" "approvals_inv d" approval_step approvals
proof
  show "exec_init w \<Longrightarrow> approvals_inv d w" for w by (rule init_inv)
  show "exec_step d w w' \<Longrightarrow> approvals_inv d w \<Longrightarrow> approvals_inv d w'" for w w' by (rule step_inv)
  fix w w' assume st: "exec_step d w w'" and inv: "approvals_inv d w"
  from st show "approvals w' = approvals w \<or> approval_step (approvals w) (approvals w')"
  proof (cases rule: step_effect)
    case effect
    with inv show ?thesis by (auto simp: approvals_inv_def dest: effect_sim)
  next
    case (other g us sv)
    then show ?thesis by (intro disjI1 approvals_same) simp
  qed
qed

lemma done_final: "rtranclp approval_step m m' \<Longrightarrow> m p = Some (Approved r a) \<Longrightarrow> m' p = Some (Approved r a)"
  by (induction rule: rtranclp.induct) (auto elim!: approval_step.cases)

lemma closed_final: "rtranclp approval_step m m' \<Longrightarrow> m p = Some Withdrawn \<Longrightarrow> m' p = Some Withdrawn"
  by (induction rule: rtranclp.induct) (auto elim!: approval_step.cases)


section \<open>Properties\<close>

text \<open>C4: The executor refines the approval protocol: over any run (calls by anybody, at any time, with users and
  permissions changing in between) what happens to pending actions is a run of the specification, in which
  an action is requested once, closed or approved by somebody else, and then final.\<close>

theorem approvals_refine:
  assumes "exec_init w0" "rtranclp (exec_step d) w0 w" "rtranclp (exec_step d) w w'"
  shows "rtranclp approval_step (\<lambda>_. None) (approvals w)
    \<and> rtranclp approval_step (approvals w) (approvals w')
    \<and> (\<forall>pid r a. approvals w pid = Some (Approved r a) \<longrightarrow> approvals w' pid = Some (Approved r a))"
proof (intro conjI allI impI)
  have "approvals w0 = (\<lambda>_. None)"
    using assms(1) by (auto simp: approvals_def exec_init_def)
  with executor.run_sim [OF assms(1,2)] show "rtranclp approval_step (\<lambda>_. None) (approvals w)" by simp
  show run: "rtranclp approval_step (approvals w) (approvals w')"
    by (rule executor.steps_sim [OF assms(3) executor.run_inv [OF assms(1,2)]])
  show "approvals w' pid = Some (Approved r a)" if "approvals w pid = Some (Approved r a)" for pid r a
    by (rule done_final [OF run that])
qed

text \<open>C2: Separation of duties, over any run: every VPN profile in the database was created by one executed pending
  action, requested by the profile's requester and approved by a different person, and no two profiles
  share a pending action.\<close>

theorem vpn_four_eyes:
  assumes "exec_init w0" "rtranclp (exec_step d) w0 w"
  shows "list_all (\<lambda>kv. approved_profile (tw_db w) (snd kv)) (db_vpn (tw_db w))
    \<and> distinct (map (\<lambda>kv. vp_pending_action_id (snd kv)) (db_vpn (tw_db w)))"
  using executor.run_inv [OF assms] by (simp add: approvals_inv_def vpn_ok_def)


text \<open>The checks a call that executes has passed, and the call it then is.\<close>

lemma approved_execution:
  assumes "approve_pending d now p pid h ctx w = (Finished out, w')" "executed out"
  obtains pa rq s args where "dict_get (db_pending (tw_db w)) pid = Some pa" "pa_status pa = ''pending''"
    "now \<le> pa_expires_at pa" "has_perm p (pa_approve_permission pa)" "p_user_id p \<noteq> pa_requester_id pa" "h = pa_action_hash pa"
    "tool_spec_of (pa_tool pa) = Some s" "principal_of (db_users (tw_db w)) (pa_requester_id pa) = Some rq" "authorize rq s = None"
    "model_validate (td_lax d) (ts_args_model s) (pa_arguments pa) = Some args"
    "execute_approved d now p pa rq args ctx w = (Finished out, w')"
proof -
  note defs = approve_pending_def Let_def executed_def outcome_def rolled_back_def
  obtain pa where pa: "dict_get (db_pending (tw_db w)) pid = Some pa"
    using assms by (cases "dict_get (db_pending (tw_db w)) pid") (auto simp: defs)
  have g: "pa_status pa = ''pending'' \<and> \<not> pa_expires_at pa < now \<and> has_perm p (pa_approve_permission pa)
      \<and> p_user_id p \<noteq> pa_requester_id pa \<and> h = pa_action_hash pa"
    using assms pa by (auto simp: defs split: if_splits)
  obtain s where s: "tool_spec_of (pa_tool pa) = Some s"
    using assms pa g by (cases "tool_spec_of (pa_tool pa)") (auto simp: defs)
  obtain rq where rq: "principal_of (db_users (tw_db w)) (pa_requester_id pa) = Some rq"
    using assms pa g s by (cases "principal_of (db_users (tw_db w)) (pa_requester_id pa)") (auto simp: defs)
  have auth: "authorize rq s = None"
    using assms pa g s rq by (auto simp: defs split: if_splits)
  obtain args where args: "model_validate (td_lax d) (ts_args_model s) (pa_arguments pa) = Some args"
    using assms pa g s rq auth by (cases "model_validate (td_lax d) (ts_args_model s) (pa_arguments pa)") (auto simp: defs)
  with assms pa g s rq auth have "execute_approved d now p pa rq args ctx w = (Finished out, w')"
    by (simp add: approve_pending_def Let_def)
  with pa g s rq auth args show thesis by (intro that) auto
qed

text \<open>What one approval needs: it executes only if the action is pending and not expired, the approver holds its
  approve permission, is not the requester and confirmed its hash, and the requester is still active and
  holds the tool's permission; it then leaves the action executed by that approver.\<close>

theorem approval_requires:
  assumes "approve_pending d now p pid h ctx w = (Finished out, w')" "executed out"
  shows "\<exists>pa requester s. dict_get (db_pending (tw_db w)) pid = Some pa \<and> pa_status pa = ''pending''
    \<and> now \<le> pa_expires_at pa \<and> has_perm p (pa_approve_permission pa) \<and> p_user_id p \<noteq> pa_requester_id pa
    \<and> h = pa_action_hash pa \<and> tool_spec_of (pa_tool pa) = Some s
    \<and> principal_of (db_users (tw_db w)) (pa_requester_id pa) = Some requester \<and> authorize requester s = None
    \<and> (\<exists>pa'. dict_get (db_pending (tw_db w')) (pa_id pa) = Some pa' \<and> pa_status pa' = ''executed''
          \<and> pa_approver_id pa' = Some (p_user_id p))"
proof (rule approved_execution [OF assms])
  fix pa rq s args
  assume ex: "execute_approved d now p pa rq args ctx w = (Finished out, w')"
    and facts: "dict_get (db_pending (tw_db w)) pid = Some pa" "pa_status pa = ''pending''" "now \<le> pa_expires_at pa"
      "has_perm p (pa_approve_permission pa)" "p_user_id p \<noteq> pa_requester_id pa" "h = pa_action_hash pa"
      "tool_spec_of (pa_tool pa) = Some s" "principal_of (db_users (tw_db w)) (pa_requester_id pa) = Some rq" "authorize rq s = None"
  have "\<exists>pa'. dict_get (db_pending (tw_db w')) (pa_id pa) = Some pa' \<and> pa_status pa' = ''executed''
      \<and> pa_approver_id pa' = Some (p_user_id p)"
    using ex assms(2)
    by (auto simp: execute_approved_def Let_def executed_def outcome_def rolled_back_def
        split: prod.splits handler_result.splits sum.splits if_splits)
  with facts show ?thesis by blast
qed

section \<open>Audit of every outcome\<close>

fun request_decisions :: "tool_status \<Rightarrow> audit_decision list" where
  "request_decisions StatusOk = [DExecuted]"
| "request_decisions StatusDenied = [DDeny]"
| "request_decisions StatusPending = [DPending]"
| "request_decisions StatusError = [DDeny, DError]"

definition audited :: "tool_deps \<Rightarrow> int \<Rightarrow> principal \<Rightarrow> string \<Rightarrow> audit_decision list \<Rightarrow> tool_world \<Rightarrow> tool_world \<Rightarrow> bool" where
  "audited d now p event decs w w' \<longleftrightarrow>
     (\<exists>e. db_audit (tw_db w') = audit_append (td_sha d) now e (db_audit (tw_db w))
        \<and> ae_actor_id e = p_user_id p \<and> ae_event e = event \<and> ae_decision e \<in> set decs)"

lemma audited_append:
  assumes "db_audit (tw_db w1) = db_audit (tw_db w)" "ae_actor_id e = p_user_id p" "ae_event e = event" "ae_decision e \<in> set decs"
  shows "audited d now p event decs w (append_audit d now e w1)"
  unfolding audited_def by (intro exI [of _ e]) (use assms in simp)

lemma outcome_sel [simp]: "to_status (outcome s t m) = s" "to_tool (outcome s t m) = t" "to_message (outcome s t m) = m"
  by (simp_all add: outcome_def)

lemma execute_now_audited:
  assumes "execute_now d now p tool args ctx w = (r, w')"
  shows "case r of Escaped x \<Rightarrow> tw_db w' = tw_db w
    | Finished out \<Rightarrow> audited d now p ''tool_call'' (request_decisions (to_status out)) w w'"
proof -
  obtain h w1 where h: "run_handler d now tool p args ctx w = (h, w1)"
    by fastforce
  from handler_frame [OF h] have "db_audit (tw_db w1) = db_audit (tw_db w)" by blast
  with assms h show ?thesis
    by (cases h) (auto simp: execute_now_def Let_def rolled_back_def intro!: audited_append)
qed

lemma run_tool_vpn:
  assumes "run_tool d now p tool raw ctx w = (r, w')"
  shows "db_vpn (tw_db w') = db_vpn (tw_db w)"
proof -
  have ex: "db_vpn (tw_db w') = db_vpn (tw_db w)"
    if "execute_now d now p tool args ctx w = (r, w')" "tool \<noteq> ''create_vpn_profile''" for args
  proof -
    obtain h w1 where h: "run_handler d now tool p args ctx w = (h, w1)" by fastforce
    from handler_frame [OF h] that(2) have "db_vpn (tw_db w1) = db_vpn (tw_db w)" by blast
    with that(1) h show ?thesis by (cases h) (auto simp: execute_now_def Let_def rolled_back_def)
  qed
  have pr: "db_vpn (tw_db w') = db_vpn (tw_db w)" if "propose d now p s args ctx w = (r, w')" for s args
    using that by (auto simp: propose_def Let_def rolled_back_def split: if_splits)
  show ?thesis
    using assms ex pr spec_sensitive [of tool]
    by (auto simp: run_tool_def Let_def split: option.splits if_splits)
qed

text \<open>C22: Every outcome of a tool call is audited: a call that returns has appended exactly one record, by the
  caller, with the decision that matches the outcome, and has not created a VPN profile; a call that an
  exception leaves has changed no table.\<close>

theorem run_tool_audited:
  "case run_tool d now p tool raw ctx w of (r, w') \<Rightarrow>
     (case r of
        Escaped x \<Rightarrow> tw_db w' = tw_db w
      | Finished out \<Rightarrow>
          audited d now p ''tool_call'' (request_decisions (to_status out)) w w' \<and> db_vpn (tw_db w') = db_vpn (tw_db w))"
proof -
  obtain r w' where run: "run_tool d now p tool raw ctx w = (r, w')" by fastforce
  have aud: "case r of Escaped x \<Rightarrow> tw_db w' = tw_db w
    | Finished out \<Rightarrow> audited d now p ''tool_call'' (request_decisions (to_status out)) w w'"
  proof (cases "tool_spec_of tool")
    case None
    with run show ?thesis by (auto simp: run_tool_def intro!: audited_append)
  next
    case (Some s)
    show ?thesis
    proof (cases "model_validate (td_lax d) (ts_args_model s) raw")
      case None
      with run Some show ?thesis by (auto simp: run_tool_def Let_def intro!: audited_append)
    next
      case args: (Some args)
      show ?thesis
      proof (cases "authorize p s")
        case None
        with run Some args have "(if ts_sensitive s then propose d now p s args ctx w else execute_now d now p tool args ctx w) = (r, w')"
          by (simp add: run_tool_def)
        then show ?thesis
          using execute_now_audited
          by (auto simp: propose_def Let_def rolled_back_def split: if_splits intro!: audited_append)
      next
        case (Some why)
        with run \<open>tool_spec_of tool = Some s\<close> args show ?thesis
          by (auto simp: run_tool_def intro!: audited_append)
      qed
    qed
  qed
  have "db_vpn (tw_db w') = db_vpn (tw_db w)"
    using run_tool_vpn [OF run] .
  with run aud show ?thesis by (auto split: call_result.splits)
qed

fun approval_decisions :: "tool_status \<Rightarrow> audit_decision list" where
  "approval_decisions StatusOk = [DExecuted]"
| "approval_decisions StatusDenied = [DDeny]"
| "approval_decisions StatusError = [DError]"
| "approval_decisions StatusPending = []"

lemma execute_approved_audited:
  assumes "execute_approved d now approver pa requester args ctx w = (r, w')"
  shows "case r of Escaped x \<Rightarrow> tw_db w' = tw_db w
    | Finished out \<Rightarrow> audited d now approver ''approval'' (approval_decisions (to_status out)) w w'"
proof -
  obtain h w1 where h: "run_handler d now (pa_tool pa) requester args ctx w = (h, w1)"
    by fastforce
  from handler_frame [OF h] have a: "db_audit (tw_db w1) = db_audit (tw_db w)" by blast
  have st: "db_audit (tw_db w2) = db_audit (tw_db w1)" if "stamp_profile approver pa result w1 = Inr w2" for result w2
    using that by (auto simp: stamp_profile_def Let_def split: option.splits if_splits)
  show ?thesis
  proof (cases h)
    case (HOk result)
    show ?thesis
    proof (cases "if pa_tool pa = ''create_vpn_profile'' then stamp_profile approver pa result w1 else Inr w1")
      case (Inl x)
      with assms h HOk show ?thesis by (auto simp: execute_approved_def Let_def rolled_back_def split: if_splits)
    next
      case (Inr w2)
      then have "db_audit (tw_db w2) = db_audit (tw_db w)"
        using st a by (auto split: if_splits)
      with assms h HOk Inr show ?thesis
        by (auto simp: execute_approved_def Let_def split del: if_split intro!: audited_append)
    qed
  qed (use assms h a in \<open>auto simp: execute_approved_def Let_def rolled_back_def intro!: audited_append\<close>)
qed

text \<open>Every approval attempt is audited the same way, whatever its outcome; a rejection is audited only if it
  takes effect: an attempt to decide somebody else's action without the permission leaves no record.\<close>

theorem decisions_audited:
  "(case approve_pending d now p pid h ctx w of (r, w') \<Rightarrow>
      (case r of
         Escaped x \<Rightarrow> tw_db w' = tw_db w
       | Finished out \<Rightarrow> audited d now p ''approval'' (approval_decisions (to_status out)) w w'))
   \<and> (case reject_pending d now p pid why ctx w of (r, w') \<Rightarrow>
        if r = Finished (outcome StatusDenied (case dict_get (db_pending (tw_db w)) pid of None \<Rightarrow> [] | Some pa \<Rightarrow> pa_tool pa)
                ''Action rejected.'')
        then audited d now p ''approval'' [DDeny] w w' else w' = w)"
proof
  obtain r w' where ap: "approve_pending d now p pid h ctx w = (r, w')" by fastforce
  have "case r of Escaped x \<Rightarrow> tw_db w' = tw_db w
    | Finished out \<Rightarrow> audited d now p ''approval'' (approval_decisions (to_status out)) w w'"
  proof (cases "dict_get (db_pending (tw_db w)) pid")
    case None
    with ap show ?thesis by (auto simp: approve_pending_def Let_def intro!: audited_append)
  next
    case (Some pa)
    note defs = approve_pending_def Let_def Some
    show ?thesis
    proof (cases "pa_status pa = ''pending'' \<and> \<not> pa_expires_at pa < now \<and> has_perm p (pa_approve_permission pa)
        \<and> p_user_id p \<noteq> pa_requester_id pa \<and> h = pa_action_hash pa")
      case False
      with ap show ?thesis by (auto simp: defs split: if_splits intro!: audited_append)
    next
      case g: True
      show ?thesis
      proof (cases "\<exists>s rq args. tool_spec_of (pa_tool pa) = Some s \<and> principal_of (db_users (tw_db w)) (pa_requester_id pa) = Some rq
          \<and> authorize rq s = None \<and> model_validate (td_lax d) (ts_args_model s) (pa_arguments pa) = Some args")
        case True
        then obtain s rq args where "tool_spec_of (pa_tool pa) = Some s" "principal_of (db_users (tw_db w)) (pa_requester_id pa) = Some rq"
          "authorize rq s = None" "model_validate (td_lax d) (ts_args_model s) (pa_arguments pa) = Some args" by blast
        with ap g have "execute_approved d now p pa rq args ctx w = (r, w')" by (simp add: defs)
        then show ?thesis by (rule execute_approved_audited)
      next
        case False
        with ap g show ?thesis
          by (auto simp: defs rolled_back_def split: option.splits if_splits intro!: audited_append)
      qed
    qed
  qed
  with ap show "case approve_pending d now p pid h ctx w of (r, w') \<Rightarrow>
      (case r of
         Escaped x \<Rightarrow> tw_db w' = tw_db w
       | Finished out \<Rightarrow> audited d now p ''approval'' (approval_decisions (to_status out)) w w')" by simp
next
  show "case reject_pending d now p pid why ctx w of (r, w') \<Rightarrow>
        if r = Finished (outcome StatusDenied (case dict_get (db_pending (tw_db w)) pid of None \<Rightarrow> [] | Some pa \<Rightarrow> pa_tool pa)
                ''Action rejected.'')
        then audited d now p ''approval'' [DDeny] w w' else w' = w"
    by (auto simp: reject_pending_def outcome_def split: option.splits intro!: audited_append)
qed

section \<open>Tickets, records and hashes\<close>

definition ticket_id_in :: "json \<Rightarrow> string option" where
  "ticket_id_in j = (case j of JObj kvs \<Rightarrow> (case jget kvs ''ticket_id'' of Some (JStr s) \<Rightarrow> Some s | _ \<Rightarrow> None) | _ \<Rightarrow> None)"

lemma inserted_ticket:
  assumes "insert_ticket t w = (HOk j, w')"
  shows "db_tickets (tw_db w') = db_tickets (tw_db w) @ [(tk_id t, t)]" "ticket_id_in j = Some (tk_id t)"
    "\<not> dict_has (db_tickets (tw_db w)) (tk_id t)" "ticket_by_key (tw_db w) (tk_idempotency_key t) = None"
proof -
  from assms have g: "\<not> dict_has (db_tickets (tw_db w)) (tk_id t)" "ticket_by_key (tw_db w) (tk_idempotency_key t) = None"
    and w': "w' = w\<lparr>tw_db := (tw_db w)\<lparr>db_tickets := dict_put (tk_id t) t (db_tickets (tw_db w))\<rparr>\<rparr>"
    and j: "j = JObj [(''ticket_id'', JStr (tk_id t)), (''title'', JStr (tk_title t)), (''severity'', JStr (tk_severity t)),
                       (''status'', JStr (tk_status t)), (''details'', JStr (tk_details t))]"
    by (auto simp: insert_ticket_def Let_def split: if_splits)
  have put: "dict_put k v xs = xs @ [(k, v)]" if "\<not> dict_has xs k" for xs and k and v :: ticket
    using that by (rule put_new_append)
  show "db_tickets (tw_db w') = db_tickets (tw_db w) @ [(tk_id t, t)]"
    using put [OF g(1)] by (simp add: w')
  show "ticket_id_in j = Some (tk_id t)"
    by (simp add: ticket_id_in_def j jget_def)
  show "\<not> dict_has (db_tickets (tw_db w)) (tk_id t)" "ticket_by_key (tw_db w) (tk_idempotency_key t) = None"
    by (rule g)+
qed

text \<open>Ticket idempotency: repeating a request within ten minutes of the first one returns the first ticket and
  stores nothing, whatever else happened to the rest of the world in between.\<close>

theorem ticket_idempotent:
  assumes "ticket_by_key (tw_db w) (ticket_key (td_sha d) p t s e) = None"
    and "create_support_ticket d now p t s e ctx w = (HOk j, w1)"
    and "db_tickets (tw_db w2) = db_tickets (tw_db w1)" "now2 - now < TICKET_IDEMPOTENCY_WINDOW"
  shows "snd (create_support_ticket d now2 p t s e ctx2 w2) = w2
    \<and> (\<exists>j2. fst (create_support_ticket d now2 p t s e ctx2 w2) = HOk j2 \<and> ticket_id_in j2 = ticket_id_in j)"
proof -
  define k where "k = ticket_key (td_sha d) p t s e"
  obtain tk v where tk: "insert_ticket tk v = (HOk j, w1)" and v: "tw_db v = tw_db w"
    and k': "tk_idempotency_key tk = k" "tk_created_at tk = now"
    using assms(1,2) by (auto simp: create_support_ticket_def Let_def k_def)
  note ins = inserted_ticket [OF tk]
  have "ticket_by_key (tw_db w2) k = Some tk"
    using assms(1,3) ins(1) v k'(1) by (simp add: ticket_by_key_def find_append k_def)
  then have "create_support_ticket d now2 p t s e ctx2 w2 =
      (HOk (JObj [(''ticket_id'', JStr (tk_id tk)), (''status'', JStr (tk_status tk)), (''duplicate'', JBool True)]), w2)"
    using assms(4) k'(2) by (simp add: create_support_ticket_def Let_def k_def [symmetric])
  with ins(2) show ?thesis
    by (simp add: ticket_id_in_def jget_def)
qed

text \<open>Idempotency ends with the first ticket: once a ticket of a request is older than ten minutes, every
  further submission of that request that succeeds opens a new ticket, even one a second after another,
  because the lookup keeps finding the oldest ticket and never those stored under a suffixed key.\<close>

theorem stale_ticket_duplicates:
  assumes "ticket_by_key (tw_db w) (ticket_key (td_sha d) p t s e) = Some old" "TICKET_IDEMPOTENCY_WINDOW \<le> now - tk_created_at old"
    and "create_support_ticket d now p t s e ctx w = (HOk j1, w1)" "now \<le> now2"
    and "create_support_ticket d now2 p t s e ctx w1 = (HOk j2, w2)"
  shows "length (db_tickets (tw_db w2)) = length (db_tickets (tw_db w)) + 2 \<and> ticket_id_in j1 \<noteq> ticket_id_in j2"
proof -
  define k where "k = ticket_key (td_sha d) p t s e"
  have stale: "\<exists>tk v. insert_ticket tk v = (HOk j, w') \<and> tw_db v = tw_db w"
    if "create_support_ticket d n p t s e ctx w = (HOk j, w')" "now \<le> n" "ticket_by_key (tw_db w) k = Some old" for n w j w'
  proof -
    have "insert_ticket \<lparr>tk_id = ''INC-'' @ nat_str (tw_ticket_seq w), tk_title = t, tk_severity = s,
        tk_details = with_provenance e (tc_user_message ctx), tk_status = ''open'', tk_created_by = p_user_id p,
        tk_idempotency_key = k @ '':'' @ take 8 (filter (\<lambda>c. c \<noteq> CHR ''-'') (td_uuid d (tw_uuids w))), tk_created_at = n\<rparr>
        (w\<lparr>tw_uuids := tw_uuids w + 1, tw_ticket_seq := tw_ticket_seq w + 1\<rparr>) = (HOk j, w')"
      using that assms(2) by (simp add: create_support_ticket_def Let_def k_def [symmetric])
    then show ?thesis by (intro exI conjI) (assumption, simp)
  qed
  obtain t1 v1 where t1: "insert_ticket t1 v1 = (HOk j1, w1)" "tw_db v1 = tw_db w"
    using stale [OF assms(3)] assms(1) by (auto simp: k_def)
  have old: "ticket_by_key (tw_db w1) k = Some old"
    using inserted_ticket(1) [OF t1(1)] t1(2) assms(1) by (simp add: ticket_by_key_def find_append k_def)
  obtain t2 v2 where t2: "insert_ticket t2 v2 = (HOk j2, w2)" "tw_db v2 = tw_db w1"
    using stale [OF assms(5,4) old] by auto
  have "dict_has (db_tickets (tw_db w1)) (tk_id t1)"
    using inserted_ticket(1) [OF t1(1)] by (simp add: dict_has_iff dict_keys_def)
  then have "tk_id t2 \<noteq> tk_id t1"
    using inserted_ticket(3) [OF t2(1)] t2(2) by auto
  then show ?thesis
    using inserted_ticket(1,2) [OF t1(1)] inserted_ticket(1,2) [OF t2(1)] t1(2) t2(2) by simp
qed

text \<open>Record- and field-level policy: a ticket is shown only to the person who raised it or to that person's
  department, reading changes nothing, and a server's utilisation only to its owner and to IT Operations.\<close>

theorem record_policies:
  "(case get_support_ticket p tid w of (r, w') \<Rightarrow> w' = w \<and>
      (case r of
         HOk j \<Rightarrow> \<exists>t. dict_get (db_tickets (tw_db w)) tid = Some t
           \<and> (tk_created_by t = p_user_id p
              \<or> (\<exists>u. dict_get (db_users (tw_db w)) (tk_created_by t) = Some u \<and> u_department u = p_department p))
       | _ \<Rightarrow> True))
   \<and> (jget (visible_server_fields p sv) ''cpu_pct'' \<noteq> None
        \<longleftrightarrow> p_department p = sv_owner_department sv \<or> p_department p = ''it_ops'')
   \<and> (jget (visible_server_fields p sv) ''memory_pct'' \<noteq> None
        \<longleftrightarrow> p_department p = sv_owner_department sv \<or> p_department p = ''it_ops'')"
  by (auto simp: get_support_ticket_def visible_server_fields_def Let_def jget_def split: option.splits if_splits)

lemma dump_args_wf: "json_wf (JObj (dump_args a))"
  by (cases a) (auto simp: opt_str_def split: option.splits)

lemma dump_args_flat: "(\<lambda>(k, v). (k, canon v)) ` set (dump_args a) = set (dump_args a)"
  by (cases a) simp_all

lemma dump_args_inject:
  assumes "set (dump_args a) = set (dump_args b)"
  shows "a = b"
proof -
  have m: "jget (dump_args a) k = jget (dump_args b) k" for k
    unfolding jget_def by (rule map_of_inject_set [THEN iffD2, THEN fun_cong, OF _ _ assms]) (cases a; simp; fail | cases b; simp)+
  show ?thesis
    using m [of "''query''"] m [of "''department''"] m [of "''server_id''"] m [of "''title''"] m [of "''severity''"]
      m [of "''details''"] m [of "''ticket_id''"] m [of "''employee_id''"] m [of "''employee_name''"] m [of "''duration_days''"]
    by (cases a; cases b) simp_all
qed

lemma canon_obj_set:
  assumes "canon (JObj xs) = canon (JObj ys)"
  shows "(\<lambda>(k, v). (k, canon v)) ` set xs = (\<lambda>(k, v). (k, canon v)) ` set ys"
proof -
  let ?f = "\<lambda>(k, v). (k, canon v)"
  from assms have "sort_key fst (map ?f xs) = sort_key fst (map ?f ys)" by simp
  from arg_cong [OF this, of set] show ?thesis by (simp only: set_sort set_map)
qed

text \<open>An action hash pins the action: equal hashes of validated arguments mean the same tool, arguments and
  requester, or a SHA-256 collision is at hand.\<close>

theorem action_hash_pins:
  assumes "action_hash sha t (dump_args a) u = action_hash sha t' (dump_args a') u'"
  shows "(t = t' \<and> a = a' \<and> u = u') \<or> (\<exists>x y. x \<noteq> y \<and> sha x = sha y)"
proof (rule disjCI)
  assume "\<not> (\<exists>x y. x \<noteq> y \<and> sha x = sha y)"
  define f where "f t a u = [(''tool'', JStr t), (''arguments'', JObj (dump_args a)), (''requester'', JStr u)]" for t a u
  have "json_wf (JObj (f t a u))" for t a u
    using dump_args_wf [of a] by (simp add: f_def)
  moreover have "dumps_compact (JObj (f t a u)) = dumps_compact (JObj (f t' a' u'))"
    using assms \<open>\<not> _\<close> by (auto simp: action_hash_def f_def)
  ultimately have c: "canon (JObj (f t a u)) = canon (JObj (f t' a' u'))"
    by (intro dumps_compact_inject)
  have d: "distinct (map fst (f t' a' u'))" by (simp add: f_def)
  note field = canon_field [OF c d]
  have "canon (JStr t) = canon (JStr t')" by (rule field [of "''tool''"]) (simp_all add: f_def)
  moreover have "canon (JStr u) = canon (JStr u')" by (rule field [of "''requester''"]) (simp_all add: f_def)
  moreover have "canon (JObj (dump_args a)) = canon (JObj (dump_args a'))"
    by (rule field [of "''arguments''"]) (simp_all add: f_def)
  from canon_obj_set [OF this] have "set (dump_args a) = set (dump_args a')"
    by (simp only: dump_args_flat)
  ultimately show "t = t' \<and> a = a' \<and> u = u'"
    using dump_args_inject by simp
qed

section \<open>A concrete run\<close>

definition demo_deps :: tool_deps where
  "demo_deps =
     \<lparr>td_sha = (\<lambda>x. x), td_lax = demo_lax, td_explain = (\<lambda>_ _. ''invalid''), td_uuid = nat_str,
      td_gateway = \<lparr>gw_catalog = demo_catalog, gw_providers = [], gw_backoff = default_backoff, gw_request_deadline_s = 120,
        gw_stream_deadline_s = 300, gw_stream_idle_timeout_s = 30\<rparr>,
      td_rnd = (\<lambda>_. 0), td_ask = (\<lambda>_ _ _ _. (0, Cancelled)), td_index = demo_engine,
      td_settings = default_settings, td_knowledge = demo_kb\<rparr>"

definition staff_row :: "string \<Rightarrow> string \<Rightarrow> user" where
  "staff_row i perm = \<lparr>u_id = i, u_name = i, u_department = ''it_ops'', u_role = ''employee'', u_permissions = [perm], u_is_active = True\<rparr>"

definition staff :: "string \<Rightarrow> string \<Rightarrow> principal" where
  "staff i perm = \<lparr>p_user_id = i, p_name = i, p_department = ''it_ops'', p_role = ''employee'', p_permissions = [perm]\<rparr>"

definition demo_context :: tool_context where
  "demo_context = \<lparr>tc_request_id = ''r'', tc_conversation_id = None, tc_user_message = None\<rparr>"

definition demo_world :: tool_world where
  "demo_world =
     \<lparr>tw_db = \<lparr>db_users = [(''U001'', staff_row ''U001'' ''vpn:create''), (''U002'', staff_row ''U002'' ''vpn:approve'')],
        db_servers = [], db_tickets = [], db_vpn = [], db_pending = [], db_audit = empty_log\<rparr>,
      tw_ticket_seq = 1, tw_vpn_seq = 1, tw_uuids = 0,
      tw_gateway = \<lparr>st_now = 0, st_breakers = new_registry 5 30, st_recorded = [], st_calls = []\<rparr>\<rparr>"

definition demo_args :: tool_args where
  "demo_args = VpnArgs (Some ''U001'') None 30"

definition demo_requested_in :: "tool_context \<Rightarrow> tool_world" where
  "demo_requested_in ctx = snd (run_tool demo_deps 0 (staff ''U001'' ''vpn:create'') ''create_vpn_profile''
     (dump_args demo_args) ctx demo_world)"

abbreviation demo_requested :: tool_world where
  "demo_requested \<equiv> demo_requested_in demo_context"

definition demo_hash :: string where
  "demo_hash = action_hash (\<lambda>x. x) ''create_vpn_profile'' (dump_args demo_args) ''U001''"

definition demo_approved :: tool_world where
  "demo_approved = snd (approve_pending demo_deps 1 (staff ''U002'' ''vpn:approve'') (nat_str 0) demo_hash demo_context demo_requested)"

lemma demo_init: "exec_init demo_world"
  by (simp add: exec_init_def demo_world_def users_keyed_def staff_row_def)

lemma demo_steps: "rtranclp (exec_step demo_deps) demo_world (demo_requested_in ctx)" "rtranclp (exec_step demo_deps) demo_requested demo_approved"
  unfolding demo_requested_in_def demo_approved_def
  by (rule r_into_rtranclp, rule runs, rule surjective_pairing)
    (rule r_into_rtranclp, rule approves, rule surjective_pairing)

lemma demo_valid: "model_validate demo_lax CreateVpnProfileArgs (dump_args demo_args) = Some demo_args"
proof -
  have "args_ok CreateVpnProfileArgs demo_args"
    by (simp add: demo_args_def employee_id_format_def is_digit_def MAX_VPN_DAYS_def)
  from revalidated [OF _ this, of demo_lax] show ?thesis
    by (simp add: demo_lax_def demo_args_def)
qed

lemma demo_spec: "\<exists>s. tool_spec_of ''create_vpn_profile'' = Some s \<and> ts_args_model s = CreateVpnProfileArgs \<and> ts_sensitive s
    \<and> ts_requires_permission s = Some ''vpn:create'' \<and> ts_approve_permission s = Some ''vpn:approve'' \<and> ts_name s = ''create_vpn_profile''"
  by (simp add: tool_spec_of_def tools_def)

lemma demo_requested_db:
  "\<exists>pa. dict_get (db_pending (tw_db (demo_requested_in ctx))) (nat_str 0) = Some pa \<and> pa_id pa = nat_str 0 \<and> pa_status pa = ''pending''
     \<and> pa_expires_at pa = PENDING_TTL \<and> pa_requester_id pa = ''U001'' \<and> pa_tool pa = ''create_vpn_profile''
     \<and> pa_arguments pa = dump_args demo_args \<and> pa_approve_permission pa = ''vpn:approve'' \<and> pa_action_hash pa = demo_hash
     \<and> pa_conversation_id pa = tc_conversation_id ctx
   \<and> db_pending (tw_db (demo_requested_in ctx)) = [(nat_str 0, pa)]
   \<and> db_users (tw_db (demo_requested_in ctx)) = db_users (tw_db demo_world) \<and> db_vpn (tw_db (demo_requested_in ctx)) = []
   \<and> tw_vpn_seq (demo_requested_in ctx) = 1 \<and> tw_uuids (demo_requested_in ctx) = 1"
proof -
  obtain s where s: "tool_spec_of ''create_vpn_profile'' = Some s" "ts_args_model s = CreateVpnProfileArgs" "ts_sensitive s"
    "ts_requires_permission s = Some ''vpn:create''" "ts_approve_permission s = Some ''vpn:approve''" "ts_name s = ''create_vpn_profile''"
    using demo_spec by blast
  have eq: "demo_requested_in ctx = snd (propose demo_deps 0 (staff ''U001'' ''vpn:create'') s demo_args ctx demo_world)"
    using demo_valid s by (simp add: demo_requested_in_def run_tool_def authorize_def has_perm_def staff_def demo_deps_def
        del: dump_args.simps)
  show ?thesis
    unfolding eq using s by (simp add: propose_def Let_def demo_world_def dict_has_def demo_deps_def staff_def demo_hash_def
        append_audit_def put_pending_def del: dump_args.simps)
qed

lemma demo_approves:
  assumes "tw = snd (approve_pending demo_deps 1 (staff ''U002'' ''vpn:approve'') (nat_str 0) demo_hash ctx' (demo_requested_in ctx))"
  shows "\<exists>out. approve_pending demo_deps 1 (staff ''U002'' ''vpn:approve'') (nat_str 0) demo_hash ctx' (demo_requested_in ctx)
      = (Finished out, tw) \<and> executed out \<and> length (db_vpn (tw_db tw)) = 1"
proof -
  obtain pa where pa: "dict_get (db_pending (tw_db (demo_requested_in ctx))) (nat_str 0) = Some pa" "pa_id pa = nat_str 0" "pa_status pa = ''pending''"
     "pa_expires_at pa = PENDING_TTL" "pa_requester_id pa = ''U001''" "pa_tool pa = ''create_vpn_profile''"
     "pa_arguments pa = dump_args demo_args" "pa_approve_permission pa = ''vpn:approve''" "pa_action_hash pa = demo_hash"
   "db_users (tw_db (demo_requested_in ctx)) = db_users (tw_db demo_world)" "db_vpn (tw_db (demo_requested_in ctx)) = []"
   "tw_vpn_seq (demo_requested_in ctx) = 1" "tw_uuids (demo_requested_in ctx) = 1"
    using demo_requested_db by blast
  obtain s where s: "tool_spec_of ''create_vpn_profile'' = Some s" "ts_args_model s = CreateVpnProfileArgs"
    "ts_requires_permission s = Some ''vpn:create''"
    using demo_spec by blast
  let ?p = "staff ''U001'' ''vpn:create''" and ?a = "staff ''U002'' ''vpn:approve''"
  have rq: "principal_of (db_users (tw_db demo_world)) ''U001'' = Some ?p"
    by (simp add: principal_of_def demo_world_def staff_row_def staff_def)
  have eq: "approve_pending demo_deps 1 ?a (nat_str 0) demo_hash ctx' (demo_requested_in ctx)
      = execute_approved demo_deps 1 ?a pa ?p demo_args ctx' (demo_requested_in ctx)"
    using pa rq s demo_valid
    by (simp add: approve_pending_def Let_def PENDING_TTL_def MICRO_def has_perm_def authorize_def
        staff_def demo_deps_def del: dump_args.simps)
  have "dict_get (db_users (tw_db (demo_requested_in ctx))) ''U001'' = Some (staff_row ''U001'' ''vpn:create'')"
    using pa(10) by (simp add: demo_world_def)
  then show ?thesis
    unfolding assms eq using pa by (simp add: executed_def execute_approved_def Let_def run_handler_def demo_args_def create_vpn_profile_def resolve_employee_def
        dict_has_def stamp_profile_def jget_def)
qed

lemmas demo_approval = demo_approves [OF demo_approved_def]

theorem vpn_four_eyes_witness:
  "length (db_vpn (tw_db demo_approved)) = 1
   \<and> list_all (\<lambda>kv. approved_profile (tw_db demo_approved) (snd kv)) (db_vpn (tw_db demo_approved))"
  using demo_approval vpn_four_eyes [OF demo_init rtranclp_trans [OF demo_steps]] by blast


theorem approvals_refine_witness: "rtranclp approval_step (approvals demo_requested) (approvals demo_approved)"
  using approvals_refine [OF demo_init demo_steps] by blast

theorem approval_requires_witness:
  "\<exists>pa. dict_get (db_pending (tw_db demo_approved)) (nat_str 0) = Some pa \<and> pa_status pa = ''executed''
     \<and> pa_approver_id pa = Some ''U002''"
proof -
  obtain out where ap: "approve_pending demo_deps 1 (staff ''U002'' ''vpn:approve'') (nat_str 0) demo_hash demo_context demo_requested
      = (Finished out, demo_approved)" "executed out"
    using demo_approval by blast
  obtain pa where "dict_get (db_pending (tw_db demo_requested)) (nat_str 0) = Some pa" "pa_id pa = nat_str 0"
    using demo_requested_db by blast
  with approval_requires [OF ap] show ?thesis
    by (auto simp: staff_def)
qed

definition demo_ticket_at :: "int \<Rightarrow> tool_world \<Rightarrow> handler_result \<times> tool_world" where
  "demo_ticket_at now = create_support_ticket demo_deps now (staff ''U001'' ''ticket:create'') ''Disk'' ''low'' ''full'' demo_context"

definition demo_key :: string where
  "demo_key = ticket_key (td_sha demo_deps) (staff ''U001'' ''ticket:create'') ''Disk'' ''low'' ''full''"

lemma demo_no_ticket: "ticket_by_key (tw_db demo_world) demo_key = None"
  by (simp add: ticket_by_key_def demo_world_def)

lemma demo_first_ticket:
  "\<exists>j old. demo_ticket_at 0 demo_world = (HOk j, snd (demo_ticket_at 0 demo_world))
     \<and> db_tickets (tw_db (snd (demo_ticket_at 0 demo_world))) = [(''INC-1'', old)]
     \<and> tk_idempotency_key old = demo_key \<and> tk_created_at old = 0
     \<and> tw_ticket_seq (snd (demo_ticket_at 0 demo_world)) = 2 \<and> tw_uuids (snd (demo_ticket_at 0 demo_world)) = 0"
proof -
  have n: "nat_str 1 = ''1''" by code_simp
  show ?thesis
    using demo_no_ticket
    by (simp add: demo_ticket_at_def create_support_ticket_def Let_def demo_key_def [symmetric] insert_ticket_def ticket_by_key_def
        demo_world_def dict_has_def n [simplified])
qed

theorem ticket_idempotent_witness:
  "snd (demo_ticket_at 60000000 (snd (demo_ticket_at 0 demo_world))) = snd (demo_ticket_at 0 demo_world)"
proof -
  obtain j where "demo_ticket_at 0 demo_world = (HOk j, snd (demo_ticket_at 0 demo_world))"
    using demo_first_ticket by blast
  from ticket_idempotent [OF demo_no_ticket [unfolded demo_key_def] this [unfolded demo_ticket_at_def] refl, of 60000000 demo_context]
  show ?thesis
    by (simp add: demo_ticket_at_def TICKET_IDEMPOTENCY_WINDOW_def MICRO_def)
qed

lemma demo_stale:
  assumes "ticket_by_key (tw_db w) demo_key = Some old" "tk_created_at old = 0" "600000000 \<le> now"
    and "list_all (\<lambda>kv. fst kv \<noteq> ''INC-'' @ nat_str (tw_ticket_seq w)
        \<and> tk_idempotency_key (snd kv) \<noteq> demo_key @ '':'' @ take 8 (filter (\<lambda>c. c \<noteq> CHR ''-'') (nat_str (tw_uuids w)))) (db_tickets (tw_db w))"
  obtains j t where "demo_ticket_at now w = (HOk j, snd (demo_ticket_at now w))"
    "db_tickets (tw_db (snd (demo_ticket_at now w))) = db_tickets (tw_db w) @ [(''INC-'' @ nat_str (tw_ticket_seq w), t)]"
    "tk_idempotency_key t = demo_key @ '':'' @ take 8 (filter (\<lambda>c. c \<noteq> CHR ''-'') (nat_str (tw_uuids w)))"
    "tw_ticket_seq (snd (demo_ticket_at now w)) = tw_ticket_seq w + 1" "tw_uuids (snd (demo_ticket_at now w)) = tw_uuids w + 1"
proof -
  have free: "\<not> dict_has (db_tickets (tw_db w)) (''INC-'' @ nat_str (tw_ticket_seq w))"
    using assms(4) by (auto simp: dict_has_iff dict_keys_def list_all_iff)
  have none: "find (\<lambda>t. tk_idempotency_key t = demo_key @ '':'' @ take 8 (filter (\<lambda>c. c \<noteq> CHR ''-'') (nat_str (tw_uuids w))))
      (map snd (db_tickets (tw_db w))) = None"
    using assms(4) by (auto simp: find_None_iff list_all_iff)
  have u: "td_uuid demo_deps = nat_str" by (simp add: demo_deps_def)
  define tk where "tk = \<lparr>tk_id = ''INC-'' @ nat_str (tw_ticket_seq w), tk_title = ''Disk'', tk_severity = ''low'',
     tk_details = with_provenance ''full'' None, tk_status = ''open'', tk_created_by = ''U001'',
     tk_idempotency_key = demo_key @ '':'' @ take 8 (filter (\<lambda>c. c \<noteq> CHR ''-'') (nat_str (tw_uuids w))), tk_created_at = now\<rparr>"
  have "demo_ticket_at now w = insert_ticket tk (w\<lparr>tw_uuids := tw_uuids w + 1, tw_ticket_seq := tw_ticket_seq w + 1\<rparr>)"
    using assms(1) [unfolded demo_key_def] assms(2,3)
    by (simp add: demo_ticket_at_def create_support_ticket_def Let_def demo_key_def u tk_def
        TICKET_IDEMPOTENCY_WINDOW_def MICRO_def staff_def demo_context_def)
  then show ?thesis
    using free none by (intro that [of _ tk])
      (simp_all add: insert_ticket_def Let_def ticket_by_key_def tk_def put_new_append)
qed

theorem stale_ticket_duplicates_witness:
  "\<exists>w w2. db_tickets (tw_db (snd (demo_ticket_at 600000000 w))) \<noteq> [] \<and> w2 = snd (demo_ticket_at 601000000 (snd (demo_ticket_at 600000000 w)))
     \<and> length (db_tickets (tw_db w2)) = 3"
proof -
  define w where "w = snd (demo_ticket_at 0 demo_world)"
  obtain old where w: "db_tickets (tw_db w) = [(''INC-1'', old)]" "tk_idempotency_key old = demo_key" "tk_created_at old = 0"
    "tw_ticket_seq w = 2" "tw_uuids w = 0"
    using demo_first_ticket w_def by blast
  have n: "nat_str 1 = ''1''" "nat_str 2 = ''2''" "nat_str 3 = ''3''" "nat_str 0 = ''0''"
    by code_simp+
  have old: "ticket_by_key (tw_db w) demo_key = Some old" by (simp add: ticket_by_key_def w)
  obtain j1 t1 where s1: "demo_ticket_at 600000000 w = (HOk j1, snd (demo_ticket_at 600000000 w))"
    "db_tickets (tw_db (snd (demo_ticket_at 600000000 w))) = [(''INC-1'', old), (''INC-2'', t1)]"
    "tk_idempotency_key t1 = demo_key @ '':0''" "tw_ticket_seq (snd (demo_ticket_at 600000000 w)) = 3"
    "tw_uuids (snd (demo_ticket_at 600000000 w)) = 1"
    by (rule demo_stale [OF old w(3), of 600000000]) (use n in \<open>simp_all add: w\<close>)
  define w1 where "w1 = snd (demo_ticket_at 600000000 w)"
  have old1: "ticket_by_key (tw_db w1) demo_key = Some old" using s1(2) by (simp add: ticket_by_key_def w w1_def)
  obtain j2 where s2: "demo_ticket_at 601000000 w1 = (HOk j2, snd (demo_ticket_at 601000000 w1))"
    by (rule demo_stale [OF old1 w(3), of 601000000]) (use n s1 in \<open>simp_all add: w w1_def [symmetric]\<close>)
  have "length (db_tickets (tw_db (snd (demo_ticket_at 601000000 w1)))) = length (db_tickets (tw_db w)) + 2"
    using stale_ticket_duplicates [OF old [unfolded demo_key_def] _ s1(1) [unfolded demo_ticket_at_def]
        _ s2 [unfolded w1_def demo_ticket_at_def]] w(3)
    by (simp add: w1_def demo_ticket_at_def TICKET_IDEMPOTENCY_WINDOW_def MICRO_def)
  with s1(2) show ?thesis
    by (intro exI [of _ w] exI [of _ "snd (demo_ticket_at 601000000 w1)"]) (simp add: w w1_def)
qed

theorem action_hash_pins_witness:
  "action_hash (\<lambda>x. x) ''create_vpn_profile'' (dump_args demo_args) ''U001''
     \<noteq> action_hash (\<lambda>x. x) ''create_vpn_profile'' (dump_args (VpnArgs (Some ''U001'') None 29)) ''U001''"
  using action_hash_pins [of "\<lambda>x. x" "''create_vpn_profile''" demo_args "''U001''" "''create_vpn_profile''"
      "VpnArgs (Some ''U001'') None 29" "''U001''"]
  by (auto simp: demo_args_def simp del: dump_args.simps)

end
