(* ===== verification/Actions.thy ===== *)
theory Actions
  imports ChatProps ExecutorProps
begin

text \<open>
  \<open>api/actions.py\<close>, \<open>api/tickets.py\<close> and \<open>api/audit.py\<close>: listing, approving and rejecting sensitive actions with the
  resumption of the requester's conversation, raising and listing tickets, and reading one's own audit records.

  What LangGraph does with \<open>Command(resume=...)\<close> is a parameter \<open>rerun\<close>: given the interrupted node as a function of the
  decision \<open>interrupt\<close> returns, it continues the thread. A thread that is not paused has nothing to continue; whether
  the call then raises is the parameter \<open>idle\<close>.
\<close>

section \<open>Listing\<close>

text \<open>\<open>ORDER BY created_at DESC\<close> with \<open>LIMIT\<close>: rows of the same time in any order, here the table's.\<close>

definition newest :: "('a \<Rightarrow> int) \<Rightarrow> nat \<Rightarrow> 'a list \<Rightarrow> 'a list" where
  "newest stamp n rows = take n (sort_key (\<lambda>r. - stamp r) rows)"

definition approvable :: "principal \<Rightarrow> string list" where
  "approvable p = filter (has_perm p) [''vpn:approve'']"

definition list_actions :: "principal \<Rightarrow> string \<Rightarrow> tool_db \<Rightarrow> pending_action list" where
  "list_actions p status db =
     newest pa_created_at 50
       (filter (\<lambda>pa. pa_status pa = status \<and> (pa_requester_id pa = p_user_id p
            \<or> pa_approve_permission pa \<in> set (if approvable p = [] then [[]] else approvable p)))
         (map snd (db_pending db)))"

definition my_tickets :: "principal \<Rightarrow> nat \<Rightarrow> tool_db \<Rightarrow> (ticket \<times> string) list" where
  "my_tickets p limit db =
     (if \<not> has_perm p ''ticket:create'' then []
      else newest (\<lambda>(t, name). tk_created_at t) limit
             (concat (map (\<lambda>t. case dict_get (db_users db) (tk_created_by t) of
                        None \<Rightarrow> []
                      | Some u \<Rightarrow> if tk_created_by t = p_user_id p \<or> u_department u = p_department p then [(t, u_name u)] else [])
                (map snd (db_tickets db)))))"

section \<open>Approving and rejecting\<close>

definition api_context :: "string \<Rightarrow> tool_context" where
  "api_context request_id = \<lparr>tc_request_id = request_id, tc_conversation_id = None, tc_user_message = None\<rparr>"

type_synonym rerun = "(resume_payload option \<Rightarrow> tool_world \<Rightarrow> node_end \<times> tool_world) \<Rightarrow> resume_payload \<Rightarrow> tool_world \<Rightarrow> node_end \<times> tool_world"

definition resumed_node :: "chat_deps \<Rightarrow> int \<Rightarrow> paused \<Rightarrow> resume_payload option \<Rightarrow> tool_world \<Rightarrow> node_end \<times> tool_world" where
  "resumed_node d now pz = tool_node (hd_tools d) now (pz_state pz) (pz_tool pz) (pz_arguments pz)"

definition node_raised :: "node_end \<Rightarrow> bool" where
  "node_raised e = (case e of NodeRaised _ \<Rightarrow> True | NodeCallFailed _ \<Rightarrow> True | _ \<Rightarrow> False)"

definition store_outcome :: "string \<Rightarrow> resume_payload \<Rightarrow> string \<Rightarrow> chat_world \<Rightarrow> chat_world" where
  "store_outcome conversation_id payload request_id w =
     on_chat (snd (save_assistant conversation_id (rp_message payload) ''complete'' None None (Some []) request_id (cw_chat w))) w"

definition resume_conversation ::
  "rerun \<Rightarrow> bool \<Rightarrow> chat_deps \<Rightarrow> int \<Rightarrow> string \<Rightarrow> resume_payload \<Rightarrow> string \<Rightarrow> chat_world \<Rightarrow> chat_world" where
  "resume_conversation rerun idle d now pid payload request_id w =
     (case dict_get (db_pending (tw_db (cw_tools w))) pid of
        None \<Rightarrow> w
      | Some pa \<Rightarrow>
          (case pa_conversation_id pa of
             None \<Rightarrow> w
           | Some c \<Rightarrow>
               if \<not> hd_agent d then w
               else case dict_get (cw_paused w) (''conversation:'' @ c) of
                      None \<Rightarrow> if idle then store_outcome c payload request_id w else w
                    | Some pz \<Rightarrow>
                        (case rerun (resumed_node d now pz) payload (cw_tools w) of
                           (fin, tw) \<Rightarrow>
                             if node_raised fin then w\<lparr>cw_tools := tw\<rparr>
                             else store_outcome c payload request_id
                                    (w\<lparr>cw_tools := tw, cw_paused := filter (\<lambda>kv. fst kv \<noteq> ''conversation:'' @ c) (cw_paused w)\<rparr>))))"

definition outcome_reply :: "tool_outcome \<Rightarrow> tool_reply" where
  "outcome_reply out =
     (tool_payload out)\<lparr>ty_message :=
        (case to_data out of
           JObj data \<Rightarrow> if executed out \<and> data \<noteq> [] then describe_tool_result (to_tool out) data else to_message out
         | _ \<Rightarrow> to_message out)\<rparr>"

datatype action_reply = ActionReply tool_reply | ActionFault string

definition approve_action ::
  "rerun \<Rightarrow> bool \<Rightarrow> chat_deps \<Rightarrow> int \<Rightarrow> principal \<Rightarrow> string \<Rightarrow> string \<Rightarrow> string \<Rightarrow> chat_world \<Rightarrow> action_reply \<times> chat_world" where
  "approve_action rerun idle d now p pid confirm_hash request_id w =
     (case approve_pending (hd_tools d) now p pid confirm_hash (api_context request_id) (cw_tools w) of
        (Escaped x, tw) \<Rightarrow> (ActionFault x, w\<lparr>cw_tools := tw\<rparr>)
      | (Finished out, tw) \<Rightarrow>
          (let reply = outcome_reply out; w1 = w\<lparr>cw_tools := tw\<rparr>;
               payload = \<lparr>rp_status = ''ok'', rp_message = ty_message reply, rp_data = to_data out\<rparr>
           in (ActionReply reply,
               if executed out then resume_conversation rerun idle d now pid payload request_id w1 else w1)))"

definition reject_action ::
  "rerun \<Rightarrow> bool \<Rightarrow> chat_deps \<Rightarrow> int \<Rightarrow> principal \<Rightarrow> string \<Rightarrow> string option \<Rightarrow> string \<Rightarrow> chat_world \<Rightarrow> action_reply \<times> chat_world" where
  "reject_action rerun idle d now p pid reason request_id w =
     (case reject_pending (hd_tools d) now p pid reason (api_context request_id) (cw_tools w) of
        (Escaped x, tw) \<Rightarrow> (ActionFault x, w\<lparr>cw_tools := tw\<rparr>)
      | (Finished out, tw) \<Rightarrow>
          (let w1 = w\<lparr>cw_tools := tw\<rparr>;
               payload = \<lparr>rp_status = ''rejected'', rp_message = ''The request was rejected.'', rp_data = JNull\<rparr>
           in (ActionReply ((tool_payload out)\<lparr>ty_data := JNull, ty_pending_action_id := None, ty_action_hash := None\<rparr>),
               if to_status out = StatusDenied \<and> to_message out = ''Action rejected.''
               then resume_conversation rerun idle d now pid payload request_id w1 else w1)))"

section \<open>Tickets and audit records\<close>

text \<open>The bodies FastAPI accepts; the others are answered with 422.\<close>

definition approve_request_valid :: "string \<Rightarrow> bool" where
  "approve_request_valid confirm_hash \<longleftrightarrow> length confirm_hash = 64"

definition reject_request_valid :: "string option \<Rightarrow> bool" where
  "reject_request_valid reason \<longleftrightarrow> (case reason of None \<Rightarrow> True | Some r \<Rightarrow> length r \<le> 500)"

definition create_ticket_request_valid :: "string \<Rightarrow> bool" where
  "create_ticket_request_valid severity \<longleftrightarrow> severity \<in> set severities"

definition raise_ticket :: "tool_deps \<Rightarrow> int \<Rightarrow> principal \<Rightarrow> string \<Rightarrow> string \<Rightarrow> string \<Rightarrow> string \<Rightarrow> tool_world \<Rightarrow> action_reply \<times> tool_world" where
  "raise_ticket d now p title severity details request_id w =
     (case run_tool d now p ''create_support_ticket''
             [(''title'', JStr title), (''severity'', JStr severity), (''details'', JStr details)] (api_context request_id) w of
        (Escaped x, w') \<Rightarrow> (ActionFault x, w')
      | (Finished out, w') \<Rightarrow>
          (ActionReply ((tool_payload out)\<lparr>ty_pending_action_id := None, ty_action_hash := None\<rparr>), w'))"

definition my_audit :: "principal \<Rightarrow> nat \<Rightarrow> tool_db \<Rightarrow> audit_row list" where
  "my_audit p limit db =
     newest au_id limit (filter (\<lambda>r. ae_actor_id r = p_user_id p) (al_rows (db_audit db)))"

end
