(* ===== verification/Replies.thy ===== *)
theory Replies
  imports ReadApi Actions Upload
begin

text \<open>
  What the API shows of the rows it reads (\<open>api/schemas.py\<close>, \<open>api/common.py\<close>, and the renderings of \<open>api/actions.py\<close>,
  \<open>api/audit.py\<close>, \<open>api/tickets.py\<close> and \<open>api/chat.py\<close>): the fields of each response, and the error envelope. A body that
  FastAPI refuses before the handler runs is \<open>Invalid\<close> (422).
\<close>

section \<open>The error envelope\<close>

record error_out =
  er_code :: string
  er_message :: string
  er_request_id :: string

record error_envelope =
  ee_error :: error_out
  ee_attempts :: "attempt_out list"

datatype 'a api_reply = Answered 'a | Refused nat error_envelope | Invalid

definition error_response :: "nat \<Rightarrow> string \<Rightarrow> string \<Rightarrow> string \<Rightarrow> attempt_record list option \<Rightarrow> 'a api_reply" where
  "error_response status err_code message request_id attempts =
     Refused status
       \<lparr>ee_error = \<lparr>er_code = err_code, er_message = message, er_request_id = request_id\<rparr>,
        ee_attempts = map attempt_out_of (case attempts of None \<Rightarrow> [] | Some atts \<Rightarrow> atts)\<rparr>"

definition NOT_FOUND :: string where "NOT_FOUND = ''conversation not found''"

section \<open>Usage, sign-in and uploads\<close>

record usage_out =
  uo_prompt_tokens :: nat
  uo_completion_tokens :: nat
  uo_total_tokens :: nat
  uo_estimated :: bool
  uo_cost_usd :: rat

definition usage_out_of :: "usage \<Rightarrow> rat \<Rightarrow> usage_out" where
  "usage_out_of u cost =
     \<lparr>uo_prompt_tokens = prompt_tokens u, uo_completion_tokens = completion_tokens u,
      uo_total_tokens = prompt_tokens u + completion_tokens u, uo_estimated = usage_estimated u, uo_cost_usd = cost\<rparr>"

text \<open>The pattern \<open>^U[0-9]{3,}$\<close> of a user id.\<close>

definition dev_token_request_valid :: "string \<Rightarrow> bool" where
  "dev_token_request_valid user_id \<longleftrightarrow>
     (case user_id of [] \<Rightarrow> False | c # ds \<Rightarrow> c = CHR ''U'' \<and> 3 \<le> length ds \<and> list_all is_digit ds)"

text \<open>\<open>stored_as\<close> is the path relative to the repository root; \<open>relative\<close> is that part of \<open>pathlib\<close>.\<close>

record upload_response =
  pr_doc_key :: string
  pr_department :: string
  pr_classification :: string
  pr_title :: string
  pr_job_id :: string
  pr_stored_as :: string
  pr_request_id :: string

definition upload_response_of :: "(string \<Rightarrow> string) \<Rightarrow> string \<Rightarrow> upload_plan \<Rightarrow> string \<Rightarrow> upload_response" where
  "upload_response_of relative request_id plan job =
     \<lparr>pr_doc_key = up_doc_key plan, pr_department = up_department plan, pr_classification = up_classification plan,
      pr_title = up_title plan, pr_job_id = job, pr_stored_as = relative (up_path plan), pr_request_id = request_id\<rparr>"

definition upload_reply :: "(string \<Rightarrow> string) \<Rightarrow> string \<Rightarrow> upload_result \<Rightarrow> upload_response api_reply" where
  "upload_reply relative request_id r =
     (case r of
        UploadDenied status err_code message \<Rightarrow> error_response status err_code message request_id None
      | UploadAccepted plan job \<Rightarrow> Answered (upload_response_of relative request_id plan job))"

section \<open>Citations and search\<close>

record citation_out =
  co_number :: nat
  co_doc_key :: string
  co_version :: int
  co_title :: string
  co_locator :: string
  co_ref :: string
  co_label :: string
  co_snippet :: string

definition citations_out :: "citation list \<Rightarrow> citation_out list" where
  "citations_out = map (\<lambda>c.
     \<lparr>co_number = ci_number c, co_doc_key = ci_doc_key c, co_version = ci_version c, co_title = ci_title c,
      co_locator = ci_locator c, co_ref = ci_ref c, co_label = citation_label c, co_snippet = ci_snippet c\<rparr>)"

definition citation_dump :: "citation_out \<Rightarrow> json" where
  "citation_dump c =
     JObj [(''number'', JInt (int (co_number c))), (''doc_key'', JStr (co_doc_key c)), (''version'', JInt (co_version c)),
       (''title'', JStr (co_title c)), (''locator'', JStr (co_locator c)), (''ref'', JStr (co_ref c)),
       (''label'', JStr (co_label c)), (''snippet'', JStr (co_snippet c))]"

text \<open>What is stored with the message is the dump of what the response shows.\<close>

lemma citations_stored: "map citation_dump (citations_out cs) = map citation_json cs"
  by (simp add: citations_out_def citation_dump_def citation_json_def)

record search_response =
  hr_hits :: "search_hit list"
  hr_retrieval :: retrieval_out
  hr_request_id :: string

definition search_reply ::
  "tool_deps \<Rightarrow> principal \<Rightarrow> search_request \<Rightarrow> string \<Rightarrow> gw_state \<Rightarrow> search_response read_reply \<times> gw_state" where
  "search_reply t p q request_id st =
     (case search t p q st of
        (ReadOk (hits, r), st') \<Rightarrow> (ReadOk \<lparr>hr_hits = hits, hr_retrieval = r, hr_request_id = request_id\<rparr>, st')
      | (ReadError status err_code atts, st') \<Rightarrow> (ReadError status err_code atts, st')
      | (ReadRaised x, st') \<Rightarrow> (ReadRaised x, st'))"

section \<open>Actions, tickets and audit records\<close>

record pending_action_out =
  po_id :: string
  po_tool :: string
  po_summary :: string
  po_arguments :: raw_args
  po_action_hash :: string
  po_status :: string
  po_requester_id :: string
  po_approver_id :: "string option"
  po_approve_permission :: string
  po_created_at :: int
  po_expires_at :: int
  po_result :: json

definition pending_action_out_of :: "pending_action \<Rightarrow> pending_action_out" where
  "pending_action_out_of pa =
     \<lparr>po_id = pa_id pa, po_tool = pa_tool pa, po_summary = pa_summary pa, po_arguments = pa_arguments pa,
      po_action_hash = pa_action_hash pa, po_status = pa_status pa, po_requester_id = pa_requester_id pa,
      po_approver_id = pa_approver_id pa, po_approve_permission = pa_approve_permission pa,
      po_created_at = pa_created_at pa, po_expires_at = pa_expires_at pa, po_result = pa_result pa\<rparr>"

record ticket_out =
  to_ticket_id :: string
  to_title :: string
  to_severity :: string
  to_ticket_status :: string
  to_details :: string
  to_raised_by :: string
  to_raised_by_name :: string
  to_raised_at :: int

definition ticket_out_of :: "ticket \<times> string \<Rightarrow> ticket_out" where
  "ticket_out_of = (\<lambda>(t, name).
     \<lparr>to_ticket_id = tk_id t, to_title = tk_title t, to_severity = tk_severity t, to_ticket_status = tk_status t,
      to_details = tk_details t, to_raised_by = tk_created_by t, to_raised_by_name = name, to_raised_at = tk_created_at t\<rparr>)"

record audit_record_out =
  ro_id :: int
  ro_created_at :: int
  ro_request_id :: string
  ro_actor_id :: string
  ro_actor_role :: string
  ro_event :: string
  ro_tool :: "string option"
  ro_decision :: audit_decision
  ro_reason :: "string option"
  ro_arguments :: json
  ro_result :: json
  ro_pending_action_id :: "string option"
  ro_action_hash :: "string option"
  ro_hash :: string

definition audit_record_out_of :: "audit_row \<Rightarrow> audit_record_out" where
  "audit_record_out_of r =
     \<lparr>ro_id = au_id r, ro_created_at = au_created_at r, ro_request_id = ae_request_id r, ro_actor_id = ae_actor_id r,
      ro_actor_role = ae_actor_role r, ro_event = ae_event r, ro_tool = ae_tool r, ro_decision = ae_decision r,
      ro_reason = ae_reason r, ro_arguments = ae_arguments r, ro_result = ae_result r,
      ro_pending_action_id = ae_pending_action_id r, ro_action_hash = ae_action_hash r, ro_hash = au_hash r\<rparr>"

record audit_verify_out =
  vo_records :: nat
  vo_intact :: bool
  vo_broken_at :: "int option"
  vo_detail :: "string option"

definition audit_verify :: "(string \<Rightarrow> string) \<Rightarrow> audit_log \<Rightarrow> audit_verify_out" where
  "audit_verify sha l =
     (let s = verify_chain sha (al_rows l)
      in \<lparr>vo_records = cs_records s, vo_intact = cs_intact s, vo_broken_at = cs_broken_at s, vo_detail = cs_detail s\<rparr>)"

section \<open>Conversations\<close>

text \<open>Message ids and times are left out, as in the table.\<close>

record message_out =
  mo_role :: string
  mo_content :: string
  mo_status :: string
  mo_model :: "string option"
  mo_prompt_tokens :: "nat option"
  mo_completion_tokens :: "nat option"
  mo_citations :: "json list option"
  mo_request_id :: string

record conversation_usage =
  cu_model_calls :: nat
  cu_chat_calls :: nat
  cu_embedding_calls :: nat
  cu_prompt_tokens :: nat
  cu_completion_tokens :: nat
  cu_cost_usd :: rat

record conversation_response =
  cr_id :: string
  cr_title :: "string option"
  cr_model :: "string option"
  cr_messages :: "message_out list"
  cr_usage :: conversation_usage

definition message_out_of :: "message \<Rightarrow> message_out" where
  "message_out_of m =
     \<lparr>mo_role = mg_role m, mo_content = mg_content m, mo_status = mg_status m, mo_model = mg_model_id m,
      mo_prompt_tokens = mg_prompt_tokens m, mo_completion_tokens = mg_completion_tokens m,
      mo_citations = mg_citations m, mo_request_id = mg_request_id m\<rparr>"

definition conversation_usage_of :: "usage_totals \<Rightarrow> conversation_usage" where
  "conversation_usage_of u =
     \<lparr>cu_model_calls = ut_model_calls u, cu_chat_calls = ut_chat_calls u, cu_embedding_calls = ut_embedding_calls u,
      cu_prompt_tokens = ut_prompt_tokens u, cu_completion_tokens = ut_completion_tokens u, cu_cost_usd = ut_cost_usd u\<rparr>"

definition conversation_out_of :: "conversation_details \<Rightarrow> conversation_response" where
  "conversation_out_of v =
     \<lparr>cr_id = cv_id (vw_conversation v), cr_title = cv_title (vw_conversation v), cr_model = cv_model_id (vw_conversation v),
      cr_messages = map message_out_of (vw_messages v), cr_usage = conversation_usage_of (vw_usage v)\<rparr>"

end
