(* ===== verification/Isolation.thy ===== *)
theory Isolation
  imports Main
begin

text \<open>
  The interface of a service several users share: it answers a request of a user and moves to the next state, and each
  user has a view of the state. The three laws - an answer depends only on the view of the user who asks, a request
  changes that view according to it alone, and nobody else's view - give that what a user sees of any run of requests
  is what the user would see with the others' requests left out.
\<close>

section \<open>Runs of requests\<close>

text \<open>A run serves the requests one after the other, each with the user it comes from, and collects the answers.\<close>

fun serve_all :: "('u \<Rightarrow> 'r \<Rightarrow> 's \<Rightarrow> 'a \<times> 's) \<Rightarrow> ('u \<times> 'r) list \<Rightarrow> 's \<Rightarrow> ('u \<times> 'a) list \<times> 's" where
  "serve_all serve [] s = ([], s)"
| "serve_all serve ((u, r) # requests) s =
     (case serve u r s of
        (a, s') \<Rightarrow> (case serve_all serve requests s' of (answers, s'') \<Rightarrow> ((u, a) # answers, s'')))"

definition of_user :: "'u \<Rightarrow> ('u \<times> 'a) list \<Rightarrow> ('u \<times> 'a) list" where
  "of_user u = filter (\<lambda>(v, _). v = u)"

lemma of_user_simps [simp]:
  "of_user u [] = []"
  "of_user u ((v, a) # xs) = (if v = u then (v, a) # of_user u xs else of_user u xs)"
  by (simp_all add: of_user_def)

section \<open>The laws and the unwinding\<close>

locale isolated_users =
  fixes serve :: "'u \<Rightarrow> 'r \<Rightarrow> 's \<Rightarrow> 'a \<times> 's" and view :: "'u \<Rightarrow> 's \<Rightarrow> 'v" and ok :: "'s \<Rightarrow> bool"
  assumes keeps_ok: "ok s \<Longrightarrow> ok (snd (serve u r s))"
    and answer_of_view: "ok s \<Longrightarrow> ok t \<Longrightarrow> view u s = view u t \<Longrightarrow> fst (serve u r s) = fst (serve u r t)"
    and view_step: "ok s \<Longrightarrow> ok t \<Longrightarrow> view u s = view u t \<Longrightarrow> view u (snd (serve u r s)) = view u (snd (serve u r t))"
    and other_view: "ok s \<Longrightarrow> v \<noteq> u \<Longrightarrow> view v (snd (serve u r s)) = view v s"
begin

lemma run_ok: "ok s \<Longrightarrow> ok (snd (serve_all serve requests s))"
proof (induction requests arbitrary: s)
  case (Cons request requests)
  then show ?case
    using keeps_ok [of s "fst request" "snd request"] by (cases request) (simp add: case_prod_beta)
qed simp

lemma unwinding:
  assumes "ok s" "ok t" "view u s = view u t"
  shows "of_user u (fst (serve_all serve requests s)) = fst (serve_all serve (of_user u requests) t)
    \<and> view u (snd (serve_all serve requests s)) = view u (snd (serve_all serve (of_user u requests) t))"
  using assms
proof (induction requests arbitrary: s t)
  case (Cons request requests)
  obtain v r where r: "request = (v, r)" by (cases request)
  obtain a s' where s': "serve v r s = (a, s')" by (cases "serve v r s")
  obtain b t' where t': "serve v r t = (b, t')" by (cases "serve v r t")
  have oks: "ok s'" "ok t'"
    using keeps_ok [of s v r] keeps_ok [of t v r] Cons.prems s' t' by simp_all
  show ?case
  proof (cases "v = u")
    case True
    with Cons.prems have "a = b" "view u s' = view u t'"
      using answer_of_view [of s t u r] view_step [of s t u r] s' t' by simp_all
    with Cons.IH [OF oks] True r s' t' show ?thesis by (simp add: case_prod_beta)
  next
    case False
    with Cons.prems have "view u s' = view u t"
      using other_view [of s u v r] s' by simp
    with Cons.IH [OF oks(1) Cons.prems(2)] False r s' show ?thesis by (simp add: case_prod_beta)
  qed
qed simp

end

end
