(* ===== verification/MemoryApi.thy ===== *)
theory MemoryApi
  imports Replies Isolation Memory
begin

text \<open>
  \<open>api/memory.py\<close>: the four endpoints over the stored preferences. Users are isolated from each other, and for each user the
  endpoints are those of one map from keys to values. The time of the last change, which the rows do not have here, is
  left out of the replies.
\<close>

section \<open>The endpoints\<close>

record memory_out =
  ym_key :: string
  ym_value :: string
  ym_category :: string
  ym_source :: string

definition memory_out_of :: "user_memory \<Rightarrow> memory_out" where
  "memory_out_of m = \<lparr>ym_key = um_key m, ym_value = um_value m, ym_category = um_category m, ym_source = um_source m\<rparr>"

definition memory_put_valid :: "string \<Rightarrow> string \<Rightarrow> bool" where
  "memory_put_valid key value \<longleftrightarrow>
     2 \<le> length key \<and> length key \<le> 40 \<and> 1 \<le> length value \<and> length value \<le> 200"

datatype memory_answer = MemoryListed "memory_out list" | MemoryStored memory_out | DeletedKey string | DeletedCount nat

definition memory_list :: "string \<Rightarrow> user_memory list \<Rightarrow> memory_answer api_reply \<times> user_memory list" where
  "memory_list user_id ms = (Answered (MemoryListed (map memory_out_of (list_memories user_id ms))), ms)"

definition memory_put ::
  "settings \<Rightarrow> string \<Rightarrow> string \<Rightarrow> string \<Rightarrow> string \<Rightarrow> user_memory list \<Rightarrow> memory_answer api_reply \<times> user_memory list" where
  "memory_put s request_id user_id key value ms =
     (if \<not> memory_put_valid key value then (Invalid, ms)
      else case put_memory s user_id key value ms of
             (Inl e, _) \<Rightarrow> (error_response 400 ''memory_rejected'' e request_id None, ms)
           | (Inr row, ms') \<Rightarrow> (Answered (MemoryStored (memory_out_of row)), ms'))"

definition memory_delete_one ::
  "string \<Rightarrow> string \<Rightarrow> string \<Rightarrow> user_memory list \<Rightarrow> memory_answer api_reply \<times> user_memory list" where
  "memory_delete_one request_id user_id key ms =
     (case delete_memory user_id key ms of
        (False, ms') \<Rightarrow> (error_response 404 ''not_found'' (''no stored value for '' @ py_repr key) request_id None, ms')
      | (True, ms') \<Rightarrow> (Answered (DeletedKey key), ms'))"

definition memory_delete_all :: "string \<Rightarrow> user_memory list \<Rightarrow> memory_answer api_reply \<times> user_memory list" where
  "memory_delete_all user_id ms =
     (case clear_memories user_id ms of (n, ms') \<Rightarrow> (Answered (DeletedCount n), ms'))"

text \<open>A request is its id with the call.\<close>

datatype memory_call = ListAll | PutValue string string | DeleteOne string | DeleteAll

fun memory_serve ::
  "settings \<Rightarrow> string \<Rightarrow> string \<times> memory_call \<Rightarrow> user_memory list \<Rightarrow> memory_answer api_reply \<times> user_memory list" where
  "memory_serve s u (_, ListAll) ms = memory_list u ms"
| "memory_serve s u (request_id, PutValue key value) ms = memory_put s request_id u key value ms"
| "memory_serve s u (request_id, DeleteOne key) ms = memory_delete_one request_id u key ms"
| "memory_serve s u (_, DeleteAll) ms = memory_delete_all u ms"

section \<open>Isolation\<close>

definition own :: "string \<Rightarrow> user_memory list \<Rightarrow> user_memory list" where
  "own u ms = filter (\<lambda>m. um_user_id m = u) ms"

lemma own_simps [simp]:
  "own u [] = []"
  "own u (m # ms) = (if um_user_id m = u then m # own u ms else own u ms)"
  "own u (ms @ ms') = own u ms @ own u ms'"
  by (simp_all add: own_def)

lemma find_own: "find (memory_of u k) ms = find (memory_of u k) (own u ms)"
  by (induction ms) (auto simp: memory_of_def)

lemma own_changed:
  "own v (map (\<lambda>x. if memory_of u k x then x\<lparr>um_value := w\<rparr> else x) ms)
   = (if v = u then map (\<lambda>x. if memory_of u k x then x\<lparr>um_value := w\<rparr> else x) (own u ms) else own v ms)"
  by (induction ms) (auto simp: memory_of_def)

lemma own_removed:
  "own v (filter (\<lambda>m. \<not> memory_of u k m) ms) = (if v = u then filter (\<lambda>m. \<not> memory_of u k m) (own u ms) else own v ms)"
  by (induction ms) (auto simp: memory_of_def)

lemma own_cleared: "own v (filter (\<lambda>m. um_user_id m \<noteq> u) ms) = (if v = u then [] else own v ms)"
  by (induction ms) auto

lemma list_own: "list_memories u ms = sort_key (\<lambda>m. map py_ord (um_key m)) (own u ms)"
  by (simp add: list_memories_def own_def)

lemma put_own:
  "fst (put_memory s u k v ms) = fst (put_memory s u k v (own u ms))"
  "own w (snd (put_memory s u k v ms)) = (if w = u then snd (put_memory s u k v (own u ms)) else own w ms)"
  by (simp_all add: put_memory_def find_own [of u k ms] own_changed Let_def split: sum.split option.split)

lemma delete_own:
  "fst (delete_memory u k ms) = fst (delete_memory u k (own u ms))"
  "own w (snd (delete_memory u k ms)) = (if w = u then snd (delete_memory u k (own u ms)) else own w ms)"
  by (simp_all add: delete_memory_def find_own [of u k ms] own_removed split: option.split)

lemma clear_own:
  "fst (clear_memories u ms) = length (own u ms)" "own w (snd (clear_memories u ms)) = (if w = u then [] else own w ms)"
  by (simp_all add: clear_memories_def own_cleared list_own)

lemma own_own [simp]: "own u (own u ms) = own u ms"
  by (simp add: own_def)

text \<open>Each endpoint in terms of the caller's rows alone.\<close>

lemma answer_own: "fst (memory_serve s u r ms) = fst (memory_serve s u r (own u ms))"
proof (cases "(s, u, r, ms)" rule: memory_serve.cases)
  case (1 s u i ms)
  then show ?thesis by (simp add: memory_list_def list_own)
next
  case (2 s u i key v ms)
  then show ?thesis
    using put_own(1) [of s u key v ms] by (auto simp: memory_put_def split: prod.split sum.split)
next
  case (3 s u i key ms)
  then show ?thesis
    using delete_own(1) [of u key ms] by (auto simp: memory_delete_one_def split: prod.split bool.split)
next
  case (4 s u i ms)
  then show ?thesis
    using clear_own(1) [of u ms] clear_own(1) [of u "own u ms"] by (auto simp: memory_delete_all_def split: prod.split)
qed

lemma put_snd: "snd (memory_put s i u key v ms) = (if memory_put_valid key v then snd (put_memory s u key v ms) else ms)"
  by (auto simp: memory_put_def put_memory_def Let_def split: sum.split option.split)

lemma delete_snd: "snd (memory_delete_one i u key ms) = snd (delete_memory u key ms)"
  by (simp add: memory_delete_one_def split: prod.split bool.split)

lemma clear_snd: "snd (memory_delete_all u ms) = snd (clear_memories u ms)"
  by (simp add: memory_delete_all_def split: prod.split)

lemmas serve_snd = memory_list_def put_snd delete_snd clear_snd

lemma state_own: "own w (snd (memory_serve s u r ms)) = (if w = u then snd (memory_serve s u r (own u ms)) else own w ms)"
proof (cases "(s, u, r, ms)" rule: memory_serve.cases)
  case (2 s u i key v ms)
  then show ?thesis by (simp add: serve_snd put_own(2))
next
  case (3 s u i key ms)
  then show ?thesis by (simp add: serve_snd delete_own(2))
next
  case (4 s u i ms)
  have "snd (clear_memories u (own u ms)) = []" by (simp add: clear_memories_def own_def)
  with 4 show ?thesis by (simp add: serve_snd clear_own(2))
qed (simp add: serve_snd)

lemma serve_ok: "memories_ok s ms \<Longrightarrow> memories_ok s (snd (memory_serve s u r ms))"
  by (cases "(s, u, r, ms)" rule: memory_serve.cases)
    (auto simp: serve_snd delete_memory_def clear_memories_def split: option.split intro: put_memory_ok filter_memories_ok)

interpretation memory_users: isolated_users "memory_serve s" own "memories_ok s" for s
proof
  show "fst (memory_serve s u r ms) = fst (memory_serve s u r ns)" if "own u ms = own u ns" for u r ms ns
    using answer_own [of s u r ms] answer_own [of s u r ns] that by simp
qed (simp_all add: serve_ok state_own)

section \<open>The map of a user\<close>

definition prefs :: "string \<Rightarrow> user_memory list \<Rightarrow> string \<Rightarrow> memory_out option" where
  "prefs u ms k = map_option memory_out_of (find (memory_of u k) ms)"

definition put_spec ::
  "settings \<Rightarrow> string \<Rightarrow> string \<Rightarrow> string \<Rightarrow> (string \<Rightarrow> memory_out option) \<Rightarrow> memory_answer api_reply \<times> (string \<Rightarrow> memory_out option)" where
  "put_spec s request_id key value p =
     (if \<not> memory_put_valid key value then (Invalid, p)
      else case validate_memory s key value of
             Inl e \<Rightarrow> (error_response 400 ''memory_rejected'' e request_id None, p)
           | Inr v \<Rightarrow>
               (let entry = (case p key of
                     Some e \<Rightarrow> e\<lparr>ym_value := v\<rparr>
                   | None \<Rightarrow> \<lparr>ym_key = key, ym_value = v, ym_category = the (dict_get (allowed_keys s) key), ym_source = ''explicit''\<rparr>)
                in (Answered (MemoryStored entry), p(key \<mapsto> entry))))"

definition in_key_order :: "(string \<Rightarrow> memory_out option) \<Rightarrow> memory_out list \<Rightarrow> bool" where
  "in_key_order p xs \<longleftrightarrow> sorted_wrt (<) (map (\<lambda>e. map py_ord (ym_key e)) xs) \<and> map_of (map (\<lambda>e. (ym_key e, e)) xs) = p"

text \<open>The endpoints as operations of a map.\<close>

fun memory_spec ::
  "settings \<Rightarrow> string \<times> memory_call \<Rightarrow> (string \<Rightarrow> memory_out option) \<Rightarrow> memory_answer api_reply \<times> (string \<Rightarrow> memory_out option) \<Rightarrow> bool" where
  "memory_spec s (_, ListAll) p (a, p') \<longleftrightarrow> p' = p \<and> (\<exists>xs. a = Answered (MemoryListed xs) \<and> in_key_order p xs)"
| "memory_spec s (i, PutValue key value) p (a, p') \<longleftrightarrow> (a, p') = put_spec s i key value p"
| "memory_spec s (i, DeleteOne key) p (a, p') \<longleftrightarrow>
     (case p key of
        None \<Rightarrow> a = error_response 404 ''not_found'' (''no stored value for '' @ py_repr key) i None \<and> p' = p
      | Some _ \<Rightarrow> a = Answered (DeletedKey key) \<and> p' = p(key := None))"
| "memory_spec s (_, DeleteAll) p (a, p') \<longleftrightarrow> a = Answered (DeletedCount (card (dom p))) \<and> p' = Map.empty"

lemma prefs_map_of: "prefs u ms = map_of (map (\<lambda>m. (um_key m, memory_out_of m)) (own u ms))"
proof
  show "prefs u ms k = map_of (map (\<lambda>m. (um_key m, memory_out_of m)) (own u ms)) k" for k
    by (induction ms) (auto simp: prefs_def memory_of_def)
qed

lemma prefs_changed:
  "prefs u (map (\<lambda>x. if memory_of u k x then x\<lparr>um_value := w\<rparr> else x) ms)
   = (prefs u ms)(k := map_option (\<lambda>e. e\<lparr>ym_value := w\<rparr>) (prefs u ms k))"
proof
  show "prefs u (map (\<lambda>x. if memory_of u k x then x\<lparr>um_value := w\<rparr> else x) ms) l
      = ((prefs u ms)(k := map_option (\<lambda>e. e\<lparr>ym_value := w\<rparr>) (prefs u ms k))) l" for l
    by (induction ms) (auto simp: prefs_def memory_of_def memory_out_of_def)
qed

lemma prefs_removed: "prefs u (filter (\<lambda>m. \<not> memory_of u k m) ms) = (prefs u ms)(k := None)"
proof
  show "prefs u (filter (\<lambda>m. \<not> memory_of u k m) ms) l = ((prefs u ms)(k := None)) l" for l
    by (induction ms) (auto simp: prefs_def memory_of_def)
qed

lemma prefs_snoc:
  "prefs u ms (um_key m) = None \<Longrightarrow> um_user_id m = u \<Longrightarrow> prefs u (ms @ [m]) = (prefs u ms)(um_key m \<mapsto> memory_out_of m)"
  by (auto simp: prefs_map_of map_add_def fun_eq_iff split: option.split)

lemma own_keys_distinct: "memories_ok s ms \<Longrightarrow> distinct (map um_key (own u ms))"
  by (auto simp: memories_ok_def own_def distinct_map inj_on_def)

lemma dom_prefs: "dom (prefs u ms) = set (map um_key (own u ms))"
  by (simp add: prefs_map_of dom_map_of_conv_image_fst image_image)

lemma card_prefs: "memories_ok s ms \<Longrightarrow> card (dom (prefs u ms)) = length (own u ms)"
  using distinct_card [OF own_keys_distinct [of s ms u]] by (simp add: dom_prefs)

lemma put_refines: "put_spec s i k v (prefs u ms) = (fst (memory_put s i u k v ms), prefs u (snd (memory_put s i u k v ms)))"
proof (cases "validate_memory s k v")
  case (Inl e)
  then show ?thesis by (simp add: put_spec_def memory_put_def put_memory_def)
next
  case (Inr w)
  show ?thesis
  proof (cases "find (memory_of u k) ms")
    case None
    then show ?thesis
      using Inr prefs_snoc [of u ms "\<lparr>um_user_id = u, um_key = k, um_value = w,
          um_category = the (dict_get (allowed_keys s) k), um_source = ''explicit''\<rparr>"]
      by (simp add: put_spec_def memory_put_def put_memory_def prefs_def memory_out_of_def Let_def)
  next
    case (Some m)
    then have "prefs u ms k = Some (memory_out_of m)" by (simp add: prefs_def)
    with Some Inr show ?thesis
      by (simp add: put_spec_def memory_put_def put_memory_def prefs_changed memory_out_of_def Let_def)
  qed
qed

lemma list_refines:
  assumes "memories_ok s ms"
  shows "in_key_order (prefs u ms) (map memory_out_of (list_memories u ms))"
proof -
  let ?xs = "list_memories u ms"
  have keys: "distinct (map um_key (own u ms))" by (rule own_keys_distinct [OF assms])
  then have d: "distinct (map um_key ?xs)" by (simp add: list_own distinct_map)
  have "sorted_wrt (<) (map (\<lambda>m. map py_ord (um_key m)) ?xs)"
    unfolding strict_sorted_iff using d by (auto simp: list_own distinct_map inj_on_def inj_map_eq_map inj_def)
  moreover have "map_of (map (\<lambda>m. (um_key m, memory_out_of m)) ?xs) = prefs u ms"
    unfolding prefs_map_of by (subst map_of_inject_set) (use d keys in \<open>simp_all add: comp_def list_own\<close>)
  ultimately show ?thesis
    by (simp add: in_key_order_def comp_def memory_out_of_def)
qed

text \<open>C35: For each user the memory endpoints are one map from keys to preferences: on stored preferences as the invariant
  has them, a PUT is refused (422, or 400 with the reason) and changes nothing or puts exactly the stripped value
  under its key and answers with it, a DELETE of a key answers 404 when the map has none and removes it otherwise, a
  DELETE of all removes every one and answers how many there were, and a GET answers the map in key order.\<close>

theorem memory_refines_map:
  assumes "memories_ok s ms"
  shows "memory_spec s r (prefs u ms) (fst (memory_serve s u r ms), prefs u (snd (memory_serve s u r ms)))"
proof (cases "(s, u, r, ms)" rule: memory_serve.cases)
  case (1 s' u' i ms')
  with assms list_refines show ?thesis by (auto simp: memory_list_def)
next
  case (2 s' u' i k v ms')
  then show ?thesis by (simp add: put_refines)
next
  case (3 s' u' i k ms')
  then show ?thesis
    by (auto simp: memory_delete_one_def delete_memory_def prefs_removed prefs_def split: option.split)
next
  case (4 s' u' i ms')
  with assms have "card (dom (prefs u ms)) = fst (clear_memories u ms)" by (simp add: card_prefs clear_own(1))
  moreover have "prefs u (snd (clear_memories u ms)) = Map.empty"
    by (simp add: prefs_map_of clear_own(2))
  ultimately show ?thesis using 4 by (simp add: memory_delete_all_def case_prod_beta)
qed

theorem memory_refines_map_witness:
  "memory_spec default_settings (''r1'', DeleteOne ''team'') (prefs ''U001'' [])
     (error_response 404 ''not_found'' (''no stored value for '' @ py_repr ''team'') ''r1'' None, prefs ''U001'' [])"
  using memory_refines_map [of default_settings "[]" "(''r1'', DeleteOne ''team'')" "''U001''"]
  by (simp add: memories_ok_def memory_delete_one_def delete_memory_def)

text \<open>C25: Users are isolated in the memory endpoints: over any sequence of requests of any users, the answers one user gets
  and the rows the user ends with are those of the run of that user's requests alone, started from that user's rows
  alone; and the invariant of the stored preferences holds throughout.\<close>

theorem memory_users_isolated:
  assumes "memories_ok s ms"
  shows "of_user u (fst (serve_all (memory_serve s) requests ms))
      = fst (serve_all (memory_serve s) (of_user u requests) (own u ms))
    \<and> own u (snd (serve_all (memory_serve s) requests ms))
      = own u (snd (serve_all (memory_serve s) (of_user u requests) (own u ms)))
    \<and> memories_ok s (snd (serve_all (memory_serve s) requests ms))"
  using memory_users.unwinding [of s ms "own u ms" u requests] memory_users.run_ok [of s ms requests] assms
  by (simp add: own_def filter_memories_ok)

definition demo_requests :: "(string \<times> string \<times> memory_call) list" where
  "demo_requests = [(''U001'', ''r1'', PutValue ''team'' '' blue ''), (''U002'', ''r2'', DeleteAll), (''U001'', ''r3'', ListAll)]"

theorem memory_users_isolated_witness:
  "of_user ''U002'' (fst (serve_all (memory_serve default_settings) demo_requests []))
     = [(''U002'', Answered (DeletedCount 0))]"
  using memory_users_isolated [of default_settings "[]" "''U002''" demo_requests]
  by (simp add: memories_ok_def demo_requests_def memory_delete_all_def clear_memories_def list_memories_def own_def)

end
