(* ===== verification/ActionsProps.thy ===== *)
theory ActionsProps
  imports Actions
begin

text \<open>
  What deciding a sensitive action does to the requester's conversation, and what the listings show.
\<close>

section \<open>Paused for an action\<close>

text \<open>A thread paused by the call that proposed the action: LangGraph checkpoints the state its node ran on.\<close>

definition paused_for :: "tool_deps \<Rightarrow> paused \<Rightarrow> pending_action \<Rightarrow> bool" where
  "paused_for d pz pa \<longleftrightarrow>
     (\<exists>s args. tool_spec_of (pz_tool pz) = Some s \<and> ts_sensitive s \<and> model_validate (td_lax d) (ts_args_model s) (pz_arguments pz) = Some args
        \<and> pa_tool pa = ts_name s \<and> pa_arguments pa = dump_args args)
     \<and> pa_requester_id pa = gs_user_id (pz_state pz) \<and> pa_conversation_id pa = tc_conversation_id (node_context (pz_state pz))"

lemma pending_of_run:
  assumes "run_tool d now p tool raw ctx w = (Finished out, w')" "to_status out = StatusPending"
  obtains s args where "tool_spec_of tool = Some s" "ts_sensitive s" "authorize p s = None"
    "model_validate (td_lax d) (ts_args_model s) raw = Some args" "propose d now p s args ctx w = (Finished out, w')"
proof -
  have no: False if "execute_now d now p tool args ctx w = (Finished out, w')" for args
    using that assms(2) by (auto simp: execute_now_def Let_def outcome_def rolled_back_def split: prod.splits handler_result.splits)
  show thesis
  proof (cases "tool_spec_of tool")
    case None
    with assms show thesis by (auto simp: run_tool_def outcome_def)
  next
    case s: (Some s)
    show thesis
    proof (cases "model_validate (td_lax d) (ts_args_model s) raw")
      case None
      with s assms show thesis by (auto simp: run_tool_def Let_def outcome_def)
    next
      case (Some args)
      with s assms no [of args] that [of s args] show thesis
        by (cases "authorize p s") (auto simp: run_tool_def outcome_def split: if_splits)
    qed
  qed
qed

text \<open>The pause a turn leaves is for the action the turn proposed.\<close>

lemma interrupted_paused_for:
  assumes "tool_node d now gs tool args None w = (NodeInterrupted v, w')" "users_keyed (db_users (tw_db w))"
  shows "\<exists>pid pa. iv_pending_action_id v = Some pid \<and> dict_get (db_pending (tw_db w')) pid = Some pa \<and> pa_status pa = ''pending''
    \<and> paused_for d \<lparr>pz_state = gs, pz_tool = tool, pz_arguments = args\<rparr> pa"
proof -
  obtain p out where p: "principal_of (db_users (tw_db w)) (gs_user_id gs) = Some p"
    and run: "run_tool d now p tool args (node_context gs) w = (Finished out, w')" "to_status out = StatusPending"
    and v: "iv_pending_action_id v = to_pending_action_id out"
    using assms(1) by (auto simp: tool_node_def after_tool_def split: option.splits prod.splits call_result.splits if_splits)
  have who: "p_user_id p = gs_user_id gs"
    using p users_keyedD [OF assms(2)] by (auto simp: principal_of_def split: option.splits if_splits)
  obtain s a where s: "tool_spec_of tool = Some s" "ts_sensitive s"
    "model_validate (td_lax d) (ts_args_model s) args = Some a" "propose d now p s a (node_context gs) w = (Finished out, w')"
    by (rule pending_of_run [OF run])
  have row: "\<exists>pid pa. to_pending_action_id out = Some pid \<and> dict_get (db_pending (tw_db w')) pid = Some pa \<and> pa_status pa = ''pending''
      \<and> pa_tool pa = ts_name s \<and> pa_arguments pa = dump_args a \<and> pa_requester_id pa = p_user_id p
      \<and> pa_conversation_id pa = tc_conversation_id (node_context gs)"
    using s(4) by (auto simp: propose_def Let_def rolled_back_def append_audit_def put_pending_def split: if_splits)
  have "paused_for d \<lparr>pz_state = gs, pz_tool = tool, pz_arguments = args\<rparr> pa"
    if "pa_tool pa = ts_name s" "pa_arguments pa = dump_args a" "pa_requester_id pa = p_user_id p"
      "pa_conversation_id pa = tc_conversation_id (node_context gs)" for pa
    using s(1-3) that who unfolding paused_for_def by simp
  with row v show ?thesis by metis
qed

section \<open>Resuming\<close>

text \<open>LangGraph's documented behaviour: a node that was interrupted is run again from its start, and \<open>interrupt\<close> then
  returns the decision.\<close>

definition reruns_node :: "rerun \<Rightarrow> bool" where
  "reruns_node rerun \<longleftrightarrow> (\<forall>node payload w. rerun node payload w = node (Some payload) w)"

lemma rerun_proposes:
  assumes "paused_for d pz pa" "principal_of (db_users (tw_db w)) (pa_requester_id pa) = Some rq" "p_user_id rq = pa_requester_id pa"
    "tool_spec_of (pa_tool pa) = Some s" "authorize rq s = None" "\<not> dict_has (db_pending (tw_db w)) (td_uuid d (tw_uuids w))"
  shows "\<exists>fin w' pa'. tool_node d now (pz_state pz) (pz_tool pz) (pz_arguments pz) (Some payload) w = (NodeDone fin, w')
    \<and> db_pending (tw_db w') = db_pending (tw_db w) @ [(td_uuid d (tw_uuids w), pa')] \<and> pa_status pa' = ''pending''
    \<and> pa_tool pa' = pa_tool pa \<and> pa_arguments pa' = pa_arguments pa \<and> pa_requester_id pa' = pa_requester_id pa
    \<and> pa_conversation_id pa' = pa_conversation_id pa
    \<and> pa_action_hash pa' = action_hash (td_sha d) (pa_tool pa) (pa_arguments pa) (pa_requester_id pa)"
proof -
  obtain s' args where s': "tool_spec_of (pz_tool pz) = Some s'" "ts_sensitive s'"
     "model_validate (td_lax d) (ts_args_model s') (pz_arguments pz) = Some args" "pa_tool pa = ts_name s'" "pa_arguments pa = dump_args args"
    and who: "pa_requester_id pa = gs_user_id (pz_state pz)" "pa_conversation_id pa = tc_conversation_id (node_context (pz_state pz))"
    using assms(1) by (auto simp: paused_for_def)
  have tool: "pa_tool pa = pz_tool pz" "s' = s" using s' spec_name assms(4) by auto
  have "run_tool d now rq (pz_tool pz) (pz_arguments pz) (node_context (pz_state pz)) w
      = propose d now rq s args (node_context (pz_state pz)) w"
    using s' tool assms(5) by (simp add: run_tool_def)
  then show ?thesis
    using assms(2,3,6) s' who tool
    by (simp add: tool_node_def propose_def Let_def after_tool_def append_audit_def put_pending_def dict_has_def put_new_append)
qed

lemma executed_row:
  assumes "execute_approved d now p pa rq args ctx w = (Finished out, w')" "executed out"
  shows "\<exists>r. dict_get (db_pending (tw_db w')) (pa_id pa) = Some r \<and> pa_conversation_id r = pa_conversation_id pa"
  using assms
  by (auto simp: execute_approved_def Let_def executed_def outcome_def rolled_back_def append_audit_def put_pending_def
      split: prod.splits handler_result.splits sum.splits if_splits)

lemma store_outcome_tools [simp]: "cw_tools (store_outcome c payload rid w) = cw_tools w"
  by (simp add: store_outcome_def on_chat_def)

text \<open>C38: An approved request asks again: when the requester's conversation is paused for an action, approving it executes the
  action and then, LangGraph running the interrupted node from its start, proposes it once more: a new pending action with
  the tool, arguments, requester and hash of the one just executed, which nobody asked for and another approval
  would execute.\<close>

theorem approval_reproposes:
  assumes "reruns_node rerun" "hd_agent d" "approvals_inv (hd_tools d) (cw_tools w)"
    and "approve_pending (hd_tools d) now p pid h (api_context rid) (cw_tools w) = (Finished out, tw)" "executed out"
    and "dict_get (db_pending (tw_db (cw_tools w))) pid = Some pa" "pa_conversation_id pa = Some c"
    and "dict_get (cw_paused w) (''conversation:'' @ c) = Some pz" "paused_for (hd_tools d) pz pa"
    and "\<not> dict_has (db_pending (tw_db tw)) (td_uuid (hd_tools d) (tw_uuids tw))"
  shows "\<exists>pa'. db_pending (tw_db (cw_tools (snd (approve_action rerun idle d now p pid h rid w))))
        = db_pending (tw_db tw) @ [(td_uuid (hd_tools d) (tw_uuids tw), pa')]
    \<and> pa_status pa' = ''pending'' \<and> pa_tool pa' = pa_tool pa \<and> pa_arguments pa' = pa_arguments pa
    \<and> pa_requester_id pa' = pa_requester_id pa \<and> pa_conversation_id pa' = Some c \<and> pa_action_hash pa' = pa_action_hash pa"
proof (rule approved_execution [OF assms(4,5)])
  fix pa1 rq s args
  assume g: "dict_get (db_pending (tw_db (cw_tools w))) pid = Some pa1" "tool_spec_of (pa_tool pa1) = Some s"
      "principal_of (db_users (tw_db (cw_tools w))) (pa_requester_id pa1) = Some rq" "authorize rq s = None"
      "execute_approved (hd_tools d) now p pa1 rq args (api_context rid) (cw_tools w) = (Finished out, tw)"
  have same: "pa1 = pa" using g(1) assms(6) by simp
  have pid: "pa_id pa = pid" and hash: "pa_action_hash pa = action_hash (td_sha (hd_tools d)) (pa_tool pa) (pa_arguments pa) (pa_requester_id pa)"
    using assms(3,6) by (auto simp: approvals_inv_def pending_ok_def)
  have users: "db_users (tw_db tw) = db_users (tw_db (cw_tools w))"
    by (rule effect_users [OF approve_effect [OF assms(4)]])
  have keyed: "users_keyed (db_users (tw_db tw))" using assms(3) users by (simp add: approvals_inv_def)
  have rq: "principal_of (db_users (tw_db tw)) (pa_requester_id pa) = Some rq" using g(3) users same by simp
  then have who: "p_user_id rq = pa_requester_id pa"
    using users_keyedD [OF keyed] by (auto simp: principal_of_def split: option.splits if_splits)
  obtain r where r: "dict_get (db_pending (tw_db tw)) pid = Some r" "pa_conversation_id r = Some c"
    using executed_row [OF g(5) assms(5)] pid assms(7) by (auto simp: same)
  let ?payload = "\<lparr>rp_status = ''ok'', rp_message = ty_message (outcome_reply out), rp_data = to_data out\<rparr>"
  obtain fin w' pa' where again: "tool_node (hd_tools d) now (pz_state pz) (pz_tool pz) (pz_arguments pz) (Some ?payload) tw = (NodeDone fin, w')"
    "db_pending (tw_db w') = db_pending (tw_db tw) @ [(td_uuid (hd_tools d) (tw_uuids tw), pa')]" "pa_status pa' = ''pending''"
    "pa_tool pa' = pa_tool pa" "pa_arguments pa' = pa_arguments pa" "pa_requester_id pa' = pa_requester_id pa"
    "pa_conversation_id pa' = pa_conversation_id pa"
    "pa_action_hash pa' = action_hash (td_sha (hd_tools d)) (pa_tool pa) (pa_arguments pa) (pa_requester_id pa)"
    using rerun_proposes [OF assms(9) rq who g(2)[unfolded same] g(4) assms(10)] by blast
  have "cw_tools (snd (approve_action rerun idle d now p pid h rid w)) = w'"
    using assms(1,2,4,5,8) r again(1)
    by (simp add: approve_action_def Let_def resume_conversation_def reruns_node_def resumed_node_def node_raised_def)
  with again hash assms(7) show ?thesis by auto
qed

section \<open>A concrete approval\<close>

definition talk_context :: tool_context where
  "talk_context = \<lparr>tc_request_id = ''r'', tc_conversation_id = Some ''c'', tc_user_message = Some ''vpn please''\<rparr>"

definition talk_deps :: chat_deps where
  "talk_deps = \<lparr>hd_tools = demo_deps, hd_ask = (\<lambda>_ _ _ _. (0, Cancelled)), hd_loads = (\<lambda>_. None), hd_router_prompt = [],
     hd_system_prompt = [], hd_review_prompt = [], hd_uuid = nat_str, hd_agent = True\<rparr>"

definition talk_paused :: paused where
  "talk_paused = \<lparr>pz_state = \<lparr>gs_question = ''vpn please'', gs_user_id = ''U001'', gs_request_id = ''r'', gs_conversation_id = Some ''c'',
     gs_model_choice = None\<rparr>, pz_tool = ''create_vpn_profile'', pz_arguments = dump_args demo_args\<rparr>"

definition talk_store :: chat_store where
  "talk_store = \<lparr>cs_conversations = [], cs_messages = [], cs_next_seq = 1, cs_uuids = 0\<rparr>"

definition talk_world :: chat_world where
  "talk_world = \<lparr>cw_tools = demo_requested_in talk_context, cw_chat = talk_store,
     cw_paused = [(''conversation:c'', talk_paused)]\<rparr>"

definition replay :: rerun where
  "replay node payload w = node (Some payload) w"

lemma talk_approved:
  assumes "execute_approved d now p pa rq args ctx w = (Finished out, w')" "executed out" "db_pending (tw_db w) = [(pa_id pa, pa)]"
    "db_vpn (tw_db w) = []" "args = VpnArgs e n days"
  shows "dict_keys (db_pending (tw_db w')) = [pa_id pa] \<and> tw_uuids w' = tw_uuids w + 1"
  using assms
  by (auto simp: execute_approved_def Let_def executed_def outcome_def rolled_back_def append_audit_def put_pending_def run_handler_def
      create_vpn_profile_def stamp_profile_def dict_keys_def
      split: prod.splits handler_result.splits sum.splits if_splits option.splits)

theorem approval_reproposes_witness:
  "length (db_pending (tw_db (cw_tools (snd (approve_action replay True talk_deps 1 (staff ''U002'' ''vpn:approve'') (nat_str 0)
      demo_hash ''r2'' talk_world))))) = 2"
proof -
  let ?ctx = "api_context ''r2''" and ?p = "staff ''U002'' ''vpn:approve''"
  obtain out tw where ap: "approve_pending demo_deps 1 ?p (nat_str 0) demo_hash ?ctx (demo_requested_in talk_context) = (Finished out, tw)"
    "executed out"
    using demo_approves [OF refl] by blast
  obtain pa where pa: "dict_get (db_pending (tw_db (demo_requested_in talk_context))) (nat_str 0) = Some pa" "pa_id pa = nat_str 0"
     "pa_requester_id pa = ''U001''" "pa_tool pa = ''create_vpn_profile''" "pa_arguments pa = dump_args demo_args"
     "pa_conversation_id pa = Some ''c''" "db_pending (tw_db (demo_requested_in talk_context)) = [(nat_str 0, pa)]"
     "db_vpn (tw_db (demo_requested_in talk_context)) = []" "tw_uuids (demo_requested_in talk_context) = 1"
    using demo_requested_db [of talk_context] by (auto simp: talk_context_def)
  obtain s where s: "tool_spec_of ''create_vpn_profile'' = Some s" "ts_args_model s = CreateVpnProfileArgs" "ts_sensitive s"
    "ts_name s = ''create_vpn_profile''"
    using demo_spec by blast
  have "dict_keys (db_pending (tw_db tw)) = [nat_str 0] \<and> tw_uuids tw = 2"
  proof (rule approved_execution [OF ap])
    fix pa1 rq s1 args
    assume g: "dict_get (db_pending (tw_db (demo_requested_in talk_context))) (nat_str 0) = Some pa1" "tool_spec_of (pa_tool pa1) = Some s1"
      "model_validate (td_lax demo_deps) (ts_args_model s1) (pa_arguments pa1) = Some args"
      "execute_approved demo_deps 1 ?p pa1 rq args ?ctx (demo_requested_in talk_context) = (Finished out, tw)"
    have "pa1 = pa" "s1 = s" "args = demo_args"
      using g pa s demo_valid by (auto simp: demo_deps_def simp del: dump_args.simps)
    with talk_approved [OF g(4) ap(2)] pa show ?thesis by (simp add: demo_args_def)
  qed
  moreover have n: "nat_str 2 \<noteq> nat_str 0" by code_simp
  ultimately have fresh: "\<not> dict_has (db_pending (tw_db tw)) (td_uuid (hd_tools talk_deps) (tw_uuids tw))"
    by (simp add: dict_has_iff talk_deps_def demo_deps_def)
  have two: "length (db_pending (tw_db tw)) = 1"
    using \<open>_ \<and> tw_uuids tw = 2\<close> by (metis dict_keys_def length_map length_Cons list.size(3) One_nat_def)
  have rr: "reruns_node replay" by (simp add: reruns_node_def replay_def)
  have inv: "approvals_inv demo_deps (demo_requested_in talk_context)"
    using executor.run_inv [OF demo_init demo_steps(1)] .
  have tools: "hd_tools talk_deps = demo_deps" "hd_agent talk_deps" by (simp_all add: talk_deps_def)
  have paused: "dict_get (cw_paused talk_world) (''conversation:'' @ ''c'') = Some talk_paused" "cw_tools talk_world = demo_requested_in talk_context"
    by (simp_all add: talk_world_def)
  have pf: "paused_for demo_deps talk_paused pa"
    using s pa demo_valid by (simp add: paused_for_def talk_paused_def node_context_def nonempty_def demo_deps_def del: dump_args.simps)
  show ?thesis
    using approval_reproposes [OF rr tools(2), unfolded tools, of talk_world 1 ?p "nat_str 0" demo_hash "''r2''" out tw pa "''c''" talk_paused True]
      inv ap pa(1,6) paused pf fresh two tools by auto
qed

end
