(* ===== verification/ConversationApi.thy ===== *)
theory ConversationApi
  imports Replies Isolation ActionsProps
begin

text \<open>
  Reading a conversation and switching its model (\<open>GET\<close> and \<open>PATCH /api/conversations/{id}\<close> of \<open>api/chat.py\<close>), and that the
  users are isolated from each other in them. The rows of token usage do not change here and are an argument.
\<close>

section \<open>The endpoints\<close>

datatype conversation_reply = ConvShown conversation_response | ConvRefused http_reply | ConvInvalid

definition conversation_update_valid :: "string \<Rightarrow> bool" where
  "conversation_update_valid new_model \<longleftrightarrow> 1 \<le> length new_model \<and> length new_model \<le> 100"

definition get_conversation :: "usage_row list \<Rightarrow> string \<Rightarrow> string \<Rightarrow> chat_store \<Rightarrow> conversation_reply" where
  "get_conversation rows i user_id cs =
     (case conversation_view rows cs i user_id of
        Inl _ \<Rightarrow> ConvRefused (HttpError 404 ''not_found'' [])
      | Inr v \<Rightarrow> ConvShown (conversation_out_of v))"

definition patch_conversation ::
  "chat_deps \<Rightarrow> usage_row list \<Rightarrow> string \<Rightarrow> string \<Rightarrow> string \<Rightarrow> chat_store \<Rightarrow> conversation_reply \<times> chat_store" where
  "patch_conversation d rows i new_model user_id cs =
     (if \<not> conversation_update_valid new_model then (ConvInvalid, cs)
      else case switch_conversation_model d rows i new_model user_id cs of
             (Inl e, cs') \<Rightarrow> (ConvRefused e, cs')
           | (Inr v, cs') \<Rightarrow> (ConvShown (conversation_out_of v), cs'))"

datatype conversation_call = GetConversation string | SwitchModel string string

fun conversation_serve ::
  "chat_deps \<Rightarrow> usage_row list \<Rightarrow> string \<Rightarrow> conversation_call \<Rightarrow> chat_store \<Rightarrow> conversation_reply \<times> chat_store" where
  "conversation_serve d rows u (GetConversation i) cs = (get_conversation rows i u cs, cs)"
| "conversation_serve d rows u (SwitchModel i new_model) cs = patch_conversation d rows i new_model u cs"

section \<open>Isolation\<close>

definition own_conversations :: "string \<Rightarrow> chat_store \<Rightarrow> conversation list" where
  "own_conversations u cs = filter (\<lambda>c. cv_user_id c = u) (cs_conversations cs)"

text \<open>What a user may see: the own conversations, and their messages.\<close>

definition conversations_of :: "string \<Rightarrow> chat_store \<Rightarrow> conversation list \<times> message list" where
  "conversations_of u cs =
     (own_conversations u cs,
      filter (\<lambda>m. mg_conversation_id m \<in> set (map cv_id (own_conversations u cs))) (cs_messages cs))"

definition ids_distinct :: "chat_store \<Rightarrow> bool" where
  "ids_distinct cs \<longleftrightarrow> distinct (map cv_id (cs_conversations cs))"

lemma owned_of_own:
  "get_owned cs i u = (case find (\<lambda>c. cv_id c = i) (own_conversations u cs) of
      None \<Rightarrow> Inl (ConversationNotFound i) | Some c \<Rightarrow> Inr c)"
proof -
  have "find (\<lambda>c. cv_id c = i \<and> cv_user_id c = u) xs = find (\<lambda>c. cv_id c = i) (filter (\<lambda>c. cv_user_id c = u) xs)" for xs :: "conversation list"
    by (induction xs) auto
  then show ?thesis by (simp add: get_owned_def own_conversations_def)
qed

lemma view_owned: "conversations_of u s = conversations_of u t \<Longrightarrow> get_owned s i u = get_owned t i u"
  by (simp add: owned_of_own conversations_of_def)

lemma view_shown:
  assumes "conversations_of u s = conversations_of u t"
  shows "conversation_view rows s i u = conversation_view rows t i u"
proof (cases "get_owned t i u")
  case (Inl e)
  with view_owned [OF assms] show ?thesis by (simp add: conversation_view_def)
next
  case (Inr c)
  then have c: "cv_id c \<in> cv_id ` set (own_conversations u t)"
    by (auto simp: owned_of_own split: option.splits dest: find_SomeD)
  have pick: "filter (\<lambda>m. mg_conversation_id m = cv_id c) ms
      = filter (\<lambda>m. mg_conversation_id m = cv_id c) (filter (\<lambda>m. mg_conversation_id m \<in> cv_id ` set (own_conversations u t)) ms)" for ms
    using c by (auto intro: filter_cong)
  have "own_conversations u s = own_conversations u t"
    "filter (\<lambda>m. mg_conversation_id m \<in> cv_id ` set (own_conversations u t)) (cs_messages s)
      = filter (\<lambda>m. mg_conversation_id m \<in> cv_id ` set (own_conversations u t)) (cs_messages t)"
    using assms unfolding conversations_of_def prod.inject by (metis list.set_map)+
  then have "filter (\<lambda>m. mg_conversation_id m = cv_id c) (cs_messages s) = filter (\<lambda>m. mg_conversation_id m = cv_id c) (cs_messages t)"
    by (metis pick)
  with Inr view_owned [OF assms] show ?thesis by (simp add: conversation_view_def)
qed

lemma put_conversation_own:
  assumes "ids_distinct cs" "get_owned cs i u = Inr c"
  shows "own_conversations v (put_conversation (c\<lparr>cv_model_id := x\<rparr>) cs)
    = (if v = u then map (\<lambda>y. if cv_id y = cv_id c then c\<lparr>cv_model_id := x\<rparr> else y) (own_conversations v cs) else own_conversations v cs)"
proof -
  note c = get_owned_owner [OF assms(2)]
  have same: "y = c" if "y \<in> set (cs_conversations cs)" "cv_id y = cv_id c" for y
    using that c assms(1) by (auto simp: ids_distinct_def distinct_map dest: inj_onD)
  have "filter (\<lambda>y. cv_user_id y = v) (map (\<lambda>y. if cv_id y = cv_id c then c\<lparr>cv_model_id := x\<rparr> else y) xs)
    = map (\<lambda>y. if cv_id y = cv_id c then c\<lparr>cv_model_id := x\<rparr> else y) (filter (\<lambda>y. cv_user_id y = v) xs)"
    if "set xs \<subseteq> set (cs_conversations cs)" for xs
    using that same by (induction xs) (auto dest!: same)
  moreover have "map (\<lambda>y. if cv_id y = cv_id c then c\<lparr>cv_model_id := x\<rparr> else y) (own_conversations v cs) = own_conversations v cs"
    if "v \<noteq> u"
    using that c by (auto simp: own_conversations_def intro!: map_idI dest!: same)
  ultimately show ?thesis
    by (auto simp: own_conversations_def put_conversation_def)
qed

lemma put_conversation_messages [simp]: "cs_messages (put_conversation c cs) = cs_messages cs"
  by (simp add: put_conversation_def)

lemma put_conversation_ids:
  "map cv_id (cs_conversations (put_conversation (c\<lparr>cv_model_id := x\<rparr>) cs)) = map cv_id (cs_conversations cs)"
  by (simp add: put_conversation_def)

lemma own_ids:
  assumes "ids_distinct cs" "get_owned cs i u = Inr c"
  shows "cv_id ` set (own_conversations v (put_conversation (c\<lparr>cv_model_id := x\<rparr>) cs)) = cv_id ` set (own_conversations v cs)"
proof -
  have "map cv_id (own_conversations v (put_conversation (c\<lparr>cv_model_id := x\<rparr>) cs)) = map cv_id (own_conversations v cs)"
    by (simp add: put_conversation_own [OF assms])
  then show ?thesis by (metis list.set_map)
qed

lemma view_switched:
  assumes "ids_distinct cs" "get_owned cs i u = Inr c"
  shows "conversations_of v (put_conversation (c\<lparr>cv_model_id := x\<rparr>) cs)
    = (if v = u then map_prod (map (\<lambda>y. if cv_id y = cv_id c then c\<lparr>cv_model_id := x\<rparr> else y)) id (conversations_of v cs)
       else conversations_of v cs)"
  using own_ids [OF assms, of v] by (simp add: conversations_of_def put_conversation_own [OF assms])

text \<open>The rows a request leaves, whatever it answers.\<close>

definition switched :: "chat_deps \<Rightarrow> string \<Rightarrow> string \<Rightarrow> bool" where
  "switched d i m \<longleftrightarrow> conversation_update_valid m
     \<and> (\<exists>r. check_choice (gw_catalog (td_gateway (hd_tools d))) (Some m) (allow_any_model (td_settings (hd_tools d))) = Inr r)"

lemma serve_state:
  "snd (conversation_serve d rows u r cs)
   = (case r of GetConversation i \<Rightarrow> cs
      | SwitchModel i m \<Rightarrow> if switched d i m then (case get_owned cs i u of Inl _ \<Rightarrow> cs | Inr c \<Rightarrow> put_conversation (c\<lparr>cv_model_id := Some m\<rparr>) cs) else cs)"
  by (auto simp: patch_conversation_def switch_conversation_model_def switched_def Let_def
      split: conversation_call.split sum.split prod.split)

interpretation conversation_users: isolated_users "conversation_serve d rows" conversations_of ids_distinct for d rows
proof
  fix u v r and s t :: chat_store
  show "ids_distinct (snd (conversation_serve d rows u r s))" if "ids_distinct s"
    using that by (auto simp: serve_state ids_distinct_def put_conversation_ids split: conversation_call.split sum.split)
  show "conversations_of v (snd (conversation_serve d rows u r s)) = conversations_of v s" if "ids_distinct s" "v \<noteq> u"
    using that by (auto simp: serve_state view_switched split: conversation_call.split sum.split)
  assume ok: "ids_distinct s" "ids_distinct t" and view: "conversations_of u s = conversations_of u t"
  have same: "conversations_of u (put_conversation (c\<lparr>cv_model_id := x\<rparr>) s) = conversations_of u (put_conversation (c\<lparr>cv_model_id := x\<rparr>) t)"
    if t: "get_owned t i u = Inr c" for c i x
  proof -
    from t have "get_owned s i u = Inr c" by (simp add: view_owned [OF view])
    from view_switched [OF ok(1) this, of u x] view_switched [OF ok(2) t, of u x] view show ?thesis by simp
  qed
  show "conversations_of u (snd (conversation_serve d rows u r s)) = conversations_of u (snd (conversation_serve d rows u r t))"
    using view by (auto simp: serve_state view_owned [OF view] dest: same split: conversation_call.split sum.split)
  show "fst (conversation_serve d rows u r s) = fst (conversation_serve d rows u r t)"
  proof (cases r)
    case (GetConversation i)
    then show ?thesis by (simp add: get_conversation_def view_shown [OF view])
  next
    case (SwitchModel i m)
    show ?thesis
    proof (cases "get_owned t i u")
      case (Inl e)
      with SwitchModel view_owned [OF view] show ?thesis
        by (auto simp: patch_conversation_def switch_conversation_model_def split: sum.split)
    next
      case (Inr c)
      note shown = view_shown [OF same [OF Inr, of "Some m"], of rows i]
      from SwitchModel Inr view_owned [OF view] show ?thesis
        by (simp add: patch_conversation_def switch_conversation_model_def Let_def shown split: sum.split prod.split)
    qed
  qed
qed

text \<open>C29: Users are isolated in the conversation endpoints: over any sequence of reads and model switches by any users, the
  replies one user gets, and the conversations and messages the user ends with, are those of the run of that user's
  requests alone, also when it starts from any other store in which that user's conversations and messages are the same.\<close>

theorem conversation_users_isolated:
  assumes "ids_distinct s" "ids_distinct t" "conversations_of u s = conversations_of u t"
  shows "of_user u (fst (serve_all (conversation_serve d rows) requests s))
      = fst (serve_all (conversation_serve d rows) (of_user u requests) t)
    \<and> conversations_of u (snd (serve_all (conversation_serve d rows) requests s))
      = conversations_of u (snd (serve_all (conversation_serve d rows) (of_user u requests) t))"
  by (rule conversation_users.unwinding [OF assms])

definition owners :: "(string \<times> string) list \<Rightarrow> chat_store" where
  "owners cs =
     \<lparr>cs_conversations = map (\<lambda>(i, u). \<lparr>cv_id = i, cv_user_id = u, cv_title = None, cv_summary = None, cv_summary_upto_seq = None,
        cv_context_classification = None, cv_model_id = None\<rparr>) cs,
      cs_messages = [], cs_next_seq = 1, cs_uuids = 2\<rparr>"

theorem conversation_users_isolated_witness:
  "of_user ''U002'' (fst (serve_all (conversation_serve talk_deps [])
       [(''U001'', SwitchModel ''c1'' ''other''), (''U002'', GetConversation ''c1'')]
       (owners [(''c1'', ''U001''), (''c2'', ''U002'')])))
   = [(''U002'', ConvRefused (HttpError 404 ''not_found'' []))]"
  using conversation_users_isolated [of "owners [(''c1'', ''U001''), (''c2'', ''U002'')]" "owners [(''c2'', ''U002'')]" "''U002''"
      talk_deps "[]" "[(''U001'', SwitchModel ''c1'' ''other''), (''U002'', GetConversation ''c1'')]"]
  by (simp add: owners_def ids_distinct_def conversations_of_def own_conversations_def get_conversation_def
      conversation_view_def get_owned_def)

end
