(* ===== verification/Clients.thy ===== *)
theory Clients
  imports GatewayStream Parsing
begin

text \<open>
  The HTTP clients of \<open>providers/\<close>: \<open>openai_compat.py\<close>, \<open>ollama.py\<close> and \<open>anthropic_provider.py\<close>. What the network delivers is an
  argument: the answer of a request, or the lines of a stream, each with the time it takes. So are the JSON decoder
  (\<open>loads\<close>) and the conversions \<open>int\<close> and \<open>float\<close>; an exception that is no \<open>ProviderError\<close> is a crash. A content that is
  there but is no text crashes at once, where the code would carry it to the place that joins it; a count below zero
  counts as none.
\<close>

section \<open>JSON as the clients read it\<close>

definition field_or_null :: "(string \<times> json) list \<Rightarrow> string \<Rightarrow> json" where
  "field_or_null kvs k = (case jget kvs k of None \<Rightarrow> JNull | Some v \<Rightarrow> v)"

text \<open>\<open>v.get(k)\<close>, \<open>v[k]\<close>, \<open>v[0]\<close> and iteration.\<close>

definition json_get :: "json \<Rightarrow> string \<Rightarrow> string + json" where
  "json_get v k = (case v of JObj kvs \<Rightarrow> Inr (field_or_null kvs k) | _ \<Rightarrow> Inl ''AttributeError'')"

definition json_index :: "json \<Rightarrow> string \<Rightarrow> string + json" where
  "json_index v k =
     (case v of JObj kvs \<Rightarrow> (case jget kvs k of None \<Rightarrow> Inl ''KeyError'' | Some x \<Rightarrow> Inr x) | _ \<Rightarrow> Inl ''TypeError'')"

definition json_first :: "json \<Rightarrow> string + json" where
  "json_first v =
     (case v of
        JList [] \<Rightarrow> Inl ''IndexError'' | JList (x # _) \<Rightarrow> Inr x
      | JStr [] \<Rightarrow> Inl ''IndexError'' | JStr (c # _) \<Rightarrow> Inr (JStr [c])
      | JObj _ \<Rightarrow> Inl ''KeyError'' | _ \<Rightarrow> Inl ''TypeError'')"

definition json_items :: "json \<Rightarrow> string + json list" where
  "json_items v =
     (case v of
        JList xs \<Rightarrow> Inr xs | JStr s \<Rightarrow> Inr (map (\<lambda>c. JStr [c]) s) | JObj kvs \<Rightarrow> Inr (map (\<lambda>kv. JStr (fst kv)) kvs)
      | _ \<Rightarrow> Inl ''TypeError'')"

text \<open>\<open>content or ""\<close>.\<close>

definition content_text :: "json \<Rightarrow> string + string" where
  "content_text v = (case v of JStr s \<Rightarrow> Inr s | _ \<Rightarrow> if truthy v then Inl ''TypeError'' else Inr [])"

definition finish_text :: "json \<Rightarrow> string option" where
  "finish_text v = (case v of JStr s \<Rightarrow> Some s | _ \<Rightarrow> None)"

section \<open>Requests over HTTP\<close>

datatype http_answer =
    HttpTimedOut
  | HttpTransport string
  | HttpAnswer int string "string option" "json option"
  | HttpCancelled

record client =
  cl_name :: string
  cl_float_of :: "string \<Rightarrow> rat option"
  cl_int_of :: "json \<Rightarrow> int option"
  cl_num_of :: "json \<Rightarrow> rat option"
  cl_loads :: "string \<Rightarrow> json option"

definition response_error :: "client \<Rightarrow> string \<Rightarrow> provider_error" where
  "response_error k msg = provider_exc ProviderResponseError (cl_name k) msg None"

definition transport_error :: "client \<Rightarrow> string \<Rightarrow> provider_error" where
  "transport_error k x = provider_exc ProviderUnavailable (cl_name k) (''transport error: '' @ x) None"

definition openai_post_json :: "client \<Rightarrow> http_answer \<Rightarrow> (string \<times> json) list reply" where
  "openai_post_json k a =
     (case a of
        HttpTimedOut \<Rightarrow> Raised (provider_exc ProviderTimeout (cl_name k) ''request timed out'' None)
      | HttpTransport x \<Rightarrow> Raised (transport_error k x)
      | HttpCancelled \<Rightarrow> Cancelled
      | HttpAnswer status body retry_after data \<Rightarrow>
          if 400 \<le> status then Raised (classify_http_status (cl_float_of k) (cl_name k) status body retry_after)
          else case data of
                 None \<Rightarrow> Raised (response_error k ''non-JSON response'')
               | Some (JObj kvs) \<Rightarrow> Returned kvs
               | Some _ \<Rightarrow> Raised (response_error k ''unexpected response type''))"

text \<open>Ollama's client does not read the \<open>Retry-After\<close> header.\<close>

definition ollama_post_json :: "client \<Rightarrow> http_answer \<Rightarrow> (string \<times> json) list reply" where
  "ollama_post_json k a =
     (case a of
        HttpAnswer status body retry_after data \<Rightarrow> openai_post_json k (HttpAnswer status body None data)
      | _ \<Rightarrow> openai_post_json k a)"

section \<open>Payloads\<close>

fun role_text :: "role \<Rightarrow> string" where
  "role_text RSystem = ''system''"
| "role_text RUser = ''user''"
| "role_text RAssistant = ''assistant''"

record chat_payload =
  cy_model :: string
  cy_messages :: "(string \<times> string) list"
  cy_max_tokens :: nat
  cy_stream :: bool
  cy_temperature :: "rat option"
  cy_include_usage :: bool
  cy_keep_alive :: "string option"

definition openai_chat_payload :: "string \<Rightarrow> chat_message list \<Rightarrow> chat_params \<Rightarrow> bool \<Rightarrow> chat_payload" where
  "openai_chat_payload m messages params stream =
     \<lparr>cy_model = m, cy_messages = map (\<lambda>x. (role_text (cm_role x), cm_content x)) messages, cy_max_tokens = cp_max_tokens params,
      cy_stream = stream, cy_temperature = cp_temperature params, cy_include_usage = stream, cy_keep_alive = None\<rparr>"

definition ollama_chat_payload :: "string \<Rightarrow> string \<Rightarrow> chat_message list \<Rightarrow> chat_params \<Rightarrow> bool \<Rightarrow> chat_payload" where
  "ollama_chat_payload keep_alive m messages params stream =
     \<lparr>cy_model = m, cy_messages = map (\<lambda>x. (role_text (cm_role x), cm_content x)) messages, cy_max_tokens = cp_max_tokens params,
      cy_stream = stream, cy_temperature = cp_temperature params, cy_include_usage = False, cy_keep_alive = Some keep_alive\<rparr>"

section \<open>Usage\<close>

definition estimated_usage :: "chat_message list \<Rightarrow> string \<Rightarrow> usage" where
  "estimated_usage messages completion =
     \<lparr>prompt_tokens = messages_estimate messages, completion_tokens = estimate_tokens completion, usage_estimated = True\<rparr>"

text \<open>The two counts of an object, the second \<open>or 0\<close>; without the first, an estimate. \<open>int\<close> of what is no number raises.\<close>

definition counted_usage ::
  "client \<Rightarrow> string \<Rightarrow> string \<Rightarrow> (string \<times> json) list \<Rightarrow> chat_message list \<Rightarrow> string \<Rightarrow> string + usage" where
  "counted_usage k prompt_key completion_key kvs messages completion =
     (if field_or_null kvs prompt_key = JNull then Inr (estimated_usage messages completion)
      else case cl_int_of k (field_or_null kvs prompt_key) of
             None \<Rightarrow> Inl ''ValueError''
           | Some p \<Rightarrow>
               (let raw = field_or_null kvs completion_key in
                case (if truthy raw then cl_int_of k raw else Some 0) of
                  None \<Rightarrow> Inl ''ValueError''
                | Some c \<Rightarrow> Inr \<lparr>prompt_tokens = nat p, completion_tokens = nat c, usage_estimated = False\<rparr>))"

definition openai_usage :: "client \<Rightarrow> json \<Rightarrow> chat_message list \<Rightarrow> string \<Rightarrow> string + usage" where
  "openai_usage k raw messages completion =
     (if \<not> truthy raw then Inr (estimated_usage messages completion)
      else case raw of
             JObj kvs \<Rightarrow> counted_usage k ''prompt_tokens'' ''completion_tokens'' kvs messages completion
           | _ \<Rightarrow> Inl ''AttributeError'')"

definition ollama_usage :: "client \<Rightarrow> (string \<times> json) list \<Rightarrow> chat_message list \<Rightarrow> string \<Rightarrow> string + usage" where
  "ollama_usage k data messages completion = counted_usage k ''prompt_eval_count'' ''eval_count'' data messages completion"

section \<open>chat\<close>

text \<open>\<open>except (KeyError, IndexError, TypeError)\<close>.\<close>

definition malformed :: "string list \<Rightarrow> client \<Rightarrow> string \<Rightarrow> string \<Rightarrow> 'r reply" where
  "malformed caught k msg x = (if x \<in> set caught then Raised (response_error k msg) else Crashed x)"

definition openai_content :: "(string \<times> json) list \<Rightarrow> string + json \<times> json" where
  "openai_content data =
     (case json_index (JObj data) ''choices'' of
        Inl x \<Rightarrow> Inl x
      | Inr cs \<Rightarrow>
          (case json_first cs of
             Inl x \<Rightarrow> Inl x
           | Inr choice \<Rightarrow>
               (case json_index choice ''message'' of
                  Inl x \<Rightarrow> Inl x
                | Inr m \<Rightarrow> map_sum id (\<lambda>c. (choice, c)) (json_get m ''content''))))"

definition openai_chat :: "client \<Rightarrow> chat_message list \<Rightarrow> http_answer \<Rightarrow> chat_result reply" where
  "openai_chat k messages a =
     (case openai_post_json k a of
        Raised e \<Rightarrow> Raised e | Cancelled \<Rightarrow> Cancelled | Crashed x \<Rightarrow> Crashed x
      | Returned data \<Rightarrow>
          (case openai_content data of
             Inl x \<Rightarrow> malformed [''KeyError'', ''IndexError'', ''TypeError''] k ''malformed chat response'' x
           | Inr (choice, c) \<Rightarrow>
               (case content_text c of
                  Inl x \<Rightarrow> Crashed x
                | Inr content \<Rightarrow>
                    (case openai_usage k (field_or_null data ''usage'') messages content of
                       Inl x \<Rightarrow> Crashed x
                     | Inr u \<Rightarrow>
                         (case json_get choice ''finish_reason'' of
                            Inl x \<Rightarrow> Crashed x
                          | Inr f \<Rightarrow> Returned \<lparr>cr_content = content, cr_usage = u, cr_finish_reason = finish_text f\<rparr>)))))"

definition ollama_chat :: "client \<Rightarrow> chat_message list \<Rightarrow> http_answer \<Rightarrow> chat_result reply" where
  "ollama_chat k messages a =
     (case ollama_post_json k a of
        Raised e \<Rightarrow> Raised e | Cancelled \<Rightarrow> Cancelled | Crashed x \<Rightarrow> Crashed x
      | Returned data \<Rightarrow>
          (case (case json_index (JObj data) ''message'' of Inl x \<Rightarrow> Inl x | Inr m \<Rightarrow> json_index m ''content'') of
             Inl x \<Rightarrow> malformed [''KeyError'', ''TypeError''] k ''malformed chat response'' x
           | Inr c \<Rightarrow>
               (case content_text c of
                  Inl x \<Rightarrow> Crashed x
                | Inr content \<Rightarrow>
                    (case ollama_usage k data messages content of
                       Inl x \<Rightarrow> Crashed x
                     | Inr u \<Rightarrow>
                         Returned \<lparr>cr_content = content, cr_usage = u, cr_finish_reason = finish_text (field_or_null data ''done_reason'')\<rparr>))))"

section \<open>Streams\<close>

datatype line_event = StreamLine string | LinesTimedOut | LinesTransport string | LinesCancelled

datatype http_stream =
    OpenTimedOut
  | OpenTransport string
  | OpenCancelled
  | OpenStatus int string "string option"
  | OpenLines "(rat \<times> line_event) list"

type_synonym steps = "(rat \<times> stream_step) list"

text \<open>The local variables of a stream.\<close>

record stream_vars =
  lv_produced :: "string list"
  lv_usage :: json
  lv_finish :: "string option"

definition fresh_vars :: stream_vars where
  "fresh_vars = \<lparr>lv_produced = [], lv_usage = JNull, lv_finish = None\<rparr>"

text \<open>What one line makes of the loop: go on, leave it, or raise; with the texts it yields before.\<close>

datatype line_end = LineNext | LineLast | LineRaises provider_error | LineCrashes string

definition stream_timeout :: "client \<Rightarrow> provider_error" where
  "stream_timeout k = provider_exc ProviderTimeout (cl_name k) ''stream timed out'' None"

text \<open>The loop over the lines, for what a line does and what follows the loop: the first step of a line waits for all the time
  since the last one.\<close>

fun over_lines ::
  "client \<Rightarrow> (stream_vars \<Rightarrow> string \<Rightarrow> string list \<times> stream_vars \<times> line_end) \<Rightarrow> (bool \<Rightarrow> stream_vars \<Rightarrow> stream_step)
   \<Rightarrow> stream_vars \<Rightarrow> rat \<Rightarrow> (rat \<times> line_event) list \<Rightarrow> steps" where
  "over_lines k line after v t [] = [(t, after False v)]"
| "over_lines k line after v t ((d, ev) # rest) =
     (case ev of
        LinesTimedOut \<Rightarrow> [(t + d, Breaks (stream_timeout k))]
      | LinesTransport x \<Rightarrow> [(t + d, Breaks (transport_error k x))]
      | LinesCancelled \<Rightarrow> [(t + d, StreamCancelled)]
      | StreamLine s \<Rightarrow>
          (case line v s of
             (texts, v', fin) \<Rightarrow>
               (let wait = (if texts = [] then t + d else 0);
                    said = (case texts of [] \<Rightarrow> []
                            | x # xs \<Rightarrow> (t + d, Yields (StreamDelta x)) # map (\<lambda>y. (0, Yields (StreamDelta y))) xs)
                in said @ (case fin of
                             LineNext \<Rightarrow> over_lines k line after v' wait rest
                           | LineLast \<Rightarrow> [(wait, after True v')]
                           | LineRaises e \<Rightarrow> [(wait, Breaks e)]
                           | LineCrashes x \<Rightarrow> [(wait, StreamCrashes x)]))))"

definition over_stream ::
  "client \<Rightarrow> (stream_vars \<Rightarrow> string \<Rightarrow> string list \<times> stream_vars \<times> line_end) \<Rightarrow> (bool \<Rightarrow> stream_vars \<Rightarrow> stream_step)
   \<Rightarrow> (string option \<Rightarrow> string option) \<Rightarrow> rat \<times> http_stream \<Rightarrow> steps" where
  "over_stream k line after header opened =
     (case opened of
        (t, OpenTimedOut) \<Rightarrow> [(t, Breaks (stream_timeout k))]
      | (t, OpenTransport x) \<Rightarrow> [(t, Breaks (transport_error k x))]
      | (t, OpenCancelled) \<Rightarrow> [(t, StreamCancelled)]
      | (t, OpenStatus status body retry_after) \<Rightarrow>
          [(t, Breaks (classify_http_status (cl_float_of k) (cl_name k) status body (header retry_after)))]
      | (t, OpenLines ls) \<Rightarrow> over_lines k line after fresh_vars t ls)"

subsection \<open>OpenAI\<close>

text \<open>\<open>(choice.get("delta") or {}).get("content")\<close>.\<close>

definition delta_content :: "json \<Rightarrow> string + json" where
  "delta_content choice =
     (case json_get choice ''delta'' of
        Inl x \<Rightarrow> Inl x
      | Inr d \<Rightarrow> if truthy d then json_get d ''content'' else Inr JNull)"

fun openai_choices :: "stream_vars \<Rightarrow> json list \<Rightarrow> string list \<times> stream_vars \<times> line_end" where
  "openai_choices v [] = ([], v, LineNext)"
| "openai_choices v (choice # rest) =
     (case delta_content choice of
        Inl x \<Rightarrow> ([], v, LineCrashes x)
      | Inr c \<Rightarrow>
          (case content_text c of
             Inl x \<Rightarrow> ([], v, LineCrashes x)
           | Inr t \<Rightarrow>
               (let fr = (case json_get choice ''finish_reason'' of Inr f \<Rightarrow> if truthy f then finish_text f else lv_finish v | Inl _ \<Rightarrow> lv_finish v);
                    v' = v\<lparr>lv_produced := lv_produced v @ (if t = [] then [] else [t]), lv_finish := fr\<rparr>
                in case openai_choices v' rest of
                     (texts, v'', fin) \<Rightarrow> ((if t = [] then [] else [t]) @ texts, v'', fin))))"

definition openai_line :: "client \<Rightarrow> stream_vars \<Rightarrow> string \<Rightarrow> string list \<times> stream_vars \<times> line_end" where
  "openai_line k v s =
     (if \<not> py_startswith s ''data:'' then ([], v, LineNext)
      else let data = py_strip (drop 5 s) in
           if data = ''[DONE]'' then ([], v, LineLast)
           else case cl_loads k data of
                  None \<Rightarrow> ([], v, LineRaises (response_error k ''malformed stream chunk''))
                | Some chunk \<Rightarrow>
                    (case (json_get chunk ''usage'', json_get chunk ''choices'') of
                       (Inr u, Inr cs) \<Rightarrow>
                         (let v' = (if truthy u then v\<lparr>lv_usage := u\<rparr> else v) in
                          case (if truthy cs then json_items cs else Inr []) of
                            Inl x \<Rightarrow> ([], v', LineCrashes x)
                          | Inr items \<Rightarrow> openai_choices v' items)
                     | _ \<Rightarrow> ([], v, LineCrashes ''AttributeError'')))"

text \<open>After the loop, however it was left.\<close>

definition openai_after :: "client \<Rightarrow> chat_message list \<Rightarrow> bool \<Rightarrow> stream_vars \<Rightarrow> stream_step" where
  "openai_after k messages broke v =
     (case openai_usage k (lv_usage v) messages (concat (lv_produced v)) of
        Inl x \<Rightarrow> StreamCrashes x | Inr u \<Rightarrow> Yields (StreamEnd u (lv_finish v)))"

definition openai_stream_chat :: "client \<Rightarrow> chat_message list \<Rightarrow> rat \<times> http_stream \<Rightarrow> steps" where
  "openai_stream_chat k messages = over_stream k (openai_line k) (openai_after k messages) (\<lambda>h. h)"

subsection \<open>Ollama\<close>

text \<open>\<open>"error" in chunk\<close>, and what fails when the chunk is no object.\<close>

definition not_an_object :: "json \<Rightarrow> string" where
  "not_an_object chunk =
     (case chunk of
        JList xs \<Rightarrow> if JStr ''error'' \<in> set xs then ''TypeError'' else ''AttributeError''
      | JStr s \<Rightarrow> if py_contains ''error'' s then ''TypeError'' else ''AttributeError''
      | _ \<Rightarrow> ''TypeError'')"

text \<open>\<open>final\<close> is the object of the last line.\<close>

definition ollama_line :: "client \<Rightarrow> stream_vars \<Rightarrow> string \<Rightarrow> string list \<times> stream_vars \<times> line_end" where
  "ollama_line k v s =
     (if py_strip s = [] then ([], v, LineNext)
      else case cl_loads k s of
             None \<Rightarrow> ([], v, LineRaises (response_error k ''malformed stream chunk''))
           | Some (JObj kvs) \<Rightarrow>
               (case jget kvs ''error'' of
                  Some e \<Rightarrow> ([], v, LineRaises (provider_exc ProviderUnavailable (cl_name k) (take 200 (json_str e)) None))
                | None \<Rightarrow>
                    (case (let m = field_or_null kvs ''message'' in if truthy m then json_get m ''content'' else Inr JNull) of
                       Inl x \<Rightarrow> ([], v, LineCrashes x)
                     | Inr c \<Rightarrow>
                         (case content_text c of
                            Inl x \<Rightarrow> ([], v, LineCrashes x)
                          | Inr t \<Rightarrow>
                              (let texts = (if t = [] then [] else [t]); v' = v\<lparr>lv_produced := lv_produced v @ texts\<rparr>
                               in if truthy (field_or_null kvs ''done'') then (texts, v'\<lparr>lv_usage := JObj kvs\<rparr>, LineLast)
                                  else (texts, v', LineNext)))))
           | Some chunk \<Rightarrow> ([], v, LineCrashes (not_an_object chunk)))"

definition ollama_after :: "client \<Rightarrow> chat_message list \<Rightarrow> bool \<Rightarrow> stream_vars \<Rightarrow> stream_step" where
  "ollama_after k messages broke v =
     (case lv_usage v of
        JObj final \<Rightarrow>
          (if \<not> broke then Breaks (response_error k ''stream ended without a final chunk'')
           else case ollama_usage k final messages (concat (lv_produced v)) of
                  Inl x \<Rightarrow> StreamCrashes x
                | Inr u \<Rightarrow> Yields (StreamEnd u (finish_text (field_or_null final ''done_reason''))))
      | _ \<Rightarrow> Breaks (response_error k ''stream ended without a final chunk''))"

definition ollama_stream_chat :: "client \<Rightarrow> chat_message list \<Rightarrow> rat \<times> http_stream \<Rightarrow> steps" where
  "ollama_stream_chat k messages = over_stream k (ollama_line k) (ollama_after k messages) (\<lambda>h. None)"

section \<open>Embeddings\<close>

fun collect :: "(json \<Rightarrow> 'a option) \<Rightarrow> json list \<Rightarrow> 'a list option" where
  "collect f [] = Some []"
| "collect f (x # xs) = (case f x of None \<Rightarrow> None | Some y \<Rightarrow> map_option ((#) y) (collect f xs))"

definition as_items :: "json \<Rightarrow> json list option" where
  "as_items v = (case json_items v of Inl _ \<Rightarrow> None | Inr xs \<Rightarrow> Some xs)"

definition float_vector :: "client \<Rightarrow> json \<Rightarrow> rat list option" where
  "float_vector k v = (case as_items v of None \<Rightarrow> None | Some xs \<Rightarrow> collect (cl_num_of k) xs)"

text \<open>A row's index and vector; an index that is no integer counts as malformed.\<close>

definition embedding_row :: "client \<Rightarrow> json \<Rightarrow> (int \<times> rat list) option" where
  "embedding_row k r =
     (case (json_index r ''index'', json_index r ''embedding'') of
        (Inr (JInt i), Inr v) \<Rightarrow> map_option (Pair i) (float_vector k v)
      | _ \<Rightarrow> None)"

definition openai_vectors :: "client \<Rightarrow> (string \<times> json) list \<Rightarrow> rat list list option" where
  "openai_vectors k data =
     (case jget data ''data'' of
        None \<Rightarrow> None
      | Some rows \<Rightarrow>
          (case as_items rows of
             None \<Rightarrow> None
           | Some xs \<Rightarrow> map_option (\<lambda>rs. map snd (sort_key fst rs)) (collect (embedding_row k) xs)))"

definition embed_usage :: "client \<Rightarrow> json \<Rightarrow> string list \<Rightarrow> string + usage" where
  "embed_usage k tokens inputs =
     (if tokens = JNull
      then Inr \<lparr>prompt_tokens = sum_list (map estimate_tokens inputs), completion_tokens = 0, usage_estimated = True\<rparr>
      else case cl_int_of k tokens of
             None \<Rightarrow> Inl ''ValueError''
           | Some n \<Rightarrow> Inr \<lparr>prompt_tokens = nat n, completion_tokens = 0, usage_estimated = False\<rparr>)"

definition embedded :: "client \<Rightarrow> string list \<Rightarrow> rat list list option \<Rightarrow> string + usage \<Rightarrow> embedding_result reply" where
  "embedded k inputs vectors u =
     (case vectors of
        None \<Rightarrow> Raised (response_error k ''malformed embedding response'')
      | Some vs \<Rightarrow>
          if length vs \<noteq> length inputs then Raised (response_error k ''embedding count mismatch'')
          else case u of Inl x \<Rightarrow> Crashed x | Inr n \<Rightarrow> Returned \<lparr>er_vectors = vs, er_usage = n\<rparr>)"

definition openai_embed :: "client \<Rightarrow> string list \<Rightarrow> http_answer \<Rightarrow> embedding_result reply" where
  "openai_embed k inputs a =
     (case openai_post_json k a of
        Raised e \<Rightarrow> Raised e | Cancelled \<Rightarrow> Cancelled | Crashed x \<Rightarrow> Crashed x
      | Returned data \<Rightarrow>
          embedded k inputs (openai_vectors k data)
            (let raw = field_or_null data ''usage'' in
             case (if truthy raw then json_get raw ''prompt_tokens'' else Inr JNull) of
               Inl x \<Rightarrow> Inl x | Inr tokens \<Rightarrow> embed_usage k tokens inputs))"

text \<open>What is sent: the input type of NVIDIA's models, the task prefixes of Ollama's.\<close>

record embed_payload =
  ey_model :: string
  ey_input :: "string list"
  ey_input_type :: "string option"
  ey_keep_alive :: "string option"

definition openai_embed_payload :: "bool \<Rightarrow> string \<Rightarrow> string list \<Rightarrow> string \<Rightarrow> embed_payload" where
  "openai_embed_payload send_input_type m inputs input_type =
     \<lparr>ey_model = m, ey_input = inputs, ey_input_type = (if send_input_type then Some input_type else None), ey_keep_alive = None\<rparr>"

definition task_prefix :: "string \<Rightarrow> string \<Rightarrow> string" where
  "task_prefix m input_type =
     (if hd (py_split_on CHR '':'' m) \<noteq> ''nomic-embed-text'' then []
      else if input_type = ''query'' then ''search_query: '' else if input_type = ''passage'' then ''search_document: '' else [])"

definition ollama_embed_payload :: "string \<Rightarrow> string \<Rightarrow> string list \<Rightarrow> string \<Rightarrow> embed_payload" where
  "ollama_embed_payload keep_alive m inputs input_type =
     \<lparr>ey_model = m, ey_input = map (\<lambda>t. task_prefix m input_type @ t) inputs, ey_input_type = None, ey_keep_alive = Some keep_alive\<rparr>"

definition ollama_embed :: "client \<Rightarrow> string list \<Rightarrow> http_answer \<Rightarrow> embedding_result reply" where
  "ollama_embed k inputs a =
     (case ollama_post_json k a of
        Raised e \<Rightarrow> Raised e | Cancelled \<Rightarrow> Cancelled | Crashed x \<Rightarrow> Crashed x
      | Returned data \<Rightarrow>
          embedded k inputs
            (case jget data ''embeddings'' of
               None \<Rightarrow> None
             | Some v \<Rightarrow> (case as_items v of None \<Rightarrow> None | Some xs \<Rightarrow> collect (float_vector k) xs))
            (embed_usage k (field_or_null data ''prompt_eval_count'') inputs))"

section \<open>Anthropic\<close>

text \<open>The SDK's exceptions, in the order of their test; the others are named by their class.\<close>

datatype sdk_error =
    APITimeoutError
  | APIConnectionError
  | RateLimitError "string option"
  | AuthenticationError int
  | PermissionDeniedError int
  | NotFoundError
  | APIStatusError int
  | OtherAPIError string

definition map_error :: "client \<Rightarrow> sdk_error \<Rightarrow> provider_error" where
  "map_error k e =
     (case e of
        APITimeoutError \<Rightarrow> provider_exc ProviderTimeout (cl_name k) ''request timed out'' None
      | APIConnectionError \<Rightarrow> provider_exc ProviderUnavailable (cl_name k) ''connection error'' None
      | RateLimitError h \<Rightarrow> provider_exc (ProviderRateLimited (retry_seconds (cl_float_of k) h)) (cl_name k) ''rate limited'' (Some 429)
      | AuthenticationError s \<Rightarrow> provider_exc ProviderAuthError (cl_name k) ''auth failed'' (Some s)
      | PermissionDeniedError s \<Rightarrow> provider_exc ProviderAuthError (cl_name k) ''auth failed'' (Some s)
      | NotFoundError \<Rightarrow> provider_exc ProviderModelNotFound (cl_name k) ''model not found'' (Some 404)
      | APIStatusError s \<Rightarrow>
          if 500 \<le> s \<or> s = 408 \<or> s = 409
          then provider_exc ProviderUnavailable (cl_name k) (''HTTP '' @ int_str s) (Some s)
          else provider_exc ProviderBadRequest (cl_name k) (''HTTP '' @ int_str s) (Some s)
      | OtherAPIError x \<Rightarrow> provider_exc ProviderResponseError (cl_name k) x None)"

record anthropic_request =
  aq_model :: string
  aq_max_tokens :: nat
  aq_messages :: "(role \<times> string) list"
  aq_system :: "string option"
  aq_temperature :: "rat option"

definition blank_line :: string where
  "blank_line = [CHR 0x0A, CHR 0x0A]"

text \<open>The loop over the messages: a turn of the same role as the last one is joined to it.\<close>

definition add_turn :: "(role \<times> string) list \<Rightarrow> chat_message \<Rightarrow> (role \<times> string) list" where
  "add_turn turns m =
     (if cm_role m = RSystem then turns
      else if turns \<noteq> [] \<and> fst (last turns) = cm_role m
           then butlast turns @ [(cm_role m, snd (last turns) @ blank_line @ cm_content m)]
           else turns @ [(cm_role m, cm_content m)])"

definition anthropic_request_of :: "string \<Rightarrow> chat_message list \<Rightarrow> chat_params \<Rightarrow> anthropic_request" where
  "anthropic_request_of m messages params =
     (let system = py_join blank_line (map cm_content (filter (\<lambda>x. cm_role x = RSystem) messages)) in
      \<lparr>aq_model = m, aq_max_tokens = cp_max_tokens params, aq_messages = foldl add_turn [] messages,
       aq_system = (if system = [] then None else Some system), aq_temperature = cp_temperature params\<rparr>)"

record sdk_message =
  sk_blocks :: "(string \<times> string) list"
  sk_input_tokens :: nat
  sk_output_tokens :: nat
  sk_stop_reason :: "string option"

datatype sdk_answer = SdkMessage sdk_message | SdkRaises sdk_error | SdkCancelled | SdkCrashes string

definition sdk_usage :: "sdk_message \<Rightarrow> usage" where
  "sdk_usage m = \<lparr>prompt_tokens = sk_input_tokens m, completion_tokens = sk_output_tokens m, usage_estimated = False\<rparr>"

definition anthropic_chat :: "client \<Rightarrow> sdk_answer \<Rightarrow> chat_result reply" where
  "anthropic_chat k a =
     (case a of
        SdkRaises e \<Rightarrow> Raised (map_error k e) | SdkCancelled \<Rightarrow> Cancelled | SdkCrashes x \<Rightarrow> Crashed x
      | SdkMessage m \<Rightarrow>
          Returned \<lparr>cr_content = concat (map snd (filter (\<lambda>b. fst b = ''text'') (sk_blocks m))), cr_usage = sdk_usage m,
                    cr_finish_reason = sk_stop_reason m\<rparr>)"

text \<open>The SDK's stream: texts, then its final message, or what cuts it off.\<close>

fun anthropic_stream_chat :: "client \<Rightarrow> rat \<Rightarrow> (rat \<times> string) list \<Rightarrow> rat \<times> sdk_answer \<Rightarrow> steps" where
  "anthropic_stream_chat k t [] fin =
     (case fin of
        (d, SdkMessage m) \<Rightarrow> [(t + d, Yields (StreamEnd (sdk_usage m) (sk_stop_reason m)))]
      | (d, SdkRaises e) \<Rightarrow> [(t + d, Breaks (map_error k e))]
      | (d, SdkCancelled) \<Rightarrow> [(t + d, StreamCancelled)]
      | (d, SdkCrashes x) \<Rightarrow> [(t + d, StreamCrashes x)])"
| "anthropic_stream_chat k t ((d, text) # rest) fin =
     (if text = [] then anthropic_stream_chat k (t + d) rest fin
      else (t + d, Yields (StreamDelta text)) # anthropic_stream_chat k 0 rest fin)"

end
