(* ===== verification/ClientsProps.thy ===== *)
theory ClientsProps
  imports Clients
begin

text \<open>
  What the gateway may expect of a client's stream and what its own loop then cannot report, the request Claude is sent,
  and how errors are classified.
\<close>

section \<open>The stream of a client\<close>

text \<open>Texts, none of them empty, then exactly one step that is no text.\<close>

fun provider_steps :: "steps \<Rightarrow> bool" where
  "provider_steps [] = False"
| "provider_steps ((d, Yields (StreamDelta t)) # rest) = (t \<noteq> [] \<and> provider_steps rest)"
| "provider_steps ((d, x) # rest) = (rest = [])"

lemma provider_steps_last:
  "(case x of Yields (StreamDelta _) \<Rightarrow> False | _ \<Rightarrow> True) \<Longrightarrow> provider_steps [(d, x)]"
  by (cases x) (auto split: stream_item.splits)

lemma provider_steps_texts:
  "list_all (\<lambda>t. t \<noteq> []) ts \<Longrightarrow> provider_steps (map (\<lambda>y. (0, Yields (StreamDelta y))) ts @ rest) = provider_steps rest"
  by (induction ts) auto

text \<open>The Protocol \<open>ChatProvider\<close>, as far as the gateway's streaming relies on it.\<close>

locale stream_provider =
  fixes opens :: "nat \<Rightarrow> model_spec \<Rightarrow> chat_message list \<Rightarrow> chat_params \<Rightarrow> steps"
  assumes steps: "provider_steps (opens n spec messages params)"
begin

lemma first_item:
  obtains d x rest where "opens n spec messages params = (d, x) # rest"
  using steps [of n spec messages params] by (cases "opens n spec messages params") auto

text \<open>While the body is streamed the only errors are time-outs and what the provider itself raised: the gateway never
  finds a stream that ends without its last step.\<close>

lemma body_error:
  assumes "pump g c spec dl item items produced w = (EndError e, produced', w')"
    and "case item of StreamDelta t \<Rightarrow> provider_steps items | StreamEnd u f \<Rightarrow> items = []"
  shows "pe_kind e = ProviderTimeout \<or> (\<exists>d. (d, Breaks e) \<in> set items)"
  using assms
proof (induction g c spec dl item items produced w rule: pump.induct)
  case (2 g c spec dl t items produced w)
  then obtain d x rest where items: "items = (d, x) # rest" by (cases items) auto
  let ?y = "emit c (StreamText t) w"
  let ?idle = "min (gw_stream_idle_timeout_s g) (dl - w_now (snd ?y))"
  show ?case
  proof (cases "fst ?y \<or> ?idle \<le> 0")
    case True
    with 2(2) show ?thesis by (auto simp: Let_def split: if_splits)
  next
    case go: False
    show ?thesis
    proof (cases "d < ?idle")
      case False
      with 2(2) items go show ?thesis by (auto simp: Let_def next_item_def step_end_def)
    next
      case True
      note n = True
      show ?thesis
      proof (cases x)
        case (Yields it)
        have ok: "case it of StreamDelta t \<Rightarrow> provider_steps (tl items) | StreamEnd u f \<Rightarrow> tl items = []"
          using 2(3) items Yields by (cases it) auto
        have nx: "next_item spec ?idle ''next chunk'' items = (d, Yields it)" "items \<noteq> []"
          using n items Yields by (simp_all add: next_item_def)
        have go': "\<not> fst ?y" "\<not> ?idle \<le> 0" using go by auto
        have "pump g c spec dl it (tl items) (produced @ [t]) (advance (fst (next_item spec ?idle ''next chunk'' items)) (snd ?y))
            = (EndError e, produced', w')"
          using 2(2) go' nx by (simp add: Let_def)
        from 2(1) [OF refl refl go'(1) refl go'(2) refl refl _ nx(2) this ok] nx(1)
        show ?thesis by (auto simp: items)
      qed (use 2(2) go n items in \<open>auto simp: Let_def next_item_def step_end_def\<close>)
    qed
  qed
qed simp

lemma stream_error:
  assumes "opens n spec messages params = (d, Yields item) # rest"
    and "pump g c spec' dl item rest produced w = (EndError e, produced', w')"
  shows "pe_kind e = ProviderTimeout \<or> (\<exists>d. (d, Breaks e) \<in> set rest)"
proof (rule body_error [OF assms(2)])
  show "case item of StreamDelta t \<Rightarrow> provider_steps rest | StreamEnd u f \<Rightarrow> rest = []"
    using steps [of n spec messages params] by (cases item) (simp_all add: assms(1))
qed

end

section \<open>The three clients\<close>

lemma over_lines_steps:
  assumes "\<And>v s. list_all (\<lambda>t. t \<noteq> []) (fst (line v s))"
    and "\<And>b v. case after b v of Yields (StreamDelta _) \<Rightarrow> False | _ \<Rightarrow> True"
  shows "provider_steps (over_lines k line after v t ls)"
proof (induction ls arbitrary: v t)
  case Nil
  show ?case using assms(2) [of False v] provider_steps_last by simp
next
  case (Cons x ls)
  obtain d ev where x: "x = (d, ev)" by (cases x)
  show ?case
  proof (cases ev)
    case (StreamLine s)
    obtain texts v' fin where l: "line v s = (texts, v', fin)" by (metis prod_cases3)
    with assms(1) [of v s] have ne: "list_all (\<lambda>t. t \<noteq> []) texts" by simp
    define wait where "wait = (if texts = [] then t + d else 0)"
    define rest where "rest = (case fin of LineNext \<Rightarrow> over_lines k line after v' wait ls | LineLast \<Rightarrow> [(wait, after True v')]
        | LineRaises e \<Rightarrow> [(wait, Breaks e)] | LineCrashes y \<Rightarrow> [(wait, StreamCrashes y)])"
    have r: "provider_steps rest"
      using Cons [of v' wait] assms(2) [of True v'] provider_steps_last by (cases fin) (simp_all add: rest_def)
    have "over_lines k line after v t (x # ls)
        = (case texts of [] \<Rightarrow> [] | y # ys \<Rightarrow> (t + d, Yields (StreamDelta y)) # map (\<lambda>y. (0, Yields (StreamDelta y))) ys) @ rest"
      unfolding rest_def wait_def by (simp only: x StreamLine l over_lines.simps Let_def prod.case line_event.case)
    with ne r show ?thesis
      using provider_steps_texts [of "tl texts" rest] by (cases texts) simp_all
  qed (simp_all add: x)
qed

lemma over_stream_steps:
  assumes "\<And>v s. list_all (\<lambda>t. t \<noteq> []) (fst (line v s))"
    and "\<And>b v. case after b v of Yields (StreamDelta _) \<Rightarrow> False | _ \<Rightarrow> True"
  shows "provider_steps (over_stream k line after header opened)"
  using over_lines_steps [OF assms]
  by (cases opened; cases "snd opened") (auto simp: over_stream_def)

lemma openai_choices_texts: "list_all (\<lambda>t. t \<noteq> []) (fst (openai_choices v cs))"
proof (induction cs arbitrary: v)
  case (Cons c cs)
  note ih = Cons
  show ?case
  proof (cases "\<exists>t d. delta_content c = Inr d \<and> content_text d = Inr t")
    case True
    then obtain t d where td: "delta_content c = Inr d" "content_text d = Inr t" by blast
    have keep: "list_all (\<lambda>t. t \<noteq> []) (fst (case openai_choices v' cs of (texts, v'', fin) \<Rightarrow> ((if t = [] then [] else [t]) @ texts, v'', fin)))"
      for v'
      using ih [of v'] by (cases "openai_choices v' cs") simp
    show ?thesis unfolding openai_choices.simps td sum.case Let_def by (rule keep)
  next
    case False
    then show ?thesis by (cases "delta_content c") (auto split: sum.splits)
  qed
qed simp

lemma openai_line_texts: "list_all (\<lambda>t. t \<noteq> []) (fst (openai_line k v s))"
  using openai_choices_texts
  by (auto simp: openai_line_def Let_def split: option.splits sum.splits)

lemma ollama_line_texts: "list_all (\<lambda>t. t \<noteq> []) (fst (ollama_line k v s))"
  by (auto simp: ollama_line_def Let_def split: option.splits json.splits sum.splits)

lemma openai_after_last: "case openai_after k messages b v of Yields (StreamDelta _) \<Rightarrow> False | _ \<Rightarrow> True"
  by (auto simp: openai_after_def split: sum.splits)

lemma ollama_after_last: "case ollama_after k messages b v of Yields (StreamDelta _) \<Rightarrow> False | _ \<Rightarrow> True"
  by (auto simp: ollama_after_def split: sum.splits json.splits)

lemma openai_steps: "provider_steps (openai_stream_chat k messages opened)"
  unfolding openai_stream_chat_def by (intro over_stream_steps openai_line_texts openai_after_last)

lemma ollama_steps: "provider_steps (ollama_stream_chat k messages opened)"
  unfolding ollama_stream_chat_def by (intro over_stream_steps ollama_line_texts ollama_after_last)

lemma anthropic_steps: "provider_steps (anthropic_stream_chat k t texts fin)"
  by (induction texts arbitrary: t) (auto split: sdk_answer.splits prod.splits)

interpretation openai: stream_provider "\<lambda>n spec messages params. openai_stream_chat k messages (net n spec messages params)"
  by unfold_locales (rule openai_steps)

interpretation ollama: stream_provider "\<lambda>n spec messages params. ollama_stream_chat k messages (net n spec messages params)"
  by unfold_locales (rule ollama_steps)

interpretation anthropic: stream_provider
    "\<lambda>n spec messages params. anthropic_stream_chat k 0 (fst (net n spec messages params)) (snd (net n spec messages params))"
  by unfold_locales (rule anthropic_steps)

text \<open>Once a client has begun to answer, its stream fails in the gateway only by a time-out or an error the client raised: the gateway's
  own error, of a stream that ends without a completion, cannot occur.\<close>

corollary openai_stream_error:
  assumes "openai_stream_chat k messages (t, opened) = (d, Yields item) # rest"
    and "pump g c spec dl item rest produced w = (EndError e, produced', w')"
  shows "pe_kind e = ProviderTimeout \<or> (\<exists>d. (d, Breaks e) \<in> set rest)"
  using openai.stream_error [where net = "\<lambda>n spec messages params. (t, opened)"] assms by blast

corollary ollama_stream_error:
  assumes "ollama_stream_chat k messages (t, opened) = (d, Yields item) # rest"
    and "pump g c spec dl item rest produced w = (EndError e, produced', w')"
  shows "pe_kind e = ProviderTimeout \<or> (\<exists>d. (d, Breaks e) \<in> set rest)"
  using ollama.stream_error [where net = "\<lambda>n spec messages params. (t, opened)"] assms by blast

section \<open>The end of an OpenAI stream\<close>

lemma over_lines_end:
  assumes "\<And>b v. after b v = after True v" "\<And>v. line v e = ([], v, LineLast)"
  shows "over_lines k line after v t (ls @ [(0, StreamLine e)]) = over_lines k line after v t ls"
proof (induction ls arbitrary: v t)
  case Nil
  show ?case using assms(1) [of False v] by (simp add: assms(2) Let_def)
next
  case (Cons x ls)
  obtain d ev where x: "x = (d, ev)" by (cases x)
  show ?case
    by (cases ev) (simp_all add: x Cons Let_def split: prod.split line_end.split)
qed

text \<open>The end marker of an OpenAI stream makes no difference: with or without \<open>[DONE]\<close> as the last line, whatever lines come
  before, the client delivers the same steps. An answer whose connection is closed in the middle is therefore
  delivered as a complete one.\<close>

theorem completion_marker_ignored:
  "openai_stream_chat k messages (t, OpenLines (ls @ [(0, StreamLine ''data: [DONE]'')])) = openai_stream_chat k messages (t, OpenLines ls)"
proof -
  have "openai_line k v ''data: [DONE]'' = ([], v, LineLast)" for v
  proof -
    have "py_startswith ''data: [DONE]'' ''data:''" "py_strip (drop 5 ''data: [DONE]'') = ''[DONE]''" by code_simp+
    then show ?thesis by (simp add: openai_line_def)
  qed
  moreover have "openai_after k messages b v = openai_after k messages True v" for b v
    by (simp add: openai_after_def)
  ultimately show ?thesis
    by (simp add: openai_stream_chat_def over_stream_def over_lines_end)
qed

section \<open>Replies of an unexpected shape\<close>

text \<open>A reply whose message is null is not answered as malformed: the attribute error escapes the client, so the request fails
  without retry or fallback, while a reply without choices raises the response error the gateway falls back on.\<close>

theorem null_message_escapes:
  "openai_chat k messages (HttpAnswer 200 body h (Some (JObj [(''choices'', JList [JObj [(''message'', JNull)]])]))) = Crashed ''AttributeError''
   \<and> openai_chat k messages (HttpAnswer 200 body h (Some (JObj [(''choices'', JList [])]))) = Raised (response_error k ''malformed chat response'')"
  by (simp add: openai_chat_def openai_post_json_def openai_content_def json_index_def json_first_def json_get_def jget_def malformed_def)

section \<open>The request Claude is sent\<close>

definition alternating :: "(role \<times> 'a) list \<Rightarrow> bool" where
  "alternating ts \<longleftrightarrow> list_all (\<lambda>t. fst t \<noteq> RSystem) ts \<and> successively (\<lambda>a b. fst a \<noteq> fst b) ts"

lemma add_turn_alternating: "alternating ts \<Longrightarrow> alternating (add_turn ts m)"
proof (cases "ts = []")
  case True
  then show ?thesis by (auto simp: add_turn_def alternating_def)
next
  case False
  assume a: "alternating ts"
  from False obtain us u where ts: "ts = us @ [u]" by (cases ts rule: rev_cases) auto
  obtain r c where u: "u = (r, c)" by (cases u)
  have us: "alternating (us @ [(r, d)])" for d
    using a by (auto simp: ts u alternating_def successively_append_iff)
  show ?thesis
    using us [of "c @ blank_line @ cm_content m"] a
    by (auto simp: ts u add_turn_def alternating_def successively_append_iff)
qed

lemma add_turn_join:
  "py_join blank_line (map snd (add_turn ts m))
     = py_join blank_line (map snd ts @ (if cm_role m = RSystem then [] else [cm_content m]))"
proof (cases "ts = []")
  case True
  then show ?thesis by (simp add: add_turn_def)
next
  case False
  then obtain us u where ts: "ts = us @ [u]" by (cases ts rule: rev_cases) auto
  show ?thesis
    by (cases "us = []") (simp_all add: ts add_turn_def py_join_append)
qed

lemma py_join_cong: "py_join s xs = py_join s ys \<Longrightarrow> (xs = [] \<longleftrightarrow> ys = []) \<Longrightarrow> py_join s (xs @ zs) = py_join s (ys @ zs)"
  by (cases "zs = []"; cases "xs = []") (auto simp: py_join_append)

lemma turns_of:
  "alternating (foldl add_turn [] ms)
   \<and> (foldl add_turn [] ms = [] \<longleftrightarrow> filter (\<lambda>x. cm_role x \<noteq> RSystem) ms = [])
   \<and> py_join blank_line (map snd (foldl add_turn [] ms)) = py_join blank_line (map cm_content (filter (\<lambda>x. cm_role x \<noteq> RSystem) ms))"
proof (induction ms rule: rev_induct)
  case (snoc m ms)
  let ?t = "foldl add_turn [] ms" and ?c = "map cm_content (filter (\<lambda>x. cm_role x \<noteq> RSystem) ms)"
  have "py_join blank_line (map snd ?t @ zs) = py_join blank_line (?c @ zs)" for zs
    using snoc by (intro py_join_cong) auto
  moreover have "py_join blank_line (map snd (add_turn ?t m)) = py_join blank_line (map cm_content (filter (\<lambda>x. cm_role x \<noteq> RSystem) (ms @ [m])))"
    using calculation [of "if cm_role m = RSystem then [] else [cm_content m]"] by (simp add: add_turn_join)
  moreover have "add_turn ?t m = [] \<longleftrightarrow> filter (\<lambda>x. cm_role x \<noteq> RSystem) (ms @ [m]) = []"
    using snoc by (auto simp: add_turn_def [of ?t])
  ultimately show ?case
    using snoc add_turn_alternating [of ?t m] by simp
qed (simp add: alternating_def)

text \<open>Claude is sent everything, in the form it requires: the turns alternate between user and assistant and none is a system
  turn; joined by blank lines they are the other messages, in order and complete, and the system field is the
  system messages, left out when there is nothing in it.\<close>

theorem anthropic_request_faithful:
  "(let q = anthropic_request_of m messages params in
      alternating (aq_messages q)
      \<and> py_join blank_line (map snd (aq_messages q)) = py_join blank_line (map cm_content (filter (\<lambda>x. cm_role x \<noteq> RSystem) messages))
      \<and> (case aq_system q of None \<Rightarrow> [] | Some x \<Rightarrow> x) = py_join blank_line (map cm_content (filter (\<lambda>x. cm_role x = RSystem) messages))
      \<and> aq_system q \<noteq> Some [])"
  using turns_of [of messages] by (simp add: anthropic_request_of_def Let_def)

section \<open>Errors of the SDK\<close>

text \<open>The class the SDK raises for an HTTP status.\<close>

definition sdk_error_of :: "int \<Rightarrow> string option \<Rightarrow> sdk_error" where
  "sdk_error_of status h =
     (if status = 429 then RateLimitError h else if status = 401 then AuthenticationError 401
      else if status = 403 then PermissionDeniedError 403 else if status = 404 then NotFoundError else APIStatusError status)"

text \<open>Claude's errors are classified as the same HTTP status of any other provider would be, so the gateway retries, falls back
  and gives up alike; the one exception is a conflict (409), which is worth a retry only for Claude.\<close>

theorem sdk_errors_classified:
  "pe_kind (map_error k (sdk_error_of s h))
     = (if s = 409 then ProviderUnavailable else pe_kind (classify_http_status (cl_float_of k) p s body h))"
  by (simp add: map_error_def sdk_error_of_def classify_http_status_def Let_def)

text \<open>C40: Whatever the network delivers, a client's stream is texts, none of them empty, followed by exactly one last step: the
  completion, an error of the gateway's hierarchy, a cancellation or a crash.\<close>

theorem client_streams_wellformed:
  "provider_steps (openai_stream_chat k messages opened) \<and> provider_steps (ollama_stream_chat k messages opened)
   \<and> provider_steps (anthropic_stream_chat k t texts fin)"
  using openai_steps ollama_steps anthropic_steps by blast

end
