(* ===== verification/RateLimit.thy ===== *)
theory RateLimit
  imports Auth
begin

text \<open>
  \<open>ratelimit.py\<close>: the token bucket the Redis script keeps per caller and bucket name, the choice of
  identity and bucket, and what the ASGI middleware does with a request. Numbers are exact
  rationals (the script uses doubles). The expiry of a key is part of the store, with Redis' clock
  as an argument, so that its effect can be stated.
\<close>

section \<open>The bucket script\<close>

record bucket =
  bk_tokens :: rat
  bk_ts :: rat
  bk_expires :: int

text \<open>One run of the script on the stored \<open>(tokens, ts)\<close>: whether the cost was taken, the wait
  time, and the tokens left.\<close>

definition bucket_take :: "rat \<Rightarrow> rat \<Rightarrow> rat \<Rightarrow> rat \<Rightarrow> (rat \<times> rat) option \<Rightarrow> bool \<times> rat \<times> rat" where
  "bucket_take rate burst now cost state =
     (let stored = (case state of None \<Rightarrow> (burst, now) | Some st \<Rightarrow> st);
          tokens = min burst (fst stored + (now - snd stored) * rate)
      in if cost \<le> tokens then (True, 0, tokens - cost)
         else (False, (cost - tokens) / rate, tokens))"

text \<open>The keys of the store; \<open>t\<close> is Redis' own clock in seconds.\<close>

type_synonym store = "(string, bucket) dict"

definition live :: "store \<Rightarrow> int \<Rightarrow> string \<Rightarrow> (rat \<times> rat) option" where
  "live st t key =
     (case dict_get st key of
        None \<Rightarrow> None
      | Some b \<Rightarrow> if bk_expires b \<le> t then None else Some (bk_tokens b, bk_ts b))"

definition ttl :: "rat \<Rightarrow> rat \<Rightarrow> int" where
  "ttl rate burst = \<lceil>burst / rate\<rceil> + 60"

definition run_script ::
  "string \<Rightarrow> rat \<Rightarrow> rat \<Rightarrow> rat \<Rightarrow> rat \<Rightarrow> int \<Rightarrow> store \<Rightarrow> (bool \<times> rat \<times> rat) \<times> store" where
  "run_script key rate burst now cost t st =
     (let r = bucket_take rate burst now cost (live st t key)
      in (r, dict_put key \<lparr>bk_tokens = snd (snd r), bk_ts = now, bk_expires = t + ttl rate burst\<rparr> st))"

section \<open>The limiter\<close>

record decision =
  d_allowed :: bool
  d_retry_after :: int
  d_remaining :: int
  d_bucket :: string

text \<open>\<open>int(x)\<close> truncates towards zero.\<close>

definition trunc :: "rat \<Rightarrow> int" where
  "trunc x = (if 0 \<le> x then \<lfloor>x\<rfloor> else \<lceil>x\<rceil>)"

definition bucket_key :: "string \<Rightarrow> string \<Rightarrow> string" where
  "bucket_key bucket identity = ''ratelimit:'' @ bucket @ '':'' @ identity"

text \<open>\<open>up\<close>: whether Redis answered; when it did not, the limiter fails open.\<close>

definition check_limit ::
  "bool \<Rightarrow> string \<Rightarrow> string \<Rightarrow> int \<Rightarrow> int \<Rightarrow> rat \<Rightarrow> int \<Rightarrow> store \<Rightarrow> decision \<times> store" where
  "check_limit up identity bucket per_minute burst now t st =
     (if \<not> up then (\<lparr>d_allowed = True, d_retry_after = 0, d_remaining = burst, d_bucket = bucket\<rparr>, st)
      else let r = run_script (bucket_key bucket identity) (of_int per_minute / 60) (of_int burst) now 1 t st in
           (\<lparr>d_allowed = fst (fst r), d_retry_after = max 1 \<lceil>fst (snd (fst r))\<rceil>,
             d_remaining = max 0 (trunc (snd (snd (fst r)))), d_bucket = bucket\<rparr>, snd r))"

definition exempt_paths :: "string list" where
  "exempt_paths = [''/healthz'', ''/readyz'', ''/metrics'']"

definition expensive_prefixes :: "string list" where
  "expensive_prefixes = [''/api/chat'', ''/api/embeddings'', ''/api/search'', ''/api/documents'']"

definition bucket_for :: "string \<Rightarrow> string" where
  "bucket_for path = (if list_ex (py_startswith path) expensive_prefixes then ''expensive'' else ''standard'')"

definition identity_of :: "jwt_decode \<Rightarrow> settings \<Rightarrow> int \<Rightarrow> (string, string) dict \<Rightarrow> string \<Rightarrow> token_error + string" where
  "identity_of dec s now headers client =
     (let auth = (case dict_get headers ''authorization'' of Some a \<Rightarrow> a | None \<Rightarrow> []) in
      if py_startswith (py_lower auth) ''bearer '' then
        (case decode_token dec s now (py_strip (drop 7 auth)) of
           Inr (uid, role) \<Rightarrow> Inr (''user:'' @ uid)
         | Inl InvalidToken \<Rightarrow> Inr (''ip:'' @ client)
         | Inl e \<Rightarrow> Inl e)
      else Inr (''ip:'' @ client))"

section \<open>The middleware\<close>

record http_request =
  rq_type :: string
  rq_path :: string
  rq_headers :: "(string \<times> string) list"
  rq_client :: "string option"
  rq_request_id :: "string option"

record rejection =
  rj_status :: int
  rj_body :: string
  rj_headers :: "(string \<times> string) list"

datatype limited = Forwarded | Rejected rejection | LimiterError token_error

text \<open>\<open>{k.lower(): v for k, v in headers}\<close>: a repeated header keeps its last value.\<close>

definition header_dict :: "(string \<times> string) list \<Rightarrow> (string, string) dict" where
  "header_dict hs = foldl (\<lambda>d (k, v). dict_put (py_lower k) v d) [] hs"

definition reject_body :: "int \<Rightarrow> string \<Rightarrow> string" where
  "reject_body retry request_id =
     ''{\"error\":{\"code\":\"rate_limited\",\"message\":\"too many requests; retry after '' @ int_str retry
     @ ''s\",\"request_id\":\"'' @ request_id @ ''\"}}''"

definition rejection_of :: "decision \<Rightarrow> string option \<Rightarrow> rejection" where
  "rejection_of d rid =
     (let body = reject_body (d_retry_after d) (case rid of Some r \<Rightarrow> r | None \<Rightarrow> ''unknown'')
      in \<lparr>rj_status = 429, rj_body = body,
          rj_headers = [(''content-type'', ''application/json''), (''retry-after'', int_str (d_retry_after d)),
                        (''x-ratelimit-bucket'', d_bucket d), (''content-length'', nat_str (length body))]\<rparr>)"

text \<open>\<open>ready\<close>: whether the lifespan has built the limiter.\<close>

definition rate_limit_middleware ::
  "jwt_decode \<Rightarrow> settings \<Rightarrow> bool \<Rightarrow> bool \<Rightarrow> rat \<Rightarrow> int \<Rightarrow> http_request \<Rightarrow> store \<Rightarrow> limited \<times> store" where
  "rate_limit_middleware dec s ready up now t rq st =
     (if rq_type rq \<noteq> ''http'' \<or> \<not> se_rate_limit_enabled s then (Forwarded, st)
      else if rq_path rq \<in> set exempt_paths then (Forwarded, st)
      else if \<not> ready then (Forwarded, st)
      else case identity_of dec s \<lfloor>now\<rfloor> (header_dict (rq_headers rq))
                  (case rq_client rq of Some c \<Rightarrow> c | None \<Rightarrow> ''unknown'') of
             Inl e \<Rightarrow> (LimiterError e, st)
           | Inr identity \<Rightarrow>
               (let bucket = bucket_for (rq_path rq);
                    limits = (if bucket = ''expensive''
                              then (se_rate_limit_expensive_per_minute s, se_rate_limit_expensive_burst s)
                              else (se_rate_limit_per_minute s, se_rate_limit_burst s));
                    d = check_limit up identity bucket (fst limits) (snd limits) now t st
                in if d_allowed (fst d) then (Forwarded, snd d)
                   else (Rejected (rejection_of (fst d) (rq_request_id rq)), snd d)))"

section \<open>The bound\<close>

text \<open>A sequence of requests on one bucket, by the time of each; the result counts the admitted ones.\<close>

fun bucket_run :: "rat \<Rightarrow> rat \<Rightarrow> (rat \<times> rat) option \<Rightarrow> rat list \<Rightarrow> nat \<times> (rat \<times> rat) option" where
  "bucket_run rate burst state [] = (0, state)"
| "bucket_run rate burst state (now # reqs) =
     (let r = bucket_take rate burst now 1 state;
          rest = bucket_run rate burst (Some (snd (snd r), now)) reqs
      in ((if fst r then 1 else 0) + fst rest, snd rest))"

text \<open>The tokens available at a time, before a request is charged.\<close>

definition level :: "rat \<Rightarrow> rat \<Rightarrow> (rat \<times> rat) option \<Rightarrow> rat \<Rightarrow> rat" where
  "level rate burst state now =
     (case state of None \<Rightarrow> burst | Some (tokens, ts) \<Rightarrow> min burst (tokens + (now - ts) * rate))"

lemma take_level:
  "bucket_take rate burst now 1 state = (ok, retry, tokens) \<Longrightarrow>
   tokens = level rate burst state now - (if ok then 1 else 0) \<and> (ok \<longleftrightarrow> 1 \<le> level rate burst state now)"
  by (auto simp: bucket_take_def level_def Let_def split: if_splits option.splits)

lemma level_le_burst: "level rate burst state now \<le> burst"
  by (auto simp: level_def split: option.splits)

lemma bucket_run_bound:
  "0 \<le> rate \<Longrightarrow> sorted reqs \<Longrightarrow> reqs \<noteq> [] \<Longrightarrow> 0 \<le> level rate burst state (hd reqs) \<Longrightarrow>
   rat_of_nat (fst (bucket_run rate burst state reqs))
     \<le> level rate burst state (hd reqs) + rate * (last reqs - hd reqs)"
proof (induction reqs arbitrary: state)
  case (Cons now reqs)
  obtain ok retry tokens where t: "bucket_take rate burst now 1 state = (ok, retry, tokens)"
    by (metis prod_cases3)
  note tokens = take_level [OF t]
  show ?case
  proof (cases "reqs = []")
    case True
    with t tokens Cons.prems show ?thesis by (auto simp: Let_def)
  next
    case False
    let ?state = "Some (tokens, now)"
    have next_time: "now \<le> hd reqs" and srt: "sorted reqs"
      using Cons.prems False by (cases reqs; simp)+
    have step: "level rate burst ?state (hd reqs) \<le> tokens + rate * (hd reqs - now)"
      by (simp add: level_def mult.commute)
    have nonneg: "0 \<le> tokens"
      using tokens Cons.prems by (auto split: if_splits)
    have gain: "0 \<le> rate * (hd reqs - now)"
      using Cons.prems(1) next_time by simp
    have burst: "0 \<le> burst"
      using Cons.prems(4) level_le_burst [of rate burst state now] by simp
    have "0 \<le> level rate burst ?state (hd reqs)"
      using nonneg gain burst by (simp add: level_def mult.commute)
    from Cons.IH [OF Cons.prems(1) srt False this] step
    have "rat_of_nat (fst (bucket_run rate burst ?state reqs))
        \<le> tokens + rate * (hd reqs - now) + rate * (last reqs - hd reqs)"
      by linarith
    then have "rat_of_nat (fst (bucket_run rate burst ?state reqs)) \<le> tokens + rate * (last reqs - now)"
      by (simp add: algebra_simps)
    with t tokens False show ?thesis by (auto simp: Let_def)
  qed
qed simp



text \<open>The expiry of an idle bucket cannot be observed: by the time Redis drops the key the
  bucket has refilled completely, so the next request is decided the same with and without it.\<close>

theorem expiry_unobservable:
  assumes "0 < rate" "0 \<le> burst" "dict_get st key = Some b" "bk_expires b \<le> t"
    and "bk_expires b = t0 + ttl rate burst" "rat_of_int (t - t0) \<le> now - bk_ts b" "0 \<le> bk_tokens b"
  shows "fst (run_script key rate burst now cost t st)
       = bucket_take rate burst now cost (Some (bk_tokens b, bk_ts b))"
proof -
  have "burst / rate \<le> of_int \<lceil>burst / rate\<rceil>"
    by (rule le_of_int_ceiling)
  also have "\<dots> \<le> rat_of_int (t - t0)"
    using assms(4,5) by (simp add: ttl_def)
  also have "\<dots> \<le> now - bk_ts b"
    by (rule assms(6))
  finally have "burst \<le> (now - bk_ts b) * rate"
    using assms(1) by (simp add: pos_divide_le_eq)
  with assms(7) have "burst \<le> bk_tokens b + (now - bk_ts b) * rate"
    by simp
  with assms(3,4) show ?thesis
    by (simp add: run_script_def live_def bucket_take_def Let_def)
qed

theorem expiry_unobservable_witness:
  "fst (run_script ''k'' 5 100 1000 1 1000 [(''k'', \<lparr>bk_tokens = 0, bk_ts = 0, bk_expires = 80\<rparr>)])
     = bucket_take 5 100 1000 1 (Some (0, 0))"
  using expiry_unobservable [of 5 100 "[(''k'', \<lparr>bk_tokens = 0, bk_ts = 0, bk_expires = 80\<rparr>)]" "''k''"
      "\<lparr>bk_tokens = 0, bk_ts = 0, bk_expires = 80\<rparr>" 1000 0 1000 1]
  by (simp add: ttl_def)

text \<open>What the middleware may do to a request: it never rejects a probe, metrics or non-HTTP
  request, nor any request while the limiter is off, not built or without Redis; it only rejects with
  429 and a positive Retry-After; and requests with valid tokens of one user share the user's
  buckets whatever address they come from.\<close>

theorem middleware_rejections:
  "case rate_limit_middleware dec s ready up now t rq st of
     (Forwarded, st') \<Rightarrow> True
   | (LimiterError e, st') \<Rightarrow> st' = st
   | (Rejected r, st') \<Rightarrow> rj_status r = 429 \<and> rq_type rq = ''http'' \<and> rq_path rq \<notin> set exempt_paths
       \<and> se_rate_limit_enabled s \<and> ready \<and> up
       \<and> (\<exists>n. 1 \<le> n \<and> dict_get (rj_headers r) ''retry-after'' = Some (int_str n))"
  by (auto simp: rate_limit_middleware_def rejection_of_def check_limit_def Let_def
      split: if_splits sum.splits limited.splits prod.splits)

end
