(* ===== verification/Edge.thy ===== *)
theory Edge
  imports RateLimit AuditChain
begin

text \<open>
  The edge of the API: \<open>middleware.py\<close> (request ids, the access log, HTTP metrics), the exception handlers and routers of
  \<open>main.py\<close>, and the masking of \<open>logging_setup.py\<close>. The endpoint behind the middleware is an argument. Of Starlette the model uses
  what it documents: middleware added last runs first; the handler of \<open>Exception\<close> answers outside all middleware, and only when
  no response has been started; a handled exception after the start of a response becomes a \<open>RuntimeError\<close>.
\<close>

section \<open>Request ids\<close>

definition id_char :: "char \<Rightarrow> bool" where
  "id_char c \<longleftrightarrow> is_upper_az c \<or> is_lower_az c \<or> is_digit c \<or> c \<in> set ''._-''"

definition safe_request_id :: "string \<Rightarrow> bool" where
  "safe_request_id s \<longleftrightarrow> list_all id_char s \<and> 8 \<le> length s \<and> length s \<le> 64"

text \<open>\<open>uuid.uuid4().hex\<close>, for the random 128 bits.\<close>

fun hex_digits :: "nat \<Rightarrow> nat \<Rightarrow> string" where
  "hex_digits 0 n = []"
| "hex_digits (Suc k) n = hex_digits k (n div 16) @ [hex_digit (n mod 16)]"

definition uuid_hex :: "nat \<Rightarrow> string" where
  "uuid_hex n = hex_digits 32 n"

definition resolve_request_id :: "nat \<Rightarrow> string option \<Rightarrow> string" where
  "resolve_request_id fresh incoming =
     (case incoming of Some s \<Rightarrow> if safe_request_id s then s else uuid_hex fresh | None \<Rightarrow> uuid_hex fresh)"

lemma hex_digits_safe: "length (hex_digits k n) = k \<and> list_all id_char (hex_digits k n)"
proof (induction k arbitrary: n)
  case (Suc k)
  have "id_char (hex_digit d)" if "d < 16" for d
    using that by (auto simp: id_char_def is_digit_def is_lower_az_def of_hex_digit)
  with Suc [of "n div 16"] show ?case by simp
qed simp

lemma resolved_safe: "safe_request_id (resolve_request_id fresh incoming)"
  using hex_digits_safe [of 32 fresh]
  by (auto simp: resolve_request_id_def uuid_hex_def safe_request_id_def split: option.splits)

section \<open>Error envelopes\<close>

datatype response_body = JsonBody json | TextBody string

datatype asgi_message = ResponseStart int "(string \<times> string) list" | ResponseBody response_body

type_synonym headers = "(string \<times> string) list"

text \<open>What pydantic says of one invalid field; \<open>ed_input\<close> is the rejected value.\<close>

record error_detail =
  ed_loc :: "json list"
  ed_msg :: json
  ed_type :: json
  ed_input :: json

text \<open>How an endpoint ends: with its response sent, or with an exception.\<close>

datatype endpoint_end =
    Answered
  | HttpException int string headers
  | ValidationError "error_detail list"
  | Unhandled string

definition json_content :: headers where
  "json_content = [(''content-type'', ''application/json'')]"

definition error_body :: "string \<Rightarrow> string \<Rightarrow> string \<Rightarrow> string \<times> json" where
  "error_body code message request_id =
     (''error'', JObj [(''code'', JStr code), (''message'', JStr message), (''request_id'', JStr request_id)])"

definition json_reply :: "int \<Rightarrow> (string \<times> json) list \<Rightarrow> headers \<Rightarrow> asgi_message list" where
  "json_reply status content hs = [ResponseStart status (hs @ json_content), ResponseBody (JsonBody (JObj content))]"

definition validation_reply :: "string \<Rightarrow> error_detail list \<Rightarrow> asgi_message list" where
  "validation_reply request_id errors =
     json_reply 422
       [error_body ''validation_error'' ''request validation failed'' request_id,
        (''details'', JList (map (\<lambda>e. JObj [(''loc'', JList (ed_loc e)), (''msg'', ed_msg e), (''type'', ed_type e)]) errors))] []"

definition http_code :: "int \<Rightarrow> string" where
  "http_code status = (if status = 401 then ''unauthorized'' else if status = 404 then ''not_found'' else ''http_error'')"

definition http_error_reply :: "string \<Rightarrow> int \<Rightarrow> string \<Rightarrow> headers \<Rightarrow> asgi_message list" where
  "http_error_reply request_id status detail hs = json_reply status [error_body (http_code status) detail request_id] hs"

definition unhandled_reply :: "string \<Rightarrow> asgi_message list" where
  "unhandled_reply request_id =
     json_reply 500 [error_body ''internal_error'' ''the request could not be completed'' request_id] []"

definition request_id_of :: "http_request \<Rightarrow> string" where
  "request_id_of rq = (case rq_request_id rq of Some r \<Rightarrow> r | None \<Rightarrow> ''unknown'')"

section \<open>The middleware stack\<close>

fun is_start :: "asgi_message \<Rightarrow> bool" where
  "is_start (ResponseStart s hs) = True"
| "is_start (ResponseBody b) = False"

definition response_started :: "asgi_message list \<Rightarrow> bool" where
  "response_started ms = list_ex is_start ms"

text \<open>What has been sent, and the exception that leaves, by its class.\<close>

type_synonym app_run = "asgi_message list \<times> string option"

definition handle_exceptions :: "http_request \<Rightarrow> asgi_message list \<times> endpoint_end \<Rightarrow> app_run" where
  "handle_exceptions rq r =
     (let rid = request_id_of rq in
      case snd r of
        Answered \<Rightarrow> (fst r, None)
      | Unhandled x \<Rightarrow> (fst r, Some x)
      | HttpException status detail hs \<Rightarrow>
          if response_started (fst r) then (fst r, Some ''RuntimeError'') else (fst r @ http_error_reply rid status detail hs, None)
      | ValidationError errors \<Rightarrow>
          if response_started (fst r) then (fst r, Some ''RuntimeError'') else (fst r @ validation_reply rid errors, None))"

type_synonym endpoint = "http_request \<Rightarrow> (asgi_message list \<times> endpoint_end) \<times> string option"

text \<open>The limiter's middleware around the routers: what was sent, the exception, and the route the router matched.\<close>

definition limited_app ::
  "(http_request \<Rightarrow> store \<Rightarrow> limited \<times> store) \<Rightarrow> endpoint \<Rightarrow> http_request \<Rightarrow> store \<Rightarrow> (app_run \<times> string option) \<times> store" where
  "limited_app limit ep rq st =
     (case limit rq st of
        (Forwarded, st') \<Rightarrow> ((handle_exceptions rq (fst (ep rq)), snd (ep rq)), st')
      | (Rejected r, st') \<Rightarrow> ((([ResponseStart (rj_status r) (rj_headers r), ResponseBody (TextBody (rj_body r))], None), None), st')
      | (LimiterError e, st') \<Rightarrow> ((([], Some ''PyJWTError''), None), st'))"

definition REQUEST_ID_HEADER :: string where
  "REQUEST_ID_HEADER = ''x-request-id''"

fun with_request_id :: "string \<Rightarrow> asgi_message \<Rightarrow> asgi_message" where
  "with_request_id rid (ResponseStart s hs) = ResponseStart s (hs @ [(REQUEST_ID_HEADER, rid)])"
| "with_request_id rid (ResponseBody b) = ResponseBody b"

text \<open>The status the wrapper has seen: the last one started, at first 500.\<close>

definition status_seen :: "asgi_message list \<Rightarrow> int" where
  "status_seen ms = foldl (\<lambda>s m. case m of ResponseStart t hs \<Rightarrow> t | ResponseBody b \<Rightarrow> s) 500 ms"

definition route_template :: "string option \<Rightarrow> string" where
  "route_template route = (case route of Some p \<Rightarrow> p | None \<Rightarrow> ''unmatched'')"

record http_log =
  hl_request_id :: string
  hl_method :: string
  hl_route :: string
  hl_status :: int
  hl_duration_ms :: rat

record served_http =
  sv_wire :: "asgi_message list"
  sv_raised :: "string option"
  sv_counted :: "(string \<times> string \<times> int) list"
  sv_logged :: "http_log list"

definition correlated ::
  "(http_request \<Rightarrow> store \<Rightarrow> (app_run \<times> string option) \<times> store) \<Rightarrow> nat \<Rightarrow> string \<Rightarrow> rat \<Rightarrow> http_request \<Rightarrow> store \<Rightarrow> served_http \<times> store" where
  "correlated app fresh meth elapsed rq st =
     (if rq_type rq \<noteq> ''http'' then
        (case app rq st of
           ((r, route), st') \<Rightarrow> (\<lparr>sv_wire = fst r, sv_raised = snd r, sv_counted = [], sv_logged = []\<rparr>, st'))
      else
        (let rid = resolve_request_id fresh (dict_get (header_dict (rq_headers rq)) REQUEST_ID_HEADER) in
         case app (rq\<lparr>rq_request_id := Some rid\<rparr>) st of
           ((r, route), st') \<Rightarrow>
             (let path = route_template route; status = status_seen (fst r) in
              (\<lparr>sv_wire = map (with_request_id rid) (fst r), sv_raised = snd r, sv_counted = [(meth, path, status)],
                sv_logged = (if path \<in> {''/metrics'', ''/healthz''} then []
                             else [\<lparr>hl_request_id = rid, hl_method = meth, hl_route = path, hl_status = status,
                                    hl_duration_ms = round2 (elapsed * 1000)\<rparr>])\<rparr>, st'))))"

text \<open>The outermost layer: the last resort, after which the exception still leaves to the server.\<close>

definition serve ::
  "(http_request \<Rightarrow> store \<Rightarrow> limited \<times> store) \<Rightarrow> endpoint \<Rightarrow> nat \<Rightarrow> string \<Rightarrow> rat \<Rightarrow> http_request \<Rightarrow> store \<Rightarrow> served_http \<times> store" where
  "serve limit ep fresh meth elapsed rq st =
     (case correlated (limited_app limit ep) fresh meth elapsed rq st of
        (s, st') \<Rightarrow>
          (if sv_raised s = None \<or> response_started (sv_wire s) then (s, st')
           else (let rid = (if rq_type rq = ''http''
                            then resolve_request_id fresh (dict_get (header_dict (rq_headers rq)) REQUEST_ID_HEADER)
                            else request_id_of rq)
                 in (s\<lparr>sv_wire := sv_wire s @ unhandled_reply rid\<rparr>, st'))))"

section \<open>Routers\<close>

definition routers :: "settings \<Rightarrow> string list" where
  "routers s =
     [''health'', ''chat'', ''models'', ''knowledge'', ''actions'', ''audit'', ''memory'', ''documents'', ''tickets'']
     @ (if se_env s \<in> {Dev, Test} then [''auth'', ''ui''] else [])"

definition docs_url :: "settings \<Rightarrow> string option" where
  "docs_url s = (if se_env s \<in> {Dev, Test} then Some ''/docs'' else None)"

section \<open>The log\<close>

definition redact_sensitive :: "(string \<times> json) list \<Rightarrow> (string \<times> json) list" where
  "redact_sensitive ev = map (\<lambda>(k, v). (k, if is_sensitive_key k then JStr redacted_text else v)) ev"

lemma redact_sensitive_key: "(k, v) \<in> set (redact_sensitive ev) \<Longrightarrow> is_sensitive_key k \<Longrightarrow> v = JStr redacted_text"
  by (auto simp: redact_sensitive_def)

text \<open>Only the keys of the event itself are looked at.\<close>

lemma nested_secret_logged:
  "redact_sensitive [(''arguments'', JObj [(''password'', JStr s)])] = [(''arguments'', JObj [(''password'', JStr s)])]"
proof -
  have "\<not> is_sensitive_key ''arguments''" by code_simp
  then show ?thesis by (simp add: redact_sensitive_def)
qed

section \<open>Correlation\<close>

lemma status_seen_map [simp]: "status_seen (map (with_request_id rid) ms) = status_seen ms"
proof -
  have "foldl (\<lambda>s m. case m of ResponseStart t hs \<Rightarrow> t | ResponseBody b \<Rightarrow> s) x (map (with_request_id rid) ms)
      = foldl (\<lambda>s m. case m of ResponseStart t hs \<Rightarrow> t | ResponseBody b \<Rightarrow> s) x ms" for x
  proof (induction ms arbitrary: x)
    case (Cons m ms)
    then show ?case by (cases m) simp_all
  qed simp
  then show ?thesis by (simp add: status_seen_def)
qed

lemma started_map [simp]: "response_started (map (with_request_id rid) ms) = response_started ms"
proof -
  have "is_start (with_request_id rid m) = is_start m" for m by (cases m) simp_all
  then show ?thesis by (simp add: response_started_def list_ex_iff)
qed

definition carries_id :: "string \<Rightarrow> asgi_message list \<Rightarrow> bool" where
  "carries_id rid ms =
     list_all (\<lambda>m. case m of ResponseStart s hs \<Rightarrow> (REQUEST_ID_HEADER, rid) \<in> set hs | ResponseBody b \<Rightarrow> True) ms"

lemma carries_id_map [simp]: "carries_id rid (map (with_request_id rid) ms)"
proof (induction ms)
  case (Cons m ms)
  then show ?case by (cases m) (simp_all add: carries_id_def)
qed (simp add: carries_id_def)

lemma status_unstarted: "\<not> response_started ms \<Longrightarrow> status_seen ms = 500"
proof -
  have "\<not> response_started ms \<Longrightarrow> foldl (\<lambda>s m. case m of ResponseStart t hs \<Rightarrow> t | ResponseBody b \<Rightarrow> s) x ms = x" for x
    by (induction ms) (auto simp: response_started_def split: asgi_message.splits)
  then show "\<not> response_started ms \<Longrightarrow> status_seen ms = 500" by (simp add: status_seen_def)
qed

lemma status_unhandled [simp]: "status_seen (ms @ unhandled_reply rid) = 500"
  by (simp add: status_seen_def unhandled_reply_def json_reply_def)

text \<open>The id of a request, as its answer and its log line name it.\<close>

definition id_of_request :: "nat \<Rightarrow> http_request \<Rightarrow> string" where
  "id_of_request fresh rq = resolve_request_id fresh (dict_get (header_dict (rq_headers rq)) REQUEST_ID_HEADER)"

lemma serve_http:
  assumes "rq_type rq = ''http''"
    and "limited_app limit ep (rq\<lparr>rq_request_id := Some (id_of_request fresh rq)\<rparr>) st = (((ms, exc), route), st')"
  shows "fst (serve limit ep fresh meth elapsed rq st) =
    \<lparr>sv_wire = map (with_request_id (id_of_request fresh rq)) ms
        @ (if exc = None \<or> response_started ms then [] else unhandled_reply (id_of_request fresh rq)),
     sv_raised = exc, sv_counted = [(meth, route_template route, status_seen ms)],
     sv_logged = (if route_template route \<in> {''/metrics'', ''/healthz''} then []
                  else [\<lparr>hl_request_id = id_of_request fresh rq, hl_method = meth, hl_route = route_template route,
                         hl_status = status_seen ms, hl_duration_ms = round2 (elapsed * 1000)\<rparr>])\<rparr>"
  using assms(2) unfolding id_of_request_def serve_def correlated_def by (simp add: assms(1) Let_def)

text \<open>Every HTTP request is counted once, under the status its caller receives, and every response carries the id it is logged
  under, which is safe to log whatever the caller sent. The one exception is the reply of last resort to an exception
  nothing handled: it names the id in its body, without the header.\<close>

theorem responses_correlated:
  "(let out = fst (serve limit ep fresh meth elapsed rq st); rid = id_of_request fresh rq in
      safe_request_id rid
      \<and> (if rq_type rq = ''http''
         then map (\<lambda>c. snd (snd c)) (sv_counted out) = [status_seen (sv_wire out)]
           \<and> list_all (\<lambda>l. hl_request_id l = rid \<and> hl_status l = status_seen (sv_wire out)) (sv_logged out)
           \<and> (carries_id rid (sv_wire out)
              \<or> (\<exists>x ms. sv_raised out = Some x \<and> response_started ms = False \<and> sv_wire out = ms @ unhandled_reply rid))
         else sv_counted out = [] \<and> sv_logged out = []))"
proof (cases "rq_type rq = ''http''")
  case http: True
  obtain ms exc route st' where
    app: "limited_app limit ep (rq\<lparr>rq_request_id := Some (id_of_request fresh rq)\<rparr>) st = (((ms, exc), route), st')"
    by (metis prod.exhaust)
  let ?wire = "map (with_request_id (id_of_request fresh rq)) ms"
  have "\<exists>ms'. response_started ms' = False \<and> ?wire @ unhandled_reply (id_of_request fresh rq) = ms' @ unhandled_reply (id_of_request fresh rq)"
    if "\<not> response_started ms"
    using that by (intro exI [of _ ?wire]) simp
  then show ?thesis
    using http by (auto simp: serve_http [OF http app] Let_def id_of_request_def resolved_safe status_unstarted)
next
  case False
  then show ?thesis
    by (auto simp: Let_def serve_def correlated_def id_of_request_def resolved_safe split: prod.split)
qed

text \<open>What the caller sent is not in the reply to an invalid request.\<close>

lemma rejected_input_hidden: "validation_reply rid (map (\<lambda>e. e\<lparr>ed_input := f e\<rparr>) errors) = validation_reply rid errors"
  by (simp add: validation_reply_def o_def)

text \<open>The limiter writes the request id into its reply as it is; being safe, it leaves the body the JSON it is meant to be.\<close>

definition plain_char :: "char \<Rightarrow> bool" where
  "plain_char c \<longleftrightarrow> id_char c \<or> c \<in> set '' ;''"

lemma plain_char_esc: "plain_char c \<Longrightarrow> esc_char c = [c]"
proof -
  assume "plain_char c"
  then have "32 \<le> (of_char c :: nat) \<and> (of_char c :: nat) < 127"
    by (auto simp: plain_char_def id_char_def is_upper_az_def is_lower_az_def is_digit_def Let_def)
  moreover from this have "py_ord c = of_char c" by (simp add: py_ord_def point_of_def)
  moreover have "short_escape c = None"
  proof -
    have "\<not> list_ex plain_char [CHR 0x22, CHR 0x5C, CHR 0x0A, CHR 0x0D, CHR 0x09, CHR 0x08, CHR 0x0C]" by code_simp
    with \<open>plain_char c\<close> have "c \<notin> set [CHR 0x22, CHR 0x5C, CHR 0x0A, CHR 0x0D, CHR 0x09, CHR 0x08, CHR 0x0C]"
      unfolding list_ex_iff by blast
    then show ?thesis unfolding short_escape_def by (simp only: list.set insert_iff if_False de_Morgan_disj)
  qed
  ultimately show ?thesis by (simp add: esc_char_def)
qed

lemma dump_plain: "list_all plain_char s \<Longrightarrow> dump_str s = CHR 0x22 # s @ [CHR 0x22]"
  unfolding dump_str_def by (induction s) (auto simp: plain_char_esc)

lemma int_str_plain: "list_all plain_char (int_str i)"
  using nat_str_digits by (auto simp: int_str_def list_all_iff plain_char_def id_char_def)

lemma throttled_body_json:
  assumes "safe_request_id rid"
  shows "reject_body retry rid = dump_raw '','' '':''
    (JObj [(''error'', JObj [(''code'', JStr ''rate_limited''),
      (''message'', JStr (''too many requests; retry after '' @ int_str retry @ ''s'')), (''request_id'', JStr rid)])])"
proof -
  have plain: "list_all plain_char ''error''" "list_all plain_char ''code''" "list_all plain_char ''rate_limited''"
    "list_all plain_char ''message''" "list_all plain_char ''request_id''" "list_all plain_char ''too many requests; retry after ''"
    "list_all plain_char ''s''"
    by code_simp+
  have "list_all plain_char rid"
    using assms by (auto simp: safe_request_id_def list_all_iff plain_char_def)
  moreover have "list_all plain_char (''too many requests; retry after '' @ int_str retry @ ''s'')"
    using plain int_str_plain by (simp only: list_all_append)
  ultimately show ?thesis
    using plain by (simp add: dump_plain reject_body_def)
qed

text \<open>Outside development and test there is no token issuer.\<close>

lemma no_token_issuer: "se_env s \<in> {Staging, Prod} \<Longrightarrow> ''auth'' \<notin> set (routers s) \<and> docs_url s = None"
  by (auto simp: routers_def docs_url_def)

end
