(* ===== verification/Seed.thy ===== *)
theory Seed
  imports Auth Registry
begin

text \<open>
  \<open>seed.py\<close>: the fixtures, their validation, and the upsert of departments, users and servers in one transaction. Percentages are
  rationals; a row keeps the columns the fixture does not have. An upsert that names a key twice, or breaks the unique department
  name or a foreign key, fails, and with it the transaction.
\<close>

section \<open>Fixtures\<close>

definition az_or_underscore :: "char \<Rightarrow> bool" where
  "az_or_underscore c \<longleftrightarrow> is_lower_az c \<or> c = CHR ''_''"

definition part_ok :: "string \<Rightarrow> bool" where
  "part_ok s \<longleftrightarrow> s \<noteq> [] \<and> list_all az_or_underscore s"

text \<open>\<open>^[a-z_]+:[a-z_]+(:[a-z_]+)?$\<close>.\<close>

definition permission_format :: "string \<Rightarrow> bool" where
  "permission_format s =
     (let parts = py_split_on CHR '':'' s in length parts \<in> {2, 3} \<and> list_all part_ok parts)"

definition slug_format :: "string \<Rightarrow> bool" where
  "slug_format s \<longleftrightarrow> s \<noteq> [] \<and> is_lower_az (hd s) \<and> list_all az_or_underscore s"

record department_fixture =
  df_slug :: string
  df_name :: string

record user_fixture =
  uf_id :: string
  uf_name :: string
  uf_department :: string
  uf_role :: string
  uf_permissions :: "string list"

record server_fixture =
  sf_id :: string
  sf_environment :: string
  sf_owner_department :: string
  sf_status :: string
  sf_cpu_pct :: "rat option"
  sf_memory_pct :: "rat option"
  sf_last_check :: int

record fixtures =
  fx_departments :: "department_fixture list"
  fx_users :: "user_fixture list"
  fx_servers :: "server_fixture list"

definition percentage :: "rat option \<Rightarrow> bool" where
  "percentage x = (case x of None \<Rightarrow> True | Some p \<Rightarrow> 0 \<le> p \<and> p \<le> 100)"

definition server_fixture_ok :: "server_fixture \<Rightarrow> bool" where
  "server_fixture_ok s \<longleftrightarrow>
     sf_environment s \<in> {''production'', ''staging'', ''development''} \<and> sf_status s \<in> {''healthy'', ''degraded'', ''offline''}
     \<and> percentage (sf_cpu_pct s) \<and> percentage (sf_memory_pct s)"

definition user_fixture_ok :: "user_fixture \<Rightarrow> bool" where
  "user_fixture_ok u \<longleftrightarrow> employee_id_format (uf_id u) \<and> list_all permission_format (uf_permissions u)"

definition fixtures_ok :: "fixtures \<Rightarrow> bool" where
  "fixtures_ok f \<longleftrightarrow>
     list_all (\<lambda>d. slug_format (df_slug d)) (fx_departments f) \<and> list_all user_fixture_ok (fx_users f)
     \<and> list_all server_fixture_ok (fx_servers f)
     \<and> list_all (\<lambda>x. x \<in> set (map df_slug (fx_departments f)))
         (map uf_department (fx_users f) @ map sf_owner_department (fx_servers f))"

section \<open>Upsert\<close>

record seed_db =
  sd_departments :: "(string, string) dict"
  sd_users :: users
  sd_servers :: "(string, server_fixture) dict"

text \<open>\<open>ON CONFLICT (pk) DO UPDATE\<close>: one row at a time, each key at most once.\<close>

definition upsert :: "('r \<Rightarrow> string) \<Rightarrow> ('r \<Rightarrow> 'v option \<Rightarrow> 'v) \<Rightarrow> 'r list \<Rightarrow> (string, 'v) dict \<Rightarrow> (string, 'v) dict option" where
  "upsert key write rows d =
     (if distinct (map key rows) then Some (foldl (\<lambda>d r. dict_put (key r) (write r (dict_get d (key r))) d) d rows) else None)"

definition write_user :: "user_fixture \<Rightarrow> user option \<Rightarrow> user" where
  "write_user f old =
     \<lparr>u_id = uf_id f, u_name = uf_name f, u_department = uf_department f, u_role = uf_role f, u_permissions = uf_permissions f,
      u_is_active = (case old of None \<Rightarrow> True | Some u \<Rightarrow> u_is_active u)\<rparr>"

definition seed_ok :: "seed_db \<Rightarrow> bool" where
  "seed_ok db \<longleftrightarrow>
     distinct (map snd (sd_departments db))
     \<and> list_all (\<lambda>kv. dict_has (sd_departments db) (u_department (snd kv))) (sd_users db)
     \<and> list_all (\<lambda>kv. dict_has (sd_departments db) (sf_owner_department (snd kv))) (sd_servers db)"

definition seed :: "fixtures \<Rightarrow> seed_db \<Rightarrow> seed_db option" where
  "seed f db =
     (if \<not> fixtures_ok f then None
      else case (upsert df_slug (\<lambda>d old. df_name d) (fx_departments f) (sd_departments db),
                 upsert uf_id write_user (fx_users f) (sd_users db), upsert sf_id (\<lambda>s old. s) (fx_servers f) (sd_servers db)) of
             (Some ds, Some us, Some ss) \<Rightarrow>
               (let db' = \<lparr>sd_departments = ds, sd_users = us, sd_servers = ss\<rparr> in if seed_ok db' then Some db' else None)
           | _ \<Rightarrow> None)"

section \<open>Seeding again\<close>

lemma upsert_fold_other: "k \<notin> set (map key rows) \<Longrightarrow>
   dict_get (foldl (\<lambda>d r. dict_put (key r) (write r (dict_get d (key r))) d) d rows) k = dict_get d k"
  by (induction rows arbitrary: d) auto

lemma upsert_get:
  assumes "upsert key write rows d = Some d'" "r \<in> set rows"
  shows "dict_get d' (key r) = Some (write r (dict_get d (key r)))"
proof -
  from assms(1) have dist: "distinct (map key rows)"
    and d': "d' = foldl (\<lambda>d r. dict_put (key r) (write r (dict_get d (key r))) d) d rows"
    by (auto simp: upsert_def split: if_splits)
  from dist assms(2) show ?thesis
    unfolding d'
  proof (induction rows arbitrary: d)
    case (Cons x rows)
    show ?case
    proof (cases "r = x")
      case True
      with Cons(2) show ?thesis by (simp add: upsert_fold_other)
    next
      case False
      with Cons(3) have r: "r \<in> set rows" by simp
      with Cons(2) have "key r \<noteq> key x" by (metis distinct.simps(2) image_eqI list.map(2) list.set_map)
      with r Cons(1) [of "dict_put (key x) (write x (dict_get d (key x))) d"] Cons(2) show ?thesis by simp
    qed
  qed simp
qed

lemma update_same: "dict_get d k = Some v \<Longrightarrow> dict_put k v d = d"
  by (induction d) (auto split: if_splits)

lemma upsert_again:
  assumes "upsert key write rows d = Some d'" "\<And>r old. write r (Some (write r old)) = write r old"
  shows "upsert key write rows d' = Some d'"
proof -
  have "list_all (\<lambda>r. dict_get d' (key r) = Some (write r (dict_get d (key r)))) rows"
    using upsert_get [OF assms(1)] by (simp add: list_all_iff)
  then have "foldl (\<lambda>d r. dict_put (key r) (write r (dict_get d (key r))) d) d' rows = d'"
    by (induction rows) (simp_all add: assms(2) update_same)
  with assms(1) show ?thesis by (auto simp: upsert_def split: if_splits)
qed

text \<open>Seeding is idempotent, and a user who was deactivated stays so.\<close>

theorem seed_idempotent: "seed f db = Some db' \<Longrightarrow> seed f db' = Some db'"
proof -
  assume s: "seed f db = Some db'"
  then obtain ds us ss where u: "upsert df_slug (\<lambda>d old. df_name d) (fx_departments f) (sd_departments db) = Some ds"
      "upsert uf_id write_user (fx_users f) (sd_users db) = Some us" "upsert sf_id (\<lambda>s old. s) (fx_servers f) (sd_servers db) = Some ss"
    and db': "db' = \<lparr>sd_departments = ds, sd_users = us, sd_servers = ss\<rparr>" "seed_ok db'" "fixtures_ok f"
    by (auto simp: seed_def Let_def split: if_splits option.splits)
  have "write_user r (Some (write_user r old)) = write_user r old" for r old
    by (simp add: write_user_def split: option.split)
  then show ?thesis
    using upsert_again [OF u(1)] upsert_again [OF u(2)] upsert_again [OF u(3)] db' by (simp add: seed_def)
qed

lemma seed_keeps_inactive:
  assumes "seed f db = Some db'" "dict_get (sd_users db) k = Some u"
  shows "\<exists>u'. dict_get (sd_users db') k = Some u' \<and> u_is_active u' = u_is_active u"
proof -
  from assms(1) have up: "upsert uf_id write_user (fx_users f) (sd_users db) = Some (sd_users db')"
    by (auto simp: seed_def Let_def split: if_splits option.splits)
  show ?thesis
  proof (cases "k \<in> set (map uf_id (fx_users f))")
    case True
    then obtain r where "r \<in> set (fx_users f)" "k = uf_id r" by auto
    with upsert_get [OF up] assms(2) show ?thesis by (simp add: write_user_def)
  next
    case False
    from up have "sd_users db' = foldl (\<lambda>d r. dict_put (uf_id r) (write_user r (dict_get d (uf_id r))) d) (sd_users db) (fx_users f)"
      by (simp add: upsert_def split: if_splits)
    with upsert_fold_other [OF False, of write_user "sd_users db"] assms(2) show ?thesis by simp
  qed
qed

end
