(* ===== verification/Judge.thy ===== *)
theory Judge
  imports Parsing Routing
begin

text \<open>
  \<open>evaluation/judge.py\<close>: the checks around a judging model. The model's reply (or the error its call ended with), the JSON decoder
  and the prompts are arguments; what is modelled is everything that decides whether a verdict counts.
\<close>

section \<open>Families\<close>

definition model_families :: "(string \<times> string) list" where
  "model_families =
     [(''llama'', ''meta''), (''qwen'', ''alibaba''), (''gpt-oss'', ''openai''), (''nemotron'', ''nvidia''), (''mistral'', ''mistral''),
      (''phi'', ''microsoft''), (''gemma'', ''google''), (''claude'', ''anthropic'')]"

text \<open>\<open>model.split("/", 1)[-1]\<close>.\<close>

definition after_slash :: "string \<Rightarrow> string" where
  "after_slash m = (case dropWhile (\<lambda>c. c \<noteq> CHR ''/'') m of [] \<Rightarrow> m | c # r \<Rightarrow> r)"

definition family_of :: "string \<Rightarrow> string" where
  "family_of m =
     (let name = py_lower (after_slash m) in
      case find (\<lambda>kf. py_contains (fst kf) name) model_families of Some kf \<Rightarrow> snd kf | None \<Rightarrow> name)"

section \<open>Content words and figures\<close>

definition judge_stop :: "string list" where
  "judge_stop = py_split_ws (''a an the of to in on at for by with and or is are was were be been it its this that ''
     @ ''these those as from according source sources may must can'')"

fun strip_suffix :: "string list \<Rightarrow> string \<Rightarrow> string" where
  "strip_suffix [] w = w"
| "strip_suffix (s # ss) w =
     (if length s + 3 < length w \<and> py_endswith w s then take (length w - length s) w else strip_suffix ss w)"

definition stem :: "string \<Rightarrow> string" where
  "stem word =
     (let w = strip_suffix [''ing'', ''ed'', ''es'', ''s''] word in
      if 4 < length w \<and> py_endswith w ''e'' then butlast w else w)"

definition az09 :: "char \<Rightarrow> bool" where
  "az09 c \<longleftrightarrow> is_lower_az c \<or> is_digit c"

text \<open>\<open>[a-z0-9][a-z0-9.,:%-]*[a-z0-9%]|[a-z0-9]\<close>: the run of inner characters up to the last one that may end a word.\<close>

definition inner_char :: "char \<Rightarrow> bool" where
  "inner_char c \<longleftrightarrow> az09 c \<or> c \<in> set ''.,:%-''"

definition word_rest :: "string \<Rightarrow> string" where
  "word_rest s = rev (dropWhile (\<lambda>c. \<not> (az09 c \<or> c = CHR ''%'')) (rev (takeWhile inner_char s)))"

lemma word_rest_length: "length (word_rest s) \<le> length s"
  unfolding word_rest_def by (metis length_dropWhile_le length_rev length_takeWhile_le order_trans)

lemma word_rest_prefix: "prefix (word_rest s) s"
proof -
  have "prefix (rev (dropWhile P (rev xs))) xs" for P :: "char \<Rightarrow> bool" and xs
    using suffix_dropWhile [of P "rev xs"] by (simp add: suffix_to_prefix)
  then show ?thesis
    unfolding word_rest_def by (rule prefix_order.trans) (metis prefixI takeWhile_dropWhile_id)
qed

function judge_words :: "string \<Rightarrow> string list" where
  "judge_words [] = []"
| "judge_words (c # cs) =
     (if az09 c then (c # word_rest cs) # judge_words (drop (length (word_rest cs)) cs) else judge_words cs)"
  by pat_completeness auto
termination
  by (relation "measure length") auto

definition strip_chars :: "string \<Rightarrow> string \<Rightarrow> string" where
  "strip_chars ends s = rev (dropWhile (\<lambda>c. c \<in> set ends) (rev (dropWhile (\<lambda>c. c \<in> set ends) s)))"

definition judge_content_words :: "string \<Rightarrow> string list" where
  "judge_content_words t =
     map (\<lambda>w. stem (strip_chars ''.,:'' w)) (filter (\<lambda>w. w \<notin> set judge_stop) (judge_words (py_lower t)))"

text \<open>\<open>\d+(?:[.,:]\d+)*%?\<close>: the digits, the groups after them, and a percent sign.\<close>

fun figure_groups :: "nat \<Rightarrow> string \<Rightarrow> string" where
  "figure_groups 0 s = []"
| "figure_groups (Suc k) s =
     (case s of
        [] \<Rightarrow> []
      | c # cs \<Rightarrow>
          (let ds = takeWhile is_digit cs in
           if c \<in> set ''.,:'' \<and> ds \<noteq> [] then c # ds @ figure_groups k (drop (length ds) cs) else []))"

definition judge_figure :: "string \<Rightarrow> string" where
  "judge_figure s =
     (let ds = takeWhile is_digit s;
          gs = figure_groups (length s) (drop (length ds) s)
      in ds @ gs @ (if py_startswith (drop (length ds + length gs) s) ''%'' then ''%'' else []))"

function judge_figures :: "string \<Rightarrow> string list" where
  "judge_figures [] = []"
| "judge_figures (c # cs) =
     (if is_digit c then judge_figure (c # cs) # judge_figures (drop (length (judge_figure (c # cs)) - 1) cs)
      else judge_figures cs)"
  by pat_completeness auto
termination
  by (relation "measure length") auto

text \<open>At least 80% of the claim's words, and all of its figures, in one passage.\<close>

definition found_in :: "string \<Rightarrow> string list \<Rightarrow> bool" where
  "found_in claim sources =
     (let ws = judge_content_words claim; figs = judge_figures claim in
      ws = []
      \<or> list_ex (\<lambda>p. list_all (\<lambda>f. f \<in> set (judge_figures p)) figs
           \<and> 4 * length ws \<le> 5 * length (filter (\<lambda>w. w \<in> set (judge_content_words p)) ws)) sources)"

section \<open>Judgements\<close>

datatype verdict = Supported | Contradicted | Missing

record judgement =
  jd_verdict :: "verdict option"
  jd_unsupported :: "string list"
  jd_note :: string
  jd_error :: "string option"
  jd_quote :: string
  jd_unverified :: bool

definition failed_judgement :: "string \<Rightarrow> judgement" where
  "failed_judgement e =
     \<lparr>jd_verdict = None, jd_unsupported = [], jd_note = [], jd_error = Some e, jd_quote = [], jd_unverified = False\<rparr>"

definition squeezed :: "string \<Rightarrow> string" where
  "squeezed s = py_join '' '' (py_split_ws (py_lower s))"

definition quotes :: "string \<Rightarrow> string \<Rightarrow> bool" where
  "quotes quote answer \<longleftrightarrow> 8 \<le> length quote \<and> py_contains (squeezed quote) (squeezed answer)"

text \<open>\<open>loads\<close> gives the value or the text of its exception; an object's fields are its value.\<close>

definition parse_reply :: "(string \<Rightarrow> string + json) \<Rightarrow> string \<Rightarrow> string + (string \<times> json) list" where
  "parse_reply loads t =
     (case braced t of
        None \<Rightarrow> Inl (''ValueError: no JSON in judge reply: '' @ py_repr (take 120 t))
      | Some obj \<Rightarrow>
          (case loads obj of
             Inl e \<Rightarrow> Inl e
           | Inr (JObj kvs) \<Rightarrow> Inr kvs
           | Inr _ \<Rightarrow> Inl ''ValueError: judge reply is not an object''))"

text \<open>What the model answered, or the text of the exception its call ended with.\<close>

type_synonym completion = "string + string"

definition judge_data :: "(string \<Rightarrow> string + json) \<Rightarrow> completion \<Rightarrow> string + (string \<times> json) list" where
  "judge_data loads c = bind_result c (parse_reply loads)"

definition verdict_of :: "json option \<Rightarrow> verdict option" where
  "verdict_of v =
     (if v = Some (JStr ''supported'') then Some Supported else if v = Some (JStr ''contradicted'') then Some Contradicted
      else if v = Some (JStr ''missing'') then Some Missing else None)"

definition str_of_field :: "(string \<times> json) list \<Rightarrow> string \<Rightarrow> string" where
  "str_of_field kvs k = (case jget kvs k of None \<Rightarrow> [] | Some v \<Rightarrow> json_str v)"

definition judge_fact :: "(string \<Rightarrow> string + json) \<Rightarrow> completion \<Rightarrow> string \<Rightarrow> string \<Rightarrow> judgement" where
  "judge_fact loads c ref answer =
     (case judge_data loads c of
        Inl e \<Rightarrow> failed_judgement e
      | Inr kvs \<Rightarrow>
          (case verdict_of (jget kvs ''verdict'') of
             None \<Rightarrow> failed_judgement (''unusable verdict: '' @ json_repr (case jget kvs ''verdict'' of Some v \<Rightarrow> v | None \<Rightarrow> JNull))
           | Some v \<Rightarrow>
               (let quote = py_strip (str_of_field kvs ''quote'');
                    note = take 200 (str_of_field kvs ''note'');
                    discarded = (\<lambda>why. \<lparr>jd_verdict = None, jd_unsupported = [], jd_note = note,
                                        jd_error = Some (why @ py_repr (take 80 quote)), jd_quote = quote, jd_unverified = True\<rparr>)
                in if v = Contradicted \<and> found_in ref [quote] then discarded ''contradiction quote conveys the fact: ''
                   else if v = Contradicted \<and> \<not> quotes quote answer then discarded ''unquotable contradicted: ''
                   else \<lparr>jd_verdict = Some v, jd_unsupported = [], jd_note = note, jd_error = None, jd_quote = quote,
                         jd_unverified = False\<rparr>)))"

text \<open>Iterating over the claims raises when they are neither a list, a text nor an object; it happens outside the \<open>try\<close>.\<close>

definition claim_items :: "(string \<times> json) list \<Rightarrow> json list option" where
  "claim_items kvs =
     (case jget kvs ''unsupported_claims'' of
        None \<Rightarrow> Some []
      | Some (JList xs) \<Rightarrow> Some xs
      | Some (JStr s) \<Rightarrow> Some (map (\<lambda>c. JStr [c]) s)
      | Some (JObj o') \<Rightarrow> Some (map (\<lambda>kv. JStr (fst kv)) o')
      | _ \<Rightarrow> None)"

datatype 'a judged = Judged 'a | JudgeCrashed string

definition judge_grounding :: "(string \<Rightarrow> string + json) \<Rightarrow> completion \<Rightarrow> string list \<Rightarrow> judgement judged" where
  "judge_grounding loads c sources =
     (case judge_data loads c of
        Inl e \<Rightarrow> Judged (failed_judgement e)
      | Inr kvs \<Rightarrow>
          (case claim_items kvs of
             None \<Rightarrow> JudgeCrashed ''TypeError''
           | Some items \<Rightarrow>
               (let claims = filter (\<lambda>s. py_strip s \<noteq> []) (map json_str items) in
                Judged \<lparr>jd_verdict = None, jd_unsupported = filter (\<lambda>s. \<not> found_in s sources) claims,
                        jd_note = take 200 (str_of_field kvs ''note''), jd_error = None, jd_quote = [], jd_unverified = False\<rparr>)))"

definition judge_citation :: "(string \<Rightarrow> string + json) \<Rightarrow> completion \<Rightarrow> bool option" where
  "judge_citation loads c =
     (case judge_data loads c of
        Inl e \<Rightarrow> None
      | Inr kvs \<Rightarrow> (case jget kvs ''supports'' of Some (JBool b) \<Rightarrow> Some b | _ \<Rightarrow> None))"

definition answer_without_retrieval :: "(string \<times> string) + string \<Rightarrow> string" where
  "answer_without_retrieval c =
     (case c of Inr t \<Rightarrow> t | Inl (cls, msg) \<Rightarrow> ''(control model failed: '' @ cls @ '')'')"

section \<open>What a verdict is worth\<close>

text \<open>A contradiction counts only with evidence: the quote, at least eight characters long, is in the answer but for case and
  white space, and does not itself convey the fact; every discarded or failed judgement has no verdict, names its error, and
  none of them reports unsupported claims.\<close>

theorem contradiction_evidenced:
  "(let j = judge_fact loads c ref answer in
      (case jd_verdict j of
         None \<Rightarrow> jd_error j \<noteq> None
       | Some v \<Rightarrow> jd_error j = None \<and> \<not> jd_unverified j
           \<and> (if v = Contradicted then quotes (jd_quote j) answer \<and> \<not> found_in ref [jd_quote j] else True))
      \<and> jd_unsupported j = [])"
  by (auto simp: judge_fact_def failed_judgement_def Let_def split: sum.splits option.splits)

lemma lower_digit: "is_digit c \<Longrightarrow> lower_char c = c"
  by (auto simp: lower_char_def is_digit_def Let_def)

lemma stop_no_digit: "w \<in> set judge_stop \<Longrightarrow> c \<in> set w \<Longrightarrow> \<not> is_digit c"
proof -
  have "list_all (list_all (\<lambda>c. \<not> is_digit c)) judge_stop" by code_simp
  then show "w \<in> set judge_stop \<Longrightarrow> c \<in> set w \<Longrightarrow> \<not> is_digit c" unfolding list_all_iff by blast
qed

lemma judge_words_digit: "c \<in> set s \<Longrightarrow> az09 c \<Longrightarrow> \<exists>w \<in> set (judge_words s). c \<in> set w"
proof (induction s rule: judge_words.induct)
  case (2 d cs)
  show ?case
  proof (cases "az09 d")
    case True
    have "cs = word_rest cs @ drop (length (word_rest cs)) cs"
      using word_rest_prefix [of cs] unfolding prefix_def by (metis append_eq_conv_conj)
    then have "c = d \<or> c \<in> set (word_rest cs) \<or> c \<in> set (drop (length (word_rest cs)) cs)"
      using 2(3) by (metis Un_iff set_append set_ConsD)
    with 2(1) [OF True _ 2(4)] True show ?thesis by auto
  next
    case False
    with 2 show ?thesis by auto
  qed
qed simp

lemma judge_figures_digits: "f \<in> set (judge_figures s) \<Longrightarrow> \<exists>c \<in> set s. is_digit c"
proof (induction s rule: judge_figures.induct)
  case (2 c cs)
  then show ?case by (cases "is_digit c") (auto dest: in_set_dropD)
qed simp

text \<open>A changed figure is always reported: whatever else a passage says, a claim with a figure that is in none of the passages
  stays among the unsupported claims.\<close>

theorem changed_figure_kept:
  assumes "f \<in> set (judge_figures claim)" "\<forall>p \<in> set sources. f \<notin> set (judge_figures p)"
  shows "\<not> found_in claim sources"
proof -
  obtain c where c: "c \<in> set claim" "is_digit c" using judge_figures_digits [OF assms(1)] by blast
  then have l: "c \<in> set (py_lower claim)" "az09 c"
    by (auto simp: py_lower_def az09_def lower_digit image_iff intro: bexI [of _ c])
  obtain w where w: "w \<in> set (judge_words (py_lower claim))" "c \<in> set w"
    using judge_words_digit [OF l] by blast
  have "w \<notin> set judge_stop" using stop_no_digit c(2) w(2) by blast
  with w(1) have "judge_content_words claim \<noteq> []"
    by (auto simp: judge_content_words_def filter_empty_conv)
  with assms show ?thesis by (auto simp: found_in_def Let_def list_ex_iff list_all_iff)
qed

end
