(* ===== verification/Mock.thy ===== *)
theory Mock
  imports Clients Routing "HOL-Library.Multiset"
begin

text \<open>
  \<open>providers/mock.py\<close>: the deterministic provider of tests, demonstrations and evaluation runs. SHA-256 (text to hex digest), the
  64-bit value of BLAKE2b, \<open>math.sqrt\<close> and \<open>html.unescape\<close> are parameters. The counter of calls is the state that is passed.
\<close>

section \<open>The stand-in for the router model\<close>

definition word_before :: "char option \<Rightarrow> bool" where
  "word_before p = (case p of None \<Rightarrow> False | Some c \<Rightarrow> word_char c)"

text \<open>\<open>re.search\<close>: the first position, with the character before it, where \<open>f\<close> matches.\<close>

fun search_from :: "(char option \<Rightarrow> string \<Rightarrow> 'a option) \<Rightarrow> char option \<Rightarrow> string \<Rightarrow> 'a option" where
  "search_from f p [] = f p []"
| "search_from f p (c # cs) = (case f p (c # cs) of Some x \<Rightarrow> Some x | None \<Rightarrow> search_from f (Some c) cs)"

definition word_end :: "string \<Rightarrow> bool" where
  "word_end s \<longleftrightarrow> s = [] \<or> \<not> word_char (hd s)"

text \<open>\<open>[A-Z][a-z]+\<close>, and a full name after \<open>for\<close>.\<close>

definition capitalized :: "string \<Rightarrow> string option" where
  "capitalized s =
     (case s of
        [] \<Rightarrow> None
      | c # cs \<Rightarrow>
          if is_upper_az c \<and> takeWhile is_lower_az cs \<noteq> [] then Some (c # takeWhile is_lower_az cs) else None)"

definition name_at :: "char option \<Rightarrow> string \<Rightarrow> string option" where
  "name_at p s =
     (if \<not> py_startswith s ''for '' then None
      else case capitalized (drop 4 s) of
             None \<Rightarrow> None
           | Some a \<Rightarrow>
               (let r = drop (4 + length a) s in
                if \<not> py_startswith r '' '' then None
                else map_option (\<lambda>b. a @ '' '' @ b) (capitalized (tl r))))"

definition user_id_at :: "char option \<Rightarrow> string \<Rightarrow> string option" where
  "user_id_at p s =
     (if \<not> word_before p \<and> py_startswith s ''U'' \<and> length (take 4 s) = 4 \<and> list_all is_digit (tl (take 4 s)) \<and> word_end (drop 4 s)
      then Some (take 4 s) else None)"

definition server_at :: "char option \<Rightarrow> string \<Rightarrow> string option" where
  "server_at p s =
     (let a = takeWhile is_lower_az s; r1 = drop (length a) s;
          b = takeWhile is_lower_az (tl r1); r2 = drop (length b) (tl r1);
          ds = takeWhile is_digit (tl r2)
      in if \<not> word_before p \<and> a \<noteq> [] \<and> py_startswith r1 ''-'' \<and> b \<noteq> [] \<and> py_startswith r2 ''-'' \<and> ds \<noteq> []
            \<and> word_end (drop (length ds) (tl r2))
         then Some (a @ ''-'' @ b @ ''-'' @ ds) else None)"

definition refuse_words :: "string list" where
  "refuse_words = [''skip approval'', ''deploy now'', ''bypass'', ''without approval'']"

definition decision_text :: "string \<Rightarrow> json \<Rightarrow> json \<Rightarrow> json" where
  "decision_text route tool args = JObj [(''route'', JStr route), (''tool'', tool), (''arguments'', args)]"

definition tool_decision :: "string \<Rightarrow> raw_args \<Rightarrow> json" where
  "tool_decision tool args = decision_text ''tool'' (JStr tool) (JObj args)"

definition severity_in :: "string \<Rightarrow> string" where
  "severity_in q =
     (case find (\<lambda>s. py_contains s q) [''critical'', ''high'', ''medium'', ''low''] of Some s \<Rightarrow> s | None \<Rightarrow> ''medium'')"

definition route_decision :: "string \<Rightarrow> json" where
  "route_decision question =
     (let q = py_lower question in
      if list_ex (\<lambda>w. py_contains w q) refuse_words then decision_text ''refuse'' JNull JNull
      else if py_contains ''vpn'' q then
        tool_decision ''create_vpn_profile''
          (case search_from user_id_at None question of
             Some u \<Rightarrow> [(''employee_id'', JStr u)]
           | None \<Rightarrow>
               (case search_from name_at None question of Some n \<Rightarrow> [(''employee_name'', JStr n)] | None \<Rightarrow> []))
      else case search_ticket True question of
             Some t \<Rightarrow> tool_decision ''get_support_ticket'' [(''ticket_id'', JStr t)]
           | None \<Rightarrow>
               if py_contains ''ticket'' q then
                 tool_decision ''create_support_ticket''
                   [(''title'', JStr (take 80 question)), (''severity'', JStr (severity_in q)), (''details'', JStr (take 500 question))]
               else case search_from server_at None q of
                      Some s \<Rightarrow> tool_decision ''get_server_status'' [(''server_id'', JStr s)]
                    | None \<Rightarrow> decision_text ''knowledge'' JNull JNull)"

text \<open>\<open>json.dumps\<close> with its default separators.\<close>

definition json_dumps :: "json \<Rightarrow> string" where
  "json_dumps v = dump_raw '', '' '': '' v"

section \<open>The answer\<close>

text \<open>\<open>_SOURCE_1\<close>: the text of the first source that is closed.\<close>

definition source_1_at :: "char option \<Rightarrow> string \<Rightarrow> string option" where
  "source_1_at p s =
     (if \<not> py_startswith s ''<source id=\"1\"'' then None
      else let r = dropWhile (\<lambda>c. c \<noteq> CHR ''>'') (drop 14 s) in
           if \<not> py_startswith r [CHR ''>'', newline] then None
           else map_option fst (break_sub (newline # ''</source>'') (drop 2 r)))"

text \<open>\<open>re.split(r"(?<=[.!?])\s", t, maxsplit=1)[0]\<close>.\<close>

fun first_sentence :: "char option \<Rightarrow> string \<Rightarrow> string" where
  "first_sentence p [] = []"
| "first_sentence p (c # cs) =
     (if py_space c \<and> (case p of None \<Rightarrow> False | Some d \<Rightarrow> d \<in> set ''.!?'') then [] else c # first_sentence (Some c) cs)"

definition content_of :: "chat_message option \<Rightarrow> string" where
  "content_of m = (case m of None \<Rightarrow> [] | Some x \<Rightarrow> cm_content x)"

definition default_responder :: "(string \<Rightarrow> string) \<Rightarrow> (string \<Rightarrow> string) \<Rightarrow> chat_message list \<Rightarrow> string" where
  "default_responder sha unescape messages =
     (let last_user = content_of (find (\<lambda>m. cm_role m = RUser) (rev messages));
          system = content_of (find (\<lambda>m. cm_role m = RSystem) messages)
      in if py_contains ''\"route\"'' system then json_dumps (route_decision last_user)
         else case search_from source_1_at None last_user of
                Some t \<Rightarrow> unescape (first_sentence None (py_strip t)) @ '' [1]''
              | None \<Rightarrow> ''[mock:'' @ take 8 (sha last_user) @ ''] Received: '' @ take 200 last_user)"

section \<open>The provider\<close>

record mock_provider =
  mk_responder :: "chat_message list \<Rightarrow> string"
  mk_slow_seconds :: rat
  mk_flaky_failures :: int
  mk_stream_delay_s :: rat
  mk_embedding_dim :: nat

type_synonym call_counter = "string \<Rightarrow> nat"

definition injected_503 :: provider_error where
  "injected_503 = provider_exc ProviderUnavailable ''mock'' ''injected 503'' (Some 503)"

text \<open>The time it takes and the error it raises, if any.\<close>

definition behave :: "mock_provider \<Rightarrow> string \<Rightarrow> call_counter \<Rightarrow> (rat \<times> provider_error option) \<times> call_counter" where
  "behave k m calls =
     (let calls' = calls(m := calls m + 1) in
      (if m = ''mock-echo'' then (0, None)
       else if m = ''mock-slow'' then (mk_slow_seconds k, None)
       else if m = ''mock-flaky'' then (0, if int (calls' m) \<le> mk_flaky_failures k then Some injected_503 else None)
       else if m = ''mock-down'' then (0, Some injected_503)
       else if m = ''mock-ratelimit''
       then (0, Some (provider_exc (ProviderRateLimited (Some (1 / 20))) ''mock'' ''injected 429'' (Some 429)))
       else (0, Some (provider_exc ProviderModelNotFound ''mock'' (''unknown mock model '' @ py_repr m) None)),
       calls'))"

definition mock_usage :: "chat_message list \<Rightarrow> string \<Rightarrow> usage" where
  "mock_usage messages completion =
     \<lparr>prompt_tokens = messages_estimate messages, completion_tokens = estimate_tokens completion, usage_estimated = False\<rparr>"

definition mock_chat ::
  "mock_provider \<Rightarrow> string \<Rightarrow> chat_message list \<Rightarrow> call_counter \<Rightarrow> (rat \<times> chat_result reply) \<times> call_counter" where
  "mock_chat k m messages calls =
     (case behave k m calls of
        ((d, Some e), calls') \<Rightarrow> ((d, Raised e), calls')
      | ((d, None), calls') \<Rightarrow>
          (let t = mk_responder k messages in
           ((d, Returned \<lparr>cr_content = t, cr_usage = mock_usage messages t, cr_finish_reason = Some ''stop''\<rparr>), calls')))"

definition mock_words :: "string \<Rightarrow> string list" where
  "mock_words t = (case py_split_on CHR '' '' t of [] \<Rightarrow> [] | w # ws \<Rightarrow> w # map (\<lambda>x. '' '' @ x) ws)"

definition mock_stream_chat ::
  "mock_provider \<Rightarrow> string \<Rightarrow> chat_message list \<Rightarrow> call_counter \<Rightarrow> steps \<times> call_counter" where
  "mock_stream_chat k m messages calls =
     (case behave k m calls of
        ((d, Some e), calls') \<Rightarrow> ([(d, Breaks e)], calls')
      | ((d, None), calls') \<Rightarrow>
          (let t = mk_responder k messages; delay = max 0 (mk_stream_delay_s k); ws = mock_words t in
           (zip (map (\<lambda>i. (if i = 0 then d else 0) + delay) [0..<length ws]) (map (\<lambda>w. Yields (StreamDelta w)) ws)
              @ [(0, Yields (StreamEnd (mock_usage messages t) (Some ''stop'')))], calls')))"

section \<open>Embeddings\<close>

definition stopwords :: "string list" where
  "stopwords = py_split_ws (''a an the and or but if of to in on at by for with from as is are was ''
     @ ''were be been being it its this that these those we you they he she i me ''
     @ ''my our your their what when where which who whom how why do does did ''
     @ ''done can could may might must shall should will would not no yes all any ''
     @ ''each some so than then there here about into over after before up down ''
     @ ''out also only just more most '')"

fun char_runs :: "(char \<Rightarrow> bool) \<Rightarrow> string \<Rightarrow> string \<Rightarrow> string list" where
  "char_runs P w [] = (if w = [] then [] else [w])"
| "char_runs P w (c # cs) = (if P c then char_runs P (w @ [c]) cs else (if w = [] then [] else [w]) @ char_runs P [] cs)"

definition singular :: "string \<Rightarrow> string" where
  "singular w = (if 4 < length w \<and> py_endswith w ''s'' then butlast w else w)"

definition content_words :: "string \<Rightarrow> string list" where
  "content_words t =
     map singular (filter (\<lambda>w. w \<notin> set stopwords) (char_runs (\<lambda>c. is_lower_az c \<or> is_digit c) [] (py_lower t)))"

definition add_word :: "(string \<Rightarrow> nat) \<Rightarrow> nat \<Rightarrow> rat list \<Rightarrow> string \<Rightarrow> rat list" where
  "add_word blake n vec w =
     (let h = blake w; i = h mod n in vec[i := vec ! i + (if odd (h div 2 ^ 63) then 1 else - 1)])"

text \<open>With no dimension the first content word divides by zero.\<close>

definition word_vector :: "(string \<Rightarrow> nat) \<Rightarrow> string \<Rightarrow> nat \<Rightarrow> rat list" where
  "word_vector blake t n = foldl (add_word blake n) (replicate n 0) (content_words t)"

definition squares :: "rat list \<Rightarrow> rat" where
  "squares vec = sum_list (map (\<lambda>v. v * v) vec)"

definition hashed_embedding :: "(string \<Rightarrow> nat) \<Rightarrow> (rat \<Rightarrow> rat) \<Rightarrow> string \<Rightarrow> nat \<Rightarrow> rat list option" where
  "hashed_embedding blake msqrt t n =
     (if n = 0 \<and> content_words t \<noteq> [] then None
      else let vec = word_vector blake t n;
               len = msqrt (squares vec)
           in Some (if len = 0 then vec else map (\<lambda>v. v / len) vec))"

text \<open>\<open>str.isdigit\<close> holds for the superscripts, which \<open>int\<close> refuses, as it does more than 4300 digits.\<close>

definition py_isdigit :: "string \<Rightarrow> bool" where
  "py_isdigit s \<longleftrightarrow> s \<noteq> [] \<and> list_all (\<lambda>c. is_digit c \<or> py_ord c \<in> {0xB2, 0xB3, 0xB9}) s"

definition mock_embed ::
  "mock_provider \<Rightarrow> (string \<Rightarrow> nat) \<Rightarrow> (rat \<Rightarrow> rat) \<Rightarrow> string \<Rightarrow> string list \<Rightarrow> call_counter
   \<Rightarrow> (rat \<times> embedding_result reply) \<times> call_counter" where
  "mock_embed k blake msqrt m inputs calls =
     (let n = last (py_split_on CHR ''-'' m);
          sized = py_startswith m ''mock-embed-'' \<and> py_isdigit n;
          ((d, err), calls') = (if sized \<or> m = ''mock-embed'' then ((0, None), calls) else behave k m calls);
          size = (if sized then digits_val n else mk_embedding_dim k)
      in (if sized \<and> (\<not> list_all is_digit n \<or> 4300 < length n) then (d, Crashed ''ValueError'')
          else case err of
                 Some e \<Rightarrow> (d, Raised e)
               | None \<Rightarrow>
                   (case those (map (\<lambda>t. hashed_embedding blake msqrt t size) inputs) of
                      None \<Rightarrow> (d, Crashed ''ZeroDivisionError'')
                    | Some vs \<Rightarrow>
                        (d, Returned \<lparr>er_vectors = vs,
                              er_usage = \<lparr>prompt_tokens = sum_list (map estimate_tokens inputs), completion_tokens = 0,
                                          usage_estimated = False\<rparr>\<rparr>)),
          calls'))"

section \<open>What it promises\<close>

lemma split_on_aux_ne [simp]: "split_on_aux c w s \<noteq> []"
  by (induction s arbitrary: w) auto

lemma split_on_aux_join:
  "(case split_on_aux c w s of [] \<Rightarrow> [] | x # xs \<Rightarrow> x @ concat (map (\<lambda>y. c # y) xs)) = w @ s"
proof (induction s arbitrary: w)
  case (Cons d s)
  show ?case
    using Cons [of "[]"] Cons [of "w @ [d]"] by (cases "split_on_aux c [] s") auto
qed simp

lemma mock_words_join: "concat (mock_words t) = t"
  using split_on_aux_join [of "CHR '' ''" "[]" t]
  by (auto simp: mock_words_def py_split_on_def split: list.splits)

definition step_texts :: "steps \<Rightarrow> string" where
  "step_texts items = concat (map (\<lambda>x. case snd x of Yields (StreamDelta t) \<Rightarrow> t | _ \<Rightarrow> []) items)"

lemma step_texts_words:
  "length ds = length ws \<Longrightarrow> step_texts (zip ds (map (\<lambda>w. Yields (StreamDelta w)) ws) @ [(d, Yields (StreamEnd u f))]) = concat ws"
  by (induction ds ws rule: list_induct2) (simp_all add: step_texts_def)

text \<open>Streamed or not, the mock provider answers the same: it fails with the same error after the same time, or its words put
  together are the answer, with the same usage at the end, and the call is counted once.\<close>

theorem mock_stream_agrees:
  "snd (mock_stream_chat k m messages calls) = snd (mock_chat k m messages calls)
   \<and> (case fst (mock_chat k m messages calls) of
        (d, Raised e) \<Rightarrow> fst (mock_stream_chat k m messages calls) = [(d, Breaks e)]
      | (d, Returned r) \<Rightarrow>
          step_texts (fst (mock_stream_chat k m messages calls)) = cr_content r
          \<and> snd (last (fst (mock_stream_chat k m messages calls))) = Yields (StreamEnd (cr_usage r) (cr_finish_reason r))
      | _ \<Rightarrow> False)"
proof (cases "behave k m calls")
  case (Pair de calls')
  obtain d err where de: "de = (d, err)" by (cases de)
  show ?thesis
    by (cases err) (simp_all add: mock_chat_def mock_stream_chat_def Pair de Let_def step_texts_words mock_words_join)
qed

lemma add_word_length [simp]: "length (foldl (add_word blake n) v ws) = length v"
  by (induction ws arbitrary: v) (auto simp: add_word_def Let_def)

definition coordinate :: "(string \<Rightarrow> nat) \<Rightarrow> nat \<Rightarrow> nat \<Rightarrow> string \<Rightarrow> rat" where
  "coordinate blake n i w = (if blake w mod n = i then if odd (blake w div 2 ^ 63) then 1 else - 1 else 0)"

lemma add_words_nth:
  "i < length v \<Longrightarrow> foldl (add_word blake (length v)) v ws ! i = v ! i + sum_list (map (coordinate blake (length v) i) ws)"
proof (induction ws arbitrary: v)
  case (Cons w ws)
  then show ?case
    using Cons(1) [of "add_word blake (length v) v w"]
    by (auto simp: add_word_def coordinate_def Let_def nth_list_update)
qed simp

text \<open>The embedding is one of a bag of words: texts with the same content words, in whatever order and case and whatever
  the words between, get the same vector.\<close>

theorem bag_of_words:
  assumes "mset (content_words a) = mset (content_words b)"
  shows "hashed_embedding blake msqrt a n = hashed_embedding blake msqrt b n"
proof -
  have "sum_list (map f (content_words a)) = sum_list (map f (content_words b))" for f :: "string \<Rightarrow> rat"
    using assms by (metis mset_map sum_mset_sum_list)
  then have "word_vector blake a n = word_vector blake b n"
    using add_words_nth [of _ "replicate n 0" blake] by (intro nth_equalityI) (simp_all add: word_vector_def)
  moreover have "content_words a = [] \<longleftrightarrow> content_words b = []"
    using assms by (metis mset_zero_iff)
  ultimately show ?thesis
    by (simp only: hashed_embedding_def)
qed

text \<open>An embedding has the size asked for and length one, or is zero, where the square root taken of its length is exact.\<close>

lemma scaled_squares: "c \<noteq> 0 \<Longrightarrow> squares (map (\<lambda>v. v / c) vs) = squares vs / (c * c)"
  by (induction vs) (simp_all add: squares_def add_divide_distrib)

lemma embedding_normalized:
  assumes "hashed_embedding blake msqrt t n = Some vec"
    and "msqrt (squares (word_vector blake t n)) ^ 2 = squares (word_vector blake t n)"
  shows "length vec = n \<and> squares vec \<in> {0, 1}"
proof -
  let ?c = "msqrt (squares (word_vector blake t n))"
  have vec: "vec = (if ?c = 0 then word_vector blake t n else map (\<lambda>v. v / ?c) (word_vector blake t n))"
    using assms(1) by (auto simp: hashed_embedding_def Let_def split: if_splits)
  then have "squares vec \<in> {0, 1}"
    using assms(2) by (auto simp: scaled_squares power2_eq_square)
  with vec show ?thesis by (simp add: word_vector_def)
qed

text \<open>Whatever the question, a ticket the stand-in asks for has arguments the registry accepts.\<close>

lemma py_contains_length: "py_contains p s \<Longrightarrow> length p \<le> length s"
  by (auto simp: py_contains_iff sublist_length_le)

lemma mock_ticket_args:
  assumes "route_decision question = tool_decision ''create_support_ticket'' args"
  shows "py_contains ''ticket'' (py_lower question)
    \<and> (\<exists>s \<in> set severities. args = [(''title'', JStr (take 80 question)), (''severity'', JStr s), (''details'', JStr (take 500 question))])"
proof -
  let ?q = "py_lower question"
  have sev: "severity_in ?q \<in> set severities"
    by (auto simp: severity_in_def severities_def split: option.split dest: find_SomeD)
  have other: "decision_text r JNull JNull \<noteq> tool_decision t a" "tool_decision t a = tool_decision t' a' \<longleftrightarrow> t = t' \<and> a = a'"
    for r t a t' a'
    by (auto simp: tool_decision_def decision_text_def)
  have no: "''create_vpn_profile'' \<noteq> ''create_support_ticket''" "''get_support_ticket'' \<noteq> ''create_support_ticket''"
    "''get_server_status'' \<noteq> ''create_support_ticket''"
    by code_simp+
  show ?thesis
    using assms sev unfolding route_decision_def Let_def
    by (simp only: other no if_split_asm option.split_asm simp_thms split: if_split_asm option.split_asm) blast
qed

lemma mock_ticket_accepted:
  assumes "route_decision question = tool_decision ''create_support_ticket'' args"
  shows "validate_ticket args \<noteq> None"
proof -
  obtain s where s: "s \<in> set severities" and q: "py_contains ''ticket'' (py_lower question)"
    and args: "args = [(''title'', JStr (take 80 question)), (''severity'', JStr s), (''details'', JStr (take 500 question))]"
    using mock_ticket_args [OF assms] by blast
  have "6 \<le> length question" using py_contains_length [OF q] by simp
  then have "4 \<le> length (take 80 question)" "length (take 80 question) \<le> 200" "4 \<le> length (take 500 question)" "length (take 500 question) \<le> 4000"
    by simp_all
  with s show ?thesis
    by (simp add: args validate_ticket_def Let_def absent_means_none_def only_fields_def str_field_def jget_def len_between_def del: length_take)
qed

end
