(* ===== verification/ChunkEval.thy ===== *)
theory ChunkEval
  imports Chunking Auth Mock
begin

text \<open>
  \<open>evaluation/chunking_eval.py\<close> and \<open>chunkers.py\<close>: the chunking strategies, the embedding cache, vector and lexical ranking, their
  fusion, and the metrics of one case; \<open>judge.py\<close> and \<open>run_eval.py\<close> use its interval. SHA-256, the embedding service, NFKC, \<open>sqrt\<close> and
  \<open>log\<close> are parameters; floats are rationals. A case has some evidence.
\<close>

section \<open>Strategies\<close>

record eval_chunk =
  ek_doc_key :: string
  ek_embed_text :: string
  ek_context :: string

definition structural :: "parsed_document \<Rightarrow> int \<Rightarrow> int \<Rightarrow> chunk list" where
  "structural doc target_tokens split_tokens =
     (let title = dm_title (pd_meta doc);
          groups = pack_units (split_units split_tokens target_tokens 0 (pd_blocks doc)) target_tokens
      in map (\<lambda>(i, g). make_chunk i g (body_of g) (header_for title (un_headings (hd g)) False) (locator_for title g False) None)
           (zip [0..<length groups] groups))"

definition hierarchical :: "parsed_document \<Rightarrow> int \<Rightarrow> int \<Rightarrow> chunk list" where
  "hierarchical doc max_tokens split_tokens =
     (let title = dm_title (pd_meta doc);
          groups = pack_units (split_units split_tokens 64 0 (pd_blocks doc)) max_tokens
      in map (\<lambda>(i, g). make_chunk i g (body_of g) (header_for title (un_headings (hd g)) True) (locator_for title g True) None)
           (zip [0..<length groups] groups))"

definition ours :: "parsed_document list \<Rightarrow> (parsed_document \<Rightarrow> chunk list) \<Rightarrow> eval_chunk list" where
  "ours docs chunker =
     concat (map (\<lambda>d. map (\<lambda>c. \<lparr>ek_doc_key = dm_document_id (pd_meta d), ek_embed_text = ch_embed_text c, ek_context = ch_context c\<rparr>)
                        (chunker d)) docs)"

definition titled_chunk :: "parsed_document \<Rightarrow> string \<Rightarrow> eval_chunk" where
  "titled_chunk d t =
     \<lparr>ek_doc_key = dm_document_id (pd_meta d), ek_embed_text = dm_title (pd_meta d) @ [newline] @ t, ek_context = t\<rparr>"

text \<open>\<open>range(0, stop, step)\<close>; a step of zero raises.\<close>

definition py_range :: "nat \<Rightarrow> nat \<Rightarrow> nat list option" where
  "py_range stop step = (if step = 0 then None else Some (map (\<lambda>i. i * step) [0..<(stop + step - 1) div step]))"

definition fixed_window_of :: "nat \<Rightarrow> nat \<Rightarrow> parsed_document \<Rightarrow> eval_chunk list option" where
  "fixed_window_of window overlap d =
     (let ws = py_split_ws (py_join '' '' (map bl_text (pd_blocks d)));
          step = max 1 (window - overlap); wsize = 3 * window div 4; wstep = 3 * step div 4
      in map_option (map (\<lambda>start. titled_chunk d (py_join '' '' (take wsize (drop start ws)))))
           (py_range (max 1 (length ws - 3 * overlap div 4)) wstep))"

definition fixed_window :: "parsed_document list \<Rightarrow> nat \<Rightarrow> nat \<Rightarrow> eval_chunk list option" where
  "fixed_window docs window overlap = map_option concat (those (map (fixed_window_of window overlap) docs))"

definition pages_of :: "block list \<Rightarrow> (int option, string list) dict" where
  "pages_of bs =
     foldl (\<lambda>d b. dict_put (bl_page b) ((case dict_get d (bl_page b) of Some ts \<Rightarrow> ts | None \<Rightarrow> []) @ [bl_text b]) d) [] bs"

definition per_page :: "parsed_document list \<Rightarrow> eval_chunk list" where
  "per_page docs = concat (map (\<lambda>d. map (\<lambda>kv. titled_chunk d (py_join [newline] (snd kv))) (pages_of (pd_blocks d))) docs)"

section \<open>Embedding\<close>

type_synonym embed_cache = "(string, rat list) dict"

fun batches :: "nat \<Rightarrow> 'a list \<Rightarrow> 'a list list" where
  "batches k xs = (if xs = [] \<or> k = 0 then [] else take k xs # batches k (drop k xs))"

declare batches.simps [simp del]

definition kind_prefix :: "string \<Rightarrow> string" where
  "kind_prefix k = (if k = ''query'' then ''search_query: '' else ''search_document: '')"

text \<open>\<open>call\<close> is the service: a vector for every text of a batch.\<close>

definition embed_texts ::
  "(string \<Rightarrow> string) \<Rightarrow> (string list \<Rightarrow> rat list list) \<Rightarrow> embed_cache \<Rightarrow> string list \<Rightarrow> string \<Rightarrow> rat list option list \<times> embed_cache" where
  "embed_texts sha call cache texts k =
     (let full = map (\<lambda>t. kind_prefix k @ t) texts;
          missing = filter (\<lambda>kv. dict_get cache (fst kv) = None) (map (\<lambda>t. (sha t, t)) full);
          cache' = foldl (\<lambda>c batch. foldl (\<lambda>c (kv, vec). dict_put (fst kv) vec c) c (zip batch (call (map snd batch))))
                     cache (batches 32 missing)
      in (map (\<lambda>t. dict_get cache' (sha t)) full, cache'))"

section \<open>Ranking\<close>

definition dot :: "rat list \<Rightarrow> rat list \<Rightarrow> rat" where
  "dot a b = sum_list (map (\<lambda>(x, y). x * y) (zip a b))"

definition cosine :: "(rat \<Rightarrow> rat) \<Rightarrow> rat list \<Rightarrow> rat list \<Rightarrow> rat" where
  "cosine msqrt a b =
     (let n = msqrt (squares a) * msqrt (squares b) in dot a b / (if n = 0 then 1 else n))"

definition bm_terms :: "string \<Rightarrow> string list" where
  "bm_terms t =
     filter (\<lambda>w. w \<notin> set stopwords) (char_runs (\<lambda>c. is_lower_az c \<or> is_digit c \<or> c = CHR ''%'') [] (py_lower t))"

definition occurrences :: "'a \<Rightarrow> 'a list \<Rightarrow> nat" where
  "occurrences x xs = length (filter (\<lambda>y. y = x) xs)"

definition term_score :: "(rat \<Rightarrow> rat) \<Rightarrow> string list list \<Rightarrow> string list \<Rightarrow> string \<Rightarrow> rat" where
  "term_score mlog toks ts q =
     (let n = of_nat (length toks);
          avg = of_nat (sum_list (map length toks)) / of_nat (max 1 (length toks));
          df = of_nat (length (filter (\<lambda>us. q \<in> set us) toks));
          tf = of_nat (occurrences q ts);
          idf = mlog (1 + (n - df + 1 / 2) / (df + 1 / 2))
      in if q \<notin> set ts then 0
         else idf * tf * (11 / 5) / (tf + 6 / 5 * (1 / 4 + 3 / 4 * of_nat (length ts) / avg)))"

definition bm25 :: "(rat \<Rightarrow> rat) \<Rightarrow> string \<Rightarrow> string list \<Rightarrow> rat list" where
  "bm25 mlog query docs =
     (let toks = map bm_terms docs in
      map (\<lambda>ts. sum_list (map (term_score mlog toks ts) (remdups (bm_terms query)))) toks)"

fun add_rank :: "(nat, rat) dict \<Rightarrow> nat \<times> nat \<Rightarrow> (nat, rat) dict" where
  "add_rank d (r, i) = dict_put i ((case dict_get d i of Some s \<Rightarrow> s | None \<Rightarrow> 0) + 1 / of_nat (60 + r)) d"

definition add_ranking :: "(nat, rat) dict \<Rightarrow> nat list \<Rightarrow> (nat, rat) dict" where
  "add_ranking d ranking = foldl add_rank d (zip [1..<length ranking + 1] ranking)"

definition fuse_ranks :: "nat list list \<Rightarrow> (nat, rat) dict" where
  "fuse_ranks rankings = foldl add_ranking [] rankings"

text \<open>The ranking of the chunks the case's user may read.\<close>

definition eval_ranking ::
  "(rat \<Rightarrow> rat) \<Rightarrow> (rat \<Rightarrow> rat) \<Rightarrow> bool \<Rightarrow> eval_chunk list \<Rightarrow> rat list list \<Rightarrow> string \<Rightarrow> rat list \<Rightarrow> nat list \<Rightarrow> nat list" where
  "eval_ranking msqrt mlog hybrid chunks vectors query qv allowed =
     (let vec_rank = sorted_desc (\<lambda>i. cosine msqrt qv (vectors ! i)) allowed;
          bm = bm25 mlog query (map (\<lambda>i. ek_embed_text (chunks ! i)) allowed);
          bm_rank = map (\<lambda>j. allowed ! j) (filter (\<lambda>j. 0 < bm ! j) (sorted_desc (\<lambda>j. bm ! j) [0..<length allowed]))
      in if hybrid then map fst (sorted_desc snd (fuse_ranks [vec_rank, bm_rank])) else vec_rank)"

definition readable_chunks :: "access_scope \<Rightarrow> (string \<Rightarrow> document_meta) \<Rightarrow> eval_chunk list \<Rightarrow> nat list" where
  "readable_chunks scope metas chunks =
     filter (\<lambda>i. let m = metas (ek_doc_key (chunks ! i)) in can_read scope (dm_department m) (dm_classification m)) [0..<length chunks]"

section \<open>Metrics\<close>

definition wilson :: "(rat \<Rightarrow> rat) \<Rightarrow> rat \<Rightarrow> nat \<Rightarrow> rat \<Rightarrow> rat \<times> rat" where
  "wilson msqrt successes n z =
     (if n = 0 then (0, 0)
      else let m = of_nat n; p = successes / m; denom = 1 + z ^ 2 / m; centre = (p + z ^ 2 / (2 * m)) / denom;
               margin = z * msqrt (p * (1 - p) / m + z ^ 2 / (4 * m ^ 2)) / denom
           in (max 0 (centre - margin), min 1 (centre + margin)))"

definition contains_evidence :: "string \<Rightarrow> string list \<Rightarrow> string list list \<Rightarrow> bool" where
  "contains_evidence context evidence terms \<longleftrightarrow>
     list_ex (\<lambda>e. py_contains e context) evidence \<or> list_ex (list_all (\<lambda>t. py_contains t context)) terms"

text \<open>Of the two dashes only the en dash (0x96) is in the repertoire.\<close>

definition norm_text :: "(string \<Rightarrow> string) \<Rightarrow> string \<Rightarrow> string" where
  "norm_text nfkc t =
     py_join '' '' (py_split_ws (py_lower (map (\<lambda>c. if c = CHR 0x96 then CHR ''-'' else c) (nfkc t))))"

definition first_hit :: "(string \<Rightarrow> string) \<Rightarrow> string list \<Rightarrow> string list \<Rightarrow> string list list \<Rightarrow> nat option" where
  "first_hit nfkc contexts evidence terms =
     (let i = length (takeWhile (\<lambda>c. \<not> contains_evidence (norm_text nfkc c) evidence terms) contexts)
      in if i < length contexts then Some (i + 1) else None)"

definition found_at :: "(string \<Rightarrow> string) \<Rightarrow> string list \<Rightarrow> string list \<Rightarrow> string list list \<Rightarrow> nat \<Rightarrow> nat" where
  "found_at nfkc contexts evidence terms k =
     (let top = py_join '' '' (map (norm_text nfkc) (take k contexts)) in
      length (filter (\<lambda>e. py_contains e top) evidence) + length (filter (list_all (\<lambda>t. py_contains t top)) terms))"

record case_metrics =
  km_mrr :: rat
  km_recall :: "nat \<Rightarrow> rat"
  km_hit :: "nat \<Rightarrow> rat"
  km_tokens :: "nat \<Rightarrow> nat"
  km_missed :: bool

definition case_metrics_of :: "(string \<Rightarrow> string) \<Rightarrow> string list \<Rightarrow> string list \<Rightarrow> string list list \<Rightarrow> case_metrics" where
  "case_metrics_of nfkc contexts evidence terms =
     (let hit = first_hit nfkc contexts evidence terms in
      \<lparr>km_mrr = (case hit of Some r \<Rightarrow> 1 / of_nat r | None \<Rightarrow> 0),
       km_recall = (\<lambda>k. of_nat (found_at nfkc contexts evidence terms k) / of_nat (length evidence + length terms)),
       km_hit = (\<lambda>k. if found_at nfkc contexts evidence terms k = 0 then 0 else 1),
       km_tokens = (\<lambda>k. sum_list (map estimate_tokens (take k contexts))),
       km_missed = (case hit of Some r \<Rightarrow> 3 < r | None \<Rightarrow> True)\<rparr>)"

record retrieval_case =
  rk_id :: string
  rk_user :: principal
  rk_query :: string
  rk_evidence :: "string list"
  rk_terms :: "string list list"

definition ranked_contexts :: "eval_chunk list \<Rightarrow> nat list \<Rightarrow> string list" where
  "ranked_contexts chunks ranking = first_by id [] (map (\<lambda>i. ek_context (chunks ! i)) ranking)"

definition evaluate_case ::
  "(string \<Rightarrow> string) \<Rightarrow> (rat \<Rightarrow> rat) \<Rightarrow> (rat \<Rightarrow> rat) \<Rightarrow> bool \<Rightarrow> (string \<Rightarrow> document_meta) \<Rightarrow> eval_chunk list \<Rightarrow> rat list list
   \<Rightarrow> rat list \<Rightarrow> retrieval_case \<Rightarrow> case_metrics" where
  "evaluate_case nfkc msqrt mlog hybrid metas chunks vectors qv c =
     (let allowed = readable_chunks (scope_for (rk_user c)) metas chunks;
          ranking = eval_ranking msqrt mlog hybrid chunks vectors (rk_query c) qv allowed
      in case_metrics_of nfkc (ranked_contexts chunks ranking) (map (norm_text nfkc) (rk_evidence c)) (map (map (norm_text nfkc)) (rk_terms c)))"

text \<open>The averages over all cases, before they are rounded.\<close>

definition average :: "(case_metrics \<Rightarrow> rat) \<Rightarrow> case_metrics list \<Rightarrow> rat" where
  "average f ms = sum_list (map f ms) / of_nat (length ms)"

section \<open>What the metrics say\<close>

lemma keys_update: "fst ` set (AList.update k v d) = insert k (fst ` set d)"
  using dom_update [of k v d] by (simp add: dom_map_of_conv_image_fst)

lemma add_rank_keys: "fst ` set (foldl add_rank d xs) = fst ` set d \<union> snd ` set xs"
proof (induction xs arbitrary: d)
  case (Cons x xs)
  obtain r i where "x = (r, i)" by (cases x)
  with Cons show ?case by (simp add: keys_update insert_commute)
qed simp

lemma add_ranking_keys: "fst ` set (add_ranking d ranking) = fst ` set d \<union> set ranking"
proof -
  have "snd ` set (zip [1..<length ranking + 1] ranking) = set ranking"
    by (metis diff_add_inverse2 length_upt map_snd_zip set_map)
  then show ?thesis by (simp only: add_ranking_def add_rank_keys)
qed

lemma fuse_ranks_keys: "fst ` set (fuse_ranks rankings) = (\<Union>r \<in> set rankings. set r)"
proof -
  have "fst ` set (foldl add_ranking d rankings) = fst ` set d \<union> (\<Union>r \<in> set rankings. set r)" for d
    by (induction rankings arbitrary: d) (simp_all add: add_ranking_keys Un_assoc)
  then show ?thesis by (simp add: fuse_ranks_def)
qed

lemma eval_ranking_allowed: "set (eval_ranking msqrt mlog hybrid chunks vectors query qv allowed) \<subseteq> set allowed"
proof -
  have bm: "set (map (\<lambda>j. allowed ! j) (filter P (sorted_desc f [0..<length allowed]))) \<subseteq> set allowed" for P f
    by auto
  show ?thesis
    unfolding eval_ranking_def Let_def
    by (cases hybrid) (use bm in \<open>auto simp: fuse_ranks_keys\<close>)
qed

text \<open>A strategy is scored only on what the case's user may read: every ranked context is that of a chunk whose document the
  user's scope admits.\<close>

lemma contexts_readable:
  assumes "ctx \<in> set (ranked_contexts chunks (eval_ranking msqrt mlog hybrid chunks vectors query qv (readable_chunks scope metas chunks)))"
  shows "\<exists>c \<in> set chunks. ek_context c = ctx
    \<and> can_read scope (dm_department (metas (ek_doc_key c))) (dm_classification (metas (ek_doc_key c)))"
proof -
  obtain i where i: "i \<in> set (readable_chunks scope metas chunks)" "ctx = ek_context (chunks ! i)"
    using assms set_first_by eval_ranking_allowed [of msqrt mlog hybrid chunks vectors query qv "readable_chunks scope metas chunks"]
    unfolding ranked_contexts_def by fastforce
  then show ?thesis by (auto simp: readable_chunks_def Let_def intro!: bexI [of _ "chunks ! i"])
qed

text \<open>The contexts are joined before they are searched: evidence cut in half at a boundary is credited when the two halves
  come one after the other.\<close>

lemma straddling_evidence:
  "found_at id [''alpha'', ''beta''] [''alpha beta''] [] 2 = 1 \<and> first_hit id [''alpha'', ''beta''] [''alpha beta''] [] = None"
  by code_simp

text \<open>The interval contains the observed rate and lies between zero and one, if the square root it takes is exact.\<close>

lemma wilson_contains:
  assumes n: "0 < n" and s: "0 \<le> successes" "successes \<le> of_nat n" and z: "0 \<le> z"
    and root: "let p = successes / of_nat n; v = p * (1 - p) / of_nat n + z ^ 2 / (4 * of_nat n ^ 2) in 0 \<le> msqrt v \<and> msqrt v ^ 2 = v"
    and w: "wilson msqrt successes n z = (low, high)"
  shows "0 \<le> low \<and> low \<le> successes / of_nat n \<and> successes / of_nat n \<le> high \<and> high \<le> 1"
proof -
  define m :: rat where "m = of_nat n"
  define p where "p = successes / m"
  define v where "v = p * (1 - p) / m + z ^ 2 / (4 * m ^ 2)"
  define denom where "denom = 1 + z ^ 2 / m"
  have m: "0 < m" using n by (simp add: m_def)
  have p: "0 \<le> p" "p \<le> 1" using s m by (simp_all add: p_def m_def divide_le_eq)
  have v: "0 \<le> msqrt v" "msqrt v ^ 2 = v" using root by (simp_all add: Let_def v_def p_def m_def)
  have d: "0 < denom" using m by (simp add: denom_def add_pos_nonneg)
  have "(z ^ 2 / m * (p - 1 / 2)) ^ 2 \<le> (z * msqrt v) ^ 2"
  proof -
    have "(z * msqrt v) ^ 2 - (z ^ 2 / m * (p - 1 / 2)) ^ 2 = z ^ 2 * (p * (1 - p) / m + z ^ 2 * (p * (1 - p)) / m ^ 2)"
    proof -
      have "(z * msqrt v) ^ 2 = z ^ 2 * v" by (simp add: power_mult_distrib v(2))
      then show ?thesis using m by (simp add: v_def) (simp add: field_simps power2_eq_square)
    qed
    moreover have "0 \<le> z ^ 2 * (p * (1 - p) / m + z ^ 2 * (p * (1 - p)) / m ^ 2)"
      using p m by simp
    ultimately show ?thesis by simp
  qed
  then have a: "\<bar>z ^ 2 / m * (p - 1 / 2)\<bar> \<le> z * msqrt v"
    using z v(1) by (metis abs_le_square_iff abs_of_nonneg mult_nonneg_nonneg)
  have "p * denom - (p + z ^ 2 / (2 * m)) = z ^ 2 / m * (p - 1 / 2)"
    using m by (simp add: denom_def field_simps)
  moreover have "p - (p + z ^ 2 / (2 * m)) / denom = (p * denom - (p + z ^ 2 / (2 * m))) / denom"
    using d by (simp add: diff_divide_distrib)
  ultimately have c: "p - (p + z ^ 2 / (2 * m)) / denom = z ^ 2 / m * (p - 1 / 2) / denom"
    by (simp only:)
  have "\<bar>p - (p + z ^ 2 / (2 * m)) / denom\<bar> \<le> z * msqrt v / denom"
    using divide_right_mono [OF a, of denom] d unfolding c abs_divide [of _ denom] by simp
  moreover have "low = max 0 ((p + z ^ 2 / (2 * m)) / denom - z * msqrt v / denom)"
    "high = min 1 ((p + z ^ 2 / (2 * m)) / denom + z * msqrt v / denom)"
    using w n by (auto simp: wilson_def Let_def m_def p_def v_def denom_def)
  ultimately show ?thesis
    using p by (simp add: p_def m_def abs_le_iff algebra_simps)
qed

end
