(* ===== verification/EvalRun.thy ===== *)
theory EvalRun
  imports Judge ChunkEval ReadApi Chat
begin

text \<open>
  \<open>evaluation/client.py\<close> and \<open>evaluation/run_eval.py\<close>: the client that waits out rate limits, the checks of one case, the judging
  pass, and the counts of the report. A case's reply is the \<open>ChatResponse\<close> of the API model, its hits are the \<open>SearchHit\<close>s; times
  and replies are arguments. The layout of the report is left out.
\<close>

section \<open>The client\<close>

definition MAX_WAITS :: nat where "MAX_WAITS = 10"

text \<open>The attempts one request makes: status, wait hint, reply. \<open>float\<close> of a hint that is no number raises.\<close>

fun client_request :: "(string \<Rightarrow> rat option) \<Rightarrow> nat \<Rightarrow> (nat \<Rightarrow> int \<times> string option \<times> 'b) \<Rightarrow> nat \<Rightarrow> rat \<Rightarrow> (string + int \<times> 'b) \<times> rat" where
  "client_request float_of 0 send i waited = (Inl ''RuntimeError'', waited)"
| "client_request float_of (Suc n) send i waited =
     (case send i of
        (status, retry_after, body) \<Rightarrow>
          (if status \<noteq> 429 then (Inr (status, body), waited)
           else case float_of (case retry_after of None \<Rightarrow> ''1'' | Some h \<Rightarrow> h) of
                  None \<Rightarrow> (Inl ''ValueError'', waited)
                | Some s \<Rightarrow> client_request float_of n send (Suc i) (waited + max 0 (min s 30 + 1 / 10))))"

text \<open>The tokens of a run, and the one renewal after a 401; \<open>send i t\<close> is the reply to the \<open>i\<close>-th try.\<close>

definition token_for :: "(nat \<Rightarrow> string \<Rightarrow> string) \<Rightarrow> nat \<Rightarrow> string \<Rightarrow> (string, string) dict \<Rightarrow> string \<times> (string, string) dict" where
  "token_for issue i user cache =
     (case dict_get cache user of Some t \<Rightarrow> (t, cache) | None \<Rightarrow> (issue i user, dict_put user (issue i user) cache))"

definition post_as ::
  "(nat \<Rightarrow> string \<Rightarrow> string) \<Rightarrow> (nat \<Rightarrow> string \<Rightarrow> int \<times> 'b) \<Rightarrow> string \<Rightarrow> (string, string) dict \<Rightarrow> (int \<times> 'b) \<times> (string, string) dict" where
  "post_as issue send user cache =
     (let (t0, c0) = token_for issue 0 user cache; r0 = send 0 t0 in
      if fst r0 \<noteq> 401 then (r0, c0)
      else let (t1, c1) = token_for issue 1 user (filter (\<lambda>kv. fst kv \<noteq> user) c0); r1 = send 1 t1 in
           (r1, if fst r1 \<noteq> 401 then c1 else filter (\<lambda>kv. fst kv \<noteq> user) c1))"

section \<open>Cases and results\<close>

record eval_case =
  ec_case_id :: string
  ec_category :: string
  ec_prompt :: string
  ec_actor_id :: string
  ec_model :: "string option"
  ec_expected_outcome :: string
  ec_expected_tool :: "string option"
  ec_expected_arguments :: "(string \<times> json) list"
  ec_must_not_contain :: "string list"
  ec_expected_sources :: "string list"
  ec_forbidden_sources :: "string list"
  ec_reference_facts :: "string list"

text \<open>Deterministic checks: passed, and the detail; a check that does not apply is absent.\<close>

type_synonym checks = "(string, bool \<times> string) dict"

record fact_result =
  fr_fact :: string
  fr_verdict :: "verdict option"
  fr_quote :: string
  fr_note :: string
  fr_error :: "string option"
  fr_unverified :: bool

record citation_support =
  cs_ref :: string
  cs_claim :: string
  cs_supports :: "bool option"

record case_result =
  ev_case_id :: string
  ev_category :: string
  ev_checks :: checks
  ev_facts :: "fact_result list"
  ev_unsupported_claims :: "string list"
  ev_citation_support :: "citation_support list"
  ev_rank_of_expected :: "nat option"
  ev_latency_ms :: rat
  ev_model_latency_ms :: rat
  ev_prompt_tokens :: nat
  ev_completion_tokens :: nat
  ev_cost_usd :: rat
  ev_route :: string
  ev_answer :: string
  ev_error :: "string option"
  ev_repointed_citations :: nat
  ev_escalation :: "escalation option"
  ev_judge_inputs :: "(search_hit list \<times> chat_response) option"

definition failed_facts :: "case_result \<Rightarrow> fact_result list" where
  "failed_facts r =
     filter (\<lambda>f. (fr_verdict f = Some Missing \<or> fr_verdict f = Some Contradicted) \<and> \<not> fr_unverified f) (ev_facts r)"

definition passed :: "case_result \<Rightarrow> bool" where
  "passed r \<longleftrightarrow> list_all (\<lambda>kv. fst (snd kv)) (ev_checks r) \<and> failed_facts r = []"

definition verdict_text :: "verdict option \<Rightarrow> string" where
  "verdict_text v =
     (case v of None \<Rightarrow> ''None'' | Some Supported \<Rightarrow> ''supported'' | Some Contradicted \<Rightarrow> ''contradicted'' | Some Missing \<Rightarrow> ''missing'')"

definition case_failures :: "case_result \<Rightarrow> string list" where
  "case_failures r =
     map (\<lambda>(k, ok, d). k @ '': '' @ d) (filter (\<lambda>kv. \<not> fst (snd kv)) (ev_checks r))
     @ map (\<lambda>f. ''fact '' @ verdict_text (fr_verdict f) @ '': '' @ fr_fact f
          @ (if fr_quote f = [] then [] else '' (judge quoted: '' @ py_repr (take 70 (fr_quote f)) @ '')'')) (failed_facts r)"

section \<open>The outcome of a case\<close>

definition repr_opt :: "string option \<Rightarrow> string" where
  "repr_opt s = (case s of None \<Rightarrow> ''None'' | Some x \<Rightarrow> py_repr x)"

definition text_opt :: "string option \<Rightarrow> string" where
  "text_opt s = (case s of None \<Rightarrow> ''None'' | Some x \<Rightarrow> x)"

definition bool_text :: "bool \<Rightarrow> string" where
  "bool_text b = (if b then ''True'' else ''False'')"

definition tool_status_of :: "chat_response \<Rightarrow> string option" where
  "tool_status_of body = map_option ty_status (xr_tool body)"

definition tool_name_of :: "chat_response \<Rightarrow> string option" where
  "tool_name_of body = map_option ty_name (xr_tool body)"

definition expected_check :: "string \<Rightarrow> chat_response \<Rightarrow> (string \<times> bool \<times> string) list" where
  "expected_check expected body =
     (let route = ''route='' @ xr_route body; status = tool_status_of body in
      if expected = ''answer'' then [(''answered'', \<not> xr_abstained body \<and> xr_content body \<noteq> [], route)]
      else if expected = ''abstain'' then [(''abstained'', xr_abstained body, route @ '', abstained='' @ bool_text (xr_abstained body))]
      else if expected = ''answer_or_abstain'' then [(''no_invention'', xr_route body \<in> {''knowledge'', ''small_talk''}, route)]
      else if expected \<in> {''tool_ok'', ''tool_denied'', ''tool_pending''} then
        (let want = drop 5 expected in
         [(''tool_status'', status = Some want, ''status='' @ repr_opt status @ '', wanted '' @ py_repr want)])
      else if expected = ''tool_any'' then [(''tool_called'', xr_tool body \<noteq> None, route)]
      else if expected = ''no_tool'' then [(''no_tool_call'', xr_tool body = None, ''tool='' @ text_opt (tool_name_of body))]
      else if expected = ''no_execution'' then [(''nothing_executed'', status \<noteq> Some ''ok'', ''status='' @ repr_opt status)]
      else if expected = ''refuse'' then [(''refused'', xr_route body = ''refuse'', route)]
      else if expected = ''answer_after_fallback'' then
        [(''fallback_recovered'', xr_fallback_used body \<and> \<not> xr_abstained body,
          ''fallback_used='' @ bool_text (xr_fallback_used body) @ '', attempts='' @ nat_str (length (xr_attempts body)))]
      else if expected = ''controlled_failure'' then
        [(''failed_cleanly'', xr_abstained body \<or> xr_content body = [], ''content='' @ py_repr (take 60 (xr_content body)))]
      else [])"

definition tool_check :: "eval_case \<Rightarrow> chat_response \<Rightarrow> (string \<times> bool \<times> string) list" where
  "tool_check c body =
     (case ec_expected_tool c of
        Some (x # xs) \<Rightarrow>
          [(''tool_choice'', tool_name_of body = Some (x # xs), ''chose '' @ repr_opt (tool_name_of body) @ '', wanted '' @ py_repr (x # xs))]
      | Some [] \<Rightarrow> []
      | None \<Rightarrow>
          if py_startswith (ec_expected_outcome c) ''answer'' \<or> py_startswith (ec_expected_outcome c) ''abstain''
          then [(''no_stray_tool'', xr_tool body = None, ''tool='' @ text_opt (tool_name_of body))] else [])"

text \<open>The reply has no field \<open>tool_arguments\<close>: the arguments are looked up in the tool's data alone.\<close>

definition argument_check :: "eval_case \<Rightarrow> chat_response \<Rightarrow> (string \<times> bool \<times> string) list" where
  "argument_check c body =
     (let wanted = ec_expected_arguments c; got = (case map_option ty_data (xr_tool body) of Some (JObj kvs) \<Rightarrow> kvs | _ \<Rightarrow> []) in
      if wanted = [] then []
      else [(''tool_arguments'',
             list_all (\<lambda>(k, v). py_lower (str_of_field got k) = py_lower (json_str v)) wanted,
             ''wanted '' @ json_repr (JObj wanted) @ '', got '' @ json_repr (JObj got))])"

definition guard_checks :: "eval_case \<Rightarrow> chat_response \<Rightarrow> (string \<times> bool \<times> string) list" where
  "guard_checks c body =
     map (\<lambda>phrase. let held = \<not> py_contains (py_lower phrase) (py_lower (xr_content body)) in
            (''absent:'' @ take 28 phrase, held, if held then ''absent'' else ''appeared in the answer'')) (ec_must_not_contain c)"

definition put_checks :: "(string \<times> bool \<times> string) list \<Rightarrow> checks \<Rightarrow> checks" where
  "put_checks xs d = foldl (\<lambda>d (k, v). dict_put k v d) d xs"

definition outcome_checks :: "eval_case \<Rightarrow> chat_response \<Rightarrow> checks" where
  "outcome_checks c body =
     put_checks (expected_check (ec_expected_outcome c) body @ tool_check c body @ argument_check c body @ guard_checks c body) []"

section \<open>Running a case\<close>

datatype chat_answer = ChatOk chat_response | ChatFailed int string

definition repr_texts :: "string list \<Rightarrow> string" where
  "repr_texts xs = json_repr (JList (map JStr xs))"

definition sorted_set :: "string list \<Rightarrow> string list" where
  "sorted_set xs = sort (remdups xs)"

definition first_rank :: "string list \<Rightarrow> string list \<Rightarrow> nat option" where
  "first_rank wanted keys =
     (let i = length (takeWhile (\<lambda>k. k \<notin> set wanted) keys) in if i < length keys then Some (i + 1) else None)"

definition retrieval_checks :: "eval_case \<Rightarrow> search_hit list \<Rightarrow> (string \<times> bool \<times> string) list" where
  "retrieval_checks c hits =
     (let keys = map sh_doc_key hits in
      (if ec_expected_sources c = [] then []
       else [(''retrieved_expected'', first_rank (ec_expected_sources c) keys \<noteq> None, ''top-4 = '' @ repr_texts keys)])
      @ map (\<lambda>f. (''isolated:'' @ f, f \<notin> set keys, ''retrievable by '' @ ec_actor_id c)) (ec_forbidden_sources c))"

definition citation_checks :: "eval_case \<Rightarrow> chat_response \<Rightarrow> search_hit list \<Rightarrow> (string \<times> bool \<times> string) list" where
  "citation_checks c body hits =
     (let cited = map ci_doc_key (xr_citations body);
          retrieved = (if hits = [] then cited else map sh_doc_key hits);
          wanted = ec_expected_sources c
      in (if cited = [] then []
          else [(''citations_valid'', set cited \<subseteq> set retrieved,
                 ''cited '' @ repr_texts (sorted_set cited) @ '', retrieved '' @ repr_texts (sorted_set retrieved))])
         @ (if wanted \<noteq> [] \<and> (cited \<noteq> [] \<or> xr_content body \<noteq> [] \<and> \<not> xr_abstained body)
            then [(''cited_expected'', set cited \<inter> set wanted \<noteq> {},
                   ''cited '' @ (if cited = [] then ''nothing'' else repr_texts (sorted_set cited)) @ '', wanted one of '' @ repr_texts wanted)]
            else [])
         @ map (\<lambda>f. (''not_cited:'' @ f, f \<notin> set cited, ''cited a forbidden source'')) (ec_forbidden_sources c))"

definition new_result :: "eval_case \<Rightarrow> rat \<Rightarrow> case_result" where
  "new_result c latency =
     \<lparr>ev_case_id = ec_case_id c, ev_category = ec_category c, ev_checks = [], ev_facts = [], ev_unsupported_claims = [],
      ev_citation_support = [], ev_rank_of_expected = None, ev_latency_ms = latency, ev_model_latency_ms = 0, ev_prompt_tokens = 0,
      ev_completion_tokens = 0, ev_cost_usd = 0, ev_route = [], ev_answer = [], ev_error = None, ev_repointed_citations = 0,
      ev_escalation = None, ev_judge_inputs = None\<rparr>"

text \<open>\<open>found\<close> is what the search answered, \<open>None\<close> for any status but 200; it is asked only for a case with sources.\<close>

definition run_case :: "eval_case \<Rightarrow> rat \<Rightarrow> chat_answer \<Rightarrow> search_hit list option \<Rightarrow> case_result" where
  "run_case c latency reply found =
     (case reply of
        ChatFailed status error_code \<Rightarrow>
          (if ec_expected_outcome c = ''controlled_failure''
           then (new_result c latency)\<lparr>ev_checks := [(''failed_cleanly'', status \<in> {502, 503, 504}, ''status='' @ int_str status)]\<rparr>
           else (let e = ''HTTP '' @ int_str status @ '': '' @ error_code in
                 (new_result c latency)\<lparr>ev_error := Some e, ev_checks := [(''request'', False, e)]\<rparr>))
      | ChatOk body \<Rightarrow>
          (let asked = ec_expected_sources c \<noteq> [] \<or> ec_forbidden_sources c \<noteq> [];
               hits = (if asked then (case found of Some hs \<Rightarrow> hs | None \<Rightarrow> []) else [])
           in (new_result c latency)\<lparr>
                ev_checks := put_checks ((if asked then retrieval_checks c hits else []) @ citation_checks c body hits) (outcome_checks c body),
                ev_rank_of_expected := (if ec_expected_sources c = [] then None else first_rank (ec_expected_sources c) (map sh_doc_key hits)),
                ev_model_latency_ms := sum_list (map ao_latency_ms (xr_attempts body)),
                ev_prompt_tokens := prompt_tokens (xr_usage body), ev_completion_tokens := completion_tokens (xr_usage body),
                ev_cost_usd := xr_cost_usd body, ev_route := xr_route body, ev_answer := xr_content body,
                ev_repointed_citations := xr_repointed_citations body, ev_escalation := xr_escalation body,
                ev_judge_inputs := Some (hits, body)\<rparr>))"

section \<open>Judging a case\<close>

text \<open>\<open>re.split(r"(?<=[.!?])\s+", t)\<close>.\<close>

function eval_sentences :: "char option \<Rightarrow> string \<Rightarrow> string \<Rightarrow> string list" where
  "eval_sentences p w [] = [w]"
| "eval_sentences p w (c # cs) =
     (if py_space c \<and> (case p of None \<Rightarrow> False | Some d \<Rightarrow> d \<in> set ''.!?'')
      then w # eval_sentences (Some c) [] (dropWhile py_space cs) else eval_sentences (Some c) (w @ [c]) cs)"
  by pat_completeness auto
termination
  by (relation "measure (\<lambda>(_, _, s). length s)") (auto simp: le_imp_less_Suc length_dropWhile_le)

text \<open>The length of a marker \<open>[n]\<close> or \<open>#n\<close> at the start of a text.\<close>

definition marker_length :: "string \<Rightarrow> nat" where
  "marker_length s =
     (case s of
        [] \<Rightarrow> 0
      | c # cs \<Rightarrow>
          (let k = length (takeWhile is_digit cs) in
           if k = 0 then 0
           else if c = CHR ''['' \<and> py_startswith (drop k cs) '']'' then k + 2
           else if c = CHR ''#'' then k + 1 else 0))"

function without_markers :: "string \<Rightarrow> string" where
  "without_markers [] = []"
| "without_markers (c # cs) =
     (let k = marker_length (c # cs) in if k = 0 then c # without_markers cs else without_markers (drop (k - 1) cs))"
  by pat_completeness auto
termination
  by (relation "measure length") auto

definition claim_for :: "string \<Rightarrow> nat \<Rightarrow> string" where
  "claim_for answer number =
     (case find (\<lambda>s. py_contains (''['' @ nat_str number @ '']'') s \<or> py_contains (''#'' @ nat_str number) s) (eval_sentences None [] answer) of
        None \<Rightarrow> [] | Some s \<Rightarrow> py_strip (without_markers s))"

text \<open>The judging model: its reply to a system prompt, by name, and a user text.\<close>

record judge_model =
  jm_loads :: "string \<Rightarrow> string + json"
  jm_complete :: "string \<Rightarrow> string \<Rightarrow> completion"

definition lf2 :: string where "lf2 = [newline, newline]"

definition passages_text :: "string list \<Rightarrow> string" where
  "passages_text sources = (if sources = [] then ''(none)'' else py_join (newline # ''---'' @ [newline]) sources)"

definition answer_text :: "string \<Rightarrow> string" where
  "answer_text answer = (if answer = [] then ''(empty)'' else answer)"

definition fact_prompt :: "string \<Rightarrow> string \<Rightarrow> string \<Rightarrow> string list \<Rightarrow> string" where
  "fact_prompt question ref answer sources =
     ''QUESTION:'' @ [newline] @ question @ lf2 @ ''REFERENCE FACT:'' @ [newline] @ ref @ lf2 @ ''ANSWER:'' @ [newline]
     @ answer_text answer @ lf2 @ ''RETRIEVED PASSAGES:'' @ [newline] @ passages_text sources"

definition grounding_prompt :: "string \<Rightarrow> string \<Rightarrow> string list \<Rightarrow> string" where
  "grounding_prompt question answer sources =
     ''QUESTION:'' @ [newline] @ question @ lf2 @ ''ANSWER:'' @ [newline] @ answer_text answer @ lf2
     @ ''RETRIEVED PASSAGES:'' @ [newline] @ passages_text sources"

definition citation_prompt :: "string \<Rightarrow> string \<Rightarrow> string" where
  "citation_prompt claim snippet = ''PASSAGE:'' @ [newline] @ snippet @ lf2 @ ''STATEMENT:'' @ [newline] @ claim"

definition ask_fact :: "judge_model \<Rightarrow> string \<Rightarrow> string \<Rightarrow> string \<Rightarrow> string list \<Rightarrow> judgement" where
  "ask_fact j question ref answer sources =
     judge_fact (jm_loads j) (jm_complete j ''JUDGE_PROMPT'' (fact_prompt question ref answer sources)) ref answer"

definition ask_grounding :: "judge_model \<Rightarrow> string \<Rightarrow> string \<Rightarrow> string list \<Rightarrow> judgement judged" where
  "ask_grounding j question answer sources =
     judge_grounding (jm_loads j) (jm_complete j ''GROUNDING_PROMPT'' (grounding_prompt question answer sources)) sources"

definition ask_citation :: "judge_model \<Rightarrow> string \<Rightarrow> string \<Rightarrow> bool option" where
  "ask_citation j claim snippet =
     judge_citation (jm_loads j) (jm_complete j ''CITATION_PROMPT'' (citation_prompt claim snippet))"

definition fact_result_of :: "string \<Rightarrow> judgement \<Rightarrow> fact_result" where
  "fact_result_of ref j =
     \<lparr>fr_fact = ref, fr_verdict = jd_verdict j, fr_quote = jd_quote j, fr_note = jd_note j, fr_error = jd_error j,
      fr_unverified = jd_unverified j\<rparr>"

definition judged_case :: "case_result \<Rightarrow> eval_case \<Rightarrow> bool" where
  "judged_case r c \<longleftrightarrow> ev_route r = ''knowledge''
     \<and> \<not> (case ec_model c of None \<Rightarrow> False | Some m \<Rightarrow> py_startswith m ''mock/'' \<or> py_startswith m ''demo-'')"

definition support_of :: "judge_model \<Rightarrow> string \<Rightarrow> search_hit list \<Rightarrow> citation \<Rightarrow> citation_support list" where
  "support_of j answer hits c =
     (let claim = claim_for answer (ci_number c);
          section = map_of (rev (map (\<lambda>h. (sh_ref h, sh_context h)) hits)) (ci_ref c);
          passage = (case section of Some (x # xs) \<Rightarrow> x # xs | _ \<Rightarrow> ci_snippet c)
      in if claim = [] \<or> passage = [] then []
         else [\<lparr>cs_ref = ci_ref c, cs_claim = take 160 claim, cs_supports = ask_citation j claim passage\<rparr>])"

definition judge_case :: "judge_model \<Rightarrow> eval_case \<Rightarrow> case_result \<Rightarrow> case_result judged" where
  "judge_case j c r =
     (case ev_judge_inputs r of
        None \<Rightarrow> Judged r
      | Some (hits, body) \<Rightarrow>
          (if \<not> judged_case r c then Judged r
           else (let answer = ev_answer r;
                     passages = (if hits = [] then map ci_snippet (xr_citations body) else map sh_context hits);
                     js = map (\<lambda>f. (f, ask_fact j (ec_prompt c) f answer passages)) (ec_reference_facts c);
                     r' = r\<lparr>ev_facts := ev_facts r @ map (\<lambda>(f, x). fact_result_of f x) js,
                            ev_unsupported_claims := ev_unsupported_claims r @ concat (map (\<lambda>(f, x). jd_unsupported x) js),
                            ev_citation_support := ev_citation_support r @ concat (map (support_of j answer hits) (xr_citations body))\<rparr>
                 in if answer = [] \<or> xr_abstained body then Judged r'
                    else case ask_grounding j (ec_prompt c) answer passages of
                           JudgeCrashed x \<Rightarrow> JudgeCrashed x
                         | Judged g \<Rightarrow> Judged (r'\<lparr>ev_unsupported_claims := ev_unsupported_claims r' @ jd_unsupported g\<rparr>))))"

section \<open>The counts of the report\<close>

definition axis :: "string \<Rightarrow> case_result list \<Rightarrow> nat \<times> nat" where
  "axis name results =
     (let verdicts = concat (map (\<lambda>r. map (\<lambda>kv. fst (snd kv)) (filter (\<lambda>kv. py_startswith (fst kv) name) (ev_checks r))) results)
      in (length (filter id verdicts), length verdicts))"

definition rate :: "(rat \<Rightarrow> rat) \<Rightarrow> nat \<Rightarrow> nat \<Rightarrow> (rat \<times> rat \<times> rat) option" where
  "rate msqrt k n =
     (if n = 0 then None else Some (of_nat k / of_nat n, wilson msqrt (of_nat k) n (49 / 25)))"

definition mean_reciprocal_rank :: "case_result list \<Rightarrow> rat" where
  "mean_reciprocal_rank results =
     (let ranks = concat (map (\<lambda>r. case ev_rank_of_expected r of Some k \<Rightarrow> [k] | None \<Rightarrow> []) results);
          expected = filter (\<lambda>r. dict_has (ev_checks r) ''retrieved_expected'') results
      in if expected = [] then 0 else sum_list (map (\<lambda>k. 1 / of_nat k) ranks) / of_nat (length expected))"

definition pct :: "rat list \<Rightarrow> rat \<Rightarrow> rat" where
  "pct values q = (if values = [] then 0 else values ! min (nat \<lfloor>of_nat (length values) * q\<rfloor>) (length values - 1))"

definition isolation_failures :: "case_result list \<Rightarrow> (string \<times> string) list" where
  "isolation_failures results =
     concat (map (\<lambda>r. map (\<lambda>kv. (ev_case_id r, fst kv))
       (filter (\<lambda>kv. \<not> fst (snd kv) \<and> (py_startswith (fst kv) ''isolated:'' \<or> py_startswith (fst kv) ''not_cited:'')) (ev_checks r))) results)"

record summary =
  sm_total :: nat
  sm_passed :: nat
  sm_supported :: nat
  sm_contradicted :: nat
  sm_unverified :: nat
  sm_judge_errors :: nat
  sm_supporting :: nat
  sm_citations :: nat
  sm_escalated :: nat
  sm_mrr :: rat
  sm_p50 :: rat
  sm_p95 :: rat
  sm_isolation_failures :: "(string \<times> string) list"

definition summary_of :: "case_result list \<Rightarrow> summary" where
  "summary_of results =
     (let facts = concat (map ev_facts results);
          citations = filter (\<lambda>c. cs_supports c \<noteq> None) (concat (map ev_citation_support results));
          latencies = sort (map ev_latency_ms (filter (\<lambda>r. ev_error r = None) results))
      in \<lparr>sm_total = length results, sm_passed = length (filter passed results),
          sm_supported = length (filter (\<lambda>f. fr_verdict f = Some Supported) facts),
          sm_contradicted = length (filter (\<lambda>f. fr_verdict f = Some Contradicted) facts),
          sm_unverified = length (filter fr_unverified facts),
          sm_judge_errors = length (filter (\<lambda>f. fr_error f \<noteq> None \<and> \<not> fr_unverified f) facts),
          sm_supporting = length (filter (\<lambda>c. cs_supports c = Some True) citations), sm_citations = length citations,
          sm_escalated = length (filter (\<lambda>r. ev_escalation r \<noteq> None) results), sm_mrr = mean_reciprocal_rank results,
          sm_p50 = pct latencies (1 / 2), sm_p95 = pct latencies (19 / 20), sm_isolation_failures = isolation_failures results\<rparr>)"

text \<open>The baseline without retrieval: facts stated, guards held and kept, questions answered that should not be.\<close>

definition run_control :: "judge_model \<Rightarrow> (string \<Rightarrow> string) \<Rightarrow> eval_case list \<Rightarrow> nat \<times> nat \<times> nat \<times> nat \<times> nat" where
  "run_control j answer cases =
     (let graded = filter (\<lambda>c. ec_reference_facts c \<noteq> [] \<or> ec_must_not_contain c \<noteq> []) cases;
          facts = concat (map (\<lambda>c. map (\<lambda>f. jd_verdict (ask_fact j (ec_prompt c) f (answer (ec_prompt c)) [])) (ec_reference_facts c)) graded);
          guards = concat (map (\<lambda>c. map (\<lambda>p. \<not> py_contains (py_lower p) (py_lower (answer (ec_prompt c)))) (ec_must_not_contain c)) graded)
      in (length (filter (\<lambda>v. v = Some Supported) facts), length facts, length (filter id guards), length guards,
          length (filter (\<lambda>c. ec_expected_outcome c = ''abstain'' \<and> 120 < length (answer (ec_prompt c))) graded)))"

text \<open>The run refuses a judge of the answering model's family unless told otherwise.\<close>

definition same_family_refused :: "bool \<Rightarrow> string \<Rightarrow> string \<Rightarrow> bool" where
  "same_family_refused allowed judge_name answer_model \<longleftrightarrow> family_of judge_name = family_of answer_model \<and> \<not> allowed"

section \<open>What a passed case shows\<close>

lemma put_checks_get:
  "dict_get (put_checks xs d) k = (case filter (\<lambda>x. fst x = k) xs of [] \<Rightarrow> dict_get d k | y # ys \<Rightarrow> Some (snd (last (y # ys))))"
proof (induction xs arbitrary: d)
  case (Cons x xs)
  obtain k' v where x: "x = (k', v)" by (cases x)
  show ?case
    using Cons [of "dict_put k' v d"] unfolding put_checks_def x by (auto split: list.splits)
qed (simp add: put_checks_def)

lemma put_checks_uniform:
  assumes "(k, v) \<in> set xs" "\<And>v'. (k, v') \<in> set xs \<Longrightarrow> v' = v"
  shows "dict_get (put_checks xs d) k = Some v"
proof -
  have ne: "filter (\<lambda>x. fst x = k) xs \<noteq> []" using assms(1) by (force simp: filter_empty_conv)
  then have "last (filter (\<lambda>x. fst x = k) xs) \<in> set (filter (\<lambda>x. fst x = k) xs)" by (rule last_in_set)
  then have "snd (last (filter (\<lambda>x. fst x = k) xs)) = v"
    using assms(2) by (metis (mono_tags, lifting) mem_Collect_eq prod.collapse set_filter)
  with ne show ?thesis by (cases "filter (\<lambda>x. fst x = k) xs") (simp_all add: put_checks_get)
qed

lemma passed_check: "passed r \<Longrightarrow> dict_get (ev_checks r) k = Some v \<Longrightarrow> fst v"
  by (cases v) (force simp: passed_def list_all_iff dest: map_of_SomeD)

definition hits_found :: "search_hit list option \<Rightarrow> search_hit list" where
  "hits_found found = (case found of Some hs \<Rightarrow> hs | None \<Rightarrow> [])"

lemma isolation_checks:
  assumes f: "f \<in> set (ec_forbidden_sources c)"
  shows "dict_get (ev_checks (run_case c latency (ChatOk body) found)) (''isolated:'' @ f)
      = Some (f \<notin> set (map sh_doc_key (hits_found found)), ''retrievable by '' @ ec_actor_id c)"
    and "dict_get (ev_checks (run_case c latency (ChatOk body) found)) (''not_cited:'' @ f)
      = Some (f \<notin> set (map ci_doc_key (xr_citations body)), ''cited a forbidden source'')"
proof -
  let ?cs = "retrieval_checks c (hits_found found) @ citation_checks c body (hits_found found)"
  have checks: "ev_checks (run_case c latency (ChatOk body) found) = put_checks ?cs (outcome_checks c body)"
    using f by (auto simp: run_case_def Let_def hits_found_def)
  show "dict_get (ev_checks (run_case c latency (ChatOk body) found)) (''isolated:'' @ f)
      = Some (f \<notin> set (map sh_doc_key (hits_found found)), ''retrievable by '' @ ec_actor_id c)"
    unfolding checks
    using f by (intro put_checks_uniform) (auto simp: retrieval_checks_def citation_checks_def Let_def split: if_splits)
  show "dict_get (ev_checks (run_case c latency (ChatOk body) found)) (''not_cited:'' @ f)
      = Some (f \<notin> set (map ci_doc_key (xr_citations body)), ''cited a forbidden source'')"
    unfolding checks
    using f by (intro put_checks_uniform) (auto simp: retrieval_checks_def citation_checks_def Let_def split: if_splits)
qed

text \<open>A case with forbidden documents that passes has shown its caller none of them: they are neither among what the search
  returned nor among the citations of the answer.\<close>

theorem passed_case_isolated:
  "(if passed (run_case c latency (ChatOk body) (Some hits))
    then list_all (\<lambda>f. f \<notin> set (map sh_doc_key hits) \<and> f \<notin> set (map ci_doc_key (xr_citations body))) (ec_forbidden_sources c)
    else True)"
proof (cases "passed (run_case c latency (ChatOk body) (Some hits))")
  case True
  note check = passed_check [OF True]
  show ?thesis
    using True check [OF isolation_checks(1)] check [OF isolation_checks(2)]
    by (simp only: if_True list_all_iff fst_conv hits_found_def option.case) blast
qed simp

text \<open>When the search fails, the checks on what it found hold all the same.\<close>

lemma failed_search_isolates:
  "f \<in> set (ec_forbidden_sources c) \<Longrightarrow>
   dict_get (ev_checks (run_case c latency (ChatOk body) None)) (''isolated:'' @ f) = Some (True, ''retrievable by '' @ ec_actor_id c)"
  by (simp only: isolation_checks hits_found_def) simp

text \<open>Of two forbidden phrases with the same first 28 characters only the last is checked.\<close>

lemma guard_overwritten:
  assumes "take 28 p = take 28 q" "ec_must_not_contain c = [p, q]" "\<not> py_contains (py_lower q) (py_lower (xr_content body))"
  shows "dict_get (outcome_checks c body) (''absent:'' @ take 28 p) = Some (True, ''absent'')"
proof -
  have guards: "guard_checks c body = [hd (guard_checks c body)] @ [(''absent:'' @ take 28 p, True, ''absent'')]"
    using assms by (simp add: guard_checks_def)
  have "dict_get (put_checks (xs @ [x, (k, v)]) d) k = Some v" for xs x k v d
    by (cases x) (simp add: put_checks_def)
  then show ?thesis
    unfolding outcome_checks_def by (subst guards) (simp only: append_assoc [symmetric] append.simps)
qed

end
