(* ===== verification/EvalTools.thy ===== *)
theory EvalTools
  imports EvalRun
begin

text \<open>
  The smaller evaluation programs: \<open>answer_eval.py\<close>, \<open>retrieval_api_eval.py\<close>, \<open>relevance_calibration.py\<close>, the counts of
  \<open>judge_drift.py\<close> and the capacity model of \<open>capacity.py\<close>. Replies of the API are arguments; printing is left out.
\<close>

section \<open>Answers\<close>

record scores =
  so_citation_correct :: bool
  so_citation_valid :: bool
  so_fact_coverage :: rat
  so_fully_covered :: bool
  so_wrongly_abstained :: bool
  so_failures :: "string list"

definition key_terms :: "string \<Rightarrow> string list" where
  "key_terms evidence =
     (let numbers = judge_figures evidence in
      if numbers \<noteq> [] then numbers
      else filter (\<lambda>w. w \<notin> set stopwords \<and> 3 < length w) (char_runs is_lower_az [] (py_lower evidence)))"

text \<open>\<open>answer.replace(" %", "%")\<close>.\<close>

fun join_percent :: "string \<Rightarrow> string" where
  "join_percent [] = []"
| "join_percent [c] = [c]"
| "join_percent (c # d # cs) =
     (if c = CHR '' '' \<and> d = CHR ''%'' then d # join_percent cs else c # join_percent (d # cs))"

record answer_case =
  an_id :: string
  an_expected_doc :: string
  an_evidence :: "string list"

definition evaluate_answerable ::
  "(string \<Rightarrow> string) \<Rightarrow> answer_case \<Rightarrow> chat_response \<Rightarrow> search_hit list \<Rightarrow> nat \<Rightarrow> scores" where
  "evaluate_answerable nfkc c body hits seconds =
     (let answer = join_percent (norm_text nfkc (xr_content body));
          cited = map ci_doc_key (xr_citations body); retrieved = map sh_doc_key hits;
          terms = concat (map key_terms (an_evidence c));
          missing = filter (\<lambda>t. \<not> py_contains (py_lower t) answer) terms;
          covered = (if terms = [] then 0 else of_nat (length terms - length missing) / of_nat (length terms));
          correct = an_expected_doc c \<in> set cited
      in if xr_abstained body
         then \<lparr>so_citation_correct = False, so_citation_valid = False, so_fact_coverage = 0, so_fully_covered = False,
               so_wrongly_abstained = True, so_failures = [an_id c @ '': abstained although the document is readable'']\<rparr>
         else \<lparr>so_citation_correct = correct, so_citation_valid = (cited \<noteq> [] \<and> set cited \<subseteq> set retrieved),
               so_fact_coverage = covered, so_fully_covered = (covered = 1), so_wrongly_abstained = False,
               so_failures =
                 (if \<not> correct then [an_id c @ '': cited '' @ (if cited = [] then ''nothing'' else repr_texts (sorted_set cited))
                                      @ '', expected '' @ an_expected_doc c]
                  else if covered < 1 then [an_id c @ '': missing '' @ repr_texts missing @ '' ('' @ nat_str seconds @ ''s)'']
                  else [])\<rparr>)"

definition abstained_correctly :: "chat_response \<Rightarrow> bool" where
  "abstained_correctly body \<longleftrightarrow> xr_abstained body \<and> xr_citations body = []"

section \<open>Retrieval through the API\<close>

definition api_first :: "string list \<Rightarrow> string list \<Rightarrow> nat option" where
  "api_first ev ctx =
     (let i = length (takeWhile (\<lambda>c. \<not> list_ex (\<lambda>e. py_contains e c) ev) ctx) in if i < length ctx then Some (i + 1) else None)"

definition api_recall :: "string list \<Rightarrow> string list \<Rightarrow> nat \<Rightarrow> rat" where
  "api_recall ev ctx k =
     (let top = py_join '' '' (take k ctx) in of_nat (length (filter (\<lambda>e. py_contains e top) ev)) / of_nat (length ev))"

section \<open>Calibration of the relevance gate\<close>

definition minimum :: "rat list \<Rightarrow> rat" where
  "minimum xs = foldl min (hd xs) (tl xs)"

definition maximum :: "rat list \<Rightarrow> rat" where
  "maximum xs = foldl max (hd xs) (tl xs)"

datatype calibration = Separable rat rat | Overlapping nat

definition calibrate :: "rat list \<Rightarrow> rat list \<Rightarrow> calibration" where
  "calibrate positives negatives =
     (let lo = minimum positives; hi = maximum negatives in
      if hi < lo then Separable (lo - hi) ((lo + hi) / 2) else Overlapping (length (filter (\<lambda>s. lo \<le> s) negatives)))"

text \<open>A positive is the best chunk with the evidence, a negative the best chunk of all, among those the user may read.\<close>

definition positive_similarity ::
  "(string \<Rightarrow> string) \<Rightarrow> (rat \<Rightarrow> rat) \<Rightarrow> eval_chunk list \<Rightarrow> rat list list \<Rightarrow> nat list \<Rightarrow> rat list \<Rightarrow> string list \<Rightarrow> rat" where
  "positive_similarity nfkc msqrt chunks vecs allowed qv evidence =
     maximum (map (\<lambda>i. cosine msqrt qv (vecs ! i))
       (filter (\<lambda>i. list_ex (\<lambda>e. py_contains (norm_text nfkc e) (norm_text nfkc (ek_context (chunks ! i)))) evidence) allowed))"

definition negative_similarity :: "(rat \<Rightarrow> rat) \<Rightarrow> rat list list \<Rightarrow> nat list \<Rightarrow> rat list \<Rightarrow> rat" where
  "negative_similarity msqrt vecs allowed qv = maximum (map (\<lambda>i. cosine msqrt qv (vecs ! i)) allowed)"

lemma minimum_le: "x \<in> set xs \<Longrightarrow> minimum xs \<le> x"
proof -
  have "foldl min a ys \<le> a \<and> (\<forall>y \<in> set ys. foldl min a ys \<le> y)" for a :: rat and ys
  proof (induction ys arbitrary: a)
    case (Cons y ys)
    from Cons [of "min a y"] show ?case by simp
  qed simp
  then show "x \<in> set xs \<Longrightarrow> minimum xs \<le> x" by (cases xs) (auto simp: minimum_def)
qed

lemma maximum_ge: "x \<in> set xs \<Longrightarrow> x \<le> maximum xs"
proof -
  have "a \<le> foldl max a ys \<and> (\<forall>y \<in> set ys. y \<le> foldl max a ys)" for a :: rat and ys
  proof (induction ys arbitrary: a)
    case (Cons y ys)
    from Cons [of "max a y"] show ?case by simp
  qed simp
  then show "x \<in> set xs \<Longrightarrow> x \<le> maximum xs" by (cases xs) (auto simp: maximum_def)
qed

text \<open>The threshold the calibration proposes separates: every positive lies above it and every negative below, each by half the
  gap; and where it proposes none, some negative is at least as similar as the weakest positive.\<close>

theorem calibration_separates:
  assumes "positives \<noteq> []" "negatives \<noteq> []"
  shows "(case calibrate positives negatives of
      Separable gap t \<Rightarrow>
        0 < gap \<and> list_all (\<lambda>s. t + gap / 2 \<le> s) positives \<and> list_all (\<lambda>s. s \<le> t - gap / 2) negatives
    | Overlapping n \<Rightarrow> 0 < n \<and> n \<le> length negatives)"
proof (cases "maximum negatives < minimum positives")
  case True
  have "(minimum positives + maximum negatives) / 2 + (minimum positives - maximum negatives) / 2 = minimum positives"
    "(minimum positives + maximum negatives) / 2 - (minimum positives - maximum negatives) / 2 = maximum negatives"
    by (simp_all add: field_simps)
  with True show ?thesis by (simp add: calibrate_def Let_def list_all_iff minimum_le maximum_ge)
next
  case False
  have "maximum negatives \<in> set negatives"
  proof -
    have "foldl max a ys \<in> insert a (set ys)" for a :: rat and ys
      by (induction ys arbitrary: a) (auto simp: max_def)
    with assms(2) show ?thesis by (cases negatives) (auto simp: maximum_def)
  qed
  with False have "filter (\<lambda>s. minimum positives \<le> s) negatives \<noteq> []"
    by (auto simp: filter_empty_conv not_less)
  with False show ?thesis by (simp add: calibrate_def Let_def)
qed

theorem calibration_separates_witness:
  "(case calibrate [1 / 2, 3 / 4] [1 / 4] of
      Separable gap t \<Rightarrow> 0 < gap \<and> list_all (\<lambda>s. t + gap / 2 \<le> s) [1 / 2, 3 / 4] \<and> list_all (\<lambda>s. s \<le> t - gap / 2) [1 / 4 :: rat]
    | Overlapping n \<Rightarrow> 0 < n \<and> n \<le> length [1 / 4 :: rat])
   \<and> calibrate [1 / 2, 3 / 4] [1 / 4] = Separable (1 / 4) (3 / 8)"
  using calibration_separates [of "[1 / 2, 3 / 4]" "[1 / 4]"] by (simp add: calibrate_def minimum_def maximum_def)

section \<open>Judge drift\<close>

record drift_row =
  dr_category :: string
  dr_label :: string
  dr_v1_recorded :: string
  dr_v1_rerun :: string
  dr_v2_rerun :: string

definition agree :: "(drift_row \<Rightarrow> string) \<Rightarrow> (drift_row \<Rightarrow> string) \<Rightarrow> drift_row list \<Rightarrow> nat" where
  "agree a b rows = length (filter (\<lambda>r. a r = b r) rows)"

definition flips :: "drift_row list \<Rightarrow> (string \<times> string) list" where
  "flips rows = map (\<lambda>r. (dr_v1_rerun r, dr_v2_rerun r)) (filter (\<lambda>r. dr_v1_rerun r \<noteq> dr_v2_rerun r) rows)"

definition disagreements :: "drift_row list \<Rightarrow> drift_row list" where
  "disagreements rows = filter (\<lambda>r. 1 < length (remdups [dr_label r, dr_v1_recorded r, dr_v1_rerun r, dr_v2_rerun r])) rows"

lemma flips_agree: "agree dr_v1_rerun dr_v2_rerun rows + length (flips rows) = length rows"
  unfolding agree_def flips_def by (simp add: sum_length_filter_compl)

section \<open>Capacity\<close>

record inputs =
  in_employees :: nat
  in_documents :: nat
  in_concurrent_requests :: nat
  in_departments :: nat
  in_avg_document_tokens :: nat
  in_prompt_tokens :: nat
  in_output_tokens :: nat
  in_stream_tokens_per_s :: nat
  in_answers_per_employee_day :: nat
  in_gpu_decode_tokens_per_s :: nat
  in_gpu_prefill_tokens_per_s :: nat
  in_gpu_target_utilisation :: rat
  in_gpus_per_node :: nat
  in_embed_laptop_chunks_per_s :: nat
  in_embed_gpu_chunks_per_s :: nat
  in_daily_changed_fraction :: rat
  in_vector_bytes :: nat
  in_chunk_text_bytes :: nat
  in_section_text_bytes :: nat
  in_row_overhead_bytes :: nat
  in_hnsw_bytes_per_row :: nat

definition default_inputs :: inputs where
  "default_inputs =
     \<lparr>in_employees = 5000, in_documents = 1000000, in_concurrent_requests = 100, in_departments = 10, in_avg_document_tokens = 2500,
      in_prompt_tokens = 1100, in_output_tokens = 300, in_stream_tokens_per_s = 40, in_answers_per_employee_day = 5,
      in_gpu_decode_tokens_per_s = 1000, in_gpu_prefill_tokens_per_s = 8000, in_gpu_target_utilisation = 3 / 5, in_gpus_per_node = 4,
      in_embed_laptop_chunks_per_s = 164, in_embed_gpu_chunks_per_s = 2000, in_daily_changed_fraction = 1 / 100,
      in_vector_bytes = 1536, in_chunk_text_bytes = 250, in_section_text_bytes = 1000, in_row_overhead_bytes = 250,
      in_hnsw_bytes_per_row = 1800\<rparr>"

definition chunks_per_1k_tokens :: "parsed_document list \<Rightarrow> rat" where
  "chunks_per_1k_tokens docs =
     (let tokens = sum_list (map (\<lambda>d. sum_list (map (\<lambda>b. estimate_tokens (bl_text b)) (pd_blocks d))) docs);
          chunks = sum_list (map (\<lambda>d. length (chunk_document d default_chunking)) docs)
      in of_nat chunks / of_nat tokens * 1000)"

record sizing =
  si_chunks :: rat
  si_heap_gb :: rat
  si_hnsw_gb :: rat
  si_hnsw_gb_per_department :: rat
  si_answer_seconds :: rat
  si_answers_per_s_at_ceiling :: rat
  si_answers_per_day :: nat
  si_gpu_time :: rat
  si_gpus :: int
  si_gpu_nodes :: int
  si_tokens_per_day :: nat
  si_initial_index_hours_gpu :: rat
  si_initial_index_days_laptop :: rat
  si_daily_reindex_minutes_gpu :: rat

definition sizing_of :: "rat \<Rightarrow> inputs \<Rightarrow> sizing" where
  "sizing_of density i =
     (let chunks = of_nat (in_documents i * in_avg_document_tokens i) / 1000 * density;
          row = of_nat (in_vector_bytes i + in_chunk_text_bytes i + in_section_text_bytes i + in_row_overhead_bytes i);
          hnsw_gb = chunks * of_nat (in_hnsw_bytes_per_row i) / 10 ^ 9;
          answer_seconds = of_nat (in_output_tokens i) / of_nat (in_stream_tokens_per_s i) + 1;
          at_ceiling = of_nat (in_concurrent_requests i) / answer_seconds;
          per_day = in_employees i * in_answers_per_employee_day i;
          decode_load = of_nat (in_concurrent_requests i * in_stream_tokens_per_s i);
          gpu_time = decode_load / of_nat (in_gpu_decode_tokens_per_s i)
            + at_ceiling * of_nat (in_prompt_tokens i) / of_nat (in_gpu_prefill_tokens_per_s i);
          gpus = \<lceil>gpu_time / in_gpu_target_utilisation i\<rceil>
      in \<lparr>si_chunks = chunks, si_heap_gb = chunks * row / 10 ^ 9, si_hnsw_gb = hnsw_gb,
          si_hnsw_gb_per_department = hnsw_gb / of_nat (in_departments i), si_answer_seconds = answer_seconds,
          si_answers_per_s_at_ceiling = at_ceiling, si_answers_per_day = per_day, si_gpu_time = gpu_time, si_gpus = gpus,
          si_gpu_nodes = \<lceil>of_int gpus / of_nat (in_gpus_per_node i) :: rat\<rceil> + 1,
          si_tokens_per_day = per_day * (in_prompt_tokens i + in_output_tokens i),
          si_initial_index_hours_gpu = chunks / of_nat (in_embed_gpu_chunks_per_s i) / 3600,
          si_initial_index_days_laptop = chunks / of_nat (in_embed_laptop_chunks_per_s i) / 86400,
          si_daily_reindex_minutes_gpu = chunks * in_daily_changed_fraction i / of_nat (in_embed_gpu_chunks_per_s i) / 60\<rparr>)"

text \<open>With one node lost, the nodes left hold all the GPUs of the sizing, and these carry the load at the target utilisation.\<close>

lemma one_node_to_spare:
  assumes "0 < in_gpus_per_node i" "0 < in_gpu_target_utilisation i"
  shows "si_gpus (sizing_of d i) \<le> (si_gpu_nodes (sizing_of d i) - 1) * int (in_gpus_per_node i)
    \<and> si_gpu_time (sizing_of d i) \<le> of_int (si_gpus (sizing_of d i)) * in_gpu_target_utilisation i"
proof -
  have "k \<le> \<lceil>of_int k / of_nat n :: rat\<rceil> * int n" if "0 < n" for k :: int and n :: nat
  proof -
    have "(of_int k :: rat) \<le> of_int (\<lceil>of_int k / of_nat n :: rat\<rceil> * int n)"
      using that by (simp flip: pos_divide_le_eq)
    then show ?thesis by (simp only: of_int_le_iff)
  qed
  moreover have "t \<le> of_int \<lceil>t / u\<rceil> * u" if "0 < u" for t u :: rat
    using that by (simp flip: pos_divide_le_eq)
  ultimately show ?thesis
    using assms by (simp add: sizing_of_def Let_def)
qed

end
