(* ===== verification/Schema.thy ===== *)
theory Schema
  imports Store Json
begin

text \<open>
  The database the migrations build: the statements of the migration scripts as data, a catalogue of tables,
  indexes, sequences, policies and roles they act on, and what the catalogue then means for a row: the CHECK
  constraints and unique keys it has to satisfy and whether row-level security shows it to a session.

  The sequences are those a migration creates by name; an identity column needs no privilege on its own.
  A statement that PostgreSQL refuses is an error; a migration runs in one transaction, so an error leaves nothing
  behind. Conditions have SQL's third truth value: a NULL makes them unknown, a CHECK constraint accepts
  unknown and a policy does not.
\<close>

section \<open>Conditions\<close>

text \<open>A regular expression of the form \<open>^p1 p2 ...$\<close>, each piece a character class with a repetition.\<close>

datatype regex_piece = Piece "(char \<times> char) list" nat bool

datatype sql_cond =
    OneOf string "string list"
  | Matches string "regex_piece list"
  | IsTrue string
  | DeptAnyOf string string
  | SettingIs string string
  | Either sql_cond sql_cond
  | Both sql_cond sql_cond

datatype sql_value = Null | Txt string | Num int | Flag bool | Doc json | Texts "string list" | Vec "rat list"

type_synonym sql_tuple = "(string, sql_value) dict"

definition in_class :: "(char \<times> char) list \<Rightarrow> char \<Rightarrow> bool" where
  "in_class rs c \<longleftrightarrow> list_ex (\<lambda>(lo, hi). (of_char lo :: nat) \<le> of_char c \<and> of_char c \<le> (of_char hi :: nat)) rs"

text \<open>\<open>Piece c n more\<close>: at least \<open>n\<close> characters of the class, and no more than \<open>n\<close> unless \<open>more\<close>.\<close>

fun matches :: "regex_piece list \<Rightarrow> string \<Rightarrow> bool" where
  "matches [] s \<longleftrightarrow> s = []"
| "matches (Piece rs 0 unbounded # ps) [] \<longleftrightarrow> matches ps []"
| "matches (Piece rs 0 unbounded # ps) (c # s) \<longleftrightarrow>
     matches ps (c # s) \<or> (unbounded \<and> in_class rs c \<and> matches (Piece rs 0 unbounded # ps) s)"
| "matches (Piece rs (Suc n) unbounded # ps) [] \<longleftrightarrow> False"
| "matches (Piece rs (Suc n) unbounded # ps) (c # s) \<longleftrightarrow> in_class rs c \<and> matches (Piece rs n unbounded # ps) s"

text \<open>\<open>current_setting(name, true)\<close> of the three settings the policies read.\<close>

definition current_setting :: "db_session \<Rightarrow> string \<Rightarrow> string option" where
  "current_setting ses name =
     (if name = ''app.read_departments'' then app_read_departments ses
      else if name = ''app.confidential_departments'' then app_confidential_departments ses
      else if name = ''app.ingest'' then app_ingest ses else None)"

definition cell :: "sql_tuple \<Rightarrow> string \<Rightarrow> sql_value" where
  "cell r c = (case dict_get r c of None \<Rightarrow> Null | Some v \<Rightarrow> v)"

definition text_test :: "(string \<Rightarrow> bool) \<Rightarrow> sql_value \<Rightarrow> bool option" where
  "text_test f v = (case v of Txt s \<Rightarrow> Some (f s) | _ \<Rightarrow> None)"

definition sql_or :: "bool option \<Rightarrow> bool option \<Rightarrow> bool option" where
  "sql_or a b = (if a = Some True \<or> b = Some True then Some True
                 else if a = Some False \<and> b = Some False then Some False else None)"

definition sql_and :: "bool option \<Rightarrow> bool option \<Rightarrow> bool option" where
  "sql_and a b = (if a = Some False \<or> b = Some False then Some False
                  else if a = Some True \<and> b = Some True then Some True else None)"

primrec truth :: "db_session \<Rightarrow> sql_tuple \<Rightarrow> sql_cond \<Rightarrow> bool option" where
  "truth ses r (OneOf c vs) = text_test (\<lambda>s. s \<in> set vs) (cell r c)"
| "truth ses r (Matches c ps) = text_test (matches ps) (cell r c)"
| "truth ses r (IsTrue c) = (case cell r c of Flag b \<Rightarrow> Some b | _ \<Rightarrow> None)"
| "truth ses r (DeptAnyOf c name) = text_test (\<lambda>s. s \<in> set (setting_list (current_setting ses name))) (cell r c)"
| "truth ses r (SettingIs name v) = Some ((case current_setting ses name of None \<Rightarrow> [] | Some s \<Rightarrow> s) = v)"
| "truth ses r (Either a b) = sql_or (truth ses r a) (truth ses r b)"
| "truth ses r (Both a b) = sql_and (truth ses r a) (truth ses r b)"

section \<open>The catalogue\<close>

datatype sql_type =
    SqlText | SqlUuid | SqlInteger | SqlBigInteger | SqlFloat | SqlBoolean | SqlDate | SqlTimestamp | SqlJsonb
  | SqlTextArray | SqlTsvector | SqlVector nat | SqlNumeric nat nat

datatype server_default = DefaultValue string | DefaultNow | DefaultTrue | DefaultFalse

datatype column_option =
    PrimaryKey
  | Required
  | UniqueKey
  | References string string
  | Cascade
  | Default server_default
  | Identity
  | Computed string

datatype column = Column (cl_name: string) (cl_type: sql_type) (cl_options: "column_option list")

text \<open>A primary key is never NULL.\<close>

definition cl_primary :: "column \<Rightarrow> bool" where "cl_primary c \<longleftrightarrow> PrimaryKey \<in> set (cl_options c)"
definition cl_unique :: "column \<Rightarrow> bool" where "cl_unique c \<longleftrightarrow> UniqueKey \<in> set (cl_options c)"
definition cl_nullable :: "column \<Rightarrow> bool" where
  "cl_nullable c \<longleftrightarrow> Required \<notin> set (cl_options c) \<and> \<not> cl_primary c"

fun reference_of :: "column_option \<Rightarrow> (string \<times> string) list" where
  "reference_of (References t k) = [(t, k)]"
| "reference_of _ = []"

datatype table_constraint = Check string sql_cond | Unique string "string list"

datatype policy_command = ForSelect | ForAll

record policy =
  po_name :: string
  po_command :: policy_command
  po_using :: sql_cond
  po_check :: "sql_cond option"

record db_table =
  tb_columns :: "column list"
  tb_constraints :: "table_constraint list"
  tb_rls_enabled :: bool
  tb_rls_forced :: bool
  tb_policies :: "policy list"

record db_index =
  ix_table :: string
  ix_columns :: "string list"
  ix_unique :: bool
  ix_method :: string
  ix_where :: "sql_cond option"

datatype privilege = Select | Insert | Update | Delete

record role_attributes =
  ra_login :: bool
  ra_superuser :: bool
  ra_bypassrls :: bool
  ra_createdb :: bool
  ra_createrole :: bool
  ra_password :: string

record db_role =
  rl_attributes :: role_attributes
  rl_connect :: bool
  rl_schema_usage :: bool
  rl_tables :: "(string, privilege list) dict"
  rl_sequences :: "string list"
  rl_default_tables :: "privilege list"
  rl_default_sequences :: bool

record db_schema =
  ds_extensions :: "string list"
  ds_tables :: "(string, db_table) dict"
  ds_indexes :: "(string, db_index) dict"
  ds_sequences :: "(string, int) dict"
  ds_roles :: "(string, db_role) dict"

text \<open>\<open>sa.Column(name, type)\<close> is nullable and nothing else; each keyword argument adds an option.\<close>

definition col :: "string \<Rightarrow> sql_type \<Rightarrow> column" where "col name ty = Column name ty []"

definition with_option :: "column_option \<Rightarrow> column \<Rightarrow> column" where
  "with_option opt c = Column (cl_name c) (cl_type c) (opt # cl_options c)"

abbreviation "primary \<equiv> with_option PrimaryKey"
abbreviation "required \<equiv> with_option Required"
abbreviation "uniq \<equiv> with_option UniqueKey"
abbreviation "refs t k \<equiv> with_option (References t k)"
abbreviation "cascading \<equiv> with_option Cascade"
abbreviation "defaulting v \<equiv> with_option (Default v)"
abbreviation "identity \<equiv> with_option Identity"
abbreviation "computed e \<equiv> with_option (Computed e)"

section \<open>Statements\<close>

datatype grant_target = AllTables | Tables "string list"

datatype ddl =
    CreateExtension string
  | CreateTable string "column list" "table_constraint list"
  | DropTable string
  | AddColumn string column
  | DropColumn string string
  | CreateIndex string db_index
  | DropIndex string string
  | CreateSequence string int
  | DropSequence string
  | EnableRls string
  | ForceRls string
  | CreatePolicy string policy
  | EnsureRole string role_attributes
  | DropRole string
  | GrantConnect string
  | GrantUsage string
  | RevokeSchema string
  | GrantTables "privilege list" grant_target string
  | RevokeTables "privilege list" grant_target string
  | GrantSequences string
  | RevokeSequences string
  | DefaultTables "privilege list" string
  | NoDefaultTables "privilege list" string
  | DefaultSequences string
  | NoDefaultSequences string

datatype ddl_error = DuplicateObject string | UndefinedObject string | DependentObjects string

type_synonym ddl_result = "ddl_error + db_schema"

definition plus_privs :: "privilege list \<Rightarrow> privilege list \<Rightarrow> privilege list" where
  "plus_privs ps qs = ps @ filter (\<lambda>q. q \<notin> set ps) qs"

definition minus_privs :: "privilege list \<Rightarrow> privilege list \<Rightarrow> privilege list" where
  "minus_privs ps qs = filter (\<lambda>p. p \<notin> set qs) ps"

definition drop_key :: "'k \<Rightarrow> ('k, 'v) dict \<Rightarrow> ('k, 'v) dict" where
  "drop_key k d = filter (\<lambda>kv. fst kv \<noteq> k) d"

definition privileges_on :: "db_role \<Rightarrow> string \<Rightarrow> privilege list" where
  "privileges_on rl t = (case dict_get (rl_tables rl) t of None \<Rightarrow> [] | Some ps \<Rightarrow> ps)"

definition targets :: "db_schema \<Rightarrow> grant_target \<Rightarrow> string list" where
  "targets s g = (case g of AllTables \<Rightarrow> dict_keys (ds_tables s) | Tables ts \<Rightarrow> ts)"

text \<open>A table privilege list that becomes empty leaves no entry.\<close>

definition set_privileges :: "string \<Rightarrow> privilege list \<Rightarrow> db_role \<Rightarrow> db_role" where
  "set_privileges t ps rl =
     rl\<lparr>rl_tables := (if ps = [] then drop_key t (rl_tables rl) else dict_put t ps (rl_tables rl))\<rparr>"

definition grant_on :: "privilege list \<Rightarrow> string \<Rightarrow> db_role \<Rightarrow> db_role" where
  "grant_on ps t rl = set_privileges t (plus_privs (privileges_on rl t) ps) rl"

definition revoke_on :: "privilege list \<Rightarrow> string \<Rightarrow> db_role \<Rightarrow> db_role" where
  "revoke_on ps t rl = set_privileges t (minus_privs (privileges_on rl t) ps) rl"

definition all_privileges :: "privilege list" where "all_privileges = [Select, Insert, Update, Delete]"

definition on_table :: "string \<Rightarrow> (db_table \<Rightarrow> ddl_error + db_table) \<Rightarrow> db_schema \<Rightarrow> ddl_result" where
  "on_table t f s =
     (case dict_get (ds_tables s) t of
        None \<Rightarrow> Inl (UndefinedObject t)
      | Some tb \<Rightarrow> bind_result (f tb) (\<lambda>tb'. Inr (s\<lparr>ds_tables := dict_put t tb' (ds_tables s)\<rparr>)))"

definition on_role :: "string \<Rightarrow> (db_role \<Rightarrow> db_role) \<Rightarrow> db_schema \<Rightarrow> ddl_result" where
  "on_role name f s =
     (case dict_get (ds_roles s) name of
        None \<Rightarrow> Inl (UndefinedObject name)
      | Some rl \<Rightarrow> Inr (s\<lparr>ds_roles := dict_put name (f rl) (ds_roles s)\<rparr>))"

definition column_names :: "column list \<Rightarrow> string list" where
  "column_names cs = map cl_name cs"

text \<open>The foreign keys among the columns.\<close>

definition references :: "column list \<Rightarrow> (string \<times> string) list" where
  "references cs = concat (map (\<lambda>c. concat (map reference_of (cl_options c))) cs)"

definition has_column :: "db_schema \<Rightarrow> string \<Rightarrow> string \<Rightarrow> bool" where
  "has_column s t c = (case dict_get (ds_tables s) t of None \<Rightarrow> False | Some tb \<Rightarrow> c \<in> set (column_names (tb_columns tb)))"

fun references_exist :: "db_schema \<Rightarrow> (string \<times> string) list \<Rightarrow> bool" where
  "references_exist s [] \<longleftrightarrow> True"
| "references_exist s ((t, k) # rs) \<longleftrightarrow> has_column s t k \<and> references_exist s rs"

lemma references_exist_iff: "references_exist s rs \<longleftrightarrow> (\<forall>(t, k) \<in> set rs. has_column s t k)"
  by (induction rs) auto

definition referenced_by_other :: "db_schema \<Rightarrow> string \<Rightarrow> bool" where
  "referenced_by_other s t \<longleftrightarrow>
     list_ex (\<lambda>(name, tb). name \<noteq> t \<and> t \<in> set (map fst (references (tb_columns tb)))) (ds_tables s)"

text \<open>A new table or sequence gets the default privileges its creator has altered.\<close>

definition with_defaults :: "string \<Rightarrow> db_role \<Rightarrow> db_role" where
  "with_defaults t rl = (if rl_default_tables rl = [] then rl else set_privileges t (rl_default_tables rl) rl)"

definition with_default_sequence :: "string \<Rightarrow> db_role \<Rightarrow> db_role" where
  "with_default_sequence q rl = (if rl_default_sequences rl then rl\<lparr>rl_sequences := rl_sequences rl @ [q]\<rparr> else rl)"

definition on_roles :: "(db_role \<Rightarrow> db_role) \<Rightarrow> db_schema \<Rightarrow> db_schema" where
  "on_roles f s = s\<lparr>ds_roles := map (\<lambda>(n, rl). (n, f rl)) (ds_roles s)\<rparr>"

text \<open>\<open>DROP ROLE\<close> is refused while the role holds a privilege on some object.\<close>

definition holds_privileges :: "db_role \<Rightarrow> bool" where
  "holds_privileges rl \<longleftrightarrow> rl_connect rl \<or> rl_schema_usage rl \<or> rl_tables rl \<noteq> [] \<or> rl_sequences rl \<noteq> []
     \<or> rl_default_tables rl \<noteq> [] \<or> rl_default_sequences rl"

definition fresh_role :: "role_attributes \<Rightarrow> db_role" where
  "fresh_role a = \<lparr>rl_attributes = a, rl_connect = False, rl_schema_usage = False, rl_tables = [], rl_sequences = [],
     rl_default_tables = [], rl_default_sequences = False\<rparr>"

fun apply_ddl :: "ddl \<Rightarrow> db_schema \<Rightarrow> ddl_result" where
  "apply_ddl (CreateExtension x) s =
     Inr (if x \<in> set (ds_extensions s) then s else s\<lparr>ds_extensions := ds_extensions s @ [x]\<rparr>)"
| "apply_ddl (CreateTable t cs ks) s =
     (if dict_has (ds_tables s) t then Inl (DuplicateObject t)
      else if \<not> references_exist s (references cs) then Inl (UndefinedObject t)
      else Inr (on_roles (with_defaults t) (s\<lparr>ds_tables := ds_tables s @
             [(t, \<lparr>tb_columns = cs, tb_constraints = ks, tb_rls_enabled = False, tb_rls_forced = False, tb_policies = []\<rparr>)]\<rparr>)))"
| "apply_ddl (DropTable t) s =
     (if \<not> dict_has (ds_tables s) t then Inl (UndefinedObject t)
      else if referenced_by_other s t then Inl (DependentObjects t)
      else Inr (on_roles (set_privileges t []) (s\<lparr>ds_tables := drop_key t (ds_tables s),
                  ds_indexes := filter (\<lambda>(n, i). ix_table i \<noteq> t) (ds_indexes s)\<rparr>)))"
| "apply_ddl (AddColumn t c) s =
     (if \<not> references_exist s (references [c]) then Inl (UndefinedObject t)
      else on_table t (\<lambda>tb. if cl_name c \<in> set (column_names (tb_columns tb)) then Inl (DuplicateObject (cl_name c))
                            else Inr (tb\<lparr>tb_columns := tb_columns tb @ [c]\<rparr>)) s)"
| "apply_ddl (DropColumn t c) s =
     bind_result (on_table t (\<lambda>tb. if c \<notin> set (column_names (tb_columns tb)) then Inl (UndefinedObject c)
                                   else Inr (tb\<lparr>tb_columns := filter (\<lambda>x. cl_name x \<noteq> c) (tb_columns tb)\<rparr>)) s)
       (\<lambda>s. Inr (s\<lparr>ds_indexes := filter (\<lambda>(n, i). \<not> (ix_table i = t \<and> c \<in> set (ix_columns i))) (ds_indexes s)\<rparr>))"
| "apply_ddl (CreateIndex n i) s =
     (if dict_has (ds_indexes s) n then Inl (DuplicateObject n)
      else if \<not> dict_has (ds_tables s) (ix_table i) \<or> \<not> list_all (has_column s (ix_table i)) (ix_columns i) then Inl (UndefinedObject n)
      else Inr (s\<lparr>ds_indexes := ds_indexes s @ [(n, i)]\<rparr>))"
| "apply_ddl (DropIndex n t) s =
     (if \<not> dict_has (ds_indexes s) n then Inl (UndefinedObject n) else Inr (s\<lparr>ds_indexes := drop_key n (ds_indexes s)\<rparr>))"
| "apply_ddl (CreateSequence q start) s =
     (if dict_has (ds_sequences s) q then Inl (DuplicateObject q)
      else Inr (on_roles (with_default_sequence q) (s\<lparr>ds_sequences := ds_sequences s @ [(q, start)]\<rparr>)))"
| "apply_ddl (DropSequence q) s =
     Inr (on_roles (\<lambda>rl. rl\<lparr>rl_sequences := filter (\<lambda>x. x \<noteq> q) (rl_sequences rl)\<rparr>)
            (s\<lparr>ds_sequences := drop_key q (ds_sequences s)\<rparr>))"
| "apply_ddl (EnableRls t) s = on_table t (\<lambda>tb. Inr (tb\<lparr>tb_rls_enabled := True\<rparr>)) s"
| "apply_ddl (ForceRls t) s = on_table t (\<lambda>tb. Inr (tb\<lparr>tb_rls_forced := True\<rparr>)) s"
| "apply_ddl (CreatePolicy t p) s =
     on_table t (\<lambda>tb. if po_name p \<in> set (map po_name (tb_policies tb)) then Inl (DuplicateObject (po_name p))
                      else Inr (tb\<lparr>tb_policies := tb_policies tb @ [p]\<rparr>)) s"
| "apply_ddl (EnsureRole name a) s =
     Inr (s\<lparr>ds_roles := (case dict_get (ds_roles s) name of
             None \<Rightarrow> ds_roles s @ [(name, fresh_role a)]
           | Some rl \<Rightarrow> dict_put name (rl\<lparr>rl_attributes := a\<rparr>) (ds_roles s))\<rparr>)"
| "apply_ddl (DropRole name) s =
     (case dict_get (ds_roles s) name of
        None \<Rightarrow> Inr s
      | Some rl \<Rightarrow> if holds_privileges rl then Inl (DependentObjects name) else Inr (s\<lparr>ds_roles := drop_key name (ds_roles s)\<rparr>))"
| "apply_ddl (GrantConnect r) s = on_role r (\<lambda>rl. rl\<lparr>rl_connect := True\<rparr>) s"
| "apply_ddl (GrantUsage r) s = on_role r (\<lambda>rl. rl\<lparr>rl_schema_usage := True\<rparr>) s"
| "apply_ddl (RevokeSchema r) s = on_role r (\<lambda>rl. rl\<lparr>rl_schema_usage := False\<rparr>) s"
| "apply_ddl (GrantTables ps g r) s =
     (if \<not> list_all (dict_has (ds_tables s)) (targets s g) then Inl (UndefinedObject r)
      else on_role r (fold (grant_on ps) (targets s g)) s)"
| "apply_ddl (RevokeTables ps g r) s =
     (if \<not> list_all (dict_has (ds_tables s)) (targets s g) then Inl (UndefinedObject r)
      else on_role r (fold (revoke_on ps) (targets s g)) s)"
| "apply_ddl (GrantSequences r) s = on_role r (\<lambda>rl. rl\<lparr>rl_sequences := dict_keys (ds_sequences s)\<rparr>) s"
| "apply_ddl (RevokeSequences r) s = on_role r (\<lambda>rl. rl\<lparr>rl_sequences := []\<rparr>) s"
| "apply_ddl (DefaultTables ps r) s = on_role r (\<lambda>rl. rl\<lparr>rl_default_tables := plus_privs (rl_default_tables rl) ps\<rparr>) s"
| "apply_ddl (NoDefaultTables ps r) s = on_role r (\<lambda>rl. rl\<lparr>rl_default_tables := minus_privs (rl_default_tables rl) ps\<rparr>) s"
| "apply_ddl (DefaultSequences r) s = on_role r (\<lambda>rl. rl\<lparr>rl_default_sequences := True\<rparr>) s"
| "apply_ddl (NoDefaultSequences r) s = on_role r (\<lambda>rl. rl\<lparr>rl_default_sequences := False\<rparr>) s"

fun run_ddl :: "ddl list \<Rightarrow> db_schema \<Rightarrow> ddl_result" where
  "run_ddl [] s = Inr s"
| "run_ddl (x # xs) s = bind_result (apply_ddl x s) (run_ddl xs)"

section \<open>Rows of a table\<close>

definition check_conds :: "db_table \<Rightarrow> sql_cond list" where
  "check_conds tb = concat (map (\<lambda>k. case k of Check n c \<Rightarrow> [c] | Unique n cs \<Rightarrow> []) (tb_constraints tb))"

definition unique_keys :: "db_table \<Rightarrow> string list list" where
  "unique_keys tb =
     (let pk = map cl_name (filter cl_primary (tb_columns tb)) in if pk = [] then [] else [pk])
     @ map (\<lambda>c. [cl_name c]) (filter cl_unique (tb_columns tb))
     @ concat (map (\<lambda>k. case k of Check n c \<Rightarrow> [] | Unique n cs \<Rightarrow> [cs]) (tb_constraints tb))"

definition checks_pass :: "db_session \<Rightarrow> db_table \<Rightarrow> sql_tuple \<Rightarrow> bool" where
  "checks_pass ses tb r \<longleftrightarrow> list_all (\<lambda>c. truth ses r c \<noteq> Some False) (check_conds tb)"

text \<open>A row with a NULL in the key conflicts with no other.\<close>

definition keys_distinct :: "sql_tuple list \<Rightarrow> string list \<Rightarrow> bool" where
  "keys_distinct rs cs \<longleftrightarrow> distinct (filter (\<lambda>vs. Null \<notin> set vs) (map (\<lambda>r. map (cell r) cs) rs))"

definition index_distinct :: "db_session \<Rightarrow> sql_tuple list \<Rightarrow> db_index \<Rightarrow> bool" where
  "index_distinct ses rs i \<longleftrightarrow>
     (ix_unique i \<longrightarrow> keys_distinct (filter (\<lambda>r. case ix_where i of None \<Rightarrow> True | Some c \<Rightarrow> truth ses r c = Some True) rs) (ix_columns i))"

text \<open>A column left out of the INSERT takes its default or the next value of its identity.\<close>

definition filled_in :: "column \<Rightarrow> bool" where
  "filled_in c \<longleftrightarrow> list_ex (\<lambda>x. case x of Default v \<Rightarrow> True | Identity \<Rightarrow> True | Computed e \<Rightarrow> True | _ \<Rightarrow> False) (cl_options c)"

definition required_present :: "column list \<Rightarrow> sql_tuple \<Rightarrow> bool" where
  "required_present cs r \<longleftrightarrow>
     list_all (\<lambda>c. cl_nullable c \<or> (case dict_get r (cl_name c) of None \<Rightarrow> filled_in c | Some v \<Rightarrow> v \<noteq> Null)) cs"

definition table_accepts :: "db_schema \<Rightarrow> db_session \<Rightarrow> string \<Rightarrow> sql_tuple list \<Rightarrow> bool" where
  "table_accepts s ses t rs \<longleftrightarrow>
     (case dict_get (ds_tables s) t of
        None \<Rightarrow> False
      | Some tb \<Rightarrow> list_all (required_present (tb_columns tb)) rs \<and> list_all (checks_pass ses tb) rs
          \<and> list_all (keys_distinct rs) (unique_keys tb)
          \<and> list_all (\<lambda>(n, i). ix_table i \<noteq> t \<or> index_distinct ses rs i) (ds_indexes s))"

text \<open>
  A role that does not own the table reads the rows some policy for SELECT or ALL admits, and none without a policy;
  superusers and roles with BYPASSRLS read everything. A new row, and the row an UPDATE or DELETE is about, has to be
  admitted by a policy for ALL (the policies here admit the same rows before and after).
\<close>

definition admitted :: "db_session \<Rightarrow> db_table \<Rightarrow> sql_tuple \<Rightarrow> bool" where
  "admitted ses tb r \<longleftrightarrow> list_ex (\<lambda>p. truth ses r (po_using p) = Some True) (tb_policies tb)"

definition row_readable :: "db_schema \<Rightarrow> string \<Rightarrow> db_session \<Rightarrow> string \<Rightarrow> sql_tuple \<Rightarrow> bool" where
  "row_readable s name ses t r \<longleftrightarrow>
     (case (dict_get (ds_roles s) name, dict_get (ds_tables s) t) of
        (Some rl, Some tb) \<Rightarrow>
          Select \<in> set (privileges_on rl t)
          \<and> (\<not> tb_rls_enabled tb \<or> ra_superuser (rl_attributes rl) \<or> ra_bypassrls (rl_attributes rl) \<or> admitted ses tb r)
      | _ \<Rightarrow> False)"

definition row_writable :: "db_schema \<Rightarrow> string \<Rightarrow> db_session \<Rightarrow> string \<Rightarrow> privilege \<Rightarrow> sql_tuple \<Rightarrow> bool" where
  "row_writable s name ses t how r \<longleftrightarrow>
     (case (dict_get (ds_roles s) name, dict_get (ds_tables s) t) of
        (Some rl, Some tb) \<Rightarrow>
          how \<in> set (privileges_on rl t)
          \<and> (\<not> tb_rls_enabled tb \<or> ra_superuser (rl_attributes rl) \<or> ra_bypassrls (rl_attributes rl)
             \<or> list_ex (\<lambda>p. po_command p = ForAll
                  \<and> truth ses r (case po_check p of None \<Rightarrow> po_using p | Some c \<Rightarrow> c) = Some True) (tb_policies tb))
      | _ \<Rightarrow> False)"

end
