(* ===== verification/Migrations.thy ===== *)
theory Migrations
  imports Schema
begin

text \<open>
  The migration scripts \<open>migrations/versions/0001 ... 0009\<close>, statement by statement, and the chain Alembic runs
  them in. What Alembic does with the chain is documented: \<open>upgrade head\<close> starts from the revision without a
  predecessor and follows \<open>down_revision\<close>, in one transaction; the table \<open>alembic_version\<close> is its own and exists
  before the first migration, with columns that are a parameter here.
\<close>

text \<open>Columns and indexes of the shapes that occur again and again.\<close>

definition stamp :: "string \<Rightarrow> column" where
  "stamp name = defaulting DefaultNow (required (col name SqlTimestamp))"

definition text_col :: "string \<Rightarrow> column" where
  "text_col name = required (col name SqlText)"

definition plain_index :: "string \<Rightarrow> string list \<Rightarrow> db_index" where
  "plain_index t cs = \<lparr>ix_table = t, ix_columns = cs, ix_unique = False, ix_method = ''btree'', ix_where = None\<rparr>"

section \<open>0001 Foundation\<close>

definition departments_columns :: "column list" where
  "departments_columns = [primary (col ''slug'' SqlText), uniq (text_col ''name'')]"

definition slug_pattern :: "regex_piece list" where
  "slug_pattern = [Piece [(CHR ''a'', CHR ''z'')] 1 False, Piece [(CHR ''a'', CHR ''z''), (CHR ''_'', CHR ''_'')] 0 True]"

definition users_columns :: "column list" where
  "users_columns =
     [primary (col ''id'' SqlText), text_col ''name'', refs ''departments'' ''slug'' (text_col ''department''),
      text_col ''role'', defaulting (DefaultValue ''{}'') (required (col ''permissions'' SqlTextArray)),
      defaulting DefaultTrue (required (col ''is_active'' SqlBoolean)), stamp ''created_at'']"

definition user_id_pattern :: "regex_piece list" where
  "user_id_pattern = [Piece [(CHR ''U'', CHR ''U'')] 1 False, Piece [(CHR ''0'', CHR ''9'')] 3 True]"

definition servers_columns :: "column list" where
  "servers_columns =
     [primary (col ''id'' SqlText), text_col ''environment'', refs ''departments'' ''slug'' (text_col ''owner_department''),
      text_col ''status'', col ''cpu_pct'' (SqlNumeric 5 2), col ''memory_pct'' (SqlNumeric 5 2),
      required (col ''last_check'' SqlTimestamp)]"

definition upgrade_0001 :: "ddl list" where
  "upgrade_0001 =
     [CreateExtension ''vector'',
      CreateTable ''departments'' departments_columns [Check ''department_slug_format'' (Matches ''slug'' slug_pattern)],
      CreateTable ''users'' users_columns [Check ''user_id_format'' (Matches ''id'' user_id_pattern)],
      CreateIndex ''ix_users_department'' (plain_index ''users'' [''department'']),
      CreateTable ''servers'' servers_columns
        [Check ''server_status_enum'' (OneOf ''status'' [''healthy'', ''degraded'', ''offline'']),
         Check ''server_env_enum'' (OneOf ''environment'' [''production'', ''staging'', ''development''])]]"

definition downgrade_0001 :: "ddl list" where
  "downgrade_0001 =
     [DropTable ''servers'', DropIndex ''ix_users_department'' ''users'', DropTable ''users'', DropTable ''departments'']"

section \<open>0002 Conversations and usage, 0003 model choice\<close>

definition conversations_columns :: "column list" where
  "conversations_columns =
     [primary (col ''id'' SqlUuid), refs ''users'' ''id'' (text_col ''user_id''), col ''title'' SqlText,
      stamp ''created_at'', stamp ''updated_at'']"

definition messages_columns :: "column list" where
  "messages_columns =
     [primary (col ''id'' SqlUuid), uniq (required (identity (col ''seq'' SqlBigInteger))),
      required (cascading (refs ''conversations'' ''id'' (col ''conversation_id'' SqlUuid))),
      text_col ''role'', text_col ''content'', defaulting (DefaultValue ''complete'') (text_col ''status''),
      col ''model_id'' SqlText, col ''request_id'' SqlText, col ''prompt_tokens'' SqlInteger,
      col ''completion_tokens'' SqlInteger, stamp ''created_at'']"

definition llm_usage_columns :: "column list" where
  "llm_usage_columns =
     [primary (identity (col ''id'' SqlBigInteger)), text_col ''request_id'', col ''user_id'' SqlText,
      col ''conversation_id'' SqlUuid, text_col ''kind'', text_col ''model_id'', text_col ''provider'',
      required (col ''attempt'' SqlInteger), text_col ''outcome'', col ''error_type'' SqlText,
      required (col ''latency_ms'' SqlFloat), col ''ttft_ms'' SqlFloat,
      defaulting (DefaultValue ''0'') (required (col ''prompt_tokens'' SqlInteger)),
      defaulting (DefaultValue ''0'') (required (col ''completion_tokens'' SqlInteger)),
      defaulting DefaultFalse (required (col ''tokens_estimated'' SqlBoolean)),
      defaulting (DefaultValue ''0'') (required (col ''cost_usd'' (SqlNumeric 12 8))), stamp ''created_at'']"

definition upgrade_0002 :: "ddl list" where
  "upgrade_0002 =
     [CreateTable ''conversations'' conversations_columns [],
      CreateIndex ''ix_conversations_user_id'' (plain_index ''conversations'' [''user_id'']),
      CreateTable ''messages'' messages_columns
        [Check ''message_role_enum'' (OneOf ''role'' [''user'', ''assistant'']),
         Check ''message_status_enum'' (OneOf ''status'' [''complete'', ''partial'', ''error''])],
      CreateIndex ''ix_messages_conversation_seq'' (plain_index ''messages'' [''conversation_id'', ''seq'']),
      CreateTable ''llm_usage'' llm_usage_columns
        [Check ''usage_kind_enum'' (OneOf ''kind'' [''chat'', ''embedding'']),
         Check ''usage_outcome_enum'' (OneOf ''outcome'' [''success'', ''error'', ''timeout'', ''cancelled'', ''skipped''])],
      CreateIndex ''ix_llm_usage_request_id'' (plain_index ''llm_usage'' [''request_id'']),
      CreateIndex ''ix_llm_usage_user_created'' (plain_index ''llm_usage'' [''user_id'', ''created_at''])]"

definition downgrade_0002 :: "ddl list" where
  "downgrade_0002 = [DropTable ''llm_usage'', DropTable ''messages'', DropTable ''conversations'']"

definition upgrade_0003 :: "ddl list" where
  "upgrade_0003 = [AddColumn ''conversations'' (col ''model_id'' SqlText)]"

definition downgrade_0003 :: "ddl list" where
  "downgrade_0003 = [DropColumn ''conversations'' ''model_id'']"

section \<open>0004 Knowledge index and row-level security\<close>

definition DIMS :: nat where "DIMS = 768"

definition READ_DEPTS :: "string \<Rightarrow> sql_cond" where
  "READ_DEPTS c = DeptAnyOf c ''app.read_departments''"

definition CONF_DEPTS :: "string \<Rightarrow> sql_cond" where
  "CONF_DEPTS c = DeptAnyOf c ''app.confidential_departments''"

definition INGEST :: sql_cond where "INGEST = SettingIs ''app.ingest'' ''on''"

definition is_class :: "string list \<Rightarrow> sql_cond" where "is_class cs = OneOf ''classification'' cs"

definition active_index :: "string \<Rightarrow> string list \<Rightarrow> string \<Rightarrow> db_index" where
  "active_index t cs how =
     \<lparr>ix_table = t, ix_columns = cs, ix_unique = False, ix_method = how, ix_where = Some (IsTrue ''is_active'')\<rparr>"

definition ingest_policy :: "string \<Rightarrow> policy" where
  "ingest_policy name = \<lparr>po_name = name, po_command = ForAll, po_using = INGEST, po_check = Some INGEST\<rparr>"

definition read_policy :: "string \<Rightarrow> sql_cond \<Rightarrow> policy" where
  "read_policy name cond = \<lparr>po_name = name, po_command = ForSelect, po_using = cond, po_check = None\<rparr>"

definition chunk_columns :: "column list" where
  "chunk_columns =
     [primary (identity (col ''id'' SqlBigInteger)),
      required (refs ''documents'' ''id'' (col ''document_id'' SqlUuid)), text_col ''doc_key'',
      required (col ''version'' SqlInteger), text_col ''department'', text_col ''classification'',
      required (col ''chunk_index'' SqlInteger), text_col ''locator'', col ''section'' SqlText, col ''page'' SqlInteger,
      text_col ''content'', text_col ''embed_text'', required (col ''token_count'' SqlInteger),
      text_col ''embedding_model'', required (col ''embedding'' (SqlVector DIMS)),
      defaulting DefaultTrue (required (col ''is_active'' SqlBoolean)),
      computed ''to_tsvector('english', embed_text)'' (col ''fts'' SqlTsvector)]"

definition chunk_table_ddl :: "string \<Rightarrow> sql_cond \<Rightarrow> ddl list" where
  "chunk_table_ddl name classification_cond =
     [CreateTable name chunk_columns
        [Check (name @ ''_classification'') classification_cond,
         Unique (name @ ''_doc_chunk_unique'') [''document_id'', ''chunk_index'']],
      CreateIndex (''ix_'' @ name @ ''_embedding'') (active_index name [''embedding''] ''hnsw''),
      CreateIndex (''ix_'' @ name @ ''_fts'') (active_index name [''fts''] ''gin''),
      CreateIndex (''ix_'' @ name @ ''_acl'') (active_index name [''department'', ''classification''] ''btree''),
      EnableRls name,
      ForceRls name,
      CreatePolicy name (ingest_policy (name @ ''_ingest''))]"

definition documents_columns :: "column list" where
  "documents_columns =
     [primary (col ''id'' SqlUuid), text_col ''doc_key'', required (col ''version'' SqlInteger), text_col ''title'',
      refs ''departments'' ''slug'' (text_col ''department''), text_col ''classification'', text_col ''mime_type'',
      text_col ''source_path'', text_col ''content_sha256'', defaulting (DefaultValue ''active'') (text_col ''status''),
      required (col ''doc_updated_at'' SqlDate), text_col ''embedding_model'', required (col ''chunk_count'' SqlInteger),
      stamp ''ingested_at'', col ''superseded_at'' SqlTimestamp]"

definition one_active_index :: db_index where
  "one_active_index = \<lparr>ix_table = ''documents'', ix_columns = [''doc_key''], ix_unique = True, ix_method = ''btree'',
     ix_where = Some (OneOf ''status'' [''active''])\<rparr>"

definition documents_read_cond :: sql_cond where
  "documents_read_cond =
     Either (is_class [''public'']) (Either (Both (is_class [''internal'']) (READ_DEPTS ''department''))
       (Both (is_class [''confidential'']) (CONF_DEPTS ''department'')))"

definition chunks_read_cond :: sql_cond where
  "chunks_read_cond = Either (is_class [''public'']) (READ_DEPTS ''department'')"

definition ingestion_jobs_columns :: "column list" where
  "ingestion_jobs_columns =
     [primary (col ''id'' SqlUuid), text_col ''source_path'', defaulting (DefaultValue ''queued'') (text_col ''status''),
      defaulting (DefaultValue ''0'') (required (col ''attempts'' SqlInteger)), col ''doc_key'' SqlText,
      col ''version'' SqlInteger, col ''detail'' SqlText, stamp ''created_at'', stamp ''updated_at'']"

definition upgrade_0004 :: "ddl list" where
  "upgrade_0004 =
     [AddColumn ''messages'' (col ''citations'' SqlJsonb),
      CreateTable ''documents'' documents_columns
        [Check ''document_classification_enum'' (is_class [''public'', ''internal'', ''confidential'']),
         Check ''document_status_enum'' (OneOf ''status'' [''active'', ''superseded'', ''deleted'']),
         Unique ''document_key_version_unique'' [''doc_key'', ''version'']],
      CreateIndex ''ux_documents_one_active'' one_active_index,
      EnableRls ''documents'',
      ForceRls ''documents'',
      CreatePolicy ''documents'' (read_policy ''documents_read'' documents_read_cond),
      CreatePolicy ''documents'' (ingest_policy ''documents_ingest'')]
     @ chunk_table_ddl ''chunks'' (is_class [''public'', ''internal''])
     @ [CreatePolicy ''chunks'' (read_policy ''chunks_read'' chunks_read_cond)]
     @ chunk_table_ddl ''confidential_chunks'' (is_class [''confidential''])
     @ [CreatePolicy ''confidential_chunks'' (read_policy ''confidential_chunks_read'' (CONF_DEPTS ''department'')),
        CreateTable ''ingestion_jobs'' ingestion_jobs_columns
          [Check ''ingestion_job_status_enum''
             (OneOf ''status'' [''queued'', ''running'', ''succeeded'', ''unchanged'', ''failed'', ''dead''])]]"

definition downgrade_0004 :: "ddl list" where
  "downgrade_0004 =
     [DropTable ''ingestion_jobs'', DropTable ''confidential_chunks'', DropTable ''chunks'', DropTable ''documents'',
      DropColumn ''messages'' ''citations'']"

section \<open>0005 The runtime role\<close>

definition ROLE :: string where "ROLE = ''opsassist_app''"

definition app_attributes :: "string \<Rightarrow> role_attributes" where
  "app_attributes password = \<lparr>ra_login = True, ra_superuser = False, ra_bypassrls = False, ra_createdb = False,
     ra_createrole = False, ra_password = password\<rparr>"

definition upgrade_0005 :: "string \<Rightarrow> ddl list" where
  "upgrade_0005 password =
     [EnsureRole ROLE (app_attributes password),
      GrantConnect ROLE,
      GrantUsage ROLE,
      GrantTables [Select, Insert, Update, Delete] AllTables ROLE,
      GrantSequences ROLE,
      RevokeTables [Insert, Update, Delete] (Tables [''users'', ''departments'', ''alembic_version'']) ROLE,
      DefaultTables [Select, Insert, Update, Delete] ROLE,
      DefaultSequences ROLE]"

definition downgrade_0005 :: "ddl list" where
  "downgrade_0005 =
     [NoDefaultTables [Select, Insert, Update, Delete] ROLE,
      NoDefaultSequences ROLE,
      RevokeTables all_privileges AllTables ROLE,
      RevokeSequences ROLE,
      RevokeSchema ROLE,
      DropRole ROLE]"

section \<open>0006 Parent context\<close>

definition context_col :: column where "context_col = col ''context'' SqlText"
definition headings_col :: column where
  "headings_col = defaulting (DefaultValue ''{}'') (required (col ''headings'' SqlTextArray))"

definition upgrade_0006 :: "ddl list" where
  "upgrade_0006 =
     [AddColumn ''chunks'' context_col, AddColumn ''chunks'' headings_col,
      AddColumn ''confidential_chunks'' context_col, AddColumn ''confidential_chunks'' headings_col,
      AddColumn ''documents'' (col ''chunker'' SqlText)]"

definition downgrade_0006 :: "ddl list" where
  "downgrade_0006 =
     [DropColumn ''documents'' ''chunker'',
      DropColumn ''chunks'' ''headings'', DropColumn ''chunks'' ''context'',
      DropColumn ''confidential_chunks'' ''headings'', DropColumn ''confidential_chunks'' ''context'']"

section \<open>0007 Tools, approvals, audit, memory\<close>

definition audit_log_columns :: "column list" where
  "audit_log_columns =
     [primary (identity (col ''id'' SqlBigInteger)), stamp ''created_at'', text_col ''request_id'', text_col ''actor_id'',
      text_col ''actor_role'', text_col ''event'', col ''tool'' SqlText, col ''arguments'' SqlJsonb, text_col ''decision'',
      col ''reason'' SqlText, col ''result'' SqlJsonb, col ''pending_action_id'' SqlUuid, col ''action_hash'' SqlText,
      text_col ''prev_hash'', uniq (text_col ''hash'')]"

definition pending_actions_columns :: "column list" where
  "pending_actions_columns =
     [primary (col ''id'' SqlUuid), col ''conversation_id'' SqlUuid, refs ''users'' ''id'' (text_col ''requester_id''),
      text_col ''tool'', required (col ''arguments'' SqlJsonb), text_col ''summary'', text_col ''action_hash'',
      text_col ''requires_permission'', text_col ''approve_permission'',
      defaulting (DefaultValue ''pending'') (text_col ''status''), refs ''users'' ''id'' (col ''approver_id'' SqlText),
      col ''result'' SqlJsonb, text_col ''request_id'', stamp ''created_at'', required (col ''expires_at'' SqlTimestamp),
      col ''decided_at'' SqlTimestamp, col ''executed_at'' SqlTimestamp]"

definition tickets_columns :: "column list" where
  "tickets_columns =
     [primary (col ''id'' SqlText), text_col ''title'', text_col ''severity'', text_col ''details'',
      defaulting (DefaultValue ''open'') (text_col ''status''), refs ''users'' ''id'' (text_col ''created_by''),
      uniq (text_col ''idempotency_key''), stamp ''created_at'']"

definition vpn_profiles_columns :: "column list" where
  "vpn_profiles_columns =
     [primary (col ''id'' SqlText), refs ''users'' ''id'' (text_col ''employee_id''),
      required (col ''duration_days'' SqlInteger), refs ''users'' ''id'' (text_col ''requested_by''),
      refs ''users'' ''id'' (text_col ''approved_by''), uniq (required (col ''pending_action_id'' SqlUuid)),
      stamp ''created_at'', required (col ''expires_at'' SqlTimestamp)]"

definition user_memories_columns :: "column list" where
  "user_memories_columns =
     [primary (col ''id'' SqlUuid), refs ''users'' ''id'' (text_col ''user_id''), text_col ''category'', text_col ''key'',
      text_col ''value'', defaulting (DefaultValue ''explicit'') (text_col ''source''), stamp ''created_at'', stamp ''updated_at'']"

definition upgrade_0007 :: "ddl list" where
  "upgrade_0007 =
     [CreateTable ''audit_log'' audit_log_columns
        [Check ''audit_decision_enum'' (OneOf ''decision'' [''allow'', ''deny'', ''pending'', ''executed'', ''error''])],
      CreateIndex ''ix_audit_actor_created'' (plain_index ''audit_log'' [''actor_id'', ''created_at'']),
      RevokeTables [Update, Delete] (Tables [''audit_log'']) ''opsassist_app'',
      CreateTable ''pending_actions'' pending_actions_columns
        [Check ''pending_action_status_enum''
           (OneOf ''status'' [''pending'', ''approved'', ''rejected'', ''executed'', ''expired'', ''failed''])],
      CreateIndex ''ix_pending_actions_requester'' (plain_index ''pending_actions'' [''requester_id'', ''status'']),
      CreateTable ''tickets'' tickets_columns
        [Check ''ticket_severity_enum'' (OneOf ''severity'' [''critical'', ''high'', ''medium'', ''low''])],
      CreateSequence ''ticket_number_seq'' 1042,
      CreateTable ''vpn_profiles'' vpn_profiles_columns [],
      CreateSequence ''vpn_profile_seq'' 1,
      CreateTable ''user_memories'' user_memories_columns [Unique ''user_memory_unique_key'' [''user_id'', ''key'']],
      AddColumn ''conversations'' (col ''summary'' SqlText),
      AddColumn ''conversations'' (col ''summary_upto_seq'' SqlBigInteger),
      AddColumn ''documents'' (col ''uploaded_by'' SqlText)]"

definition downgrade_0007 :: "ddl list" where
  "downgrade_0007 =
     [DropColumn ''documents'' ''uploaded_by'', DropColumn ''conversations'' ''summary_upto_seq'',
      DropColumn ''conversations'' ''summary'', DropTable ''user_memories'', DropSequence ''vpn_profile_seq'',
      DropTable ''vpn_profiles'', DropSequence ''ticket_number_seq'', DropTable ''tickets'', DropTable ''pending_actions'',
      DropTable ''audit_log'']"

section \<open>0008 Parent identity, 0009 conversation classification\<close>

definition upgrade_0008 :: "ddl list" where
  "upgrade_0008 =
     [AddColumn ''chunks'' (col ''parent_index'' SqlInteger),
      CreateIndex ''ix_chunks_parent'' (plain_index ''chunks'' [''document_id'', ''parent_index'']),
      AddColumn ''confidential_chunks'' (col ''parent_index'' SqlInteger),
      CreateIndex ''ix_confidential_chunks_parent'' (plain_index ''confidential_chunks'' [''document_id'', ''parent_index''])]"

definition downgrade_0008 :: "ddl list" where
  "downgrade_0008 =
     [DropIndex ''ix_chunks_parent'' ''chunks'', DropColumn ''chunks'' ''parent_index'',
      DropIndex ''ix_confidential_chunks_parent'' ''confidential_chunks'', DropColumn ''confidential_chunks'' ''parent_index'']"

definition upgrade_0009 :: "ddl list" where
  "upgrade_0009 = [AddColumn ''conversations'' (col ''context_classification'' SqlText)]"

definition downgrade_0009 :: "ddl list" where
  "downgrade_0009 = [DropColumn ''conversations'' ''context_classification'']"

section \<open>The chain\<close>

record migration =
  rv_revision :: string
  rv_down_revision :: "string option"
  rv_upgrade :: "ddl list"
  rv_downgrade :: "ddl list"

definition revision :: "string \<Rightarrow> string option \<Rightarrow> ddl list \<Rightarrow> ddl list \<Rightarrow> migration" where
  "revision r d up down = \<lparr>rv_revision = r, rv_down_revision = d, rv_upgrade = up, rv_downgrade = down\<rparr>"

definition migrations :: "string \<Rightarrow> migration list" where
  "migrations password =
     [revision ''0001'' None upgrade_0001 downgrade_0001,
      revision ''0002'' (Some ''0001'') upgrade_0002 downgrade_0002,
      revision ''0003'' (Some ''0002'') upgrade_0003 downgrade_0003,
      revision ''0004'' (Some ''0003'') upgrade_0004 downgrade_0004,
      revision ''0005'' (Some ''0004'') (upgrade_0005 password) downgrade_0005,
      revision ''0006'' (Some ''0005'') upgrade_0006 downgrade_0006,
      revision ''0007'' (Some ''0006'') upgrade_0007 downgrade_0007,
      revision ''0008'' (Some ''0007'') upgrade_0008 downgrade_0008,
      revision ''0009'' (Some ''0008'') upgrade_0009 downgrade_0009]"

text \<open>The revisions after \<open>here\<close>, in the order they apply; never more than there are scripts.\<close>

fun path_from :: "nat \<Rightarrow> migration list \<Rightarrow> string option \<Rightarrow> migration list" where
  "path_from 0 ms here = []"
| "path_from (Suc n) ms here =
     (case find (\<lambda>m. rv_down_revision m = here) ms of
        None \<Rightarrow> []
      | Some m \<Rightarrow> m # path_from n ms (Some (rv_revision m)))"

definition upgrade_path :: "migration list \<Rightarrow> migration list" where
  "upgrade_path ms = path_from (length ms) ms None"

fun upgrade_all :: "migration list \<Rightarrow> db_schema \<Rightarrow> ddl_result" where
  "upgrade_all [] s = Inr s"
| "upgrade_all (m # ms) s = bind_result (run_ddl (rv_upgrade m) s) (upgrade_all ms)"

definition upgrade_head :: "migration list \<Rightarrow> db_schema \<Rightarrow> ddl_result" where
  "upgrade_head ms s = upgrade_all (upgrade_path ms) s"

text \<open>A database Alembic has just been pointed at.\<close>

definition version_table :: "column list \<Rightarrow> db_schema" where
  "version_table cs = \<lparr>ds_extensions = [],
     ds_tables = [(''alembic_version'', \<lparr>tb_columns = cs, tb_constraints = [], tb_rls_enabled = False, tb_rls_forced = False, tb_policies = []\<rparr>)],
     ds_indexes = [], ds_sequences = [], ds_roles = []\<rparr>"

end
