(* ===== verification/Models.thy ===== *)
theory Models
  imports Migrations
begin

text \<open>
  The ORM classes of \<open>db/models.py\<close> as the columns they declare, what it means that they agree with the tables of a
  schema, and the schema at the head revision with the privileges of the runtime role in it.

  A class attribute \<open>Mapped[T]\<close> is NOT NULL unless \<open>T\<close> allows None; its type is the one given to
  \<open>mapped_column\<close>, the type of the column a foreign key refers to, or the one SQLAlchemy takes for
  \<open>int\<close>, \<open>bool\<close> and \<open>float\<close>. Defaults that Python fills in are not part of the schema.
\<close>

section \<open>The classes\<close>

definition Department :: "column list" where
  "Department = [primary (text_col ''slug''), uniq (text_col ''name'')]"

definition Department_checks :: "table_constraint list" where
  "Department_checks = [Check ''department_slug_format'' (Matches ''slug'' slug_pattern)]"

definition User :: "column list" where
  "User =
     [primary (text_col ''id''), text_col ''name'', refs ''departments'' ''slug'' (text_col ''department''), text_col ''role'',
      required (col ''permissions'' SqlTextArray), required (col ''is_active'' SqlBoolean), stamp ''created_at'']"

definition User_checks :: "table_constraint list" where
  "User_checks = [Check ''user_id_format'' (Matches ''id'' user_id_pattern)]"

definition Server :: "column list" where
  "Server =
     [primary (text_col ''id''), text_col ''environment'', refs ''departments'' ''slug'' (text_col ''owner_department''),
      text_col ''status'', col ''cpu_pct'' (SqlNumeric 5 2), col ''memory_pct'' (SqlNumeric 5 2),
      required (col ''last_check'' SqlTimestamp)]"

definition Server_checks :: "table_constraint list" where
  "Server_checks =
     [Check ''server_status_enum'' (OneOf ''status'' [''healthy'', ''degraded'', ''offline'']),
      Check ''server_env_enum'' (OneOf ''environment'' [''production'', ''staging'', ''development''])]"

definition Conversation :: "column list" where
  "Conversation =
     [primary (col ''id'' SqlUuid), refs ''users'' ''id'' (text_col ''user_id''), col ''title'' SqlText, col ''summary'' SqlText,
      col ''summary_upto_seq'' SqlBigInteger, col ''context_classification'' SqlText, col ''model_id'' SqlText,
      stamp ''created_at'', stamp ''updated_at'']"

definition Message :: "column list" where
  "Message =
     [primary (col ''id'' SqlUuid), uniq (identity (required (col ''seq'' SqlBigInteger))),
      cascading (refs ''conversations'' ''id'' (required (col ''conversation_id'' SqlUuid))), text_col ''role'',
      text_col ''content'', text_col ''status'', col ''model_id'' SqlText, col ''request_id'' SqlText,
      col ''prompt_tokens'' SqlInteger, col ''completion_tokens'' SqlInteger, col ''citations'' SqlJsonb, stamp ''created_at'']"

definition Message_checks :: "table_constraint list" where
  "Message_checks =
     [Check ''message_role_enum'' (OneOf ''role'' [''user'', ''assistant'']),
      Check ''message_status_enum'' (OneOf ''status'' [''complete'', ''partial'', ''error''])]"

definition LLMUsage :: "column list" where
  "LLMUsage =
     [primary (identity (required (col ''id'' SqlBigInteger))), text_col ''request_id'', col ''user_id'' SqlText,
      col ''conversation_id'' SqlUuid, text_col ''kind'', text_col ''model_id'', text_col ''provider'',
      required (col ''attempt'' SqlInteger), text_col ''outcome'', col ''error_type'' SqlText,
      required (col ''latency_ms'' SqlFloat), col ''ttft_ms'' SqlFloat, required (col ''prompt_tokens'' SqlInteger),
      required (col ''completion_tokens'' SqlInteger), required (col ''tokens_estimated'' SqlBoolean),
      required (col ''cost_usd'' (SqlNumeric 12 8)), stamp ''created_at'']"

definition LLMUsage_checks :: "table_constraint list" where
  "LLMUsage_checks =
     [Check ''usage_kind_enum'' (OneOf ''kind'' [''chat'', ''embedding'']),
      Check ''usage_outcome_enum'' (OneOf ''outcome'' [''success'', ''error'', ''timeout'', ''cancelled'', ''skipped''])]"

definition Document :: "column list" where
  "Document =
     [primary (col ''id'' SqlUuid), text_col ''doc_key'', required (col ''version'' SqlInteger), text_col ''title'',
      refs ''departments'' ''slug'' (text_col ''department''), text_col ''classification'', text_col ''mime_type'',
      text_col ''source_path'', text_col ''content_sha256'', text_col ''status'', required (col ''doc_updated_at'' SqlDate),
      text_col ''embedding_model'', col ''uploaded_by'' SqlText, col ''chunker'' SqlText,
      required (col ''chunk_count'' SqlInteger), stamp ''ingested_at'', col ''superseded_at'' SqlTimestamp]"

definition ChunkColumns :: "column list" where
  "ChunkColumns =
     [primary (identity (required (col ''id'' SqlBigInteger))), text_col ''doc_key'', required (col ''version'' SqlInteger),
      text_col ''department'', text_col ''classification'', required (col ''chunk_index'' SqlInteger),
      col ''parent_index'' SqlInteger, text_col ''locator'', col ''section'' SqlText, col ''page'' SqlInteger,
      text_col ''content'', col ''context'' SqlText, required (col ''headings'' SqlTextArray), text_col ''embed_text'',
      required (col ''token_count'' SqlInteger), text_col ''embedding_model'',
      required (col ''embedding'' (SqlVector INDEX_DIMENSIONS)), required (col ''is_active'' SqlBoolean)]"

definition Chunk :: "column list" where
  "Chunk = ChunkColumns @ [refs ''documents'' ''id'' (required (col ''document_id'' SqlUuid))]"

definition ConfidentialChunk :: "column list" where
  "ConfidentialChunk = ChunkColumns @ [refs ''documents'' ''id'' (required (col ''document_id'' SqlUuid))]"

definition IngestionJob :: "column list" where
  "IngestionJob =
     [primary (col ''id'' SqlUuid), text_col ''source_path'', text_col ''status'', required (col ''attempts'' SqlInteger),
      col ''doc_key'' SqlText, col ''version'' SqlInteger, col ''detail'' SqlText, stamp ''created_at'', stamp ''updated_at'']"

definition AuditLog :: "column list" where
  "AuditLog =
     [primary (identity (required (col ''id'' SqlBigInteger))), stamp ''created_at'', text_col ''request_id'',
      text_col ''actor_id'', text_col ''actor_role'', text_col ''event'', col ''tool'' SqlText, col ''arguments'' SqlJsonb,
      text_col ''decision'', col ''reason'' SqlText, col ''result'' SqlJsonb, col ''pending_action_id'' SqlUuid,
      col ''action_hash'' SqlText, text_col ''prev_hash'', uniq (text_col ''hash'')]"

definition PendingAction :: "column list" where
  "PendingAction =
     [primary (col ''id'' SqlUuid), col ''conversation_id'' SqlUuid, refs ''users'' ''id'' (text_col ''requester_id''),
      text_col ''tool'', required (col ''arguments'' SqlJsonb), text_col ''summary'', text_col ''action_hash'',
      text_col ''requires_permission'', text_col ''approve_permission'', text_col ''status'',
      refs ''users'' ''id'' (col ''approver_id'' SqlText), col ''result'' SqlJsonb, text_col ''request_id'', stamp ''created_at'',
      required (col ''expires_at'' SqlTimestamp), col ''decided_at'' SqlTimestamp, col ''executed_at'' SqlTimestamp]"

definition Ticket :: "column list" where
  "Ticket =
     [primary (text_col ''id''), text_col ''title'', text_col ''severity'', text_col ''details'', text_col ''status'',
      refs ''users'' ''id'' (text_col ''created_by''), uniq (text_col ''idempotency_key''), stamp ''created_at'']"

definition VpnProfile :: "column list" where
  "VpnProfile =
     [primary (text_col ''id''), refs ''users'' ''id'' (text_col ''employee_id''), required (col ''duration_days'' SqlInteger),
      refs ''users'' ''id'' (text_col ''requested_by''), refs ''users'' ''id'' (text_col ''approved_by''),
      uniq (required (col ''pending_action_id'' SqlUuid)), stamp ''created_at'', required (col ''expires_at'' SqlTimestamp)]"

definition UserMemory :: "column list" where
  "UserMemory =
     [primary (col ''id'' SqlUuid), refs ''users'' ''id'' (text_col ''user_id''), text_col ''category'', text_col ''key'',
      text_col ''value'', text_col ''source'', stamp ''created_at'', stamp ''updated_at'']"

definition orm_metadata :: "(string \<times> column list \<times> table_constraint list) list" where
  "orm_metadata =
     [(''departments'', Department, Department_checks), (''users'', User, User_checks), (''servers'', Server, Server_checks),
      (''conversations'', Conversation, []), (''messages'', Message, Message_checks), (''llm_usage'', LLMUsage, LLMUsage_checks),
      (''documents'', Document, []), (''chunks'', Chunk, []), (''confidential_chunks'', ConfidentialChunk, []),
      (''ingestion_jobs'', IngestionJob, []), (''audit_log'', AuditLog, []), (''pending_actions'', PendingAction, []),
      (''tickets'', Ticket, []), (''vpn_profiles'', VpnProfile, []), (''user_memories'', UserMemory, [])]"

section \<open>Agreement\<close>

text \<open>What of a column both sides state: everything but the default and how the value is generated.\<close>

definition same_column :: "column \<Rightarrow> column \<Rightarrow> bool" where
  "same_column a b \<longleftrightarrow> cl_name a = cl_name b \<and> cl_type a = cl_type b \<and> cl_nullable a = cl_nullable b
     \<and> cl_primary a = cl_primary b \<and> cl_unique a = cl_unique b
     \<and> references [a] = references [b] \<and> (Cascade \<in> set (cl_options a)) = (Cascade \<in> set (cl_options b))"

definition declared_in :: "column list \<Rightarrow> column \<Rightarrow> bool" where
  "declared_in cs a \<longleftrightarrow> (case find (\<lambda>b. cl_name b = cl_name a) cs of None \<Rightarrow> False | Some b \<Rightarrow> same_column a b)"

definition is_computed :: "column \<Rightarrow> bool" where
  "is_computed c \<longleftrightarrow> list_ex (\<lambda>x. case x of Computed e \<Rightarrow> True | _ \<Rightarrow> False) (cl_options c)"

definition table_matches :: "db_table option \<Rightarrow> column list \<Rightarrow> table_constraint list \<Rightarrow> bool" where
  "table_matches t cs ks =
     (case t of
        None \<Rightarrow> False
      | Some tb \<Rightarrow> list_all (declared_in (tb_columns tb)) cs
          \<and> list_all (\<lambda>c. is_computed c \<or> declared_in cs c) (tb_columns tb)
          \<and> list_all (\<lambda>k. k \<in> set (tb_constraints tb)) ks)"

definition models_match :: "db_schema \<Rightarrow> bool" where
  "models_match s \<longleftrightarrow>
     list_all (\<lambda>(t, cs, ks). table_matches (dict_get (ds_tables s) t) cs ks) orm_metadata
     \<and> list_all (\<lambda>t. t = ''alembic_version'' \<or> t \<in> set (map fst orm_metadata)) (dict_keys (ds_tables s))"

section \<open>The schema at the head revision\<close>

definition head_schema :: "string \<Rightarrow> column list \<Rightarrow> ddl_result" where
  "head_schema password cs = upgrade_head (migrations password) (version_table cs)"

definition runtime_grants :: "db_schema \<Rightarrow> (string \<times> privilege list) list" where
  "runtime_grants s =
     (case dict_get (ds_roles s) ROLE of
        None \<Rightarrow> []
      | Some rl \<Rightarrow> map (\<lambda>t. (t, privileges_on rl t)) (dict_keys (ds_tables s)))"

definition runtime_role_at_head :: "string \<Rightarrow> db_schema \<Rightarrow> bool" where
  "runtime_role_at_head password s \<longleftrightarrow>
     (case dict_get (ds_roles s) ROLE of
        None \<Rightarrow> False
      | Some rl \<Rightarrow> rl_attributes rl = app_attributes password \<and> rl_sequences rl = [''ticket_number_seq'', ''vpn_profile_seq''])"

lemma upgrade_path_migrations: "upgrade_path (migrations pw) = migrations pw"
  by (simp add: upgrade_path_def migrations_def revision_def)

text \<open>The chain evaluated once.\<close>

definition granted_at_head :: "(string \<times> privilege list) list" where
  "granted_at_head =
     [(''alembic_version'', [Select]), (''departments'', [Select]), (''users'', [Select])]
     @ map (\<lambda>t. (t, all_privileges)) [''servers'', ''conversations'', ''messages'', ''llm_usage'', ''documents'',
          ''chunks'', ''confidential_chunks'', ''ingestion_jobs'']
     @ [(''audit_log'', [Select, Insert])]
     @ map (\<lambda>t. (t, all_privileges)) [''pending_actions'', ''tickets'', ''vpn_profiles'', ''user_memories'']"

lemma head_facts:
  "case upgrade_all (migrations pw) (version_table cs) of
     Inl e \<Rightarrow> False
   | Inr s \<Rightarrow> runtime_role_at_head pw s \<and> runtime_grants s = granted_at_head"
  by code_simp

end
