(* ===== verification/SchemaFacts.thy ===== *)
theory SchemaFacts
  imports Models
begin

text \<open>
  The tables the knowledge index and the executor write, read off the migrations: a statement acts on one table
  and one index at a time, so what became of an object is the fold of its own statements.
\<close>

section \<open>One table through a migration\<close>

text \<open>What a statement does to one table, whatever the rest of the catalogue holds.\<close>

definition fresh_table :: "column list \<Rightarrow> table_constraint list \<Rightarrow> db_table" where
  "fresh_table cs ks = \<lparr>tb_columns = cs, tb_constraints = ks, tb_rls_enabled = False, tb_rls_forced = False, tb_policies = []\<rparr>"

lemma fresh_table_sel [simp]: "tb_columns (fresh_table cs ks) = cs" "tb_constraints (fresh_table cs ks) = ks"
  by (simp_all add: fresh_table_def)

fun table_op :: "string \<Rightarrow> ddl \<Rightarrow> db_table option \<Rightarrow> db_table option" where
  "table_op t (CreateTable u cs ks) tb = (if u = t then Some (fresh_table cs ks) else tb)"
| "table_op t (DropTable u) tb = (if u = t then None else tb)"
| "table_op t (AddColumn u c) tb = (if u = t then map_option (\<lambda>b. b\<lparr>tb_columns := tb_columns b @ [c]\<rparr>) tb else tb)"
| "table_op t (DropColumn u c) tb =
     (if u = t then map_option (\<lambda>b. b\<lparr>tb_columns := filter (\<lambda>x. cl_name x \<noteq> c) (tb_columns b)\<rparr>) tb else tb)"
| "table_op t (EnableRls u) tb = (if u = t then map_option (\<lambda>b. b\<lparr>tb_rls_enabled := True\<rparr>) tb else tb)"
| "table_op t (ForceRls u) tb = (if u = t then map_option (\<lambda>b. b\<lparr>tb_rls_forced := True\<rparr>) tb else tb)"
| "table_op t (CreatePolicy u p) tb = (if u = t then map_option (\<lambda>b. b\<lparr>tb_policies := tb_policies b @ [p]\<rparr>) tb else tb)"
| "table_op t x tb = tb"

lemma on_roles_sel [simp]:
  "ds_tables (on_roles f s) = ds_tables s" "ds_indexes (on_roles f s) = ds_indexes s"
  "ds_sequences (on_roles f s) = ds_sequences s" "ds_extensions (on_roles f s) = ds_extensions s"
  by (simp_all add: on_roles_def)

lemma on_table_Inr:
  "on_table t f s = Inr s' \<longleftrightarrow>
     (\<exists>tb tb'. dict_get (ds_tables s) t = Some tb \<and> f tb = Inr tb' \<and> s' = s\<lparr>ds_tables := dict_put t tb' (ds_tables s)\<rparr>)"
  by (auto simp: on_table_def bind_result_Inr split: option.splits)

lemma on_role_Inr:
  "on_role r f s = Inr s' \<longleftrightarrow>
     (\<exists>rl. dict_get (ds_roles s) r = Some rl \<and> s' = s\<lparr>ds_roles := dict_put r (f rl) (ds_roles s)\<rparr>)"
  by (auto simp: on_role_def split: option.splits)

lemma drop_key_get: "dict_get (drop_key k d) j = (if j = k then None else dict_get d j)"
  by (induction d) (auto simp: drop_key_def)

lemma table_frame:
  assumes "apply_ddl x s = Inr s'"
  shows "dict_get (ds_tables s') t = table_op t x (dict_get (ds_tables s) t)"
  using assms
  by (cases x) (auto simp: on_table_Inr on_role_Inr bind_result_Inr drop_key_get dict_has_def map_add_def fresh_table_def
      split: if_splits option.splits)

lemma run_table: "run_ddl xs s = Inr s' \<Longrightarrow> dict_get (ds_tables s') t = fold (table_op t) xs (dict_get (ds_tables s) t)"
  by (induction xs arbitrary: s) (auto simp: bind_result_Inr table_frame)

lemma upgrade_table:
  "upgrade_all ms s = Inr s' \<Longrightarrow>
   dict_get (ds_tables s') t = fold (table_op t) (concat (map rv_upgrade ms)) (dict_get (ds_tables s) t)"
  by (induction ms arbitrary: s) (auto simp: bind_result_Inr run_table)

fun index_op :: "ddl \<Rightarrow> (string, db_index) dict \<Rightarrow> (string, db_index) dict" where
  "index_op (CreateIndex n i) ix = ix @ [(n, i)]"
| "index_op (DropIndex n t) ix = drop_key n ix"
| "index_op (DropTable t) ix = filter (\<lambda>(n, i). ix_table i \<noteq> t) ix"
| "index_op (DropColumn t c) ix = filter (\<lambda>(n, i). \<not> (ix_table i = t \<and> c \<in> set (ix_columns i))) ix"
| "index_op x ix = ix"

lemma index_frame:
  assumes "apply_ddl x s = Inr s'"
  shows "ds_indexes s' = index_op x (ds_indexes s)"
  using assms
  by (cases x) (auto simp: on_table_Inr on_role_Inr bind_result_Inr split: if_splits option.splits)

lemma run_indexes: "run_ddl xs s = Inr s' \<Longrightarrow> ds_indexes s' = fold index_op xs (ds_indexes s)"
  by (induction xs arbitrary: s) (auto simp: bind_result_Inr index_frame)

lemma upgrade_indexes:
  "upgrade_all ms s = Inr s' \<Longrightarrow> ds_indexes s' = fold index_op (concat (map rv_upgrade ms)) (ds_indexes s)"
  by (induction ms arbitrary: s) (auto simp: bind_result_Inr run_indexes)

section \<open>The head revision\<close>

lemmas migration_steps = migrations_def revision_def upgrade_0001_def upgrade_0002_def upgrade_0003_def upgrade_0004_def
  upgrade_0005_def upgrade_0006_def upgrade_0007_def upgrade_0008_def upgrade_0009_def chunk_table_ddl_def ROLE_def fresh_table_def

lemma head_Inr: "head_schema pw cs = Inr s \<Longrightarrow> upgrade_all (migrations pw) (version_table cs) = Inr s"
  by (simp add: head_schema_def upgrade_head_def upgrade_path_migrations)

lemma head_table:
  "head_schema pw cs = Inr s \<Longrightarrow> t \<noteq> ''alembic_version'' \<Longrightarrow>
   dict_get (ds_tables s) t = fold (table_op t) (concat (map rv_upgrade (migrations pw))) None"
  by (drule head_Inr, drule upgrade_table [where t = t]) (simp add: version_table_def)

definition documents_table :: db_table where
  "documents_table =
     \<lparr>tb_columns = documents_columns @ [col ''chunker'' SqlText, col ''uploaded_by'' SqlText],
      tb_constraints =
        [Check ''document_classification_enum'' (is_class [''public'', ''internal'', ''confidential'']),
         Check ''document_status_enum'' (OneOf ''status'' [''active'', ''superseded'', ''deleted'']),
         Unique ''document_key_version_unique'' [''doc_key'', ''version'']],
      tb_rls_enabled = True, tb_rls_forced = True,
      tb_policies = [read_policy ''documents_read'' documents_read_cond, ingest_policy ''documents_ingest'']\<rparr>"

definition chunk_table_name :: "chunk_table \<Rightarrow> string" where
  "chunk_table_name t = (case t of SharedChunks \<Rightarrow> ''chunks'' | ConfidentialChunks \<Rightarrow> ''confidential_chunks'')"

definition chunk_table_at_head :: "chunk_table \<Rightarrow> db_table" where
  "chunk_table_at_head t =
     \<lparr>tb_columns = chunk_columns @ [context_col, headings_col, col ''parent_index'' SqlInteger],
      tb_constraints =
        [Check (chunk_table_name t @ ''_classification'')
           (is_class (case t of SharedChunks \<Rightarrow> [''public'', ''internal''] | ConfidentialChunks \<Rightarrow> [''confidential''])),
         Unique (chunk_table_name t @ ''_doc_chunk_unique'') [''document_id'', ''chunk_index'']],
      tb_rls_enabled = True, tb_rls_forced = True,
      tb_policies = [ingest_policy (chunk_table_name t @ ''_ingest''),
        read_policy (chunk_table_name t @ ''_read'')
          (case t of SharedChunks \<Rightarrow> chunks_read_cond | ConfidentialChunks \<Rightarrow> CONF_DEPTS ''department'')]\<rparr>"

lemma documents_at_head: "head_schema pw cs = Inr s \<Longrightarrow> dict_get (ds_tables s) ''documents'' = Some documents_table"
  by (drule head_table [where t = "''documents''"]) (simp_all add: migration_steps documents_table_def)

lemma shared_at_head: "head_schema pw cs = Inr s \<Longrightarrow> dict_get (ds_tables s) ''chunks'' = Some (chunk_table_at_head SharedChunks)"
  by (drule head_table [where t = "''chunks''"]) (simp_all add: migration_steps chunk_table_at_head_def chunk_table_name_def)

lemma confidential_at_head:
  "head_schema pw cs = Inr s \<Longrightarrow> dict_get (ds_tables s) ''confidential_chunks'' = Some (chunk_table_at_head ConfidentialChunks)"
  by (drule head_table [where t = "''confidential_chunks''"]) (simp_all add: migration_steps chunk_table_at_head_def chunk_table_name_def)

lemma chunks_at_head: "head_schema pw cs = Inr s \<Longrightarrow> dict_get (ds_tables s) (chunk_table_name t) = Some (chunk_table_at_head t)"
  using shared_at_head confidential_at_head by (cases t) (simp_all add: chunk_table_name_def)

lemma pending_at_head: "head_schema pw cs = Inr s \<Longrightarrow> dict_get (ds_tables s) ''pending_actions'' =
   Some (fresh_table pending_actions_columns [Check ''pending_action_status_enum''
     (OneOf ''status'' [''pending'', ''approved'', ''rejected'', ''executed'', ''expired'', ''failed''])])"
  by (drule head_table [where t = "''pending_actions''"]) (simp_all add: migration_steps)

lemma tickets_at_head: "head_schema pw cs = Inr s \<Longrightarrow> dict_get (ds_tables s) ''tickets'' =
   Some (fresh_table tickets_columns [Check ''ticket_severity_enum'' (OneOf ''severity'' [''critical'', ''high'', ''medium'', ''low''])])"
  by (drule head_table [where t = "''tickets''"]) (simp_all add: migration_steps)

lemma vpn_at_head: "head_schema pw cs = Inr s \<Longrightarrow> dict_get (ds_tables s) ''vpn_profiles'' = Some (fresh_table vpn_profiles_columns [])"
  by (drule head_table [where t = "''vpn_profiles''"]) (simp_all add: migration_steps)

lemma audit_at_head: "head_schema pw cs = Inr s \<Longrightarrow> dict_get (ds_tables s) ''audit_log'' =
   Some (fresh_table audit_log_columns [Check ''audit_decision_enum''
     (OneOf ''decision'' [''allow'', ''deny'', ''pending'', ''executed'', ''error''])])"
  by (drule head_table [where t = "''audit_log''"]) (simp_all add: migration_steps)

lemma unique_indexes_at_head:
  "head_schema pw cs = Inr s \<Longrightarrow> filter (\<lambda>(n, i). ix_unique i) (ds_indexes s) = [(''ux_documents_one_active'', one_active_index)]"
  by (drule head_Inr, drule upgrade_indexes)
    (simp add: migration_steps version_table_def plain_index_def active_index_def one_active_index_def)

lemma indexes_at_head:
  assumes "head_schema pw cs = Inr s"
  shows "list_all (\<lambda>(n, i). ix_table i \<noteq> t \<or> index_distinct ses rs i) (ds_indexes s)
     \<longleftrightarrow> t \<noteq> ''documents'' \<or> index_distinct ses rs one_active_index"
proof -
  have "list_all (\<lambda>(n, i). ix_table i \<noteq> t \<or> index_distinct ses rs i) (ds_indexes s)
     \<longleftrightarrow> list_all (\<lambda>(n, i). ix_table i \<noteq> t \<or> index_distinct ses rs i) (filter (\<lambda>(n, i). ix_unique i) (ds_indexes s))"
    by (auto simp: list_all_iff index_distinct_def)
  also have "\<dots> \<longleftrightarrow> t \<noteq> ''documents'' \<or> index_distinct ses rs one_active_index"
    by (auto simp: unique_indexes_at_head [OF assms] one_active_index_def)
  finally show ?thesis .
qed

end
