(* ===== verification/SchemaProps.thy ===== *)
theory SchemaProps
  imports SchemaFacts Parsing
begin

text \<open>
  What the schema means for the components: the runtime role's privileges, the rows its policies let it read and
  write against the visibility the knowledge components assume, and the constraints on document and chunk rows.
\<close>

section \<open>Rows of the knowledge tables\<close>

definition opt_txt :: "string option \<Rightarrow> sql_value" where
  "opt_txt v = (case v of None \<Rightarrow> Null | Some s \<Rightarrow> Txt s)"

definition opt_num :: "int option \<Rightarrow> sql_value" where
  "opt_num v = (case v of None \<Rightarrow> Null | Some n \<Rightarrow> Num n)"

definition document_tuple :: "document \<Rightarrow> sql_tuple" where
  "document_tuple d =
     [(''id'', Txt (d_id d)), (''doc_key'', Txt (d_doc_key d)), (''version'', Num (d_version d)), (''title'', Txt (d_title d)),
      (''department'', Txt (d_department d)), (''classification'', Txt (d_classification d)), (''mime_type'', Txt (d_mime_type d)),
      (''source_path'', Txt (d_source_path d)), (''content_sha256'', Txt (d_content_sha256 d)), (''status'', Txt (d_status d)),
      (''doc_updated_at'', Txt (d_updated_at d)), (''embedding_model'', Txt (d_embedding_model d)),
      (''uploaded_by'', opt_txt (d_uploaded_by d)), (''chunker'', opt_txt (d_chunker d)),
      (''chunk_count'', Num (int (d_chunk_count d))), (''superseded_at'', opt_num (d_superseded_at d))]"

definition chunk_tuple :: "chunk_row \<Rightarrow> sql_tuple" where
  "chunk_tuple c =
     [(''id'', Num (c_id c)), (''document_id'', Txt (c_document_id c)), (''doc_key'', Txt (c_doc_key c)),
      (''version'', Num (c_version c)), (''department'', Txt (c_department c)), (''classification'', Txt (c_classification c)),
      (''chunk_index'', Num (int (c_chunk_index c))), (''parent_index'', opt_num (map_option int (c_parent_index c))),
      (''locator'', Txt (c_locator c)), (''section'', opt_txt (c_section c)), (''page'', opt_num (c_page c)),
      (''content'', Txt (c_content c)), (''context'', opt_txt (c_context c)), (''headings'', Texts (c_headings c)),
      (''embed_text'', Txt (c_embed_text c)), (''token_count'', Num (int (c_token_count c))),
      (''embedding_model'', Txt (c_embedding_model c)), (''embedding'', Vec (c_embedding c)), (''is_active'', Flag (c_is_active c))]"

lemma document_cells:
  "cell (document_tuple d) ''id'' = Txt (d_id d)" "cell (document_tuple d) ''doc_key'' = Txt (d_doc_key d)"
  "cell (document_tuple d) ''version'' = Num (d_version d)" "cell (document_tuple d) ''status'' = Txt (d_status d)"
  "cell (document_tuple d) ''department'' = Txt (d_department d)"
  "cell (document_tuple d) ''classification'' = Txt (d_classification d)"
  by (simp_all add: cell_def document_tuple_def)

lemma chunk_cells:
  "cell (chunk_tuple c) ''id'' = Num (c_id c)" "cell (chunk_tuple c) ''document_id'' = Txt (c_document_id c)"
  "cell (chunk_tuple c) ''chunk_index'' = Num (int (c_chunk_index c))"
  "cell (chunk_tuple c) ''department'' = Txt (c_department c)"
  "cell (chunk_tuple c) ''classification'' = Txt (c_classification c)"
  by (simp_all add: cell_def chunk_tuple_def)

section \<open>Policies\<close>

lemma sql_or_Some [simp]: "sql_or (Some a) (Some b) = Some (a \<or> b)"
  by (cases a; cases b) (simp_all add: sql_or_def)

lemma sql_and_Some [simp]: "sql_and (Some a) (Some b) = Some (a \<and> b)"
  by (cases a; cases b) (simp_all add: sql_and_def)

lemmas policy_conds = documents_read_cond_def chunks_read_cond_def READ_DEPTS_def CONF_DEPTS_def is_class_def INGEST_def

lemma policy_settings [simp]:
  "current_setting ses ''app.read_departments'' = app_read_departments ses"
  "current_setting ses ''app.confidential_departments'' = app_confidential_departments ses"
  "current_setting ses ''app.ingest'' = app_ingest ses"
  by (simp_all add: current_setting_def)

lemma ingest_truth: "truth ses r INGEST = Some (rls_ingest ses)"
  by (auto simp: INGEST_def rls_ingest_def split: option.splits)

lemma documents_truth:
  "truth ses (document_tuple d) documents_read_cond = Some (rls_documents_read ses (d_department d) (d_classification d))"
  by (simp add: policy_conds text_test_def document_cells rls_documents_read_def)

lemma chunk_truth:
  "truth ses (chunk_tuple c) chunks_read_cond = Some (rls_chunks_read ses (c_department c) (c_classification c))"
  "truth ses (chunk_tuple c) (CONF_DEPTS ''department'') = Some (rls_confidential_read ses (c_department c) (c_classification c))"
  by (simp_all add: policy_conds text_test_def chunk_cells rls_chunks_read_def rls_confidential_read_def)

lemma head_succeeds: "case head_schema pw cs of Inl e \<Rightarrow> False | Inr s \<Rightarrow> True"
  using head_facts [of pw cs]
  by (auto simp: head_schema_def upgrade_head_def upgrade_path_migrations split: sum.splits)

lemma head_role:
  assumes "head_schema pw cs = Inr s"
  obtains rl where "dict_get (ds_roles s) ROLE = Some rl" "rl_attributes rl = app_attributes pw"
    "map (\<lambda>t. (t, privileges_on rl t)) (dict_keys (ds_tables s)) = granted_at_head"
  using head_facts [of pw "cs"] assms
  by (auto simp: head_Inr runtime_role_at_head_def runtime_grants_def split: option.splits)

lemma head_keys:
  assumes "head_schema pw cs = Inr s"
  shows "dict_keys (ds_tables s) = map fst granted_at_head"
proof -
  obtain rl where g: "map (\<lambda>t. (t, privileges_on rl t)) (dict_keys (ds_tables s)) = granted_at_head"
    by (rule head_role [OF assms])
  have "map fst (map (\<lambda>t. (t, privileges_on rl t)) (dict_keys (ds_tables s))) = dict_keys (ds_tables s)"
    by (simp add: comp_def)
  then show ?thesis by (simp only: g)
qed

lemma runtime_privileges:
  assumes "map (\<lambda>t. (t, privileges_on rl t)) ts = granted_at_head" "(t, ps) \<in> set granted_at_head"
  shows "privileges_on rl t = ps"
  using assms(2) unfolding assms(1) [symmetric] by auto

lemma knowledge_privileges:
  assumes "map (\<lambda>t. (t, privileges_on rl t)) ts = granted_at_head"
  shows "privileges_on rl ''documents'' = all_privileges" "privileges_on rl (chunk_table_name t) = all_privileges"
proof -
  show "privileges_on rl ''documents'' = all_privileges"
    by (rule runtime_privileges [OF assms]) (simp add: granted_at_head_def)
  show "privileges_on rl (chunk_table_name t) = all_privileges"
    by (rule runtime_privileges [OF assms]) (simp add: granted_at_head_def chunk_table_name_def split: chunk_table.split)
qed

lemma document_readable:
  assumes "head_schema pw cs = Inr s"
  shows "row_readable s ROLE ses ''documents'' (document_tuple d) \<longleftrightarrow> document_visible ses d"
proof -
  obtain rl where rl: "dict_get (ds_roles s) ROLE = Some rl" "rl_attributes rl = app_attributes pw"
    and g: "map (\<lambda>t. (t, privileges_on rl t)) (dict_keys (ds_tables s)) = granted_at_head"
    by (rule head_role [OF assms])
  show ?thesis
    using knowledge_privileges(1) [OF g] rl
    by (auto simp: row_readable_def documents_at_head [OF assms] documents_table_def admitted_def read_policy_def
        ingest_policy_def documents_truth ingest_truth document_visible_def app_attributes_def all_privileges_def)
qed

lemma chunk_readable:
  assumes "head_schema pw cs = Inr s"
  shows "row_readable s ROLE ses (chunk_table_name t) (chunk_tuple c) \<longleftrightarrow> chunk_visible ses t c"
proof -
  obtain rl where rl: "dict_get (ds_roles s) ROLE = Some rl" "rl_attributes rl = app_attributes pw"
    and g: "map (\<lambda>t. (t, privileges_on rl t)) (dict_keys (ds_tables s)) = granted_at_head"
    by (rule head_role [OF assms])
  show ?thesis
    using knowledge_privileges(2) [OF g, of t] rl
    by (cases t) (auto simp: row_readable_def chunks_at_head [OF assms] chunk_table_at_head_def admitted_def read_policy_def
        ingest_policy_def chunk_truth ingest_truth app_attributes_def all_privileges_def)
qed

lemma document_writable:
  assumes "head_schema pw cs = Inr s" "how \<in> set all_privileges"
  shows "row_writable s ROLE ses ''documents'' how (document_tuple d) \<longleftrightarrow> rls_ingest ses"
proof -
  obtain rl where rl: "dict_get (ds_roles s) ROLE = Some rl" "rl_attributes rl = app_attributes pw"
    and g: "map (\<lambda>t. (t, privileges_on rl t)) (dict_keys (ds_tables s)) = granted_at_head"
    by (rule head_role [OF assms(1)])
  show ?thesis
    using knowledge_privileges(1) [OF g] rl assms(2)
    by (simp add: row_writable_def documents_at_head [OF assms(1)] documents_table_def read_policy_def
        ingest_policy_def ingest_truth app_attributes_def)
qed

lemma chunk_writable:
  assumes "head_schema pw cs = Inr s" "how \<in> set all_privileges"
  shows "row_writable s ROLE ses (chunk_table_name t) how (chunk_tuple c) \<longleftrightarrow> rls_ingest ses"
proof -
  obtain rl where rl: "dict_get (ds_roles s) ROLE = Some rl" "rl_attributes rl = app_attributes pw"
    and g: "map (\<lambda>t. (t, privileges_on rl t)) (dict_keys (ds_tables s)) = granted_at_head"
    by (rule head_role [OF assms(1)])
  show ?thesis
    using knowledge_privileges(2) [OF g, of t] rl assms(2)
    by (simp add: row_writable_def chunks_at_head [OF assms(1)] chunk_table_at_head_def read_policy_def
        ingest_policy_def ingest_truth app_attributes_def)
qed

section \<open>Constraints\<close>

definition statuses :: "string list" where "statuses = [''active'', ''superseded'', ''deleted'']"

lemma keys_distinct_map:
  assumes "\<And>d. d \<in> set ds \<Longrightarrow> map (cell (f d)) cs = g d" "\<And>d. d \<in> set ds \<Longrightarrow> Null \<notin> set (g d)"
  shows "keys_distinct (map f ds) cs \<longleftrightarrow> distinct (map g ds)"
proof -
  have "map (\<lambda>r. map (cell r) cs) (map f ds) = map g ds" using assms(1) by simp
  moreover have "filter (\<lambda>vs. Null \<notin> set vs) (map g ds) = map g ds" using assms(2) by (auto simp: filter_id_conv)
  ultimately show ?thesis by (simp only: keys_distinct_def)
qed

lemma distinct_wrap:
  assumes "\<And>x y. f x = f y \<longleftrightarrow> x = y"
  shows "distinct (map (\<lambda>d. f (g d)) ds) = distinct (map g ds)"
  by (simp add: distinct_map inj_on_def assms)

lemma document_keys:
  "keys_distinct (map document_tuple ds) [''id''] = distinct (map d_id ds)"
  "keys_distinct (map document_tuple ds) [''doc_key'', ''version''] = version_unique ds"
  "keys_distinct (map document_tuple ds) [''doc_key''] = distinct (map d_doc_key ds)"
proof -
  show "keys_distinct (map document_tuple ds) [''id''] = distinct (map d_id ds)"
    by (simp add: keys_distinct_map [where g = "\<lambda>d. [Txt (d_id d)]"] document_cells distinct_wrap [where f = "\<lambda>x. [Txt x]"])
  show "keys_distinct (map document_tuple ds) [''doc_key'', ''version''] = version_unique ds"
    unfolding version_unique_def
    using distinct_wrap [where f = "\<lambda>(k, v). [Txt k, Num v]" and g = "\<lambda>d. (d_doc_key d, d_version d)" and ds = ds]
    by (simp add: keys_distinct_map [where g = "\<lambda>d. [Txt (d_doc_key d), Num (d_version d)]"] document_cells split_def prod_eq_iff)
  show "keys_distinct (map document_tuple ds) [''doc_key''] = distinct (map d_doc_key ds)"
    by (simp add: keys_distinct_map [where g = "\<lambda>d. [Txt (d_doc_key d)]"] document_cells distinct_wrap [where f = "\<lambda>x. [Txt x]"])
qed

lemma one_active_index_iff: "index_distinct ses (map document_tuple ds) one_active_index = one_active ds"
proof -
  have "filter (\<lambda>r. truth ses r (OneOf ''status'' [''active'']) = Some True) (map document_tuple ds)
      = map document_tuple (filter (\<lambda>d. d_status d = ''active'') ds)"
    by (simp add: filter_map comp_def text_test_def document_cells)
  then show ?thesis
    by (simp add: index_distinct_def one_active_index_def document_keys one_active_def del: truth.simps)
qed

lemma document_required: "required_present (tb_columns documents_table) (document_tuple d)"
  by (simp add: required_present_def documents_table_def documents_columns_def text_col_def stamp_def col_def with_option_def
      cl_nullable_def cl_primary_def filled_in_def document_tuple_def)

lemma document_checks:
  "checks_pass ses documents_table (document_tuple d) \<longleftrightarrow> d_classification d \<in> set classifications \<and> d_status d \<in> set statuses"
  by (auto simp: checks_pass_def check_conds_def documents_table_def is_class_def text_test_def document_cells classifications_def
      statuses_def)

lemma document_unique_keys: "unique_keys documents_table = [[''id''], [''doc_key'', ''version'']]"
  by (simp add: unique_keys_def documents_table_def documents_columns_def text_col_def stamp_def col_def with_option_def
      cl_primary_def cl_unique_def)

lemma documents_accepted:
  assumes "head_schema pw cs = Inr s"
  shows "table_accepts s ses ''documents'' (map document_tuple ds) \<longleftrightarrow>
    list_all (\<lambda>d. d_classification d \<in> set classifications \<and> d_status d \<in> set statuses) ds
    \<and> distinct (map d_id ds) \<and> version_unique ds \<and> one_active ds"
  by (simp only: table_accepts_def documents_at_head [OF assms] option.case indexes_at_head [OF assms])
    (simp add: one_active_index_iff document_required document_checks document_unique_keys document_keys list.pred_map comp_def
      list.pred_True)

definition chunk_keys_distinct :: "chunk_row list \<Rightarrow> bool" where
  "chunk_keys_distinct rows \<longleftrightarrow> distinct (map c_id rows) \<and> distinct (map (\<lambda>c. (c_document_id c, c_chunk_index c)) rows)"

lemma chunk_keys:
  "keys_distinct (map chunk_tuple rows) [''id''] = distinct (map c_id rows)"
  "keys_distinct (map chunk_tuple rows) [''document_id'', ''chunk_index''] = distinct (map (\<lambda>c. (c_document_id c, c_chunk_index c)) rows)"
proof -
  show "keys_distinct (map chunk_tuple rows) [''id''] = distinct (map c_id rows)"
    by (simp add: keys_distinct_map [where g = "\<lambda>c. [Num (c_id c)]"] chunk_cells distinct_wrap [where f = "\<lambda>x. [Num x]"])
  show "keys_distinct (map chunk_tuple rows) [''document_id'', ''chunk_index''] = distinct (map (\<lambda>c. (c_document_id c, c_chunk_index c)) rows)"
    using distinct_wrap [where f = "\<lambda>(k, v). [Txt k, Num (int v)]" and g = "\<lambda>c. (c_document_id c, c_chunk_index c)" and ds = rows]
    by (simp add: keys_distinct_map [where g = "\<lambda>c. [Txt (c_document_id c), Num (int (c_chunk_index c))]"] chunk_cells split_def prod_eq_iff)
qed

lemma chunks_accepted:
  assumes "head_schema pw cs = Inr s"
  shows "table_accepts s ses (chunk_table_name t) (map chunk_tuple rows) \<longleftrightarrow>
    list_all (\<lambda>c. classification_check t (c_classification c)) rows \<and> chunk_keys_distinct rows"
proof -
  have req: "required_present (tb_columns (chunk_table_at_head t)) (chunk_tuple c)" for c
    by (simp add: required_present_def chunk_table_at_head_def chunk_columns_def text_col_def stamp_def col_def with_option_def
        context_col_def headings_col_def cl_nullable_def cl_primary_def filled_in_def chunk_tuple_def)
  have ck: "checks_pass ses (chunk_table_at_head t) (chunk_tuple c) \<longleftrightarrow> classification_check t (c_classification c)" for c
    by (cases t) (auto simp: checks_pass_def check_conds_def chunk_table_at_head_def is_class_def text_test_def chunk_cells
        classification_check_def)
  have uk: "unique_keys (chunk_table_at_head t) = [[''id''], [''document_id'', ''chunk_index'']]"
    by (simp add: unique_keys_def chunk_table_at_head_def chunk_columns_def text_col_def stamp_def col_def with_option_def
        context_col_def headings_col_def cl_primary_def cl_unique_def)
  have nd: "chunk_table_name t \<noteq> ''documents''" by (simp add: chunk_table_name_def split: chunk_table.split)
  show ?thesis
    by (simp only: table_accepts_def chunks_at_head [OF assms] option.case indexes_at_head [OF assms])
      (simp add: req ck uk nd chunk_keys chunk_keys_distinct_def list.pred_map comp_def list.pred_True)
qed

section \<open>The ORM classes\<close>

fun class_as_migrated :: "string \<Rightarrow> string \<times> column list \<times> table_constraint list \<Rightarrow> bool" where
  "class_as_migrated pw (t, cs, ks) = table_matches (fold (table_op t) (concat (map rv_upgrade (migrations pw))) None) cs ks"

lemma identity_classes:
  "class_as_migrated pw (''departments'', Department, Department_checks)"
  "class_as_migrated pw (''users'', User, User_checks)"
  "class_as_migrated pw (''servers'', Server, Server_checks)"
  "class_as_migrated pw (''conversations'', Conversation, [])"
  "class_as_migrated pw (''messages'', Message, Message_checks)"
  "class_as_migrated pw (''llm_usage'', LLMUsage, LLMUsage_checks)"
  by code_simp+

lemma knowledge_classes:
  "class_as_migrated pw (''documents'', Document, [])"
  "class_as_migrated pw (''chunks'', Chunk, [])"
  "class_as_migrated pw (''confidential_chunks'', ConfidentialChunk, [])"
  "class_as_migrated pw (''ingestion_jobs'', IngestionJob, [])"
  by code_simp+

lemma tool_classes:
  "class_as_migrated pw (''audit_log'', AuditLog, [])"
  "class_as_migrated pw (''pending_actions'', PendingAction, [])"
  "class_as_migrated pw (''tickets'', Ticket, [])"
  "class_as_migrated pw (''vpn_profiles'', VpnProfile, [])"
  "class_as_migrated pw (''user_memories'', UserMemory, [])"
  by code_simp+

lemma head_models:
  assumes "head_schema pw cs = Inr s"
  shows "models_match s"
proof -
  have all: "list_all (class_as_migrated pw) orm_metadata"
    by (simp add: orm_metadata_def identity_classes knowledge_classes tool_classes del: class_as_migrated.simps)
  have named: "list_all (\<lambda>(t, cs, ks). t \<noteq> ''alembic_version'') orm_metadata" by (simp add: orm_metadata_def)
  have "list_all (\<lambda>(t, cs, ks). table_matches (dict_get (ds_tables s) t) cs ks) orm_metadata"
    using all named head_table [OF assms] by (fastforce simp: list_all_iff)
  moreover have "list_all (\<lambda>t. t = ''alembic_version'' \<or> t \<in> set (map fst orm_metadata)) (dict_keys (ds_tables s))"
    by (simp add: head_keys [OF assms] orm_metadata_def granted_at_head_def)
  ultimately show ?thesis by (simp add: models_match_def)
qed

section \<open>Properties\<close>

text \<open>C17: Least privilege at the head revision. The chain of migrations applies without an error to a database that holds
  only Alembic's version table, and then the role the application connects as may log in but is no superuser, does not
  bypass row-level security and creates neither roles nor databases; it reads \<open>users\<close>, \<open>departments\<close> and
  \<open>alembic_version\<close> and writes none of them, it reads and appends to \<open>audit_log\<close> and can neither update nor delete
  there, and it holds all four privileges on every other table.\<close>

theorem runtime_least_privilege:
  "case head_schema password cs of
     Inl e \<Rightarrow> False
   | Inr s \<Rightarrow> runtime_role_at_head password s
       \<and> runtime_grants s =
            [(''alembic_version'', [Select]), (''departments'', [Select]), (''users'', [Select])]
            @ map (\<lambda>t. (t, all_privileges)) [''servers'', ''conversations'', ''messages'', ''llm_usage'', ''documents'',
                 ''chunks'', ''confidential_chunks'', ''ingestion_jobs'']
            @ [(''audit_log'', [Select, Insert])]
            @ map (\<lambda>t. (t, all_privileges)) [''pending_actions'', ''tickets'', ''vpn_profiles'', ''user_memories'']"
  using head_facts [of password cs]
  by (auto simp: head_schema_def upgrade_head_def upgrade_path_migrations granted_at_head_def split: sum.splits)


text \<open>C16: What the knowledge components take for granted about PostgreSQL is what the migrations install. Under the policies
  of the head revision the runtime role reads exactly the document and chunk rows \<open>document_visible\<close> and
  \<open>chunk_visible\<close> admit, and writes them only in an ingestion session; and the constraints accept a table of documents
  exactly when classifications and statuses are known, ids and versions are unique and no document has two active
  versions, and a chunk table exactly when its classifications belong there and its keys are unique.\<close>

theorem policies_implement_visibility:
  "case head_schema password cs of
     Inl e \<Rightarrow> False
   | Inr s \<Rightarrow> row_readable s ROLE ses ''documents'' (document_tuple d) = document_visible ses d
       \<and> row_readable s ROLE ses (chunk_table_name t) (chunk_tuple c) = chunk_visible ses t c
       \<and> list_all (\<lambda>how. row_writable s ROLE ses ''documents'' how (document_tuple d) = rls_ingest ses
              \<and> row_writable s ROLE ses (chunk_table_name t) how (chunk_tuple c) = rls_ingest ses) [Insert, Update, Delete]
       \<and> table_accepts s ses ''documents'' (map document_tuple ds)
           = (list_all (\<lambda>d. d_classification d \<in> set classifications \<and> d_status d \<in> set statuses) ds
              \<and> distinct (map d_id ds) \<and> version_unique ds \<and> one_active ds)
       \<and> table_accepts s ses (chunk_table_name t) (map chunk_tuple rows)
           = (list_all (\<lambda>c. classification_check t (c_classification c)) rows \<and> chunk_keys_distinct rows)"
proof (cases "head_schema password cs")
  case (Inl e)
  with head_succeeds [of password cs] show ?thesis by simp
next
  case (Inr s)
  show ?thesis
    by (simp add: Inr document_readable [OF Inr] chunk_readable [OF Inr] document_writable [OF Inr] chunk_writable [OF Inr]
        all_privileges_def documents_accepted [OF Inr] chunks_accepted [OF Inr])
qed

end
