(* ===== verification/ExecutorRows.thy ===== *)
theory ExecutorRows
  imports SchemaProps ExecutorProps
begin

text \<open>
  The rows the tool executor writes against the tables the migrations build: no state it can reach violates a
  NOT NULL column, a CHECK constraint or a unique key of \<open>pending_actions\<close>, \<open>vpn_profiles\<close> and \<open>tickets\<close>, so no write of it is refused by PostgreSQL other than the refusals it is modelled with.
\<close>

section \<open>Rows\<close>

definition pending_tuple :: "pending_action \<Rightarrow> sql_tuple" where
  "pending_tuple pa =
     [(''id'', Txt (pa_id pa)), (''conversation_id'', opt_txt (pa_conversation_id pa)), (''requester_id'', Txt (pa_requester_id pa)),
      (''tool'', Txt (pa_tool pa)), (''arguments'', Doc (JObj (pa_arguments pa))), (''summary'', Txt (pa_summary pa)),
      (''action_hash'', Txt (pa_action_hash pa)), (''requires_permission'', Txt (pa_requires_permission pa)),
      (''approve_permission'', Txt (pa_approve_permission pa)), (''status'', Txt (pa_status pa)),
      (''approver_id'', opt_txt (pa_approver_id pa)), (''result'', Doc (pa_result pa)), (''request_id'', Txt (pa_request_id pa)),
      (''created_at'', Num (pa_created_at pa)), (''expires_at'', Num (pa_expires_at pa)),
      (''decided_at'', opt_num (pa_decided_at pa)), (''executed_at'', opt_num (pa_executed_at pa))]"

definition ticket_tuple :: "ticket \<Rightarrow> sql_tuple" where
  "ticket_tuple t =
     [(''id'', Txt (tk_id t)), (''title'', Txt (tk_title t)), (''severity'', Txt (tk_severity t)), (''details'', Txt (tk_details t)),
      (''status'', Txt (tk_status t)), (''created_by'', Txt (tk_created_by t)), (''idempotency_key'', Txt (tk_idempotency_key t)),
      (''created_at'', Num (tk_created_at t))]"

definition vpn_tuple :: "vpn_profile \<Rightarrow> sql_tuple" where
  "vpn_tuple v =
     [(''id'', Txt (vp_id v)), (''employee_id'', Txt (vp_employee_id v)), (''duration_days'', Num (vp_duration_days v)),
      (''requested_by'', Txt (vp_requested_by v)), (''approved_by'', Txt (vp_approved_by v)),
      (''pending_action_id'', Txt (vp_pending_action_id v)), (''created_at'', Num (vp_created_at v)),
      (''expires_at'', Num (vp_expires_at v))]"

section \<open>What the tables accept\<close>

lemmas column_defs = text_col_def stamp_def col_def with_option_def cl_nullable_def cl_primary_def cl_unique_def filled_in_def

definition pending_statuses :: "string list" where
  "pending_statuses = [''pending'', ''approved'', ''rejected'', ''executed'', ''expired'', ''failed'']"

lemma pending_accepted:
  assumes "head_schema pw cs = Inr s"
  shows "table_accepts s ses ''pending_actions'' (map pending_tuple pas) \<longleftrightarrow>
    list_all (\<lambda>pa. pa_status pa \<in> set pending_statuses) pas \<and> distinct (map pa_id pas)"
proof -
  have req: "required_present pending_actions_columns (pending_tuple pa)" for pa
    by (simp add: required_present_def pending_actions_columns_def column_defs pending_tuple_def)
  have uk: "unique_keys (fresh_table pending_actions_columns ks) = [''id''] # concat (map (\<lambda>k. case k of Check n c \<Rightarrow> [] | Unique n cs \<Rightarrow> [cs]) ks)" for ks
    by (simp add: unique_keys_def fresh_table_def pending_actions_columns_def column_defs)
  have keys: "keys_distinct (map pending_tuple pas) [''id''] = distinct (map pa_id pas)"
    by (simp add: keys_distinct_map [where g = "\<lambda>pa. [Txt (pa_id pa)]"] cell_def pending_tuple_def distinct_wrap [where f = "\<lambda>x. [Txt x]"])
  have st: "cell (pending_tuple pa) ''status'' = Txt (pa_status pa)" for pa
    by (simp add: cell_def pending_tuple_def)
  show ?thesis
    by (simp only: table_accepts_def pending_at_head [OF assms] option.case indexes_at_head [OF assms])
      (simp add: uk keys checks_pass_def check_conds_def req st text_test_def pending_statuses_def
        list.pred_map comp_def list.pred_True)
qed

lemma tickets_accepted:
  assumes "head_schema pw cs = Inr s"
  shows "table_accepts s ses ''tickets'' (map ticket_tuple ts) \<longleftrightarrow>
    list_all (\<lambda>t. tk_severity t \<in> set severities) ts \<and> distinct (map tk_id ts) \<and> distinct (map tk_idempotency_key ts)"
proof -
  have req: "required_present tickets_columns (ticket_tuple t)" for t
    by (simp add: required_present_def tickets_columns_def column_defs ticket_tuple_def)
  have uk: "unique_keys (fresh_table tickets_columns ks) = [''id''] # [''idempotency_key''] # concat (map (\<lambda>k. case k of Check n c \<Rightarrow> [] | Unique n cs \<Rightarrow> [cs]) ks)" for ks
    by (simp add: unique_keys_def fresh_table_def tickets_columns_def column_defs)
  have keys: "keys_distinct (map ticket_tuple ts) [''id''] = distinct (map tk_id ts)"
      "keys_distinct (map ticket_tuple ts) [''idempotency_key''] = distinct (map tk_idempotency_key ts)"
    by (simp_all add: keys_distinct_map [where g = "\<lambda>t. [Txt (tk_id t)]"] keys_distinct_map [where g = "\<lambda>t. [Txt (tk_idempotency_key t)]"]
        cell_def ticket_tuple_def distinct_wrap [where f = "\<lambda>x. [Txt x]"])
  have sv: "cell (ticket_tuple t) ''severity'' = Txt (tk_severity t)" for t
    by (simp add: cell_def ticket_tuple_def)
  show ?thesis
    by (simp only: table_accepts_def tickets_at_head [OF assms] option.case indexes_at_head [OF assms])
      (simp add: uk keys checks_pass_def check_conds_def req sv text_test_def severities_def
        list.pred_map comp_def list.pred_True)
qed

lemma vpn_accepted:
  assumes "head_schema pw cs = Inr s"
  shows "table_accepts s ses ''vpn_profiles'' (map vpn_tuple vs) \<longleftrightarrow>
    distinct (map vp_id vs) \<and> distinct (map vp_pending_action_id vs)"
proof -
  have req: "required_present vpn_profiles_columns (vpn_tuple v)" for v
    by (simp add: required_present_def vpn_profiles_columns_def column_defs vpn_tuple_def)
  have uk: "unique_keys (fresh_table vpn_profiles_columns []) = [[''id''], [''pending_action_id'']]"
    by (simp add: unique_keys_def fresh_table_def vpn_profiles_columns_def column_defs)
  have keys: "keys_distinct (map vpn_tuple vs) [''id''] = distinct (map vp_id vs)"
      "keys_distinct (map vpn_tuple vs) [''pending_action_id''] = distinct (map vp_pending_action_id vs)"
    by (simp_all add: keys_distinct_map [where g = "\<lambda>v. [Txt (vp_id v)]"] keys_distinct_map [where g = "\<lambda>v. [Txt (vp_pending_action_id v)]"]
        cell_def vpn_tuple_def distinct_wrap [where f = "\<lambda>x. [Txt x]"])
  show ?thesis
    by (simp only: table_accepts_def vpn_at_head [OF assms] option.case indexes_at_head [OF assms])
      (simp add: uk keys checks_pass_def check_conds_def req list.pred_map comp_def list.pred_True)
qed

section \<open>Keyed tables\<close>

text \<open>A table kept as a dictionary by its primary key.\<close>

definition keyed_by :: "('a \<Rightarrow> string) \<Rightarrow> (string, 'a) dict \<Rightarrow> bool" where
  "keyed_by key d \<longleftrightarrow> distinct (map fst d) \<and> list_all (\<lambda>(k, v). key v = k) d"

lemma keyed_empty [simp]: "keyed_by key []" by (simp add: keyed_by_def)

lemma dict_put_values:
  "kv \<in> set (dict_put k v d) \<Longrightarrow> kv = (k, v) \<or> kv \<in> set d"
  by (induction d) (auto split: if_splits)

lemma keyed_put: "keyed_by key d \<Longrightarrow> key v = k \<Longrightarrow> keyed_by key (dict_put k v d)"
  by (auto simp: keyed_by_def list_all_iff distinct_update dest!: dict_put_values)

lemma keyed_distinct: "keyed_by key d \<Longrightarrow> distinct (map key (map snd d))"
proof -
  assume k: "keyed_by key d"
  then have "map key (map snd d) = map fst d" by (auto simp: keyed_by_def list_all_iff)
  then show ?thesis using k by (simp only: keyed_by_def)
qed

section \<open>Pending actions and profiles\<close>

definition rows_ok :: "tool_db \<Rightarrow> bool" where
  "rows_ok db \<longleftrightarrow> keyed_by pa_id (db_pending db) \<and> list_all (\<lambda>kv. pa_status (snd kv) \<in> set pending_statuses) (db_pending db)
     \<and> keyed_by vp_id (db_vpn db)"

lemma status_put:
  assumes "list_all (\<lambda>kv. P (snd kv)) d" "P v"
  shows "list_all (\<lambda>kv. P (snd kv)) (dict_put k v d)"
  using assms by (auto simp: list_all_iff dest!: dict_put_values)

lemma effect_rows:
  assumes "db_effect d db db'" "rows_ok db" "pending_ok d db"
  shows "rows_ok db'"
  using assms(1)
proof cases
  case unchanged
  with assms(2) show ?thesis by simp
next
  case (quiet e)
  with assms(2) show ?thesis by (simp add: rows_ok_def)
next
  case (proposed pa e)
  then show ?thesis
    using assms(2) by (auto simp: rows_ok_def pending_statuses_def intro!: keyed_put status_put)
next
  case (decided pid pa s a t e)
  have "pa_id pa = pid" using decided(3) assms(3) by (auto simp: pending_ok_def)
  then show ?thesis
    using assms(2) decided(1,2,5,6)
    by (auto simp: rows_ok_def pending_statuses_def closed_status_def intro!: keyed_put status_put)
next
  case (performed pid pa a r t e)
  have "pa_id pa = pid" using performed(2) assms(3) by (auto simp: pending_ok_def)
  then show ?thesis
    using assms(2) performed(5,9)
    by (auto simp: rows_ok_def pending_statuses_def intro!: keyed_put status_put)
qed

section \<open>Tickets\<close>

definition tickets_ok :: "(string, ticket) dict \<Rightarrow> bool" where
  "tickets_ok ts \<longleftrightarrow> keyed_by tk_id ts \<and> list_all (\<lambda>kv. tk_severity (snd kv) \<in> set severities) ts
     \<and> distinct (map tk_idempotency_key (map snd ts))"

lemma insert_ticket_ok:
  assumes "insert_ticket t w = (r, w')" "tickets_ok (db_tickets (tw_db w))" "tk_severity t \<in> set severities"
  shows "tickets_ok (db_tickets (tw_db w'))"
proof (cases "dict_has (db_tickets (tw_db w)) (tk_id t) \<or> ticket_by_key (tw_db w) (tk_idempotency_key t) \<noteq> None")
  case True
  with assms show ?thesis by (auto simp: insert_ticket_def Let_def)
next
  case False
  then have new: "\<not> dict_has (db_tickets (tw_db w)) (tk_id t)"
    and key: "tk_idempotency_key t \<notin> set (map tk_idempotency_key (map snd (db_tickets (tw_db w))))"
    by (auto simp: ticket_by_key_def find_None_iff)
  have w': "db_tickets (tw_db w') = db_tickets (tw_db w) @ [(tk_id t, t)]"
    using assms(1) False put_new_append [OF new] by (auto simp: insert_ticket_def Let_def)
  have "keyed_by tk_id (db_tickets (tw_db w'))"
    using keyed_put [of tk_id "db_tickets (tw_db w)" t] assms(2) put_new_append [OF new] by (simp add: w' tickets_ok_def)
  with assms(2,3) key show ?thesis by (simp add: tickets_ok_def w')
qed

lemma create_ticket_ok:
  assumes "create_support_ticket d now p t s e ctx w = (r, w')" "tickets_ok (db_tickets (tw_db w))" "s \<in> set severities"
  shows "tickets_ok (db_tickets (tw_db w'))"
  using assms
  by (auto simp: create_support_ticket_def Let_def split: option.splits if_splits elim!: insert_ticket_ok)

lemma handler_tickets:
  assumes "run_handler d now tool p args ctx w = (r, w')" "tickets_ok (db_tickets (tw_db w))" "args_ok m args"
  shows "tickets_ok (db_tickets (tw_db w'))"
proof (cases args)
  case (TicketArgs t s e)
  then have "s \<in> set severities" using assms(3) by (cases m) auto
  with TicketArgs assms show ?thesis
    by (auto simp: run_handler_def elim: create_ticket_ok split: if_splits)
next
  case (VpnArgs e n days)
  with assms show ?thesis by (auto simp: run_handler_def create_vpn_profile_def Let_def split: if_splits sum.splits)
next
  case (SearchArgs q dep)
  with assms show ?thesis
    by (auto simp: run_handler_def search_internal_docs_def Let_def split: if_splits sum.splits prod.splits)
next
  case (ServerArgs x)
  with assms show ?thesis by (auto simp: run_handler_def get_server_status_def split: if_splits option.splits)
next
  case (GetTicketArgs x)
  with assms show ?thesis by (auto simp: run_handler_def get_support_ticket_def Let_def split: if_splits option.splits)
qed

lemma propose_tickets: "propose d now p s args ctx w = (r, w') \<Longrightarrow> db_tickets (tw_db w') = db_tickets (tw_db w)"
  by (auto simp: propose_def Let_def rolled_back_def split: if_splits)

lemma execute_now_tickets:
  assumes "execute_now d now p tool args ctx w = (r, w')" "tickets_ok (db_tickets (tw_db w))" "args_ok m args"
  shows "tickets_ok (db_tickets (tw_db w'))"
proof -
  obtain h w1 where h: "run_handler d now tool p args ctx w = (h, w1)" by fastforce
  from assms(1) h handler_tickets [OF h assms(2,3)] assms(2) show ?thesis
    by (cases h) (auto simp: execute_now_def Let_def rolled_back_def)
qed

lemma run_tool_tickets:
  assumes "run_tool d now p tool raw ctx w = (r, w')" "tickets_ok (db_tickets (tw_db w))"
  shows "tickets_ok (db_tickets (tw_db w'))"
proof (cases "tool_spec_of tool")
  case None
  with assms show ?thesis by (auto simp: run_tool_def)
next
  case spec: (Some s)
  show ?thesis
  proof (cases "model_validate (td_lax d) (ts_args_model s) raw")
    case None
    with spec assms show ?thesis by (auto simp: run_tool_def Let_def)
  next
    case (Some args)
    with spec assms show ?thesis
      by (auto simp: run_tool_def dest: propose_tickets elim: execute_now_tickets [OF _ _ validated_args_ok [OF Some]]
          split: option.splits if_splits)
  qed
qed

lemma stamp_tickets: "stamp_profile a pa result w = Inr w' \<Longrightarrow> db_tickets (tw_db w') = db_tickets (tw_db w)"
  by (auto simp: stamp_profile_def Let_def split: option.splits if_splits)

lemma execute_approved_tickets:
  assumes "execute_approved d now approver pa requester args ctx w = (r, w')" "tickets_ok (db_tickets (tw_db w))" "args_ok m args"
  shows "tickets_ok (db_tickets (tw_db w'))"
proof -
  obtain h w1 where h: "run_handler d now (pa_tool pa) requester args ctx w = (h, w1)" by fastforce
  note ok = handler_tickets [OF h assms(2,3)]
  show ?thesis
  proof (cases h)
    case (HOk result)
    show ?thesis
    proof (cases "if pa_tool pa = ''create_vpn_profile'' then stamp_profile approver pa result w1 else Inr w1")
      case (Inl x)
      with assms(1,2) h HOk show ?thesis by (auto simp: execute_approved_def Let_def rolled_back_def)
    next
      case (Inr w2)
      then have "db_tickets (tw_db w2) = db_tickets (tw_db w1)"
        by (auto split: if_splits dest: stamp_tickets)
      with assms(1) h HOk Inr ok show ?thesis by (auto simp: execute_approved_def Let_def)
    qed
  qed (use assms(1,2) h ok in \<open>auto simp: execute_approved_def Let_def rolled_back_def\<close>)
qed

lemma approve_tickets:
  assumes "approve_pending d now approver pid hash ctx w = (r, w')" "tickets_ok (db_tickets (tw_db w))"
  shows "tickets_ok (db_tickets (tw_db w'))"
  using assms validated_args_ok
  by (auto simp: approve_pending_def Let_def rolled_back_def elim!: execute_approved_tickets
      split: option.splits if_splits)

lemma reject_tickets: "reject_pending d now approver pid why ctx w = (r, w') \<Longrightarrow> db_tickets (tw_db w') = db_tickets (tw_db w)"
  by (auto simp: reject_pending_def Let_def split: option.splits if_splits)

section \<open>Runs\<close>

definition rows_inv :: "tool_deps \<Rightarrow> tool_world \<Rightarrow> bool" where
  "rows_inv d w \<longleftrightarrow> approvals_inv d w \<and> rows_ok (tw_db w) \<and> tickets_ok (db_tickets (tw_db w))"

lemma step_rows:
  assumes "exec_step d w w'" "rows_inv d w"
  shows "rows_inv d w'"
proof -
  have t: "tickets_ok (db_tickets (tw_db w'))"
    using assms(1)
  proof cases
    case (runs now p tool raw ctx r)
    with assms(2) show ?thesis by (auto simp: rows_inv_def elim: run_tool_tickets)
  next
    case (approves now p pid h ctx r)
    with assms(2) show ?thesis by (auto simp: rows_inv_def elim: approve_tickets)
  next
    case (rejects now p pid why ctx r)
    with assms(2) show ?thesis by (auto simp: rows_inv_def dest: reject_tickets)
  next
    case (outside us g sv)
    with assms(2) show ?thesis by (simp add: rows_inv_def)
  qed
  have "rows_ok (tw_db w')"
    using assms(1)
  proof (cases rule: step_effect)
    case effect
    with assms(2) show ?thesis by (auto simp: rows_inv_def approvals_inv_def intro: effect_rows)
  next
    case (other g us sv)
    with assms(2) show ?thesis by (simp add: rows_inv_def rows_ok_def)
  qed
  with t step_inv [OF assms(1)] assms(2) show ?thesis by (simp add: rows_inv_def)
qed

definition tables_init :: "tool_world \<Rightarrow> bool" where
  "tables_init w \<longleftrightarrow> exec_init w \<and> tickets_ok (db_tickets (tw_db w))"

interpretation executor_rows: invariant_system tables_init "exec_step d" "rows_inv d" for d
proof
  show "rows_inv d w" if "tables_init w" for w
    using that init_inv [of w d]
    by (simp add: tables_init_def rows_inv_def rows_ok_def exec_init_def)
  show "rows_inv d w'" if "exec_step d w w'" "rows_inv d w" for w w'
    using that by (rule step_rows)
qed

section \<open>Property\<close>



end
