(* ===== verification/Consistency.thy ===== *)
theory Consistency
  imports SchemaFacts
begin

text \<open>
  Consistent catalogues: references, indexes and privileges name what exists. Every statement of an \<open>upgrade\<close> keeps a
  catalogue consistent, and what creating a table and the statements about it add is what dropping it removes.
\<close>

section \<open>Consistent catalogues\<close>

definition references_held :: "db_schema \<Rightarrow> bool" where
  "references_held s \<longleftrightarrow> list_all (\<lambda>(t, tb). list_all (\<lambda>(u, k). dict_has (ds_tables s) u) (references (tb_columns tb))) (ds_tables s)"

definition role_consistent :: "db_schema \<Rightarrow> db_role \<Rightarrow> bool" where
  "role_consistent s rl \<longleftrightarrow> list_all (dict_has (ds_tables s)) (dict_keys (rl_tables rl))
     \<and> list_all (dict_has (ds_sequences s)) (rl_sequences rl)"

definition wf_schema :: "db_schema \<Rightarrow> bool" where
  "wf_schema s \<longleftrightarrow> distinct (dict_keys (ds_tables s)) \<and> references_held s
     \<and> list_all (\<lambda>(n, i). list_all (has_column s (ix_table i)) (ix_columns i) \<and> dict_has (ds_tables s) (ix_table i)) (ds_indexes s)
     \<and> distinct (dict_keys (ds_indexes s)) \<and> list_all (\<lambda>(n, rl). role_consistent s rl) (ds_roles s)"

lemma wf_references: "wf_schema s \<Longrightarrow> (t, tb) \<in> set (ds_tables s) \<Longrightarrow> (u, k) \<in> set (references (tb_columns tb)) \<Longrightarrow> dict_has (ds_tables s) u"
  by (auto simp: wf_schema_def references_held_def list_all_iff)

lemma wf_index: "wf_schema s \<Longrightarrow> (n, i) \<in> set (ds_indexes s) \<Longrightarrow> c \<in> set (ix_columns i) \<Longrightarrow> has_column s (ix_table i) c"
  by (auto simp: wf_schema_def list_all_iff)

lemma wf_index_table: "wf_schema s \<Longrightarrow> (n, i) \<in> set (ds_indexes s) \<Longrightarrow> dict_has (ds_tables s) (ix_table i)"
  by (auto simp: wf_schema_def list_all_iff)

lemma wf_role: "wf_schema s \<Longrightarrow> (n, rl) \<in> set (ds_roles s) \<Longrightarrow> role_consistent s rl"
  by (auto simp: wf_schema_def list_all_iff)

lemma drop_key_absent: "\<not> dict_has d k \<Longrightarrow> drop_key k d = d"
  unfolding drop_key_def dict_has_iff dict_keys_def by (auto simp: filter_id_conv)

lemma drop_key_append [simp]: "drop_key k (d @ e) = drop_key k d @ drop_key k e"
  by (simp add: drop_key_def)

lemma put_absent: "\<not> dict_has d k \<Longrightarrow> dict_put k v d = d @ [(k, v)]"
  by (induction d) (auto simp: dict_has_def split: if_splits)

lemma put_back: "dict_get d k = Some v \<Longrightarrow> dict_put k v (dict_put k w d) = d"
  by (induction d) (auto split: if_splits)

lemma put_twice [simp]: "dict_put k v (dict_put k w d) = dict_put k v d"
  by (induction d) auto

lemma put_commute: "k \<noteq> j \<Longrightarrow> dict_has d k \<Longrightarrow> dict_put k v (dict_put j w d) = dict_put j w (dict_put k v d)"
  by (induction d) (auto simp: dict_has_def split: if_splits)

lemma put_same: "dict_get d k = Some v \<Longrightarrow> dict_put k v d = d"
  by (induction d) (auto split: if_splits)

lemma has_put [simp]: "dict_has (dict_put k v d) j \<longleftrightarrow> j = k \<or> dict_has d j"
  by (simp add: dict_has_def)

lemma run_append: "run_ddl (xs @ ys) s = bind_result (run_ddl xs s) (run_ddl ys)"
  by (induction xs arbitrary: s) (auto split: sum.splits simp: bind_result_Inr, metis bind_result.simps sumE)

section \<open>A table and what belongs to it\<close>

definition extends :: "string \<Rightarrow> db_schema \<Rightarrow> db_schema \<Rightarrow> bool" where
  "extends t s s' \<longleftrightarrow>
     (\<exists>tb. ds_tables s' = ds_tables s @ [(t, tb)]) \<and> \<not> dict_has (ds_tables s) t
     \<and> filter (\<lambda>(n, i). ix_table i \<noteq> t) (ds_indexes s') = ds_indexes s \<and> distinct (dict_keys (ds_indexes s'))
     \<and> ds_extensions s' = ds_extensions s \<and> ds_sequences s' = ds_sequences s
     \<and> map (\<lambda>(n, rl). (n, set_privileges t [] rl)) (ds_roles s') = ds_roles s"

lemma drop_extends:
  assumes "extends t s s'" "wf_schema s"
  shows "apply_ddl (DropTable t) s' = Inr s"
proof -
  obtain tb where tb: "ds_tables s' = ds_tables s @ [(t, tb)]" and new: "\<not> dict_has (ds_tables s) t"
    using assms(1) by (auto simp: extends_def)
  have "\<not> referenced_by_other s' t"
    using wf_references [OF assms(2)] new by (fastforce simp: referenced_by_other_def tb list_ex_iff)
  moreover have "dict_has (ds_tables s') t"
    by (simp add: tb dict_has_iff dict_keys_def)
  moreover have "drop_key t (ds_tables s') = ds_tables s"
    using new by (simp add: tb drop_key_absent) (simp add: drop_key_def)
  ultimately show ?thesis
    using assms(1) by (simp add: extends_def on_roles_def)
qed

lemma create_extends:
  assumes "apply_ddl (CreateTable t cs ks) s = Inr s'" "wf_schema s"
  shows "extends t s s'"
proof -
  have new: "\<not> dict_has (ds_tables s) t"
    and s': "s' = on_roles (with_defaults t) (s\<lparr>ds_tables := ds_tables s @ [(t, fresh_table cs ks)]\<rparr>)"
    using assms(1) by (auto simp: fresh_table_def split: if_splits)
  have "filter (\<lambda>(n, i). ix_table i \<noteq> t) (ds_indexes s) = ds_indexes s"
    using wf_index_table [OF assms(2)] new by (auto simp: filter_id_conv)
  moreover have "set_privileges t [] (with_defaults t rl) = rl" if "(n, rl) \<in> set (ds_roles s)" for n rl
  proof -
    have "\<not> dict_has (rl_tables rl) t"
      using wf_role [OF assms(2) that] new by (auto simp: role_consistent_def list_all_iff dict_has_iff [of "rl_tables rl"])
    then show ?thesis
      by (simp add: with_defaults_def set_privileges_def drop_key_absent put_absent) (simp add: drop_key_def)
  qed
  then have "map (\<lambda>(n, rl). (n, set_privileges t [] (with_defaults t rl))) (ds_roles s) = ds_roles s"
    by (auto intro!: map_idI)
  ultimately show ?thesis
    using new assms(2) by (auto simp: extends_def s' on_roles_def wf_schema_def comp_def split_def)
qed

text \<open>Statements about one table.\<close>

fun local_to :: "string \<Rightarrow> ddl \<Rightarrow> bool" where
  "local_to t (CreateIndex n i) \<longleftrightarrow> ix_table i = t"
| "local_to t (EnableRls u) \<longleftrightarrow> u = t"
| "local_to t (ForceRls u) \<longleftrightarrow> u = t"
| "local_to t (CreatePolicy u p) \<longleftrightarrow> u = t"
| "local_to t (RevokeTables ps g r) \<longleftrightarrow> g = Tables [t]"
| "local_to t x \<longleftrightarrow> False"

lemma put_last: "\<not> dict_has d t \<Longrightarrow> dict_put t v (d @ [(t, w)]) = d @ [(t, v)]"
  by (induction d) (auto simp: dict_has_def split: if_splits)

lemma on_table_extends:
  assumes "on_table t f s1 = Inr s2" "extends t s s1"
  shows "extends t s s2"
  using assms by (auto simp: on_table_Inr extends_def put_last)

lemma revoke_clears: "set_privileges t [] (revoke_on ps t rl) = set_privileges t [] rl"
proof -
  have "drop_key t (dict_put t v d) = drop_key t d" for v and d :: "(string, privilege list) dict"
    by (induction d) (auto simp: drop_key_def)
  moreover have "drop_key t (drop_key t d) = drop_key t d" for d :: "(string, privilege list) dict"
    by (simp add: drop_key_def)
  ultimately show ?thesis by (simp add: set_privileges_def revoke_on_def)
qed

lemma map_put_role:
  assumes "dict_get d r = Some rl" "f rl' = f rl"
  shows "map (\<lambda>(n, x). (n, f x)) (dict_put r rl' d) = map (\<lambda>(n, x). (n, f x)) d"
  using assms by (induction d) (auto split: if_splits)

lemma local_extends:
  assumes "local_to t x" "apply_ddl x s1 = Inr s2" "extends t s s1"
  shows "extends t s s2"
  using assms
proof (cases x)
  case (CreateIndex n i)
  with assms show ?thesis
    by (auto simp: extends_def dict_has_iff dict_keys_def split: if_splits)
next
  case (RevokeTables ps g r)
  with assms(1) have g: "g = Tables [t]" by simp
  with RevokeTables assms(2) obtain rl where rl: "dict_get (ds_roles s1) r = Some rl"
    and s2: "s2 = s1\<lparr>ds_roles := dict_put r (revoke_on ps t rl) (ds_roles s1)\<rparr>"
    by (auto simp: targets_def on_role_Inr split: if_splits)
  have "map (\<lambda>(n, rl). (n, set_privileges t [] rl)) (ds_roles s2) = map (\<lambda>(n, rl). (n, set_privileges t [] rl)) (ds_roles s1)"
    using map_put_role [OF rl, where f = "set_privileges t []", OF revoke_clears] by (simp add: s2)
  with assms(3) show ?thesis by (simp add: extends_def s2)
qed (auto elim: on_table_extends)

lemma locals_extend:
  assumes "list_all (local_to t) xs" "run_ddl xs s1 = Inr s2" "extends t s s1"
  shows "extends t s s2"
  using assms
proof (induction xs arbitrary: s1)
  case (Cons x xs)
  then show ?case using local_extends by (fastforce simp: bind_result_Inr)
qed simp

section \<open>Consistency is kept\<close>

fun constructive :: "ddl \<Rightarrow> bool" where
  "constructive (DropTable t) \<longleftrightarrow> False"
| "constructive (DropColumn t c) \<longleftrightarrow> False"
| "constructive (DropIndex n t) \<longleftrightarrow> False"
| "constructive (DropSequence q) \<longleftrightarrow> False"
| "constructive (DropRole r) \<longleftrightarrow> False"
| "constructive x \<longleftrightarrow> True"

lemma column_names_append [simp]: "column_names (xs @ ys) = column_names xs @ column_names ys"
  by (simp add: column_names_def)

lemma references_append [simp]: "references (xs @ ys) = references xs @ references ys"
  by (simp add: references_def)

lemma table_grows:
  assumes "apply_ddl x s = Inr s'" "constructive x" "dict_get (ds_tables s) t = Some b"
  obtains b' where "dict_get (ds_tables s') t = Some b'"
    "set (column_names (tb_columns b)) \<subseteq> set (column_names (tb_columns b'))"
proof (cases "\<exists>cs ks. x = CreateTable t cs ks")
  case True
  with assms show ?thesis by (auto simp: dict_has_def split: if_splits)
next
  case False
  then have "\<exists>b'. table_op t x (Some b) = Some b' \<and> set (column_names (tb_columns b)) \<subseteq> set (column_names (tb_columns b'))"
    using assms(2) by (cases x) auto
  with table_frame [OF assms(1), of t] assms(3) that show ?thesis by auto
qed

lemma catalogue_grows:
  assumes "apply_ddl x s = Inr s'" "constructive x"
  shows "dict_has (ds_tables s) t \<Longrightarrow> dict_has (ds_tables s') t" "has_column s t c \<Longrightarrow> has_column s' t c"
proof -
  show "dict_has (ds_tables s') t" if "dict_has (ds_tables s) t"
  proof -
    from that obtain b where "dict_get (ds_tables s) t = Some b" by (auto simp: dict_has_def)
    then obtain b' where "dict_get (ds_tables s') t = Some b'" by (rule table_grows [OF assms])
    then show ?thesis by (simp add: dict_has_def)
  qed
  show "has_column s' t c" if "has_column s t c"
  proof -
    from that obtain b where b: "dict_get (ds_tables s) t = Some b" "c \<in> set (column_names (tb_columns b))"
      by (auto simp: has_column_def split: option.splits)
    obtain b' where "dict_get (ds_tables s') t = Some b'"
      "set (column_names (tb_columns b)) \<subseteq> set (column_names (tb_columns b'))"
      by (rule table_grows [OF assms b(1)])
    with b(2) show ?thesis by (auto simp: has_column_def)
  qed
qed

lemma has_column_table: "has_column s t c \<Longrightarrow> dict_has (ds_tables s) t"
  by (auto simp: has_column_def dict_has_def split: option.splits)

lemma tables_distinct:
  assumes "apply_ddl x s = Inr s'" "distinct (dict_keys (ds_tables s))"
  shows "distinct (dict_keys (ds_tables s'))"
proof -
  have put: "distinct (dict_keys (dict_put k v d))" if "distinct (dict_keys d)" for k v and d :: "(string, db_table) dict"
    using that by (simp add: dict_keys_def distinct_update)
  have drop: "distinct (dict_keys (drop_key k d))" if "distinct (dict_keys d)" for k and d :: "(string, db_table) dict"
    using that by (simp add: dict_keys_def drop_key_def distinct_map_filter)
  have app: "dict_keys (d @ [(k, v)]) = dict_keys d @ [k]" for d :: "(string, db_table) dict" and k v
    by (simp add: dict_keys_def)
  show ?thesis
    using assms(1)
    by (cases x; insert assms(2))
      (auto simp: on_table_Inr on_role_Inr bind_result_Inr put drop app dict_has_iff split: if_splits option.splits)
qed

lemma references_step:
  assumes "apply_ddl x s = Inr s'" "constructive x" "dict_get (ds_tables s') t = Some tb'" "r \<in> set (references (tb_columns tb'))"
  shows "(\<exists>tb. dict_get (ds_tables s) t = Some tb \<and> r \<in> set (references (tb_columns tb))) \<or> (\<exists>k. has_column s (fst r) k)"
proof -
  have t: "table_op t x (dict_get (ds_tables s) t) = Some tb'"
    using table_frame [OF assms(1), of t] assms(3) by simp
  show ?thesis
  proof (cases x)
    case (CreateTable u cs ks)
    with t assms(1,4) show ?thesis
      by (fastforce simp: references_exist_iff split: if_splits)
  next
    case (AddColumn u c)
    with t assms(1,4) show ?thesis
      by (fastforce simp: references_exist_iff split: if_splits)
  qed (use t assms(2,4) in \<open>auto split: if_splits\<close>)
qed

lemma references_kept:
  assumes "apply_ddl x s = Inr s'" "constructive x" "wf_schema s"
  shows "references_held s'"
proof -
  have d: "distinct (dict_keys (ds_tables s'))"
    using tables_distinct [OF assms(1)] assms(3) by (simp add: wf_schema_def)
  have "dict_has (ds_tables s') u" if "(t, tb') \<in> set (ds_tables s')" "(u, k) \<in> set (references (tb_columns tb'))" for t tb' u k
  proof -
    have "dict_get (ds_tables s') t = Some tb'"
      using d that(1) by (simp add: dict_keys_def)
    from references_step [OF assms(1,2) this that(2)] show ?thesis
      using wf_references [OF assms(3)] catalogue_grows(1) [OF assms(1,2)] has_column_table by (fastforce dest: map_of_SomeD)
  qed
  then show ?thesis by (auto simp: references_held_def list_all_iff)
qed

lemma indexes_kept:
  assumes "apply_ddl x s = Inr s'" "constructive x" "wf_schema s"
  shows "list_all (\<lambda>(n, i). list_all (has_column s' (ix_table i)) (ix_columns i) \<and> dict_has (ds_tables s') (ix_table i)) (ds_indexes s')
    \<and> distinct (dict_keys (ds_indexes s'))"
proof -
  have old: "list_all (has_column s' (ix_table i)) (ix_columns i) \<and> dict_has (ds_tables s') (ix_table i)" if "(n, i) \<in> set (ds_indexes s)" for n i
    using wf_index [OF assms(3) that] wf_index_table [OF assms(3) that] catalogue_grows [OF assms(1,2)] by (auto simp: list_all_iff)
  show ?thesis
  proof (cases "\<exists>n i. x = CreateIndex n i")
    case True
    then obtain n i where x: "x = CreateIndex n i" by blast
    with assms(1) have s': "s' = s\<lparr>ds_indexes := ds_indexes s @ [(n, i)]\<rparr>" and n: "\<not> dict_has (ds_indexes s) n"
      and c: "list_all (has_column s (ix_table i)) (ix_columns i)" "dict_has (ds_tables s) (ix_table i)"
      by (auto split: if_splits)
    have "has_column s' = has_column s" by (simp add: s' has_column_def fun_eq_iff)
    with old c n assms(3) show ?thesis
      by (auto simp: s' list_all_iff wf_schema_def dict_has_iff dict_keys_def)
  next
    case False
    then have "ds_indexes s' = ds_indexes s"
      using index_frame [OF assms(1)] assms(2) by (cases x) auto
    with old assms(3) show ?thesis by (auto simp: list_all_iff wf_schema_def)
  qed
qed

section \<open>Roles\<close>

lemma sequences_grow:
  assumes "apply_ddl x s = Inr s'" "constructive x" "dict_has (ds_sequences s) q"
  shows "dict_has (ds_sequences s') q"
  using assms
  by (cases x) (auto simp: on_table_Inr on_role_Inr bind_result_Inr dict_has_iff dict_keys_def split: if_splits option.splits)

definition role_within :: "string set \<Rightarrow> string set \<Rightarrow> db_role \<Rightarrow> bool" where
  "role_within T Q rl \<longleftrightarrow> set (dict_keys (rl_tables rl)) \<subseteq> T \<and> set (rl_sequences rl) \<subseteq> Q"

lemma role_consistent_within:
  "role_consistent s rl = role_within (set (dict_keys (ds_tables s))) (set (dict_keys (ds_sequences s))) rl"
  by (auto simp: role_consistent_def role_within_def list_all_iff dict_has_iff)

lemma put_keys: "set (dict_keys (dict_put k v d)) = insert k (set (dict_keys d))"
  by (induction d) (auto simp: dict_keys_def)

lemma set_privileges_within: "role_within T Q rl \<Longrightarrow> t \<in> T \<Longrightarrow> role_within T Q (set_privileges t ps rl)"
  using put_keys [of t ps "rl_tables rl"]
  by (auto simp: role_within_def set_privileges_def) (auto simp: dict_keys_def drop_key_def)

lemma fold_grants_within:
  assumes "\<And>t rl. t \<in> T \<Longrightarrow> role_within T Q rl \<Longrightarrow> role_within T Q (f t rl)"
  shows "set ts \<subseteq> T \<Longrightarrow> role_within T Q rl \<Longrightarrow> role_within T Q (fold f ts rl)"
  using assms by (induction ts arbitrary: rl) auto

lemma role_within_mono: "role_within T Q rl \<Longrightarrow> T \<subseteq> T' \<Longrightarrow> Q \<subseteq> Q' \<Longrightarrow> role_within T' Q' rl"
  by (auto simp: role_within_def)

definition roles_within :: "string set \<Rightarrow> string set \<Rightarrow> (string, db_role) dict \<Rightarrow> bool" where
  "roles_within T Q d \<longleftrightarrow> (\<forall>(n, rl) \<in> set d. role_within T Q rl)"

lemma roles_within_put:
  assumes "roles_within T Q d" "dict_get d r = Some rl" "role_within T Q rl \<Longrightarrow> role_within T Q (f rl)"
  shows "roles_within T Q (dict_put r (f rl) d)"
proof -
  have "role_within T Q rl" using assms(1,2) by (auto simp: roles_within_def dest: map_of_SomeD)
  with assms(3) have f: "role_within T Q (f rl)" by blast
  have "kv = (r, f rl) \<or> kv \<in> set d" if "kv \<in> set (dict_put r (f rl) d)" for kv
    using that by (induction d) (auto split: if_splits)
  with f assms(1) show ?thesis by (auto simp: roles_within_def)
qed

lemma roles_within_mono: "roles_within T Q d \<Longrightarrow> T \<subseteq> T' \<Longrightarrow> Q \<subseteq> Q' \<Longrightarrow> roles_within T' Q' d"
  unfolding roles_within_def by (auto intro: role_within_mono)

lemma roles_within_map:
  assumes "roles_within T Q d" "\<And>rl. role_within T Q rl \<Longrightarrow> role_within T' Q' (f rl)"
  shows "roles_within T' Q' (map (\<lambda>(n, rl). (n, f rl)) d)"
  using assms by (auto simp: roles_within_def)

lemma on_role_within:
  assumes "on_role r f s = Inr s'" "roles_within T Q (ds_roles s)" "\<And>rl. role_within T Q rl \<Longrightarrow> role_within T Q (f rl)"
  shows "roles_within T Q (ds_roles s')"
  using assms roles_within_put by (auto simp: on_role_Inr)

lemma roles_untouched:
  assumes "apply_ddl x s = Inr s'"
    and "case x of CreateExtension e \<Rightarrow> True | AddColumn t c \<Rightarrow> True | CreateIndex n i \<Rightarrow> True | EnableRls t \<Rightarrow> True
      | ForceRls t \<Rightarrow> True | CreatePolicy t p \<Rightarrow> True | _ \<Rightarrow> False"
  shows "ds_roles s' = ds_roles s"
  using assms by (cases x) (auto simp: on_table_Inr split: if_splits)

abbreviation tables_of :: "db_schema \<Rightarrow> string set" where "tables_of s \<equiv> set (dict_keys (ds_tables s))"
abbreviation sequences_of :: "db_schema \<Rightarrow> string set" where "sequences_of s \<equiv> set (dict_keys (ds_sequences s))"

lemma roles_step:
  assumes "apply_ddl x s = Inr s'" "constructive x" "roles_within (tables_of s) (sequences_of s) (ds_roles s)"
  shows "roles_within (tables_of s') (sequences_of s') (ds_roles s')"
proof -
  have T: "tables_of s \<subseteq> tables_of s'" using catalogue_grows(1) [OF assms(1,2)] by (auto simp: dict_has_iff)
  have Q: "sequences_of s \<subseteq> sequences_of s'" using sequences_grow [OF assms(1,2)] by (auto simp: dict_has_iff)
  note up = roles_within_mono [OF _ T Q]
  have same: ?thesis if "ds_roles s' = ds_roles s" using up [OF assms(3)] that by simp
  have one: ?thesis if "on_role r f s = Inr s'" "\<And>rl. role_within (tables_of s) (sequences_of s) rl \<Longrightarrow> role_within (tables_of s) (sequences_of s) (f rl)"
    for r f using up [OF on_role_within [OF that(1) assms(3) that(2)]] .
  show ?thesis
  proof (cases x)
    case (CreateTable t cs ks)
    then have r: "ds_roles s' = map (\<lambda>(n, rl). (n, with_defaults t rl)) (ds_roles s)" and t: "t \<in> tables_of s'"
      using assms(1) by (auto simp: on_roles_def dict_keys_def split: if_splits)
    show ?thesis unfolding r
      by (rule roles_within_map [OF up [OF assms(3)]]) (auto simp: with_defaults_def t intro: set_privileges_within)
  next
    case (CreateSequence q n)
    then have r: "ds_roles s' = map (\<lambda>(n, rl). (n, with_default_sequence q rl)) (ds_roles s)" and q: "q \<in> sequences_of s'"
      using assms(1) by (auto simp: on_roles_def dict_keys_def split: if_splits)
    show ?thesis unfolding r
      by (rule roles_within_map [OF up [OF assms(3)]]) (auto simp: with_default_sequence_def q role_within_def)
  next
    case (EnsureRole name a)
    show ?thesis
    proof (cases "dict_get (ds_roles s) name")
      case None
      with EnsureRole assms(1) have "s' = s\<lparr>ds_roles := ds_roles s @ [(name, fresh_role a)]\<rparr>" by simp
      moreover have "role_within T Q (fresh_role a)" for T Q by (simp add: role_within_def fresh_role_def dict_keys_def)
      ultimately show ?thesis using assms(3) by (auto simp: roles_within_def)
    next
      case (Some rl)
      with EnsureRole assms(1) have "s' = s\<lparr>ds_roles := dict_put name (rl\<lparr>rl_attributes := a\<rparr>) (ds_roles s)\<rparr>" by auto
      with roles_within_put [OF assms(3) Some, of "\<lambda>rl. rl\<lparr>rl_attributes := a\<rparr>"] show ?thesis
        by (simp add: role_within_def)
    qed
  next
    case (GrantTables ps g r)
    then have g: "set (targets s g) \<subseteq> tables_of s" and f: "on_role r (fold (grant_on ps) (targets s g)) s = Inr s'"
      using assms(1) by (auto simp: list_all_iff dict_has_iff split: if_splits)
    show ?thesis
      by (rule one [OF f fold_grants_within [OF _ g]]) (auto simp: grant_on_def intro: set_privileges_within)
  next
    case (RevokeTables ps g r)
    then have g: "set (targets s g) \<subseteq> tables_of s" and f: "on_role r (fold (revoke_on ps) (targets s g)) s = Inr s'"
      using assms(1) by (auto simp: list_all_iff dict_has_iff split: if_splits)
    show ?thesis
      by (rule one [OF f fold_grants_within [OF _ g]]) (auto simp: revoke_on_def intro: set_privileges_within)
  qed (use assms(1,2) same [OF roles_untouched [OF assms(1)]] in \<open>auto simp: role_within_def elim!: one\<close>)
qed

lemma wf_kept:
  assumes "apply_ddl x s = Inr s'" "constructive x" "wf_schema s"
  shows "wf_schema s'"
proof -
  have r: "list_all (\<lambda>(n, rl). role_consistent s rl) (ds_roles s) = roles_within (tables_of s) (sequences_of s) (ds_roles s)" for s
    by (simp add: role_consistent_within roles_within_def list_all_iff)
  show ?thesis
    using tables_distinct [OF assms(1)] references_kept [OF assms] indexes_kept [OF assms] roles_step [OF assms(1,2)] assms(3)
    unfolding wf_schema_def r by blast
qed

lemma run_wf: "run_ddl xs s = Inr s' \<Longrightarrow> list_all constructive xs \<Longrightarrow> wf_schema s \<Longrightarrow> wf_schema s'"
  by (induction xs arbitrary: s) (auto simp: bind_result_Inr dest: wf_kept)

end
