(* ===== verification/Downgrades.thy ===== *)
theory Downgrades
  imports Consistency
begin

text \<open>
  The \<open>downgrade\<close> of every migration against its \<open>upgrade\<close>, on any consistent catalogue: scripts that undo each
  other compose, statements about different objects commute, and the role of 0005 cannot be dropped.
\<close>

section \<open>Undoing\<close>

definition undone :: "ddl list \<Rightarrow> ddl list \<Rightarrow> bool" where
  "undone up down \<longleftrightarrow> list_all constructive up
     \<and> (\<forall>s s'. wf_schema s \<longrightarrow> run_ddl up s = Inr s' \<longrightarrow> run_ddl down s' = Inr s)"

lemma undoneI:
  assumes "list_all constructive up" "\<And>s s'. wf_schema s \<Longrightarrow> run_ddl up s = Inr s' \<Longrightarrow> run_ddl down s' = Inr s"
  shows "undone up down"
  using assms by (simp add: undone_def)

lemma undone_append:
  assumes "undone a a'" "undone b b'"
  shows "undone (a @ b) (b' @ a')"
proof (rule undoneI)
  show "list_all constructive (a @ b)" using assms by (simp add: undone_def)
  fix s s' assume wf: "wf_schema s" and run: "run_ddl (a @ b) s = Inr s'"
  obtain m where m: "run_ddl a s = Inr m" "run_ddl b m = Inr s'"
    using run by (auto simp: run_append bind_result_Inr)
  have "wf_schema m" using run_wf [OF m(1)] assms(1) wf by (simp add: undone_def)
  then show "run_ddl (b' @ a') s' = Inr s"
    using assms m wf by (auto simp: undone_def run_append bind_result_Inr)
qed

lemma block_undone:
  assumes "list_all (local_to t) xs"
  shows "undone (CreateTable t cs ks # xs) [DropTable t]"
proof (rule undoneI)
  have "constructive x" if "local_to t x" for x using that by (cases x) auto
  then show "list_all constructive (CreateTable t cs ks # xs)" using assms by (auto simp: list_all_iff)
  fix s s' assume wf: "wf_schema s" and run: "run_ddl (CreateTable t cs ks # xs) s = Inr s'"
  obtain m where m: "apply_ddl (CreateTable t cs ks) s = Inr m" "run_ddl xs m = Inr s'"
    using run by (auto simp: bind_result_Inr simp del: apply_ddl.simps)
  have "extends t s s'" using locals_extend [OF assms m(2) create_extends [OF m(1) wf]] .
  from drop_extends [OF this wf] show "run_ddl [DropTable t] s' = Inr s" by simp
qed

lemma column_undone: "undone [AddColumn t c] [DropColumn t (cl_name c)]"
proof (rule undoneI)
  fix s s' assume wf: "wf_schema s" and run: "run_ddl [AddColumn t c] s = Inr s'"
  obtain tb where tb: "dict_get (ds_tables s) t = Some tb" and new: "cl_name c \<notin> set (column_names (tb_columns tb))"
    and s': "s' = s\<lparr>ds_tables := dict_put t (tb\<lparr>tb_columns := tb_columns tb @ [c]\<rparr>) (ds_tables s)\<rparr>"
    using run by (auto simp: on_table_Inr bind_result_Inr split: if_splits)
  have cols: "filter (\<lambda>x. cl_name x \<noteq> cl_name c) (tb_columns tb) = tb_columns tb"
    using new by (force simp: column_names_def filter_id_conv image_iff)
  have "\<not> (ix_table i = t \<and> cl_name c \<in> set (ix_columns i))" if "(n, i) \<in> set (ds_indexes s)" for n i
  proof
    assume i: "ix_table i = t \<and> cl_name c \<in> set (ix_columns i)"
    with wf_index [OF wf that] have "has_column s t (cl_name c)" by blast
    with new show False by (simp add: has_column_def tb)
  qed
  then have "filter (\<lambda>(n, i). \<not> (ix_table i = t \<and> cl_name c \<in> set (ix_columns i))) (ds_indexes s) = ds_indexes s"
    by (auto simp: filter_id_conv)
  then show "run_ddl [DropColumn t (cl_name c)] s' = Inr s"
    by (simp add: s' on_table_def column_names_def cols put_same [OF tb])
qed simp

lemma sequence_undone: "undone [CreateSequence q n] [DropSequence q]"
proof (rule undoneI)
  fix s s' assume wf: "wf_schema s" and run: "run_ddl [CreateSequence q n] s = Inr s'"
  have new: "\<not> dict_has (ds_sequences s) q" and s': "s' = on_roles (with_default_sequence q) (s\<lparr>ds_sequences := ds_sequences s @ [(q, n)]\<rparr>)"
    using run by (auto split: if_splits)
  have "(with_default_sequence q rl)\<lparr>rl_sequences := filter (\<lambda>x. x \<noteq> q) (rl_sequences (with_default_sequence q rl))\<rparr> = rl"
    if "(m, rl) \<in> set (ds_roles s)" for m rl
  proof -
    have "q \<notin> set (rl_sequences rl)"
      using wf_role [OF wf that] new by (auto simp: role_consistent_def list_all_iff)
    then have "filter (\<lambda>x. x \<noteq> q) (rl_sequences rl) = rl_sequences rl" by (auto simp: filter_id_conv)
    then show ?thesis by (simp add: with_default_sequence_def)
  qed
  then have "map (\<lambda>(n, rl). (n, (with_default_sequence q rl)\<lparr>rl_sequences := filter (\<lambda>x. x \<noteq> q) (rl_sequences (with_default_sequence q rl))\<rparr>)) (ds_roles s) = ds_roles s"
    by (auto intro!: map_idI)
  moreover have "drop_key q (ds_sequences s @ [(q, n)]) = ds_sequences s"
    using new by (simp add: drop_key_absent) (simp add: drop_key_def)
  ultimately show "run_ddl [DropSequence q] s' = Inr s"
    by (simp add: s' on_roles_def comp_def split_def)
qed simp

section \<open>Orders that do not matter\<close>

definition commutes :: "ddl \<Rightarrow> ddl \<Rightarrow> bool" where
  "commutes x y \<longleftrightarrow> (\<forall>s r. run_ddl [x, y] s = Inr r \<longrightarrow> run_ddl [y, x] s = Inr r)"

lemma run_swap:
  assumes "commutes x y" "run_ddl (as @ x # y # bs) s = Inr r"
  shows "run_ddl (as @ y # x # bs) s = Inr r"
proof -
  have two: "run_ddl (x # y # bs) m = bind_result (run_ddl [x, y] m) (run_ddl bs)" for x y m
    using run_append [of "[x, y]" bs m] by simp
  from assms(2) obtain m where m: "run_ddl as s = Inr m" "run_ddl (x # y # bs) m = Inr r"
    by (auto simp: run_append bind_result_Inr simp del: run_ddl.simps)
  from m(2) obtain k where "run_ddl [x, y] m = Inr k" "run_ddl bs k = Inr r"
    unfolding two bind_result_Inr by blast
  with assms(1) two [of y x m] have "run_ddl (y # x # bs) m = Inr r"
    by (simp add: commutes_def del: run_ddl.simps)
  with m(1) show ?thesis by (simp add: run_append)
qed

lemma drop_column_Inr:
  "apply_ddl (DropColumn t c) s = Inr s' \<longleftrightarrow>
     (\<exists>tb. dict_get (ds_tables s) t = Some tb \<and> c \<in> set (column_names (tb_columns tb))
        \<and> s' = s\<lparr>ds_tables := dict_put t (tb\<lparr>tb_columns := filter (\<lambda>x. cl_name x \<noteq> c) (tb_columns tb)\<rparr>) (ds_tables s),
                 ds_indexes := filter (\<lambda>(n, i). \<not> (ix_table i = t \<and> c \<in> set (ix_columns i))) (ds_indexes s)\<rparr>)"
  by (auto simp: bind_result_Inr on_table_Inr split: if_splits)

lemma drop_index_Inr:
  "apply_ddl (DropIndex n t) s = Inr s' \<longleftrightarrow> dict_has (ds_indexes s) n \<and> s' = s\<lparr>ds_indexes := drop_key n (ds_indexes s)\<rparr>"
  by auto

lemma drop_key_filter: "drop_key n (filter P d) = filter P (drop_key n d)"
  by (simp add: drop_key_def conj_commute)

lemma drop_key_swap: "drop_key n (drop_key m d) = drop_key m (drop_key n d)"
  by (simp add: drop_key_def conj_commute)

lemma has_drop_key: "dict_has (drop_key n d) m \<longleftrightarrow> m \<noteq> n \<and> dict_has d m"
  by (simp add: dict_has_def drop_key_get)

lemma has_filter: "dict_has (filter P d) n \<Longrightarrow> dict_has d n"
  by (auto simp: dict_has_iff dict_keys_def)

definition not_on :: "string \<Rightarrow> string \<Rightarrow> string \<times> db_index \<Rightarrow> bool" where
  "not_on t c = (\<lambda>(n, i). \<not> (ix_table i = t \<and> c \<in> set (ix_columns i)))"

definition without :: "string \<Rightarrow> db_table \<Rightarrow> db_table" where
  "without c tb = tb\<lparr>tb_columns := filter (\<lambda>x. cl_name x \<noteq> c) (tb_columns tb)\<rparr>"

lemma filter_swap: "filter P (filter Q xs) = filter Q (filter P xs)"
  by (simp add: conj_commute)

lemma drop_column_step:
  "dict_get (ds_tables s) t = Some tb \<Longrightarrow> c \<in> set (column_names (tb_columns tb)) \<Longrightarrow>
   apply_ddl (DropColumn t c) s = Inr (s\<lparr>ds_tables := dict_put t (without c tb) (ds_tables s), ds_indexes := filter (not_on t c) (ds_indexes s)\<rparr>)"
  by (simp add: drop_column_Inr without_def not_on_def del: apply_ddl.simps)

lemma columns_commute:
  assumes "t \<noteq> u"
  shows "commutes (DropColumn t c) (DropColumn u e)"
  unfolding commutes_def
proof (intro allI impI)
  fix s r assume run: "run_ddl [DropColumn t c, DropColumn u e] s = Inr r"
  then obtain tb where tb: "dict_get (ds_tables s) t = Some tb" "c \<in> set (column_names (tb_columns tb))"
    by (auto simp: bind_result_Inr drop_column_Inr simp del: apply_ddl.simps)
  from run obtain ub where ub: "dict_get (ds_tables s) u = Some ub" "e \<in> set (column_names (tb_columns ub))"
    using assms by (auto simp: bind_result_Inr drop_column_Inr simp del: apply_ddl.simps)
  have "dict_has (ds_tables s) u" using ub by (simp add: dict_has_def)
  note swap = put_commute [OF assms [symmetric] this]
  show "run_ddl [DropColumn u e, DropColumn t c] s = Inr r"
    using run assms tb ub
    by (simp add: drop_column_step swap filter_swap [of "not_on t c"] del: apply_ddl.simps filter_filter)
qed

lemma column_index_commute: "commutes (DropColumn t c) (DropIndex n u)"
  by (auto simp: commutes_def bind_result_Inr drop_column_Inr drop_index_Inr drop_key_filter simp del: apply_ddl.simps filter_filter
      dest: has_filter)

lemma indexes_commute:
  assumes "n \<noteq> m"
  shows "commutes (DropIndex n t) (DropIndex m u)"
  unfolding commutes_def
proof (intro allI impI)
  fix s r assume "run_ddl [DropIndex n t, DropIndex m u] s = Inr r"
  then have "dict_has (ds_indexes s) n" "dict_has (ds_indexes s) m"
    and r: "r = s\<lparr>ds_indexes := drop_key m (drop_key n (ds_indexes s))\<rparr>"
    by (auto simp: bind_result_Inr drop_index_Inr has_drop_key simp del: apply_ddl.simps)
  with assms show "run_ddl [DropIndex m u, DropIndex n t] s = Inr r"
    unfolding r drop_key_swap [of m n] by (simp add: has_drop_key)
qed

text \<open>An index can be dropped after a column of another table as well.\<close>

lemma index_after_column:
  assumes "run_ddl (DropIndex n u # DropColumn t c # xs) s = Inr r"
    and "\<And>i. (n, i) \<in> set (ds_indexes s) \<Longrightarrow> ix_table i \<noteq> t"
  shows "run_ddl (DropColumn t c # DropIndex n u # xs) s = Inr r"
proof -
  have n: "dict_has (ds_indexes s) n"
    using assms(1) by (auto simp: bind_result_Inr drop_index_Inr simp del: apply_ddl.simps)
  then obtain i where i: "dict_get (ds_indexes s) n = Some i" by (auto simp: dict_has_def)
  have "(n, i) \<in> set (filter (\<lambda>(n, i). \<not> (ix_table i = t \<and> c \<in> set (ix_columns i))) (ds_indexes s))"
    using assms(2) map_of_SomeD [OF i] by auto
  then have "dict_has (filter (\<lambda>(n, i). \<not> (ix_table i = t \<and> c \<in> set (ix_columns i))) (ds_indexes s)) n"
    by (force simp: dict_has_iff dict_keys_def)
  with assms(1) n show ?thesis
    by (auto simp: bind_result_Inr drop_column_Inr drop_index_Inr drop_key_filter simp del: apply_ddl.simps filter_filter)
qed

section \<open>The migrations\<close>

lemma undone_0002: "undone upgrade_0002 downgrade_0002"
  using undone_append [OF undone_append [OF
      block_undone [of "''conversations''" "[CreateIndex ''ix_conversations_user_id'' (plain_index ''conversations'' [''user_id''])]"]
      block_undone [of "''messages''" "[CreateIndex ''ix_messages_conversation_seq'' (plain_index ''messages'' [''conversation_id'', ''seq''])]"]]
      block_undone [of "''llm_usage''" "[CreateIndex ''ix_llm_usage_request_id'' (plain_index ''llm_usage'' [''request_id'']),
        CreateIndex ''ix_llm_usage_user_created'' (plain_index ''llm_usage'' [''user_id'', ''created_at''])]"]]
  by (simp add: upgrade_0002_def downgrade_0002_def plain_index_def)

lemma column_undone': "undone [AddColumn t (col n ty)] [DropColumn t n]"
  using column_undone [of t "col n ty"] by (simp add: col_def)

lemma undone_0003: "undone upgrade_0003 downgrade_0003"
  unfolding upgrade_0003_def downgrade_0003_def by (rule column_undone')

lemma undone_0009: "undone upgrade_0009 downgrade_0009"
  unfolding upgrade_0009_def downgrade_0009_def by (rule column_undone')

lemma local_block:
  assumes "list_all (local_to t) xs" "xs' = xs"
  shows "undone (CreateTable t cs ks # xs') [DropTable t]"
  using block_undone assms by simp

lemma chunk_table_undone:
  "undone (chunk_table_ddl t cond @ [CreatePolicy t p]) [DropTable t]"
  unfolding chunk_table_ddl_def append_Cons append_Nil
  by (rule block_undone) (simp add: active_index_def)

lemma undone_0004: "undone upgrade_0004 downgrade_0004"
proof -
  note documents = block_undone [of "''documents''" "[CreateIndex ''ux_documents_one_active'' one_active_index, EnableRls ''documents'',
      ForceRls ''documents'', CreatePolicy ''documents'' (read_policy ''documents_read'' documents_read_cond),
      CreatePolicy ''documents'' (ingest_policy ''documents_ingest'')]"]
  note parts = undone_append [OF undone_append [OF undone_append [OF undone_append [OF
      column_undone' [of "''messages''" "''citations''" SqlJsonb] documents]
      chunk_table_undone [of "''chunks''"]] chunk_table_undone [of "''confidential_chunks''"]]
      block_undone [of "''ingestion_jobs''" "[]"]]
  show ?thesis
    unfolding upgrade_0004_def downgrade_0004_def
    using parts by (simp add: one_active_index_def)
qed

lemma undone_0007: "undone upgrade_0007 downgrade_0007"
proof -
  note audit = block_undone [of "''audit_log''" "[CreateIndex ''ix_audit_actor_created'' (plain_index ''audit_log'' [''actor_id'', ''created_at'']),
      RevokeTables [Update, Delete] (Tables [''audit_log'']) ''opsassist_app'']"]
  note pending = block_undone [of "''pending_actions''" "[CreateIndex ''ix_pending_actions_requester'' (plain_index ''pending_actions'' [''requester_id'', ''status''])]"]
  note tables = undone_append [OF undone_append [OF undone_append [OF undone_append [OF undone_append [OF undone_append [OF
      audit pending] block_undone [of "''tickets''" "[]"]] sequence_undone [of "''ticket_number_seq''" 1042]]
      block_undone [of "''vpn_profiles''" "[]"]] sequence_undone [of "''vpn_profile_seq''" 1]] block_undone [of "''user_memories''" "[]"]]
  note columns = undone_append [OF undone_append [OF column_undone' [of "''conversations''" "''summary''" SqlText]
      column_undone' [of "''conversations''" "''summary_upto_seq''" SqlBigInteger]] column_undone' [of "''documents''" "''uploaded_by''" SqlText]]
  show ?thesis
    unfolding upgrade_0007_def downgrade_0007_def
    using undone_append [OF tables columns] by (simp add: plain_index_def)
qed

lemma run_move:
  assumes "list_all (commutes x) ys" "run_ddl (as @ x # ys @ bs) s = Inr r"
  shows "run_ddl (as @ ys @ x # bs) s = Inr r"
  using assms
proof (induction ys arbitrary: as)
  case (Cons y ys)
  then have "run_ddl (as @ y # x # ys @ bs) s = Inr r"
    using run_swap [of x y as "ys @ bs" s r] by simp
  then show ?case using Cons.IH [of "as @ [y]"] Cons.prems(1) by simp
qed simp

lemma run_exchange:
  assumes "list_all (\<lambda>x. list_all (commutes x) ys) xs" "run_ddl (as @ xs @ ys @ bs) s = Inr r"
  shows "run_ddl (as @ ys @ xs @ bs) s = Inr r"
  using assms
proof (induction xs arbitrary: bs rule: rev_induct)
  case (snoc x xs)
  then have "run_ddl ((as @ xs) @ ys @ x # bs) s = Inr r"
    using run_move [of x ys "as @ xs" bs s r] by simp
  then show ?case using snoc.IH [of "x # bs"] snoc.prems(1) by simp
qed simp

lemma column_undone_named: "cl_name c = n \<Longrightarrow> undone [AddColumn t c] [DropColumn t n]"
  using column_undone [of t c] by simp

lemma undone_0006: "undone upgrade_0006 downgrade_0006"
proof (rule undoneI)
  show "list_all constructive upgrade_0006" by (simp add: upgrade_0006_def)
  fix s s' assume wf: "wf_schema s" and run: "run_ddl upgrade_0006 s = Inr s'"
  have names: "cl_name context_col = ''context''" "cl_name headings_col = ''headings''"
    by (simp_all add: context_col_def headings_col_def col_def with_option_def)
  note parts = undone_append [OF undone_append [OF undone_append [OF undone_append [OF
      column_undone_named [OF names(1), of "''chunks''"] column_undone_named [OF names(2), of "''chunks''"]]
      column_undone_named [OF names(1), of "''confidential_chunks''"]] column_undone_named [OF names(2), of "''confidential_chunks''"]]
      column_undone' [of "''documents''" "''chunker''" SqlText]]
  let ?docs = "[DropColumn ''documents'' ''chunker'']"
  let ?conf = "[DropColumn ''confidential_chunks'' ''headings'', DropColumn ''confidential_chunks'' ''context'']"
  let ?shared = "[DropColumn ''chunks'' ''headings'', DropColumn ''chunks'' ''context'']"
  have "run_ddl (?docs @ ?conf @ ?shared @ []) s' = Inr s"
    using parts wf run by (simp add: undone_def upgrade_0006_def del: run_ddl.simps apply_ddl.simps)
  then have "run_ddl (?docs @ ?shared @ ?conf @ []) s' = Inr s"
    by (rule run_exchange [rotated]) (simp add: columns_commute)
  then show "run_ddl downgrade_0006 s' = Inr s"
    by (simp add: downgrade_0006_def del: run_ddl.simps)
qed

lemma index_undone: "undone [CreateIndex n i] [DropIndex n t]"
proof (rule undoneI)
  fix s s' assume "run_ddl [CreateIndex n i] s = Inr s'"
  then have "\<not> dict_has (ds_indexes s) n" "s' = s\<lparr>ds_indexes := ds_indexes s @ [(n, i)]\<rparr>"
    by (auto split: if_splits)
  then show "run_ddl [DropIndex n t] s' = Inr s"
    by (simp add: drop_key_absent) (simp add: dict_has_iff dict_keys_def drop_key_def)
qed simp

lemma undone_0008: "undone upgrade_0008 downgrade_0008"
proof (rule undoneI)
  show "list_all constructive upgrade_0008" by (simp add: upgrade_0008_def)
  fix s s' assume wf: "wf_schema s" and run: "run_ddl upgrade_0008 s = Inr s'"
  note parts = undone_append [OF undone_append [OF undone_append [OF
      column_undone' [of "''chunks''" "''parent_index''" SqlInteger]
      index_undone [of "''ix_chunks_parent''" "plain_index ''chunks'' [''document_id'', ''parent_index'']" "''chunks''"]]
      column_undone' [of "''confidential_chunks''" "''parent_index''" SqlInteger]]
      index_undone [of "''ix_confidential_chunks_parent''" "plain_index ''confidential_chunks'' [''document_id'', ''parent_index'']" "''confidential_chunks''"]]
  let ?ib = "DropIndex ''ix_confidential_chunks_parent'' ''confidential_chunks''"
  let ?cb = "DropColumn ''confidential_chunks'' ''parent_index''"
  let ?ia = "DropIndex ''ix_chunks_parent'' ''chunks''"
  let ?ca = "DropColumn ''chunks'' ''parent_index''"
  have "run_ddl ([?ib] @ [?cb] @ [?ia, ?ca] @ []) s' = Inr s"
    using parts wf run by (simp add: undone_def upgrade_0008_def del: run_ddl.simps apply_ddl.simps)
  then have "run_ddl ([?ib] @ [?ia, ?ca] @ [?cb] @ []) s' = Inr s"
    by (rule run_exchange [rotated]) (simp add: columns_commute column_index_commute)
  then have "run_ddl ([] @ [?ib] @ [?ia] @ [?ca, ?cb]) s' = Inr s" by (simp del: run_ddl.simps)
  then have "run_ddl ([] @ [?ia] @ [?ib] @ [?ca, ?cb]) s' = Inr s"
    by (rule run_exchange [rotated]) (simp add: indexes_commute)
  then obtain m where m: "apply_ddl ?ia s' = Inr m" "run_ddl [?ib, ?ca, ?cb] m = Inr s"
    by (auto simp: bind_result_Inr simp del: apply_ddl.simps)
  have ixs: "ds_indexes s' = ds_indexes s @ [(''ix_chunks_parent'', plain_index ''chunks'' [''document_id'', ''parent_index'']),
      (''ix_confidential_chunks_parent'', plain_index ''confidential_chunks'' [''document_id'', ''parent_index''])]"
    using run_indexes [OF run] by (simp add: upgrade_0008_def)
  have "distinct (dict_keys (ds_indexes s'))"
    using run_wf [OF run _ wf] by (simp add: upgrade_0008_def wf_schema_def)
  then have "ix_table i \<noteq> ''chunks''" if "(''ix_confidential_chunks_parent'', i) \<in> set (ds_indexes m)" for i
    using that m(1) by (force simp: drop_index_Inr ixs drop_key_def dict_keys_def plain_index_def simp del: apply_ddl.simps)
  from index_after_column [OF m(2) this] m(1) show "run_ddl downgrade_0008 s' = Inr s"
    by (simp add: downgrade_0008_def del: apply_ddl.simps)
qed

text \<open>The extension of 0001 stays.\<close>

lemma downgrade_0001_leaves:
  assumes "wf_schema s" "run_ddl upgrade_0001 s = Inr s'"
  shows "run_ddl downgrade_0001 s' = Inr (s\<lparr>ds_extensions := ds_extensions s'\<rparr>)"
proof -
  note parts = undone_append [OF undone_append [OF undone_append [OF
      block_undone [of "''departments''" "[]"] block_undone [of "''users''" "[]"]]
      index_undone [of "''ix_users_department''" "plain_index ''users'' [''department'']" "''users''"]]
      block_undone [of "''servers''" "[]"]]
  obtain s0 where s0: "apply_ddl (CreateExtension ''vector'') s = Inr s0" "run_ddl (tl upgrade_0001) s0 = Inr s'"
    using assms(2) by (auto simp: upgrade_0001_def bind_result_Inr simp del: apply_ddl.simps)
  have "wf_schema s0" using wf_kept [OF s0(1) _ assms(1)] by simp
  then have "run_ddl downgrade_0001 s' = Inr s0"
    using parts s0(2) by (simp add: undone_def upgrade_0001_def downgrade_0001_def del: run_ddl.simps apply_ddl.simps)
  moreover have "ds_extensions s' = ds_extensions s0"
    using s0(2) by (auto simp: upgrade_0001_def bind_result_Inr split: if_splits)
  moreover have "s0 = s\<lparr>ds_extensions := ds_extensions s0\<rparr>"
    using s0(1) by (auto split: if_splits)
  ultimately show ?thesis by simp
qed

section \<open>The runtime role stays\<close>

lemma fold_revoke_connect: "rl_connect (fold (revoke_on ps) ts rl) = rl_connect rl"
  by (induction ts arbitrary: rl) (simp_all add: revoke_on_def set_privileges_def)

definition app_connected :: "db_schema \<Rightarrow> bool" where
  "app_connected s \<longleftrightarrow> (case dict_get (ds_roles s) ROLE of None \<Rightarrow> False | Some rl \<Rightarrow> rl_connect rl)"

lemma on_role_connected:
  assumes "app_connected s" "\<And>rl. rl_connect rl \<Longrightarrow> rl_connect (f rl)"
  obtains s' where "on_role ROLE f s = Inr s'" "app_connected s'"
  using assms by (auto simp: app_connected_def on_role_def split: option.splits)

lemma downgrade_0005_refused:
  assumes "app_connected s"
  shows "run_ddl downgrade_0005 s = Inl (DependentObjects ROLE)"
proof -
  obtain s1 where s1: "apply_ddl (NoDefaultTables [Select, Insert, Update, Delete] ROLE) s = Inr s1" "app_connected s1"
    using on_role_connected [OF assms, where f = "\<lambda>rl. rl\<lparr>rl_default_tables := minus_privs (rl_default_tables rl) [Select, Insert, Update, Delete]\<rparr>"] by auto
  obtain s2 where s2: "apply_ddl (NoDefaultSequences ROLE) s1 = Inr s2" "app_connected s2"
    using on_role_connected [OF s1(2), where f = "\<lambda>rl. rl\<lparr>rl_default_sequences := False\<rparr>"] by auto
  obtain s3 where s3: "apply_ddl (RevokeTables all_privileges AllTables ROLE) s2 = Inr s3" "app_connected s3"
    using on_role_connected [OF s2(2), where f = "fold (revoke_on all_privileges) (targets s2 AllTables)"]
    by (auto simp: fold_revoke_connect targets_def list_all_iff dict_has_iff)
  obtain s4 where s4: "apply_ddl (RevokeSequences ROLE) s3 = Inr s4" "app_connected s4"
    using on_role_connected [OF s3(2), where f = "\<lambda>rl. rl\<lparr>rl_sequences := []\<rparr>"] by auto
  obtain s5 where s5: "apply_ddl (RevokeSchema ROLE) s4 = Inr s5" "app_connected s5"
    using on_role_connected [OF s4(2), where f = "\<lambda>rl. rl\<lparr>rl_schema_usage := False\<rparr>"] by auto
  have "apply_ddl (DropRole ROLE) s5 = Inl (DependentObjects ROLE)"
    using s5(2) by (auto simp: app_connected_def holds_privileges_def split: option.splits)
  with s1 s2 s3 s4 s5 show ?thesis
    by (simp add: downgrade_0005_def del: apply_ddl.simps)
qed

lemma map_roles_get: "dict_get (map (\<lambda>(n, rl). (n, f rl)) d) r = map_option f (dict_get d r)"
  by (induction d) auto

lemma connect_kept:
  assumes "apply_ddl x s = Inr s'" "app_connected s" "constructive x"
  shows "app_connected s'"
proof -
  have role: "app_connected s'" if a: "on_role r f s = Inr s'" and b: "\<And>rl. rl_connect (f rl) \<longleftrightarrow> rl_connect rl" for r f
  proof -
    obtain rl where rl: "dict_get (ds_roles s) r = Some rl" "s' = s\<lparr>ds_roles := dict_put r (f rl) (ds_roles s)\<rparr>"
      using a by (auto simp: on_role_Inr)
    then show ?thesis using b assms(2) by (cases "r = ROLE") (simp_all add: app_connected_def)
  qed
  have roles: "app_connected s'" if "ds_roles s' = map (\<lambda>(n, rl). (n, f rl)) (ds_roles s)" "\<And>rl. rl_connect (f rl) \<longleftrightarrow> rl_connect rl" for f
    using that assms(2) by (auto simp: app_connected_def map_roles_get split: option.splits)
  have same: "app_connected s'" if "ds_roles s' = ds_roles s" using that assms(2) by (simp add: app_connected_def)
  have grant: "rl_connect (fold (grant_on ps) ts rl) \<longleftrightarrow> rl_connect rl" for ps ts rl
    by (induction ts arbitrary: rl) (simp_all add: grant_on_def set_privileges_def)
  show ?thesis
  proof (cases x)
    case (CreateTable t cs ks)
    with assms(1) show ?thesis
      by (intro roles [of "with_defaults t"]) (auto simp: on_roles_def with_defaults_def set_privileges_def split: if_splits)
  next
    case (CreateSequence q n)
    with assms(1) show ?thesis
      by (intro roles [of "with_default_sequence q"]) (auto simp: on_roles_def with_default_sequence_def split: if_splits)
  next
    case (EnsureRole name a)
    with assms(1,2) show ?thesis by (auto simp: app_connected_def fresh_role_def split: option.splits if_splits)
  next
    case (GrantConnect r)
    with assms(1,2) show ?thesis by (auto simp: app_connected_def on_role_Inr split: option.splits)
  next
    case (GrantTables ps g r)
    with assms(1) show ?thesis by (auto simp: grant split: if_splits elim: role)
  next
    case (RevokeTables ps g r)
    with assms(1) show ?thesis by (auto simp: fold_revoke_connect split: if_splits elim: role)
  qed (use assms(1,3) same [OF roles_untouched [OF assms(1)]] in \<open>auto elim!: role\<close>)
qed

lemma upgrade_0005_connected:
  assumes "run_ddl (upgrade_0005 pw) s = Inr s'"
  shows "app_connected s'"
proof -
  obtain s1 s2 where s2: "apply_ddl (GrantConnect ROLE) s1 = Inr s2" and rest: "run_ddl (drop 2 (upgrade_0005 pw)) s2 = Inr s'"
    using assms by (auto simp: upgrade_0005_def bind_result_Inr simp del: apply_ddl.simps)
  have "app_connected s2" using s2 by (auto simp: app_connected_def on_role_Inr)
  moreover have "app_connected s'" if "run_ddl xs s = Inr s'" "app_connected s" "list_all constructive xs" for xs s
    using that by (induction xs arbitrary: s) (auto simp: bind_result_Inr dest: connect_kept)
  ultimately show ?thesis
    using rest by (simp add: upgrade_0005_def del: run_ddl.simps)
qed

lemma extensions_same:
  "run_ddl xs s = Inr s' \<Longrightarrow> list_all (\<lambda>x. \<forall>e. x \<noteq> CreateExtension e) xs \<Longrightarrow> ds_extensions s' = ds_extensions s"
proof (induction xs arbitrary: s)
  case (Cons x xs)
  then obtain m where m: "apply_ddl x s = Inr m" "run_ddl xs m = Inr s'" by (auto simp: bind_result_Inr simp del: apply_ddl.simps)
  have "ds_extensions m = ds_extensions s"
    using m(1) Cons.prems(2) by (cases x) (auto simp: on_table_Inr on_role_Inr bind_result_Inr split: if_splits option.splits)
  with Cons.IH [OF m(2)] Cons.prems(2) show ?case by simp
qed simp

lemma undone_leaves:
  assumes "undone up down" "wf_schema s" "run_ddl up s = Inr s'" "list_all (\<lambda>x. \<forall>e. x \<noteq> CreateExtension e) up"
  shows "run_ddl down s' = Inr (s\<lparr>ds_extensions := ds_extensions s'\<rparr>)"
  using assms extensions_same [OF assms(3,4)] by (simp add: undone_def)

section \<open>Properties\<close>

lemma migrations_undone:
  assumes "m \<in> set (migrations password)" "rv_revision m \<noteq> ''0001''" "rv_revision m \<noteq> ''0005''"
  shows "undone (rv_upgrade m) (rv_downgrade m)" "list_all (\<lambda>x. \<forall>e. x \<noteq> CreateExtension e) (rv_upgrade m)"
proof -
  have none: "list_all (\<lambda>x. \<forall>e. x \<noteq> CreateExtension e) xs"
    if "xs \<in> {upgrade_0002, upgrade_0003, upgrade_0004, upgrade_0006, upgrade_0007, upgrade_0008, upgrade_0009}" for xs
    using that by (auto simp: upgrade_0002_def upgrade_0003_def upgrade_0004_def upgrade_0006_def upgrade_0007_def upgrade_0008_def
        upgrade_0009_def chunk_table_ddl_def)
  show "undone (rv_upgrade m) (rv_downgrade m)"
    using assms by (auto simp: migrations_def revision_def intro: undone_0002 undone_0003 undone_0004 undone_0006 undone_0007
        undone_0008 undone_0009)
  show "list_all (\<lambda>x. \<forall>e. x \<noteq> CreateExtension e) (rv_upgrade m)"
    using assms by (auto simp: migrations_def revision_def intro: none)
qed

lemma special_migrations:
  assumes "m \<in> set (migrations password)"
  shows "rv_revision m = ''0001'' \<Longrightarrow> rv_upgrade m = upgrade_0001 \<and> rv_downgrade m = downgrade_0001"
    "rv_revision m = ''0005'' \<Longrightarrow> rv_upgrade m = upgrade_0005 password \<and> rv_downgrade m = downgrade_0005"
  using assms by (auto simp: migrations_def revision_def)

text \<open>C27: On every consistent catalogue, running the \<open>downgrade\<close> of a migration after its \<open>upgrade\<close> gives back the
  catalogue it started from, the installed extension aside, which 0001 leaves in place on purpose. The exception is 0005:
  its downgrade is refused, always, because \<open>GRANT CONNECT ON DATABASE\<close> is never revoked and a role that holds a
  privilege cannot be dropped.\<close>

theorem downgrades_undo_upgrades:
  assumes "m \<in> set (migrations password)" "wf_schema s" "run_ddl (rv_upgrade m) s = Inr s'"
  shows "run_ddl (rv_downgrade m) s' =
    (if rv_revision m = ''0005'' then Inl (DependentObjects ROLE) else Inr (s\<lparr>ds_extensions := ds_extensions s'\<rparr>))"
proof (cases "rv_revision m \<in> {''0001'', ''0005''}")
  case True
  with assms special_migrations [OF assms(1)] downgrade_0001_leaves [OF assms(2)] upgrade_0005_connected downgrade_0005_refused
  show ?thesis by auto
next
  case False
  with undone_leaves [OF migrations_undone(1) assms(2) assms(3) migrations_undone(2)] assms(1) show ?thesis by simp
qed

theorem downgrades_undo_upgrades_witness:
  "case run_ddl upgrade_0001 (version_table []) of
     Inl e \<Rightarrow> False
   | Inr s \<Rightarrow> run_ddl downgrade_0001 s = Inr ((version_table [])\<lparr>ds_extensions := [''vector'']\<rparr>)"
proof -
  have e: "case run_ddl upgrade_0001 (version_table []) of Inl e \<Rightarrow> False | Inr s \<Rightarrow> ds_extensions s = [''vector'']"
    by code_simp
  then obtain s where s: "run_ddl upgrade_0001 (version_table []) = Inr s" "ds_extensions s = [''vector'']"
    by (auto split: sum.splits)
  have w: "wf_schema (version_table [])" by code_simp
  have m: "revision ''0001'' None upgrade_0001 downgrade_0001 \<in> set (migrations [])" by (simp add: migrations_def)
  from downgrades_undo_upgrades [OF m w, of s] s show ?thesis by (simp add: revision_def)
qed

end
