(* ===== verification/UploadProps.thy ===== *)
theory UploadProps
  imports Upload
begin

text \<open>
  Properties of uploads: who may write what, the round trip from the stored front matter to the parsed metadata,
  how a title breaks it, and what the key query sees under row-level security.
\<close>

section \<open>Front matter\<close>

text \<open>A value that normalization and the front-matter reader leave as it is.\<close>

definition plain :: "string \<Rightarrow> bool" where
  "plain s \<longleftrightarrow> s \<noteq> [] \<and> squeeze False s = s \<and> \<not> py_space (hd s) \<and> \<not> py_space (last s)
     \<and> list_all (\<lambda>c. \<not> control_char c \<and> \<not> line_break c) s \<and> hd s \<noteq> CHR 0x22 \<and> last s \<noteq> CHR 0x22"

text \<open>A front-matter key: ASCII words and underscores.\<close>

definition key_name :: "string \<Rightarrow> bool" where
  "key_name k \<longleftrightarrow> k \<noteq> [] \<and> list_all (\<lambda>c. is_lower_az c \<or> c = CHR ''_'') k"

definition field_line :: "string \<Rightarrow> string \<Rightarrow> string" where
  "field_line k v = k @ '': '' @ v"

lemma newline_props [simp]: "line_break newline" "\<not> control_char newline" "py_space newline" "\<not> blank_char newline"
  by (simp_all add: line_break_def control_char_def py_space_def blank_char_def)

lemma key_char_props:
  assumes "is_lower_az c \<or> c = CHR ''_''"
  shows "\<not> py_space c" "\<not> control_char c" "\<not> line_break c" "\<not> blank_char c" "c \<noteq> CHR '':''" "c \<noteq> CHR ''-''" "c \<noteq> CHR ''#''"
    "c \<noteq> CHR 0x0D"
  using assms
  by (auto simp: is_lower_az_def py_space_def control_char_def line_break_def blank_char_def Let_def)

lemma dropWhile_id: "s \<noteq> [] \<Longrightarrow> \<not> P (hd s) \<Longrightarrow> dropWhile P s = s"
  by (cases s) auto

lemma strip_ends: "s \<noteq> [] \<Longrightarrow> \<not> P (hd s) \<Longrightarrow> \<not> P (last s) \<Longrightarrow> rev (dropWhile P (rev (dropWhile P s))) = s"
  by (simp add: dropWhile_id hd_rev)

lemma py_strip_id: "s \<noteq> [] \<Longrightarrow> \<not> py_space (hd s) \<Longrightarrow> \<not> py_space (last s) \<Longrightarrow> py_strip s = s"
  unfolding py_strip_def py_lstrip_def py_rstrip_def by (rule strip_ends)

lemma squeeze_skip: "s \<noteq> [] \<Longrightarrow> \<not> blank_char (hd s) \<Longrightarrow> squeeze b s = squeeze False s"
  by (cases s) auto

lemma squeeze_nonblank: "list_all (\<lambda>c. \<not> blank_char c) k \<Longrightarrow> squeeze b (k @ s) = k @ (if k = [] then squeeze b s else squeeze False s)"
  by (induction k arbitrary: b) auto

lemma blank_is_space: "blank_char c \<Longrightarrow> py_space c"
  by (auto simp: blank_char_def py_space_def)

lemma field_line_props:
  assumes "key_name k" "plain v"
  shows "clean_line (field_line k v) = field_line k v" "field_line k v \<noteq> []" "hd (field_line k v) = hd k"
    "list_all (\<lambda>c. \<not> control_char c \<and> \<not> line_break c) (field_line k v)"
proof -
  have k: "k \<noteq> []" "list_all (\<lambda>c. is_lower_az c \<or> c = CHR ''_'') k" using assms(1) by (auto simp: key_name_def)
  note v = assms(2) [unfolded plain_def]
  show "field_line k v \<noteq> []" by (simp add: field_line_def)
  show hd: "hd (field_line k v) = hd k" using k(1) by (simp add: field_line_def)
  have nb: "list_all (\<lambda>c. \<not> blank_char c) (k @ '':'')"
    using k(2) key_char_props(4) by (auto simp: list_all_iff blank_char_def)
  have "squeeze False (field_line k v) = (k @ '':'') @ squeeze False ('' '' @ v)"
    using squeeze_nonblank [OF nb, of False "'' '' @ v"] by (simp add: field_line_def)
  also have "squeeze False ('' '' @ v) = '' '' @ squeeze True v"
    by (simp add: blank_char_def)
  also have "squeeze True v = v"
    using v squeeze_skip [of v True] blank_is_space by auto
  finally have sq: "squeeze False (field_line k v) = field_line k v" by (simp add: field_line_def)
  have "hd k \<in> set k" using k(1) by simp
  then have "\<not> py_space (hd k)"
    using k(2) key_char_props(1) by (auto simp: list_all_iff)
  moreover have "last (field_line k v) = last v" using v by (simp add: field_line_def)
  ultimately show "clean_line (field_line k v) = field_line k v"
    unfolding clean_line_def sq using v hd by (intro py_strip_id) (auto simp: field_line_def)
  show "list_all (\<lambda>c. \<not> control_char c \<and> \<not> line_break c) (field_line k v)"
    using v k(2) key_char_props(2,3) by (auto simp: field_line_def list_all_iff control_char_def line_break_def)
qed

lemma strip_quotes_id: "s \<noteq> [] \<Longrightarrow> hd s \<noteq> CHR 0x22 \<Longrightarrow> last s \<noteq> CHR 0x22 \<Longrightarrow> strip_quotes s = s"
  unfolding strip_quotes_def by (rule strip_ends)

lemma field_line_read:
  assumes "key_name k" "plain v"
  shows "front_matter_lines (field_line k v # ls) m = front_matter_lines ls (dict_put k v m)"
proof -
  have k: "k \<noteq> []" "list_all (\<lambda>c. is_lower_az c \<or> c = CHR ''_'') k" using assms(1) by (auto simp: key_name_def)
  note v = assms(2) [unfolded plain_def]
  have kc: "c \<noteq> CHR '':'' \<and> \<not> py_space c \<and> c \<noteq> CHR ''#''" if "c \<in> set k" for c
    using that k(2) key_char_props by (auto simp: list_all_iff)
  have part: "partition_colon (field_line k v) = Some (k, '' '' @ v)"
    using kc by (auto simp: partition_colon_def field_line_def takeWhile_append2 dropWhile_append2)
  have "py_strip k = k"
    using k(1) kc by (intro py_strip_id) auto
  moreover have "py_strip ('' '' @ v) = v"
  proof -
    have "py_lstrip ('' '' @ v) = py_lstrip v" by (simp add: py_lstrip_def py_space_def)
    then have "py_strip ('' '' @ v) = py_strip v" by (simp add: py_strip_def)
    then show ?thesis using v by (simp add: py_strip_id)
  qed
  moreover have "strip_quotes v = v" using v by (intro strip_quotes_id) auto
  moreover have "py_lstrip (field_line k v) = field_line k v"
    using k(1) kc [of "hd k"] by (cases k) (auto simp: py_lstrip_def field_line_def)
  moreover have "\<not> py_startswith (field_line k v) ''#''"
    using k(1) kc [of "hd k"] by (cases k) (auto simp: py_startswith_def field_line_def)
  moreover have "py_strip (field_line k v) \<noteq> []"
    using py_strip_id [of "field_line k v"] field_line_props(2,3) [OF assms] v k(1) kc [of "hd k"] by (simp add: field_line_def)
  ultimately show ?thesis
    by (simp add: part)
qed

text \<open>Normalization works line by line.\<close>

lemma unify_append:
  "list_all (\<lambda>c. c \<noteq> CHR 0x0D) a \<Longrightarrow> unify_newlines (a @ b) = a @ unify_newlines b"
  by (induction a) auto

lemma split_on_append: "py_split_on c (a @ c # b) = py_split_on c a @ py_split_on c b"
proof -
  have "split_on_aux c w (a @ c # b) = split_on_aux c w a @ split_on_aux c [] b" for w
    by (induction a arbitrary: w) auto
  then show ?thesis by (simp add: py_split_on_def)
qed

lemma split_on_nonempty [simp]: "py_split_on c a \<noteq> []"
proof -
  have "split_on_aux c w a \<noteq> []" for w
    by (induction a arbitrary: w) auto
  then show ?thesis by (simp add: py_split_on_def)
qed

definition normal_lines :: "string \<Rightarrow> string" where
  "normal_lines t = py_join [newline] (map clean_line (py_split_on newline (filter (\<lambda>c. \<not> control_char c) (unify_newlines t))))"

lemma normalize_eq: "normalize nfkc t = normal_lines (nfkc t)"
  by (simp add: normalize_def normal_lines_def)

lemma normal_lines_header:
  assumes "ls \<noteq> []" "\<And>l. l \<in> set ls \<Longrightarrow> clean_line l = l \<and> list_all (\<lambda>c. \<not> control_char c \<and> \<not> line_break c) l"
  shows "normal_lines (py_join [newline] ls @ newline # rest) = py_join [newline] ls @ newline # normal_lines rest"
proof -
  define h where "h = py_join [newline] ls"
  have hset: "c = newline \<or> (\<not> control_char c \<and> \<not> line_break c)" if "c \<in> set h" for c
    using that set_py_join [of "[newline]" ls] assms(2) by (fastforce simp: h_def list_all_iff)
  have nocr: "list_all (\<lambda>c. c \<noteq> CHR 0x0D) (h @ [newline])"
    using hset by (fastforce simp: list_all_iff line_break_def)
  have noctl: "filter (\<lambda>c. \<not> control_char c) h = h"
    using hset newline_props(2) by (intro filter_True ballI) metis
  have nonl: "list_all (\<lambda>l. newline \<notin> set l) ls"
    using assms(2) newline_props(1) by (fastforce simp: list_all_iff)
  have "py_split_on newline h = ls"
    unfolding h_def by (rule split_join [OF assms(1) nonl])
  moreover have "map clean_line ls = ls"
    using assms(2) by (simp add: map_idI)
  ultimately have "normal_lines (h @ newline # rest) = py_join [newline] (ls @ map clean_line
      (py_split_on newline (filter (\<lambda>c. \<not> control_char c) (unify_newlines rest))))"
    using unify_append [OF nocr, of rest] noctl by (simp add: normal_lines_def split_on_append)
  also have "\<dots> = h @ newline # normal_lines rest"
    by (subst py_join_append) (simp_all add: assms(1) h_def normal_lines_def)
  finally show ?thesis by (simp add: h_def)
qed

lemma break_sub_lines:
  assumes "ls \<noteq> []" "\<And>l. l \<in> set ls \<Longrightarrow> newline \<notin> set l \<and> l \<noteq> [] \<and> hd l \<noteq> CHR ''-''"
  shows "break_sub (newline # ''---'') (py_join [newline] ls @ newline # ''---'' @ r)
    = Some (py_join [newline] ls, newline # ''---'' @ r)"
proof -
  have skip: "break_sub (newline # p) (l @ s) = map_option (\<lambda>(a, b). (l @ a, b)) (break_sub (newline # p) s)"
    if "newline \<notin> set l" for l p s
    using that
  proof (induction l)
    case (Cons c l)
    then show ?case
      by (cases "break_sub (newline # p) s") (auto simp: py_startswith_def)
  qed (simp add: option.map_id)
  show ?thesis
    using assms
  proof (induction ls)
    case (Cons l ls)
    have nl: "newline \<notin> set l" using Cons.prems(2) by simp
    show ?case
    proof (cases ls)
      case Nil
      then show ?thesis by (simp add: skip [OF nl] py_startswith_def)
    next
      case (Cons m ms)
      have IH: "break_sub (newline # ''---'') (py_join [newline] ls @ newline # ''---'' @ r)
          = Some (py_join [newline] ls, newline # ''---'' @ r)"
        using Cons.IH Cons.prems Cons by simp
      have "hd m \<noteq> CHR ''-''" "m \<noteq> []" using Cons.prems(2) Cons by auto
      then have hd: "py_join [newline] ls \<noteq> []" "hd (py_join [newline] ls @ x) \<noteq> CHR ''-''" for x
        using Cons by (cases ms; cases m; simp)+
      have "\<not> py_startswith (newline # py_join [newline] ls @ x) (newline # ''---'')" for x
        using hd(1) hd(2) [of x] by (cases "py_join [newline] ls") (auto simp: py_startswith_def)
      then have "break_sub (newline # ''---'') (newline # py_join [newline] ls @ newline # ''---'' @ r)
          = Some (newline # py_join [newline] ls, newline # ''---'' @ r)"
        using IH by simp
      then show ?thesis
        using Cons skip [OF nl, of "''---''" "newline # py_join [newline] ls @ newline # ''---'' @ r"] by simp
    qed
  qed simp
qed

lemma splitlines_join:
  assumes "\<And>l. l \<in> set ls \<Longrightarrow> list_all (\<lambda>c. \<not> line_break c) l \<and> l \<noteq> []"
  shows "py_splitlines (py_join [newline] ls) = ls"
proof -
  have word: "split_lines_aux w (l @ s) = split_lines_aux (w @ l) s" if "list_all (\<lambda>c. \<not> line_break c) l" for w l s
    using that by (induction l arbitrary: w) auto
  have "split_lines_aux [] (py_join [newline] ls) = ls"
    using assms
  proof (induction ls)
    case (Cons l ls)
    have l: "list_all (\<lambda>c. \<not> line_break c) l" "l \<noteq> []" using Cons.prems by auto
    show ?case
    proof (cases ls)
      case Nil
      then show ?thesis using word [OF l(1), of "[]" "[]"] l(2) by simp
    next
      case (Cons m ms)
      have "py_join [newline] ls \<noteq> []" using Cons.prems Cons by (cases ms) auto
      then obtain d ds where j: "py_join [newline] ls = d # ds" by (cases "py_join [newline] ls") auto
      have "split_lines_aux l (newline # d # ds) = l # split_lines_aux [] (d # ds)"
        by simp
      moreover have "split_lines_aux [] (d # ds) = ls"
        unfolding j [symmetric] using Cons.IH Cons.prems by simp
      ultimately have "split_lines_aux l (newline # py_join [newline] ls) = l # ls"
        unfolding j by simp
      then show ?thesis using Cons word [OF l(1), of "[]"] by simp
    qed
  qed simp
  then show ?thesis by (simp add: py_splitlines_def)
qed

text \<open>Reading back a header of fields.\<close>

type_synonym fields = "(string \<times> string) list"

definition header_text :: "fields \<Rightarrow> string" where
  "header_text fs = ''---'' @ [newline] @ py_join [newline] (map (\<lambda>(k, v). field_line k v) fs) @ [newline] @ ''---''"

lemma header_reads_back:
  assumes "fs \<noteq> []" "list_all (\<lambda>(k, v). key_name k \<and> plain v) fs"
  shows "split_front_matter (normal_lines (header_text fs @ newline # rest))
    = Inr (fold (\<lambda>(k, v). dict_put k v) fs [], newline # normal_lines rest)"
proof -
  define ls where "ls = map (\<lambda>(k, v). field_line k v) fs"
  have line: "clean_line l = l \<and> list_all (\<lambda>c. \<not> control_char c \<and> \<not> line_break c) l \<and> l \<noteq> [] \<and> hd l \<noteq> CHR ''-''"
    if "l \<in> set ls" for l
  proof -
    from that assms(2) obtain k v where kv: "l = field_line k v" "key_name k" "plain v"
      by (auto simp: ls_def list_all_iff)
    have "hd k \<noteq> CHR ''-''"
      using kv(2) key_char_props(6) [of "hd k"] by (cases k) (auto simp: key_name_def)
    then show ?thesis
      using field_line_props [OF kv(2,3)] kv(1) by simp
  qed
  have dash: "clean_line ''---'' = ''---''" "list_all (\<lambda>c. \<not> control_char c \<and> \<not> line_break c) ''---''"
    by code_simp+
  have ne: "ls \<noteq> []" using assms(1) by (simp add: ls_def)
  have join: "header_text fs = py_join [newline] ([''---''] @ ls @ [''---''])"
    using ne py_join_append [of "[''---'']" "ls @ [''---'']" "[newline]"] py_join_append [of ls "[''---'']" "[newline]"]
    by (simp add: header_text_def ls_def [symmetric])
  have norm: "normal_lines (header_text fs @ newline # rest) = header_text fs @ newline # normal_lines rest"
    unfolding join using line dash by (intro normal_lines_header) auto
  have nonl: "newline \<notin> set l \<and> l \<noteq> [] \<and> hd l \<noteq> CHR ''-''" if "l \<in> set ls" for l
    using line [OF that] newline_props(1) by (auto simp: list_all_iff)
  have br: "break_sub (newline # ''---'') (py_join [newline] ls @ newline # ''---'' @ newline # normal_lines rest)
      = Some (py_join [newline] ls, newline # ''---'' @ newline # normal_lines rest)"
    by (rule break_sub_lines [OF ne nonl])
  have spl: "py_splitlines (py_join [newline] ls) = ls"
    by (rule splitlines_join) (use line in \<open>auto simp: list_all_iff\<close>)
  have "front_matter_lines ls m = Inr (fold (\<lambda>(k, v). dict_put k v) fs m)" for m
    using assms(2) unfolding ls_def
  proof (induction fs arbitrary: m)
    case (Cons kv fs)
    obtain k v where kv: "kv = (k, v)" by (cases kv)
    with Cons.prems have "key_name k" "plain v" by simp_all
    from field_line_read [OF this] Cons show ?case by (simp add: kv)
  qed simp
  then show ?thesis
    unfolding norm using br spl
    by (simp add: split_front_matter_def header_text_def ls_def [symmetric] py_startswith_def)
qed

section \<open>Plain values\<close>

definition solid :: "char \<Rightarrow> bool" where
  "solid c \<longleftrightarrow> is_lower_az c \<or> is_upper_az c \<or> is_digit c \<or> c = CHR ''_'' \<or> c = CHR ''-''"

lemma solid_props:
  assumes "solid c"
  shows "\<not> py_space c" "\<not> control_char c" "\<not> line_break c" "\<not> blank_char c" "c \<noteq> CHR 0x22"
  using assms
  by (auto simp: solid_def is_lower_az_def is_upper_az_def is_digit_def py_space_def control_char_def line_break_def
      blank_char_def Let_def)

lemma plain_solid:
  assumes "s \<noteq> []" "list_all solid s"
  shows "plain s"
proof -
  have "squeeze False s = s"
    using squeeze_nonblank [of s False "[]"] assms solid_props(4) by (simp add: list_all_iff split: if_splits)
  moreover have "solid (hd s)" "solid (last s)"
    using assms by (auto simp: list_all_iff)
  ultimately show ?thesis
    using assms solid_props by (auto simp: plain_def list_all_iff)
qed

lemma document_id_plain: "document_id_format s \<Longrightarrow> plain s"
proof (rule plain_solid)
  assume f: "document_id_format s"
  define r where "r = dropWhile is_upper_az (drop 3 s)"
  have parts: "take 3 s = ''KB-''" "take 1 r = ''-''" "list_all is_digit (drop 1 r)"
    using f by (auto simp: document_id_format_def Let_def r_def)
  show "s \<noteq> []" using parts(1) by auto
  have s: "s = take 3 s @ takeWhile is_upper_az (drop 3 s) @ take 1 r @ drop 1 r"
    by (simp add: r_def)
  have "list_all solid (take 3 s @ takeWhile is_upper_az (drop 3 s) @ take 1 r @ drop 1 r)"
    unfolding parts(1,2) using parts(3)
    by (auto simp: list_all_iff solid_def dest: set_takeWhileD) (auto simp: is_upper_az_def)
  with s show "list_all solid s" by metis
qed

lemma department_plain: "department_format s \<Longrightarrow> plain s"
  by (rule plain_solid) (cases s; auto simp: department_format_def list_all_iff solid_def)+

lemma classification_plain: "c \<in> set classifications \<Longrightarrow> plain c"
  by (rule plain_solid) (auto simp: classifications_def solid_def is_lower_az_def)

lemma key_names [simp]:
  "key_name ''document_id''" "key_name ''title''" "key_name ''department''" "key_name ''classification''"
  "key_name ''updated_at''" "key_name ''source''"
  by (simp_all add: key_name_def is_lower_az_def)

lemma uploaded_by_plain: "plain u \<Longrightarrow> plain (''uploaded by '' @ u)"
proof -
  assume u: "plain u"
  have "squeeze False (''uploaded by '' @ u) = ''uploaded by '' @ squeeze True u"
    by (simp add: blank_char_def)
  moreover have "squeeze True u = u"
    using u squeeze_skip [of u True] blank_is_space by (auto simp: plain_def)
  ultimately show ?thesis
    using u by (simp add: plain_def py_space_def control_char_def line_break_def)
qed

section \<open>Properties\<close>

definition md_file :: "string \<Rightarrow> string \<Rightarrow> source_file" where
  "md_file path text = \<lparr>sf_path = path, sf_name = path_name path, sf_suffix = ''.md'', sf_text = text, sf_pages = [], sf_sidecar = NoSidecar, sf_broken = None\<rparr>"

definition plan_fields :: "string \<Rightarrow> upload_plan \<Rightarrow> principal \<Rightarrow> fields" where
  "plan_fields today plan p =
     [(''document_id'', up_doc_key plan), (''title'', up_title plan), (''department'', up_department plan),
      (''classification'', up_classification plan), (''updated_at'', today), (''source'', ''uploaded by '' @ p_user_id p)]"

lemma render_header:
  "render_markdown today plan body p
     = header_text (plan_fields today plan p) @ newline # newline # py_lstrip (strip_front_matter body) @ [newline]"
  by (simp add: render_markdown_def header_text_def plan_fields_def field_line_def)

lemma parse_header:
  assumes "nfkc (header_text fs @ newline # rest) = header_text fs @ newline # rest"
    and "fs \<noteq> []" "list_all (\<lambda>(k, v). key_name k \<and> plain v) fs"
    and "validate_meta date_of (fold (\<lambda>(k, v). dict_put k v) fs []) = Some m"
  shows "case parse_file nfkc date_of (md_file path (header_text fs @ newline # rest)) of
           Inr doc \<Rightarrow> pd_meta doc = m
         | Inl e \<Rightarrow> e = NoTextContent (path_name path)"
  using header_reads_back [OF assms(2,3), of rest] assms(1,4)
  by (simp add: parse_file_def read_source_def read_markdown_def md_file_def supported_suffixes_def normalize_eq)


text \<open>A title escapes its field: if the title form field carries line breaks, further fields and a closing
  \<open>---\<close>, ingestion reads department and classification from the title, not those the server decided on.\<close>

definition escaping_title :: "string \<Rightarrow> string \<Rightarrow> string \<Rightarrow> string \<Rightarrow> string" where
  "escaping_title t d c u =
     py_join [newline] [t, field_line ''department'' d, field_line ''classification'' c, field_line ''updated_at'' u, ''---'']"

theorem title_injection:
  assumes "document_id_format (up_doc_key plan)" "up_title plan = escaping_title t d c u"
    and "plain t" "length t \<le> 300" "department_format d" "c \<in> set classifications" "plain u" "date_of u = Some day"
    and "nfkc (render_markdown today plan body p) = render_markdown today plan body p"
  shows "case parse_file nfkc date_of (md_file path (render_markdown today plan body p)) of
           Inr doc \<Rightarrow> dm_department (pd_meta doc) = d \<and> dm_classification (pd_meta doc) = c
         | Inl e \<Rightarrow> e = NoTextContent (path_name path)"
proof -
  define fs where "fs = [(''document_id'', up_doc_key plan), (''title'', t), (''department'', d), (''classification'', c), (''updated_at'', u)]"
  define m where "m = \<lparr>dm_document_id = up_doc_key plan, dm_title = t, dm_department = d, dm_classification = c,
     dm_updated_at = day, dm_source = None\<rparr>"
  obtain rest where r: "render_markdown today plan body p = header_text fs @ newline # rest"
    by (simp add: render_markdown_def header_text_def fs_def field_line_def assms(2) escaping_title_def)
  have "list_all (\<lambda>(k, v). key_name k \<and> plain v) fs"
    using assms document_id_plain department_plain classification_plain by (simp add: fs_def)
  moreover have "validate_meta date_of (fold (\<lambda>(k, v). dict_put k v) fs []) = Some m"
    using assms by (cases t) (simp_all add: fs_def m_def validate_meta_def plain_def)
  ultimately have "case parse_file nfkc date_of (md_file path (header_text fs @ newline # rest)) of
           Inr doc \<Rightarrow> pd_meta doc = m | Inl e \<Rightarrow> e = NoTextContent (path_name path)"
    using assms(9) unfolding r by (intro parse_header) (simp_all add: fs_def)
  then show ?thesis
    unfolding r by (auto simp: m_def split: sum.splits)
qed

text \<open>An upload is denied, or stored for the one department the uploader may write, with a class the uploader may choose.\<close>

definition file_name :: "upload_file \<Rightarrow> string" where
  "file_name f = (case uf_filename f of None \<Rightarrow> [] | Some n \<Rightarrow> n)"

definition no_secret :: "string \<Rightarrow> upload_file \<Rightarrow> bool" where
  "no_secret sfx f \<longleftrightarrow> sfx = ''.pdf'' \<or> uf_text f = [] \<or> scan_for_secrets (uf_text f) = None"

lemma upload_single:
  assumes dep: "writable_departments p = [dep]" and big: "uf_size f \<le> MAX_UPLOAD_BYTES" "uf_size f \<noteq> 0"
  shows "(\<exists>st c m. upload_document sha now today job folder p rid f title cls w = upload_denied sha now p rid f cls st c m w)
    \<or> (\<exists>sfx chosen plan. safe_suffix (file_name f) = Inr sfx \<and> choose_classification p dep cls = Inr chosen \<and> no_secret sfx f
        \<and> up_department plan = dep \<and> up_classification plan = chosen \<and> up_path plan = folder @ ''/uploads/'' @ up_doc_key plan @ sfx
        \<and> upload_document sha now today job folder p rid f title cls w = store_upload sha now today job p rid f sfx plan w)"
proof (cases "safe_suffix (file_name f)")
  case (Inl e)
  then show ?thesis by (auto simp: upload_document_def Let_def dep file_name_def)
next
  case sfx: (Inr sfx)
  show ?thesis
  proof (cases "choose_classification p dep cls")
    case (Inl e)
    with sfx show ?thesis by (auto simp: upload_document_def Let_def dep file_name_def)
  next
    case chosen: (Inr chosen)
    define content where "content = (if sfx \<noteq> ''.pdf'' then uf_text f else [])"
    define problem where "problem = (if content = [] then None else case scan_for_secrets content of Some e \<Rightarrow> Some e
        | None \<Rightarrow> check_claims (claimed_metadata content) dep chosen)"
    define key where "key = next_doc_key fresh_session (uw_documents w) dep"
    define plan where "plan = \<lparr>up_doc_key = key, up_department = dep, up_classification = chosen,
      up_title = chosen_title title (uf_filename f) key, up_path = folder @ ''/uploads/'' @ key @ sfx\<rparr>"
    have eq: "upload_document sha now today job folder p rid f title cls w =
        (case problem of Some e \<Rightarrow> upload_denied sha now p rid f cls 400 ''upload_rejected'' e w
         | None \<Rightarrow> store_upload sha now today job p rid f sfx plan w)"
      using big sfx chosen unfolding upload_document_def Let_def plan_def key_def problem_def content_def file_name_def
      by (simp only: dep list.case sum.case not_less if_False if_not_P)
    show ?thesis
    proof (cases problem)
      case None
      then have "no_secret sfx f"
        by (auto simp: problem_def content_def no_secret_def split: if_splits option.splits)
      with None eq sfx chosen show ?thesis by (auto simp: plan_def intro!: exI [of _ plan])
    next
      case (Some e)
      with eq show ?thesis by auto
    qed
  qed
qed

lemma upload_cases:
  obtains (denied) status err_code msg where
      "upload_document sha now today job folder p rid f title cls w = upload_denied sha now p rid f cls status err_code msg w"
    | (stored) sfx plan where
      "upload_document sha now today job folder p rid f title cls w = store_upload sha now today job p rid f sfx plan w"
      "writable_departments p = [up_department plan]"
      "choose_classification p (up_department plan) cls = Inr (up_classification plan)"
      "0 \<noteq> uf_size f" "uf_size f \<le> MAX_UPLOAD_BYTES" "safe_suffix (file_name f) = Inr sfx" "no_secret sfx f"
      "up_path plan = folder @ ''/uploads/'' @ up_doc_key plan @ sfx"
proof (cases "writable_departments p")
  case Nil
  then show ?thesis by (auto simp: upload_document_def Let_def intro: denied)
next
  case (Cons dep rest)
  show ?thesis
  proof (cases "rest = [] \<and> uf_size f \<le> MAX_UPLOAD_BYTES \<and> uf_size f \<noteq> 0")
    case False
    with Cons have "\<exists>st c m. upload_document sha now today job folder p rid f title cls w = upload_denied sha now p rid f cls st c m w"
      by (cases rest) (auto simp: upload_document_def Let_def not_le split: sum.split)
    then show ?thesis by (blast intro: denied)
  next
    case True
    then have dep: "writable_departments p = [dep]" "uf_size f \<le> MAX_UPLOAD_BYTES" "uf_size f \<noteq> 0" using Cons by simp_all
    from upload_single [OF this, of sha now today job folder rid title cls w] dep show ?thesis
      by (metis denied stored)
  qed
qed

lemma chosen_class:
  "choose_classification p dep cls = Inr c \<Longrightarrow> c \<in> set classifications
    \<and> \<not> (c = ''public'' \<and> \<not> has_perm p PUBLISH_PERMISSION) \<and> \<not> (c = ''confidential'' \<and> \<not> has_perm p (dep @ '':confidential''))"
  by (auto simp: choose_classification_def classifications_def split: if_splits)


text \<open>The key query runs in a session without scope, so row-level security hides every document that is not
  public: with no public document of the department's prefix the next key is always number 101, also when
  a document of that key exists, and the new upload takes its place; and for departments whose first three
  letters include an underscore the key does not have the form ingestion requires.\<close>

theorem upload_key_reused:
  assumes "list_all (\<lambda>d. d_classification d \<noteq> ''public'') docs"
  shows "next_doc_key fresh_session docs department = key_prefix department @ ''-101''
    \<and> \<not> document_id_format (next_doc_key fresh_session docs ''it_ops'')
    \<and> \<not> document_id_format (next_doc_key fresh_session docs ''ai_platform'')"
proof -
  have n: "nat_str 101 = ''101''" by code_simp
  have up: "py_upper ''it_'' = ''IT_''" "py_upper ''ai_'' = ''AI_''" by code_simp+
  have hidden: "filter (document_visible fresh_session) docs = []"
    using assms
    by (auto simp: filter_empty_conv list_all_iff document_visible_def rls_ingest_def rls_documents_read_def fresh_session_def
        setting_list_def string_to_array_def)
  have key: "next_doc_key fresh_session docs d = key_prefix d @ ''-101''" for d
    by (simp add: next_doc_key_def Let_def hidden pad_def n)
  show ?thesis
    unfolding key by (simp add: key_prefix_def up document_id_format_def is_upper_az_def)
qed

section \<open>Concrete uploads\<close>

definition demo_plan :: "string \<Rightarrow> upload_plan" where
  "demo_plan title =
     \<lparr>up_doc_key = ''KB-HR-101'', up_department = ''hr'', up_classification = ''internal'', up_title = title,
      up_path = ''kb/uploads/KB-HR-101.md''\<rparr>"

lemma demo_plain: "plain ''2025-01-01''" "plain ''U001''" "plain ''Leave''" "document_id_format ''KB-HR-101''" "department_format ''hr''"
  "department_format ''finance''"
  by code_simp+


theorem title_injection_witness:
  "case parse_file (\<lambda>x. x) Some (md_file ''KB-HR-101.md''
      (render_markdown ''2025-01-01'' (demo_plan (escaping_title ''Leave'' ''finance'' ''public'' ''2025-01-01'')) ''Text.'' demo_reader)) of
     Inr doc \<Rightarrow> dm_department (pd_meta doc) = ''finance'' \<and> dm_classification (pd_meta doc) = ''public''
   | Inl e \<Rightarrow> e = NoTextContent ''KB-HR-101.md''"
proof -
  have path: "path_name ''KB-HR-101.md'' = ''KB-HR-101.md''" by code_simp
  show ?thesis
    using title_injection [of "demo_plan (escaping_title ''Leave'' ''finance'' ''public'' ''2025-01-01'')" "''Leave''" "''finance''" "''public''"
        "''2025-01-01''" Some "''2025-01-01''" "\<lambda>x. x" "''2025-01-01''" "''Text.''" demo_reader "''KB-HR-101.md''"]
      demo_plain
    by (auto simp: demo_plan_def classifications_def path split: sum.splits)
qed

theorem upload_key_reused_witness:
  "next_doc_key fresh_session [demo_document\<lparr>d_doc_key := ''KB-HR-101''\<rparr>] ''hr'' = ''KB-HR-101''"
proof -
  have up: "py_upper ''hr'' = ''HR''" by code_simp
  show ?thesis
    using upload_key_reused [of "[demo_document\<lparr>d_doc_key := ''KB-HR-101''\<rparr>]" "''hr''"]
    by (simp add: demo_document_def key_prefix_def up)
qed

end
