(* ===== verification/Ingest.thy ===== *)
theory Ingest
  imports Upload Chunking GatewayRun
begin

text \<open>
  \<open>knowledge/ingest.py\<close>: the checks before anything is read, the content hash, the two transactions of
  \<open>ingest_file\<close> with the embedding between them, and \<open>deactivate\<close>. A transaction is a function of the
  knowledge tables; one that raises leaves them as they were. Parameters: the file system (what a path
  resolves to and holds), SHA-256, the UUIDs, the gateway with the network behind it, and the department
  slugs the foreign key of the documents table admits.
\<close>

section \<open>Data\<close>

datatype ingest_error =
    IngestionPolicyError string
  | IngestParseError parse_error
  | FileNotFound string
  | IngestCallFailed call_failure
  | IngestCrashed string

datatype ingest_outcome = Indexed | Unchanged

record ingest_result =
  ir_doc_key :: string
  ir_version :: int
  ir_outcome :: ingest_outcome
  ir_chunks :: nat

record ingest_deps =
  id_nfkc :: "string \<Rightarrow> string"
  id_date :: "string \<Rightarrow> string option"
  id_resolve :: "string \<Rightarrow> string"
  id_read :: "string \<Rightarrow> source_file option"
  id_sha :: "string \<Rightarrow> string"
  id_uuid :: "nat \<Rightarrow> string"
  id_departments :: "string list"
  id_settings :: settings
  id_gateway :: gateway
  id_rnd :: "nat \<Rightarrow> rat"
  id_ask :: "nat \<Rightarrow> model_spec \<Rightarrow> string list \<Rightarrow> string \<Rightarrow> rat \<times> embedding_result reply"

record ingest_world =
  iw_kb :: knowledge_db
  iw_gateway :: gw_state
  iw_uuids :: nat

definition EMBED_BATCH :: nat where "EMBED_BATCH = 32"

section \<open>Checks and the content hash\<close>

definition chunking_config_of :: "settings \<Rightarrow> chunking_config" where
  "chunking_config_of s =
     default_chunking\<lparr>cc_target_tokens := se_chunk_target_tokens s, cc_max_tokens := se_chunk_max_tokens s\<rparr>"

definition meta_json :: "document_meta \<Rightarrow> json" where
  "meta_json m =
     JObj [(''document_id'', JStr (dm_document_id m)), (''title'', JStr (dm_title m)),
           (''department'', JStr (dm_department m)), (''classification'', JStr (dm_classification m)),
           (''updated_at'', JStr (dm_updated_at m)), (''source'', opt_str (dm_source m))]"

definition hash_payload :: "parsed_document \<Rightarrow> string \<Rightarrow> json" where
  "hash_payload doc chunker =
     JObj [(''meta'', meta_json (pd_meta doc)),
           (''blocks'', JList (map (\<lambda>b. JList [JStr (bl_text b), JList (map JStr (bl_headings b))]) (pd_blocks doc))),
           (''chunker'', JStr chunker)]"

definition content_hash :: "(string \<Rightarrow> string) \<Rightarrow> parsed_document \<Rightarrow> string \<Rightarrow> string" where
  "content_hash sha doc chunker = sha (dumps_sorted (hash_payload doc chunker))"

definition path_parts :: "string \<Rightarrow> string list" where
  "path_parts p = filter (\<lambda>c. c \<noteq> [] \<and> c \<noteq> ''.'') (py_split_on CHR ''/'' p)"

definition resolve_within_root :: "(string \<Rightarrow> string) \<Rightarrow> string \<Rightarrow> string \<Rightarrow> ingest_error + string" where
  "resolve_within_root res path folder =
     (if \<not> Sublist.prefix (path_parts (res folder)) (path_parts (res path))
      then Inl (IngestionPolicyError (path @ '' is outside the knowledge root''))
      else if py_lower (path_suffix (res path)) \<notin> set supported_suffixes
      then Inl (IngestionPolicyError (path_name path @ '': unsupported file type''))
      else Inr (res path))"

definition check_embedding_model :: "gateway \<Rightarrow> string \<Rightarrow> ingest_error + model_spec" where
  "check_embedding_model g model_id =
     (case model (gw_catalog g) model_id of
        Inl e \<Rightarrow> Inl (IngestCrashed ''KeyError'')
      | Inr spec \<Rightarrow>
          if ms_kind spec \<noteq> Embedding \<or> ms_dimensions spec \<noteq> Some (int INDEX_DIMENSIONS)
          then Inl (IngestionPolicyError (''index embedding model '' @ model_id @ '' must be a 768-d embedding model''))
          else Inr spec)"

section \<open>Before the first transaction\<close>

record prepared =
  ip_source :: string
  ip_doc :: parsed_document
  ip_model :: string
  ip_chunker :: chunking_config
  ip_digest :: string

abbreviation doc_key :: "prepared \<Rightarrow> string" where "doc_key p \<equiv> dm_document_id (pd_meta (ip_doc p))"

definition read_file :: "ingest_deps \<Rightarrow> string \<Rightarrow> ingest_error + parsed_document" where
  "read_file d source =
     (case id_read d source of
        None \<Rightarrow> Inl (FileNotFound source)
      | Some f \<Rightarrow>
          (case parse_file (id_nfkc d) (id_date d)
                  (f\<lparr>sf_path := source, sf_name := path_name source, sf_suffix := py_lower (path_suffix source)\<rparr>) of
             Inl (ReadFailed x) \<Rightarrow> Inl (IngestCrashed x)
           | Inl e \<Rightarrow> Inl (IngestParseError e)
           | Inr doc \<Rightarrow> Inr doc))"

definition prepare :: "ingest_deps \<Rightarrow> string \<Rightarrow> ingest_error + prepared" where
  "prepare d path =
     (let s = id_settings d; g = id_gateway d; model_id = se_index_embedding_model s; cfg = chunking_config_of s in
      bind_result (check_embedding_model g model_id) (\<lambda>spec.
      bind_result (resolve_within_root (id_resolve d) path (se_knowledge_root s)) (\<lambda>source.
      bind_result (read_file d source) (\<lambda>doc.
        case dict_get (cat_providers (gw_catalog g)) (ms_provider spec) of
          None \<Rightarrow> Inl (IngestCrashed ''KeyError'')
        | Some cfg_p \<Rightarrow>
            if pc_data_egress cfg_p \<and> dm_classification (pd_meta doc) = ''confidential''
            then Inl (IngestionPolicyError (dm_document_id (pd_meta doc) @ '' is confidential and '' @ model_id @ '' sends data off-box''))
            else Inr \<lparr>ip_source = source, ip_doc = doc, ip_model = model_id, ip_chunker = cfg,
                      ip_digest = content_hash (id_sha d) doc (chunker_id cfg)\<rparr>))))"

section \<open>The transactions\<close>

definition enable_ingest :: "db_session \<Rightarrow> db_session" where
  "enable_ingest ses = ses\<lparr>app_ingest := Some ''on''\<rparr>"

abbreviation ingest_session :: db_session where "ingest_session \<equiv> enable_ingest fresh_session"

definition active_version :: "db_session \<Rightarrow> string \<Rightarrow> knowledge_db \<Rightarrow> document option" where
  "active_version ses key db =
     find (\<lambda>d. document_visible ses d \<and> d_doc_key d = key \<and> d_status d = ''active'') (kb_documents db)"

definition unchanged_version :: "prepared \<Rightarrow> knowledge_db \<Rightarrow> ingest_result option" where
  "unchanged_version p db =
     (case active_version ingest_session (doc_key p) db of
        None \<Rightarrow> None
      | Some a \<Rightarrow>
          if d_content_sha256 a = ip_digest p \<and> d_embedding_model a = ip_model p
          then Some \<lparr>ir_doc_key = doc_key p, ir_version = d_version a, ir_outcome = Unchanged, ir_chunks = d_chunk_count a\<rparr>
          else None)"

definition latest_version :: "string \<Rightarrow> knowledge_db \<Rightarrow> int" where
  "latest_version key db =
     (case map d_version (filter (\<lambda>d. document_visible ingest_session d \<and> d_doc_key d = key) (kb_documents db)) of
        [] \<Rightarrow> 0 | v # vs \<Rightarrow> foldl max v vs)"

definition retire :: "string \<Rightarrow> int \<Rightarrow> string \<Rightarrow> document list \<Rightarrow> document list" where
  "retire status now i docs =
     map (\<lambda>d. if d_id d = i then d\<lparr>d_status := status, d_superseded_at := Some now\<rparr> else d) docs"

definition deactivate_rows :: "string \<Rightarrow> chunk_row list \<Rightarrow> chunk_row list" where
  "deactivate_rows key rows = map (\<lambda>c. if c_doc_key c = key \<and> c_is_active c then c\<lparr>c_is_active := False\<rparr> else c) rows"

definition new_document :: "ingest_deps \<Rightarrow> prepared \<Rightarrow> string \<Rightarrow> int \<Rightarrow> nat \<Rightarrow> document" where
  "new_document d p i version n =
     (let m = pd_meta (ip_doc p) in
      \<lparr>d_id = i, d_doc_key = dm_document_id m, d_version = version, d_title = dm_title m, d_department = dm_department m,
       d_classification = dm_classification m, d_mime_type = pd_mime_type (ip_doc p),
       d_source_path = py_join ''/'' (drop (length (path_parts (id_resolve d (se_knowledge_root (id_settings d)))))
                                       (path_parts (ip_source p))),
       d_content_sha256 = ip_digest p, d_status = ''active'', d_updated_at = dm_updated_at m,
       d_embedding_model = ip_model p, d_uploaded_by = None, d_chunker = Some (chunker_id (ip_chunker p)),
       d_chunk_count = n, d_superseded_at = None\<rparr>)"

definition chunk_row_of :: "document \<Rightarrow> int \<times> chunk \<times> rat list \<Rightarrow> chunk_row" where
  "chunk_row_of doc r =
     (case r of (i, c, vector) \<Rightarrow>
      \<lparr>c_id = i, c_document_id = d_id doc, c_doc_key = d_doc_key doc, c_version = d_version doc,
       c_department = d_department doc, c_classification = d_classification doc, c_chunk_index = ch_index c,
       c_parent_index = Some (ch_parent_index c), c_locator = ch_locator c, c_section = ch_section c,
       c_page = ch_page_start c, c_content = ch_text c,
       c_context = (if ch_context c \<noteq> ch_text c then Some (ch_context c) else None),
       c_headings = ch_headings c, c_embed_text = ch_embed_text c, c_token_count = ch_token_count c,
       c_embedding_model = d_embedding_model doc, c_embedding = vector, c_is_active = True\<rparr>)"

definition index_table :: "string \<Rightarrow> chunk_table" where
  "index_table classification = (if classification = ''confidential'' then ConfidentialChunks else SharedChunks)"

definition new_rows :: "document \<Rightarrow> int \<Rightarrow> chunk list \<Rightarrow> rat list list \<Rightarrow> chunk_row list" where
  "new_rows doc i chunks vectors =
     map (chunk_row_of doc) (zip (map (\<lambda>k. i + int k) [0 ..< length chunks]) (zip chunks vectors))"

fun add_rows :: "chunk_table \<Rightarrow> chunk_row list \<Rightarrow> knowledge_db \<Rightarrow> knowledge_db" where
  "add_rows SharedChunks rows db = db\<lparr>kb_chunks := kb_chunks db @ rows, kb_next_chunk := kb_next_chunk db + int (length rows)\<rparr>"
| "add_rows ConfidentialChunks rows db =
     db\<lparr>kb_confidential := kb_confidential db @ rows, kb_next_chunk := kb_next_chunk db + int (length rows)\<rparr>"

text \<open>The old version leaves: its status, and the chunks of its key in both tables.\<close>

definition retire_active :: "string \<Rightarrow> int \<Rightarrow> string \<Rightarrow> string option \<Rightarrow> knowledge_db \<Rightarrow> knowledge_db" where
  "retire_active status now key i db =
     db\<lparr>kb_documents := (case i of None \<Rightarrow> kb_documents db | Some x \<Rightarrow> retire status now x (kb_documents db)),
        kb_chunks := deactivate_rows key (kb_chunks db),
        kb_confidential := deactivate_rows key (kb_confidential db)\<rparr>"

definition swap_version ::
  "ingest_deps \<Rightarrow> int \<Rightarrow> prepared \<Rightarrow> chunk list \<Rightarrow> rat list list \<Rightarrow> string \<Rightarrow> knowledge_db
   \<Rightarrow> (ingest_error + ingest_result) \<times> knowledge_db" where
  "swap_version d now p chunks vectors i db =
     (case unchanged_version p db of
        Some r \<Rightarrow> (Inr r, db)
      | None \<Rightarrow>
          (let key = doc_key p;
               version = latest_version key db + 1;
               old = map_option d_id (active_version ingest_session key db);
               db1 = retire_active ''superseded'' now key old db;
               doc = new_document d p i version (length chunks);
               db2 = db1\<lparr>kb_documents := kb_documents db1 @ [doc]\<rparr>
           in if d_department doc \<notin> set (id_departments d) \<or> i \<in> d_id ` set (kb_documents db)
              then (Inl (IngestCrashed ''IntegrityError''), db)
              else if length chunks \<noteq> length vectors then (Inl (IngestCrashed ''ValueError''), db)
              else if \<not> list_all (\<lambda>v. length v = INDEX_DIMENSIONS) vectors then (Inl (IngestCrashed ''DataError''), db)
              else (Inr \<lparr>ir_doc_key = key, ir_version = version, ir_outcome = Indexed, ir_chunks = length chunks\<rparr>,
                    add_rows (index_table (d_classification doc)) (new_rows doc (kb_next_chunk db) chunks vectors) db2)))"

text \<open>\<open>for start in range(0, len(chunks), EMBED_BATCH)\<close>.\<close>

function embed_batches ::
  "ingest_deps \<Rightarrow> string \<Rightarrow> string list \<Rightarrow> rat list list \<Rightarrow> gw_state \<Rightarrow> (call_failure + rat list list) \<times> gw_state" where
  "embed_batches d model_id texts vectors st =
     (if texts = [] then (Inr vectors, st)
      else case embed (id_gateway d) (id_rnd d) (id_ask d) (Some model_id) (take EMBED_BATCH texts) ''passage'' st of
             (Inl e, st') \<Rightarrow> (Inl e, st')
           | (Inr out, st') \<Rightarrow>
               embed_batches d model_id (drop EMBED_BATCH texts) (vectors @ er_vectors (co_result out)) st')"
  by pat_completeness auto
termination
  by (relation "measure (\<lambda>(_, _, texts, _, _). length texts)") (auto simp: EMBED_BATCH_def)

definition index_document :: "ingest_deps \<Rightarrow> int \<Rightarrow> prepared \<Rightarrow> ingest_world \<Rightarrow> (ingest_error + ingest_result) \<times> ingest_world" where
  "index_document d now p w =
     (case unchanged_version p (iw_kb w) of
        Some r \<Rightarrow> (Inr r, w)
      | None \<Rightarrow>
          (let chunks = chunk_document (ip_doc p) (ip_chunker p) in
           case embed_batches d (ip_model p) (map ch_embed_text chunks) [] (iw_gateway w) of
             (Inl e, st) \<Rightarrow> (Inl (IngestCallFailed e), w\<lparr>iw_gateway := st\<rparr>)
           | (Inr vectors, st) \<Rightarrow>
               (case swap_version d now p chunks vectors (id_uuid d (iw_uuids w)) (iw_kb w) of
                  (r, db) \<Rightarrow> (r, w\<lparr>iw_kb := db, iw_gateway := st, iw_uuids := iw_uuids w + 1\<rparr>))))"

definition ingest_file :: "ingest_deps \<Rightarrow> int \<Rightarrow> string \<Rightarrow> ingest_world \<Rightarrow> (ingest_error + ingest_result) \<times> ingest_world" where
  "ingest_file d now path w =
     (case prepare d path of
        Inl e \<Rightarrow> (Inl e, w)
      | Inr p \<Rightarrow> index_document d now p w)"

section \<open>Deactivation\<close>

text \<open>\<open>deactivate\<close> takes no lock: it reads the active version, then writes that row and the chunks of the key.\<close>

definition deactivate_read :: "string \<Rightarrow> knowledge_db \<Rightarrow> string option" where
  "deactivate_read key db = map_option d_id (active_version ingest_session key db)"

definition deactivate_write :: "int \<Rightarrow> string \<Rightarrow> string \<Rightarrow> knowledge_db \<Rightarrow> knowledge_db" where
  "deactivate_write now key i db = retire_active ''deleted'' now key (Some i) db"

definition deactivate :: "int \<Rightarrow> string \<Rightarrow> knowledge_db \<Rightarrow> bool \<times> knowledge_db" where
  "deactivate now key db =
     (case deactivate_read key db of None \<Rightarrow> (False, db) | Some i \<Rightarrow> (True, deactivate_write now key i db))"

end
