(* ===== verification/IngestProps.thy ===== *)
theory IngestProps
  imports Ingest Transitions
begin

text \<open>
  What ingestion keeps of the knowledge index: the invariant of the tables over any interleaving of swaps and
  deactivations, what a swap publishes, when a repeated ingestion does nothing, what the content hash
  pins, and that a confidential document is embedded on the premises only.
\<close>

section \<open>The tables of a transaction\<close>

lemma ingest_sees_all [simp]: "document_visible ingest_session d"
  by (simp add: document_visible_def rls_ingest_def enable_ingest_def)

abbreviation is_active_version :: "document \<Rightarrow> bool" where "is_active_version d \<equiv> d_status d = ''active''"

lemma active_versionD:
  "active_version ingest_session key db = Some d \<Longrightarrow> d \<in> set (kb_documents db) \<and> d_doc_key d = key \<and> is_active_version d"
  unfolding active_version_def by (auto dest: find_SomeD)

lemma active_version_None:
  "active_version ingest_session key db = None \<Longrightarrow> d \<in> set (kb_documents db) \<Longrightarrow> is_active_version d \<Longrightarrow> d_doc_key d \<noteq> key"
  by (auto simp: active_version_def find_None_iff)

lemma latest_version_ge:
  "d \<in> set (kb_documents db) \<Longrightarrow> d_doc_key d = key \<Longrightarrow> d_version d \<le> latest_version key db"
proof -
  assume d: "d \<in> set (kb_documents db)" "d_doc_key d = key"
  let ?vs = "map d_version (filter (\<lambda>d. document_visible ingest_session d \<and> d_doc_key d = key) (kb_documents db))"
  have mem: "d_version d \<in> set ?vs" using d by auto
  then have "?vs \<noteq> []" by (metis empty_iff list.set(1))
  then obtain v vs where vs: "?vs = v # vs" by (meson neq_Nil_conv)
  have "d_version d \<le> foldl max v vs"
    using foldl_max [of v vs] mem unfolding vs by auto
  then show ?thesis unfolding latest_version_def vs by simp
qed

lemma retire_same [simp]:
  "map d_id (retire s now i ds) = map d_id ds"
  "map (\<lambda>d. (d_doc_key d, d_version d)) (retire s now i ds) = map (\<lambda>d. (d_doc_key d, d_version d)) ds"
  "map d_classification (retire s now i ds) = map d_classification ds"
  by (simp_all add: retire_def)

lemma retire_active_docs:
  "s \<noteq> ''active'' \<Longrightarrow> filter is_active_version (retire s now i ds) = filter (\<lambda>d. is_active_version d \<and> d_id d \<noteq> i) ds"
  by (induction ds) (auto simp: retire_def)

lemma retire_keeps: "d \<in> set ds \<Longrightarrow> d_id d \<noteq> i \<Longrightarrow> d \<in> set (retire s now i ds)"
  by (force simp: retire_def)

section \<open>The invariant of the index\<close>

definition belongs :: "document \<Rightarrow> chunk_row \<Rightarrow> bool" where
  "belongs d c \<longleftrightarrow> c_document_id c = d_id d \<and> c_doc_key c = d_doc_key d \<and> c_version c = d_version d
     \<and> c_department c = d_department d \<and> c_classification c = d_classification d"

definition served :: "knowledge_db \<Rightarrow> chunk_row \<Rightarrow> bool" where
  "served db c \<longleftrightarrow> list_ex (\<lambda>d. is_active_version d \<and> belongs d c) (kb_documents db)"

definition active_rows :: "knowledge_db \<Rightarrow> chunk_table \<Rightarrow> chunk_row list" where
  "active_rows db t = filter c_is_active (rows_of_table db t)"

definition index_ok :: "knowledge_db \<Rightarrow> bool" where
  "index_ok db \<longleftrightarrow>
     one_active (kb_documents db) \<and> version_unique (kb_documents db) \<and> distinct (map d_id (kb_documents db))
     \<and> list_all (\<lambda>d. d_classification d \<in> set classifications) (kb_documents db) \<and> kb_checked db
     \<and> list_all (served db) (active_rows db SharedChunks) \<and> list_all (served db) (active_rows db ConfidentialChunks)"

lemma index_okI:
  assumes "one_active (kb_documents db)" "version_unique (kb_documents db)" "distinct (map d_id (kb_documents db))"
    "list_all (\<lambda>d. d_classification d \<in> set classifications) (kb_documents db)" "kb_checked db"
    "\<And>t c. c \<in> set (rows_of_table db t) \<Longrightarrow> c_is_active c \<Longrightarrow> served db c"
  shows "index_ok db"
  using assms(1-5) assms(6) [of _ SharedChunks] assms(6) [of _ ConfidentialChunks]
  unfolding index_ok_def list_all_iff active_rows_def by simp

lemma index_ok_served: "index_ok db \<Longrightarrow> c \<in> set (rows_of_table db t) \<Longrightarrow> c_is_active c \<Longrightarrow> served db c"
  by (cases t) (auto simp: index_ok_def list_all_iff active_rows_def)

lemma one_active_unique:
  "one_active ds \<Longrightarrow> a \<in> set ds \<Longrightarrow> b \<in> set ds \<Longrightarrow> is_active_version a \<Longrightarrow> is_active_version b \<Longrightarrow>
   d_doc_key a = d_doc_key b \<Longrightarrow> a = b"
  unfolding one_active_def distinct_map inj_on_def by auto

lemma distinct_filter_map: "distinct (map f (filter P xs)) \<Longrightarrow> distinct (map f (filter (\<lambda>x. P x \<and> Q x) xs))"
  by (induction xs) (auto split: if_splits)

lemma rows_retire_active:
  "rows_of_table (retire_active s now key old db) t = deactivate_rows key (rows_of_table db t)"
  by (cases t) (simp_all add: retire_active_def)

lemma deactivate_rowsD:
  "c \<in> set (deactivate_rows key rows) \<Longrightarrow> c_is_active c \<Longrightarrow> c \<in> set rows \<and> c_doc_key c \<noteq> key"
  unfolding deactivate_rows_def set_map by (fastforce split: if_splits)

lemma deactivate_rows_none: "filter (\<lambda>c. c_doc_key c = key \<and> c_is_active c) (deactivate_rows key rows) = []"
  by (induction rows) (auto simp: deactivate_rows_def)

lemma deactivate_rows_class:
  "list_all (\<lambda>c. Q (c_classification c)) (deactivate_rows key rows) = list_all (\<lambda>c. Q (c_classification c)) rows"
  by (induction rows) (simp_all add: deactivate_rows_def)

lemma kb_checked_retire: "kb_checked (retire_active s now key old db) = kb_checked db"
  by (simp add: kb_checked_def retire_active_def deactivate_rows_class)

text \<open>Taking a version of a key out of the index keeps the invariant, whether it is still the active one or not.\<close>

lemma retire_active_ok:
  assumes ok: "index_ok db" and s: "s \<noteq> ''active''"
    and old: "\<And>i d. old = Some i \<Longrightarrow> d \<in> set (kb_documents db) \<Longrightarrow> d_id d = i \<Longrightarrow> d_doc_key d = key"
  shows "index_ok (retire_active s now key old db)"
proof (rule index_okI)
  let ?db = "retire_active s now key old db"
  have docs: "kb_documents ?db = (case old of None \<Rightarrow> kb_documents db | Some i \<Rightarrow> retire s now i (kb_documents db))"
    by (simp add: retire_active_def)
  have ids: "map d_id (kb_documents ?db) = map d_id (kb_documents db)"
    by (simp add: docs split: option.splits)
  have kv: "map (\<lambda>d. (d_doc_key d, d_version d)) (kb_documents ?db) = map (\<lambda>d. (d_doc_key d, d_version d)) (kb_documents db)"
    by (simp add: docs split: option.splits)
  have cl: "map d_classification (kb_documents ?db) = map d_classification (kb_documents db)"
    by (simp add: docs split: option.splits)
  show "one_active (kb_documents ?db)"
    using ok unfolding index_ok_def one_active_def docs
    by (auto simp: retire_active_docs [OF s] split: option.splits intro: distinct_filter_map)
  show "version_unique (kb_documents ?db)"
    using ok unfolding index_ok_def version_unique_def kv by blast
  show "distinct (map d_id (kb_documents ?db))"
    using ok unfolding index_ok_def ids by blast
  show "list_all (\<lambda>d. d_classification d \<in> set classifications) (kb_documents ?db)"
  proof -
    have "list_all (\<lambda>x. x \<in> set classifications) (map d_classification (kb_documents db))"
      using ok by (simp add: index_ok_def list.pred_map comp_def)
    then show ?thesis
      unfolding cl [symmetric] by (simp add: list.pred_map comp_def)
  qed
  show "kb_checked ?db"
    using ok by (simp add: kb_checked_retire index_ok_def)
  fix t c
  assume c: "c \<in> set (rows_of_table ?db t)" "c_is_active c"
  then have c': "c \<in> set (rows_of_table db t)" "c_doc_key c \<noteq> key"
    using deactivate_rowsD by (auto simp: rows_retire_active)
  with ok c(2) obtain d where d: "d \<in> set (kb_documents db)" "is_active_version d" "belongs d c"
    using index_ok_served [OF ok c'(1) c(2)] by (auto simp: served_def list_ex_iff)
  with c' have "d_doc_key d \<noteq> key"
    by (simp add: belongs_def)
  with d old have "d \<in> set (kb_documents ?db)"
    by (auto simp: docs split: option.splits intro!: retire_keeps)
  with d show "served ?db c"
    by (auto simp: served_def list_ex_iff)
qed

lemma classification_table: "c \<in> set classifications \<Longrightarrow> classification_check (index_table c) c"
  by (auto simp: classifications_def classification_check_def index_table_def)

lemma new_rows_belong: "c \<in> set (new_rows doc i chunks vectors) \<Longrightarrow> belongs doc c \<and> c_is_active c"
  by (auto simp: new_rows_def chunk_row_of_def belongs_def split: prod.splits)

lemma rows_add_rows:
  "rows_of_table (add_rows t rows db) u = (if u = t then rows_of_table db u @ rows else rows_of_table db u)"
  by (cases t; cases u) simp_all

lemma add_rows_docs [simp]: "kb_documents (add_rows t rows db) = kb_documents db"
  by (cases t) simp_all

text \<open>Publishing a new version of a key that has none active keeps it too.\<close>

lemma publish_ok:
  assumes ok: "index_ok db"
    and doc: "is_active_version doc" "d_classification doc \<in> set classifications"
      "d_id doc \<notin> d_id ` set (kb_documents db)"
      "\<And>d. d \<in> set (kb_documents db) \<Longrightarrow> is_active_version d \<Longrightarrow> d_doc_key d \<noteq> d_doc_key doc"
      "\<And>d. d \<in> set (kb_documents db) \<Longrightarrow> d_doc_key d = d_doc_key doc \<Longrightarrow> d_version d \<noteq> d_version doc"
  shows "index_ok (add_rows (index_table (d_classification doc)) (new_rows doc i chunks vectors)
           (db\<lparr>kb_documents := kb_documents db @ [doc]\<rparr>))" (is "index_ok ?db")
proof (rule index_okI)
  have rows: "rows_of_table ?db t = (if t = index_table (d_classification doc)
      then rows_of_table db t @ new_rows doc i chunks vectors else rows_of_table db t)" for t
    by (simp add: rows_add_rows) (cases t; simp)
  show "one_active (kb_documents ?db)"
  proof -
    have "d_doc_key doc \<notin> d_doc_key ` set (filter is_active_version (kb_documents db))"
      using doc(4) by fastforce
    then show ?thesis
      using ok doc(1) by (simp add: index_ok_def one_active_def)
  qed
  show "version_unique (kb_documents ?db)"
  proof -
    have "(d_doc_key doc, d_version doc) \<notin> (\<lambda>d. (d_doc_key d, d_version d)) ` set (kb_documents db)"
      using doc(5) by fastforce
    then show ?thesis
      using ok by (simp add: index_ok_def version_unique_def)
  qed
  show "distinct (map d_id (kb_documents ?db))"
    using ok doc(3) by (auto simp: index_ok_def)
  show "list_all (\<lambda>d. d_classification d \<in> set classifications) (kb_documents ?db)"
    using ok doc(2) by (auto simp: index_ok_def)
  have "classification_check t (c_classification c)" if "c \<in> set (rows_of_table ?db t)" for t c
    using that ok classification_table [OF doc(2)]
    by (auto simp: rows index_ok_def belongs_def dest: kb_checkedD new_rows_belong split: if_splits)
  from this [of _ SharedChunks] this [of _ ConfidentialChunks] show "kb_checked ?db"
    by (simp add: kb_checked_def list_all_iff)
  fix t c
  assume c: "c \<in> set (rows_of_table ?db t)" "c_is_active c"
  show "served ?db c"
  proof (cases "c \<in> set (rows_of_table db t)")
    case True
    with index_ok_served [OF ok True c(2)] show ?thesis by (auto simp: served_def list_ex_iff)
  next
    case False
    with c have "c \<in> set (new_rows doc i chunks vectors)" by (simp add: rows split: if_splits)
    with new_rows_belong doc(1) show ?thesis by (auto simp: served_def list_ex_iff)
  qed
qed

lemma new_document_sel [simp]:
  "d_id (new_document d p i v n) = i" "d_doc_key (new_document d p i v n) = doc_key p"
  "d_version (new_document d p i v n) = v" "d_status (new_document d p i v n) = ''active''"
  "d_classification (new_document d p i v n) = dm_classification (pd_meta (ip_doc p))"
  "d_content_sha256 (new_document d p i v n) = ip_digest p" "d_embedding_model (new_document d p i v n) = ip_model p"
  "d_chunk_count (new_document d p i v n) = n"
  by (simp_all add: new_document_def Let_def)

text \<open>Once the active version is superseded its key has no active version.\<close>

lemma retired_free:
  assumes "one_active (kb_documents db)" and s: "s \<noteq> ''active''"
    and e: "e \<in> set (kb_documents (retire_active s now key (map_option d_id (active_version ingest_session key db)) db))"
      "is_active_version e"
  shows "d_doc_key e \<noteq> key"
proof (cases "active_version ingest_session key db")
  case None
  then show ?thesis
    using e active_version_None [of key db e] by (simp add: retire_active_def)
next
  case (Some a)
  then have "e \<in> set (filter is_active_version (retire s now (d_id a) (kb_documents db)))"
    using e by (simp add: retire_active_def)
  then have "e \<in> set (kb_documents db)" "d_id e \<noteq> d_id a"
    by (auto simp: retire_active_docs [OF s])
  with active_versionD [OF Some] assms(1) e(2) show ?thesis
    using one_active_unique [of "kb_documents db" e a] by auto
qed

lemma swap_ok:
  assumes ok: "index_ok db" and p: "dm_classification (pd_meta (ip_doc p)) \<in> set classifications"
  shows "index_ok (snd (swap_version d now p chunks vectors i db))"
proof (cases "unchanged_version p db")
  case (Some r)
  with ok show ?thesis by (simp add: swap_version_def)
next
  case None
  define key where "key = doc_key p"
  define old where "old = map_option d_id (active_version ingest_session key db)"
  define db1 where "db1 = retire_active ''superseded'' now key old db"
  define doc where "doc = new_document d p i (latest_version key db + 1) (length chunks)"
  have oldkey: "d_doc_key e = key" if "old = Some x" "e \<in> set (kb_documents db)" "d_id e = x" for e x
  proof -
    from that(1) obtain a where a: "active_version ingest_session key db = Some a" "d_id a = x"
      by (auto simp: old_def)
    from active_versionD [OF a(1)] have "a \<in> set (kb_documents db)" "d_doc_key a = key" by auto
    with that a(2) ok show ?thesis
      by (auto simp: index_ok_def distinct_map dest: inj_onD)
  qed
  have ok1: "index_ok db1"
    unfolding db1_def by (rule retire_active_ok [OF ok]) (use oldkey in auto)
  have docs1: "map (\<lambda>d. (d_doc_key d, d_version d)) (kb_documents db1) = map (\<lambda>d. (d_doc_key d, d_version d)) (kb_documents db)"
      "map d_id (kb_documents db1) = map d_id (kb_documents db)"
    by (simp_all add: db1_def retire_active_def split: option.splits)
  have ids: "d_id ` set (kb_documents db1) = d_id ` set (kb_documents db)"
    using arg_cong [OF docs1(2), of set] by simp
  have free: "d_doc_key e \<noteq> key" if "e \<in> set (kb_documents db1)" "is_active_version e" for e
    using retired_free [of db "''superseded''" e now key] that ok by (simp add: db1_def old_def index_ok_def)
  have fresh: "d_version e \<noteq> latest_version key db + 1" if "e \<in> set (kb_documents db1)" "d_doc_key e = key" for e
  proof -
    have "(d_doc_key e, d_version e) \<in> set (map (\<lambda>d. (d_doc_key d, d_version d)) (kb_documents db1))"
      using that(1) by auto
    then have "(d_doc_key e, d_version e) \<in> set (map (\<lambda>d. (d_doc_key d, d_version d)) (kb_documents db))"
      unfolding docs1(1) .
    then show ?thesis
      using latest_version_ge that(2) by fastforce
  qed
  have "index_ok (add_rows (index_table (d_classification doc)) (new_rows doc n chunks vectors)
           (db1\<lparr>kb_documents := kb_documents db1 @ [doc]\<rparr>))" if "i \<notin> d_id ` set (kb_documents db)" for n
    by (rule publish_ok [OF ok1]) (use that p free fresh ids in \<open>auto simp: doc_def key_def\<close>)
  then show ?thesis
    using None ok unfolding swap_version_def Let_def
    by (auto simp: db1_def old_def key_def doc_def)
qed

section \<open>Interleavings\<close>

text \<open>The knowledge tables and, for every running deactivation, the key and the version it has read. Swaps of one
  document are serialized by an advisory lock and a row lock; a deactivation takes neither before it writes.\<close>

record index_state =
  xs_kb :: knowledge_db
  xs_reads :: "(string \<times> string) list"

definition index_init :: "index_state \<Rightarrow> bool" where
  "index_init s \<longleftrightarrow> kb_documents (xs_kb s) = [] \<and> kb_chunks (xs_kb s) = [] \<and> kb_confidential (xs_kb s) = [] \<and> xs_reads s = []"

inductive index_step :: "ingest_deps \<Rightarrow> index_state \<Rightarrow> index_state \<Rightarrow> bool" for d where
  swapped: "index_step d s (s\<lparr>xs_kb := db'\<rparr>)"
    if "prepare d path = Inr p" "swap_version d now p (chunk_document (ip_doc p) (ip_chunker p)) vectors i (xs_kb s) = (r, db')"
| deactivation_reads: "index_step d s (s\<lparr>xs_reads := (key, i) # xs_reads s\<rparr>)"
    if "deactivate_read key (xs_kb s) = Some i"
| deactivation_writes: "index_step d s (s\<lparr>xs_kb := deactivate_write now key i (xs_kb s), xs_reads := remove1 (key, i) (xs_reads s)\<rparr>)"
    if "(key, i) \<in> set (xs_reads s)"

definition index_inv :: "index_state \<Rightarrow> bool" where
  "index_inv s \<longleftrightarrow> index_ok (xs_kb s)
     \<and> list_all (\<lambda>(key, i). list_ex (\<lambda>d. d_id d = i \<and> d_doc_key d = key) (kb_documents (xs_kb s))) (xs_reads s)"

lemma retire_has:
  "list_ex (\<lambda>d. d_id d = i \<and> d_doc_key d = key) (retire s now x ds) = list_ex (\<lambda>d. d_id d = i \<and> d_doc_key d = key) ds"
  by (induction ds) (auto simp: retire_def)

lemma retire_active_has:
  "list_ex (\<lambda>d. d_id d = i \<and> d_doc_key d = key) (kb_documents (retire_active s now k old db))
     = list_ex (\<lambda>d. d_id d = i \<and> d_doc_key d = key) (kb_documents db)"
  by (simp add: retire_active_def retire_has split: option.splits)

lemma swap_has:
  "swap_version dp now p chunks vectors j db = (r, db') \<Longrightarrow>
   list_ex (\<lambda>d. d_id d = i \<and> d_doc_key d = key) (kb_documents db) \<Longrightarrow>
   list_ex (\<lambda>d. d_id d = i \<and> d_doc_key d = key) (kb_documents db')"
  by (auto simp: swap_version_def Let_def retire_active_has split: option.splits if_splits)

lemma read_file_valid: "read_file d source = Inr doc \<Longrightarrow> dm_classification (pd_meta doc) \<in> set classifications"
  by (auto simp: read_file_def parse_file_def validate_meta_def split: option.splits sum.splits parse_error.splits if_splits prod.splits)

lemma prepare_valid:
  assumes "prepare d path = Inr p"
  shows "dm_classification (pd_meta (ip_doc p)) \<in> set classifications"
proof -
  obtain source where "read_file d source = Inr (ip_doc p)"
    using assms by (auto simp: prepare_def Let_def bind_result_Inr split: option.splits if_splits)
  then show ?thesis by (rule read_file_valid)
qed

interpretation index_run: invariant_system index_init "index_step d" index_inv for d
proof unfold_locales
  fix s assume "index_init s"
  then show "index_inv s"
    by (auto simp: index_init_def index_inv_def index_ok_def one_active_def version_unique_def kb_checked_def active_rows_def)
next
  fix s s' assume st: "index_step d s s'" and inv: "index_inv s"
  from st show "index_inv s'"
  proof (cases rule: index_step.cases)
    case (swapped path p now vectors i r db')
    have "index_ok db'"
      using swap_ok [OF _ prepare_valid [OF swapped(2)], of "xs_kb s" d now "chunk_document (ip_doc p) (ip_chunker p)" vectors i]
        inv swapped(3) by (simp add: index_inv_def)
    moreover have "list_all (\<lambda>(key, i). list_ex (\<lambda>d. d_id d = i \<and> d_doc_key d = key) (kb_documents db')) (xs_reads s)"
      using inv swap_has [OF swapped(3)] by (auto simp: index_inv_def list_all_iff)
    ultimately show ?thesis
      using swapped(1) by (simp add: index_inv_def)
  next
    case (deactivation_reads key i)
    then show ?thesis
      using inv by (auto simp: index_inv_def deactivate_read_def list_ex_iff dest!: active_versionD)
  next
    case (deactivation_writes key i now)
    have own: "d_doc_key e = key" if "Some i = Some x" "e \<in> set (kb_documents (xs_kb s))" "d_id e = x" for e x
    proof -
      obtain a where "a \<in> set (kb_documents (xs_kb s))" "d_id a = i" "d_doc_key a = key"
        using inv deactivation_writes by (auto simp: index_inv_def list_all_iff list_ex_iff)
      with that inv show ?thesis
        by (auto simp: index_inv_def index_ok_def distinct_map dest: inj_onD)
    qed
    have "index_ok (deactivate_write now key i (xs_kb s))"
      unfolding deactivate_write_def by (rule retire_active_ok) (use inv own in \<open>auto simp: index_inv_def\<close>)
    moreover have "list_all (\<lambda>(key, i). list_ex (\<lambda>d. d_id d = i \<and> d_doc_key d = key) (kb_documents (deactivate_write now key i (xs_kb s)))) (remove1 (key, i) (xs_reads s))"
      using inv set_remove1_subset [of "(key, i)" "xs_reads s"]
      by (auto simp: index_inv_def list_all_iff deactivate_write_def retire_active_has)
    ultimately show ?thesis
      using deactivation_writes by (auto simp: index_inv_def list_all_iff deactivate_write_def retire_active_has)
  qed
qed


text \<open>C12: The re-indexing invariant, over every interleaving of ingestions and deactivations from an empty index: at
  most one version of a document is active, its versions are numbered apart, confidential chunks lie in
  the confidential table and no other, and every active chunk belongs to the active version of its document,
  with its department and classification.\<close>

theorem index_consistent:
  assumes "index_init s0" "rtranclp (index_step d) s0 s"
  shows "one_active (kb_documents (xs_kb s)) \<and> version_unique (kb_documents (xs_kb s)) \<and> kb_checked (xs_kb s)
    \<and> list_all (served (xs_kb s)) (active_rows (xs_kb s) SharedChunks)
    \<and> list_all (served (xs_kb s)) (active_rows (xs_kb s) ConfidentialChunks)"
  using index_run.run_inv [OF assms] by (simp add: index_inv_def index_ok_def)

section \<open>What an ingestion publishes\<close>

text \<open>The rows of a document key that retrieval may match.\<close>

definition live_rows :: "string \<Rightarrow> knowledge_db \<Rightarrow> chunk_table \<Rightarrow> chunk_row list" where
  "live_rows key db t = filter (\<lambda>c. c_doc_key c = key \<and> c_is_active c) (rows_of_table db t)"

definition other_rows :: "string \<Rightarrow> knowledge_db \<Rightarrow> chunk_table \<Rightarrow> chunk_row list" where
  "other_rows key db t = filter (\<lambda>c. c_doc_key c \<noteq> key) (rows_of_table db t)"

definition version_row :: "int \<Rightarrow> chunk \<Rightarrow> int \<times> nat \<times> string \<times> string" where
  "version_row v c = (v, ch_index c, ch_text c, ch_embed_text c)"

definition stored_row :: "chunk_row \<Rightarrow> int \<times> nat \<times> string \<times> string" where
  "stored_row c = (c_version c, c_chunk_index c, c_content c, c_embed_text c)"

definition published :: "knowledge_db \<Rightarrow> knowledge_db \<Rightarrow> prepared \<Rightarrow> int \<Rightarrow> bool" where
  "published db db' p v \<longleftrightarrow>
     list_ex (\<lambda>doc. is_active_version doc \<and> d_doc_key doc = doc_key p \<and> d_version doc = v
        \<and> d_content_sha256 doc = ip_digest p \<and> d_embedding_model doc = ip_model p) (kb_documents db')
     \<and> list_all (\<lambda>t.
          map stored_row (live_rows (doc_key p) db' t)
            = (if t = index_table (dm_classification (pd_meta (ip_doc p)))
               then map (version_row v) (chunk_document (ip_doc p) (ip_chunker p)) else [])
          \<and> other_rows (doc_key p) db' t = other_rows (doc_key p) db t) [SharedChunks, ConfidentialChunks]"

lemma new_rows_stored:
  "length chunks = length vectors \<Longrightarrow> map stored_row (new_rows doc i chunks vectors) = map (version_row (d_version doc)) chunks"
  by (rule nth_equalityI) (auto simp: new_rows_def chunk_row_of_def stored_row_def version_row_def)

lemma other_deactivate: "filter (\<lambda>c. c_doc_key c \<noteq> key) (deactivate_rows key rows) = filter (\<lambda>c. c_doc_key c \<noteq> key) rows"
  by (induction rows) (auto simp: deactivate_rows_def)

lemma filter_belonging:
  "(\<And>c. c \<in> set rows \<Longrightarrow> belongs doc c \<and> c_is_active c) \<Longrightarrow>
   filter (\<lambda>c. c_doc_key c = d_doc_key doc \<and> c_is_active c) rows = rows
   \<and> filter (\<lambda>c. c_doc_key c \<noteq> d_doc_key doc) rows = []"
  by (auto simp: belongs_def filter_id_conv filter_empty_conv)

lemma swap_published:
  assumes s: "swap_version d now p (chunk_document (ip_doc p) (ip_chunker p)) vectors i db = (Inr r, db')"
    and u: "unchanged_version p db = None"
  shows "ir_doc_key r = doc_key p \<and> ir_outcome r = Indexed \<and> published db db' p (ir_version r)"
proof -
  define chunks where "chunks = chunk_document (ip_doc p) (ip_chunker p)"
  define v where "v = latest_version (doc_key p) db + 1"
  define doc where "doc = new_document d p i v (length chunks)"
  define db1 where "db1 = retire_active ''superseded'' now (doc_key p)
    (map_option d_id (active_version ingest_session (doc_key p) db)) db"
  define rows where "rows = new_rows doc (kb_next_chunk db) chunks vectors"
  have len: "length chunks = length vectors"
    and r: "r = \<lparr>ir_doc_key = doc_key p, ir_version = v, ir_outcome = Indexed, ir_chunks = length chunks\<rparr>"
    and db': "db' = add_rows (index_table (d_classification doc)) rows (db1\<lparr>kb_documents := kb_documents db1 @ [doc]\<rparr>)"
    using s u unfolding swap_version_def Let_def
    by (auto simp: chunks_def v_def doc_def db1_def rows_def split: if_splits)
  have t: "rows_of_table db' t = (if t = index_table (d_classification doc)
      then deactivate_rows (doc_key p) (rows_of_table db t) @ rows else deactivate_rows (doc_key p) (rows_of_table db t))" for t
    unfolding db' rows_add_rows by (cases t) (simp_all add: db1_def retire_active_def)
  have mine: "filter (\<lambda>c. c_doc_key c = doc_key p \<and> c_is_active c) rows = rows" "filter (\<lambda>c. c_doc_key c \<noteq> doc_key p) rows = []"
    using filter_belonging [of rows doc] new_rows_belong by (auto simp: rows_def doc_def)
  have "map stored_row rows = map (version_row v) chunks"
    unfolding rows_def using new_rows_stored [OF len] by (simp add: doc_def)
  then show ?thesis
    unfolding published_def r live_rows_def other_rows_def t
    by (simp add: mine deactivate_rows_none other_deactivate chunks_def [symmetric] db' doc_def)
qed

text \<open>C13: Ingestion is atomic and publishes exactly the document's chunks: a run that fails leaves the index as it
  was; one that reports unchanged does nothing at all; one that reports a new version leaves that version
  active with this content hash, its chunks - and no other row of the document, in either table - matched
  by retrieval, and the rows of every other document untouched.\<close>

theorem ingest_publishes:
  "case (prepare d path, ingest_file d now path w) of
     (Inl e, (res, w')) \<Rightarrow> res = Inl e \<and> w' = w
   | (Inr p, (Inl e, w')) \<Rightarrow> iw_kb w' = iw_kb w
   | (Inr p, (Inr r, w')) \<Rightarrow> ir_doc_key r = doc_key p
       \<and> (case ir_outcome r of Unchanged \<Rightarrow> w' = w | Indexed \<Rightarrow> published (iw_kb w) (iw_kb w') p (ir_version r))"
proof (cases "prepare d path")
  case (Inl e)
  then show ?thesis by (simp add: ingest_file_def)
next
  case (Inr p)
  show ?thesis
  proof (cases "unchanged_version p (iw_kb w)")
    case (Some r)
    then have "ir_doc_key r = doc_key p" "ir_outcome r = Unchanged"
      by (auto simp: unchanged_version_def split: option.splits if_splits)
    with Some Inr show ?thesis by (simp add: ingest_file_def index_document_def)
  next
    case None
    let ?chunks = "chunk_document (ip_doc p) (ip_chunker p)"
    obtain e st where em: "embed_batches d (ip_model p) (map ch_embed_text ?chunks) [] (iw_gateway w) = (e, st)"
      by (cases "embed_batches d (ip_model p) (map ch_embed_text ?chunks) [] (iw_gateway w)")
    show ?thesis
    proof (cases e)
      case (Inl x)
      with Inr None em show ?thesis by (simp add: ingest_file_def index_document_def Let_def del: embed_batches.simps)
    next
      case vectors: (Inr vectors)
      obtain res db' where sw: "swap_version d now p ?chunks vectors (id_uuid d (iw_uuids w)) (iw_kb w) = (res, db')"
        by (cases "swap_version d now p ?chunks vectors (id_uuid d (iw_uuids w)) (iw_kb w)")
      have "db' = iw_kb w" if "res = Inl x" for x
        using sw that None by (auto simp: swap_version_def Let_def split: if_splits)
      moreover have "ir_doc_key r = doc_key p \<and> ir_outcome r = Indexed \<and> published (iw_kb w) db' p (ir_version r)"
        if "res = Inr r" for r
        using swap_published [OF sw [unfolded that] None] .
      ultimately show ?thesis
        using Inr None em vectors sw
        by (cases res) (simp_all add: ingest_file_def index_document_def Let_def del: embed_batches.simps)
    qed
  qed
qed

section \<open>Idempotence\<close>

lemma active_version_last:
  assumes "kb_documents db = xs @ [doc]" "\<And>e. e \<in> set xs \<Longrightarrow> is_active_version e \<Longrightarrow> d_doc_key e \<noteq> key"
    and "d_doc_key doc = key" "is_active_version doc"
  shows "active_version ingest_session key db = Some doc"
proof -
  have "find (\<lambda>d. document_visible ingest_session d \<and> d_doc_key d = key \<and> d_status d = ''active'') (xs @ [doc]) = Some doc"
    using assms(2-4) by (induction xs) auto
  then show ?thesis by (simp add: active_version_def assms(1))
qed

lemma swap_then_unchanged:
  assumes s: "swap_version d now p chunks vectors i db = (Inr r, db')" and one: "one_active (kb_documents db)"
  shows "unchanged_version p db' = Some (r\<lparr>ir_outcome := Unchanged\<rparr>)"
proof (cases "unchanged_version p db")
  case (Some u)
  with s have "r = u" "db' = db" by (auto simp: swap_version_def)
  moreover have "u\<lparr>ir_outcome := Unchanged\<rparr> = u"
    using Some by (auto simp: unchanged_version_def split: option.splits if_splits)
  ultimately show ?thesis using Some by simp
next
  case None
  define v where "v = latest_version (doc_key p) db + 1"
  define doc where "doc = new_document d p i v (length chunks)"
  define db1 where "db1 = retire_active ''superseded'' now (doc_key p)
    (map_option d_id (active_version ingest_session (doc_key p) db)) db"
  have r: "r = \<lparr>ir_doc_key = doc_key p, ir_version = v, ir_outcome = Indexed, ir_chunks = length chunks\<rparr>"
    and docs: "kb_documents db' = kb_documents db1 @ [doc]"
    using s None unfolding swap_version_def Let_def by (auto simp: v_def doc_def db1_def split: if_splits)
  have "active_version ingest_session (doc_key p) db' = Some doc"
    by (rule active_version_last [OF docs])
      (use retired_free [OF one, of "''superseded''"] in \<open>auto simp: doc_def db1_def\<close>)
  then show ?thesis
    by (simp add: unchanged_version_def r doc_def)
qed

text \<open>Ingestion is idempotent: after a run that succeeded, running it again on the same file reports the same
  version as unchanged and does nothing: no row is written and no model is called.\<close>

theorem reingest_unchanged:
  assumes "ingest_file d now path w = (Inr r, w')" "one_active (kb_documents (iw_kb w))"
  shows "ingest_file d later path w' = (Inr (r\<lparr>ir_outcome := Unchanged\<rparr>), w')"
proof -
  obtain p where p: "prepare d path = Inr p" "index_document d now p w = (Inr r, w')"
    using assms(1) by (auto simp: ingest_file_def split: sum.splits)
  have "unchanged_version p (iw_kb w') = Some (r\<lparr>ir_outcome := Unchanged\<rparr>)"
  proof (cases "unchanged_version p (iw_kb w)")
    case (Some u)
    with p have "w' = w" "r = u" by (auto simp: index_document_def)
    with Some show ?thesis
      by (auto simp: unchanged_version_def split: option.splits if_splits)
  next
    case None
    then obtain chunks vectors i db' where
      "swap_version d now p chunks vectors i (iw_kb w) = (Inr r, db')" "iw_kb w' = db'"
      using p(2) by (auto simp: index_document_def Let_def simp del: embed_batches.simps split: sum.splits prod.splits)
    with swap_then_unchanged assms(2) show ?thesis by metis
  qed
  with p(1) show ?thesis
    by (simp add: ingest_file_def index_document_def)
qed

section \<open>A deactivation that comes late\<close>

text \<open>A deactivation that read the active version before a new one was swapped in, and writes after it, takes the new
  version's chunks out of the index but not the version itself: it stays active with no row to match, and ingesting
  the file again reports unchanged, so the document stays out of retrieval.\<close>

theorem late_deactivation_hides:
  assumes "deactivate_read (doc_key p) db = Some i"
    and swap: "swap_version d now p chunks vectors j db = (Inr r, db1)" and fresh: "ir_outcome r = Indexed"
    and one: "one_active (kb_documents db)"
  shows "unchanged_version p (deactivate_write later (doc_key p) i db1) = Some (r\<lparr>ir_outcome := Unchanged\<rparr>)
    \<and> live_rows (doc_key p) (deactivate_write later (doc_key p) i db1) t = []"
proof
  let ?db2 = "deactivate_write later (doc_key p) i db1"
  have un: "unchanged_version p db1 = Some (r\<lparr>ir_outcome := Unchanged\<rparr>)"
    by (rule swap_then_unchanged [OF swap one])
  have none: "unchanged_version p db = None"
    using swap fresh by (auto simp: swap_version_def unchanged_version_def split: option.splits if_splits)
  obtain v where docs: "kb_documents db1 = kb_documents (retire_active ''superseded'' now (doc_key p)
      (map_option d_id (active_version ingest_session (doc_key p) db)) db) @ [new_document d p j v (length chunks)]"
    and new: "j \<notin> d_id ` set (kb_documents db)"
    using swap none unfolding swap_version_def Let_def by (auto split: if_splits)
  let ?old = "kb_documents (retire_active ''superseded'' now (doc_key p)
      (map_option d_id (active_version ingest_session (doc_key p) db)) db)"
  have free: "d_doc_key e \<noteq> doc_key p" if "e \<in> set ?old" "is_active_version e" for e
    using retired_free [OF one _ that] by simp
  have later_free: "d_doc_key e \<noteq> doc_key p" if e: "e \<in> set (retire ''deleted'' later i ?old)" "is_active_version e" for e
    using e free by (auto simp: retire_def split: if_splits)
  have "i \<in> d_id ` set (kb_documents db)"
    using assms(1) by (auto simp: deactivate_read_def dest!: active_versionD)
  with new have "i \<noteq> j" by auto
  then have docs2: "kb_documents ?db2 = retire ''deleted'' later i ?old @ [new_document d p j v (length chunks)]"
    by (simp add: deactivate_write_def retire_active_def [of "''deleted''"] docs retire_def)
  have "active_version ingest_session (doc_key p) ?db2 = Some (new_document d p j v (length chunks))"
    by (rule active_version_last [OF docs2 later_free]) auto
  moreover have "active_version ingest_session (doc_key p) db1 = Some (new_document d p j v (length chunks))"
    by (rule active_version_last [OF docs free]) auto
  ultimately show "unchanged_version p ?db2 = Some (r\<lparr>ir_outcome := Unchanged\<rparr>)"
    using un by (simp add: unchanged_version_def)
  show "live_rows (doc_key p) ?db2 t = []"
    by (simp add: live_rows_def deactivate_write_def rows_retire_active deactivate_rows_none)
qed

section \<open>What the content hash pins\<close>

lemma hash_payload_wf: "json_wf (hash_payload doc chunker)"
  by (auto simp: hash_payload_def meta_json_def opt_str_def list_all_iff split: option.splits)

definition block_content :: "block \<Rightarrow> string \<times> string list" where
  "block_content b = (bl_text b, bl_headings b)"

definition block_json :: "string \<times> string list \<Rightarrow> json" where
  "block_json b = JList [JStr (fst b), JList (map JStr (snd b))]"

lemma canon_strings: "map canon (map JStr xs) = map JStr xs"
  by (induction xs) auto

lemma canon_block_json: "map canon (map block_json bs) = map block_json bs"
  by (induction bs) (simp_all add: block_json_def canon_strings [unfolded map_map])

lemma block_json_inj: "map block_json bs = map block_json cs \<Longrightarrow> bs = cs"
proof (rule map_injective)
  have strs: "map JStr xs = map JStr ys \<Longrightarrow> xs = ys" for xs ys
    by (rule map_injective [of JStr]) (simp_all add: inj_def)
  show "inj block_json"
    by (rule injI) (auto simp: block_json_def prod_eq_iff dest!: strs)
qed

lemma hash_payload_fields:
  "hash_payload doc chunker = JObj [(''meta'', meta_json (pd_meta doc)),
     (''blocks'', JList (map block_json (map block_content (pd_blocks doc)))), (''chunker'', JStr chunker)]"
  by (simp add: hash_payload_def block_json_def block_content_def comp_def)

lemma opt_json_inject: "canon (opt_str a) = canon (opt_str b) \<Longrightarrow> a = b"
  by (auto simp: opt_str_def split: option.splits)

lemma meta_json_inject:
  fixes m n :: document_meta
  assumes "canon (meta_json m) = canon (meta_json n)"
  shows "m = n"
proof -
  define f where "f m = [(''document_id'', JStr (dm_document_id m)), (''title'', JStr (dm_title m)),
           (''department'', JStr (dm_department m)), (''classification'', JStr (dm_classification m)),
           (''updated_at'', JStr (dm_updated_at m)), (''source'', opt_str (dm_source m))]" for m :: document_meta
  have c: "canon (JObj (f m)) = canon (JObj (f n))"
    using assms by (simp only: meta_json_def f_def)
  have dn: "distinct (map fst (f n))" by (simp add: f_def)
  note field = canon_field [OF c dn]
  have "canon (JStr (dm_document_id m)) = canon (JStr (dm_document_id n))" by (rule field [of "''document_id''"]) (simp_all add: f_def)
  moreover have "canon (JStr (dm_title m)) = canon (JStr (dm_title n))" by (rule field [of "''title''"]) (simp_all add: f_def)
  moreover have "canon (JStr (dm_department m)) = canon (JStr (dm_department n))" by (rule field [of "''department''"]) (simp_all add: f_def)
  moreover have "canon (JStr (dm_classification m)) = canon (JStr (dm_classification n))" by (rule field [of "''classification''"]) (simp_all add: f_def)
  moreover have "canon (JStr (dm_updated_at m)) = canon (JStr (dm_updated_at n))" by (rule field [of "''updated_at''"]) (simp_all add: f_def)
  moreover have "canon (opt_str (dm_source m)) = canon (opt_str (dm_source n))" by (rule field [of "''source''"]) (simp_all add: f_def)
  ultimately show ?thesis
    using opt_json_inject by (simp add: document_meta.equality)
qed

text \<open>The content hash pins what it should: documents with the same hash have the same metadata, the same texts under
  the same headings in the same order and the same chunking, or a SHA-256 collision is at hand; and nothing
  else is pinned, so the pages a text lies on, the file's path and its type do not cause a re-indexing.\<close>

theorem content_hash_pins:
  fixes doc doc' :: parsed_document
  shows "(content_hash sha doc chunker = content_hash sha doc' chunker')
      = (pd_meta doc = pd_meta doc' \<and> map block_content (pd_blocks doc) = map block_content (pd_blocks doc') \<and> chunker = chunker')
    \<or> (\<exists>x y. x \<noteq> y \<and> sha x = sha y)" (is "_ = ?same \<or> _")
proof (rule disjCI)
  assume free: "\<not> (\<exists>x y. x \<noteq> y \<and> sha x = sha y)"
  show "(content_hash sha doc chunker = content_hash sha doc' chunker') = ?same"
  proof
    assume ?same
    then show "content_hash sha doc chunker = content_hash sha doc' chunker'"
      by (simp add: content_hash_def hash_payload_fields)
  next
    assume "content_hash sha doc chunker = content_hash sha doc' chunker'"
    then have "dumps_sorted (hash_payload doc chunker) = dumps_sorted (hash_payload doc' chunker')"
      using free by (auto simp: content_hash_def)
    from dumps_sorted_inject [OF hash_payload_wf hash_payload_wf this]
    have c: "canon (hash_payload doc chunker) = canon (hash_payload doc' chunker')" .
    note field = canon_field [OF c [unfolded hash_payload_fields]]
    have "canon (meta_json (pd_meta doc)) = canon (meta_json (pd_meta doc'))" by (rule field [of "''meta''"]) simp_all
    moreover have "canon (JStr chunker) = canon (JStr chunker')" by (rule field [of "''chunker''"]) simp_all
    moreover have "canon (JList (map block_json (map block_content (pd_blocks doc))))
        = canon (JList (map block_json (map block_content (pd_blocks doc'))))" by (rule field [of "''blocks''"]) simp_all
    then have "map block_content (pd_blocks doc) = map block_content (pd_blocks doc')"
      by (intro block_json_inj) (simp only: canon.simps canon_block_json json.inject)
    ultimately show ?same
      using meta_json_inject by simp
  qed
qed

section \<open>Confidential documents stay on the premises\<close>

lemma embed_batches_calls:
  assumes "resolve (gw_catalog (id_gateway d)) (Some m) Embedding = Inr (n, targets)"
  shows "calls_from (\<lambda>c. call_spec c \<in> set targets) st (snd (embed_batches d m texts vectors st))"
  using assms
proof (induction d m texts vectors st rule: embed_batches.induct)
  case (1 d m texts vectors st)
  show ?case
  proof (cases "texts = []")
    case False
    obtain e st' where em: "embed (id_gateway d) (id_rnd d) (id_ask d) (Some m) (take EMBED_BATCH texts) ''passage'' st = (e, st')"
      by (cases "embed (id_gateway d) (id_rnd d) (id_ask d) (Some m) (take EMBED_BATCH texts) ''passage'' st")
    have c: "calls_from (\<lambda>c. call_spec c \<in> set targets) st st'"
      using embed_calls [OF 1(2), of st "id_rnd d" "id_ask d" "take EMBED_BATCH texts" "''passage''"] em by simp
    show ?thesis
    proof (cases e)
      case (Inl x)
      with c False em show ?thesis by (subst embed_batches.simps) simp
    next
      case (Inr out)
      from 1(1) [OF False em [symmetric] Inr 1(2)] calls_from_trans [OF c] False em Inr
      show ?thesis by (subst embed_batches.simps) simp
    qed
  qed (simp add: calls_from_def)
qed

lemma resolve_embedding_model:
  assumes wf: "catalog_wf c" and m: "model c i = Inr spec" "i \<noteq> []"
    and r: "resolve c (Some i) Embedding = Inr (n, targets)"
  shows "targets = [spec]"
proof -
  have "i \<in> set (map ms_id (cat_models c))"
    using m by (auto simp: model_def split: option.splits dest: find_SomeD)
  have "dict_get (cat_routes c) i = None"
  proof (cases "dict_get (cat_routes c) i")
    case (Some ts)
    then have "(i, ts) \<in> set (cat_routes c)" by (rule map_of_SomeD)
    with wf have "i \<notin> set (map ms_id (cat_models c))"
      unfolding catalog_wf_def by blast
    with \<open>i \<in> _\<close> show ?thesis by blast
  qed
  with r m show ?thesis
    by (auto simp: resolve_def Let_def route_of_def nonempty_def route_targets_def bind_result_Inr split: if_splits)
qed

lemma prepare_confidential:
  assumes "prepare d path = Inr p" "dm_classification (pd_meta (ip_doc p)) = ''confidential''"
  obtains spec where "model (gw_catalog (id_gateway d)) (ip_model p) = Inr spec" "\<not> has_egress (id_gateway d) spec"
    "ip_model p = se_index_embedding_model (id_settings d)"
  using assms
  by (auto simp: prepare_def Let_def bind_result_Inr check_embedding_model_def has_egress_def
      split: option.splits if_splits sum.splits)

text \<open>C36: A confidential document never leaves the premises on its way into the index: with a validated catalog, no model
  that ingesting one calls is served by a provider marked as sending data off-box, whatever the providers answer.\<close>

theorem confidential_ingest_contained:
  assumes wf: "catalog_wf (gw_catalog (id_gateway d))" and m: "se_index_embedding_model (id_settings d) \<noteq> []"
    and p: "prepare d path = Inr p" "dm_classification (pd_meta (ip_doc p)) = ''confidential''"
  shows "list_all (\<lambda>c. \<not> has_egress (id_gateway d) (call_spec c))
    (new_calls (iw_gateway w) (iw_gateway (snd (ingest_file d now path w))))"
proof -
  obtain spec where spec: "model (gw_catalog (id_gateway d)) (ip_model p) = Inr spec" "\<not> has_egress (id_gateway d) spec"
    "ip_model p = se_index_embedding_model (id_settings d)"
    using prepare_confidential [OF p] .
  let ?em = "embed_batches d (ip_model p) (map ch_embed_text (chunk_document (ip_doc p) (ip_chunker p))) [] (iw_gateway w)"
  have only: "calls_from (\<lambda>c. \<not> has_egress (id_gateway d) (call_spec c)) (iw_gateway w) (snd ?em)"
  proof (cases "resolve (gw_catalog (id_gateway d)) (Some (ip_model p)) Embedding")
    case (Inl e)
    then have "snd ?em = iw_gateway w"
      by (subst embed_batches.simps) (simp add: embed_def)
    then show ?thesis by (simp add: calls_from_def)
  next
    case (Inr r)
    then obtain n targets where r: "resolve (gw_catalog (id_gateway d)) (Some (ip_model p)) Embedding = Inr (n, targets)"
      by (cases r) auto
    have "targets = [spec]"
      using resolve_embedding_model [OF wf spec(1) _ r] m spec(3) by simp
    with spec(2) show ?thesis
      by (intro calls_from_mono [OF embed_batches_calls [OF r]]) auto
  qed
  have "iw_gateway (snd (ingest_file d now path w)) = iw_gateway w
    \<or> iw_gateway (snd (ingest_file d now path w)) = snd ?em"
    using p(1) by (auto simp: ingest_file_def index_document_def Let_def simp del: embed_batches.simps
        split: option.splits prod.splits sum.splits)
  with only show ?thesis by (auto simp: calls_from_def)
qed

section \<open>A concrete ingestion\<close>

definition demo_file :: source_file where
  "demo_file =
     \<lparr>sf_path = ''/kb/vpn.txt'', sf_name = ''vpn.txt'', sf_suffix = ''.txt'', sf_text = ''Connect first.'', sf_pages = [],
      sf_sidecar = SidecarJson (JObj [(''document_id'', JStr ''KB-IT-001''), (''title'', JStr ''VPN''), (''department'', JStr ''it''),
        (''classification'', JStr ''confidential''), (''updated_at'', JStr ''2025-01-01'')]), sf_broken = None\<rparr>"

text \<open>The provider answers each input with a vector of 768 zeros.\<close>

definition demo_vectors :: "string list \<Rightarrow> embedding_result" where
  "demo_vectors texts = \<lparr>er_vectors = map (\<lambda>_. replicate 768 0) texts, er_usage = \<lparr>prompt_tokens = 1, completion_tokens = 0, usage_estimated = False\<rparr>\<rparr>"

definition demo_ingest :: ingest_deps where
  "demo_ingest =
     \<lparr>id_nfkc = (\<lambda>x. x), id_date = Some, id_resolve = (\<lambda>x. x), id_read = (\<lambda>_. Some demo_file), id_sha = (\<lambda>x. x),
      id_uuid = nat_str, id_departments = [''it''],
      id_settings = default_settings\<lparr>se_index_embedding_model := ''ollama/e'', se_knowledge_root := ''/kb''\<rparr>,
      id_gateway = demo_gateway, id_rnd = (\<lambda>_. 0), id_ask = (\<lambda>_ _ texts _. (1, Returned (demo_vectors texts)))\<rparr>"

definition demo_index :: ingest_world where
  "demo_index =
     \<lparr>iw_kb = \<lparr>kb_documents = [], kb_chunks = [], kb_confidential = [], kb_next_chunk = 1\<rparr>,
      iw_gateway = \<lparr>st_now = 0, st_breakers = new_registry 5 30, st_recorded = [], st_calls = []\<rparr>, iw_uuids = 0\<rparr>"

lemma demo_read: "read_file demo_ingest ''/kb/vpn.txt'' = Inr
  \<lparr>pd_meta = \<lparr>dm_document_id = ''KB-IT-001'', dm_title = ''VPN'', dm_department = ''it'', dm_classification = ''confidential'',
     dm_updated_at = ''2025-01-01'', dm_source = None\<rparr>,
   pd_blocks = [\<lparr>bl_text = ''Connect first.'', bl_kind = ParagraphBlock, bl_page = None, bl_headings = [], bl_level = 0\<rparr>],
   pd_mime_type = ''text/plain'', pd_source_path = ''/kb/vpn.txt'', pd_raw_text = ''Connect first.''\<rparr>"
  by code_simp


definition demo_prepared :: prepared where
  "demo_prepared = (case prepare demo_ingest ''/kb/vpn.txt'' of Inr p \<Rightarrow> p)"

lemma demo_resolve_path: "resolve_within_root (\<lambda>x. x) ''/kb/vpn.txt'' ''/kb'' = Inr ''/kb/vpn.txt''"
  by code_simp

lemma demo_prepare: "prepare demo_ingest ''/kb/vpn.txt'' = Inr demo_prepared"
  and demo_prepared_doc: "read_file demo_ingest ''/kb/vpn.txt'' = Inr (ip_doc demo_prepared)"
  and demo_prepared_model: "ip_model demo_prepared = ''ollama/e''" "ip_chunker demo_prepared = default_chunking"
proof -
  have m: "check_embedding_model (id_gateway demo_ingest) ''ollama/e'' = Inr (demo_model ''ollama/e'' ''ollama'' Embedding (Some 768))"
    by (simp add: check_embedding_model_def demo_ingest_def demo_gateway_def demo_catalog_def model_def demo_model_def INDEX_DIMENSIONS_def)
  have c: "chunking_config_of (id_settings demo_ingest) = default_chunking"
    by (simp add: chunking_config_of_def demo_ingest_def default_settings_def default_chunking_def)
  obtain doc where doc: "read_file demo_ingest ''/kb/vpn.txt'' = Inr doc" "dm_classification (pd_meta doc) = ''confidential''"
    using demo_read by simp
  have p: "prepare demo_ingest ''/kb/vpn.txt'' = Inr \<lparr>ip_source = ''/kb/vpn.txt'', ip_doc = doc, ip_model = ''ollama/e'',
      ip_chunker = default_chunking, ip_digest = content_hash (id_sha demo_ingest) doc (chunker_id default_chunking)\<rparr>"
  proof -
    have s: "se_index_embedding_model (id_settings demo_ingest) = ''ollama/e''" "se_knowledge_root (id_settings demo_ingest) = ''/kb''"
        "id_resolve demo_ingest = (\<lambda>x. x)"
        "dict_get (cat_providers (gw_catalog (id_gateway demo_ingest))) ''ollama'' = Some (demo_provider Ollama False)"
      by (simp_all add: demo_ingest_def demo_gateway_def demo_catalog_def)
    have mp: "ms_provider (demo_model ''ollama/e'' ''ollama'' Embedding (Some 768)) = ''ollama''"
        "pc_data_egress (demo_provider Ollama False) = False"
      by (simp_all add: demo_model_def demo_provider_def)
    show ?thesis
      unfolding prepare_def Let_def s m c demo_resolve_path bind_result.simps doc(1) mp by (simp add: s mp)
  qed
  then have dp: "demo_prepared = \<lparr>ip_source = ''/kb/vpn.txt'', ip_doc = doc, ip_model = ''ollama/e'',
      ip_chunker = default_chunking, ip_digest = content_hash (id_sha demo_ingest) doc (chunker_id default_chunking)\<rparr>"
    by (simp add: demo_prepared_def)
  have dd: "ip_doc demo_prepared = doc" "ip_model demo_prepared = ''ollama/e''" "ip_chunker demo_prepared = default_chunking"
    unfolding dp by simp_all
  show "prepare demo_ingest ''/kb/vpn.txt'' = Inr demo_prepared"
    "read_file demo_ingest ''/kb/vpn.txt'' = Inr (ip_doc demo_prepared)"
    "ip_model demo_prepared = ''ollama/e''" "ip_chunker demo_prepared = default_chunking"
    using p doc(1) unfolding dd dp by simp_all
qed

lemma demo_doc: "ip_doc demo_prepared =
  \<lparr>pd_meta = \<lparr>dm_document_id = ''KB-IT-001'', dm_title = ''VPN'', dm_department = ''it'', dm_classification = ''confidential'',
     dm_updated_at = ''2025-01-01'', dm_source = None\<rparr>,
   pd_blocks = [\<lparr>bl_text = ''Connect first.'', bl_kind = ParagraphBlock, bl_page = None, bl_headings = [], bl_level = 0\<rparr>],
   pd_mime_type = ''text/plain'', pd_source_path = ''/kb/vpn.txt'', pd_raw_text = ''Connect first.''\<rparr>"
  using demo_prepared_doc demo_read by simp

lemma demo_chunk_count: "length (chunk_document (ip_doc demo_prepared) (ip_chunker demo_prepared)) = 1"
  unfolding demo_doc demo_prepared_model by code_simp

lemma demo_embed:
  assumes "length texts = 1" 
  shows "\<exists>st. embed_batches demo_ingest ''ollama/e'' texts [] (iw_gateway demo_index) = (Inr [replicate 768 0], st)"
proof -
  obtain t where t: "texts = [t]" using assms by (cases texts) auto
  have r: "resolve (gw_catalog demo_gateway) (Some ''ollama/e'') Embedding = Inr (''ollama/e'', [demo_model ''ollama/e'' ''ollama'' Embedding (Some 768)])"
    by (simp add: resolve_def Let_def route_of_def nonempty_def route_targets_def demo_gateway_def demo_catalog_def demo_model_def model_def)
  have "\<exists>out st. embed demo_gateway (\<lambda>_. 0) (\<lambda>_ _ texts _. (1, Returned (demo_vectors texts))) (Some ''ollama/e'') [t] ''passage'' (iw_gateway demo_index)
      = (Inr out, st) \<and> er_vectors (co_result out) = [replicate 768 0]"
    unfolding embed_def r
    by (simp add: run_def finish_call_def admit_def Let_def is_available_def embedding_provider_def demo_gateway_def demo_catalog_def
        demo_model_def demo_provider_def demo_index_def get_breaker_def put_breaker_def new_registry_def new_breaker_def breaker_defs
        one_attempt_def timed_call_def begin_call_def embed_invoke_def dimensions_ok_def demo_vectors_def attempt_succeeded_def
        upt_rec skipped_attempt_def dict_has_def)
  then show ?thesis
    by (auto simp: t demo_ingest_def EMBED_BATCH_def)
qed


lemma demo_swap:
  assumes "unchanged_version p db = None" "d_id ` set (kb_documents db) \<subseteq> {''0''}" "i \<noteq> ''0'' \<or> kb_documents db = []"
    "dm_department (pd_meta (ip_doc p)) = ''it''" "length chunks = 1"
  shows "\<exists>r db'. swap_version demo_ingest now p chunks [replicate 768 0] i db = (Inr r, db') \<and> ir_outcome r = Indexed"
  using assms by (auto simp: swap_version_def Let_def new_document_def demo_ingest_def INDEX_DIMENSIONS_def)

lemma demo_department: "dm_department (pd_meta (ip_doc demo_prepared)) = ''it''"
  "dm_classification (pd_meta (ip_doc demo_prepared)) = ''confidential''" "doc_key demo_prepared = ''KB-IT-001''"
  unfolding demo_doc by simp_all

lemma demo_empty: "unchanged_version demo_prepared (iw_kb demo_index) = None"
  by (simp add: unchanged_version_def active_version_def demo_index_def)

lemma demo_ingested:
  obtains r w db st where "ingest_file demo_ingest 5 ''/kb/vpn.txt'' demo_index = (Inr r, w)" "ir_outcome r = Indexed"
    "swap_version demo_ingest 5 demo_prepared (chunk_document (ip_doc demo_prepared) (ip_chunker demo_prepared)) [replicate 768 0] ''0''
       (iw_kb demo_index) = (Inr r, db)" "iw_kb w = db"
proof -
  let ?chunks = "chunk_document (ip_doc demo_prepared) (ip_chunker demo_prepared)"
  obtain st where em: "embed_batches demo_ingest ''ollama/e'' (map ch_embed_text ?chunks) [] (iw_gateway demo_index) = (Inr [replicate 768 0], st)"
    using demo_embed [of "map ch_embed_text ?chunks"] demo_chunk_count by auto
  obtain r db where sw: "swap_version demo_ingest 5 demo_prepared ?chunks [replicate 768 0] ''0'' (iw_kb demo_index) = (Inr r, db)"
    "ir_outcome r = Indexed"
    using demo_swap [OF demo_empty _ _ demo_department(1) demo_chunk_count, of "''0''" 5] by (auto simp: demo_index_def)
  have i: "id_uuid demo_ingest (iw_uuids demo_index) = ''0''"
    by (simp add: demo_ingest_def demo_index_def) code_simp
  have "ingest_file demo_ingest 5 ''/kb/vpn.txt'' demo_index
      = (Inr r, demo_index\<lparr>iw_kb := db, iw_gateway := st, iw_uuids := iw_uuids demo_index + 1\<rparr>)"
    unfolding ingest_file_def demo_prepare sum.case index_document_def demo_empty option.case Let_def demo_prepared_model(1)
      em prod.case i sw ..
  with sw that show thesis by simp
qed

theorem reingest_unchanged_witness:
  "\<exists>r w. ingest_file demo_ingest 5 ''/kb/vpn.txt'' demo_index = (Inr r, w) \<and> ir_outcome r = Indexed
     \<and> ingest_file demo_ingest 9 ''/kb/vpn.txt'' w = (Inr (r\<lparr>ir_outcome := Unchanged\<rparr>), w)"
proof -
  obtain r w db where g: "ingest_file demo_ingest 5 ''/kb/vpn.txt'' demo_index = (Inr r, w)" "ir_outcome r = Indexed"
    by (rule demo_ingested)
  from reingest_unchanged [OF g(1), of 9] g show ?thesis
    by (auto simp: demo_index_def one_active_def)
qed

theorem index_consistent_witness:
  "\<exists>s. rtranclp (index_step demo_ingest) \<lparr>xs_kb = iw_kb demo_index, xs_reads = []\<rparr> s
     \<and> kb_documents (xs_kb s) \<noteq> [] \<and> one_active (kb_documents (xs_kb s))"
proof -
  obtain r w db where g: "swap_version demo_ingest 5 demo_prepared (chunk_document (ip_doc demo_prepared) (ip_chunker demo_prepared))
      [replicate 768 0] ''0'' (iw_kb demo_index) = (Inr r, db)" "ir_outcome r = Indexed"
    by (rule demo_ingested)
  let ?s = "\<lparr>xs_kb = iw_kb demo_index, xs_reads = []\<rparr>"
  have "index_step demo_ingest ?s (?s\<lparr>xs_kb := db\<rparr>)"
    by (rule index_step.swapped [OF demo_prepare, where now = 5 and vectors = "[replicate 768 0]" and i = "''0''" and r = "Inr r"])
      (simp only: g(1) index_state.simps)
  then have st: "rtranclp (index_step demo_ingest) ?s (?s\<lparr>xs_kb := db\<rparr>)" by blast
  have "index_init ?s" by (simp add: index_init_def demo_index_def)
  from index_consistent [OF this st] have "one_active (kb_documents db)" by simp
  moreover have "kb_documents db \<noteq> []"
    using g demo_empty by (auto simp: swap_version_def Let_def split: if_splits)
  ultimately show ?thesis using st by (intro exI [of _ "?s\<lparr>xs_kb := db\<rparr>"]) simp
qed

theorem confidential_ingest_contained_witness:
  "\<exists>r w. ingest_file demo_ingest 5 ''/kb/vpn.txt'' demo_index = (Inr r, w) \<and> ir_outcome r = Indexed
     \<and> list_all (\<lambda>c. \<not> has_egress demo_gateway (call_spec c)) (new_calls (iw_gateway demo_index) (iw_gateway w))"
proof -
  have e: "id_gateway demo_ingest = demo_gateway" by (simp add: demo_ingest_def)
  obtain r w db where g: "ingest_file demo_ingest 5 ''/kb/vpn.txt'' demo_index = (Inr r, w)" "ir_outcome r = Indexed"
    by (rule demo_ingested)
  have "catalog_wf (gw_catalog (id_gateway demo_ingest))" "se_index_embedding_model (id_settings demo_ingest) \<noteq> []"
    using demo_catalog_wf by (simp_all add: demo_ingest_def demo_gateway_def)
  from confidential_ingest_contained [OF this demo_prepare demo_department(2), of demo_index 5] g e show ?thesis by simp
qed

theorem late_deactivation_hides_witness:
  "\<exists>db p i r db1. deactivate_read (doc_key p) db = Some i
     \<and> swap_version demo_ingest 7 p (chunk_document (ip_doc p) (ip_chunker p)) [replicate 768 0] ''1'' db = (Inr r, db1)
     \<and> ir_outcome r = Indexed \<and> live_rows (doc_key p) (deactivate_write 9 (doc_key p) i db1) ConfidentialChunks = []
     \<and> unchanged_version p (deactivate_write 9 (doc_key p) i db1) \<noteq> None"
proof -
  obtain r0 w db where g: "swap_version demo_ingest 5 demo_prepared (chunk_document (ip_doc demo_prepared) (ip_chunker demo_prepared))
      [replicate 768 0] ''0'' (iw_kb demo_index) = (Inr r0, db)"
    by (rule demo_ingested)
  define p where "p = demo_prepared\<lparr>ip_digest := ip_digest demo_prepared @ ''x''\<rparr>"
  have p: "ip_doc p = ip_doc demo_prepared" "ip_chunker p = ip_chunker demo_prepared" "ip_digest p = ip_digest demo_prepared @ ''x''"
    by (simp_all add: p_def)
  define doc where "doc = new_document demo_ingest demo_prepared ''0'' (latest_version (doc_key demo_prepared) (iw_kb demo_index) + 1)
      (length (chunk_document (ip_doc demo_prepared) (ip_chunker demo_prepared)))"
  have docs: "kb_documents db = [] @ [doc]"
    using g demo_empty unfolding swap_version_def Let_def
    by (auto simp: doc_def demo_index_def retire_active_def active_version_def split: if_splits)
  have act: "active_version ingest_session (doc_key p) db = Some doc"
    by (rule active_version_last [OF docs]) (simp_all add: doc_def p)
  then have i: "deactivate_read (doc_key p) db = Some ''0''"
    by (simp add: deactivate_read_def doc_def)
  have un: "unchanged_version p db = None"
    unfolding unchanged_version_def act by (simp add: doc_def p)
  obtain r db1 where sw: "swap_version demo_ingest 7 p (chunk_document (ip_doc p) (ip_chunker p)) [replicate 768 0] ''1'' db = (Inr r, db1)"
    "ir_outcome r = Indexed"
    using demo_swap [OF un, of "''1''" "chunk_document (ip_doc p) (ip_chunker p)" 7] demo_department(1) demo_chunk_count
    by (auto simp: p docs doc_def)
  have "one_active (kb_documents db)" by (simp add: docs one_active_def)
  from late_deactivation_hides [OF i sw this, of 9 ConfidentialChunks] i sw show ?thesis
    by (intro exI [of _ db] exI [of _ p] exI [of _ "''0''"] exI [of _ r] exI [of _ db1]) simp
qed

end
