(* ===== verification/Worker.thy ===== *)
theory Worker
  imports IngestProps
begin

text \<open>
  \<open>worker.py\<close>: the ingestion job, one attempt of the actor, and the retries. The queue (Dramatiq) is used as its
  documentation has it: a message whose actor raises is delivered again, with its retry count one higher, as long
  as \<open>retry_when\<close> says so. What an attempt meets from outside is its fate: whether the job row can be updated,
  whether the time limit or a shutdown cuts the attempt off (an interrupt is no \<open>Exception\<close>), and what
  others did to the index before.
\<close>

section \<open>Jobs\<close>

record ingestion_job =
  j_id :: string
  j_source_path :: string
  j_status :: string
  j_attempts :: nat
  j_doc_key :: "string option"
  j_version :: "int option"
  j_detail :: "string option"

definition MAX_RETRIES :: nat where "MAX_RETRIES = 3"

datatype job_exception = JobRaised ingest_error | DatabaseDown | Interrupted

definition permanent :: "job_exception \<Rightarrow> bool" where
  "permanent e =
     (case e of
        JobRaised (IngestParseError _) \<Rightarrow> True
      | JobRaised (IngestionPolicyError _) \<Rightarrow> True
      | JobRaised (FileNotFound _) \<Rightarrow> True
      | _ \<Rightarrow> False)"

definition retry_when :: "nat \<Rightarrow> job_exception \<Rightarrow> bool" where
  "retry_when retries e \<longleftrightarrow> retries < MAX_RETRIES \<and> \<not> permanent e"

datatype cut = NotCut | CutBeforeCommit | CutAfterCommit

record fate =
  ft_start_ok :: bool
  ft_cut :: cut
  ft_end_ok :: bool
  ft_others :: "ingest_world \<Rightarrow> ingest_world"
  ft_now :: int

section \<open>One attempt\<close>

definition job_failed :: "(ingest_error \<Rightarrow> string) \<Rightarrow> nat \<Rightarrow> ingest_error \<Rightarrow> ingestion_job \<Rightarrow> ingestion_job" where
  "job_failed explain retries e job =
     job\<lparr>j_status := (if permanent (JobRaised e) then ''failed'' else if MAX_RETRIES \<le> retries then ''dead'' else ''queued''),
         j_detail := Some (take 500 (explain e))\<rparr>"

definition job_succeeded :: "ingest_result \<Rightarrow> ingestion_job \<Rightarrow> ingestion_job" where
  "job_succeeded r job =
     job\<lparr>j_status := (case ir_outcome r of Indexed \<Rightarrow> ''succeeded'' | Unchanged \<Rightarrow> ''unchanged''),
         j_doc_key := Some (ir_doc_key r), j_version := Some (ir_version r),
         j_detail := Some (nat_str (ir_chunks r) @ '' chunks'')\<rparr>"

definition ingest_document ::
  "ingest_deps \<Rightarrow> (ingest_error \<Rightarrow> string) \<Rightarrow> fate \<Rightarrow> nat \<Rightarrow> ingestion_job \<times> ingest_world
   \<Rightarrow> job_exception option \<times> ingestion_job \<times> ingest_world" where
  "ingest_document d explain f retries s =
     (let job = fst s; w = ft_others f (snd s) in
      if \<not> ft_start_ok f then (Some DatabaseDown, job, w)
      else
        let job1 = job\<lparr>j_status := ''running'', j_attempts := retries + 1\<rparr> in
        if ft_cut f = CutBeforeCommit then (Some Interrupted, job1, w)
        else
          (case ingest_file d (ft_now f) (j_source_path job) w of
             (r, w') \<Rightarrow>
               if ft_cut f = CutAfterCommit then (Some Interrupted, job1, w')
               else (case r of
                       Inl e \<Rightarrow>
                         if ft_end_ok f then (Some (JobRaised e), job_failed explain retries e job1, w')
                         else (Some DatabaseDown, job1, w')
                     | Inr result \<Rightarrow>
                         if ft_end_ok f then (None, job_succeeded result job1, w')
                         else (Some DatabaseDown, job1, w'))))"

section \<open>Delivery\<close>

function run_job ::
  "ingest_deps \<Rightarrow> (ingest_error \<Rightarrow> string) \<Rightarrow> (nat \<Rightarrow> fate) \<Rightarrow> nat \<Rightarrow> ingestion_job \<times> ingest_world \<Rightarrow> ingestion_job \<times> ingest_world" where
  "run_job d explain fates retries s =
     (case ingest_document d explain (fates retries) retries s of
        (None, s') \<Rightarrow> s'
      | (Some e, s') \<Rightarrow> if retry_when retries e then run_job d explain fates (retries + 1) s' else s')"
  by pat_completeness auto
termination
  by (relation "measure (\<lambda>(_, _, _, retries, _). MAX_RETRIES - retries)") (auto simp: retry_when_def)

declare run_job.simps [simp del]

definition enqueue_ingestion :: "string \<Rightarrow> string \<Rightarrow> ingestion_job" where
  "enqueue_ingestion i path =
     \<lparr>j_id = i, j_source_path = path, j_status = ''queued'', j_attempts = 0, j_doc_key = None, j_version = None, j_detail = None\<rparr>"

section \<open>Where a job ends\<close>

definition fine :: "fate \<Rightarrow> bool" where
  "fine f \<longleftrightarrow> ft_start_ok f \<and> ft_cut f = NotCut \<and> ft_end_ok f"

definition job_settled :: "ingestion_job \<Rightarrow> bool" where
  "job_settled job \<longleftrightarrow>
     (j_status job = ''succeeded'' \<or> j_status job = ''unchanged'') \<and> j_version job \<noteq> None
     \<or> j_status job = ''failed'' \<or> j_status job = ''dead'' \<and> j_attempts job = MAX_RETRIES + 1"

lemma job_sel [simp]:
  "j_attempts (job_failed explain n e job) = j_attempts job" "j_attempts (job_succeeded r job) = j_attempts job"
  "j_source_path (job_failed explain n e job) = j_source_path job" "j_source_path (job_succeeded r job) = j_source_path job"
  by (simp_all add: job_failed_def job_succeeded_def)

lemma attempt_outcome_cases:
  assumes "fine f"
  obtains (ok) r where "fst (ingest_file d (ft_now f) (j_source_path (fst s)) (ft_others f (snd s))) = Inr r"
      "ingest_document d explain f n s = (None, job_succeeded r ((fst s)\<lparr>j_status := ''running'', j_attempts := n + 1\<rparr>),
         snd (ingest_file d (ft_now f) (j_source_path (fst s)) (ft_others f (snd s))))"
  | (raised) e where "fst (ingest_file d (ft_now f) (j_source_path (fst s)) (ft_others f (snd s))) = Inl e"
      "ingest_document d explain f n s = (Some (JobRaised e), job_failed explain n e ((fst s)\<lparr>j_status := ''running'', j_attempts := n + 1\<rparr>),
         snd (ingest_file d (ft_now f) (j_source_path (fst s)) (ft_others f (snd s))))"
proof -
  obtain r w where i: "ingest_file d (ft_now f) (j_source_path (fst s)) (ft_others f (snd s)) = (r, w)"
    by (cases "ingest_file d (ft_now f) (j_source_path (fst s)) (ft_others f (snd s))")
  show thesis
    using assms ok raised unfolding i by (cases r) (simp_all add: ingest_document_def fine_def i Let_def)
qed

lemma settled_success: "job_settled (job_succeeded r job)"
  by (simp add: job_settled_def job_succeeded_def split: ingest_outcome.splits)

lemma settled_failure:
  "\<not> retry_when n (JobRaised e) \<Longrightarrow> n \<le> MAX_RETRIES \<Longrightarrow> job_settled (job_failed explain n e (job\<lparr>j_attempts := n + 1\<rparr>))"
  by (auto simp: job_settled_def job_failed_def retry_when_def)

lemma run_job_settles:
  assumes fine: "\<And>k. k \<le> MAX_RETRIES \<Longrightarrow> fine (fates k)" and "n \<le> MAX_RETRIES"
  shows "job_settled (fst (run_job d explain fates n s)) \<and> n < j_attempts (fst (run_job d explain fates n s))
    \<and> j_attempts (fst (run_job d explain fates n s)) \<le> MAX_RETRIES + 1"
  using assms(2)
proof (induction "MAX_RETRIES - n" arbitrary: n s rule: less_induct)
  case less
  show ?case
  proof (cases rule: attempt_outcome_cases [OF fine [OF less.prems], of d s explain n])
    case (1 r)
    then show ?thesis
      using less.prems by (subst (1 2 3) run_job.simps) (simp add: settled_success)
  next
    case (2 e)
    show ?thesis
    proof (cases "retry_when n (JobRaised e)")
      case True
      then have "n + 1 \<le> MAX_RETRIES" "MAX_RETRIES - (n + 1) < MAX_RETRIES - n"
        by (auto simp: retry_when_def)
      from less.hyps [OF this(2,1)] True 2 show ?thesis
        by (subst (1 2 3) run_job.simps) (simp add: Suc_lessD)
    next
      case False
      with 2 less.prems settled_failure [OF False, of explain "(fst s)\<lparr>j_status := ''running''\<rparr>"] show ?thesis
        by (subst (1 2 3) run_job.simps) simp
    qed
  qed
qed


lemma run_job_same_failure:
  assumes fine: "\<And>k. k \<le> MAX_RETRIES \<Longrightarrow> fine (fates k)" and bad: "prepare d (j_source_path (fst s)) = Inl e" and n: "n \<le> MAX_RETRIES"
  shows "j_status (fst (run_job d explain fates n s)) = (if permanent (JobRaised e) then ''failed'' else ''dead'')
    \<and> j_attempts (fst (run_job d explain fates n s)) = (if permanent (JobRaised e) then n + 1 else MAX_RETRIES + 1)"
  using bad n
proof (induction "MAX_RETRIES - n" arbitrary: n s rule: less_induct)
  case less
  have i: "ingest_file d now (j_source_path (fst s)) w = (Inl e, w)" for now w
    using less.prems(1) by (simp add: ingest_file_def)
  show ?case
  proof (cases rule: attempt_outcome_cases [OF fine [OF less.prems(2)], of d s explain n])
    case (1 r)
    then show ?thesis by (simp add: i)
  next
    case (2 e')
    then have e': "e' = e" by (simp add: i)
    show ?thesis
    proof (cases "retry_when n (JobRaised e)")
      case True
      then have m: "n + 1 \<le> MAX_RETRIES" "MAX_RETRIES - (n + 1) < MAX_RETRIES - n" "\<not> permanent (JobRaised e)"
        by (auto simp: retry_when_def)
      let ?s = "snd (ingest_document d explain (fates n) n s)"
      have "j_source_path (fst ?s) = j_source_path (fst s)"
        by (simp add: 2(2))
      then have "prepare d (j_source_path (fst ?s)) = Inl e"
        using less.prems(1) by simp
      from less.hyps [OF m(2) this m(1)] True 2 e' m(3) show ?thesis
        by (subst (1 2) run_job.simps) simp
    next
      case False
      with 2 e' less.prems(2) show ?thesis
        by (subst (1 2) run_job.simps) (auto simp: job_failed_def retry_when_def)
    qed
  qed
qed

text \<open>C39: What a file that cannot be ingested costs: if the checks before the index refuse it with the same error every
  time, the job fails after one attempt when the error is one of the permanent ones, and takes all four attempts and
  ends dead otherwise - which is what a file that cannot be decoded, is no PDF or has a malformed sidecar gets.\<close>

theorem same_failure_status:
  assumes "list_all (\<lambda>k. fine (fates k)) [0 ..< MAX_RETRIES + 1]" "prepare d (j_source_path job) = Inl e"
  shows "j_status (fst (run_job d explain fates 0 (job, w))) = (if permanent (JobRaised e) then ''failed'' else ''dead'')
    \<and> j_attempts (fst (run_job d explain fates 0 (job, w))) = (if permanent (JobRaised e) then 1 else MAX_RETRIES + 1)"
proof -
  have "fine (fates k)" if "k \<le> MAX_RETRIES" for k
    using assms(1) that by (auto simp: list_all_iff le_less)
  from run_job_same_failure [where fates = fates and s = "(job, w)" and n = 0, OF this] assms(2) show ?thesis by simp
qed

text \<open>A job whose last attempt is cut off by the time limit, or cannot write its outcome, stays running for ever: it is
  not delivered again and nothing marks it dead, even when the document it ingested is in the index.\<close>

theorem last_attempt_cut_stays_running:
  assumes "ft_start_ok (fates MAX_RETRIES)" "ft_cut (fates MAX_RETRIES) \<noteq> NotCut \<or> \<not> ft_end_ok (fates MAX_RETRIES)"
  shows "j_status (fst (run_job d explain fates MAX_RETRIES s)) = ''running''
    \<and> (ft_cut (fates MAX_RETRIES) \<noteq> CutBeforeCommit
       \<longrightarrow> snd (run_job d explain fates MAX_RETRIES s)
          = snd (ingest_file d (ft_now (fates MAX_RETRIES)) (j_source_path (fst s)) (ft_others (fates MAX_RETRIES) (snd s))))"
proof -
  let ?f = "fates MAX_RETRIES"
  have stop: "\<not> retry_when MAX_RETRIES e" for e by (simp add: retry_when_def)
  obtain r w where i: "ingest_file d (ft_now ?f) (j_source_path (fst s)) (ft_others ?f (snd s)) = (r, w)"
    by (cases "ingest_file d (ft_now ?f) (j_source_path (fst s)) (ft_others ?f (snd s))")
  obtain e job w' where a: "ingest_document d explain ?f MAX_RETRIES s = (Some e, job, w')" "j_status job = ''running''"
    "ft_cut ?f \<noteq> CutBeforeCommit \<longrightarrow> w' = w"
    using assms by (cases "ft_cut ?f"; cases r) (auto simp: ingest_document_def Let_def i split: if_splits)
  then show ?thesis
    by (subst (1 2) run_job.simps) (simp add: stop i)
qed

section \<open>Concrete jobs\<close>

definition demo_job :: "ingestion_job" where
  "demo_job = enqueue_ingestion ''j1'' ''/etc/passwd''"

definition demo_fate :: fate where
  "demo_fate = \<lparr>ft_start_ok = True, ft_cut = NotCut, ft_end_ok = True, ft_others = (\<lambda>w. w), ft_now = 0\<rparr>"


text \<open>A file that is no text.\<close>

definition broken_ingest :: ingest_deps where
  "broken_ingest = demo_ingest\<lparr>id_read := (\<lambda>_. Some (demo_file\<lparr>sf_broken := Some ''UnicodeDecodeError''\<rparr>))\<rparr>"

lemma broken_read: "read_file broken_ingest ''/kb/vpn.txt'' = Inl (IngestCrashed ''UnicodeDecodeError'')"
  by code_simp

theorem same_failure_status_witness:
  "j_status (fst (run_job broken_ingest (\<lambda>_. ''error'') (\<lambda>_. demo_fate) 0 (enqueue_ingestion ''j2'' ''/kb/vpn.txt'', demo_index))) = ''dead''"
proof -
  have e: "id_settings broken_ingest = id_settings demo_ingest" "id_gateway broken_ingest = id_gateway demo_ingest"
    "id_resolve broken_ingest = id_resolve demo_ingest" "se_knowledge_root (id_settings demo_ingest) = ''/kb''"
    "id_resolve demo_ingest = (\<lambda>x. x)"
    by (simp_all add: broken_ingest_def demo_ingest_def)
  have ok: "prepare demo_ingest ''/kb/vpn.txt'' = Inr demo_prepared" by (rule demo_prepare)
  have "prepare broken_ingest ''/kb/vpn.txt'' = Inl (IngestCrashed ''UnicodeDecodeError'')"
    using ok unfolding prepare_def Let_def e
    by (cases "check_embedding_model (id_gateway demo_ingest) (se_index_embedding_model (id_settings demo_ingest))")
      (simp_all add: demo_resolve_path broken_read)
  then show ?thesis
    using same_failure_status [of "\<lambda>_. demo_fate" broken_ingest "enqueue_ingestion ''j2'' ''/kb/vpn.txt''"]
    by (simp add: demo_fate_def fine_def list_all_iff enqueue_ingestion_def permanent_def)
qed

theorem last_attempt_cut_stays_running_witness:
  "j_status (fst (run_job demo_ingest (\<lambda>_. ''error'') (\<lambda>_. demo_fate\<lparr>ft_cut := CutAfterCommit\<rparr>) MAX_RETRIES (demo_job, demo_index))) = ''running''"
  using last_attempt_cut_stays_running [of "\<lambda>_. demo_fate\<lparr>ft_cut := CutAfterCommit\<rparr>" demo_ingest "\<lambda>_. ''error''" "(demo_job, demo_index)"]
  by (simp add: demo_fate_def)

end
