(* ===== verification/ChatStream.thy ===== *)
theory ChatStream
  imports ChatProps GatewayStream
begin

text \<open>
  \<open>POST /api/chat/stream\<close>: the turn of \<open>api/chat.py\<close> as server-sent events. The client is a parameter: it may leave at any
  event, where the generator is closed; the gateway's stream is then closed at the event it is delivering. Ids of messages
  are their sequence numbers; that of the caller's own message is left out of \<open>meta\<close>. When the summary after a
  completed answer raises, the row the closed gateway stream then writes is left out.
\<close>

section \<open>Events\<close>

record sse_model =
  sm_model :: string
  sm_provider :: string
  sm_route :: string
  sm_fallback_used :: bool

text \<open>What only a streamed answer reports.\<close>

record sse_answer =
  sw_invalid_citations :: nat
  sw_repointed_citations :: nat
  sw_finish_reason :: "string option"
  sw_usage :: usage
  sw_cost_usd :: rat
  sw_latency_ms :: rat
  sw_ttft_ms :: "rat option"
  sw_attempts :: "attempt_out list"

record sse_done =
  sd_message_seq :: int
  sd_content :: string
  sd_route :: string
  sd_tool :: "tool_reply option"
  sd_citations :: "json list"
  sd_grounded :: bool
  sd_abstained :: bool
  sd_suggested_action :: "suggested_action option"
  sd_retrieval :: "retrieval_out option"
  sd_answer :: "sse_answer option"

datatype sse_event =
    SseMeta string string
  | SseModel sse_model
  | SseDelta string
  | SseDone sse_done
  | SseError string bool "attempt_out list"

record sse_client =
  sc_leaves :: "nat \<Rightarrow> bool"
  sc_pause :: "nat \<Rightarrow> rat"

datatype sse_end = SseEnded | SseLeft | SseRaised

record sse_reply =
  so_events :: "sse_event list"
  so_end :: sse_end

section \<open>Texts that are said at once\<close>

text \<open>A greeting, a refusal, a tool's result, an abstention with nothing retrieved: one delta and a \<open>done\<close>.\<close>

definition sse_plain :: "chat_request \<Rightarrow> prepared_turn \<Rightarrow> sse_client \<Rightarrow> sse_done \<Rightarrow> chat_world \<Rightarrow> sse_event list \<Rightarrow> sse_reply \<times> chat_world" where
  "sse_plain q prep c fin w out =
     (case save_assistant (pp_conversation_id prep) (sd_content fin) ''complete'' None None (Some []) (rq_request_id q) (cw_chat w) of
        (seq, cs) \<Rightarrow>
          (let delta = out @ [SseDelta (sd_content fin)] in
           if sc_leaves c (length out) then \<lparr>so_events = delta, so_end = SseLeft\<rparr>
           else \<lparr>so_events = delta @ [SseDone (fin\<lparr>sd_message_seq := seq\<rparr>)],
                 so_end = (if sc_leaves c (length delta) then SseLeft else SseEnded)\<rparr>,
           on_chat cs w))"

definition said :: "string \<Rightarrow> string \<Rightarrow> tool_reply option \<Rightarrow> sse_done" where
  "said content route tool =
     \<lparr>sd_message_seq = 0, sd_content = content, sd_route = route, sd_tool = tool, sd_citations = [], sd_grounded = True,
      sd_abstained = False, sd_suggested_action = None, sd_retrieval = None, sd_answer = None\<rparr>"

definition nothing_found :: "prepared_turn \<Rightarrow> principal \<Rightarrow> retrieval_result \<Rightarrow> sse_done" where
  "nothing_found prep p r =
     (said (ga_text (clarifying_abstention (Some p))) ''knowledge'' None)
       \<lparr>sd_abstained := True, sd_suggested_action := knowledge_gap_ticket (pp_question prep) (Some p),
        sd_retrieval := Some (retrieval_out_of r)\<rparr>"

section \<open>A streamed answer\<close>

text \<open>The local variables of \<open>events\<close>, with what has been sent and the tables.\<close>

record stream_view =
  sv_produced :: "string list"
  sv_model_id :: "string option"
  sv_finished :: bool
  sv_out :: "sse_event list"
  sv_chat :: chat_store

definition say :: "sse_event \<Rightarrow> stream_view \<Rightarrow> stream_view" where
  "say e v = v\<lparr>sv_out := sv_out v @ [e]\<rparr>"

definition stream_code_text :: "stream_code \<Rightarrow> string" where
  "stream_code_text c = (case c of GatewayCode code \<Rightarrow> gateway_code_text code | ProviderErrorMidStream \<Rightarrow> ''provider_error_mid_stream'')"

definition completed_event ::
  "prepared_turn \<Rightarrow> principal \<Rightarrow> retrieval_result \<Rightarrow> grounded_answer \<Rightarrow> int \<Rightarrow> sse_answer \<Rightarrow> sse_event" where
  "completed_event prep p r answer seq x =
     SseDone
       \<lparr>sd_message_seq = seq, sd_content = ga_text answer, sd_route = ''knowledge'', sd_tool = None,
        sd_citations = map citation_json (ga_citations answer), sd_grounded = grounded answer, sd_abstained = ga_abstained answer,
        sd_suggested_action = (if ga_abstained answer then knowledge_gap_ticket (pp_question prep) (Some p) else None),
        sd_retrieval = Some (retrieval_out_of r), sd_answer = Some x\<rparr>"

definition on_completed ::
  "chat_request \<Rightarrow> prepared_turn \<Rightarrow> principal \<Rightarrow> retrieval_result \<Rightarrow> model_spec \<Rightarrow> usage \<Rightarrow> (grounded_answer \<Rightarrow> sse_answer)
   \<Rightarrow> stream_view \<Rightarrow> stream_view" where
  "on_completed q prep p r spec u extra v =
     (let answer = finished_answer (concat (sv_produced v)) (rr_chunks r) (Some p) in
      case save_assistant (pp_conversation_id prep) (ga_text answer) ''complete'' (Some (ms_id spec)) (Some u)
             (Some (map citation_json (ga_citations answer))) (rq_request_id q) (sv_chat v) of
        (seq, cs) \<Rightarrow> say (completed_event prep p r answer seq (extra answer)) (v\<lparr>sv_finished := True, sv_chat := cs\<rparr>))"

definition on_failed ::
  "chat_request \<Rightarrow> prepared_turn \<Rightarrow> stream_code \<Rightarrow> bool \<Rightarrow> attempt_record list \<Rightarrow> stream_view \<Rightarrow> stream_view" where
  "on_failed q prep code started atts v =
     say (SseError (stream_code_text code) started (map attempt_out_of atts))
       (v\<lparr>sv_finished := True,
          sv_chat := snd (save_assistant (pp_conversation_id prep) (concat (sv_produced v)) (if started then ''partial'' else ''error'')
                            (sv_model_id v) None None (rq_request_id q) (sv_chat v))\<rparr>)"

fun on_stream_event ::
  "chat_request \<Rightarrow> prepared_turn \<Rightarrow> principal \<Rightarrow> retrieval_result \<Rightarrow> stream_event \<Rightarrow> stream_view \<Rightarrow> stream_view" where
  "on_stream_event q prep p r (StreamStarted spec route fb) v =
     say (SseModel \<lparr>sm_model = ms_id spec, sm_provider = ms_provider spec, sm_route = route, sm_fallback_used = fb\<rparr>)
       (v\<lparr>sv_model_id := Some (ms_id spec)\<rparr>)"
| "on_stream_event q prep p r (StreamText t) v = say (SseDelta t) (v\<lparr>sv_produced := sv_produced v @ [t]\<rparr>)"
| "on_stream_event q prep p r (StreamCompleted spec u fr lat ttft cost atts) v =
     on_completed q prep p r spec u
       (\<lambda>a. \<lparr>sw_invalid_citations = ga_invalid_citations a, sw_repointed_citations = ga_repointed_citations a, sw_finish_reason = fr,
             sw_usage = u, sw_cost_usd = cost, sw_latency_ms = lat, sw_ttft_ms = ttft, sw_attempts = map attempt_out_of atts\<rparr>) v"
| "on_stream_event q prep p r (StreamFailed code m started atts) v = on_failed q prep code started atts v"

text \<open>\<open>finally\<close>.\<close>

definition close_view :: "chat_request \<Rightarrow> prepared_turn \<Rightarrow> stream_view \<Rightarrow> chat_store" where
  "close_view q prep v =
     (if sv_finished v then sv_chat v
      else snd (save_assistant (pp_conversation_id prep) (concat (sv_produced v)) ''partial'' (sv_model_id v) None None
                  (rq_request_id q) (sv_chat v)))"

definition open_view :: "sse_event list \<Rightarrow> chat_store \<Rightarrow> stream_view" where
  "open_view out cs = \<lparr>sv_produced = [], sv_model_id = None, sv_finished = False, sv_out = out, sv_chat = cs\<rparr>"

text \<open>Each event of the gateway is one event of the response; \<open>meta\<close> came before them.\<close>

definition gateway_consumer :: "sse_client \<Rightarrow> consumer" where
  "gateway_consumer c = \<lparr>gone = (\<lambda>k. sc_leaves c (Suc k)), pause = (\<lambda>k. sc_pause c (Suc k))\<rparr>"

definition is_completed :: "stream_event \<Rightarrow> bool" where
  "is_completed e = (case e of StreamCompleted _ _ _ _ _ _ _ \<Rightarrow> True | _ \<Rightarrow> False)"

type_synonym opens = "nat \<Rightarrow> model_spec \<Rightarrow> chat_message list \<Rightarrow> chat_params \<Rightarrow> (rat \<times> stream_step) list"

definition stream_answer ::
  "chat_deps \<Rightarrow> sse_client \<Rightarrow> opens \<Rightarrow> chat_request \<Rightarrow> prepared_turn \<Rightarrow> principal \<Rightarrow> retrieval_result \<Rightarrow> sse_event list \<Rightarrow> chat_world
   \<Rightarrow> sse_reply \<times> chat_world" where
  "stream_answer d c opens q prep p r out w =
     (let e = env_of d; w1 = on_chat (remember_context prep r (cw_chat w)) w in
      if rr_chunks r = [] then sse_plain q prep c (nothing_found prep p r) w1 out
      else case stream_chat (ag_gateway e) (gateway_consumer c) (ag_rnd e) opens (pp_model_choice prep)
                  (build_messages (ag_system_prompt e) (pp_question prep) (rr_chunks r) (pp_history prep) (0 < rr_admitted_by_review r))
                  (chat_params_of q) (egress_allowed d prep r) (gateway_of w1) of
             (res, gw) \<Rightarrow>
               (let v = fold (on_stream_event q prep p r) (w_events gw) (open_view out (cw_chat w1));
                    w2 = on_chat (close_view q prep v) (on_gateway_state (w_gw gw) w1)
                in case res of
                     Inl x \<Rightarrow> (\<lparr>so_events = sv_out v, so_end = SseRaised\<rparr>, w2)
                   | Inr (StreamOver, _) \<Rightarrow>
                       (if list_ex is_completed (w_events gw) then
                          (case maybe_summarize d prep w2 of
                             (Some x, w3) \<Rightarrow> (\<lparr>so_events = sv_out v, so_end = SseRaised\<rparr>, w3)
                           | (None, w3) \<Rightarrow> (\<lparr>so_events = sv_out v, so_end = SseEnded\<rparr>, w3))
                        else (\<lparr>so_events = sv_out v, so_end = SseEnded\<rparr>, w2))
                   | Inr (StreamCrash x, _) \<Rightarrow> (\<lparr>so_events = sv_out v, so_end = SseRaised\<rparr>, w2)
                   | Inr _ \<Rightarrow> (\<lparr>so_events = sv_out v, so_end = SseLeft\<rparr>, w2)))"

definition save_partial :: "chat_request \<Rightarrow> prepared_turn \<Rightarrow> chat_world \<Rightarrow> chat_world" where
  "save_partial q prep w = on_chat (close_view q prep (open_view [] (cw_chat w))) w"

definition stream_knowledge ::
  "chat_deps \<Rightarrow> sse_client \<Rightarrow> opens \<Rightarrow> chat_request \<Rightarrow> prepared_turn \<Rightarrow> principal \<Rightarrow> sse_event list \<Rightarrow> chat_world \<Rightarrow> sse_reply \<times> chat_world" where
  "stream_knowledge d c opens q prep p out w =
     (case turn_sources d prep p w of
        (Inl (CallGatewayError code atts), w') \<Rightarrow>
          (\<lparr>so_events = out @ [SseError ''retrieval_unavailable'' False []],
            so_end = (if sc_leaves c (length out) then SseLeft else SseEnded)\<rparr>, save_error q prep w')
      | (Inl x, w') \<Rightarrow> (\<lparr>so_events = out, so_end = SseRaised\<rparr>, save_partial q prep w')
      | (Inr r, w') \<Rightarrow> stream_answer d c opens q prep p r out w')"

definition stream_events ::
  "chat_deps \<Rightarrow> sse_client \<Rightarrow> opens \<Rightarrow> int \<Rightarrow> chat_request \<Rightarrow> principal \<Rightarrow> prepared_turn \<Rightarrow> chat_world \<Rightarrow> sse_reply \<times> chat_world" where
  "stream_events d c opens now q p prep w =
     (let out = [SseMeta (pp_conversation_id prep) (rq_request_id q)] in
      if sc_leaves c 0 then (\<lparr>so_events = out, so_end = SseLeft\<rparr>, w)
      else case route_turn d now prep p (rq_request_id q) w of
             (Inl x, w') \<Rightarrow> (\<lparr>so_events = out, so_end = SseRaised\<rparr>, save_partial q prep w')
           | (Inr (RouteText route content), w') \<Rightarrow> sse_plain q prep c (said content route None) w' out
           | (Inr (RouteTool t), w') \<Rightarrow> sse_plain q prep c (said (ty_message t) ''tool'' (Some t)) w' out
           | (Inr RouteKnowledge, w') \<Rightarrow> stream_knowledge d c opens q prep p out w')"

definition chat_stream ::
  "chat_deps \<Rightarrow> sse_client \<Rightarrow> opens \<Rightarrow> int \<Rightarrow> chat_request \<Rightarrow> principal \<Rightarrow> chat_world \<Rightarrow> (http_reply + sse_reply) \<times> chat_world" where
  "chat_stream d c opens now q p w =
     (case start_turn d q p w of
        (Inl x, w1) \<Rightarrow> (Inl x, w1)
      | (Inr prep, w1) \<Rightarrow> (case stream_events d c opens now q p prep w1 of (r, w2) \<Rightarrow> (Inr r, w2)))"

end
