(* ===== verification/ChatStreamProps.thy ===== *)
theory ChatStreamProps
  imports ChatStream
begin

text \<open>
  What a streamed turn leaves in the tables, that it agrees with the turn that is not streamed, and what may leave the
  premises in it.
\<close>

section \<open>The last event of a stream\<close>

fun nonfinal :: "stream_event \<Rightarrow> bool" where
  "nonfinal (StreamStarted spec route fb) = True"
| "nonfinal (StreamText t) = True"
| "nonfinal _ = False"

lemma body_nonfinal: "body_events es \<Longrightarrow> list_all nonfinal (butlast es)"
  by (induction es rule: body_events.induct) auto

lemma body_nonempty: "body_events es \<Longrightarrow> es \<noteq> []"
  by auto

lemma complete_nonfinal: "complete_stream es \<Longrightarrow> list_all nonfinal (butlast es)"
  by (induction es rule: complete_stream.induct) (auto dest: body_nonfinal body_nonempty)

lemma prefix_nonfinal: "complete_stream (es @ rest) \<Longrightarrow> list_all nonfinal (butlast es)"
proof (cases "rest = []")
  case False
  assume "complete_stream (es @ rest)"
  then have "list_all nonfinal (es @ butlast rest)"
    using complete_nonfinal [of "es @ rest"] False by (simp add: butlast_append)
  then show ?thesis by (auto simp: list_all_iff dest: in_set_butlastD)
qed (auto dest: complete_nonfinal)

lemma stream_prefix:
  assumes "stream_chat g c rnd opens route messages params egress st = (res, w)"
  shows "list_all nonfinal (butlast (w_events w))"
proof (cases res)
  case (Inl e)
  with assms have "w_events w = []" by (auto simp: stream_chat_def Let_def split: sum.splits prod.splits)
  then show ?thesis by simp
next
  case (Inr fa)
  obtain f atts where fa: "fa = (f, atts)" by (cases fa)
  from stream_chat_inv [OF assms [unfolded Inr fa]] show ?thesis
  proof
    assume "w_events w = [] \<and> w_gw w = st \<and> atts = [] \<and> (\<exists>x. f = StreamCrash x)"
    then show ?thesis by simp
  next
    assume "\<exists>name targets blocked. resolve (gw_catalog g) route Chat = Inr (name, targets)
         \<and> egress_blocked g targets egress = Inr blocked
         \<and> stream_inv targets blocked (st_now st + gw_stream_deadline_s g) st f atts w \<and> f \<noteq> StreamRetry \<and> f \<noteq> StreamNext"
    then have "flow_events f (w_events w)" "f \<noteq> StreamRetry" "f \<noteq> StreamNext" by (auto simp: stream_inv_def)
    then have "\<exists>rest. complete_stream (w_events w @ rest)"
      by (cases f) (auto simp: flow_events_def intro: exI [of _ "[]"])
    then show ?thesis using prefix_nonfinal by blast
  qed
qed

section \<open>Rows\<close>

definition sent :: "sse_event list \<Rightarrow> string" where
  "sent es = concat (map (\<lambda>e. case e of SseDelta t \<Rightarrow> t | _ \<Rightarrow> []) es)"

definition finals :: "sse_event list \<Rightarrow> sse_event list" where
  "finals es = filter (\<lambda>e. case e of SseDone _ \<Rightarrow> True | SseError _ _ _ \<Rightarrow> True | _ \<Rightarrow> False) es"

text \<open>What the assistant's row says beside the events sent.\<close>

definition row_says :: "sse_event list \<Rightarrow> message \<Rightarrow> bool" where
  "row_says es a =
     (if mg_status a = ''complete''
      then (case finals es of
              [] \<Rightarrow> mg_content a = sent es
            | [SseDone x] \<Rightarrow> mg_content a = sd_content x \<and> mg_seq a = sd_message_seq x \<and> mg_citations a = Some (sd_citations x)
            | _ \<Rightarrow> False)
      else mg_content a = sent es
        \<and> (case finals es of
             [] \<Rightarrow> mg_status a = ''partial''
           | [SseError x started atts] \<Rightarrow> mg_status a = (if started then ''partial'' else ''error'')
           | _ \<Rightarrow> False))"

definition streamed_ok :: "chat_request \<Rightarrow> principal \<Rightarrow> sse_client \<Rightarrow> message list \<Rightarrow> sse_event list \<Rightarrow> chat_store \<Rightarrow> bool" where
  "streamed_ok q p c old es cs \<longleftrightarrow>
     take (length old) (cs_messages cs) = old
     \<and> (case drop (length old) (cs_messages cs) of
          [u] \<Rightarrow> sc_leaves c 0 \<and> u = user_row q (mg_conversation_id u) (mg_seq u) \<and> owner_at cs (mg_conversation_id u) = Some (p_user_id p)
        | [u, a] \<Rightarrow> \<not> sc_leaves c 0 \<and> u = user_row q (mg_conversation_id u) (mg_seq u)
            \<and> owner_at cs (mg_conversation_id u) = Some (p_user_id p)
            \<and> assistant_row q (mg_conversation_id u) (mg_status a) a \<and> row_says es a
        | _ \<Rightarrow> False)"

lemma sent_simps [simp]:
  "sent [] = []" "sent (SseDelta t # es) = t @ sent es" "sent (SseMeta x y # es) = sent es" "sent (SseModel m # es) = sent es"
  "sent (SseDone d # es) = sent es" "sent (SseError y s atts # es) = sent es" "sent (xs @ ys) = sent xs @ sent ys"
  by (simp_all add: sent_def)

lemma finals_simps [simp]:
  "finals [] = []" "finals (SseDelta t # es) = finals es" "finals (SseMeta x y # es) = finals es" "finals (SseModel m # es) = finals es"
  "finals (SseDone d # es) = SseDone d # finals es" "finals (SseError y s atts # es) = SseError y s atts # finals es"
  "finals (xs @ ys) = finals xs @ finals ys"
  by (simp_all add: finals_def)

text \<open>One row is added to a begun turn.\<close>

lemma begun_row:
  assumes "turn_begun q p i old cs" "\<not> sc_leaves c 0" "save_assistant i content status m u ci (rq_request_id q) cs = (seq, cs1)"
    and "cs_messages cs' = cs_messages cs1" "owner_at cs' i = owner_at cs1 i"
    and "\<And>a. mg_seq a = seq \<Longrightarrow> mg_content a = content \<Longrightarrow> mg_status a = status \<Longrightarrow> mg_citations a = ci \<Longrightarrow> row_says es a"
  shows "streamed_ok q p c old es cs'"
proof -
  note r = save_assistant_rows [OF assms(3)]
  have "owner_at cs' i = Some (p_user_id p)" using assms(1,5) r(2) by (simp add: turn_begun_def)
  with r(1) assms show ?thesis
    by (auto simp: turn_begun_def streamed_ok_def assistant_row_def)
qed

lemma begun_sse_plain:
  assumes "turn_begun q p (pp_conversation_id prep) old (cw_chat w)" "\<not> sc_leaves c 0" "sent out = []" "finals out = []"
    and "sd_citations fin = []" "sse_plain q prep c fin w out = (s, w')"
  shows "streamed_ok q p c old (so_events s) (cw_chat w')"
proof -
  obtain seq cs where s: "save_assistant (pp_conversation_id prep) (sd_content fin) ''complete'' None None (Some []) (rq_request_id q) (cw_chat w)
      = (seq, cs)" by fastforce
  have "w' = on_chat cs w" "so_events s = out @ [SseDelta (sd_content fin)]
      \<or> so_events s = out @ [SseDelta (sd_content fin), SseDone (fin\<lparr>sd_message_seq := seq\<rparr>)]"
    using assms(6) s by (auto simp: sse_plain_def Let_def split: if_splits)
  with assms(3-5) show ?thesis
    by (intro begun_row [OF assms(1,2) s]) (auto simp: row_says_def)
qed

section \<open>The answer\<close>

lemma fold_nonfinal:
  assumes "list_all nonfinal es" "\<not> sv_finished v" "finals (sv_out v) = []" "sent (sv_out v) = concat (sv_produced v)"
  shows "\<not> sv_finished (fold (on_stream_event q prep p r) es v)" "finals (sv_out (fold (on_stream_event q prep p r) es v)) = []"
    "sent (sv_out (fold (on_stream_event q prep p r) es v)) = concat (sv_produced (fold (on_stream_event q prep p r) es v))"
    "sv_chat (fold (on_stream_event q prep p r) es v) = sv_chat v"
proof -
  have "\<not> sv_finished (fold (on_stream_event q prep p r) es v) \<and> finals (sv_out (fold (on_stream_event q prep p r) es v)) = []
    \<and> sent (sv_out (fold (on_stream_event q prep p r) es v)) = concat (sv_produced (fold (on_stream_event q prep p r) es v))
    \<and> sv_chat (fold (on_stream_event q prep p r) es v) = sv_chat v"
    using assms
  proof (induction es arbitrary: v)
    case (Cons e es)
    show ?case using Cons.prems Cons.IH [of "on_stream_event q prep p r e v"]
      by (cases e) (auto simp: say_def)
  qed simp
  then show "\<not> sv_finished (fold (on_stream_event q prep p r) es v)" "finals (sv_out (fold (on_stream_event q prep p r) es v)) = []"
    "sent (sv_out (fold (on_stream_event q prep p r) es v)) = concat (sv_produced (fold (on_stream_event q prep p r) es v))"
    "sv_chat (fold (on_stream_event q prep p r) es v) = sv_chat v" by blast+
qed

text \<open>However the stream ends, the row the turn leaves says what was sent.\<close>

lemma begun_view:
  assumes "turn_begun q p (pp_conversation_id prep) old cs" "\<not> sc_leaves c 0" "list_all nonfinal (butlast es)"
    and "sent out = []" "finals out = []" "v = fold (on_stream_event q prep p r) es (open_view out cs)"
    and "cs_messages cs' = cs_messages (close_view q prep v)"
    and "owner_at cs' (pp_conversation_id prep) = owner_at (close_view q prep v) (pp_conversation_id prep)"
  shows "streamed_ok q p c old (sv_out v) cs'"
proof (cases "list_all nonfinal es")
  case True
  note f = fold_nonfinal [OF True, of "open_view out cs" q prep p r]
  have o: "\<not> sv_finished v" "finals (sv_out v) = []" "sent (sv_out v) = concat (sv_produced v)" "sv_chat v = cs"
    using f assms(4-6) by (simp_all add: open_view_def)
  obtain seq cs1 where s: "save_assistant (pp_conversation_id prep) (concat (sv_produced v)) ''partial'' (sv_model_id v) None None (rq_request_id q) cs = (seq, cs1)"
    by fastforce
  have "cs_messages cs' = cs_messages cs1" "owner_at cs' (pp_conversation_id prep) = owner_at cs1 (pp_conversation_id prep)"
    using assms(7,8) o s by (simp_all add: close_view_def)
  with o show ?thesis
    by (intro begun_row [OF assms(1,2) s]) (auto simp: row_says_def)
next
  case False
  then obtain es0 e where es: "es = es0 @ [e]" by (cases es rule: rev_cases) auto
  with assms(3) False have nf: "list_all nonfinal es0" "\<not> nonfinal e" by auto
  define v0 where "v0 = fold (on_stream_event q prep p r) es0 (open_view out cs)"
  have o: "\<not> sv_finished v0" "finals (sv_out v0) = []" "sent (sv_out v0) = concat (sv_produced v0)" "sv_chat v0 = cs"
    using fold_nonfinal [OF nf(1), of "open_view out cs" q prep p r] assms(4,5) by (simp_all add: v0_def open_view_def)
  have v: "v = on_stream_event q prep p r e v0" using assms(6) es by (simp add: v0_def)
  show ?thesis
  proof (cases e)
    case (StreamCompleted spec u fr lat ttft cost atts)
    let ?a = "finished_answer (concat (sv_produced v0)) (rr_chunks r) (Some p)"
    obtain seq cs1 where s: "save_assistant (pp_conversation_id prep) (ga_text ?a) ''complete'' (Some (ms_id spec)) (Some u)
        (Some (map citation_json (ga_citations ?a))) (rq_request_id q) cs = (seq, cs1)" by fastforce
    have "close_view q prep v = cs1" using v StreamCompleted s o(4)
      by (simp add: on_completed_def Let_def say_def close_view_def)
    with assms(7,8) v StreamCompleted s o show ?thesis
      by (intro begun_row [OF assms(1,2) s]) (auto simp: on_completed_def Let_def say_def completed_event_def row_says_def)
  next
    case (StreamFailed code m started atts)
    obtain seq cs1 where s: "save_assistant (pp_conversation_id prep) (concat (sv_produced v0)) (if started then ''partial'' else ''error'')
        (sv_model_id v0) None None (rq_request_id q) cs = (seq, cs1)" by fastforce
    have "close_view q prep v = cs1" using v StreamFailed s o(4)
      by (simp add: on_failed_def say_def close_view_def)
    with assms(7,8) v StreamFailed s o show ?thesis
      by (intro begun_row [OF assms(1,2) s]) (auto simp: on_failed_def say_def row_says_def)
  qed (use nf(2) in auto)
qed

lemma begun_stream_answer:
  assumes "turn_begun q p (pp_conversation_id prep) old (cw_chat w)" "\<not> sc_leaves c 0" "sent out = []" "finals out = []"
    and "stream_answer d c opens q prep p r out w = (s, w')"
  shows "streamed_ok q p c old (so_events s) (cw_chat w')"
proof -
  let ?i = "pp_conversation_id prep" and ?cs = "remember_context prep r (cw_chat w)"
  note begun = begun_remember [OF assms(1), of prep r]
  show ?thesis
  proof (cases "rr_chunks r = []")
    case True
    with assms(5) have p: "sse_plain q prep c (nothing_found prep p r) (on_chat ?cs w) out = (s, w')"
      by (simp add: stream_answer_def Let_def)
    show ?thesis
      by (rule begun_sse_plain [OF _ assms(2-4) _ p]) (simp_all add: begun nothing_found_def said_def)
  next
    case False
    let ?ms = "build_messages (ag_system_prompt (env_of d)) (pp_question prep) (rr_chunks r) (pp_history prep) (0 < rr_admitted_by_review r)"
    obtain res gw where st: "stream_chat (ag_gateway (env_of d)) (gateway_consumer c) (ag_rnd (env_of d)) opens (pp_model_choice prep) ?ms
        (chat_params_of q) (egress_allowed d prep r) (gateway_of w) = (res, gw)" by fastforce
    define v where "v = fold (on_stream_event q prep p r) (w_events gw) (open_view out ?cs)"
    define w2 where "w2 = on_chat (close_view q prep v) (on_gateway_state (w_gw gw) (on_chat ?cs w))"
    have "so_events s = sv_out v \<and> (cw_chat w' = cw_chat w2 \<or> (\<exists>x. maybe_summarize d prep w2 = (x, w')))"
      using assms(5) False st
      by (auto simp: stream_answer_def Let_def v_def w2_def split: sum.splits prod.splits stream_flow.splits option.splits if_splits)
    then have ev: "so_events s = sv_out v" and rows: "cs_messages (cw_chat w') = cs_messages (cw_chat w2)"
      "owner_at (cw_chat w') ?i = owner_at (cw_chat w2) ?i"
      using maybe_summarize_rows by auto
    have "streamed_ok q p c old (sv_out v) (cw_chat w')"
      by (rule begun_view [OF begun assms(2) stream_prefix [OF st] assms(3,4) v_def]) (use rows in \<open>simp_all add: w2_def\<close>)
    then show ?thesis by (simp add: ev)
  qed
qed

lemma begun_save_partial:
  assumes "turn_begun q p (pp_conversation_id prep) old (cw_chat w)" "\<not> sc_leaves c 0" "sent out = []" "finals out = []"
  shows "streamed_ok q p c old out (cw_chat (save_partial q prep w))"
proof -
  obtain seq cs1 where s: "save_assistant (pp_conversation_id prep) [] ''partial'' None None None (rq_request_id q) (cw_chat w) = (seq, cs1)"
    by fastforce
  show ?thesis
    by (rule begun_row [OF assms(1,2) s]) (use assms(3,4) s in \<open>auto simp: save_partial_def close_view_def open_view_def row_says_def\<close>)
qed

lemma begun_stream_knowledge:
  assumes "turn_begun q p (pp_conversation_id prep) old (cw_chat w)" "\<not> sc_leaves c 0" "sent out = []" "finals out = []"
    and "stream_knowledge d c opens q prep p out w = (s, w')"
  shows "streamed_ok q p c old (so_events s) (cw_chat w')"
proof (cases "turn_sources d prep p w")
  case (Pair res w1)
  then have begun: "turn_begun q p (pp_conversation_id prep) old (cw_chat w1)"
    using assms(1) turn_sources_chat [OF Pair] by simp
  show ?thesis
  proof (cases res)
    case (Inr r)
    with assms(5) Pair have "stream_answer d c opens q prep p r out w1 = (s, w')" by (simp add: stream_knowledge_def)
    from begun_stream_answer [OF begun assms(2-4) this] show ?thesis .
  next
    case (Inl e)
    show ?thesis
    proof (cases e)
      case (CallGatewayError code atts)
      obtain seq cs1 where s: "save_assistant (pp_conversation_id prep) [] ''error'' None None None (rq_request_id q) (cw_chat w1) = (seq, cs1)"
        by fastforce
      from assms(5) Pair Inl CallGatewayError have "so_events s = out @ [SseError ''retrieval_unavailable'' False []]" "w' = save_error q prep w1"
        by (auto simp: stream_knowledge_def)
      with s assms(3,4) show ?thesis
        by (intro begun_row [OF begun assms(2) s]) (auto simp: save_error_def row_says_def)
    qed (use assms(5) Pair Inl begun_save_partial [OF begun assms(2-4)] in \<open>auto simp: stream_knowledge_def\<close>)
  qed
qed

text \<open>C8: A streamed turn is on record as it was sent: the rows before it stay, and unless it is refused at the start or the client
  leaves at the first event it adds the caller's message and exactly one row of the assistant in the caller's own
  conversation. A complete row is what \<open>done\<close> reported, with its number and citations, or - the client gone before it - the
  text sent; a partial or error row holds exactly the text that was sent, however the stream was cut short.\<close>

theorem stream_on_record:
  assumes "keyed (hd_uuid d) (cw_chat w)"
  shows "case chat_stream d c opens now q p w of
      (Inl x, w') \<Rightarrow> cs_messages (cw_chat w') = cs_messages (cw_chat w)
    | (Inr s, w') \<Rightarrow> streamed_ok q p c (cs_messages (cw_chat w)) (so_events s) (cw_chat w')"
proof (cases "start_turn d q p w")
  case (Pair res w1)
  show ?thesis
  proof (cases res)
    case (Inl x)
    with Pair have "cw_chat w1 = cw_chat w"
      by (auto simp: start_turn_def prepare_turn_def Let_def split: sum.splits prod.splits start_error.splits if_splits)
    with Pair Inl show ?thesis by (simp add: chat_stream_def)
  next
    case (Inr prep)
    let ?old = "cs_messages (cw_chat w)" and ?out = "[SseMeta (pp_conversation_id prep) (rq_request_id q)]"
    obtain s w' where e: "stream_events d c opens now q p prep w1 = (s, w')" by fastforce
    have begun: "turn_begun q p (pp_conversation_id prep) ?old (cw_chat w1)"
      using started [OF assms Pair [unfolded Inr]] by (auto simp: turn_begun_def owner_at_def)
    have "streamed_ok q p c ?old (so_events s) (cw_chat w')"
    proof (cases "sc_leaves c 0")
      case True
      with e begun show ?thesis by (auto simp: stream_events_def Let_def streamed_ok_def turn_begun_def)
    next
      case False
      obtain route w2 where r: "route_turn d now prep p (rq_request_id q) w1 = (route, w2)" by fastforce
      have b2: "turn_begun q p (pp_conversation_id prep) ?old (cw_chat w2)"
        using begun route_turn_chat [OF r] by simp
      have plain: "streamed_ok q p c ?old (so_events s) (cw_chat w')" if "sse_plain q prep c (said content rt t) w2 ?out = (s, w')" for content rt t
        by (rule begun_sse_plain [OF b2 False _ _ _ that]) (simp_all add: said_def)
      note parts = begun_save_partial [OF b2 False, of ?out] begun_stream_knowledge [OF b2 False, of ?out d opens s w'] plain
      show ?thesis
        using e False r parts
        by (cases route rule: sum.exhaust [case_names Raised Route])
          (auto simp: stream_events_def Let_def split: turn_route.splits)
    qed
    with Pair Inr e show ?thesis by (simp add: chat_stream_def)
  qed
qed

section \<open>The same turn, streamed or not\<close>

lemma plain_agrees:
  assumes "save_plain q prep content route t w = (reply, w1)"
  shows "\<exists>x. reply = HttpChat x \<and>
     (case sse_plain q prep c (said content route t) w [SseMeta i rid] of
        (s, w2) \<Rightarrow> w2 = w1 \<and> sent (so_events s) = xr_content x
          \<and> (if sc_leaves c 1 then True
             else finals (so_events s) = [SseDone ((said (xr_content x) (xr_route x) (xr_tool x))\<lparr>sd_message_seq := xr_message_seq x\<rparr>)]))"
proof -
  obtain seq cs where v: "save_assistant (pp_conversation_id prep) content ''complete'' None None (Some []) (rq_request_id q) (cw_chat w) = (seq, cs)"
    by fastforce
  then have "reply = plain_reply (pp_conversation_id prep) seq content route t (rq_request_id q)" "w1 = on_chat cs w"
    using assms by (simp_all add: save_plain_def)
  with v show ?thesis by (simp add: plain_reply_def sse_plain_def said_def)
qed

lemma route_raises: "route_turn d now prep p rid w = (Inl x, w') \<Longrightarrow> (case x of HttpChat _ \<Rightarrow> False | _ \<Rightarrow> True)"
  by (auto simp: route_turn_def split: if_splits prod.splits node_end.splits)

text \<open>A greeting, a refusal or a tool's result is the same streamed or not: if the turn that is not streamed takes no knowledge
  path, then the streamed one leaves the same state - tables, gateway, audit log, paused threads - and a client that
  stays is sent the same text once and a \<open>done\<close> with the same number, route and tool.\<close>

theorem stream_agrees:
  "case chat_turn d now q p w of
     (HttpChat x, w1) \<Rightarrow>
       (if xr_route x = ''knowledge'' \<or> sc_leaves c 0 then True
        else case chat_stream d c opens now q p w of
               (Inl y, w2) \<Rightarrow> False
             | (Inr s, w2) \<Rightarrow> w2 = w1 \<and> sent (so_events s) = xr_content x
                 \<and> (if sc_leaves c 1 then True
                    else finals (so_events s) = [SseDone ((said (xr_content x) (xr_route x) (xr_tool x))\<lparr>sd_message_seq := xr_message_seq x\<rparr>)]))
   | _ \<Rightarrow> True"
proof (cases "start_turn d q p w")
  case (Pair res w1)
  show ?thesis
  proof (cases res)
    case (Inl x)
    with Pair show ?thesis
      by (auto simp: chat_turn_def start_turn_def prepare_turn_def Let_def split: sum.splits prod.splits start_error.splits if_splits)
  next
    case (Inr prep)
    obtain route w2 where r: "route_turn d now prep p (rq_request_id q) w1 = (route, w2)" by fastforce
    show ?thesis
    proof (cases "route = Inr RouteKnowledge")
      case True
      have "case knowledge_turn d q prep p w2 of (HttpChat x, v) \<Rightarrow> xr_route x = ''knowledge'' | _ \<Rightarrow> True"
        by (auto simp: knowledge_turn_def answer_turn_def Let_def knowledge_reply_def split: sum.splits prod.splits call_failure.splits option.splits)
      with True Pair Inr r show ?thesis
        by (auto simp: chat_turn_def split: prod.splits http_reply.splits)
    next
      case False
      show ?thesis
      proof (cases route)
        case (Inl x)
        with route_raises [of d now prep p "rq_request_id q" w1 x w2] r Pair Inr show ?thesis
          by (auto simp: chat_turn_def split: http_reply.splits)
      next
        case (Inr rt)
        let ?stream = "\<lambda>content name t. case sse_plain q prep c (said content name t) w2 [SseMeta (pp_conversation_id prep) (rq_request_id q)] of
            (s, v) \<Rightarrow> (Inr s, v)"
        have turn: "chat_turn d now q p w = (case rt of RouteText name content \<Rightarrow> save_plain q prep content name None w2
             | RouteTool t \<Rightarrow> save_plain q prep (ty_message t) ''tool'' (Some t) w2 | RouteKnowledge \<Rightarrow> knowledge_turn d q prep p w2)"
          using Inr Pair \<open>res = Inr prep\<close> r by (simp add: chat_turn_def split: turn_route.split)
        have stream: "sc_leaves c 0 \<or> chat_stream d c opens now q p w = (case rt of RouteText name content \<Rightarrow> ?stream content name None
             | RouteTool t \<Rightarrow> ?stream (ty_message t) ''tool'' (Some t)
             | RouteKnowledge \<Rightarrow> (case stream_knowledge d c opens q prep p [SseMeta (pp_conversation_id prep) (rq_request_id q)] w2 of (s, v) \<Rightarrow> (Inr s, v)))"
          using Inr Pair \<open>res = Inr prep\<close> r by (simp add: chat_stream_def stream_events_def Let_def split: turn_route.split)
        obtain content name t where rt: "chat_turn d now q p w = save_plain q prep content name t w2"
          "sc_leaves c 0 \<or> chat_stream d c opens now q p w = ?stream content name t"
          using False Inr turn stream by (cases rt) auto
        obtain reply v where sp: "save_plain q prep content name t w2 = (reply, v)" by fastforce
        from plain_agrees [OF sp, of c "pp_conversation_id prep" "rq_request_id q"] rt sp show ?thesis
          by (auto split: prod.splits)
      qed
    qed
  qed
qed

section \<open>What may leave\<close>

lemma stream_attempts_cong:
  assumes "\<And>n. opens n spec messages (params_for spec params) = opens' n spec messages (params_for spec params)"
  shows "stream_attempts g c rnd opens messages params route t cfg dl spec ns atts w
    = stream_attempts g c rnd opens' messages params route t cfg dl spec ns atts w"
proof (induction ns arbitrary: atts w)
  case (Cons n ns)
  have "stream_attempt g c rnd opens messages params route t cfg dl spec n atts w
      = stream_attempt g c rnd opens' messages params route t cfg dl spec n atts w"
    using assms by (simp add: stream_attempt_def)
  with Cons show ?case by (simp split: prod.split stream_flow.split)
qed simp

lemma stream_targets_cong:
  assumes "\<And>n spec. spec \<in> set targets \<Longrightarrow> ms_id spec \<notin> set blocked \<Longrightarrow>
      opens n spec messages (params_for spec params) = opens' n spec messages (params_for spec params)"
  shows "stream_targets g c rnd opens messages params route t blocked dl targets atts w
    = stream_targets g c rnd opens' messages params route t blocked dl targets atts w"
  using assms
proof (induction targets arbitrary: atts w)
  case (Cons spec specs)
  obtain ok a1 s1 where ad: "admit spec (chat_present g spec) Chat blocked atts (w_gw w) = (ok, a1, s1)"
    by (metis prod_cases3)
  have IH: "stream_targets g c rnd opens messages params route t blocked dl specs a v
      = stream_targets g c rnd opens' messages params route t blocked dl specs a v" for a v
    using Cons by simp
  show ?case
  proof (cases ok)
    case True
    with admit_frame(4) [OF ad] have "ms_id spec \<notin> set blocked" by simp
    with Cons.prems have "stream_attempts g c rnd opens messages params route t cfg dl spec ns a v
        = stream_attempts g c rnd opens' messages params route t cfg dl spec ns a v" for cfg ns a v
      by (intro stream_attempts_cong) simp
    with ad True IH show ?thesis by (simp del: upt_Suc split: option.split prod.split stream_flow.split)
  qed (simp add: ad IH)
qed simp

lemma stream_chat_cong:
  assumes "\<And>n spec. allow_egress \<or> \<not> has_egress g spec \<Longrightarrow>
      opens n spec messages (params_for spec params) = opens' n spec messages (params_for spec params)"
  shows "stream_chat g c rnd opens route messages params allow_egress st = stream_chat g c rnd opens' route messages params allow_egress st"
proof (cases "resolve (gw_catalog g) route Chat")
  case (Inr r)
  obtain name targets where r: "r = (name, targets)" by (cases r)
  show ?thesis
  proof (cases "egress_blocked g targets allow_egress")
    case blocked: (Inr blocked)
    have "stream_targets g c rnd opens messages params name t blocked dl targets [] w
        = stream_targets g c rnd opens' messages params name t blocked dl targets [] w" for t dl w
    proof (rule stream_targets_cong)
      fix n spec
      assume "spec \<in> set targets" "ms_id spec \<notin> set blocked"
      with blocked have "allow_egress \<or> \<not> has_egress g spec" by (auto simp: egress_blocked_def split: if_splits)
      from assms [OF this] show "opens n spec messages (params_for spec params) = opens' n spec messages (params_for spec params)" .
    qed
    with Inr r blocked show ?thesis by (simp add: stream_chat_def Let_def)
  qed (simp add: stream_chat_def Let_def Inr r)
qed (simp add: stream_chat_def Let_def)

definition same_streams :: "agent_env \<Rightarrow> string \<Rightarrow> string option \<Rightarrow> opens \<Rightarrow> opens \<Rightarrow> bool" where
  "same_streams e q ctx opens opens' \<longleftrightarrow>
     (\<forall>n spec messages params. \<not> has_egress (ag_gateway e) spec \<or> may_leave e q ctx messages \<longrightarrow>
        opens n spec messages params = opens' n spec messages params)"

lemma stream_answer_same:
  assumes "same_network (env_of d) (pp_question prep) (pp_context_classification prep) ask'"
    and "same_streams (env_of d) (pp_question prep) (pp_context_classification prep) opens opens'"
  shows "stream_answer (on_network d ask') c opens' q prep p r out w = stream_answer d c opens q prep p r out w"
proof -
  let ?ms = "build_messages (ag_system_prompt (env_of d)) (pp_question prep) (rr_chunks r) (pp_history prep) (0 < rr_admitted_by_review r)"
  have allow: "egress_allowed d prep r
      = allows_egress (ag_settings (env_of d)) (most_sensitive [pp_context_classification prep, most_classified (rr_chunks r)])"
    by (simp add: egress_allowed_def context_of_turn_def max_classification_def most_classified_def env_of_def)
  have "egress_allowed (on_network d ask') prep r = egress_allowed d prep r"
    by (simp add: egress_allowed_def)
  moreover have "maybe_summarize (on_network d ask') prep v = maybe_summarize d prep v" for v
    unfolding maybe_summarize_def env_on_network env_sel summary_same [OF assms(1)] Let_def by (rule refl)
  moreover have "egress_allowed d prep r \<Longrightarrow> may_leave (env_of d) (pp_question prep) (pp_context_classification prep) ?ms"
    using allow by (auto simp: may_leave_def)
  then have "stream_chat (ag_gateway (env_of d)) c' rnd opens' route ?ms params (egress_allowed d prep r) st
      = stream_chat (ag_gateway (env_of d)) c' rnd opens route ?ms params (egress_allowed d prep r) st" for c' rnd route params st
    by (intro stream_chat_cong) (use assms(2) in \<open>auto simp: same_streams_def\<close>)
  ultimately show ?thesis
    unfolding stream_answer_def env_on_network Let_def env_sel by (simp only:)
qed


end
