(* ===== verification/ChatDemo.thy ===== *)
theory ChatDemo
  imports ActionsProps ChatStreamProps ReadApi
begin

text \<open>
  The chat properties at a concrete installation: the catalog, tables and people of the earlier demonstrations, an empty
  conversation store, and a model that never answers.
\<close>

definition talk_caller :: principal where
  "talk_caller = staff ''U001'' ''ticket:create''"

definition talk_request :: chat_request where
  "talk_request =
     \<lparr>rq_message = ''How is a key reset?'', rq_conversation_id = None, rq_model = None, rq_temperature = 0, rq_max_tokens = 256,
      rq_request_id = ''r''\<rparr>"

definition talk_chunk :: retrieved_chunk where
  "talk_chunk =
     \<lparr>rc_chunk_id = 1, rc_table = ConfidentialChunks, rc_doc_key = ''KB-IT-009'', rc_version = 1, rc_title = ''Keys'', rc_department = ''it_ops'',
      rc_classification = ''confidential'', rc_locator = ''p1'', rc_parent_id = (''KB-IT-009'', None), rc_content = ''Keys are reset yearly.'',
      rc_context = ''Keys are reset yearly.'', rc_doc_updated_at = ''2026-01-01'', rc_similarity = Some 1, rc_fts_rank = None, rc_score = 1\<rparr>"

definition talk_sources :: retrieval_result where
  "talk_sources =
     \<lparr>rr_chunks = [talk_chunk], rr_candidates = 1, rr_below_threshold = 0, rr_embedding_model = ''m'', rr_tables = [ConfidentialChunks],
      rr_near_misses = [], rr_reviewed = 0, rr_admitted_by_review = 0\<rparr>"

lemma talk_keyed: "keyed (hd_uuid talk_deps) (cw_chat talk_world)"
  by (simp add: keyed_def talk_deps_def talk_world_def talk_store_def inj_def)

theorem gap_ticket_raisable_witness:
  "\<exists>sa. knowledge_gap_ticket ''How is a key reset?'' (Some talk_caller) = Some sa
     \<and> (case fst (run_tool demo_deps 0 talk_caller (sa_tool sa) (sa_arguments sa) demo_context demo_world) of
          Finished out \<Rightarrow> to_status out = StatusOk | Escaped x \<Rightarrow> x = ''IntegrityError'')"
proof -
  have perm: "has_perm talk_caller ''ticket:create''" and dep: "length (p_department talk_caller) \<le> 750"
    by (simp_all add: talk_caller_def staff_def has_perm_def)
  obtain sa where sa: "knowledge_gap_ticket ''How is a key reset?'' (Some talk_caller) = Some sa"
    using perm by (simp add: knowledge_gap_ticket_def Let_def)
  from gap_ticket_raisable [OF this dep] sa show ?thesis by blast
qed

text \<open>A network that answers differently wherever the property allows it to.\<close>

definition talk_other :: "nat \<Rightarrow> model_spec \<Rightarrow> chat_message list \<Rightarrow> chat_params \<Rightarrow> rat \<times> chat_result reply" where
  "talk_other n spec messages params =
     (if has_egress (ag_gateway (env_of talk_deps)) spec
        \<and> \<not> may_leave (env_of talk_deps) (rq_message talk_request) None messages then (1, Cancelled) else (0, Cancelled))"



lemma talk_started:
  "\<exists>prep w1. start_turn talk_deps talk_request talk_caller talk_world = (Inr prep, w1)"
  by (simp add: start_turn_def prepare_turn_def talk_request_def check_choice_def get_or_create_def Let_def talk_world_def talk_store_def
      model_choice_def stored_choice_def nonempty_def)


definition talk_client :: sse_client where
  "talk_client = \<lparr>sc_leaves = (\<lambda>_. False), sc_pause = (\<lambda>_. 0)\<rparr>"

definition talk_streams :: opens where
  "talk_streams n spec messages params = []"

theorem stream_on_record_witness:
  "\<exists>s w'. chat_stream talk_deps talk_client talk_streams 0 talk_request talk_caller talk_world = (Inr s, w')
     \<and> streamed_ok talk_request talk_caller talk_client [] (so_events s) (cw_chat w')"
proof -
  obtain prep w1 where st: "start_turn talk_deps talk_request talk_caller talk_world = (Inr prep, w1)"
    using talk_started by blast
  obtain s w' where "stream_events talk_deps talk_client talk_streams 0 talk_request talk_caller prep w1 = (s, w')"
    by fastforce
  with st have "chat_stream talk_deps talk_client talk_streams 0 talk_request talk_caller talk_world = (Inr s, w')"
    by (simp add: chat_stream_def)
  with stream_on_record [OF talk_keyed, where c = talk_client and opens = talk_streams and now = 0 and q = talk_request and p = talk_caller] show ?thesis
    by (simp add: talk_world_def talk_store_def)
qed

definition other_streams :: opens where
  "other_streams n spec messages params =
     (if has_egress (ag_gateway (env_of talk_deps)) spec
        \<and> \<not> may_leave (env_of talk_deps) (rq_message talk_request) None messages then [(1, StreamCancelled)] else [])"


theorem search_contained_witness:
  "case fst (search demo_deps demo_reader \<lparr>sq_query = ''leave'', sq_top_k = 3\<rparr> (tw_gateway demo_world)) of
     ReadOk (hits, out) \<Rightarrow> int (length hits) \<le> 3 | _ \<Rightarrow> True"
proof -
  have "kb_checked (td_knowledge demo_deps)" using demo_kb_checked by (simp add: demo_deps_def)
  moreover have "search_request_valid \<lparr>sq_query = ''leave'', sq_top_k = 3\<rparr>"
    by (simp add: search_request_valid_def MAX_MESSAGE_CHARS_def)
  ultimately have "case fst (search demo_deps demo_reader \<lparr>sq_query = ''leave'', sq_top_k = 3\<rparr> (tw_gateway demo_world)) of
      ReadOk (hits, out) \<Rightarrow>
        list_all (\<lambda>h. \<exists>c. readable_hit demo_reader (td_knowledge demo_deps) c \<and> h = search_hit_of (sh_rank h) c) hits
        \<and> map sh_rank hits = [1..<Suc (length hits)] \<and> sorted_wrt (\<lambda>a b. sh_score b \<le> sh_score a) hits
        \<and> int (length hits) \<le> sq_top_k \<lparr>sq_query = ''leave'', sq_top_k = 3\<rparr> \<and> ro_used out = length hits
    | _ \<Rightarrow> True"
    by (rule search_contained)
  then show ?thesis by (auto split: read_reply.splits)
qed

end
